(* ===== verification/Prelude.thy ===== *)
theory Prelude
  imports Main
begin

text \<open>
  Generic vocabulary shared by every component: results that may carry an
  exception (a sum whose left side is the exception), their sequencing, and
  traversals of lists that stop at the first exception, which is how a Python
  \<^verbatim>\<open>for\<close> loop or comprehension behaves when its body raises.
\<close>

named_theorems result_simps \<open>equations for sequencing results\<close>

section \<open>Results\<close>

type_synonym ('e, 'a) result = "'e + 'a"

definition ebind :: "'e + 'a \<Rightarrow> ('a \<Rightarrow> 'e + 'b) \<Rightarrow> 'e + 'b" where
  "ebind m f = (case m of Inl e \<Rightarrow> Inl e | Inr x \<Rightarrow> f x)"

definition emap :: "('a \<Rightarrow> 'b) \<Rightarrow> 'e + 'a \<Rightarrow> 'e + 'b" where
  "emap f m = ebind m (\<lambda>x. Inr (f x))"

definition succeeds :: "'e + 'a \<Rightarrow> bool" where
  "succeeds m = (case m of Inl _ \<Rightarrow> False | Inr _ \<Rightarrow> True)"

lemma ebind_Inl [simp]: "ebind (Inl e) f = Inl e"
  by (simp add: ebind_def)

lemma ebind_Inr [simp]: "ebind (Inr x) f = f x"
  by (simp add: ebind_def)

lemma ebind_eq_Inr: "ebind m f = Inr y \<longleftrightarrow> (\<exists>x. m = Inr x \<and> f x = Inr y)"
  by (cases m) auto

lemma ebind_eq_Inl: "ebind m f = Inl e \<longleftrightarrow> m = Inl e \<or> (\<exists>x. m = Inr x \<and> f x = Inl e)"
  by (cases m) auto

lemma ebind_InrE:
  assumes "ebind m f = Inr y"
  obtains x where "m = Inr x" and "f x = Inr y"
  using assms by (auto simp: ebind_eq_Inr)

lemma ebind_assoc: "ebind (ebind m f) g = ebind m (\<lambda>x. ebind (f x) g)"
  by (cases m) auto

lemma ebind_cong [fundef_cong]:
  "m = m' \<Longrightarrow> (\<And>x. m' = Inr x \<Longrightarrow> f x = f' x) \<Longrightarrow> ebind m f = ebind m' f'"
  by (cases m') auto

lemma emap_Inl [simp]: "emap f (Inl e) = Inl e"
  by (simp add: emap_def)

lemma emap_Inr [simp]: "emap f (Inr x) = Inr (f x)"
  by (simp add: emap_def)

lemma emap_eq_Inr: "emap f m = Inr y \<longleftrightarrow> (\<exists>x. m = Inr x \<and> y = f x)"
  by (cases m) auto

lemma succeeds_simps [simp]: "succeeds (Inr x)" "\<not> succeeds (Inl e)"
  by (simp_all add: succeeds_def)

lemma succeeds_iff: "succeeds m \<longleftrightarrow> (\<exists>x. m = Inr x)"
  by (cases m) auto

lemma if_Inl_eq_Inr: "(if c then Inl e else m) = Inr y \<longleftrightarrow> \<not> c \<and> m = Inr y"
  by simp

lemmas result_inversions = ebind_eq_Inr emap_eq_Inr if_Inl_eq_Inr

lemmas [result_simps] = ebind_Inl ebind_Inr emap_Inl emap_Inr

section \<open>Traversals that stop at the first exception\<close>

fun etraverse :: "('a \<Rightarrow> 'e + 'b) \<Rightarrow> 'a list \<Rightarrow> 'e + 'b list" where
  "etraverse f [] = Inr []"
| "etraverse f (x # xs) = ebind (f x) (\<lambda>y. ebind (etraverse f xs) (\<lambda>ys. Inr (y # ys)))"

lemma etraverse_eq_Inr:
  "etraverse f xs = Inr ys \<longleftrightarrow> list_all2 (\<lambda>x y. f x = Inr y) xs ys"
  by (induction xs arbitrary: ys) (auto simp: ebind_eq_Inr list_all2_Cons1)

lemma etraverse_length: "etraverse f xs = Inr ys \<Longrightarrow> length ys = length xs"
  by (auto simp: etraverse_eq_Inr dest: list_all2_lengthD)

fun efold :: "('a \<Rightarrow> 's \<Rightarrow> 'e + 's) \<Rightarrow> 'a list \<Rightarrow> 's \<Rightarrow> 'e + 's" where
  "efold f [] s = Inr s"
| "efold f (x # xs) s = ebind (f x s) (efold f xs)"

lemma efold_append: "efold f (xs @ ys) s = ebind (efold f xs s) (efold f ys)"
  by (induction xs arbitrary: s) (auto simp: ebind_def split: sum.splits)

lemma efold_invariant:
  assumes "efold f xs s = Inr t" and "P s"
    and "\<And>x s t. x \<in> set xs \<Longrightarrow> P s \<Longrightarrow> f x s = Inr t \<Longrightarrow> P t"
  shows "P t"
  using assms by (induction xs arbitrary: s) (auto simp: ebind_eq_Inr)

section \<open>Components driven by events\<close>

text \<open>
  The contract between a component that answers events and the proofs about whole sessions: every step keeps the invariant.
  In the first form a step always gives the next state, whatever it answers; in the second it may raise.
\<close>

locale event_machine =
  fixes step :: "'e \<Rightarrow> 's \<Rightarrow> 's" and inv :: "'s \<Rightarrow> bool"
  assumes step_inv: "inv s \<Longrightarrow> inv (step e s)"
begin

lemma run_inv: "inv s \<Longrightarrow> inv (fold step es s)"
  by (induction es arbitrary: s) (simp_all add: step_inv)

end

locale raising_machine =
  fixes step :: "'e \<Rightarrow> 's \<Rightarrow> 'x + 's" and inv :: "'s \<Rightarrow> bool"
  assumes step_inv: "inv s \<Longrightarrow> step e s = Inr t \<Longrightarrow> inv t"
begin

lemma run_inv: "efold step es s = Inr t \<Longrightarrow> inv s \<Longrightarrow> inv t"
  by (rule efold_invariant) (auto intro: step_inv)

end

end
