(* ===== verification/Py_Text.thy ===== *)
theory Py_Text
  imports Prelude "HOL-Library.Word"
begin

text \<open>
  Python's \<^verbatim>\<open>str\<close> and \<^verbatim>\<open>bytes\<close>. A string is the list of its code
  points (integers, so that code points outside Latin-1 and lone surrogates, which
  a \<^verbatim>\<open>str\<close> may hold and UTF-8 may not, are values of the model); a byte string
  is a list of 8-bit words. The strict UTF-8 codec, the error handlers
  \<^verbatim>\<open>replace\<close> and \<^verbatim>\<open>ignore\<close>, \<^verbatim>\<open>strip\<close>, \<^verbatim>\<open>lower\<close>, hexadecimal and
  decimal formatting are the standard-library operations the sources call.
  The main result is that strict encoding and strict decoding are inverse
  relations (\<open>utf8_decode_iff\<close>).
\<close>

section \<open>Strings and bytes\<close>

type_synonym pystr = "int list"
type_synonym byte = "8 word"
type_synonym bytes = "byte list"

definition lit :: "string \<Rightarrow> pystr" where
  "lit s = map of_char s"

lemma inj_of_char_int: "inj (of_char :: char \<Rightarrow> int)"
  by (rule inj_of_char)

lemma lit_eq_iff [simp]: "lit s = lit t \<longleftrightarrow> s = t"
  using inj_of_char_int by (auto simp: lit_def inj_map_eq_map)

lemma lit_append: "lit (s @ t) = lit s @ lit t"
  by (simp add: lit_def)

definition is_surrogate :: "int \<Rightarrow> bool" where
  "is_surrogate c \<longleftrightarrow> 55296 \<le> c \<and> c \<le> 57343"

definition is_scalar :: "int \<Rightarrow> bool" where
  "is_scalar c \<longleftrightarrow> 0 \<le> c \<and> c \<le> 1114111 \<and> \<not> is_surrogate c"

definition byte_of :: "int \<Rightarrow> byte" where
  "byte_of n = word_of_int n"

lemma uint_byte_of: "0 \<le> n \<Longrightarrow> n < 256 \<Longrightarrow> uint (byte_of n) = n"
  by (simp add: byte_of_def uint_word_of_int)

lemma byte_of_uint [simp]: "byte_of (uint b) = b"
  by (simp add: byte_of_def)

lemma byte_range: "0 \<le> uint (b :: byte)" "uint (b :: byte) < 256"
  using uint_range_size[of b] by (simp_all add: word_size)

lemma byte_of_eq_iff: "0 \<le> n \<Longrightarrow> n < 256 \<Longrightarrow> byte_of n = b \<longleftrightarrow> uint b = n"
  by (metis byte_of_uint uint_byte_of)

section \<open>Strict UTF-8\<close>

definition utf8_cp :: "int \<Rightarrow> bytes" where
  "utf8_cp c =
     (if c < 128 then [byte_of c]
      else if c < 2048 then [byte_of (192 + c div 64), byte_of (128 + c mod 64)]
      else if c < 65536 then
        [byte_of (224 + c div 4096), byte_of (128 + c div 64 mod 64), byte_of (128 + c mod 64)]
      else
        [byte_of (240 + c div 262144), byte_of (128 + c div 4096 mod 64),
         byte_of (128 + c div 64 mod 64), byte_of (128 + c mod 64)])"

fun utf8_encode :: "pystr \<Rightarrow> bytes option" where
  "utf8_encode [] = Some []"
| "utf8_encode (c # cs) =
     (if is_scalar c then map_option (\<lambda>bs. utf8_cp c @ bs) (utf8_encode cs) else None)"

text \<open>One step of the strict decoder: the code point at the head and how many bytes it takes.\<close>

definition is_cont :: "byte \<Rightarrow> bool" where
  "is_cont b \<longleftrightarrow> 128 \<le> uint b \<and> uint b < 192"

definition utf8_head :: "bytes \<Rightarrow> (int \<times> nat) option" where
  "utf8_head bs = (case bs of
     [] \<Rightarrow> None
   | b0 # r0 \<Rightarrow> let n = uint b0 in
       if n < 128 then Some (n, 1)
       else if 194 \<le> n \<and> n < 224 then
         (case r0 of b1 # _ \<Rightarrow>
            if is_cont b1 then Some ((n - 192) * 64 + (uint b1 - 128), 2) else None
          | _ \<Rightarrow> None)
       else if 224 \<le> n \<and> n < 240 then
         (case r0 of b1 # b2 # _ \<Rightarrow>
            if is_cont b1 \<and> is_cont b2 \<and> (n = 224 \<longrightarrow> 160 \<le> uint b1)
                \<and> (n = 237 \<longrightarrow> uint b1 < 160)
            then Some ((n - 224) * 4096 + (uint b1 - 128) * 64 + (uint b2 - 128), 3) else None
          | _ \<Rightarrow> None)
       else if 240 \<le> n \<and> n < 245 then
         (case r0 of b1 # b2 # b3 # _ \<Rightarrow>
            if is_cont b1 \<and> is_cont b2 \<and> is_cont b3 \<and> (n = 240 \<longrightarrow> 144 \<le> uint b1)
                \<and> (n = 244 \<longrightarrow> uint b1 < 144)
            then Some ((n - 240) * 262144 + (uint b1 - 128) * 4096
                       + (uint b2 - 128) * 64 + (uint b3 - 128), 4) else None
          | _ \<Rightarrow> None)
       else None)"

lemma utf8_head_size: "utf8_head bs = Some (c, k) \<Longrightarrow> 0 < k \<and> k \<le> length bs"
  by (auto simp: utf8_head_def Let_def split: list.splits if_splits)

function utf8_decode :: "bytes \<Rightarrow> pystr option" where
  "utf8_decode bs = (if bs = [] then Some []
     else case utf8_head bs of
       None \<Rightarrow> None
     | Some (c, k) \<Rightarrow> map_option (\<lambda>cs. c # cs) (utf8_decode (drop k bs)))"
  by pat_completeness auto
termination
  by (relation "measure length") (auto dest: utf8_head_size)

declare utf8_decode.simps [simp del]

text \<open>
  \<^verbatim>\<open>decode("utf-8", errors="ignore")\<close>: where no well-formed sequence starts, the byte is
  dropped. (Continuation bytes left over from a dropped start byte are dropped in turn.)
\<close>

function utf8_decode_ignore :: "bytes \<Rightarrow> pystr" where
  "utf8_decode_ignore bs = (if bs = [] then []
     else case utf8_head bs of
       None \<Rightarrow> utf8_decode_ignore (drop 1 bs)
     | Some (c, k) \<Rightarrow> c # utf8_decode_ignore (drop k bs))"
  by pat_completeness auto
termination
  by (relation "measure length") (auto dest: utf8_head_size)

declare utf8_decode_ignore.simps [simp del]

text \<open>\<^verbatim>\<open>encode("utf-8", errors="replace")\<close>: what cannot be encoded becomes a question mark.\<close>

definition utf8_encode_replace :: "pystr \<Rightarrow> bytes" where
  "utf8_encode_replace s = concat (map (\<lambda>c. if is_scalar c then utf8_cp c else [byte_of 63]) s)"

section \<open>The strict codec is a bijection on scalar strings\<close>

lemma digit64:
  fixes a b :: int
  assumes "0 \<le> b" "b < 64"
  shows "(a * 64 + b) div 64 = a" "(a * 64 + b) mod 64 = b"
  using assms by simp_all

lemma digit64_2:
  fixes a b d :: int
  assumes "0 \<le> b" "b < 64" "0 \<le> d" "d < 64"
  shows "(a * 4096 + b * 64 + d) div 4096 = a" "(a * 4096 + b * 64 + d) div 64 = a * 64 + b"
    "(a * 4096 + b * 64 + d) mod 64 = d"
proof -
  have e: "a * 4096 + b * 64 + d = (a * 64 + b) * 64 + d" by simp
  show q: "(a * 4096 + b * 64 + d) div 64 = a * 64 + b" "(a * 4096 + b * 64 + d) mod 64 = d"
    unfolding e using assms by (simp_all only: digit64)
  have "(a * 4096 + b * 64 + d) div (64 * 64) = (a * 4096 + b * 64 + d) div 64 div 64"
    by (rule zdiv_zmult2_eq) simp
  then show "(a * 4096 + b * 64 + d) div 4096 = a" using assms q by simp
qed

lemma digit64_3:
  fixes a b d e :: int
  assumes "0 \<le> b" "b < 64" "0 \<le> d" "d < 64" "0 \<le> e" "e < 64"
  shows "(a * 262144 + b * 4096 + d * 64 + e) div 262144 = a"
    "(a * 262144 + b * 4096 + d * 64 + e) div 4096 = a * 64 + b"
    "(a * 262144 + b * 4096 + d * 64 + e) div 64 = a * 4096 + b * 64 + d"
    "(a * 262144 + b * 4096 + d * 64 + e) mod 64 = e"
proof -
  let ?c = "a * 262144 + b * 4096 + d * 64 + e"
  have c: "?c = (a * 64 + b) * 4096 + d * 64 + e" by simp
  show q: "?c div 4096 = a * 64 + b" and "?c mod 64 = e"
    unfolding c using assms by (simp_all only: digit64_2)
  show "?c div 64 = a * 4096 + b * 64 + d"
    unfolding c using assms by (simp only: digit64_2) simp
  have "?c div (4096 * 64) = ?c div 4096 div 64"
    by (rule zdiv_zmult2_eq) simp
  then show "?c div 262144 = a" using assms q by simp
qed

lemma digits64_obtain:
  obtains q r :: int where "c = q * 64 + r" "0 \<le> r" "r < 64"
  by (rule that[of "c div 64" "c mod 64"]) simp_all

lemma utf8_head_cp:
  assumes "is_scalar c"
  shows "utf8_head (utf8_cp c @ r) = Some (c, length (utf8_cp c))"
proof -
  have rng: "0 \<le> c" "c \<le> 1114111" and sur: "c < 55296 \<or> 57343 < c"
    using assms by (auto simp: is_scalar_def is_surrogate_def)
  obtain q3 d where c1: "c = q3 * 64 + d" "0 \<le> d" "d < 64" by (rule digits64_obtain)
  obtain q2 v where c2: "q3 = q2 * 64 + v" "0 \<le> v" "v < 64" by (rule digits64_obtain)
  obtain q1 w where c3: "q2 = q1 * 64 + w" "0 \<le> w" "w < 64" by (rule digits64_obtain)
  note c = c1 c2 c3
  have e2: "c = q2 * 4096 + v * 64 + d" and e3: "c = q1 * 262144 + w * 4096 + v * 64 + d"
    and e4: "q3 = q1 * 4096 + w * 64 + v"
    using c by simp_all
  have dm: "c div 64 = q3" "c mod 64 = d" "c div 4096 = q2" "q3 mod 64 = v" "q2 mod 64 = w"
      "c div 262144 = q1"
    using digit64[OF c1(2,3), of q3] digit64[OF c2(2,3), of q2] digit64[OF c3(2,3), of q1]
      digit64_2(1)[OF c2(2,3) c1(2,3), of q2] digit64_3(1)[OF c3(2,3) c2(2,3) c1(2,3), of q1]
    by (simp_all only: c1(1)[symmetric] c2(1)[symmetric] c3(1)[symmetric] e2[symmetric] e3[symmetric])
  consider "c < 128" | "128 \<le> c" "c < 2048" | "2048 \<le> c" "c < 65536" | "65536 \<le> c" by linarith
  then show ?thesis
  proof cases
    case 1
    then show ?thesis using rng by (simp add: utf8_cp_def utf8_head_def uint_byte_of)
  next
    case 2
    then have "2 \<le> q3" "q3 < 32" using c1 by - linarith+
    then show ?thesis using c1 2
      by (simp add: utf8_cp_def utf8_head_def uint_byte_of is_cont_def dm)
  next
    case 3
    then have "0 \<le> q2" "q2 < 16" "q2 = 0 \<longrightarrow> 32 \<le> v" "q2 = 13 \<longrightarrow> v < 32"
      using sur e2 c by - linarith+
    then show ?thesis using 3 c1(2,3) c2(2,3) e2[symmetric]
      by (simp add: utf8_cp_def utf8_head_def uint_byte_of is_cont_def dm)
  next
    case 4
    then have "0 \<le> q1" "q1 < 5" "q1 = 0 \<longrightarrow> 16 \<le> w" "q1 = 4 \<longrightarrow> w < 16"
      using rng e3 c by - linarith+
    then show ?thesis using 4 c1(2,3) c2(2,3) c3(2,3) e3[symmetric]
      by (simp add: utf8_cp_def utf8_head_def uint_byte_of is_cont_def dm)
  qed
qed

lemma utf8_head_inv:
  assumes "utf8_head bs = Some (c, k)"
  shows "is_scalar c \<and> take k bs = utf8_cp c"
proof -
  obtain b0 r where bs: "bs = b0 # r" using assms by (cases bs) (auto simp: utf8_head_def)
  let ?n = "uint b0"
  note r = byte_range[of b0]
  consider (1) "?n < 128" | (2) "194 \<le> ?n" "?n < 224" | (3) "224 \<le> ?n" "?n < 240"
    | (4) "240 \<le> ?n" "?n < 245"
    using assms by (auto simp: bs utf8_head_def Let_def split: if_splits)
  then show ?thesis
  proof cases
    case 1
    then show ?thesis using assms r
      by (auto simp: bs utf8_head_def is_scalar_def is_surrogate_def utf8_cp_def)
  next
    case 2
    then obtain b1 r1 where b1: "r = b1 # r1" "is_cont b1" "c = (?n - 192) * 64 + (uint b1 - 128)" "k = 2"
      using assms by (auto simp: bs utf8_head_def Let_def split: list.splits if_splits)
    have u: "0 \<le> uint b1 - 128" "uint b1 - 128 < 64" using b1(2) by (auto simp: is_cont_def)
    have "c div 64 = ?n - 192" "c mod 64 = uint b1 - 128"
      unfolding b1(3) using digit64[OF u] by blast+
    moreover have "128 \<le> c" "c < 2048" using b1(3) u 2 by auto
    ultimately show ?thesis using b1(1,4)
      by (simp add: bs utf8_cp_def is_scalar_def is_surrogate_def)
  next
    case 3
    then obtain b1 b2 r1 where b: "r = b1 # b2 # r1" "is_cont b1" "is_cont b2"
      "?n = 224 \<longrightarrow> 160 \<le> uint b1" "?n = 237 \<longrightarrow> uint b1 < 160"
      "c = (?n - 224) * 4096 + (uint b1 - 128) * 64 + (uint b2 - 128)" "k = 3"
      using assms by (auto simp: bs utf8_head_def Let_def split: list.splits if_splits)
    have u: "0 \<le> uint b1 - 128" "uint b1 - 128 < 64" "0 \<le> uint b2 - 128" "uint b2 - 128 < 64"
      using b(2,3) by (auto simp: is_cont_def)
    have "c div 4096 = ?n - 224" "c div 64 mod 64 = uint b1 - 128" "c mod 64 = uint b2 - 128"
      unfolding b(6) using digit64_2[OF u, of "?n - 224"] digit64[OF u(1,2), of "?n - 224"] by simp_all
    moreover have "2048 \<le> c" using b(4,6) u 3 by (cases "?n = 224") auto
    moreover have "c < 65536" using b(6) u 3 by auto
    moreover have "c < 55296 \<or> 57343 < c"
      using b(5,6) u 3 by (cases "?n < 237"; cases "?n = 237") auto
    ultimately show ?thesis using b(1,7)
      by (auto simp: bs utf8_cp_def is_scalar_def is_surrogate_def)
  next
    case 4
    then obtain b1 b2 b3 r1 where b: "r = b1 # b2 # b3 # r1" "is_cont b1" "is_cont b2" "is_cont b3"
      "?n = 240 \<longrightarrow> 144 \<le> uint b1" "?n = 244 \<longrightarrow> uint b1 < 144"
      "c = (?n - 240) * 262144 + (uint b1 - 128) * 4096 + (uint b2 - 128) * 64 + (uint b3 - 128)" "k = 4"
      using assms by (auto simp: bs utf8_head_def Let_def split: list.splits if_splits)
    have u: "0 \<le> uint b1 - 128" "uint b1 - 128 < 64" "0 \<le> uint b2 - 128" "uint b2 - 128 < 64"
      "0 \<le> uint b3 - 128" "uint b3 - 128 < 64"
      using b(2,3,4) by (auto simp: is_cont_def)
    note d3 = digit64_3[OF u, of "?n - 240"]
    have q: "c div 262144 = ?n - 240" "c div 4096 mod 64 = uint b1 - 128"
      unfolding b(7) by (simp_all only: d3 digit64[OF u(1,2)])
    have q': "c div 64 mod 64 = uint b2 - 128" "c mod 64 = uint b3 - 128"
      unfolding b(7) by (simp_all only: d3 digit64_2(3)[OF u(1-4)])
    have lo: "65536 \<le> c" using b(5,7) u 4 by (cases "?n = 240") auto
    have hi: "c \<le> 1114111" using b(6,7) u 4 by (cases "?n = 244") auto
    have "utf8_cp c = [byte_of (240 + c div 262144), byte_of (128 + c div 4096 mod 64),
         byte_of (128 + c div 64 mod 64), byte_of (128 + c mod 64)]"
      using lo by (simp add: utf8_cp_def)
    also have "\<dots> = [b0, b1, b2, b3]" unfolding q q' by simp
    finally have "utf8_cp c = take k bs" using b(1,8) by (simp add: bs)
    then show ?thesis using lo hi by (simp add: is_scalar_def is_surrogate_def)
  qed
qed

lemma utf8_cp_nonempty [simp]: "utf8_cp c \<noteq> []"
  by (simp add: utf8_cp_def)

lemma utf8_decode_Nil [simp]: "utf8_decode [] = Some []"
  by (simp add: utf8_decode.simps)

lemma utf8_decode_cp:
  "is_scalar c \<Longrightarrow> utf8_decode (utf8_cp c @ r) = map_option (\<lambda>cs. c # cs) (utf8_decode r)"
  by (subst utf8_decode.simps) (simp add: utf8_head_cp)

lemma utf8_decode_encode: "utf8_encode s = Some bs \<Longrightarrow> utf8_decode bs = Some s"
  by (induction s arbitrary: bs) (auto simp: utf8_decode_cp split: if_splits)

lemma utf8_encode_decode: "utf8_decode bs = Some s \<Longrightarrow> utf8_encode s = Some bs"
proof (induction bs arbitrary: s rule: utf8_decode.induct)
  case (1 bs)
  show ?case
  proof (cases "bs = []")
    case True
    with 1 show ?thesis by simp
  next
    case False
    with "1.prems" obtain c k cs where h: "utf8_head bs = Some (c, k)" "s = c # cs"
      "utf8_decode (drop k bs) = Some cs"
      by (subst (asm) utf8_decode.simps) (auto split: option.splits)
    then have "utf8_encode cs = Some (drop k bs)" using False "1.IH" by blast
    with utf8_head_inv[OF h(1)] h(2) show ?thesis
      by (simp, metis append_take_drop_id)
  qed
qed

lemma utf8_decode_iff: "utf8_decode bs = Some s \<longleftrightarrow> utf8_encode s = Some bs"
  using utf8_decode_encode utf8_encode_decode by blast

lemma utf8_decode_scalar: "utf8_decode bs = Some s \<Longrightarrow> list_all is_scalar s"
proof -
  assume "utf8_decode bs = Some s"
  then have "utf8_encode s = Some bs" by (rule utf8_encode_decode)
  then show ?thesis by (induction s arbitrary: bs) (auto split: if_splits)
qed

lemma utf8_encode_total: "list_all is_scalar s \<Longrightarrow> \<exists>bs. utf8_encode s = Some bs"
  by (induction s) auto

lemma utf8_encode_Some_iff: "(\<exists>bs. utf8_encode s = Some bs) \<longleftrightarrow> list_all is_scalar s"
  by (metis utf8_encode_decode utf8_decode_encode utf8_decode_scalar utf8_encode_total)

lemma utf8_encode_replace_scalar:
  "list_all is_scalar s \<Longrightarrow> utf8_encode s = Some (utf8_encode_replace s)"
  by (induction s) (auto simp: utf8_encode_replace_def)

lemma utf8_cp_length: "0 < length (utf8_cp c)" "length (utf8_cp c) \<le> 4"
  by (simp_all add: utf8_cp_def)

text \<open>What the lenient decoder returns can always be encoded again, in no more bytes.\<close>

lemma utf8_decode_ignore_Nil [simp]: "utf8_decode_ignore [] = []"
  by (simp add: utf8_decode_ignore.simps)

lemma utf8_decode_ignore_encodes:
  "\<exists>out. utf8_encode (utf8_decode_ignore bs) = Some out \<and> length out \<le> length bs"
proof (induction bs rule: utf8_decode_ignore.induct)
  case (1 bs)
  show ?case
  proof (cases "bs = []")
    case False
    show ?thesis
    proof (cases "utf8_head bs")
      case None
      with False "1.IH"(1) show ?thesis
        by (subst utf8_decode_ignore.simps) (auto intro: le_trans)
    next
      case (Some p)
      obtain c k where p: "p = (c, k)" by (cases p)
      note h = Some[unfolded p]
      obtain out where out: "utf8_encode (utf8_decode_ignore (drop k bs)) = Some out"
        "length out \<le> length (drop k bs)"
        using "1.IH"(2)[OF False Some p[symmetric]] by blast
      have "is_scalar c" "utf8_cp c = take k bs" using utf8_head_inv[OF h] by simp_all
      with False h out utf8_head_size[OF h] show ?thesis
        by (subst utf8_decode_ignore.simps) auto
    qed
  qed simp
qed

section \<open>strip, lower\<close>

text \<open>The code points for which \<^verbatim>\<open>str.isspace\<close> holds.\<close>

definition is_space :: "int \<Rightarrow> bool" where
  "is_space c \<longleftrightarrow> (9 \<le> c \<and> c \<le> 13) \<or> (28 \<le> c \<and> c \<le> 32) \<or> c = 133 \<or> c = 160 \<or> c = 5760
     \<or> (8192 \<le> c \<and> c \<le> 8202) \<or> c = 8232 \<or> c = 8233 \<or> c = 8239 \<or> c = 8287 \<or> c = 12288"

definition py_strip :: "pystr \<Rightarrow> pystr" where
  "py_strip s = rev (dropWhile is_space (rev (dropWhile is_space s)))"

text \<open>
  \<^verbatim>\<open>str.lower\<close> on the characters whose lowercase contains an ASCII character: the
  ASCII capitals, the Kelvin sign and the capital I with dot. Every other code point is
  left as it is; the sources only compare the result with ASCII keys.
\<close>

definition lower_cp :: "int \<Rightarrow> pystr" where
  "lower_cp c = (if 65 \<le> c \<and> c \<le> 90 then [c + 32]
     else if c = 8490 then [107] else if c = 304 then [105, 775] else [c])"

definition py_lower :: "pystr \<Rightarrow> pystr" where
  "py_lower s = concat (map lower_cp s)"

lemma py_strip_eq_Nil: "py_strip s = [] \<longleftrightarrow> list_all is_space s"
proof -
  have dw: "dropWhile is_space xs = [] \<longleftrightarrow> list_all is_space xs" for xs
    by (simp add: dropWhile_eq_Nil_conv list_all_iff)
  show ?thesis
  proof (cases "list_all is_space s")
    case True
    have e: "dropWhile is_space s = []" using True by (simp only: dw)
    have "py_strip s = []" unfolding py_strip_def e by simp
    with True show ?thesis by simp
  next
    case False
    then obtain x xs where x: "dropWhile is_space s = x # xs"
      by (cases "dropWhile is_space s") (auto simp: list_all_iff dropWhile_eq_Nil_conv)
    then have "\<not> is_space x" by (metis dropWhile_eq_Cons_conv)
    then have "\<not> list_all is_space (rev (dropWhile is_space s))"
      unfolding x by (simp add: list_all_iff)
    then have "py_strip s \<noteq> []" by (simp add: py_strip_def list_all_iff)
    then show ?thesis using False by simp
  qed
qed

lemma dropWhile_head: "dropWhile P s = x # xs \<Longrightarrow> \<not> P x"
  by (metis dropWhile_eq_Cons_conv)

lemma py_strip_Cons:
  assumes "py_strip s = c # cs"
  shows "\<not> is_space c"
proof -
  let ?d = "dropWhile is_space s"
  obtain x xs where d: "?d = x # xs"
    using assms by (cases ?d) (auto simp: py_strip_def)
  have x: "\<not> is_space x" using d by (rule dropWhile_head)
  have "\<exists>zs. dropWhile is_space (rev xs @ [x]) = zs @ [x]"
  proof (cases "\<exists>y \<in> set xs. \<not> is_space y")
    case True
    then show ?thesis by (auto simp: dropWhile_append1)
  next
    case False
    then have "dropWhile is_space (rev xs @ [x]) = dropWhile is_space [x]"
      by (intro dropWhile_append2) auto
    then show ?thesis using x by simp
  qed
  then have "\<exists>ys. rev (dropWhile is_space (rev xs @ [x])) = x # ys"
    by (metis rev_append rev_singleton_conv append_Cons append_Nil)
  then show ?thesis using assms d x by (auto simp: py_strip_def)
qed

section \<open>Numbers as text, hexadecimal\<close>

definition digit_char :: "int \<Rightarrow> int" where
  "digit_char d = (if d < 10 then 48 + d else 87 + d)"

function digits_of :: "int \<Rightarrow> int \<Rightarrow> pystr" where
  "digits_of b n = (if n < b \<or> b < 2 then [digit_char n] else digits_of b (n div b) @ [digit_char (n mod b)])"
  by pat_completeness auto
termination
  by (relation "measure (\<lambda>(b, n). nat n)") (auto simp: int_div_less_self nat_mono_iff)

declare digits_of.simps [simp del]

definition show_base :: "int \<Rightarrow> int \<Rightarrow> pystr" where
  "show_base b n = (if n < 0 then 45 # digits_of b (- n) else digits_of b n)"

definition show_int :: "int \<Rightarrow> pystr" where
  "show_int = show_base 10"

definition show_hex :: "int \<Rightarrow> pystr" where
  "show_hex = show_base 16"

text \<open>The format \<^verbatim>\<open>{n:03d}\<close> for a number that is not negative.\<close>

definition show_pad3 :: "int \<Rightarrow> pystr" where
  "show_pad3 n = (let s = show_int n in replicate (3 - length s) 48 @ s)"

definition is_hex :: "int \<Rightarrow> bool" where
  "is_hex c \<longleftrightarrow> (48 \<le> c \<and> c \<le> 57) \<or> (97 \<le> c \<and> c \<le> 102) \<or> (65 \<le> c \<and> c \<le> 70)"

definition hex_val :: "int \<Rightarrow> int" where
  "hex_val c = (if c \<le> 57 then c - 48 else if c \<le> 70 then c - 55 else c - 87)"

definition bytes_hex :: "bytes \<Rightarrow> pystr" where
  "bytes_hex bs = concat (map (\<lambda>b. [digit_char (uint b div 16), digit_char (uint b mod 16)]) bs)"

text \<open>\<^verbatim>\<open>bytes.fromhex\<close> on a text the caller has checked to hold hexadecimal digits only.\<close>

fun bytes_fromhex :: "pystr \<Rightarrow> bytes" where
  "bytes_fromhex (a # b # cs) = byte_of (hex_val a * 16 + hex_val b) # bytes_fromhex cs"
| "bytes_fromhex _ = []"

lemma hex_digit_char: "0 \<le> d \<Longrightarrow> d < 16 \<Longrightarrow> is_hex (digit_char d) \<and> hex_val (digit_char d) = d"
  by (auto simp: is_hex_def digit_char_def hex_val_def)

lemma nibbles: "0 \<le> uint (b :: byte) div 16" "uint b div 16 < 16" "0 \<le> uint b mod 16" "uint b mod 16 < 16"
  using byte_range[of b] by (simp_all add: pos_imp_zdiv_nonneg_iff)

lemma bytes_hex_length: "length (bytes_hex bs) = 2 * length bs"
  by (induction bs) (auto simp: bytes_hex_def)

lemma bytes_hex_is_hex: "list_all is_hex (bytes_hex bs)"
  by (induction bs) (auto simp: bytes_hex_def hex_digit_char nibbles)

lemma bytes_fromhex_hex [simp]: "bytes_fromhex (bytes_hex bs) = bs"
  by (induction bs) (auto simp: bytes_hex_def hex_digit_char nibbles)

lemma bytes_fromhex_length: "length (bytes_fromhex s) = length s div 2"
  by (induction s rule: bytes_fromhex.induct) auto

end
