(* ===== verification/Py_Num.thy ===== *)
theory Py_Num
  imports Prelude Complex_Main
begin

text \<open>
  Python's numbers. An \<^verbatim>\<open>int\<close> is an HOL integer. A \<^verbatim>\<open>float\<close> is an IEEE-754
  binary64 value: a finite one is represented by the rational number it stands for
  (the two zeros are identified), and the arithmetic the sources use rounds the exact
  result to 53 significant bits, ties to even, with gradual underflow and overflow to
  infinity. A finite \<^verbatim>\<open>decimal.Decimal\<close> is a rational as well; its context rounds to
  28 significant digits. \<^verbatim>\<open>repr\<close> of a float is the shortest decimal that reads back
  as the same float; the value of that decimal is \<open>float_repr\<close>.
\<close>

section \<open>Rounding to a number of digits in a base\<close>

function ndigits :: "int \<Rightarrow> int \<Rightarrow> int" where
  "ndigits b n = (if n < 1 \<or> b < 2 then 0 else 1 + ndigits b (n div b))"
  by pat_completeness auto
termination
  by (relation "measure (\<lambda>(b, n). nat n)") (auto simp: int_div_less_self nat_mono_iff)

declare ndigits.simps [simp del]

definition powb :: "int \<Rightarrow> int \<Rightarrow> rat" where
  "powb b e = (if 0 \<le> e then of_int b ^ nat e else 1 / of_int b ^ nat (- e))"

text \<open>The exponent of the leading base-\<open>b\<close> digit of a positive rational.\<close>

definition flogb :: "int \<Rightarrow> rat \<Rightarrow> int" where
  "flogb b x = (let (p, q) = quotient_of x; k = ndigits b p - ndigits b q
     in if powb b k \<le> x then k else k - 1)"

definition rnd_even :: "rat \<Rightarrow> int" where
  "rnd_even z = (let f = \<lfloor>z\<rfloor>; d = z - of_int f in
     if d < 1 / 2 then f else if 1 / 2 < d then f + 1 else if even f then f else f + 1)"

definition rnd_half_up :: "rat \<Rightarrow> int" where
  "rnd_half_up z = \<lfloor>z + 1 / 2\<rfloor>"

definition round_at :: "int \<Rightarrow> int \<Rightarrow> rat \<Rightarrow> rat" where
  "round_at b e x = of_int (rnd_even (x / powb b e)) * powb b e"

lemma powb_power_int: "powb b e = power_int (of_int b) e"
  by (simp add: powb_def power_int_def divide_inverse power_inverse)

lemma powb_pos [simp]: "2 \<le> b \<Longrightarrow> 0 < powb b e"
  by (simp add: powb_power_int)

lemma powb_nonneg [simp]: "2 \<le> b \<Longrightarrow> 0 \<le> powb b e"
  by (simp add: powb_power_int)

lemma powb_nz [simp]: "2 \<le> b \<Longrightarrow> powb b e \<noteq> 0"
  using powb_pos[of b e] by linarith

lemma powb_add: "2 \<le> b \<Longrightarrow> powb b (m + n) = powb b m * powb b n"
  by (simp add: powb_power_int power_int_add)

lemma powb_diff: "2 \<le> b \<Longrightarrow> powb b (m - n) = powb b m / powb b n"
  by (simp add: powb_power_int power_int_diff)

lemma powb_mono: "2 \<le> b \<Longrightarrow> m \<le> n \<Longrightarrow> powb b m \<le> powb b n"
  by (simp add: powb_power_int power_int_increasing)

lemma powb_1 [simp]: "powb b 1 = of_int b" and powb_0 [simp]: "powb b 0 = 1"
  by (simp_all add: powb_def)

lemma ndigits_nonneg: "0 \<le> ndigits b n"
  by (induction b n rule: ndigits.induct) (subst ndigits.simps, auto)

lemma ndigits_bounds:
  assumes "2 \<le> b" "1 \<le> n"
  shows "powb b (ndigits b n - 1) \<le> of_int n \<and> of_int n < powb b (ndigits b n)"
  using assms
proof (induction b n rule: ndigits.induct)
  case (1 b n)
  let ?m = "n div b"
  show ?case
  proof (cases "?m < 1")
    case True
    have m0: "?m = 0" using True 1 by (simp add: pos_imp_zdiv_nonneg_iff order_antisym)
    then have "n < b" using 1 by (metis div_mult_mod_eq add_0 mult_zero_left pos_mod_bound
          zero_less_numeral order_less_le_trans)
    moreover have "ndigits b n = 1"
      using 1 m0 by (subst ndigits.simps) (simp add: ndigits.simps[of b 0])
    ultimately show ?thesis using 1 by simp
  next
    case False
    let ?k = "ndigits b ?m"
    have k: "ndigits b n = 1 + ?k" using 1 by (subst ndigits.simps) simp
    have IH: "powb b (?k - 1) \<le> of_int ?m" "of_int ?m < powb b ?k"
      using "1.IH" "1.prems" False by auto
    have lo: "b * ?m \<le> n" and hi: "n < b * (?m + 1)"
      using "1.prems" by (simp_all add: algebra_simps) (smt (verit) pos_mod_bound mult_div_mod_eq pos_mod_sign)+
    have kp: "0 \<le> ?k" by (rule ndigits_nonneg)
    have "powb b ?k = of_int b * powb b (?k - 1)"
      using powb_add[of b 1 "?k - 1"] 1 by simp
    also have "\<dots> \<le> of_int b * of_int ?m" using IH(1) 1 by simp
    also have "\<dots> \<le> of_int n" using lo by (simp flip: of_int_mult)
    finally have L: "powb b ?k \<le> of_int n" .
    have "of_int ?m + 1 \<le> powb b ?k"
    proof -
      have "powb b ?k = of_int (b ^ nat ?k)" using kp by (simp add: powb_def)
      with IH(2) show ?thesis by (simp flip: of_int_power add: of_int_less_iff)
    qed
    then have "of_int b * (of_int ?m + 1) \<le> of_int b * powb b ?k" using "1.prems"
      by (intro mult_left_mono) auto
    moreover have "of_int n < (of_int b * (of_int ?m + 1) :: rat)"
    proof -
      have "of_int n < (of_int (b * (?m + 1)) :: rat)" using hi by (simp only: of_int_less_iff)
      then show ?thesis by (simp only: of_int_mult of_int_add of_int_1)
    qed
    ultimately have H: "of_int n < powb b (1 + ?k)"
      unfolding powb_add[OF "1.prems"(1), of 1 ?k] powb_1 by (rule less_le_trans[rotated])
    show ?thesis using L H by (simp add: k)
  qed
qed

lemma flogb_bounds:
  assumes b: "2 \<le> b" and x: "0 < x"
  shows "powb b (flogb b x) \<le> x \<and> x < powb b (flogb b x + 1)"
proof -
  obtain p q where pq: "quotient_of x = (p, q)" by (cases "quotient_of x")
  have q: "0 < q" using quotient_of_denom_pos[OF pq] .
  have xe: "x = of_int p / of_int q" using quotient_of_div[OF pq] .
  have p: "0 < p" using x q by (simp add: xe zero_less_divide_iff)
  let ?np = "ndigits b p" and ?nq = "ndigits b q"
  have P: "powb b (?np - 1) \<le> of_int p" "of_int p < powb b ?np"
    using ndigits_bounds[OF b, of p] p by auto
  have Q: "powb b (?nq - 1) \<le> of_int q" "of_int q < powb b ?nq"
    using ndigits_bounds[OF b, of q] q by auto
  let ?k = "?np - ?nq"
  have "powb b (?k - 1) = powb b (?np - 1) / powb b ?nq"
    using powb_diff[OF b, of "?np - 1" ?nq] by (simp add: algebra_simps)
  also have "\<dots> \<le> x" unfolding xe using P Q q p b by (intro frac_le) auto
  finally have L: "powb b (?k - 1) \<le> x" .
  have "x < powb b ?np / powb b (?nq - 1)"
    unfolding xe using P Q q p b by (intro frac_less) auto
  also have "\<dots> = powb b (?k + 1)"
    using powb_diff[OF b, of ?np "?nq - 1"] by (simp add: algebra_simps)
  finally show ?thesis using L by (auto simp: flogb_def pq Let_def)
qed

lemma rnd_even_error: "\<bar>of_int (rnd_even z) - z\<bar> \<le> 1 / 2"
  using floor_correct[of z] by (auto simp: rnd_even_def Let_def abs_le_iff)

lemma rnd_even_int [simp]: "rnd_even (of_int n) = n"
  by (simp add: rnd_even_def)

lemma round_at_error:
  assumes "2 \<le> b"
  shows "\<bar>round_at b e x - x\<bar> \<le> powb b e / 2"
proof -
  let ?p = "powb b e"
  have p: "0 < ?p" using assms by simp
  have "round_at b e x - x = (of_int (rnd_even (x / ?p)) - x / ?p) * ?p"
    using p by (simp add: round_at_def field_simps)
  then have "\<bar>round_at b e x - x\<bar> = \<bar>of_int (rnd_even (x / ?p)) - x / ?p\<bar> * ?p"
    using p by (simp add: abs_mult)
  also have "\<dots> \<le> (1 / 2) * ?p"
    using rnd_even_error p by (intro mult_right_mono) auto
  finally show ?thesis by simp
qed

lemma round_at_exact:
  assumes "2 \<le> b" "x = of_int m * powb b e"
  shows "round_at b e x = x"
  using assms by (simp add: round_at_def)

section \<open>binary64\<close>

datatype pyfloat = Fin rat | PInf | NInf | NaN

definition f64_exp :: "rat \<Rightarrow> int" where
  "f64_exp x = max (flogb 2 \<bar>x\<bar> - 52) (- 1074)"

text \<open>A rounded value of magnitude \<open>2\<^sup>1\<^sup>0\<^sup>2\<^sup>4\<close> or more is an infinity.\<close>

definition f64_pack :: "rat \<Rightarrow> pyfloat" where
  "f64_pack v = (if v \<noteq> 0 \<and> 1024 \<le> flogb 2 \<bar>v\<bar> then (if 0 < v then PInf else NInf) else Fin v)"

definition to_f64 :: "rat \<Rightarrow> pyfloat" where
  "to_f64 x = (if x = 0 then Fin 0 else f64_pack (round_at 2 (f64_exp x) x))"

text \<open>\<^verbatim>\<open>a / b\<close> for two ints with \<open>b\<close> not zero: the correctly rounded quotient.\<close>

definition int_truediv :: "int \<Rightarrow> int \<Rightarrow> pyfloat" where
  "int_truediv a b = to_f64 (of_int a / of_int b)"

lemma to_f64_error:
  assumes "to_f64 x = Fin y"
  shows "\<bar>y - x\<bar> \<le> (\<bar>x\<bar> + 1) / 2 ^ 53"
proof (cases "x = 0")
  case True
  then show ?thesis using assms by (simp add: to_f64_def)
next
  case False
  let ?e = "f64_exp x"
  have y: "y = round_at 2 ?e x"
    using assms False by (auto simp: to_f64_def f64_pack_def split: if_splits)
  have err: "\<bar>y - x\<bar> \<le> powb 2 ?e / 2" unfolding y by (rule round_at_error) simp
  have "powb 2 ?e / 2 \<le> (\<bar>x\<bar> + 1) / 2 ^ 53"
  proof (cases "flogb 2 \<bar>x\<bar> - 52 \<ge> - 1074")
    case True
    have "powb 2 ?e = powb 2 (flogb 2 \<bar>x\<bar>) / powb 2 52"
      using True powb_diff[of 2 "flogb 2 \<bar>x\<bar>" 52] by (simp add: f64_exp_def)
    moreover have "powb 2 (flogb 2 \<bar>x\<bar>) \<le> \<bar>x\<bar>" using flogb_bounds[of 2 "\<bar>x\<bar>"] False by simp
    ultimately show ?thesis by (simp add: powb_def field_simps)
  next
    case F: False
    then have "powb 2 ?e \<le> powb 2 (- 52)" by (intro powb_mono) (simp_all add: f64_exp_def)
    also have "\<dots> = 1 / 2 ^ 52" by (simp add: powb_def)
    finally have "powb 2 ?e / 2 \<le> 1 / 2 ^ 53" by simp
    also have "\<dots> \<le> (\<bar>x\<bar> + 1) / 2 ^ 53" by (simp add: divide_right_mono)
    finally show ?thesis .
  qed
  with err show ?thesis by linarith
qed

text \<open>A rational with at most 53 significant bits and no bit below the last one is a float.\<close>

lemma to_f64_exact:
  assumes x: "x = of_int m * powb 2 e" and m: "\<bar>m\<bar> < 2 ^ 53" and e: "- 1074 \<le> e" and big: "\<bar>x\<bar> < powb 2 1024"
  shows "to_f64 x = Fin x"
proof (cases "x = 0")
  case True
  then show ?thesis by (simp add: to_f64_def)
next
  case False
  let ?k = "f64_exp x"
  have "powb 2 (flogb 2 \<bar>x\<bar>) \<le> \<bar>x\<bar>" using flogb_bounds[of 2 "\<bar>x\<bar>"] False by simp
  also have "\<bar>x\<bar> < powb 2 (53 + e)"
  proof -
    have "\<bar>x\<bar> = of_int \<bar>m\<bar> * powb 2 e" using powb_pos[of 2 e] by (simp add: x abs_mult abs_of_pos)
    also have "\<dots> < of_int (2 ^ 53) * powb 2 e"
      using m by (intro mult_strict_right_mono) (simp_all only: of_int_less_iff powb_pos[of 2] order_refl)
    also have "\<dots> = powb 2 53 * powb 2 e" by (simp add: powb_def[of 2 53])
    also have "\<dots> = powb 2 (53 + e)" by (rule powb_add[symmetric]) simp
    finally show ?thesis .
  qed
  finally have lt: "powb 2 (flogb 2 \<bar>x\<bar>) < powb 2 (53 + e)" .
  have "flogb 2 \<bar>x\<bar> < 53 + e"
  proof (rule ccontr)
    assume "\<not> flogb 2 \<bar>x\<bar> < 53 + e"
    then have "powb 2 (53 + e) \<le> powb 2 (flogb 2 \<bar>x\<bar>)" by (intro powb_mono) simp_all
    with lt show False by simp
  qed
  then have k: "?k \<le> e" using e by (simp add: f64_exp_def)
  have xk: "x = of_int (m * 2 ^ nat (e - ?k)) * powb 2 ?k"
  proof -
    have pe: "powb 2 e = powb 2 (e - ?k) * powb 2 ?k" using powb_add[of 2 "e - ?k" ?k] by simp
    have "powb 2 (e - ?k) = of_int (2 ^ nat (e - ?k))" using k by (simp add: powb_def)
    then show ?thesis by (subst x) (simp only: pe of_int_mult mult.assoc)
  qed
  have ex: "round_at 2 ?k x = x" by (rule round_at_exact[OF _ xk]) simp
  have "\<not> 1024 \<le> flogb 2 \<bar>x\<bar>"
  proof
    assume "1024 \<le> flogb 2 \<bar>x\<bar>"
    then have "powb 2 1024 \<le> powb 2 (flogb 2 \<bar>x\<bar>)" by (intro powb_mono) simp_all
    then show False using flogb_bounds[of 2 "\<bar>x\<bar>"] False big by simp
  qed
  then show ?thesis using False by (simp add: to_f64_def f64_pack_def ex)
qed

section \<open>repr and Decimal\<close>

text \<open>The candidates with \<open>n\<close> significant decimal digits that read back as the float \<open>x > 0\<close>.\<close>

definition repr_at :: "rat \<Rightarrow> int \<Rightarrow> rat option" where
  "repr_at x n = (let e = flogb 10 x - (n - 1); p = powb 10 e; l = \<lfloor>x / p\<rfloor>;
       a = of_int l * p; b = of_int (l + 1) * p;
       ga = (to_f64 a = Fin x); gb = (to_f64 b = Fin x) in
     if ga \<and> gb then Some (if x - a < b - x then a else if b - x < x - a then b
                         else if even l then a else b)
     else if ga then Some a else if gb then Some b else None)"

fun repr_search :: "rat \<Rightarrow> int list \<Rightarrow> rat" where
  "repr_search x [] = x"
| "repr_search x (n # ns) = (case repr_at x n of Some d \<Rightarrow> d | None \<Rightarrow> repr_search x ns)"

text \<open>
  The value of the decimal that \<^verbatim>\<open>str(x)\<close> shows. Seventeen digits always read back, so
  the empty list is not reached for a float.
\<close>

definition float_repr :: "rat \<Rightarrow> rat" where
  "float_repr x = (if x = 0 then 0
     else if 0 < x then repr_search x [1..17] else - repr_search (- x) [1..17])"

lemma repr_at_reads: "repr_at x n = Some d \<Longrightarrow> to_f64 d = Fin x"
  by (auto simp: repr_at_def Let_def split: if_splits)

lemma repr_search_reads: "repr_search x ns = x \<or> to_f64 (repr_search x ns) = Fin x"
  by (induction ns) (auto split: option.splits dest: repr_at_reads)

lemma float_repr_close:
  assumes "0 \<le> x"
  shows "\<bar>x - float_repr x\<bar> \<le> (\<bar>float_repr x\<bar> + 1) / 2 ^ 53"
proof (cases "x = 0")
  case True
  then show ?thesis by (simp add: float_repr_def)
next
  case False
  then have "float_repr x = x \<or> to_f64 (float_repr x) = Fin x"
    using assms repr_search_reads by (simp add: float_repr_def)
  then show ?thesis
  proof
    assume "float_repr x = x"
    then show ?thesis by simp
  qed (rule to_f64_error)
qed

text \<open>A result of Decimal arithmetic: at most 28 significant digits, ties to even.\<close>

definition dec_round :: "rat \<Rightarrow> rat" where
  "dec_round v = (if v = 0 then 0 else round_at 10 (flogb 10 \<bar>v\<bar> - 27) v)"

lemma dec_round_error: "\<bar>dec_round v - v\<bar> \<le> \<bar>v\<bar> / 10 ^ 27"
proof (cases "v = 0")
  case True
  then show ?thesis by (simp add: dec_round_def)
next
  case False
  let ?k = "flogb 10 \<bar>v\<bar>"
  have "\<bar>dec_round v - v\<bar> \<le> powb 10 (?k - 27) / 2"
    using False round_at_error[of 10 "?k - 27" v] by (simp add: dec_round_def)
  also have "\<dots> \<le> powb 10 (?k - 27)" using powb_pos[of 10 "?k - 27"] by simp
  also have "\<dots> = powb 10 ?k / 10 ^ 27"
    using powb_diff[of 10 ?k 27] by (simp add: powb_def[of 10 27])
  also have "\<dots> \<le> \<bar>v\<bar> / 10 ^ 27"
    using flogb_bounds[of 10 "\<bar>v\<bar>"] False by (intro divide_right_mono) auto
  finally show ?thesis .
qed

text \<open>Rounding a value less than a half away from a whole number gives that number.\<close>

lemma rnd_half_up_near: "\<bar>z - of_int n\<bar> < 1 / 2 \<Longrightarrow> rnd_half_up z = n"
  unfolding rnd_half_up_def by (rule floor_unique; linarith)

end
