(* ===== verification/Py_Value.thy ===== *)
theory Py_Value
  imports Py_Text Py_Num
begin

text \<open>
  Dynamically typed Python values as they occur in event payloads (the values JSON can
  express), dictionaries in insertion order with text keys, the exceptions the modelled
  code raises with their messages, and the conversions \<^verbatim>\<open>Decimal(str(v))\<close> and
  \<^verbatim>\<open>int(v)\<close> on such values. Numerals inside text values are read for ASCII digits.
\<close>

section \<open>Values and exceptions\<close>

datatype pyval =
  PNone
| PBool bool
| PInt int
| PFloat pyfloat
| PStr pystr
| PList "pyval list"
| PDict "(pystr \<times> pyval) list"

type_synonym pydict = "(pystr \<times> pyval) list"

datatype exn =
  ProtocolError pystr pystr
| ValueError pystr
| TypeError pystr
| OverflowError pystr
| AttributeError pystr
| DecimalInvalidOperation
| DecimalOverflow

text \<open>\<^verbatim>\<open>str(exc)\<close>.\<close>

fun exn_str :: "exn \<Rightarrow> pystr" where
  "exn_str (ProtocolError code msg) = msg"
| "exn_str (ValueError msg) = msg"
| "exn_str (TypeError msg) = msg"
| "exn_str (OverflowError msg) = msg"
| "exn_str (AttributeError msg) = msg"
| "exn_str DecimalInvalidOperation = lit ''[<class 'decimal.InvalidOperation'>]''"
| "exn_str DecimalOverflow = lit ''[<class 'decimal.Overflow'>]''"

type_synonym 'a res = "exn + 'a"

definition protocol_error :: "string \<Rightarrow> pystr \<Rightarrow> 'a res" where
  "protocol_error code msg = Inl (ProtocolError (lit code) msg)"

definition invalid_payload :: "string \<Rightarrow> 'a res" where
  "invalid_payload msg = protocol_error ''invalid_payload'' (lit msg)"

lemma protocol_error_neq_Inr [simp]: "protocol_error c m \<noteq> Inr x" "invalid_payload s \<noteq> Inr x"
  by (simp_all add: protocol_error_def invalid_payload_def)

lemma ebind_protocol_error [simp]:
  "ebind (protocol_error c m) f = protocol_error c m" "ebind (invalid_payload s) f = invalid_payload s"
  by (simp_all add: protocol_error_def invalid_payload_def)

lemma if_error_eq_Inr [simp]:
  "(if c then protocol_error e m else r) = Inr x \<longleftrightarrow> \<not> c \<and> r = Inr x"
  "(if c then invalid_payload s else r) = Inr x \<longleftrightarrow> \<not> c \<and> r = Inr x"
  by simp_all

section \<open>Dictionaries\<close>

definition dhas :: "pydict \<Rightarrow> string \<Rightarrow> bool" where
  "dhas d k \<longleftrightarrow> map_of d (lit k) \<noteq> None"

definition dget_or :: "pydict \<Rightarrow> string \<Rightarrow> pyval \<Rightarrow> pyval" where
  "dget_or d k v = (case map_of d (lit k) of None \<Rightarrow> v | Some x \<Rightarrow> x)"

definition dget :: "pydict \<Rightarrow> string \<Rightarrow> pyval" where
  "dget d k = dget_or d k PNone"

fun alist_put :: "'k \<Rightarrow> 'v \<Rightarrow> ('k \<times> 'v) list \<Rightarrow> ('k \<times> 'v) list" where
  "alist_put k v [] = [(k, v)]"
| "alist_put k v ((a, b) # r) = (if a = k then (a, v) # r else (a, b) # alist_put k v r)"

definition dput :: "string \<Rightarrow> pyval \<Rightarrow> pydict \<Rightarrow> pydict" where
  "dput k v d = alist_put (lit k) v d"

lemma map_of_alist_put: "map_of (alist_put k v d) = (map_of d)(k \<mapsto> v)"
  by (induction d) (auto simp: fun_eq_iff)

lemma keys_alist_put: "fst ` set (alist_put k v d) = insert k (fst ` set d)"
  by (induction k v d rule: alist_put.induct) (auto simp: insert_commute)

lemma distinct_alist_put: "distinct (map fst d) \<Longrightarrow> distinct (map fst (alist_put k v d))"
  by (induction k v d rule: alist_put.induct) (simp_all add: keys_alist_put, blast)

lemma dget_dput: "dget (dput k v d) k' = (if k = k' then v else dget d k')"
  by (simp add: dget_def dget_or_def dput_def map_of_alist_put)

lemma dhas_dput: "dhas (dput k v d) k' \<longleftrightarrow> k = k' \<or> dhas d k'"
  by (simp add: dhas_def dput_def map_of_alist_put)

text \<open>Evaluating a lookup in a literal dictionary.\<close>

lemma dget_Nil [simp]: "dget [] k = PNone" "\<not> dhas [] k"
  by (simp_all add: dget_def dget_or_def dhas_def)

lemma dget_Cons [simp]:
  "dget ((lit k', v) # d) k = (if k' = k then v else dget d k)"
  "dhas ((lit k', v) # d) k \<longleftrightarrow> k' = k \<or> dhas d k"
  by (auto simp: dget_def dget_or_def dhas_def)

lemma dget_append_absent:
  "\<not> dhas d k \<Longrightarrow> dget (d @ e) k = dget e k"
  by (auto simp: dhas_def dget_def dget_or_def map_add_def split: option.splits)

lemma dget_append_present:
  "dhas d k \<Longrightarrow> dget (d @ e) k = dget d k"
  by (auto simp: dhas_def dget_def dget_or_def map_add_def split: option.splits)

lemma dget_append: "dget (d @ e) k = (if dhas d k then dget d k else dget e k)"
  by (simp add: dget_append_absent dget_append_present)

lemma dhas_append: "dhas (d @ e) k \<longleftrightarrow> dhas d k \<or> dhas e k"
  by (auto simp: dhas_def)

lemma dget_or_dget: "dhas d k \<Longrightarrow> dget_or d k v = dget d k"
  by (auto simp: dhas_def dget_def dget_or_def)

section \<open>Numerals in text\<close>

definition is_digit :: "int \<Rightarrow> bool" where
  "is_digit c \<longleftrightarrow> 48 \<le> c \<and> c \<le> 57"

definition digits_val :: "pystr \<Rightarrow> int" where
  "digits_val s = fold (\<lambda>c a. a * 10 + (c - 48)) s 0"

text \<open>Whether \<^verbatim>\<open>int(s)\<close> accepts the text: single underscores between digits, at most 4300 digits.\<close>

fun underscores_ok :: "bool \<Rightarrow> pystr \<Rightarrow> bool" where
  "underscores_ok prev [] = prev"
| "underscores_ok prev (c # cs) =
     (if is_digit c then underscores_ok True cs
      else c = 95 \<and> prev \<and> underscores_ok False cs)"

definition drop_sign :: "pystr \<Rightarrow> bool \<times> pystr" where
  "drop_sign s = (case s of [] \<Rightarrow> (False, []) | c # cs \<Rightarrow>
     if c = 45 then (True, cs) else if c = 43 then (False, cs) else (False, s))"

definition int_accepts :: "pystr \<Rightarrow> bool" where
  "int_accepts s = (let (_, b) = drop_sign (py_strip s) in
     underscores_ok False b \<and> length (filter is_digit b) \<le> 4300)"

datatype decval = DFin rat | DNonFinite

text \<open>A decimal numeral without its sign: its value and its written exponent.\<close>

definition dec_scan :: "pystr \<Rightarrow> (rat \<times> int) option" where
  "dec_scan b =
    (let ip = takeWhile is_digit b; r1 = dropWhile is_digit b;
         fp = (case r1 of c # cs \<Rightarrow> if c = 46 then takeWhile is_digit cs else [] | [] \<Rightarrow> []);
         r2 = (case r1 of c # cs \<Rightarrow> if c = 46 then dropWhile is_digit cs else r1 | [] \<Rightarrow> []);
         ex = (case r2 of c # cs \<Rightarrow> if c = 69 \<or> c = 101 then Some (drop_sign cs) else None | [] \<Rightarrow> None);
         ok = (ip @ fp \<noteq> [] \<and> (case ex of Some (_, d) \<Rightarrow> d \<noteq> [] \<and> list_all is_digit d | None \<Rightarrow> r2 = []));
         e = (case ex of Some (s, d) \<Rightarrow> if s then - digits_val d else digits_val d | None \<Rightarrow> 0);
         v = of_int (digits_val (ip @ fp)) * powb 10 (e - int (length fp))
     in if ok then Some (v, e) else None)"

definition dec_number :: "bool \<Rightarrow> pystr \<Rightarrow> decval option" where
  "dec_number neg b =
    (case dec_scan b of None \<Rightarrow> None
     | Some (v, e) \<Rightarrow> if 999999999999999999 < \<bar>e\<bar> then None else Some (DFin (if neg then - v else v)))"

text \<open>The value of \<^verbatim>\<open>Decimal(s)\<close> for a text, if it is a Decimal literal.\<close>

definition dec_parse :: "pystr \<Rightarrow> decval option" where
  "dec_parse s =
    (let (neg, b) = drop_sign (filter (\<lambda>c. c \<noteq> 95) (py_strip s)); low = py_lower b in
     if low = lit ''inf'' \<or> low = lit ''infinity'' then Some DNonFinite
     else if take 3 low = lit ''nan'' \<and> list_all is_digit (drop 3 low)
       \<or> take 4 low = lit ''snan'' \<and> list_all is_digit (drop 4 low) then Some DNonFinite
     else dec_number neg b)"

text \<open>\<^verbatim>\<open>Decimal(str(v))\<close>; None where the conversion raises.\<close>

definition decimal_of :: "pyval \<Rightarrow> decval option" where
  "decimal_of v = (case v of
     PInt n \<Rightarrow> if 4300 < ndigits 10 \<bar>n\<bar> then None else Some (DFin (of_int n))
   | PFloat (Fin x) \<Rightarrow> Some (DFin (float_repr x))
   | PFloat _ \<Rightarrow> Some DNonFinite
   | PStr s \<Rightarrow> dec_parse s
   | _ \<Rightarrow> None)"

end
