(* ===== verification/Link_Wire.thy ===== *)
theory Link_Wire
  imports Py_Value
begin

text \<open>
  The field layer of FluidLink v2 (\<^verbatim>\<open>_PayloadWriter\<close>, \<^verbatim>\<open>_PayloadReader\<close> and
  \<^verbatim>\<open>encode_bounded_text\<close> of \<^verbatim>\<open>fluidgateway/fluidlink_v2.py\<close>). The writer's state is
  the bytes written so far; the reader's state is the payload and an offset. The locale
  \<open>wire_codec\<close> is the contract between a field's writer and its reader that the payload
  codecs rely on: writing appends exactly the field's encoding, reading succeeds exactly
  on that encoding. Every field kind of the protocol is an interpretation of it.
\<close>

section \<open>Little-endian integers (struct.pack)\<close>

fun le_bytes :: "nat \<Rightarrow> int \<Rightarrow> bytes" where
  "le_bytes 0 n = []"
| "le_bytes (Suc k) n = byte_of (n mod 256) # le_bytes k (n div 256)"

fun le_val :: "bytes \<Rightarrow> int" where
  "le_val [] = 0"
| "le_val (b # bs) = uint b + 256 * le_val bs"

lemma length_le_bytes [simp]: "length (le_bytes k n) = k"
  by (induction k arbitrary: n) auto

lemma le_val_nonneg: "0 \<le> le_val bs"
  by (induction bs) (auto simp: byte_range)

lemma le_val_less: "le_val bs < 256 ^ length bs"
proof (induction bs)
  case (Cons b bs)
  have "uint b + 256 * le_val bs < 256 * (le_val bs + 1)" using byte_range[of b] by simp
  also have "\<dots> \<le> 256 * 256 ^ length bs" using Cons by simp
  finally show ?case by simp
qed simp

lemma le_val_le_bytes: "0 \<le> n \<Longrightarrow> n < 256 ^ k \<Longrightarrow> le_val (le_bytes k n) = n"
proof (induction k arbitrary: n)
  case (Suc k)
  have "n div 256 < 256 ^ k" using Suc.prems by (simp add: div_less_iff_less_mult)
  moreover have "0 \<le> n div 256" using Suc.prems by (simp add: pos_imp_zdiv_nonneg_iff)
  ultimately show ?case using Suc.IH by (simp add: uint_byte_of)
qed simp

lemma le_bytes_le_val: "le_bytes (length bs) (le_val bs) = bs"
  by (induction bs) (simp_all add: byte_range byte_of_eq_iff mod_pos_pos_trivial div_pos_pos_trivial
      mod_add_eq)

section \<open>The writer\<close>

type_synonym writer = "bytes \<Rightarrow> bytes res"

definition w_then :: "writer \<Rightarrow> writer \<Rightarrow> writer" where
  "w_then a b = (\<lambda>d. ebind (a d) b)"

fun w_all :: "writer list \<Rightarrow> writer" where
  "w_all [] d = Inr d"
| "w_all (w # ws) d = ebind (w d) (w_all ws)"

definition w_integer :: "int \<Rightarrow> int \<Rightarrow> string \<Rightarrow> unit res" where
  "w_integer value maximum kind =
     (if \<not> (0 \<le> value \<and> value \<le> maximum)
      then protocol_error ''invalid_payload''
             (lit ''FluidLink v2 '' @ lit kind @ lit '' field is out of range.'')
      else Inr ())"

definition put_u8 :: "int \<Rightarrow> writer" where
  "put_u8 value d = ebind (w_integer value 255 ''u8'') (\<lambda>_. Inr (d @ le_bytes 1 value))"

definition put_u16 :: "int \<Rightarrow> writer" where
  "put_u16 value d = ebind (w_integer value 65535 ''u16'') (\<lambda>_. Inr (d @ le_bytes 2 value))"

definition put_u32 :: "int \<Rightarrow> writer" where
  "put_u32 value d = ebind (w_integer value 4294967295 ''u32'') (\<lambda>_. Inr (d @ le_bytes 4 value))"

definition put_u64 :: "int \<Rightarrow> writer" where
  "put_u64 value d =
     ebind (w_integer value 18446744073709551615 ''u64'') (\<lambda>_. Inr (d @ le_bytes 8 value))"

definition put_raw :: "bytes \<Rightarrow> int option \<Rightarrow> writer" where
  "put_raw value expected_size d =
     (case expected_size of
        Some n \<Rightarrow> if int (length value) \<noteq> n
          then protocol_error ''invalid_payload''
                 (lit ''FluidLink v2 binary field must contain '' @ show_int n @ lit '' bytes.'')
          else Inr (d @ value)
      | None \<Rightarrow> Inr (d @ value))"

definition encode_bounded_text :: "pyval \<Rightarrow> int \<Rightarrow> bool \<Rightarrow> bytes res" where
  "encode_bounded_text value maximum_bytes allow_empty =
     (case value of
        PStr s \<Rightarrow>
          (case utf8_encode s of
             None \<Rightarrow> invalid_payload ''FluidLink v2 text field is not valid UTF-8.''
           | Some encoded \<Rightarrow>
               if maximum_bytes < int (length encoded) \<or> (\<not> allow_empty \<and> py_strip s = [])
               then invalid_payload ''FluidLink v2 text field violates its size limit.''
               else Inr encoded)
      | _ \<Rightarrow> invalid_payload ''FluidLink v2 text field must be a string.'')"

definition put_text8 :: "int \<Rightarrow> bool \<Rightarrow> pyval \<Rightarrow> writer" where
  "put_text8 maximum_bytes allow_empty value d =
     ebind (encode_bounded_text value maximum_bytes allow_empty) (\<lambda>encoded.
       if 255 < int (length encoded)
       then invalid_payload ''FluidLink v2 text8 field is too large.''
       else ebind (put_u8 (int (length encoded)) d) (put_raw encoded None))"

definition put_text16 :: "int \<Rightarrow> bool \<Rightarrow> pyval \<Rightarrow> writer" where
  "put_text16 maximum_bytes allow_empty value d =
     ebind (encode_bounded_text value maximum_bytes allow_empty) (\<lambda>encoded.
       ebind (put_u16 (int (length encoded)) d) (put_raw encoded None))"

definition max_payload_bytes :: int where
  "max_payload_bytes = 65535"

definition w_finish :: "bytes \<Rightarrow> bytes res" where
  "w_finish data =
     (if max_payload_bytes < int (length data)
      then protocol_error ''payload_too_large'' (lit ''FluidLink v2 payload exceeds the 65,535-byte limit.'')
      else Inr data)"

text \<open>A whole payload: a fresh writer, the fields, \<^verbatim>\<open>finish\<close>.\<close>

definition w_run :: "writer \<Rightarrow> bytes res" where
  "w_run w = ebind (w []) w_finish"

section \<open>The reader\<close>

record reader =
  rd_payload :: bytes
  rd_offset :: int

type_synonym 'a parser = "reader \<Rightarrow> ('a \<times> reader) res"

definition new_reader :: "bytes \<Rightarrow> reader" where
  "new_reader payload = \<lparr>rd_payload = payload, rd_offset = 0\<rparr>"

definition pret :: "'a \<Rightarrow> 'a parser" where
  "pret x r = Inr (x, r)"

definition plift :: "'a res \<Rightarrow> 'a parser" where
  "plift m r = ebind m (\<lambda>x. Inr (x, r))"

definition pbind :: "'a parser \<Rightarrow> ('a \<Rightarrow> 'b parser) \<Rightarrow> 'b parser" where
  "pbind m f r = ebind (m r) (\<lambda>(x, r'). f x r')"

fun prepeat :: "nat \<Rightarrow> 'a parser \<Rightarrow> 'a list parser" where
  "prepeat 0 p = pret []"
| "prepeat (Suc n) p = pbind p (\<lambda>x. pbind (prepeat n p) (\<lambda>xs. pret (x # xs)))"

definition rd_take :: "int \<Rightarrow> bytes parser" where
  "rd_take n r =
     (let e = rd_offset r + n in
      if n < 0 \<or> int (length (rd_payload r)) < e
      then invalid_payload ''FluidLink v2 payload is truncated.''
      else Inr (take (nat n) (drop (nat (rd_offset r)) (rd_payload r)), r\<lparr>rd_offset := e\<rparr>))"

definition rd_u8 :: "int parser" where
  "rd_u8 = pbind (rd_take 1) (\<lambda>b. pret (le_val b))"

definition rd_u16 :: "int parser" where
  "rd_u16 = pbind (rd_take 2) (\<lambda>b. pret (le_val b))"

definition rd_u32 :: "int parser" where
  "rd_u32 = pbind (rd_take 4) (\<lambda>b. pret (le_val b))"

definition rd_u64 :: "int parser" where
  "rd_u64 = pbind (rd_take 8) (\<lambda>b. pret (le_val b))"

definition rd_text :: "int \<Rightarrow> int \<Rightarrow> bool \<Rightarrow> pystr parser" where
  "rd_text n maximum_bytes allow_empty =
     (if maximum_bytes < n \<or> (n = 0 \<and> \<not> allow_empty)
      then plift (invalid_payload ''FluidLink v2 text field violates its size limit.'')
      else pbind (rd_take n) (\<lambda>b.
        case utf8_decode b of
          None \<Rightarrow> plift (invalid_payload ''FluidLink v2 text field is not valid UTF-8.'')
        | Some value \<Rightarrow>
            if \<not> allow_empty \<and> py_strip value = []
            then plift (invalid_payload ''FluidLink v2 text field cannot be blank.'')
            else pret value))"

definition rd_text8 :: "int \<Rightarrow> bool \<Rightarrow> pystr parser" where
  "rd_text8 maximum_bytes allow_empty = pbind rd_u8 (\<lambda>n. rd_text n maximum_bytes allow_empty)"

definition rd_text16 :: "int \<Rightarrow> bool \<Rightarrow> pystr parser" where
  "rd_text16 maximum_bytes allow_empty = pbind rd_u16 (\<lambda>n. rd_text n maximum_bytes allow_empty)"

definition rd_finish :: "unit parser" where
  "rd_finish r =
     (if rd_offset r \<noteq> int (length (rd_payload r))
      then invalid_payload ''FluidLink v2 payload has trailing bytes.'' else Inr ((), r))"

text \<open>A whole payload: a fresh reader, the fields, the value.\<close>

definition p_run :: "'a parser \<Rightarrow> bytes \<Rightarrow> 'a res" where
  "p_run p payload = ebind (p (new_reader payload)) (\<lambda>(x, _). Inr x)"

text \<open>Fields that are present or not, and a value that is computed when its field is written.\<close>

definition w_opt :: "('a \<Rightarrow> writer) \<Rightarrow> 'a option \<Rightarrow> writer" where
  "w_opt put v = (case v of None \<Rightarrow> Inr | Some x \<Rightarrow> put x)"

definition w_lift :: "'a res \<Rightarrow> ('a \<Rightarrow> writer) \<Rightarrow> writer" where
  "w_lift m put d = ebind m (\<lambda>x. put x d)"

definition p_opt :: "bool \<Rightarrow> 'a parser \<Rightarrow> 'a option parser" where
  "p_opt c get = (if c then pbind get (\<lambda>x. pret (Some x)) else pret None)"

definition opt_bytes :: "('a \<Rightarrow> bytes) \<Rightarrow> 'a option \<Rightarrow> bytes" where
  "opt_bytes enc v = (case v of None \<Rightarrow> [] | Some x \<Rightarrow> enc x)"

definition given :: "'a option \<Rightarrow> bool \<Rightarrow> bool" where
  "given v c \<longleftrightarrow> (v \<noteq> None) = c"

lemma w_opt_simps [simp]: "w_opt put None d = Inr d" "w_opt put (Some x) d = put x d"
  by (simp_all add: w_opt_def)

lemma opt_bytes_simps [simp]: "opt_bytes enc None = []" "opt_bytes enc (Some x) = enc x"
  by (simp_all add: opt_bytes_def)

lemma w_lift_iff: "w_lift m put d = Inr d' \<longleftrightarrow> (\<exists>x. m = Inr x \<and> put x d = Inr d')"
  by (auto simp: w_lift_def ebind_eq_Inr)

section \<open>What a reader has consumed\<close>

definition rest :: "reader \<Rightarrow> bytes" where
  "rest r = drop (nat (rd_offset r)) (rd_payload r)"

definition wf_rd :: "reader \<Rightarrow> bool" where
  "wf_rd r \<longleftrightarrow> 0 \<le> rd_offset r \<and> rd_offset r \<le> int (length (rd_payload r))"

definition advance :: "nat \<Rightarrow> reader \<Rightarrow> reader" where
  "advance n r = r\<lparr>rd_offset := rd_offset r + int n\<rparr>"

text \<open>The reader got from \<open>r\<close> to \<open>r'\<close> by reading exactly the bytes \<open>bs\<close>.\<close>

definition consumed :: "reader \<Rightarrow> bytes \<Rightarrow> reader \<Rightarrow> bool" where
  "consumed r bs r' \<longleftrightarrow> wf_rd r \<and> r' = advance (length bs) r \<and> rest r = bs @ rest r'"

lemma wf_new_reader [simp]: "wf_rd (new_reader p)"
  by (simp add: wf_rd_def new_reader_def)

lemma rest_new_reader [simp]: "rest (new_reader p) = p"
  by (simp add: rest_def new_reader_def)

lemma rest_advance: "wf_rd r \<Longrightarrow> rest (advance n r) = drop n (rest r)"
  by (simp add: rest_def advance_def wf_rd_def nat_add_distrib add.commute)

lemma wf_advance: "wf_rd r \<Longrightarrow> n \<le> length (rest r) \<Longrightarrow> wf_rd (advance n r)"
  by (auto simp: wf_rd_def advance_def rest_def)

lemma advance_0 [simp]: "advance 0 r = r"
  by (simp add: advance_def)

lemma advance_advance: "advance m (advance n r) = advance (n + m) r"
  by (simp add: advance_def)

lemma consumed_wf: "consumed r bs r' \<Longrightarrow> wf_rd r \<and> wf_rd r'"
  by (auto simp: consumed_def intro!: wf_advance)

lemma consumed_Nil [simp]: "consumed r [] r' \<longleftrightarrow> wf_rd r \<and> r' = r"
  by (auto simp: consumed_def)

lemma consumed_iff: "wf_rd r \<Longrightarrow> consumed r bs r' \<longleftrightarrow> r' = advance (length bs) r \<and> (\<exists>s. rest r = bs @ s)"
  by (auto simp: consumed_def rest_advance)

lemma consumed_append:
  "consumed r (a @ b) r'' \<longleftrightarrow> (\<exists>r'. consumed r a r' \<and> consumed r' b r'')"
proof
  assume L: "consumed r (a @ b) r''"
  let ?m = "advance (length a) r"
  have wf: "wf_rd r" and re: "rest r = a @ (b @ rest r'')" using L by (simp_all add: consumed_def)
  have "consumed r a ?m" unfolding consumed_iff[OF wf] re by blast
  moreover have "wf_rd ?m" using \<open>consumed r a ?m\<close> consumed_wf by blast
  moreover have "rest ?m = b @ rest r''" by (simp add: rest_advance[OF wf] re)
  moreover have "r'' = advance (length b) ?m" using L by (simp add: consumed_def advance_advance)
  ultimately have "consumed ?m b r''" unfolding consumed_def by blast
  with \<open>consumed r a ?m\<close> show "\<exists>r'. consumed r a r' \<and> consumed r' b r''" by blast
next
  assume "\<exists>r'. consumed r a r' \<and> consumed r' b r''"
  then show "consumed r (a @ b) r''" by (auto simp: consumed_def advance_advance)
qed

lemma consumed_rest: "consumed r bs r' \<Longrightarrow> rest r = bs @ rest r'"
  by (simp add: consumed_def)

lemma consumed_new: "consumed (new_reader p) bs r' \<longleftrightarrow> r' = advance (length bs) (new_reader p) \<and> (\<exists>s. p = bs @ s)"
  by (simp add: consumed_iff)

text \<open>The reader that has consumed \<open>pre\<close> and has \<open>suf\<close> before it.\<close>

definition reader_at :: "bytes \<Rightarrow> bytes \<Rightarrow> reader" where
  "reader_at pre suf = \<lparr>rd_payload = pre @ suf, rd_offset = int (length pre)\<rparr>"

lemma wf_reader_at [simp]: "wf_rd (reader_at pre suf)"
  by (simp add: reader_at_def wf_rd_def)

lemma rest_reader_at [simp]: "rest (reader_at pre suf) = suf"
  by (simp add: reader_at_def rest_def)

lemma new_reader_at: "new_reader p = reader_at [] p"
  by (simp add: new_reader_def reader_at_def)

lemma consumed_at: "consumed (reader_at pre suf) bs r' \<longleftrightarrow> (\<exists>t. suf = bs @ t \<and> r' = reader_at (pre @ bs) t)"
  by (auto simp: consumed_iff) (auto simp: advance_def reader_at_def)

section \<open>Inversion of the parser combinators\<close>

lemma pbind_eq_Inr: "pbind p f r = Inr (y, r'') \<longleftrightarrow> (\<exists>x r'. p r = Inr (x, r') \<and> f x r' = Inr (y, r''))"
  by (auto simp: pbind_def ebind_eq_Inr)

lemma pret_eq_Inr: "pret x r = Inr (y, r') \<longleftrightarrow> y = x \<and> r' = r"
  by (auto simp: pret_def)

lemma plift_eq_Inr: "plift m r = Inr (y, r') \<longleftrightarrow> m = Inr y \<and> r' = r"
  by (auto simp: plift_def ebind_eq_Inr)

lemma plift_error [simp]:
  "plift (invalid_payload s) r \<noteq> Inr q" "plift (protocol_error c m) r \<noteq> Inr q"
  by (simp_all add: plift_def)

lemmas parser_inversions = pbind_eq_Inr pret_eq_Inr plift_eq_Inr

lemma rd_take_iff:
  assumes "wf_rd r"
  shows "rd_take n r = Inr (bs, r') \<longleftrightarrow> 0 \<le> n \<and> int (length bs) = n \<and> consumed r bs r'"
proof -
  have len: "int (length (rest r)) = int (length (rd_payload r)) - rd_offset r"
    using assms by (auto simp: rest_def wf_rd_def)
  have "rd_take n r = Inr (bs, r') \<longleftrightarrow>
      0 \<le> n \<and> n \<le> int (length (rest r)) \<and> bs = take (nat n) (rest r) \<and> r' = advance (nat n) r"
    using len by (auto simp: rd_take_def Let_def rest_def advance_def)
  also have "\<dots> \<longleftrightarrow> 0 \<le> n \<and> int (length bs) = n \<and> consumed r bs r'"
    using assms by (auto simp: consumed_iff) (metis append_take_drop_id)
  finally show ?thesis .
qed

lemma rd_finish_iff: "wf_rd r \<Longrightarrow> rd_finish r = Inr ((), r') \<longleftrightarrow> r' = r \<and> rest r = []"
  by (auto simp: rd_finish_def rest_def wf_rd_def)

section \<open>The contract of a field\<close>

locale wire_codec =
  fixes put :: "'a \<Rightarrow> writer"
    and get :: "'a parser"
    and enc :: "'a \<Rightarrow> bytes"
    and valid :: "'a \<Rightarrow> bool"
  assumes put_iff: "put v d = Inr d' \<longleftrightarrow> valid v \<and> d' = d @ enc v"
    and get_iff: "wf_rd r \<Longrightarrow> get r = Inr (v, r') \<longleftrightarrow> valid v \<and> consumed r (enc v) r'"
begin

lemma put_valid: "valid v \<Longrightarrow> put v d = Inr (d @ enc v)"
  by (simp add: put_iff)

text \<open>What was written is read back, and what was read is what would be written.\<close>

lemma get_put: "put v [] = Inr bs \<Longrightarrow> get (new_reader (bs @ s)) = Inr (v, advance (length bs) (new_reader (bs @ s)))"
  by (auto simp: put_iff get_iff consumed_new)

lemma put_get: "wf_rd r \<Longrightarrow> get r = Inr (v, r') \<Longrightarrow> \<exists>bs. put v [] = Inr bs \<and> consumed r bs r'"
  by (auto simp: put_iff get_iff)

text \<open>Reading a field in the middle of a payload, and what follows it.\<close>

lemma get_at: "get (reader_at pre suf) = Inr (v, r') \<longleftrightarrow>
    valid v \<and> (\<exists>t. suf = enc v @ t \<and> r' = reader_at (pre @ enc v) t)"
  by (simp add: get_iff consumed_at)

lemma pbind_at: "pbind get f (reader_at pre suf) = Inr q \<longleftrightarrow>
    (\<exists>v t. valid v \<and> suf = enc v @ t \<and> f v (reader_at (pre @ enc v) t) = Inr q)"
  by (cases q) (auto simp: pbind_eq_Inr get_at)

lemma opt_at: "pbind (p_opt c get) f (reader_at pre suf) = Inr q \<longleftrightarrow>
    (\<exists>v t. given v c \<and> pred_option valid v \<and> suf = opt_bytes enc v @ t \<and>
       f v (reader_at (pre @ opt_bytes enc v) t) = Inr q)"
proof (cases c)
  case True
  then show ?thesis
    by (cases q) (auto simp: p_opt_def pbind_eq_Inr get_at pret_eq_Inr option.pred_set Bex_def split_option_ex given_def)
next
  case False
  then show ?thesis by (cases q) (auto simp: p_opt_def pbind_eq_Inr pret_eq_Inr given_def)
qed

lemma put_opt_iff: "w_opt put v d = Inr d' \<longleftrightarrow> pred_option valid v \<and> d' = d @ opt_bytes enc v"
  by (cases v) (auto simp: put_iff)

text \<open>The encoding is prefix-free: a field's end is determined by its bytes.\<close>

lemma enc_prefix_free:
  assumes "valid v" "valid w" "enc v @ s = enc w @ t"
  shows "v = w \<and> s = t"
proof -
  let ?r = "new_reader (enc v @ s)"
  have "get ?r = Inr (v, advance (length (enc v)) ?r)"
    using assms(1) by (auto simp: get_iff consumed_new)
  moreover have "get ?r = Inr (w, advance (length (enc w)) ?r)"
    unfolding assms(3) using assms(2) by (auto simp: get_iff consumed_new)
  ultimately show ?thesis using assms(3) by simp
qed

lemma puts_iff:
  "efold (\<lambda>v. put v) vs d = Inr d' \<longleftrightarrow> list_all valid vs \<and> d' = d @ concat (map enc vs)"
  by (induction vs arbitrary: d) (auto simp: ebind_eq_Inr put_iff)

lemma puts_at: "efold put vs d = Inr d' \<longleftrightarrow> list_all valid vs \<and> d' = d @ concat (map enc vs)"
  using puts_iff by simp

lemma gets_iff:
  "wf_rd r \<Longrightarrow> prepeat n get r = Inr (vs, r') \<longleftrightarrow>
     length vs = n \<and> list_all valid vs \<and> consumed r (concat (map enc vs)) r'"
proof (induction n arbitrary: r vs)
  case 0
  then show ?case by (auto simp: pret_eq_Inr)
next
  case (Suc n)
  show ?case
  proof
    assume "prepeat (Suc n) get r = Inr (vs, r')"
    then obtain v r1 vs' where g: "get r = Inr (v, r1)" and p: "prepeat n get r1 = Inr (vs', r')"
      and vs: "vs = v # vs'"
      by (auto simp: parser_inversions)
    have c: "valid v" "consumed r (enc v) r1" using g Suc.prems by (simp_all add: get_iff)
    then have "wf_rd r1" using consumed_wf by blast
    with p have "length vs' = n" "list_all valid vs'" "consumed r1 (concat (map enc vs')) r'"
      using Suc.IH by blast+
    with c vs show "length vs = Suc n \<and> list_all valid vs \<and> consumed r (concat (map enc vs)) r'"
      by (auto simp: consumed_append)
  next
    assume R: "length vs = Suc n \<and> list_all valid vs \<and> consumed r (concat (map enc vs)) r'"
    then obtain v vs' where vs: "vs = v # vs'" by (cases vs) auto
    with R obtain r1 where c: "consumed r (enc v) r1" "consumed r1 (concat (map enc vs')) r'"
      by (auto simp: consumed_append)
    then have "wf_rd r1" using consumed_wf by blast
    with c R vs have "prepeat n get r1 = Inr (vs', r')" using Suc.IH by auto
    moreover have "get r = Inr (v, r1)" using c R vs Suc.prems by (simp add: get_iff)
    ultimately show "prepeat (Suc n) get r = Inr (vs, r')" by (auto simp: vs parser_inversions)
  qed
qed

lemma pbind_gets_at: "pbind (prepeat n get) f (reader_at pre suf) = Inr q \<longleftrightarrow>
    (\<exists>vs t. length vs = n \<and> list_all valid vs \<and> suf = concat (map enc vs) @ t \<and>
       f vs (reader_at (pre @ concat (map enc vs)) t) = Inr q)"
  by (cases q) (auto simp: pbind_eq_Inr gets_iff consumed_at)

end

section \<open>The field kinds meet the contract\<close>

declare le_bytes.simps [simp del]

lemma le_get_iff:
  assumes "wf_rd r"
  shows "pbind (rd_take (int k)) (\<lambda>b. pret (le_val b)) r = Inr (v, r')
    \<longleftrightarrow> (0 \<le> v \<and> v < 256 ^ k) \<and> consumed r (le_bytes k v) r'"
proof
  assume "pbind (rd_take (int k)) (\<lambda>b. pret (le_val b)) r = Inr (v, r')"
  then obtain b where b: "length b = k" "consumed r b r'" "v = le_val b"
    by (auto simp: parser_inversions rd_take_iff[OF assms])
  then show "(0 \<le> v \<and> v < 256 ^ k) \<and> consumed r (le_bytes k v) r'"
    using le_val_nonneg[of b] le_val_less[of b] le_bytes_le_val[of b] by auto
next
  assume "(0 \<le> v \<and> v < 256 ^ k) \<and> consumed r (le_bytes k v) r'"
  then show "pbind (rd_take (int k)) (\<lambda>b. pret (le_val b)) r = Inr (v, r')"
    by (auto simp: parser_inversions rd_take_iff[OF assms] le_val_le_bytes intro!: exI[of _ "le_bytes k v"])
qed

lemma w_integer_iff: "w_integer v m k = Inr u \<longleftrightarrow> 0 \<le> v \<and> v \<le> m"
  by (auto simp: w_integer_def)

interpretation u8: wire_codec put_u8 rd_u8 "le_bytes 1" "\<lambda>v. 0 \<le> v \<and> v \<le> 255"
  by unfold_locales (use le_get_iff[where k = 1] in \<open>auto simp: put_u8_def ebind_eq_Inr w_integer_iff rd_u8_def\<close>)

interpretation u16: wire_codec put_u16 rd_u16 "le_bytes 2" "\<lambda>v. 0 \<le> v \<and> v \<le> 65535"
  by unfold_locales (use le_get_iff[where k = 2] in \<open>auto simp: put_u16_def ebind_eq_Inr w_integer_iff rd_u16_def\<close>)

interpretation u32: wire_codec put_u32 rd_u32 "le_bytes 4" "\<lambda>v. 0 \<le> v \<and> v \<le> 4294967295"
  by unfold_locales (use le_get_iff[where k = 4] in \<open>auto simp: put_u32_def ebind_eq_Inr w_integer_iff rd_u32_def\<close>)

interpretation u64: wire_codec put_u64 rd_u64 "le_bytes 8" "\<lambda>v. 0 \<le> v \<and> v \<le> 18446744073709551615"
  by unfold_locales (use le_get_iff[where k = 8] in \<open>auto simp: put_u64_def ebind_eq_Inr w_integer_iff rd_u64_def\<close>)

text \<open>A text field of at most \<open>m\<close> encoded bytes whose length prefix has \<open>k\<close> bytes.\<close>

definition text_valid :: "int \<Rightarrow> bool \<Rightarrow> pystr \<Rightarrow> bool" where
  "text_valid m empty_ok s \<longleftrightarrow>
     (case utf8_encode s of None \<Rightarrow> False
      | Some b \<Rightarrow> int (length b) \<le> m \<and> (empty_ok \<or> py_strip s \<noteq> []))"

definition text_enc :: "nat \<Rightarrow> pystr \<Rightarrow> bytes" where
  "text_enc k s = (case utf8_encode s of None \<Rightarrow> [] | Some b \<Rightarrow> le_bytes k (int (length b)) @ b)"

lemma encode_bounded_text_iff:
  "encode_bounded_text v m e = Inr b \<longleftrightarrow>
     (\<exists>s. v = PStr s \<and> text_valid m e s \<and> utf8_encode s = Some b)"
  by (auto simp: encode_bounded_text_def text_valid_def not_less split: pyval.splits option.splits)

lemma py_strip_Nil [simp]: "py_strip [] = []"
  by (simp add: py_strip_def)

lemma utf8_encode_eq_Nil: "utf8_encode s = Some [] \<longleftrightarrow> s = []"
  by (cases s) auto

lemma rd_text_iff:
  assumes "wf_rd r"
  shows "rd_text n m e r = Inr (s, r') \<longleftrightarrow>
    (\<exists>b. utf8_encode s = Some b \<and> n = int (length b) \<and> text_valid m e s \<and> consumed r b r')"
proof -
  have "rd_text n m e r = Inr (s, r') \<longleftrightarrow>
      \<not> (m < n \<or> (n = 0 \<and> \<not> e)) \<and>
      (\<exists>b. rd_take n r = Inr (b, r') \<and> utf8_decode b = Some s \<and> (e \<or> py_strip s \<noteq> []))"
    by (auto simp: rd_text_def pbind_eq_Inr pret_eq_Inr split: option.splits if_splits)
  also have "\<dots> \<longleftrightarrow> (\<exists>b. utf8_encode s = Some b \<and> n = int (length b) \<and> text_valid m e s \<and> consumed r b r')"
  proof -
    have "n = 0 \<longrightarrow> \<not> e \<longrightarrow> py_strip s = []" if "utf8_encode s = Some b" "n = int (length b)" for b
      using that utf8_encode_eq_Nil[of s] by auto
    then show ?thesis
      by (auto simp: rd_take_iff[OF assms] text_valid_def utf8_decode_iff)
  qed
  finally show ?thesis .
qed

lemma put_text16_iff:
  "m \<le> 65535 \<Longrightarrow> put_text16 m e (PStr s) d = Inr d' \<longleftrightarrow> text_valid m e s \<and> d' = d @ text_enc 2 s"
  by (auto simp: put_text16_def ebind_eq_Inr encode_bounded_text_iff u16.put_iff put_raw_def
      text_enc_def text_valid_def split: option.splits)

lemma put_text8_iff:
  "m \<le> 255 \<Longrightarrow> put_text8 m e (PStr s) d = Inr d' \<longleftrightarrow> text_valid m e s \<and> d' = d @ text_enc 1 s"
  by (auto simp: put_text8_def ebind_eq_Inr encode_bounded_text_iff u8.put_iff put_raw_def
      text_enc_def text_valid_def split: option.splits)

lemma put_text_PStr:
  "put_text16 m e v d = Inr d' \<Longrightarrow> \<exists>s. v = PStr s" "put_text8 m e v d = Inr d' \<Longrightarrow> \<exists>s. v = PStr s"
  by (auto simp: put_text16_def put_text8_def ebind_eq_Inr encode_bounded_text_iff)

lemma sized_text_iff:
  assumes wf: "wf_rd r" and m: "m \<le> M"
    and getn: "\<And>n r1. getn r = Inr (n, r1) \<longleftrightarrow> (0 \<le> n \<and> n \<le> M) \<and> consumed r (le_bytes k n) r1"
  shows "pbind getn (\<lambda>n. rd_text n m e) r = Inr (s, r')
    \<longleftrightarrow> text_valid m e s \<and> consumed r (text_enc k s) r'"
proof
  assume "pbind getn (\<lambda>n. rd_text n m e) r = Inr (s, r')"
  then obtain n r1 where n: "consumed r (le_bytes k n) r1" and t: "rd_text n m e r1 = Inr (s, r')"
    by (auto simp: pbind_eq_Inr getn)
  then have "wf_rd r1" using consumed_wf by blast
  with t obtain b where "utf8_encode s = Some b" "n = int (length b)" "text_valid m e s" "consumed r1 b r'"
    by (auto simp: rd_text_iff)
  with n show "text_valid m e s \<and> consumed r (text_enc k s) r'"
    by (auto simp: text_enc_def consumed_append)
next
  assume R: "text_valid m e s \<and> consumed r (text_enc k s) r'"
  then obtain b where b: "utf8_encode s = Some b" "int (length b) \<le> m"
    by (auto simp: text_valid_def split: option.splits)
  with R obtain r1 where c: "consumed r (le_bytes k (int (length b))) r1" "consumed r1 b r'"
    by (auto simp: text_enc_def consumed_append)
  then have "wf_rd r1" using consumed_wf by blast
  then have "rd_text (int (length b)) m e r1 = Inr (s, r')" using b c R by (auto simp: rd_text_iff)
  moreover have "getn r = Inr (int (length b), r1)" using b c m by (simp add: getn)
  ultimately show "pbind getn (\<lambda>n. rd_text n m e) r = Inr (s, r')" by (auto simp: pbind_eq_Inr)
qed

lemma rd_text16_iff:
  "wf_rd r \<Longrightarrow> m \<le> 65535 \<Longrightarrow>
     rd_text16 m e r = Inr (s, r') \<longleftrightarrow> text_valid m e s \<and> consumed r (text_enc 2 s) r'"
  unfolding rd_text16_def by (rule sized_text_iff[OF _ _ u16.get_iff])

lemma rd_text8_iff:
  "wf_rd r \<Longrightarrow> m \<le> 255 \<Longrightarrow>
     rd_text8 m e r = Inr (s, r') \<longleftrightarrow> text_valid m e s \<and> consumed r (text_enc 1 s) r'"
  unfolding rd_text8_def by (rule sized_text_iff[OF _ _ u8.get_iff])

interpretation id16: wire_codec "\<lambda>s. put_text16 256 False (PStr s)" "rd_text16 256 False"
    "text_enc 2" "text_valid 256 False"
  by unfold_locales (simp_all add: put_text16_iff rd_text16_iff)

interpretation reason16: wire_codec "\<lambda>s. put_text16 512 False (PStr s)" "rd_text16 512 False"
    "text_enc 2" "text_valid 512 False"
  by unfold_locales (simp_all add: put_text16_iff rd_text16_iff)

interpretation name8: wire_codec "\<lambda>s. put_text8 128 False (PStr s)" "rd_text8 128 False"
    "text_enc 1" "text_valid 128 False"
  by unfold_locales (simp_all add: put_text8_iff rd_text8_iff)

interpretation version8: wire_codec "\<lambda>s. put_text8 64 False (PStr s)" "rd_text8 64 False"
    "text_enc 1" "text_valid 64 False"
  by unfold_locales (simp_all add: put_text8_iff rd_text8_iff)

interpretation id16_opt: wire_codec "\<lambda>s. put_text16 256 True (PStr s)" "rd_text16 256 True"
    "text_enc 2" "text_valid 256 True"
  by unfold_locales (simp_all add: put_text16_iff rd_text16_iff)

lemma put_raw_iff: "put_raw v (Some n) d = Inr d' \<longleftrightarrow> int (length v) = n \<and> d' = d @ v"
  by (auto simp: put_raw_def)

interpretation raw16: wire_codec "\<lambda>v. put_raw v (Some 16)" "rd_take 16" "\<lambda>v. v" "\<lambda>v. int (length v) = 16"
  by unfold_locales (simp_all add: put_raw_iff rd_take_iff)

interpretation raw17: wire_codec "\<lambda>v. put_raw v (Some 17)" "rd_take 17" "\<lambda>v. v" "\<lambda>v. int (length v) = 17"
  by unfold_locales (simp_all add: put_raw_iff rd_take_iff)

interpretation raw32: wire_codec "\<lambda>v. put_raw v (Some 32)" "rd_take 32" "\<lambda>v. v" "\<lambda>v. int (length v) = 32"
  by unfold_locales (simp_all add: put_raw_iff rd_take_iff)

lemma text_enc_length:
  "text_valid m e s \<Longrightarrow> int (length (text_enc k s)) \<le> int k + m"
  by (auto simp: text_valid_def text_enc_def split: option.splits)

section \<open>Whole payloads\<close>

lemma w_all_iff_Nil: "w_all [] d = Inr d' \<longleftrightarrow> d' = d"
  by auto

lemma w_all_Cons_iff: "w_all (w # ws) d = Inr d' \<longleftrightarrow> (\<exists>m. w d = Inr m \<and> w_all ws m = Inr d')"
  by (auto simp: ebind_eq_Inr)

lemma w_run_iff: "w_run w = Inr p \<longleftrightarrow> w [] = Inr p \<and> int (length p) \<le> 65535"
  by (auto simp: w_run_def w_finish_def ebind_eq_Inr max_payload_bytes_def not_less)

lemma p_run_iff: "p_run p bs = Inr x \<longleftrightarrow> (\<exists>r. p (new_reader bs) = Inr (x, r))"
  by (auto simp: p_run_def ebind_eq_Inr)

lemma consumed_all: "consumed (new_reader p) bs r \<and> rest r = [] \<longleftrightarrow>
    bs = p \<and> r = advance (length p) (new_reader p)"
  by (auto simp: consumed_new rest_advance consumed_def)

lemma rd_finish_at: "rd_finish (reader_at pre suf) = Inr (u, r) \<longleftrightarrow> suf = [] \<and> r = reader_at pre suf"
  by (auto simp: rd_finish_def reader_at_def)

lemma pbind_finish_at: "pbind rd_finish f (reader_at pre suf) = Inr q \<longleftrightarrow>
    suf = [] \<and> f () (reader_at pre suf) = Inr q"
  by (cases q) (auto simp: pbind_eq_Inr rd_finish_at)

lemma pbind_plift: "pbind (plift m) f r = Inr q \<longleftrightarrow> (\<exists>x. m = Inr x \<and> f x r = Inr q)"
  by (cases q) (auto simp: pbind_eq_Inr plift_eq_Inr)

lemma put_text16_any: "m \<le> 65535 \<Longrightarrow> put_text16 m e v d = Inr d' \<longleftrightarrow>
    (\<exists>s. v = PStr s \<and> text_valid m e s \<and> d' = d @ text_enc 2 s)"
  by (metis put_text16_iff put_text_PStr(1))

lemma put_text8_any: "m \<le> 255 \<Longrightarrow> put_text8 m e v d = Inr d' \<longleftrightarrow>
    (\<exists>s. v = PStr s \<and> text_valid m e s \<and> d' = d @ text_enc 1 s)"
  by (metis put_text8_iff put_text_PStr(2))

text \<open>What a payload decoder accepts, field by field, and what a payload encoder writes.\<close>

lemmas wire_gets = u8.pbind_at u16.pbind_at u32.pbind_at u64.pbind_at id16.pbind_at id16_opt.pbind_at
  reason16.pbind_at name8.pbind_at version8.pbind_at raw16.pbind_at raw17.pbind_at raw32.pbind_at
  u32.opt_at u64.opt_at id16.opt_at reason16.opt_at id16.pbind_gets_at pbind_finish_at pbind_plift

lemmas wire_puts = w_run_iff w_all_Cons_iff w_all_iff_Nil u8.put_iff u16.put_iff u32.put_iff u64.put_iff
  put_raw_iff put_text16_any put_text8_any w_lift_iff u32.put_opt_iff u64.put_opt_iff
  id16.put_opt_iff reason16.put_opt_iff

end
