(* ===== verification/Link_Frame.thy ===== *)
theory Link_Frame
  imports Link_Wire
begin

text \<open>
  The frame of FluidLink v2 (\<^verbatim>\<open>FluidLinkV2Frame\<close>, its validation, its 56-byte header and
  its reading from a stream; \<^verbatim>\<open>fluidgateway/fluidlink_v2.py\<close>, with \<^verbatim>\<open>read_exact\<close> and the
  opcode tables of \<^verbatim>\<open>fluidgateway/fluidlink.py\<close>).
\<close>

unbundle bit_operations_syntax

section \<open>Constants\<close>

definition link_magic :: bytes where
  "link_magic = map byte_of (lit ''FLNK'')"

definition link_wire_version :: int where
  "link_wire_version = 2"

definition link_header_size :: int where
  "link_header_size = 56"

definition kind_request :: int where "kind_request = 1"
definition kind_response :: int where "kind_response = 2"

definition flag_ok :: int where "flag_ok = 1"
definition flag_has_session :: int where "flag_has_session = 2"

definition op_hello :: int where "op_hello = 1"
definition op_welcome :: int where "op_welcome = 2"
definition op_runtime_event :: int where "op_runtime_event = 10"
definition op_runtime_decision :: int where "op_runtime_decision = 11"
definition op_ping :: int where "op_ping = 20"
definition op_pong :: int where "op_pong = 21"
definition op_goodbye :: int where "op_goodbye = 30"
definition op_error :: int where "op_error = 255"

definition ev_session :: int where "ev_session = 100"
definition ev_frame :: int where "ev_frame = 101"
definition ev_resource :: int where "ev_resource = 102"
definition ev_operation :: int where "ev_operation = 103"
definition ev_state :: int where "ev_state = 104"

definition is_event_opcode :: "int \<Rightarrow> bool" where
  "is_event_opcode n \<longleftrightarrow> n = ev_session \<or> n = ev_frame \<or> n = ev_resource \<or> n = ev_operation \<or> n = ev_state"

definition dec_execute :: int where "dec_execute = 0"
definition dec_unknown :: int where "dec_unknown = 255"

lemmas link_consts = kind_request_def kind_response_def flag_ok_def flag_has_session_def
  op_hello_def op_welcome_def op_runtime_event_def op_runtime_decision_def op_ping_def op_pong_def
  op_goodbye_def op_error_def ev_session_def ev_frame_def ev_resource_def ev_operation_def
  ev_state_def dec_execute_def dec_unknown_def link_wire_version_def link_header_size_def

section \<open>Frames\<close>

record frame =
  fr_kind :: int
  fr_opcode :: int
  fr_subject :: int
  fr_decision :: int
  fr_flags :: int
  fr_sequence :: int
  fr_message_id :: bytes
  fr_session_id :: "bytes option"
  fr_payload :: bytes

definition any_byte :: "bytes \<Rightarrow> bool" where
  "any_byte bs \<longleftrightarrow> list_ex (\<lambda>b. b \<noteq> 0) bs"

definition frame_ok :: "frame \<Rightarrow> bool" where
  "frame_ok f \<longleftrightarrow> fr_flags f AND flag_ok \<noteq> 0"

definition wire_size :: "frame \<Rightarrow> int" where
  "wire_size f = link_header_size + int (length (fr_payload f))"

definition frame_kind :: "int \<Rightarrow> int res" where
  "frame_kind k = (if k = kind_request \<or> k = kind_response then Inr k
     else protocol_error ''invalid_kind''
            (lit ''Unsupported FluidLink frame kind '' @ show_int k @ lit ''.''))"

fun byte_fields_ok :: "(string \<times> int) list \<Rightarrow> unit res" where
  "byte_fields_ok [] = Inr ()"
| "byte_fields_ok ((name, value) # xs) =
     (if \<not> (0 \<le> value \<and> value \<le> 255)
      then protocol_error (''invalid_'' @ name)
             (lit ''FluidLink '' @ lit name @ lit '' must fit in one byte.'')
      else byte_fields_ok xs)"

definition id_invalid :: "bytes \<Rightarrow> bool" where
  "id_invalid bs \<longleftrightarrow> length bs \<noteq> 16 \<or> \<not> any_byte bs"

definition validate_frame :: "frame \<Rightarrow> unit res" where
  "validate_frame f =
     ebind (frame_kind (fr_kind f)) (\<lambda>kind.
     if max_payload_bytes < int (length (fr_payload f))
     then protocol_error ''payload_too_large'' (lit ''FluidLink v2 payload exceeds the 65,535-byte limit.'')
     else if id_invalid (fr_message_id f)
     then protocol_error ''invalid_message_id'' (lit ''FluidLink message_id must contain 16 nonzero bytes.'')
     else if \<not> (1 \<le> fr_sequence f \<and> fr_sequence f \<le> 18446744073709551615)
     then protocol_error ''invalid_sequence''
            (lit ''FluidLink sequence must be an unsigned nonzero 64-bit integer.'')
     else ebind (byte_fields_ok [(''opcode'', fr_opcode f), (''subject_opcode'', fr_subject f),
                  (''decision_opcode'', fr_decision f), (''flags'', fr_flags f)]) (\<lambda>_.
     if fr_flags f AND NOT (flag_ok OR flag_has_session) \<noteq> 0
     then protocol_error ''invalid_flags'' (lit ''FluidLink v2 frame contains unknown flags.'')
     else if (fr_flags f AND flag_has_session \<noteq> 0) \<noteq> (fr_session_id f \<noteq> None)
     then protocol_error ''invalid_session_flag'' (lit ''FluidLink session flag and session_id disagree.'')
     else if (case fr_session_id f of None \<Rightarrow> False | Some sid \<Rightarrow> id_invalid sid)
     then protocol_error ''invalid_session_id'' (lit ''FluidLink session_id must contain 16 nonzero bytes.'')
     else if kind = kind_request \<and> frame_ok f
     then protocol_error ''invalid_flags'' (lit ''FluidLink requests cannot carry the OK flag.'')
     else Inr ()))"

definition pack_header :: "frame \<Rightarrow> bytes \<Rightarrow> bytes" where
  "pack_header f session =
     link_magic @ le_bytes 1 link_wire_version @ le_bytes 1 (fr_kind f) @ le_bytes 1 (fr_opcode f)
     @ le_bytes 1 (fr_subject f) @ le_bytes 1 (fr_decision f) @ le_bytes 1 (fr_flags f)
     @ le_bytes 2 0 @ le_bytes 8 (fr_sequence f) @ fr_message_id f @ session
     @ le_bytes 4 (int (length (fr_payload f)))"

definition encode_frame :: "frame \<Rightarrow> bytes res" where
  "encode_frame f =
     ebind (validate_frame f) (\<lambda>_.
       let session = (case fr_session_id f of Some (b # bs) \<Rightarrow> b # bs | _ \<Rightarrow> replicate 16 0) in
       Inr (pack_header f session @ fr_payload f))"

text \<open>The slice of \<open>n\<close> bytes at offset \<open>i\<close>, as \<^verbatim>\<open>struct.unpack\<close> cuts the header.\<close>

definition slice :: "nat \<Rightarrow> nat \<Rightarrow> bytes \<Rightarrow> bytes" where
  "slice i n bs = take n (drop i bs)"

definition decode_frame :: "bytes \<Rightarrow> frame res" where
  "decode_frame data =
     (if int (length data) < link_header_size
      then protocol_error ''truncated_frame'' (lit ''FluidLink v2 frame is shorter than its 56-byte header.'')
      else
      let magic = slice 0 4 data; wire_version = le_val (slice 4 1 data);
          kind_value = le_val (slice 5 1 data); opcode = le_val (slice 6 1 data);
          subject = le_val (slice 7 1 data); decision = le_val (slice 8 1 data);
          flags = le_val (slice 9 1 data); reserved = le_val (slice 10 2 data);
          sequence = le_val (slice 12 8 data); message_id = slice 20 16 data;
          session_bytes = slice 36 16 data; payload_size = le_val (slice 52 4 data);
          expected_size = link_header_size + payload_size
      in if magic \<noteq> link_magic
         then protocol_error ''invalid_magic'' (lit ''Invalid FluidLink magic.'')
         else if wire_version \<noteq> link_wire_version
         then protocol_error ''unsupported_wire_version''
                (lit ''Unsupported FluidLink wire version '' @ show_int wire_version @ lit ''.'')
         else if reserved \<noteq> 0
         then protocol_error ''invalid_reserved_bits'' (lit ''FluidLink reserved header bits must be zero.'')
         else if max_payload_bytes < payload_size
         then protocol_error ''payload_too_large'' (lit ''FluidLink v2 payload exceeds the 65,535-byte limit.'')
         else if int (length data) \<noteq> expected_size
         then protocol_error ''frame_size_mismatch''
                (lit ''FluidLink frame declares '' @ show_int expected_size @ lit '' bytes, received ''
                 @ show_int (int (length data)) @ lit ''.'')
         else ebind (frame_kind kind_value) (\<lambda>kind.
           let session_id = (if flags AND flag_has_session \<noteq> 0 then Some session_bytes else None);
               f = \<lparr>fr_kind = kind, fr_opcode = opcode, fr_subject = subject, fr_decision = decision,
                    fr_flags = flags, fr_sequence = sequence, fr_message_id = message_id,
                    fr_session_id = session_id, fr_payload = drop 56 data\<rparr>
           in ebind (validate_frame f) (\<lambda>_.
              if session_id = None \<and> any_byte session_bytes
              then protocol_error ''invalid_session_flag''
                     (lit ''FluidLink session bytes require the HAS_SESSION flag.'')
              else Inr f)))"

section \<open>Reading from a stream\<close>

text \<open>
  A byte stream as the packets that are going to arrive. \<^verbatim>\<open>stream.read(n)\<close> hands out at
  most \<open>n\<close> bytes of the next packet; no packet left, or an empty one, is the end of the
  stream (\<^verbatim>\<open>b""\<close>).
\<close>

type_synonym stream = "bytes list"

fun stream_read :: "nat \<Rightarrow> stream \<Rightarrow> bytes \<times> stream" where
  "stream_read n [] = ([], [])"
| "stream_read n (p # ps) = (if length p \<le> n then (p, ps) else (take n p, drop n p # ps))"

lemma stream_read_length: "stream_read n st = (c, st') \<Longrightarrow> length c \<le> n"
  by (cases st) (auto split: if_splits)

definition truncated :: "'a res" where
  "truncated = protocol_error ''truncated_frame'' (lit ''FluidLink peer closed before the complete frame arrived.'')"

function read_exact_loop :: "nat \<Rightarrow> nat \<Rightarrow> bool \<Rightarrow> bytes \<Rightarrow> stream \<Rightarrow> bytes option res \<times> stream" where
  "read_exact_loop n remaining allow_eof chunks st =
     (if remaining = 0 then (Inr (Some chunks), st)
      else case stream_read remaining st of (chunk, st') \<Rightarrow>
        if chunk = [] then
          (if allow_eof \<and> remaining = n then (Inr None, st') else (truncated, st'))
        else read_exact_loop n (remaining - length chunk) allow_eof (chunks @ chunk) st')"
  by pat_completeness auto
termination
  by (relation "measure (\<lambda>(n, remaining, _). remaining)") (auto dest: stream_read_length)

declare read_exact_loop.simps [simp del]

definition read_exact :: "stream \<Rightarrow> nat \<Rightarrow> bool \<Rightarrow> bytes option res \<times> stream" where
  "read_exact st n allow_eof = read_exact_loop n n allow_eof [] st"

definition read_frame_tail :: "bytes \<Rightarrow> stream \<Rightarrow> frame option res \<times> stream" where
  "read_frame_tail prefix st =
     (if length prefix < 4 \<or> 56 < length prefix \<or> take 4 prefix \<noteq> link_magic
      then (protocol_error ''truncated_frame'' (lit ''FluidLink v2 header prefix is invalid.''), st)
      else case read_exact st (56 - length prefix) False of
        (Inl e, st1) \<Rightarrow> (Inl e, st1)
      | (Inr tail, st1) \<Rightarrow>
          let header = prefix @ (case tail of Some b \<Rightarrow> b | None \<Rightarrow> []);
              payload_size = le_val (slice 52 4 header)
          in if max_payload_bytes < payload_size
             then (protocol_error ''payload_too_large''
                     (lit ''FluidLink v2 payload exceeds the 65,535-byte limit.''), st1)
             else case read_exact st1 (nat payload_size) False of
               (Inl e, st2) \<Rightarrow> (Inl e, st2)
             | (Inr body, st2) \<Rightarrow>
                 (emap Some (decode_frame (header @ (case body of Some b \<Rightarrow> b | None \<Rightarrow> []))), st2))"

definition read_frame :: "stream \<Rightarrow> bytes option \<Rightarrow> frame option res \<times> stream" where
  "read_frame st prefix =
     (case prefix of
        Some p \<Rightarrow> read_frame_tail p st
      | None \<Rightarrow> (case read_exact st 4 True of
          (Inl e, st') \<Rightarrow> (Inl e, st')
        | (Inr None, st') \<Rightarrow> (Inr None, st')
        | (Inr (Some p), st') \<Rightarrow> read_frame_tail p st'))"

section \<open>Validity, and the codec as a bijection between valid frames and their bytes\<close>

definition frame_valid :: "frame \<Rightarrow> bool" where
  "frame_valid f \<longleftrightarrow>
     (fr_kind f = kind_request \<or> fr_kind f = kind_response) \<and>
     int (length (fr_payload f)) \<le> max_payload_bytes \<and> \<not> id_invalid (fr_message_id f) \<and>
     1 \<le> fr_sequence f \<and> fr_sequence f \<le> 18446744073709551615 \<and>
     0 \<le> fr_opcode f \<and> fr_opcode f \<le> 255 \<and> 0 \<le> fr_subject f \<and> fr_subject f \<le> 255 \<and>
     0 \<le> fr_decision f \<and> fr_decision f \<le> 255 \<and> 0 \<le> fr_flags f \<and> fr_flags f \<le> 255 \<and>
     fr_flags f AND NOT (flag_ok OR flag_has_session) = 0 \<and>
     (fr_flags f AND flag_has_session \<noteq> 0) = (fr_session_id f \<noteq> None) \<and>
     (\<forall>sid. fr_session_id f = Some sid \<longrightarrow> \<not> id_invalid sid) \<and>
     (fr_kind f = kind_request \<longrightarrow> \<not> frame_ok f)"

lemma validate_frame_iff: "validate_frame f = Inr () \<longleftrightarrow> frame_valid f"
  unfolding validate_frame_def frame_valid_def frame_kind_def
  by (cases "fr_session_id f") (auto simp: ebind_eq_Inr not_less)

lemma frame_valid_ids:
  assumes "frame_valid f"
  shows "length (fr_message_id f) = 16" "fr_session_id f = Some sid \<Longrightarrow> length sid = 16 \<and> any_byte sid"
  using assms by (auto simp: frame_valid_def id_invalid_def)

definition session_field :: "frame \<Rightarrow> bytes" where
  "session_field f = (case fr_session_id f of Some sid \<Rightarrow> sid | None \<Rightarrow> replicate 16 0)"

lemma encode_frame_iff:
  "encode_frame f = Inr bs \<longleftrightarrow> frame_valid f \<and> bs = pack_header f (session_field f) @ fr_payload f"
  using frame_valid_ids(2)[of f]
  by (auto simp: encode_frame_def ebind_eq_Inr validate_frame_iff session_field_def any_byte_def
      split: option.splits list.splits)

lemma slice_append_left: "i + n \<le> length a \<Longrightarrow> slice i n (a @ b) = slice i n a"
  by (simp add: slice_def)

lemma slice_append_right: "length a \<le> i \<Longrightarrow> slice i n (a @ b) = slice (i - length a) n b"
  by (simp add: slice_def)

lemma slice_here: "length a = n \<Longrightarrow> slice 0 n (a @ b) = a" "length a = n \<Longrightarrow> slice 0 n a = a"
  by (simp_all add: slice_def)

lemma length_slice: "i + n \<le> length bs \<Longrightarrow> length (slice i n bs) = n"
  by (simp add: slice_def)

lemma slice_join: "slice i n bs @ drop (i + n) bs = drop i bs"
  by (metis append_take_drop_id drop_drop add.commute slice_def)

lemma length_link_magic [simp]: "length link_magic = 4"
  by (simp add: link_magic_def lit_def)

lemma slice_skip:
  "length a = n \<Longrightarrow> slice (n + i) m (a @ b) = slice i m b"
  by (simp add: slice_def)

lemma any_byte_zeros [simp]: "\<not> any_byte (replicate n 0)"
  by (simp add: any_byte_def list_ex_iff)

lemma not_any_byte: "\<not> any_byte bs \<Longrightarrow> bs = replicate (length bs) 0"
  by (auto simp: any_byte_def list_ex_iff replicate_eqI)

lemma le_val_byte: "0 \<le> n \<Longrightarrow> n \<le> 255 \<Longrightarrow> le_val (le_bytes 1 n) = n"
  by (simp add: le_val_le_bytes)

lemma header_fields:
  fixes p :: bytes
  assumes s: "length s = 16" and v: "frame_valid f"
  defines "h \<equiv> pack_header f s @ p"
  shows "slice 0 4 h = link_magic" "slice 4 1 h = le_bytes 1 link_wire_version"
    "slice 5 1 h = le_bytes 1 (fr_kind f)" "slice 6 1 h = le_bytes 1 (fr_opcode f)"
    "slice 7 1 h = le_bytes 1 (fr_subject f)" "slice 8 1 h = le_bytes 1 (fr_decision f)"
    "slice 9 1 h = le_bytes 1 (fr_flags f)" "slice 10 2 h = le_bytes 2 0"
    "slice 12 8 h = le_bytes 8 (fr_sequence f)" "slice 20 16 h = fr_message_id f"
    "slice 36 16 h = s" "slice 52 4 h = le_bytes 4 (int (length (fr_payload f)))"
    "drop 56 h = p" "length (pack_header f s) = 56"
  using s frame_valid_ids(1)[OF v]
  by (simp_all add: h_def pack_header_def slice_append_left slice_append_right slice_here)

lemma decode_encode_frame:
  assumes "encode_frame f = Inr bs"
  shows "decode_frame bs = Inr f"
proof -
  let ?s = "session_field f"
  have v: "frame_valid f" and bs: "bs = pack_header f ?s @ fr_payload f"
    using assms by (auto simp: encode_frame_iff)
  have s: "length ?s = 16" using frame_valid_ids(2)[OF v] by (auto simp: session_field_def split: option.splits)
  note h = header_fields(1-13)[OF s v, where p = "fr_payload f", folded bs]
  have len: "length bs = 56 + length (fr_payload f)" using header_fields(14)[OF s v] bs by simp
  note fv = v[unfolded frame_valid_def]
  have kind: "frame_kind (fr_kind f) = Inr (fr_kind f)" using fv by (auto simp: frame_kind_def)
  have pl: "int (length (fr_payload f)) \<le> 65535" using fv by (simp add: max_payload_bytes_def)
  have vals: "le_val (le_bytes 1 link_wire_version) = link_wire_version" "le_val (le_bytes 1 (fr_kind f)) = fr_kind f"
    "le_val (le_bytes 1 (fr_opcode f)) = fr_opcode f" "le_val (le_bytes 1 (fr_subject f)) = fr_subject f"
    "le_val (le_bytes 1 (fr_decision f)) = fr_decision f" "le_val (le_bytes 1 (fr_flags f)) = fr_flags f"
    "le_val (le_bytes 2 0) = 0" "le_val (le_bytes 8 (fr_sequence f)) = fr_sequence f"
    "le_val (le_bytes 4 (int (length (fr_payload f)))) = int (length (fr_payload f))"
    using fv pl by (auto simp: le_val_le_bytes link_consts)
  have sid: "(if fr_flags f AND flag_has_session \<noteq> 0 then Some ?s else None) = fr_session_id f"
    using fv by (auto simp: session_field_def)
  have nosid: "\<not> (fr_session_id f = None \<and> any_byte ?s)" by (auto simp: session_field_def)
  have rf: "\<lparr>fr_kind = fr_kind f, fr_opcode = fr_opcode f, fr_subject = fr_subject f,
      fr_decision = fr_decision f, fr_flags = fr_flags f, fr_sequence = fr_sequence f,
      fr_message_id = fr_message_id f, fr_session_id = fr_session_id f, fr_payload = fr_payload f\<rparr> = f"
    by simp
  have val: "validate_frame f = Inr ()" using v by (simp add: validate_frame_iff)
  show ?thesis
    unfolding decode_frame_def h(1-13) vals Let_def kind ebind_Inr sid rf val
    using len pl nosid by (auto simp: link_header_size_def max_payload_bytes_def)
qed

lemma slices_concat:
  "56 \<le> length bs \<Longrightarrow> bs = slice 0 4 bs @ slice 4 1 bs @ slice 5 1 bs @ slice 6 1 bs @ slice 7 1 bs
     @ slice 8 1 bs @ slice 9 1 bs @ slice 10 2 bs @ slice 12 8 bs @ slice 20 16 bs @ slice 36 16 bs
     @ slice 52 4 bs @ drop 56 bs"
  using slice_join[of 52 4 bs] slice_join[of 36 16 bs] slice_join[of 20 16 bs] slice_join[of 12 8 bs]
    slice_join[of 10 2 bs] slice_join[of 9 1 bs] slice_join[of 8 1 bs] slice_join[of 7 1 bs]
    slice_join[of 6 1 bs] slice_join[of 5 1 bs] slice_join[of 4 1 bs] slice_join[of 0 4 bs]
  by simp

lemma le_bytes_slice:
  "i + n \<le> length bs \<Longrightarrow> le_bytes n (le_val (slice i n bs)) = slice i n bs"
  using le_bytes_le_val[of "slice i n bs"] by (simp add: length_slice)

lemma encode_decode_frame:
  assumes "decode_frame bs = Inr f"
  shows "encode_frame f = Inr bs"
proof -
  have len: "56 \<le> length bs"
    using assms by (auto simp: decode_frame_def link_header_size_def split: if_splits)
  note d = assms[unfolded decode_frame_def Let_def]
  let ?sb = "slice 36 16 bs"
  have hd: "slice 0 4 bs = link_magic" "le_val (slice 4 1 bs) = link_wire_version"
     "le_val (slice 10 2 bs) = 0" "int (length bs) = 56 + le_val (slice 52 4 bs)"
    and v: "frame_valid f"
    and z: "fr_session_id f = None \<longrightarrow> \<not> any_byte ?sb"
    and f: "fr_kind f = le_val (slice 5 1 bs)" "fr_opcode f = le_val (slice 6 1 bs)"
     "fr_subject f = le_val (slice 7 1 bs)" "fr_decision f = le_val (slice 8 1 bs)"
     "fr_flags f = le_val (slice 9 1 bs)" "fr_sequence f = le_val (slice 12 8 bs)"
     "fr_message_id f = slice 20 16 bs" "fr_payload f = drop 56 bs"
     "fr_session_id f = (if le_val (slice 9 1 bs) AND flag_has_session \<noteq> 0 then Some ?sb else None)"
    using d by (auto simp: ebind_eq_Inr validate_frame_iff frame_kind_def link_header_size_def
        split: if_splits)
  have s: "session_field f = ?sb"
    using z len f(9) not_any_byte[of ?sb] by (auto simp: session_field_def length_slice split: option.splits)
  have "int (length (fr_payload f)) = le_val (slice 52 4 bs)" using hd(4) len f(8) by simp
  then have p: "pack_header f (session_field f) @ fr_payload f = bs"
    unfolding pack_header_def s f(1-8) hd(2)[symmetric] hd(3)[symmetric] hd(1)[symmetric]
    using slices_concat[OF len] len by (simp add: le_bytes_slice f(8))
  with v show ?thesis by (simp add: encode_frame_iff)
qed

text \<open>C2: The frame codec is a bijection between the frames that pass validation and the
  byte strings the decoder accepts: decoding succeeds with a frame exactly on that frame's
  encoding.\<close>

theorem frame_codec_bijective: "decode_frame bs = Inr f \<longleftrightarrow> encode_frame f = Inr bs"
  using decode_encode_frame encode_decode_frame by blast

section \<open>Reading does not depend on how the bytes arrive\<close>

definition live :: "stream \<Rightarrow> bool" where
  "live st \<longleftrightarrow> list_all (\<lambda>p. p \<noteq> []) st"

lemma stream_read_live:
  assumes "live st" "0 < n" "stream_read n st = (c, st')"
  shows "live st' \<and> concat st = c @ concat st' \<and> (c = [] \<longleftrightarrow> st = [])"
  using assms by (cases st) (auto simp: live_def split: if_splits)

lemma read_exact_loop_enough:
  assumes "live st" "m \<le> length (concat st)"
  shows "\<exists>st'. read_exact_loop n m a acc st = (Inr (Some (acc @ take m (concat st))), st')
    \<and> live st' \<and> concat st' = drop m (concat st)"
  using assms
proof (induction n m a acc st rule: read_exact_loop.induct)
  case (1 n m a acc st)
  show ?case
  proof (cases "m = 0")
    case True
    then show ?thesis using 1 by (subst read_exact_loop.simps) simp
  next
    case False
    obtain c st1 where r: "stream_read m st = (c, st1)" by force
    have c: "live st1" "concat st = c @ concat st1" "c = [] \<longleftrightarrow> st = []" "length c \<le> m"
      using stream_read_live[OF "1.prems"(1) _ r] stream_read_length[OF r] False by auto
    have ne: "c \<noteq> []" using c(3) "1.prems"(2) False by auto
    have "m - length c \<le> length (concat st1)" using "1.prems"(2) c by simp
    from "1.IH"[OF False r[symmetric] ne c(1) this] c False ne r show ?thesis
      by (subst read_exact_loop.simps) auto
  qed
qed

lemma read_exact_loop_short:
  assumes "live st" "length (concat st) < m" "m \<le> n"
  shows "fst (read_exact_loop n m a acc st) = (if concat st = [] \<and> a \<and> m = n then Inr None else truncated)"
  using assms
proof (induction n m a acc st rule: read_exact_loop.induct)
  case (1 n m a acc st)
  obtain c st1 where r: "stream_read m st = (c, st1)" by force
  have m: "m \<noteq> 0" using "1.prems" by auto
  have c: "live st1" "concat st = c @ concat st1" "c = [] \<longleftrightarrow> st = []" "length c \<le> m"
    using stream_read_live[OF "1.prems"(1) _ r] stream_read_length[OF r] m by auto
  show ?case
  proof (cases "c = []")
    case True
    then show ?thesis using c m r by (subst read_exact_loop.simps) auto
  next
    case False
    have "length (concat st1) < m - length c" "m - length c \<le> n" "m - length c < n"
    proof -
      have "0 < length c" using False by simp
      then show "length (concat st1) < m - length c" "m - length c \<le> n" "m - length c < n"
        using "1.prems"(2,3) c(2) m by (simp_all, linarith+)
    qed
    from "1.IH"[OF m r[symmetric] False c(1) this(1,2)] this(3) c m False r show ?thesis
      by (subst read_exact_loop.simps) auto
  qed
qed

lemma read_exact_enough:
  assumes "live st" "m \<le> length (concat st)"
  shows "\<exists>st'. read_exact st m a = (Inr (Some (take m (concat st))), st') \<and> live st' \<and> concat st' = drop m (concat st)"
  using read_exact_loop_enough[OF assms, of m a "[]"] by (simp add: read_exact_def)

lemma read_exact_short:
  "live st \<Longrightarrow> length (concat st) < m \<Longrightarrow>
     fst (read_exact st m a) = (if concat st = [] \<and> a then Inr None else truncated)"
  using read_exact_loop_short[of st m m a "[]"] by (simp add: read_exact_def)

lemma encode_frame_length:
  assumes "encode_frame f = Inr bs"
  shows "length bs = 56 + length (fr_payload f)" "take 4 bs = link_magic"
    "le_val (slice 52 4 bs) = int (length (fr_payload f))" "length (fr_payload f) \<le> 65535"
proof -
  have d: "decode_frame bs = Inr f" using assms by (rule decode_encode_frame)
  have len: "56 \<le> length bs"
    using d by (auto simp: decode_frame_def link_header_size_def split: if_splits)
  note d' = d[unfolded decode_frame_def Let_def]
  have *: "slice 0 4 bs = link_magic" "int (length bs) = 56 + le_val (slice 52 4 bs)"
     "fr_payload f = drop 56 bs"  "le_val (slice 52 4 bs) \<le> 65535"
    using d' by (auto simp: ebind_eq_Inr link_header_size_def max_payload_bytes_def split: if_splits)
  then show "length bs = 56 + length (fr_payload f)" "take 4 bs = link_magic" 
     "le_val (slice 52 4 bs) = int (length (fr_payload f))" "length (fr_payload f) \<le> 65535"
    using len by (auto simp: slice_def)
qed

text \<open>C26: Reading a frame from a stream does not depend on how its bytes are cut into
  packets: whatever the non-empty packets that carry the encoding of a frame and what
  follows it, the frame is read, and exactly what follows it is left on the stream.\<close>

theorem read_frame_packets:
  assumes enc: "encode_frame f = Inr bs" and live: "live st" and st: "concat st = bs @ later"
  shows "\<exists>st'. read_frame st None = (Inr (Some f), st') \<and> live st' \<and> concat st' = later"
proof -
  note len = encode_frame_length[OF enc]
  obtain s1 where r1: "read_exact st 4 True = (Inr (Some (take 4 bs)), s1)"
    and s1: "live s1" "concat s1 = drop 4 bs @ later"
    using read_exact_enough[OF live, of 4 True] len st by auto
  obtain s2 where r2: "read_exact s1 52 False = (Inr (Some (take 52 (drop 4 bs))), s2)"
    and s2: "live s2" "concat s2 = drop 56 bs @ later"
    using read_exact_enough[OF s1(1), of 52 False] len s1(2) by auto
  obtain s3 where r3: "read_exact s2 (length (fr_payload f)) False = (Inr (Some (drop 56 bs)), s3)"
    and s3: "live s3" "concat s3 = later"
    using read_exact_enough[OF s2(1), of "length (fr_payload f)" False] len s2(2) by auto
  have hd: "link_magic @ take 52 (drop 4 bs) = take 56 bs"
    using take_add[of 4 52 bs] len(2) by simp
  have "slice 52 4 (take 56 bs) = slice 52 4 bs" by (simp add: slice_def drop_take)
  then have ps: "le_val (slice 52 4 (take 56 bs)) = int (length (fr_payload f))" using len by simp
  have l4: "length (take 4 bs) = 4" "take 4 (take 4 bs) = link_magic" using len by auto
  have "read_frame_tail (take 4 bs) s1 = (emap Some (decode_frame bs), s3)"
    using r2 r3 ps len by (simp add: read_frame_tail_def hd max_payload_bytes_def Let_def)
  then show ?thesis using r1 s3 decode_encode_frame[OF enc] by (simp add: read_frame_def)
qed

text \<open>C27: When the peer closes after a strict prefix of a frame, the reader reports the end of
  the stream if nothing had arrived, and a truncated frame otherwise.\<close>

theorem read_frame_cut:
  assumes enc: "encode_frame f = Inr bs" and live: "live st" and cut: "bs = concat st @ c" "c \<noteq> []"
  shows "fst (read_frame st None) = (if concat st = [] then Inr None else truncated)"
proof -
  note len = encode_frame_length[OF enc]
  let ?d = "concat st"
  have dl: "length ?d < length bs" using cut by simp
  have dt: "?d = take (length ?d) bs" using cut by simp
  show ?thesis
  proof (cases "length ?d < 4")
    case True
    obtain q s where q: "read_exact st 4 True = (q, s)" by force
    have "q = (if ?d = [] then Inr None else truncated)"
      using read_exact_short[OF live True, of True] q by simp
    then show ?thesis by (auto simp: read_frame_def q truncated_def protocol_error_def)
  next
    case False
    obtain s1 where r1: "read_exact st 4 True = (Inr (Some (take 4 ?d)), s1)"
      and s1: "live s1" "concat s1 = drop 4 ?d"
      using read_exact_enough[OF live, of 4 True] False by auto
    have l4: "length (take 4 ?d) = 4" "take 4 ?d = link_magic"
      using False len(2) cut(1) by auto
    have ne: "?d \<noteq> []" using False by (metis list.size(3) zero_less_numeral)
    show ?thesis
    proof (cases "length ?d < 56")
      case True
      obtain q s where q: "read_exact s1 52 False = (q, s)" by force
      have "q = truncated" using read_exact_short[OF s1(1), of 52 False] q s1(2) True False by auto
      then show ?thesis using r1 l4 q ne
        by (simp add: read_frame_def read_frame_tail_def truncated_def protocol_error_def)
    next
      case F: False
      obtain s2 where r2: "read_exact s1 52 False = (Inr (Some (take 52 (drop 4 ?d))), s2)"
        and s2: "live s2" "concat s2 = drop 56 ?d"
      proof -
        have "52 \<le> length (concat s1)" unfolding s1(2) length_drop using F by linarith
        then show thesis using that read_exact_enough[OF s1(1), of 52 False] s1(2) by auto
      qed
      have hd: "link_magic @ take 52 (drop 4 ?d) = take 56 ?d"
        using take_add[of 4 52 ?d] l4(2) by simp
      have "slice 52 4 (take 56 ?d) = slice 52 4 bs"
        using F cut(1) by (simp add: slice_def drop_take)
      then have ps: "le_val (slice 52 4 (take 56 ?d)) = int (length (fr_payload f))" using len by simp
      obtain q s where q: "read_exact s2 (length (fr_payload f)) False = (q, s)" by force
      have "q = truncated"
        using read_exact_short[OF s2(1), of "length (fr_payload f)" False] q s2(2) dl len(1) F by auto
      then show ?thesis using r1 r2 l4 q ne hd ps len(4)
        by (simp add: Let_def read_frame_def read_frame_tail_def truncated_def protocol_error_def max_payload_bytes_def)
    qed
  qed
qed
text \<open>A concrete frame: a ping of a negotiated session.\<close>

definition ping_sample :: frame where
  "ping_sample = \<lparr>fr_kind = 1, fr_opcode = 20, fr_subject = 0, fr_decision = 0, fr_flags = 2,
     fr_sequence = 2, fr_message_id = replicate 16 1, fr_session_id = Some (replicate 16 7),
     fr_payload = [2, 104, 105]\<rparr>"

definition ping_bytes :: bytes where
  "ping_bytes = pack_header ping_sample (replicate 16 7) @ [2, 104, 105]"

lemma ping_encodes: "encode_frame ping_sample = Inr ping_bytes"
  by code_simp

lemma read_frame_packets_witness:
  "\<exists>st'. read_frame [take 10 ping_bytes, drop 10 ping_bytes @ [1, 2]] None = (Inr (Some ping_sample), st')
     \<and> live st' \<and> concat st' = [1, 2]"
proof (rule read_frame_packets[OF ping_encodes])
  show "live [take 10 ping_bytes, drop 10 ping_bytes @ [1, 2]]" by code_simp
qed simp

lemma read_frame_cut_witness: "fst (read_frame [take 30 ping_bytes] None) = truncated"
proof -
  have "live [take 30 ping_bytes]" "drop 30 ping_bytes \<noteq> []" "concat [take 30 ping_bytes] \<noteq> []"
    by code_simp+
  then show ?thesis
    using read_frame_cut[OF ping_encodes, of "[take 30 ping_bytes]" "drop 30 ping_bytes"] by simp
qed

end
