(* ===== verification/Link_Fields.thy ===== *)
theory Link_Fields
  imports Link_Frame
begin

text \<open>
  The conversions between payload values and wire fields at the end of
  \<^verbatim>\<open>fluidgateway/fluidlink_v2.py\<close>: the enumeration tables, capability masks, the
  fixed-point time and memory fields (microseconds and bytes on the wire, milliseconds and
  mebibytes in events), batch identities, optional and defaulted fields.
  \<open>time_field_roundtrip\<close> and \<open>memory_field_roundtrip\<close> show that a field read from the
  wire as a float is written back as the same integer, through the float's shortest
  decimal representation, the Decimal multiplication and the half-up rounding.
\<close>

section \<open>Limits and tables\<close>

definition max_peer_name_bytes :: int where "max_peer_name_bytes = 128"
definition max_peer_version_bytes :: int where "max_peer_version_bytes = 64"
definition max_nonce_bytes :: int where "max_nonce_bytes = 128"
definition max_identifier_bytes :: int where "max_identifier_bytes = 256"
definition max_reason_bytes :: int where "max_reason_bytes = 512"
definition max_aliases :: nat where "max_aliases = 32"
definition max_dependencies :: nat where "max_dependencies = 32"
definition max_batch_operations :: int where "max_batch_operations = 256"
definition mebibyte :: int where "mebibyte = 1048576"
definition u32_max :: int where "u32_max = 4294967295"
definition u64_max :: int where "u64_max = 18446744073709551615"

lemmas limit_defs = max_peer_name_bytes_def max_peer_version_bytes_def max_nonce_bytes_def
  max_identifier_bytes_def max_reason_bytes_def max_aliases_def max_dependencies_def
  max_batch_operations_def mebibyte_def u32_max_def u64_max_def

definition contract_digest_v2 :: bytes where
  "contract_digest_v2 =
     bytes_fromhex (lit ''0d24d96aec32d74e123f9e198e51adde74ddf190e8c40b0ac18bddf5c4108b2f'')"

definition batch_contract_digest :: bytes where
  "batch_contract_digest =
     bytes_fromhex (lit ''bf8727c22ac878ceff6dd0f462d6db5e81174737e839ecdf2e263a6f55268542'')"

definition operation_batch_event_opcode :: int where "operation_batch_event_opcode = 105"
definition batch_vector_decision_opcode :: int where "batch_vector_decision_opcode = 7"

definition cap_binary_payloads :: int where "cap_binary_payloads = 1"
definition cap_fixed_point_units :: int where "cap_fixed_point_units = 2"
definition cap_heartbeat :: int where "cap_heartbeat = 4"
definition cap_runtime_events :: int where "cap_runtime_events = 8"
definition cap_runtime_decisions :: int where "cap_runtime_decisions = 16"
definition cap_memory_transit :: int where "cap_memory_transit = 32"
definition cap_session_lifecycle :: int where "cap_session_lifecycle = 64"
definition cap_batched_runtime_events :: int where "cap_batched_runtime_events = 128"

definition v2_capabilities :: int where
  "v2_capabilities = cap_binary_payloads OR cap_fixed_point_units OR cap_heartbeat OR cap_runtime_events
     OR cap_runtime_decisions OR cap_memory_transit OR cap_session_lifecycle"

definition v2_required_capabilities :: int where
  "v2_required_capabilities = cap_binary_payloads OR cap_fixed_point_units OR cap_runtime_events
     OR cap_runtime_decisions"

definition v2_supported_capabilities :: int where
  "v2_supported_capabilities = v2_capabilities OR cap_batched_runtime_events"

definition v2_batch_capabilities :: int where
  "v2_batch_capabilities = v2_supported_capabilities"

lemmas cap_defs = cap_binary_payloads_def cap_fixed_point_units_def cap_heartbeat_def
  cap_runtime_events_def cap_runtime_decisions_def cap_memory_transit_def cap_session_lifecycle_def
  cap_batched_runtime_events_def

lemma capability_values:
  "v2_capabilities = 127" "v2_required_capabilities = 27" "v2_supported_capabilities = 255"
  "v2_batch_capabilities = 255"
  by (simp_all add: v2_capabilities_def v2_required_capabilities_def v2_supported_capabilities_def
      v2_batch_capabilities_def cap_defs)

type_synonym enum_table = "(string \<times> int) list"

definition lifecycle_actions :: enum_table where
  "lifecycle_actions = [(''begin'', 1), (''end'', 2)]"
definition resource_actions :: enum_table where
  "resource_actions = [(''register'', 1), (''release'', 2)]"
definition state_actions :: enum_table where
  "state_actions = [(''snapshot'', 1)]"
definition resource_kinds :: enum_table where
  "resource_kinds = [(''unknown'', 0), (''buffer'', 1), (''texture'', 2), (''framebuffer'', 3), (''command'', 4)]"
definition memory_layers :: enum_table where
  "memory_layers = [(''ram'', 1), (''vram'', 2), (''shared'', 3), (''staging'', 4), (''swapchain'', 5), (''display'', 6)]"
definition lifetimes :: enum_table where
  "lifetimes = [(''unknown'', 0), (''asset'', 1), (''frame'', 2), (''transient'', 3), (''session'', 4)]"
definition operation_types :: enum_table where
  "operation_types = [(''copy'', 1), (''sync'', 2), (''allocate'', 3), (''upload'', 4), (''present'', 5),
     (''compute'', 6), (''draw'', 7)]"
definition queues :: enum_table where
  "queues = [(''unknown'', 0), (''cpu'', 1), (''copy'', 2), (''graphics'', 3), (''compute'', 4), (''present'', 5)]"

lemmas table_defs = lifecycle_actions_def resource_actions_def state_actions_def resource_kinds_def
  memory_layers_def lifetimes_def operation_types_def queues_def

section \<open>Enumerations\<close>

fun table_lookup :: "enum_table \<Rightarrow> pystr \<Rightarrow> int option" where
  "table_lookup [] key = None"
| "table_lookup ((k, n) # t) key = (if lit k = key then Some n else table_lookup t key)"

fun table_key :: "enum_table \<Rightarrow> int \<Rightarrow> string option" where
  "table_key [] value = None"
| "table_key ((k, n) # t) value = (if value = n then Some k else table_key t value)"

definition enum_value :: "pyval \<Rightarrow> enum_table \<Rightarrow> string \<Rightarrow> int res" where
  "enum_value value values name =
     (case value of
        PStr s \<Rightarrow>
          (let key = py_lower (py_strip s) in
           case table_lookup values key of
             Some n \<Rightarrow> Inr n
           | None \<Rightarrow> protocol_error ''invalid_payload''
                (lit ''Unsupported FluidLink v2 '' @ lit name @ lit '': ''
                 @ (if key = [] then lit ''missing'' else key) @ lit ''.''))
      | _ \<Rightarrow> protocol_error ''invalid_payload'' (lit ''FluidLink v2 '' @ lit name @ lit '' must be a string.''))"

definition enum_name :: "int \<Rightarrow> enum_table \<Rightarrow> string \<Rightarrow> string res" where
  "enum_name value values name =
     (case table_key values value of
        Some k \<Rightarrow> Inr k
      | None \<Rightarrow> protocol_error ''invalid_payload''
          (lit ''Unsupported FluidLink v2 '' @ lit name @ lit '' opcode '' @ show_int value @ lit ''.''))"

section \<open>Numbers\<close>

definition unsigned_value :: "pyval \<Rightarrow> int \<Rightarrow> string \<Rightarrow> int res" where
  "unsigned_value value maximum name =
    (let not_int = protocol_error ''invalid_payload''
           (lit ''FluidLink v2 '' @ lit name @ lit '' must be an unsigned integer.'');
         bad_range = protocol_error ''invalid_payload''
           (lit ''FluidLink v2 '' @ lit name @ lit '' is out of range.'');
         check = (\<lambda>n. if \<not> (0 \<le> n \<and> n \<le> maximum) then bad_range else Inr n)
     in case value of
          PInt n \<Rightarrow> check n
        | PFloat (Fin x) \<Rightarrow> if of_int \<lfloor>x\<rfloor> \<noteq> x then bad_range else check \<lfloor>x\<rfloor>
        | PStr s \<Rightarrow> if int_accepts s then bad_range else not_int
        | _ \<Rightarrow> not_int)"

text \<open>
  \<open>(number * scale).quantize(Decimal("1"), ROUND_HALF_UP)\<close>: the product is rounded to 28
  significant digits, and quantising raises when the result would need more than 28.
\<close>

definition decimal_scale :: "rat \<Rightarrow> int \<Rightarrow> int res" where
  "decimal_scale number scale =
     (let p = dec_round (number * of_int scale) in
      if p \<noteq> 0 \<and> 999999 < flogb 10 \<bar>p\<bar> then Inl DecimalOverflow
      else let q = rnd_half_up p in
        if 10000000000000000000000000000 \<le> q then Inl DecimalInvalidOperation else Inr q)"

definition scaled_decimal :: "pyval \<Rightarrow> int \<Rightarrow> int \<Rightarrow> string \<Rightarrow> int res" where
  "scaled_decimal value scale maximum name =
    (let not_numeric = protocol_error ''invalid_payload''
           (lit ''FluidLink v2 '' @ lit name @ lit '' must be numeric.'');
         not_finite = protocol_error ''invalid_payload''
           (lit ''FluidLink v2 '' @ lit name @ lit '' must be finite and non-negative.'')
     in case decimal_of value of
          None \<Rightarrow> not_numeric
        | Some DNonFinite \<Rightarrow> not_finite
        | Some (DFin number) \<Rightarrow>
            if number < 0 then not_finite
            else ebind (decimal_scale number scale) (\<lambda>scaled.
              if maximum < scaled
              then protocol_error ''invalid_payload''
                     (lit ''FluidLink v2 '' @ lit name @ lit '' exceeds its wire range.'')
              else Inr scaled))"

definition time_scalar :: "pyval \<Rightarrow> bool \<Rightarrow> int \<Rightarrow> int res" where
  "time_scalar value is_microseconds maximum =
     (if is_microseconds then unsigned_value value maximum ''microseconds''
      else scaled_decimal value 1000 maximum ''milliseconds'')"

definition time_value :: "pydict \<Rightarrow> string \<Rightarrow> string \<Rightarrow> int \<Rightarrow> int res" where
  "time_value payload microseconds_key milliseconds_key maximum =
     (if dhas payload microseconds_key
      then unsigned_value (dget payload microseconds_key) maximum microseconds_key
      else time_scalar (dget_or payload milliseconds_key (PInt 0)) False maximum)"

definition memory_scalar :: "pyval \<Rightarrow> bool \<Rightarrow> int res" where
  "memory_scalar value is_bytes =
     (if is_bytes then unsigned_value value u64_max ''bytes''
      else scaled_decimal value mebibyte u64_max ''megabytes'')"

definition memory_value :: "pydict \<Rightarrow> string \<Rightarrow> string \<Rightarrow> int res" where
  "memory_value payload bytes_key megabytes_key =
     (if dhas payload bytes_key
      then unsigned_value (dget payload bytes_key) u64_max bytes_key
      else scaled_decimal (dget_or payload megabytes_key (PInt 0)) mebibyte u64_max megabytes_key)"

section \<open>Optional and defaulted fields\<close>

fun required_unsigned :: "pydict \<Rightarrow> string list \<Rightarrow> int \<Rightarrow> int res" where
  "required_unsigned payload [] maximum = invalid_payload ''FluidLink v2 event is missing a required integer.''"
| "required_unsigned payload (key # keys) maximum =
     (if dhas payload key \<and> dget payload key \<noteq> PNone
      then unsigned_value (dget payload key) maximum key
      else required_unsigned payload keys maximum)"

fun first_present :: "pydict \<Rightarrow> pydict \<Rightarrow> string list \<Rightarrow> (pyval \<times> string) option" where
  "first_present primary secondary [] = None"
| "first_present primary secondary (key # keys) =
     (if dhas primary key \<and> dget primary key \<noteq> PNone then Some (dget primary key, key)
      else if dhas secondary key \<and> dget secondary key \<noteq> PNone then Some (dget secondary key, key)
      else first_present primary secondary keys)"

definition value_or_default :: "pydict \<Rightarrow> string \<Rightarrow> pyval \<Rightarrow> pyval" where
  "value_or_default payload key dflt = (if dget payload key = PNone then dflt else dget payload key)"

definition optional_text :: "pyval \<Rightarrow> pystr option res" where
  "optional_text value =
     (case value of PNone \<Rightarrow> Inr None | PStr s \<Rightarrow> Inr (Some s)
      | _ \<Rightarrow> invalid_payload ''FluidLink v2 optional text field must be a string.'')"

definition text_list :: "pyval \<Rightarrow> nat \<Rightarrow> string \<Rightarrow> pyval list res" where
  "text_list value maximum_count name =
     (case value of
        PList items \<Rightarrow>
          if maximum_count < length items
          then protocol_error ''invalid_payload''
                 (lit ''FluidLink v2 '' @ lit name @ lit '' list exceeds its limit.'')
          else ebind (etraverse (\<lambda>item. encode_bounded_text item max_identifier_bytes False) items)
                 (\<lambda>_. Inr items)
      | _ \<Rightarrow> protocol_error ''invalid_payload'' (lit ''FluidLink v2 '' @ lit name @ lit '' must be a list.''))"

definition truncate_utf8 :: "pystr \<Rightarrow> nat \<Rightarrow> pystr" where
  "truncate_utf8 value maximum_bytes =
     (let text = (if py_strip value = [] then lit ''FluidLink v2 request failed.'' else py_strip value);
          encoded = utf8_encode_replace text;
          cut = utf8_decode_ignore (take maximum_bytes encoded)
      in if length encoded \<le> maximum_bytes then text
         else if cut = [] then lit ''FluidLink v2 error.'' else cut)"

section \<open>Batches, decisions, capabilities\<close>

definition validate_batch_id :: "bytes \<Rightarrow> unit res" where
  "validate_batch_id value =
     (if length value \<noteq> 16 \<or> \<not> any_byte value
      then invalid_payload ''FluidLink v2 batch_id must contain 16 nonzero-identity bytes.''
      else Inr ())"

definition batch_id_bytes :: "pyval \<Rightarrow> bytes res" where
  "batch_id_bytes value =
     (let bad = invalid_payload ''FluidLink v2 batch_id must contain exactly 16 hexadecimal bytes.'' in
      case value of
        PStr s \<Rightarrow>
          if length s \<noteq> 32 \<or> list_ex (\<lambda>c. \<not> is_hex c) s then bad
          else ebind (validate_batch_id (bytes_fromhex s)) (\<lambda>_. Inr (bytes_fromhex s))
      | _ \<Rightarrow> bad)"

definition batch_count :: "pyval \<Rightarrow> int res" where
  "batch_count value =
     (let bad = invalid_payload ''FluidLink v2 operation batch count must be between 1 and 256.'' in
      case value of
        PInt n \<Rightarrow> if \<not> (1 \<le> n \<and> n \<le> max_batch_operations) then bad else Inr n
      | _ \<Rightarrow> bad)"

definition validate_batch_decision :: "pyval \<Rightarrow> pydict \<Rightarrow> int res" where
  "validate_batch_decision opcode entry =
     (let bad = invalid_payload ''FluidLink v2 operation batch contains an invalid decision opcode.'' in
      case opcode of
        PInt n \<Rightarrow>
          if \<not> (0 \<le> n \<and> n \<le> 6) then bad
          else if dget entry ''executed'' \<noteq> PBool (n = dec_execute)
          then invalid_payload ''FluidLink v2 operation batch decision execution state and opcode disagree.''
          else Inr n
      | _ \<Rightarrow> bad)"

definition batch_decision :: "pyval \<Rightarrow> (int \<times> pydict) res" where
  "batch_decision value =
     (case value of
        PDict d \<Rightarrow> ebind (validate_batch_decision (dget d ''decision_opcode'') d) (\<lambda>n. Inr (n, d))
      | _ \<Rightarrow> invalid_payload ''FluidLink v2 operation batch decision entry must be an object.'')"

definition decode_capability_mask :: "int \<Rightarrow> int res" where
  "decode_capability_mask value =
     (let unknown = value AND NOT v2_supported_capabilities in
      if unknown \<noteq> 0
      then protocol_error ''invalid_payload''
             (lit ''FluidLink v2 capability mask has unknown bits 0x'' @ show_hex unknown @ lit ''.'')
      else Inr value)"

definition encode_capability_mask :: "pyval \<Rightarrow> string \<Rightarrow> int res" where
  "encode_capability_mask value name =
     (case value of
        PInt n \<Rightarrow>
          (case decode_capability_mask n of
             Inr m \<Rightarrow> Inr m
           | Inl _ \<Rightarrow> protocol_error ''invalid_payload''
               (lit ''FluidLink v2 '' @ lit name @ lit '' contains unknown bits.''))
      | _ \<Rightarrow> protocol_error ''invalid_payload''
          (lit ''FluidLink v2 '' @ lit name @ lit '' must be an integer mask.''))"

section \<open>Enumerations round trip\<close>

definition table_ok :: "enum_table \<Rightarrow> bool" where
  "table_ok t \<longleftrightarrow> distinct (map snd t) \<and> distinct (map fst t) \<and>
     list_all (\<lambda>(k, n). py_lower (py_strip (lit k)) = lit k \<and> 0 \<le> n \<and> n \<le> 255) t"

lemma tables_ok [simp]:
  "table_ok lifecycle_actions" "table_ok resource_actions" "table_ok state_actions"
  "table_ok resource_kinds" "table_ok memory_layers" "table_ok lifetimes"
  "table_ok operation_types" "table_ok queues"
  by code_simp+

lemma table_key_mem: "table_key t n = Some k \<Longrightarrow> (k, n) \<in> set t"
  by (induction t) (auto split: if_splits)

lemma table_lookup_mem: "distinct (map fst t) \<Longrightarrow> (k, n) \<in> set t \<Longrightarrow> table_lookup t (lit k) = Some n"
  by (induction t) (auto simp: image_iff)

lemma table_key_distinct: "distinct (map snd t) \<Longrightarrow> (k, n) \<in> set t \<Longrightarrow> table_key t n = Some k"
  by (induction t) (auto simp: image_iff)

lemma table_lookup_Some: "table_lookup t key = Some n \<Longrightarrow> \<exists>k. (k, n) \<in> set t \<and> key = lit k"
  by (induction t) (auto split: if_splits)

text \<open>The name an opcode decodes to encodes back to it, and is a byte.\<close>

lemma enum_roundtrip:
  assumes "table_ok t" "enum_name n t nm = Inr k"
  shows "enum_value (PStr (lit k)) t nm' = Inr n \<and> 0 \<le> n \<and> n \<le> 255"
proof -
  have "table_key t n = Some k"
    using assms(2) by (auto simp: enum_name_def split: option.splits)
  then have m: "(k, n) \<in> set t" by (rule table_key_mem)
  then have "py_lower (py_strip (lit k)) = lit k" "0 \<le> n" "n \<le> 255"
    using assms(1) by (auto simp: table_ok_def list_all_iff)
  moreover have "table_lookup t (lit k) = Some n"
    using assms(1) m by (intro table_lookup_mem) (auto simp: table_ok_def)
  ultimately show ?thesis by (simp add: enum_value_def)
qed

lemma enum_value_name:
  assumes "table_ok t" "enum_value v t nm = Inr n"
  shows "\<exists>k. enum_name n t nm' = Inr k \<and> (k, n) \<in> set t \<and> 0 \<le> n \<and> n \<le> 255"
proof -
  obtain s where "table_lookup t (py_lower (py_strip s)) = Some n"
    using assms(2) by (auto simp: enum_value_def Let_def split: pyval.splits option.splits)
  then obtain k where m: "(k, n) \<in> set t" using table_lookup_Some by blast
  then have "table_key t n = Some k" "0 \<le> n" "n \<le> 255"
    using assms(1) by (auto simp: table_ok_def list_all_iff intro: table_key_distinct)
  with m show ?thesis by (auto simp: enum_name_def)
qed

section \<open>Time and memory fields round trip\<close>

lemma near_int_scale:
  assumes n: "0 \<le> n" and f: "\<bar>f - of_int n / of_int s\<bar> \<le> a" and d: "\<bar>f - d\<bar> \<le> b"
    and s: "0 < s" and ab: "of_int s * (a + b) \<le> 1 / 4" and big: "of_int n \<le> (10 :: rat) ^ 20"
    and d0: "0 \<le> d"
  shows "decimal_scale d s = Inr n"
proof -
  let ?v = "d * of_int s"
  have sp: "(0 :: rat) < of_int s" using s by simp
  have "\<bar>d - of_int n / of_int s\<bar> \<le> a + b" using f d by linarith
  then have "of_int s * \<bar>d - of_int n / of_int s\<bar> \<le> of_int s * (a + b)"
    using sp by (intro mult_left_mono) auto
  moreover have "of_int s * \<bar>d - of_int n / of_int s\<bar> = \<bar>?v - of_int n\<bar>"
  proof -
    have "?v - of_int n = of_int s * (d - of_int n / of_int s)" using sp by (simp add: field_simps)
    then show ?thesis using sp by (simp add: abs_mult)
  qed
  ultimately have v: "\<bar>?v - of_int n\<bar> \<le> 1 / 4" using ab by linarith
  then have vb: "\<bar>?v\<bar> \<le> 10 ^ 20 + 1" using big n by linarith
  have v0: "0 \<le> ?v" using d0 sp by simp
  define p where "p = dec_round ?v"
  have "\<bar>p - ?v\<bar> \<le> \<bar>?v\<bar> / 10 ^ 27" unfolding p_def by (rule dec_round_error)
  also have "\<dots> \<le> 1 / 8" using vb by simp
  finally have pv: "\<bar>p - ?v\<bar> \<le> 1 / 8" .
  then have "\<bar>p - of_int n\<bar> < 1 / 2" using v by linarith
  then have q: "rnd_half_up p = n" by (rule rnd_half_up_near)
  have "\<bar>p\<bar> \<le> \<bar>p - ?v\<bar> + \<bar>?v\<bar>" by linarith
  then have pb: "\<bar>p\<bar> \<le> 10 ^ 21" using pv vb by simp
  have nolarge: "\<not> (p \<noteq> 0 \<and> 999999 < flogb 10 \<bar>p\<bar>)"
  proof
    assume A: "p \<noteq> 0 \<and> 999999 < flogb 10 \<bar>p\<bar>"
    then have "powb 10 22 \<le> powb 10 (flogb 10 \<bar>p\<bar>)" by (intro powb_mono) auto
    also have "\<dots> \<le> \<bar>p\<bar>" using flogb_bounds[of 10 "\<bar>p\<bar>"] A by simp
    finally show False using pb by (simp add: powb_def)
  qed
  have "of_int n \<le> (of_int (10 ^ 20) :: rat)" using big by simp
  then have "n \<le> 10 ^ 20" by (simp only: of_int_le_iff)
  then have "n < 10000000000000000000000000000" by simp
  then show ?thesis
    using q nolarge unfolding decimal_scale_def p_def[symmetric] Let_def by auto
qed

lemma float_repr_nonneg: "0 \<le> x \<Longrightarrow> 0 \<le> float_repr x"
proof -
  assume x: "0 \<le> x"
  have at: "repr_at x n = Some d \<Longrightarrow> 0 \<le> d" for n d
  proof -
    let ?p = "powb 10 (flogb 10 x - (n - 1))" and ?l = "\<lfloor>x / powb 10 (flogb 10 x - (n - 1))\<rfloor>"
    have p0: "0 \<le> ?p" using powb_pos[of 10 "flogb 10 x - (n - 1)"] by linarith
    then have "0 \<le> ?l" using x by simp
    note this p0
    then have "0 \<le> of_int ?l * ?p" "0 \<le> of_int (?l + 1) * ?p" by simp_all
    moreover assume "repr_at x n = Some d"
    then have "d = of_int ?l * ?p \<or> d = of_int (?l + 1) * ?p"
      unfolding repr_at_def Let_def by (simp only: split: if_splits) auto
    ultimately show "0 \<le> d" by metis
  qed
  have "0 \<le> repr_search x ns" for ns
    using x by (induction ns) (auto split: option.splits dest: at)
  then show ?thesis using x by (auto simp: float_repr_def)
qed

lemma repr_gap:
  assumes "0 \<le> y"
  shows "\<bar>y - float_repr y\<bar> * (2 ^ 53 - 1) \<le> y + 1"
proof -
  have "0 \<le> float_repr y" by (rule float_repr_nonneg[OF assms])
  then have "\<bar>y - float_repr y\<bar> * 2 ^ 53 \<le> float_repr y + 1" using float_repr_close[OF assms] by simp
  moreover have "float_repr y \<le> y + \<bar>y - float_repr y\<bar>" by linarith
  ultimately show ?thesis by (simp add: algebra_simps)
qed

lemma to_f64_Fin:
  assumes x: "0 \<le> x" and le: "x \<le> powb 2 100"
  shows "\<exists>y. to_f64 x = Fin y \<and> 0 \<le> y"
proof (cases "x = 0")
  case True
  then show ?thesis by (simp add: to_f64_def)
next
  case False
  with x have x0: "0 < x" by simp
  let ?e = "f64_exp x" and ?v = "round_at 2 (f64_exp x) x"
  have "powb 2 ?e \<le> powb 2 (max (flogb 2 x) 0)" unfolding f64_exp_def using x0 by (intro powb_mono) auto
  also have "\<dots> \<le> x + 1" using flogb_bounds[of 2 x] x0 by (auto simp: max_def)
  finally have "powb 2 ?e \<le> x + 1" .
  moreover have "\<bar>?v - x\<bar> \<le> powb 2 ?e / 2" by (rule round_at_error) simp
  moreover have "?v - x \<le> \<bar>?v - x\<bar>" by (rule abs_ge_self)
  ultimately have "?v \<le> 2 * x + 1" using x by linarith
  also have "\<dots> < powb 2 1024" using le by (simp add: powb_def)
  finally have lt: "?v < powb 2 1024" .
  have v0: "0 \<le> ?v"
    using x0 powb_pos[of 2 ?e] floor_correct[of "x / powb 2 ?e"]
    by (auto simp: round_at_def rnd_even_def Let_def intro!: mult_nonneg_nonneg add_nonneg_nonneg)
  have "\<not> (?v \<noteq> 0 \<and> 1024 \<le> flogb 2 \<bar>?v\<bar>)"
  proof
    assume A: "?v \<noteq> 0 \<and> 1024 \<le> flogb 2 \<bar>?v\<bar>"
    then have "powb 2 1024 \<le> powb 2 (flogb 2 \<bar>?v\<bar>)" by (intro powb_mono) auto
    also have "\<dots> \<le> \<bar>?v\<bar>" using flogb_bounds[of 2 "\<bar>?v\<bar>"] A by simp
    finally show False using lt v0 by simp
  qed
  then show ?thesis using False v0 by (auto simp: to_f64_def f64_pack_def)
qed

text \<open>Milliseconds shown for a 32-bit count of microseconds are read back as that count.\<close>

lemma time_scalar_roundtrip:
  assumes n: "0 \<le> n" "n \<le> u32_max"
  shows "time_scalar (PFloat (int_truediv n 1000)) False u32_max = Inr n"
proof -
  let ?x = "of_int n / 1000 :: rat"
  have "(of_int n :: rat) \<le> of_int 4294967295" using n by (simp only: of_int_le_iff) (simp add: u32_max_def)
  then have x: "0 \<le> ?x" "?x \<le> 4294968" using n by simp_all
  then have "?x \<le> powb 2 100" by (simp add: powb_def)
  then obtain y where y: "to_f64 ?x = Fin y" "0 \<le> y" using to_f64_Fin x by blast
  have e1: "\<bar>y - ?x\<bar> \<le> 1 / 100000000" using to_f64_error[OF y(1)] x by simp
  have d0: "0 \<le> float_repr y" by (rule float_repr_nonneg[OF y(2)])
  have e2: "\<bar>y - float_repr y\<bar> \<le> 1 / 100000000" 
  proof -
    have "y - ?x \<le> \<bar>y - ?x\<bar>" by (rule abs_ge_self)
    then have "y \<le> 4294969" using e1 x(2) by linarith
    then show ?thesis using repr_gap[OF y(2)] by simp
  qed
  have "decimal_scale (float_repr y) 1000 = Inr n"
    by (rule near_int_scale[where f = y and a = "1 / 100000000" and b = "1 / 100000000"])
       (use n e1 e2 d0 x in simp_all)
  then show ?thesis
    using n d0 y by (simp add: time_scalar_def scaled_decimal_def decimal_of_def int_truediv_def)
qed

text \<open>So are the mebibytes shown for a count of less than \<open>2\<^sup>5\<^sup>0\<close> bytes.\<close>

lemma megabytes_roundtrip:
  assumes n: "0 \<le> n" "n < 2 ^ 50"
  shows "scaled_decimal (PFloat (int_truediv n mebibyte)) mebibyte u64_max nm = Inr n"
proof -
  let ?x = "of_int n / 1048576 :: rat"
  have "(of_int n :: rat) < of_int (2 ^ 50)" using n by (simp only: of_int_less_iff)
  then have x: "0 \<le> ?x" "?x < 1073741824" using n by simp_all
  have y: "to_f64 ?x = Fin ?x"
  proof (rule to_f64_exact[where m = n and e = "- 20"])
    show "?x = of_int n * powb 2 (- 20)" by (simp add: powb_def)
    show "\<bar>?x\<bar> < powb 2 1024" using x by (simp add: powb_def)
  qed (use n in auto)
  have d0: "0 \<le> float_repr ?x" using x by (intro float_repr_nonneg) simp
  have e2: "\<bar>?x - float_repr ?x\<bar> \<le> 1 / 4194304" using repr_gap[OF x(1)] x(2) by simp
  have "decimal_scale (float_repr ?x) 1048576 = Inr n"
    by (rule near_int_scale[where f = ?x and a = 0 and b = "1 / 4194304"])
       (use n e2 d0 x in simp_all)
  then show ?thesis
    using n d0 y by (simp add: scaled_decimal_def decimal_of_def int_truediv_def mebibyte_def u64_max_def)
qed

lemma memory_scalar_roundtrip:
  "0 \<le> n \<Longrightarrow> n < 2 ^ 50 \<Longrightarrow> memory_scalar (PFloat (int_truediv n mebibyte)) False = Inr n"
  by (simp add: memory_scalar_def megabytes_roundtrip)

section \<open>Properties\<close>

text \<open>C29: a 32-bit count of microseconds shown as floating-point milliseconds (\<^verbatim>\<open>us / 1000\<close>) is
  converted back to that count by \<^verbatim>\<open>_time_scalar\<close>, through the float's shortest representation, the
  Decimal product and the half-up rounding.\<close>

theorem time_field_roundtrip:
  "0 \<le> n \<Longrightarrow> n \<le> u32_max \<Longrightarrow> time_scalar (PFloat (int_truediv n 1000)) False u32_max = Inr n"
  by (rule time_scalar_roundtrip)

theorem time_field_roundtrip_witness:
  "time_scalar (PFloat (int_truediv 16667 1000)) False u32_max = Inr 16667"
  by (rule time_field_roundtrip) (simp_all add: u32_max_def)

text \<open>a byte count below \<open>2\<^sup>5\<^sup>0\<close> shown as floating-point mebibytes is converted back to that
  count by \<^verbatim>\<open>_memory_scalar\<close>.\<close>

theorem memory_field_roundtrip:
  "0 \<le> n \<Longrightarrow> n < 2 ^ 50 \<Longrightarrow> memory_scalar (PFloat (int_truediv n mebibyte)) False = Inr n"
  by (rule memory_scalar_roundtrip)

theorem memory_field_roundtrip_witness:
  "memory_scalar (PFloat (int_truediv 1234567891 mebibyte)) False = Inr 1234567891"
  by (rule memory_field_roundtrip) simp_all

end
