(* ===== verification/Link_Payload.thy ===== *)
theory Link_Payload
  imports Link_Fields
begin

text \<open>
  The control payloads of FluidLink v2 (hello, welcome, nonce, error) and the runtime
  decision payload, from \<^verbatim>\<open>fluidgateway/fluidlink_v2.py\<close>. For each, the encoder is a list
  of field writers, the decoder a sequence of field readers, and the codec is shown to be
  exact: the decoder accepts precisely what the encoder produces.
\<close>

section \<open>Hello and welcome\<close>

record hello =
  hl_contract_digest :: bytes
  hl_requested :: int
  hl_required :: int
  hl_client_name :: pystr
  hl_client_version :: pystr

record server_welcome =
  wl_contract_digest :: bytes
  wl_available :: int
  wl_accepted :: int
  wl_max_payload :: int
  wl_server_name :: pystr
  wl_server_version :: pystr

definition encode_hello_payload :: "pyval \<Rightarrow> pyval \<Rightarrow> pyval \<Rightarrow> pyval \<Rightarrow> bytes \<Rightarrow> bytes res" where
  "encode_hello_payload client_name client_version requested_capabilities required_capabilities contract_digest =
     ebind (encode_capability_mask requested_capabilities ''requested_capabilities'') (\<lambda>requested_mask.
     ebind (encode_capability_mask required_capabilities ''required_capabilities'') (\<lambda>required_mask.
     w_run (w_all
       [put_raw contract_digest (Some 32),
        put_u64 requested_mask,
        put_u64 required_mask,
        put_text8 max_peer_name_bytes False client_name,
        put_text8 max_peer_version_bytes False client_version])))"

definition decode_hello_payload :: "bytes \<Rightarrow> hello res" where
  "decode_hello_payload payload = p_run
     (pbind (rd_take 32) (\<lambda>digest.
      pbind rd_u64 (\<lambda>r1. pbind (plift (decode_capability_mask r1)) (\<lambda>requested.
      pbind rd_u64 (\<lambda>r2. pbind (plift (decode_capability_mask r2)) (\<lambda>required.
      pbind (rd_text8 max_peer_name_bytes False) (\<lambda>name.
      pbind (rd_text8 max_peer_version_bytes False) (\<lambda>version.
      pbind rd_finish (\<lambda>_.
      pret \<lparr>hl_contract_digest = digest, hl_requested = requested, hl_required = required,
            hl_client_name = name, hl_client_version = version\<rparr>))))))))) payload"

definition subset_error :: "'a res" where
  "subset_error = invalid_payload
     ''FluidLink v2 accepted capabilities must be a subset of available capabilities.''"

definition encode_welcome_payload ::
    "pyval \<Rightarrow> pyval \<Rightarrow> pyval \<Rightarrow> pyval \<Rightarrow> pyval \<Rightarrow> bytes \<Rightarrow> bytes res" where
  "encode_welcome_payload available_capabilities accepted_capabilities server_name server_version
      max_payload contract_digest =
     ebind (encode_capability_mask available_capabilities ''available_capabilities'') (\<lambda>available_mask.
     ebind (encode_capability_mask accepted_capabilities ''accepted_capabilities'') (\<lambda>accepted_mask.
     if accepted_mask AND NOT available_mask \<noteq> 0 then subset_error
     else ebind (unsigned_value max_payload max_payload_bytes ''max_payload_bytes'') (\<lambda>maximum_payload.
     if maximum_payload = 0
     then invalid_payload ''FluidLink v2 max_payload_bytes must be greater than zero.''
     else w_run (w_all
       [put_raw contract_digest (Some 32),
        put_u64 available_mask,
        put_u64 accepted_mask,
        put_u32 maximum_payload,
        put_text8 max_peer_name_bytes False server_name,
        put_text8 max_peer_version_bytes False server_version]))))"

definition decode_welcome_payload :: "bytes \<Rightarrow> server_welcome res" where
  "decode_welcome_payload payload = p_run
     (pbind (rd_take 32) (\<lambda>digest.
      pbind rd_u64 (\<lambda>r1. pbind (plift (decode_capability_mask r1)) (\<lambda>available.
      pbind rd_u64 (\<lambda>r2. pbind (plift (decode_capability_mask r2)) (\<lambda>accepted.
      pbind rd_u32 (\<lambda>max_payload.
      pbind (rd_text8 max_peer_name_bytes False) (\<lambda>name.
      pbind (rd_text8 max_peer_version_bytes False) (\<lambda>version.
      pbind rd_finish (\<lambda>_.
      if accepted AND NOT available \<noteq> 0 then plift subset_error
      else if \<not> (1 \<le> max_payload \<and> max_payload \<le> max_payload_bytes)
      then plift (invalid_payload ''FluidLink v2 welcome payload limit is invalid.'')
      else pret \<lparr>wl_contract_digest = digest, wl_available = available, wl_accepted = accepted,
            wl_max_payload = max_payload, wl_server_name = name, wl_server_version = version\<rparr>)))))))))) payload"

lemma decode_capability_mask_iff: "decode_capability_mask v = Inr m \<longleftrightarrow> m = v \<and> v AND NOT 255 = 0"
  by (auto simp: decode_capability_mask_def Let_def capability_values)

lemma encode_capability_mask_iff:
  "encode_capability_mask v n = Inr m \<longleftrightarrow> v = PInt m \<and> m AND NOT 255 = 0"
  by (auto simp: encode_capability_mask_def decode_capability_mask_def Let_def capability_values
      protocol_error_def split: pyval.splits)

lemma mask_range:
  assumes "m AND NOT k = 0" "0 \<le> (k :: int)"
  shows "0 \<le> m \<and> m \<le> k"
proof -
  have "m = (m AND k) OR (m AND NOT k)"
    by (simp flip: bit.conj_disj_distrib)
  then have m: "m = m AND k" using assms(1) by simp
  have "0 \<le> m AND k" "m AND k \<le> k" using assms(2) by (simp_all add: AND_upper2')
  with m show ?thesis by simp
qed

lemma capability_mask_range: "m AND NOT 255 = 0 \<Longrightarrow> 0 \<le> m \<and> m \<le> (255 :: int)"
  by (rule mask_range) simp_all

lemma if_fail_at:
  "(if c then plift subset_error else p) r = Inr q \<longleftrightarrow> \<not> c \<and> p r = Inr q"
  "(if c then plift (invalid_payload s) else p) r = Inr q \<longleftrightarrow> \<not> c \<and> p r = Inr q"
  "(if c then plift (protocol_error k m) else p) r = Inr q \<longleftrightarrow> \<not> c \<and> p r = Inr q"
  by (simp_all add: subset_error_def)

lemma subset_error_neq [simp]: "subset_error \<noteq> Inr x" "plift subset_error r \<noteq> Inr q"
  by (simp_all add: subset_error_def)


lemma name_version_length:
  assumes "text_valid 128 False n" "text_valid 64 False v"
  shows "length (text_enc (Suc 0) n) + length (text_enc (Suc 0) v) \<le> 194"
  using text_enc_length[OF assms(1), of 1] text_enc_length[OF assms(2), of 1] by simp

lemma unsigned_value_PInt: "unsigned_value (PInt n) m nm = Inr k \<longleftrightarrow> k = n \<and> 0 \<le> n \<and> n \<le> m"
  by (auto simp: unsigned_value_def)

lemmas payload_simps = p_run_iff new_reader_at wire_gets wire_puts decode_capability_mask_iff
  encode_capability_mask_iff limit_defs max_payload_bytes_def pret_eq_Inr result_inversions
  unsigned_value_PInt if_fail_at

lemma hello_codec_iff:
  "decode_hello_payload p = Inr \<lparr>hl_contract_digest = g, hl_requested = q, hl_required = u,
      hl_client_name = n, hl_client_version = v\<rparr>
   \<longleftrightarrow> encode_hello_payload (PStr n) (PStr v) (PInt q) (PInt u) g = Inr p"
  by (auto simp: decode_hello_payload_def encode_hello_payload_def payload_simps
      dest: capability_mask_range name_version_length)

lemma welcome_codec_iff:
  "decode_welcome_payload p = Inr \<lparr>wl_contract_digest = g, wl_available = a, wl_accepted = c,
      wl_max_payload = m, wl_server_name = n, wl_server_version = v\<rparr>
   \<longleftrightarrow> encode_welcome_payload (PInt a) (PInt c) (PStr n) (PStr v) (PInt m) g = Inr p"
  by (auto simp: decode_welcome_payload_def encode_welcome_payload_def payload_simps
      dest: capability_mask_range name_version_length)

section \<open>Heartbeat nonce\<close>

definition encode_nonce_payload :: "pyval \<Rightarrow> bytes res" where
  "encode_nonce_payload nonce = w_run (w_all [put_text8 max_nonce_bytes False nonce])"

definition decode_nonce_payload :: "bytes \<Rightarrow> pystr res" where
  "decode_nonce_payload payload = p_run
     (pbind (rd_text8 max_nonce_bytes False) (\<lambda>nonce. pbind rd_finish (\<lambda>_. pret nonce))) payload"

lemma nonce_length: "text_valid 128 False n \<Longrightarrow> length (text_enc (Suc 0) n) \<le> 129"
  using text_enc_length[of 128 False n 1] by simp

lemma nonce_codec_iff:
  "decode_nonce_payload p = Inr n \<longleftrightarrow> encode_nonce_payload (PStr n) = Inr p"
  by (auto simp: decode_nonce_payload_def encode_nonce_payload_def payload_simps dest: nonce_length)

section \<open>Errors\<close>

datatype error_code =
  INVALID_FRAME | HANDSHAKE_REQUIRED | CONTRACT_MISMATCH | REQUIRED_CAPABILITY_UNAVAILABLE
| CAPABILITY_NOT_NEGOTIATED | SEQUENCE_MISMATCH | SESSION_MISMATCH | UNSUPPORTED_OPCODE
| UNSUPPORTED_EVENT_OPCODE | INVALID_PAYLOAD | RUNTIME_EVENT_REJECTED | SESSION_CLOSED

fun error_value :: "error_code \<Rightarrow> int" where
  "error_value INVALID_FRAME = 1"
| "error_value HANDSHAKE_REQUIRED = 2"
| "error_value CONTRACT_MISMATCH = 3"
| "error_value REQUIRED_CAPABILITY_UNAVAILABLE = 4"
| "error_value CAPABILITY_NOT_NEGOTIATED = 5"
| "error_value SEQUENCE_MISMATCH = 6"
| "error_value SESSION_MISMATCH = 7"
| "error_value UNSUPPORTED_OPCODE = 8"
| "error_value UNSUPPORTED_EVENT_OPCODE = 9"
| "error_value INVALID_PAYLOAD = 10"
| "error_value RUNTIME_EVENT_REJECTED = 11"
| "error_value SESSION_CLOSED = 12"

fun error_name :: "error_code \<Rightarrow> string" where
  "error_name INVALID_FRAME = ''invalid_frame''"
| "error_name HANDSHAKE_REQUIRED = ''handshake_required''"
| "error_name CONTRACT_MISMATCH = ''contract_mismatch''"
| "error_name REQUIRED_CAPABILITY_UNAVAILABLE = ''required_capability_unavailable''"
| "error_name CAPABILITY_NOT_NEGOTIATED = ''capability_not_negotiated''"
| "error_name SEQUENCE_MISMATCH = ''sequence_mismatch''"
| "error_name SESSION_MISMATCH = ''session_mismatch''"
| "error_name UNSUPPORTED_OPCODE = ''unsupported_opcode''"
| "error_name UNSUPPORTED_EVENT_OPCODE = ''unsupported_event_opcode''"
| "error_name INVALID_PAYLOAD = ''invalid_payload''"
| "error_name RUNTIME_EVENT_REJECTED = ''runtime_event_rejected''"
| "error_name SESSION_CLOSED = ''session_closed''"

definition all_error_codes :: "error_code list" where
  "all_error_codes = [INVALID_FRAME, HANDSHAKE_REQUIRED, CONTRACT_MISMATCH, REQUIRED_CAPABILITY_UNAVAILABLE,
     CAPABILITY_NOT_NEGOTIATED, SEQUENCE_MISMATCH, SESSION_MISMATCH, UNSUPPORTED_OPCODE,
     UNSUPPORTED_EVENT_OPCODE, INVALID_PAYLOAD, RUNTIME_EVENT_REJECTED, SESSION_CLOSED]"

text \<open>\<^verbatim>\<open>FluidLinkV2ErrorCode(value)\<close>.\<close>

definition error_code_of :: "int \<Rightarrow> error_code res" where
  "error_code_of value =
     (case find (\<lambda>c. error_value c = value) all_error_codes of
        Some c \<Rightarrow> Inr c
      | None \<Rightarrow> protocol_error ''invalid_payload''
          (lit ''Unknown FluidLink v2 error code '' @ show_int value @ lit ''.''))"

definition encode_error_payload :: "error_code \<Rightarrow> pystr \<Rightarrow> bytes res" where
  "encode_error_payload code message =
     w_run (w_all
       [put_u16 (error_value code),
        put_text16 max_reason_bytes False (PStr (truncate_utf8 message (nat max_reason_bytes)))])"

definition decode_error_payload :: "bytes \<Rightarrow> (string \<times> pystr) res" where
  "decode_error_payload payload = p_run
     (pbind rd_u16 (\<lambda>value. pbind (plift (error_code_of value)) (\<lambda>code.
      pbind (rd_text16 max_reason_bytes False) (\<lambda>message.
      pbind rd_finish (\<lambda>_. pret (error_name code, message)))))) payload"

lemma error_value_range: "1 \<le> error_value c \<and> error_value c \<le> 12"
  by (cases c) auto

lemma error_code_of_value: "error_code_of (error_value c) = Inr c"
  by (cases c) (simp_all add: error_code_of_def all_error_codes_def)


lemma truncate_utf8_valid:
  assumes "list_all is_scalar m" "4 \<le> k"
  shows "text_valid (int k) False (truncate_utf8 m k)"
proof -
  let ?d = "lit ''FluidLink v2 request failed.''"
  define tx where "tx = (if py_strip m = [] then ?d else py_strip m)"
  have d: "list_all is_scalar ?d" "\<not> is_space (hd ?d)" by code_simp+
  have "set (py_strip m) \<subseteq> set m"
    by (auto simp: py_strip_def dest!: set_dropWhileD)
  then have sc: "list_all is_scalar tx" using assms d by (auto simp: tx_def list_all_iff)
  obtain c cs where t: "tx = c # cs" "\<not> is_space c"
  proof (cases "py_strip m")
    case Nil
    then show ?thesis using d that[of "hd ?d" "tl ?d"] by (simp add: tx_def lit_def)
  next
    case (Cons c cs)
    then show ?thesis using py_strip_Cons[OF Cons] that[of c cs] by (simp add: tx_def)
  qed
  let ?e = "utf8_encode_replace tx"
  have e: "utf8_encode tx = Some ?e" by (rule utf8_encode_replace_scalar[OF sc])
  have nb: "py_strip (c # zs) \<noteq> []" for zs using t(2) by (simp add: py_strip_eq_Nil)
  show ?thesis
  proof (cases "length ?e \<le> k")
    case True
    then have "truncate_utf8 m k = tx" by (simp add: truncate_utf8_def Let_def tx_def)
    then show ?thesis using True e nb t by (simp add: text_valid_def)
  next
    case False
    have "take k ?e = utf8_cp c @ take (k - length (utf8_cp c)) (utf8_encode_replace cs)"
      using t sc assms(2) utf8_cp_length(2)[of c] by (simp add: utf8_encode_replace_def)
    then have "utf8_decode_ignore (take k ?e)
        = c # utf8_decode_ignore (take (k - length (utf8_cp c)) (utf8_encode_replace cs))"
      using t sc utf8_cp_length(1)[of c]
      by (subst utf8_decode_ignore.simps) (simp add: utf8_head_cp)
    moreover have "\<exists>out. utf8_encode (utf8_decode_ignore (take k ?e)) = Some out \<and> length out \<le> k"
      using utf8_decode_ignore_encodes[of "take k ?e"] by (auto intro: le_trans)
    moreover have "is_scalar c" using sc t by simp
    ultimately show ?thesis
      using False nb by (auto simp: truncate_utf8_def Let_def tx_def[symmetric] text_valid_def)
  qed
qed

text \<open>An error message of Unicode scalar values is always delivered, cut to 512 bytes.\<close>

lemma error_payload_ok:
  assumes "list_all is_scalar message"
  shows "\<exists>p. encode_error_payload code message = Inr p \<and>
     decode_error_payload p = Inr (error_name code, truncate_utf8 message 512)"
proof -
  let ?t = "truncate_utf8 message 512"
  have v: "text_valid 512 False ?t" using truncate_utf8_valid[of message 512] assms by simp
  let ?p = "le_bytes 2 (error_value code) @ text_enc 2 ?t"
  have len: "length (text_enc 2 ?t) \<le> 514" using text_enc_length[OF v, of 2] by simp
  have "encode_error_payload code message = Inr ?p"
    using v len error_value_range[of code] by (simp add: encode_error_payload_def payload_simps)
  moreover have "decode_error_payload ?p = Inr (error_name code, ?t)"
    using v error_value_range[of code] error_code_of_value[of code]
    by (auto simp: decode_error_payload_def payload_simps intro!: exI[of _ "error_value code"])
  ultimately show ?thesis by blast
qed

section \<open>Runtime decisions\<close>

definition encode_runtime_decision_payload :: "pydict \<Rightarrow> bytes res" where
  "encode_runtime_decision_payload reply =
    (let accepted = (dget reply ''accepted'' = PBool True);
         has_executed = (dhas reply ''executed'' \<and> dget reply ''executed'' \<noteq> PNone);
         executed = (dget reply ''executed'' = PBool True);
         flags = (if accepted then 1 else 0) OR (if has_executed then 2 else 0) OR (if executed then 4 else 0)
     in ebind (time_value reply ''saved_us'' ''saved_ms'' u64_max) (\<lambda>saved_us.
        ebind (memory_value reply ''saved_bytes'' ''saved_mb'') (\<lambda>saved_bytes.
        w_run (w_all [put_u8 flags, put_u64 saved_us, put_u64 saved_bytes]))))"

definition decode_runtime_decision_payload :: "bytes \<Rightarrow> pydict res" where
  "decode_runtime_decision_payload payload = p_run
     (pbind rd_u8 (\<lambda>flags.
      pbind rd_u64 (\<lambda>saved_us.
      pbind rd_u64 (\<lambda>saved_bytes.
      pbind rd_finish (\<lambda>_.
      if flags AND NOT 7 \<noteq> 0 \<or> (flags AND 4 \<noteq> 0 \<and> flags AND 2 = 0)
      then plift (invalid_payload ''FluidLink v2 decision flags are invalid.'')
      else pret
        ([(lit ''accepted'', PBool (flags AND 1 \<noteq> 0)),
          (lit ''saved_us'', PInt saved_us),
          (lit ''saved_bytes'', PInt saved_bytes),
          (lit ''saved_ms'', PFloat (int_truediv saved_us 1000)),
          (lit ''saved_mb'', PFloat (int_truediv saved_bytes mebibyte))]
         @ (if flags AND 2 \<noteq> 0 then [(lit ''executed'', PBool (flags AND 4 \<noteq> 0))] else []))))))) payload"


lemma decision_flags:
  assumes "f AND NOT 7 = 0"
  shows "(if f AND 1 \<noteq> 0 then 1 else 0) OR (if f AND 2 \<noteq> 0 then 2 else 0)
     OR (if f AND 4 \<noteq> 0 then 4 else 0) = (f :: int)"
proof -
  have "0 \<le> f \<and> f \<le> 7" using assms by (intro mask_range) simp_all
  then have "f = 0 \<or> f = 1 \<or> f = 2 \<or> f = 3 \<or> f = 4 \<or> f = 5 \<or> f = 6 \<or> f = 7" by arith
  then show ?thesis by (elim disjE) simp_all
qed

lemma decode_decision_iff:
  "decode_runtime_decision_payload p = Inr d \<longleftrightarrow>
    (\<exists>f us b. 0 \<le> f \<and> f \<le> 255 \<and> 0 \<le> us \<and> us \<le> u64_max \<and> 0 \<le> b \<and> b \<le> u64_max
       \<and> f AND NOT 7 = 0 \<and> (f AND 4 \<noteq> 0 \<longrightarrow> f AND 2 \<noteq> 0)
       \<and> p = le_bytes 1 f @ le_bytes 8 us @ le_bytes 8 b
       \<and> d = [(lit ''accepted'', PBool (f AND 1 \<noteq> 0)), (lit ''saved_us'', PInt us),
              (lit ''saved_bytes'', PInt b), (lit ''saved_ms'', PFloat (int_truediv us 1000)),
              (lit ''saved_mb'', PFloat (int_truediv b mebibyte))]
            @ (if f AND 2 \<noteq> 0 then [(lit ''executed'', PBool (f AND 4 \<noteq> 0))] else []))"
  unfolding decode_runtime_decision_payload_def payload_simps
  by (auto split del: if_split) (rule_tac x = f in exI, simp)

text \<open>A decoded decision encodes back to the bytes it came from.\<close>

lemma decision_canonical:
  assumes "decode_runtime_decision_payload p = Inr d"
  shows "encode_runtime_decision_payload d = Inr p"
proof -
  obtain f us b where r: "0 \<le> f" "f \<le> 255" "0 \<le> us" "us \<le> u64_max" "0 \<le> b" "b \<le> u64_max"
    and f: "f AND NOT 7 = 0" "f AND 4 \<noteq> 0 \<longrightarrow> f AND 2 \<noteq> 0"
    and p: "p = le_bytes 1 f @ le_bytes 8 us @ le_bytes 8 b"
    and d: "d = [(lit ''accepted'', PBool (f AND 1 \<noteq> 0)), (lit ''saved_us'', PInt us),
              (lit ''saved_bytes'', PInt b), (lit ''saved_ms'', PFloat (int_truediv us 1000)),
              (lit ''saved_mb'', PFloat (int_truediv b mebibyte))]
            @ (if f AND 2 \<noteq> 0 then [(lit ''executed'', PBool (f AND 4 \<noteq> 0))] else [])"
    using assms unfolding decode_decision_iff by blast
  have fl: "(if dget d ''accepted'' = PBool True then 1 else 0)
      OR (if dhas d ''executed'' \<and> dget d ''executed'' \<noteq> PNone then 2 else 0)
      OR (if dget d ''executed'' = PBool True then 4 else 0) = f"
    using decision_flags[OF f(1)] f(2) by (auto simp: d)
  have "time_value d ''saved_us'' ''saved_ms'' u64_max = Inr us"
    "memory_value d ''saved_bytes'' ''saved_mb'' = Inr b"
    using r by (simp_all add: d time_value_def memory_value_def unsigned_value_PInt)
  then show ?thesis
    unfolding encode_runtime_decision_payload_def Let_def fl
    using r by (simp add: p payload_simps)
qed

text \<open>An encoded decision decodes to the integers its fields denote and to its flags.\<close>

lemma decision_encode_decode:
  assumes "encode_runtime_decision_payload r = Inr p"
  shows "\<exists>us b. time_value r ''saved_us'' ''saved_ms'' u64_max = Inr us \<and>
     memory_value r ''saved_bytes'' ''saved_mb'' = Inr b \<and> length p = 17 \<and>
     decode_runtime_decision_payload p = Inr
       ([(lit ''accepted'', PBool (dget r ''accepted'' = PBool True)), (lit ''saved_us'', PInt us),
         (lit ''saved_bytes'', PInt b), (lit ''saved_ms'', PFloat (int_truediv us 1000)),
         (lit ''saved_mb'', PFloat (int_truediv b mebibyte))]
        @ (if dget r ''executed'' \<noteq> PNone
           then [(lit ''executed'', PBool (dget r ''executed'' = PBool True))] else []))"
proof -
  have h: "dhas r ''executed'' \<and> dget r ''executed'' \<noteq> PNone \<longleftrightarrow> dget r ''executed'' \<noteq> PNone"
    by (auto simp: dhas_def dget_def dget_or_def split: option.splits)
  let ?a = "dget r ''accepted'' = PBool True" and ?h = "dget r ''executed'' \<noteq> PNone"
    and ?x = "dget r ''executed'' = PBool True"
  define f :: int where "f = (if ?a then 1 else 0) OR (if ?h then 2 else 0) OR (if ?x then 4 else 0)"
  have f: "0 \<le> f" "f \<le> 255" "f AND NOT 7 = 0" "f AND 4 \<noteq> 0 \<longrightarrow> f AND 2 \<noteq> 0"
    and b: "(f AND 1 \<noteq> 0) = ?a" "(f AND 2 \<noteq> 0) = ?h" "(f AND 4 \<noteq> 0) = ?x"
    by (auto simp: f_def)
  obtain us n where t: "time_value r ''saved_us'' ''saved_ms'' u64_max = Inr us"
    "memory_value r ''saved_bytes'' ''saved_mb'' = Inr n"
    and p: "p = le_bytes 1 f @ le_bytes 8 us @ le_bytes 8 n"
    and rng: "0 \<le> us" "us \<le> u64_max" "0 \<le> n" "n \<le> u64_max"
    using assms unfolding encode_runtime_decision_payload_def Let_def h f_def[symmetric]
    by (auto simp: result_inversions wire_puts u64_max_def)
  have "length p = 17" by (simp add: p)
  moreover have "decode_runtime_decision_payload p = Inr
       ([(lit ''accepted'', PBool ?a), (lit ''saved_us'', PInt us),
         (lit ''saved_bytes'', PInt n), (lit ''saved_ms'', PFloat (int_truediv us 1000)),
         (lit ''saved_mb'', PFloat (int_truediv n mebibyte))]
        @ (if ?h then [(lit ''executed'', PBool ?x)] else []))"
    unfolding decode_decision_iff b[symmetric]
    using f rng p by blast
  ultimately show ?thesis using t by blast
qed

section \<open>Properties\<close>

text \<open>the hello payload codec is a bijection: the decoder accepts exactly the bytes that the
  encoder produces for the record it returns.\<close>

theorem hello_codec_bijective:
  "decode_hello_payload p = Inr \<lparr>hl_contract_digest = g, hl_requested = q, hl_required = u,
      hl_client_name = n, hl_client_version = v\<rparr>
   \<longleftrightarrow> encode_hello_payload (PStr n) (PStr v) (PInt q) (PInt u) g = Inr p"
  by (rule hello_codec_iff)

text \<open>so is the welcome payload codec, with its subset and payload-limit checks.\<close>

theorem welcome_codec_bijective:
  "decode_welcome_payload p = Inr \<lparr>wl_contract_digest = g, wl_available = a, wl_accepted = c,
      wl_max_payload = m, wl_server_name = n, wl_server_version = v\<rparr>
   \<longleftrightarrow> encode_welcome_payload (PInt a) (PInt c) (PStr n) (PStr v) (PInt m) g = Inr p"
  by (rule welcome_codec_iff)

text \<open>C28: an error message of Unicode scalar values is always delivered: its payload is encoded,
  cut to 512 bytes at a character boundary, and decodes to the error's name and the cut message.\<close>

theorem error_payload_delivered:
  "list_all is_scalar message \<Longrightarrow> \<exists>p. encode_error_payload code message = Inr p \<and>
     decode_error_payload p = Inr (error_name code, truncate_utf8 message 512)"
  by (rule error_payload_ok)

theorem error_payload_delivered_witness:
  "\<exists>p. encode_error_payload SESSION_CLOSED (lit '' closed '') = Inr p \<and>
     decode_error_payload p = Inr (''session_closed'', lit ''closed'')"
proof -
  have "list_all is_scalar (lit '' closed '')" "truncate_utf8 (lit '' closed '') 512 = lit ''closed''"
    by code_simp+
  then show ?thesis using error_payload_delivered[of "lit '' closed ''" SESSION_CLOSED] by simp
qed

text \<open>a runtime decision that encodes has 17 bytes and decodes to the integers its time and
  memory fields denote, with its accepted and executed flags.\<close>

theorem decision_payload_roundtrip:
  "encode_runtime_decision_payload r = Inr p \<Longrightarrow>
   \<exists>us b. time_value r ''saved_us'' ''saved_ms'' u64_max = Inr us \<and>
     memory_value r ''saved_bytes'' ''saved_mb'' = Inr b \<and> length p = 17 \<and>
     decode_runtime_decision_payload p = Inr
       ([(lit ''accepted'', PBool (dget r ''accepted'' = PBool True)), (lit ''saved_us'', PInt us),
         (lit ''saved_bytes'', PInt b), (lit ''saved_ms'', PFloat (int_truediv us 1000)),
         (lit ''saved_mb'', PFloat (int_truediv b mebibyte))]
        @ (if dget r ''executed'' \<noteq> PNone
           then [(lit ''executed'', PBool (dget r ''executed'' = PBool True))] else []))"
  by (rule decision_encode_decode)

theorem decision_payload_roundtrip_witness:
  "\<exists>us b. time_value [(lit ''saved_us'', PInt 3)] ''saved_us'' ''saved_ms'' u64_max = Inr us \<and>
     memory_value [(lit ''saved_us'', PInt 3)] ''saved_bytes'' ''saved_mb'' = Inr b"
proof -
  have "encode_runtime_decision_payload [(lit ''saved_us'', PInt 3)]
      = Inr [0, 3, 0, 0, 0, 0, 0, 0, 0, 0, 0, 0, 0, 0, 0, 0, 0]" by code_simp
  from decision_payload_roundtrip[OF this] show ?thesis by blast
qed

end
