(* ===== verification/Link_Events.thy ===== *)
theory Link_Events
  imports Link_Payload
begin

text \<open>
  The event payloads of FluidLink v2 (\<^verbatim>\<open>encode_/decode_runtime_event_payload\<close> and the
  per-event codecs, \<^verbatim>\<open>fluidgateway/fluidlink_v2.py\<close>): session, frame, resource, operation
  and state events. Encoders take a dictionary with its many optional and aliased keys;
  decoders return a dictionary in the canonical form. Canonicity states that what was
  decoded encodes to the bytes it came from.
\<close>

definition opt_entry :: "string \<Rightarrow> pyval option \<Rightarrow> pydict" where
  "opt_entry k v = (case v of None \<Rightarrow> [] | Some x \<Rightarrow> [(lit k, x)])"

section \<open>Session events\<close>

definition memory_fields :: "(string \<times> nat) list" where
  "memory_fields = [(''ram'', 1), (''vram'', 2), (''shared'', 3), (''staging'', 4), (''swapchain'', 5)]"

text \<open>The memory budgets that are given: the presence bits and the values by bit.\<close>

fun session_memory :: "pydict \<Rightarrow> pydict \<Rightarrow> (string \<times> nat) list \<Rightarrow> (int \<times> (nat \<times> int) list) res" where
  "session_memory payload budgets [] = Inr (0, [])"
| "session_memory payload budgets ((name, b) # fs) =
     (case first_present payload budgets [name @ ''_bytes'', name @ ''_mb''] of
        None \<Rightarrow> session_memory payload budgets fs
      | Some (value, key) \<Rightarrow>
          ebind (memory_scalar value (key = name @ ''_bytes'')) (\<lambda>n.
          ebind (session_memory payload budgets fs) (\<lambda>(presence, values).
          Inr (push_bit b 1 OR presence, (b, n) # values))))"

definition first_key :: "pydict \<Rightarrow> string list \<Rightarrow> pyval \<Rightarrow> pyval" where
  "first_key payload keys dflt =
     (case filter (\<lambda>k. dget payload k \<noteq> PNone) keys of [] \<Rightarrow> dflt | k # _ \<Rightarrow> dget payload k)"

definition encode_session_event :: "pydict \<Rightarrow> bytes res" where
  "encode_session_event payload =
     ebind (enum_value (value_or_default payload ''action'' (PStr (lit ''begin''))) lifecycle_actions
              ''session action'') (\<lambda>action.
     let session_id = first_key payload [''id'', ''session_id''] (PStr []);
         budgets_value = value_or_default payload ''budgets'' (PDict []);
         is_end = (action = 2)
     in case budgets_value of
       PDict budgets \<Rightarrow>
         (let target = first_present payload budgets
                [''target_frame_us'', ''target_frame_ms'', ''frame_us'', ''frame_ms'']
          in ebind (session_memory payload budgets memory_fields) (\<lambda>(bits, values).
          let presence = (if target \<noteq> None then 1 else 0) OR bits
          in if is_end \<and> presence \<noteq> 0
          then invalid_payload ''FluidLink v2 session end cannot carry budget fields.''
          else w_run (w_all
            [put_u8 action,
             put_u8 presence,
             put_text16 max_identifier_bytes is_end session_id,
             (case target of None \<Rightarrow> Inr
              | Some (v, key) \<Rightarrow> w_lift (time_scalar v (key = ''target_frame_us'' \<or> key = ''frame_us'') u32_max) put_u32),
             w_all (map (\<lambda>(_, b). w_opt put_u64 (map_of values b))
               (filter (\<lambda>(_, b). presence AND push_bit b 1 \<noteq> 0) memory_fields))])))
     | _ \<Rightarrow> invalid_payload ''FluidLink v2 session budgets must be an object.'')"

fun read_budgets :: "int \<Rightarrow> (string \<times> nat) list \<Rightarrow> pydict parser" where
  "read_budgets presence [] = pret []"
| "read_budgets presence ((name, b) # fs) =
     pbind (p_opt (presence AND push_bit b 1 \<noteq> 0) rd_u64) (\<lambda>n.
     pbind (read_budgets presence fs) (\<lambda>d.
     pret (opt_entry (name @ ''_mb'') (map_option (\<lambda>n. PFloat (int_truediv n mebibyte)) n) @ d)))"

definition decode_session_event :: "pydict parser" where
  "decode_session_event =
     pbind rd_u8 (\<lambda>a. pbind (plift (enum_name a lifecycle_actions ''session action'')) (\<lambda>action.
     pbind rd_u8 (\<lambda>presence.
     if presence AND NOT 63 \<noteq> 0
     then plift (invalid_payload ''FluidLink v2 session presence mask is invalid.'')
     else if action = ''end'' \<and> presence \<noteq> 0
     then plift (invalid_payload ''FluidLink v2 session end cannot carry budget fields.'')
     else
     pbind (rd_text16 max_identifier_bytes (action = ''end'')) (\<lambda>session_id.
     pbind (p_opt (presence AND 1 \<noteq> 0) rd_u32) (\<lambda>us.
     pbind (read_budgets presence memory_fields) (\<lambda>memory.
     let budgets = opt_entry ''frame_ms'' (map_option (\<lambda>n. PFloat (int_truediv n 1000)) us) @ memory
     in pret ((lit ''action'', PStr (lit action))
              # (if session_id \<noteq> [] then [(lit ''id'', PStr session_id)] else [])
              @ (if budgets \<noteq> [] then [(lit ''budgets'', PDict budgets)] else []))))))))"

section \<open>Frame events\<close>

definition encode_frame_event :: "pydict \<Rightarrow> bytes res" where
  "encode_frame_event payload =
     ebind (enum_value (value_or_default payload ''action'' (PStr (lit ''begin''))) lifecycle_actions
              ''frame action'') (\<lambda>action.
     ebind (required_unsigned payload [''frame'', ''frame_id''] u64_max) (\<lambda>frame_number.
     let target = first_present payload [] [''target_frame_us'', ''target_frame_ms''] in
     if action = 2 \<and> target \<noteq> None
     then invalid_payload ''FluidLink v2 frame end cannot carry a target budget.''
     else w_run (w_all
       [put_u8 action,
        put_u8 (if target \<noteq> None then 1 else 0),
        put_u64 frame_number,
        (case target of None \<Rightarrow> Inr
         | Some (v, key) \<Rightarrow> w_lift (time_scalar v (key = ''target_frame_us'') u32_max) put_u32)])))"

definition decode_frame_event :: "pydict parser" where
  "decode_frame_event =
     pbind rd_u8 (\<lambda>a. pbind (plift (enum_name a lifecycle_actions ''frame action'')) (\<lambda>action.
     pbind rd_u8 (\<lambda>presence.
     if presence AND NOT 1 \<noteq> 0
     then plift (invalid_payload ''FluidLink v2 frame presence mask is invalid.'')
     else if action = ''end'' \<and> presence \<noteq> 0
     then plift (invalid_payload ''FluidLink v2 frame end cannot carry a target budget.'')
     else
     pbind rd_u64 (\<lambda>frame_number.
     pbind (p_opt (presence AND 1 \<noteq> 0) rd_u32) (\<lambda>us.
     pret ([(lit ''action'', PStr (lit action)), (lit ''frame'', PInt frame_number)]
           @ opt_entry ''target_frame_ms'' (map_option (\<lambda>n. PFloat (int_truediv n 1000)) us)))))))"

section \<open>State events\<close>

definition encode_state_event :: "pydict \<Rightarrow> bytes res" where
  "encode_state_event payload = w_run (w_all
     [w_lift (enum_value (value_or_default payload ''action'' (PStr (lit ''snapshot''))) state_actions
        ''state action'') put_u8])"

definition decode_state_event :: "pydict parser" where
  "decode_state_event =
     pbind rd_u8 (\<lambda>a. pbind (plift (enum_name a state_actions ''state action'')) (\<lambda>action.
     pret [(lit ''action'', PStr (lit action))]))"

section \<open>Resource events\<close>

definition registration_keys :: "string list" where
  "registration_keys = [''kind'', ''memory'', ''lifetime'', ''size_bytes'', ''size_mb'', ''aliases'']"

definition encode_resource_event :: "pydict \<Rightarrow> bytes res" where
  "encode_resource_event payload =
     ebind (enum_value (value_or_default payload ''action'' (PStr (lit ''register''))) resource_actions
              ''resource action'') (\<lambda>action.
     let resource_id = first_key payload [''id'', ''resource_id''] (PStr []) in
     ebind (w_all [put_u8 action, put_text16 max_identifier_bytes False resource_id] []) (\<lambda>head.
     if action = 2
     then if list_ex (dhas payload) registration_keys
       then invalid_payload ''FluidLink v2 resource release cannot carry registration fields.''
       else w_finish head
     else
       ebind (w_all
         [w_lift (enum_value (value_or_default payload ''kind'' (PStr (lit ''unknown''))) resource_kinds
            ''resource kind'') put_u8,
          w_lift (enum_value (value_or_default payload ''memory'' (PStr (lit ''ram''))) memory_layers
            ''memory layer'') put_u8,
          w_lift (enum_value (value_or_default payload ''lifetime'' (PStr (lit ''unknown''))) lifetimes
            ''lifetime'') put_u8,
          w_lift (memory_value payload ''size_bytes'' ''size_mb'') put_u64,
          w_lift (text_list (value_or_default payload ''aliases'' (PList [])) max_aliases ''aliases'')
            (\<lambda>aliases. w_all [put_u8 (int (length aliases)),
               efold (put_text16 max_identifier_bytes False) aliases])] head) w_finish))"

text \<open>A counted list of identifiers, refused when the count exceeds its limit.\<close>

definition read_ids :: "nat \<Rightarrow> string \<Rightarrow> pystr list parser" where
  "read_ids maximum message =
     pbind rd_u8 (\<lambda>count.
     if int maximum < count then plift (invalid_payload message)
     else prepeat (nat count) (rd_text16 max_identifier_bytes False))"

definition read_aliases :: "pystr list parser" where
  "read_aliases = read_ids max_aliases ''FluidLink v2 alias count exceeds its limit.''"

definition read_registration :: "pydict \<Rightarrow> pydict parser" where
  "read_registration head =
     pbind rd_u8 (\<lambda>k. pbind (plift (enum_name k resource_kinds ''resource kind'')) (\<lambda>kind.
     pbind rd_u8 (\<lambda>m. pbind (plift (enum_name m memory_layers ''memory layer'')) (\<lambda>memory.
     pbind rd_u8 (\<lambda>l. pbind (plift (enum_name l lifetimes ''lifetime'')) (\<lambda>lifetime.
     pbind rd_u64 (\<lambda>size_bytes.
     pbind read_aliases (\<lambda>aliases.
     pret (head @
       [(lit ''kind'', PStr (lit kind)), (lit ''memory'', PStr (lit memory)),
        (lit ''lifetime'', PStr (lit lifetime)),
        (lit ''size_mb'', PFloat (int_truediv size_bytes mebibyte)),
        (lit ''aliases'', PList (map PStr aliases))])))))))))"

definition decode_resource_event :: "pydict parser" where
  "decode_resource_event =
     pbind rd_u8 (\<lambda>a. pbind (plift (enum_name a resource_actions ''resource action'')) (\<lambda>action.
     pbind (rd_text16 max_identifier_bytes False) (\<lambda>resource_id.
     let head = [(lit ''action'', PStr (lit action)), (lit ''id'', PStr resource_id)] in
     if action = ''release'' then pret head else read_registration head)))"

section \<open>Operation events\<close>

text \<open>
  The fields an operation event and an operation batch share. The text options are
  evaluated before the first field is written, the rest as it is written.
\<close>

definition presence_of :: "pystr option \<Rightarrow> pystr option \<Rightarrow> pystr option \<Rightarrow> pyval \<Rightarrow> int" where
  "presence_of source target reason frame_number =
     (if source \<noteq> None then 1 else 0) OR (if target \<noteq> None then 2 else 0)
     OR (if reason \<noteq> None then 4 else 0) OR (if frame_number \<noteq> PNone then 8 else 0)"

definition put_id :: "pystr \<Rightarrow> writer" where
  "put_id s = put_text16 max_identifier_bytes False (PStr s)"

definition put_reason :: "pystr \<Rightarrow> writer" where
  "put_reason s = put_text16 max_reason_bytes False (PStr s)"

definition put_frame_field :: "pyval \<Rightarrow> writer" where
  "put_frame_field frame_number =
     (if frame_number \<noteq> PNone then w_lift (unsigned_value frame_number u64_max ''frame'') put_u64 else Inr)"

definition put_ids :: "pyval list \<Rightarrow> writer" where
  "put_ids items = w_all [put_u8 (int (length items)), efold (put_text16 max_identifier_bytes False) items]"

definition encode_operation_event :: "pydict \<Rightarrow> bytes res" where
  "encode_operation_event payload =
     (let operation_type = first_key payload [''operation_type'', ''op'', ''kind''] PNone;
          operation_id = first_key payload [''id'', ''operation_id''] (PStr []);
          frame_number = dget payload ''frame''
      in ebind (optional_text (dget payload ''source'')) (\<lambda>source.
         ebind (optional_text (dget payload ''target'')) (\<lambda>target.
         ebind (optional_text (dget payload ''reason'')) (\<lambda>reason.
         w_run (w_all
          [w_lift (enum_value operation_type operation_types ''operation type'') put_u8,
           w_lift (enum_value (value_or_default payload ''queue'' (PStr (lit ''unknown''))) queues ''queue'') put_u8,
           put_u8 (presence_of source target reason frame_number),
           put_text16 max_identifier_bytes False operation_id,
           w_opt put_id source,
           w_opt put_id target,
           w_opt put_reason reason,
           w_lift (time_value payload ''cost_us'' ''cost_ms'' u32_max) put_u32,
           w_lift (memory_value payload ''size_bytes'' ''size_mb'') put_u64,
           put_frame_field frame_number,
           w_lift (text_list (value_or_default payload ''depends_on'' (PList [])) max_dependencies ''dependencies'')
             put_ids])))))"

definition rd_id :: "pystr parser" where
  "rd_id = rd_text16 max_identifier_bytes False"

definition rd_reason :: "pystr parser" where
  "rd_reason = rd_text16 max_reason_bytes False"

definition read_dependencies :: "pystr list parser" where
  "read_dependencies = read_ids max_dependencies ''FluidLink v2 dependency count exceeds its limit.''"

definition decode_operation_event :: "pydict parser" where
  "decode_operation_event =
     pbind rd_u8 (\<lambda>o1. pbind (plift (enum_name o1 operation_types ''operation type'')) (\<lambda>operation_type.
     pbind rd_u8 (\<lambda>q1. pbind (plift (enum_name q1 queues ''queue'')) (\<lambda>queue.
     pbind rd_u8 (\<lambda>presence.
     if presence AND NOT 15 \<noteq> 0
     then plift (invalid_payload ''FluidLink v2 operation presence mask is invalid.'')
     else
     pbind rd_id (\<lambda>operation_id.
     pbind (p_opt (presence AND 1 \<noteq> 0) rd_id) (\<lambda>source.
     pbind (p_opt (presence AND 2 \<noteq> 0) rd_id) (\<lambda>target.
     pbind (p_opt (presence AND 4 \<noteq> 0) rd_reason) (\<lambda>reason.
     pbind rd_u32 (\<lambda>cost_us.
     pbind rd_u64 (\<lambda>size_bytes.
     pbind (p_opt (presence AND 8 \<noteq> 0) rd_u64) (\<lambda>frame_number.
     pbind read_dependencies (\<lambda>dependencies.
     pret ([(lit ''operation_type'', PStr (lit operation_type)), (lit ''queue'', PStr (lit queue)),
            (lit ''id'', PStr operation_id)]
       @ opt_entry ''source'' (map_option PStr source)
       @ opt_entry ''target'' (map_option PStr target)
       @ opt_entry ''reason'' (map_option PStr reason)
       @ [(lit ''cost_ms'', PFloat (int_truediv cost_us 1000)),
          (lit ''size_mb'', PFloat (int_truediv size_bytes mebibyte))]
       @ opt_entry ''frame'' (map_option PInt frame_number)
       @ [(lit ''depends_on'', PList (map PStr dependencies))]))))))))))))))"

section \<open>Events by opcode\<close>

definition event_name :: "int \<Rightarrow> string" where
  "event_name e = (if e = ev_session then ''session'' else if e = ev_frame then ''frame''
     else if e = ev_resource then ''resource'' else if e = ev_operation then ''operation'' else ''state'')"

definition unsupported_event :: "int \<Rightarrow> 'a res" where
  "unsupported_event e = protocol_error ''unsupported_event_opcode''
     (lit ''Unsupported FluidLink event opcode '' @ show_int e @ lit ''.'')"

definition encode_runtime_event_payload :: "int \<Rightarrow> pyval \<Rightarrow> bytes res" where
  "encode_runtime_event_payload e payload =
     (case payload of
        PDict d \<Rightarrow>
          if \<not> is_event_opcode e then unsupported_event e
          else if e = ev_session then encode_session_event d
          else if e = ev_frame then encode_frame_event d
          else if e = ev_resource then encode_resource_event d
          else if e = ev_operation then encode_operation_event d
          else encode_state_event d
      | _ \<Rightarrow> invalid_payload ''FluidLink v2 runtime event must be an object.'')"

definition event_parser :: "int \<Rightarrow> pydict parser" where
  "event_parser e =
     (if e = ev_session then decode_session_event
      else if e = ev_frame then decode_frame_event
      else if e = ev_resource then decode_resource_event
      else if e = ev_operation then decode_operation_event
      else decode_state_event)"

definition decode_runtime_event_payload :: "int \<Rightarrow> bytes \<Rightarrow> pydict res" where
  "decode_runtime_event_payload e payload =
     (if \<not> is_event_opcode e then unsupported_event e
      else p_run (pbind (event_parser e) (\<lambda>result.
        pbind rd_finish (\<lambda>_. pret (dput ''event'' (PStr (lit (event_name e))) result)))) payload)"

section \<open>Operation batches\<close>

definition encode_operation_batch_event_payload :: "pyval \<Rightarrow> bytes res" where
  "encode_operation_batch_event_payload value =
     (case value of
       PDict payload \<Rightarrow>
         ebind (batch_id_bytes (dget payload ''batch_id'')) (\<lambda>batch_id.
         ebind (batch_count (dget payload ''operation_count'')) (\<lambda>operation_count.
         let operation_type = first_key payload [''operation_type'', ''op'', ''kind''] PNone;
             frame_number = dget payload ''frame''
         in ebind (optional_text (dget payload ''source'')) (\<lambda>source.
            ebind (optional_text (dget payload ''target'')) (\<lambda>target.
            ebind (optional_text (dget payload ''reason'')) (\<lambda>reason.
            ebind (text_list (value_or_default payload ''depends_on'' (PList [])) max_dependencies
                     ''dependencies'') (\<lambda>dependencies.
            w_run (w_all
              [put_raw batch_id (Some 16),
               put_u16 operation_count,
               w_lift (enum_value operation_type operation_types ''operation type'') put_u8,
               w_lift (enum_value (value_or_default payload ''queue'' (PStr (lit ''unknown''))) queues ''queue'') put_u8,
               put_u8 (presence_of source target reason frame_number),
               w_opt put_id source,
               w_opt put_id target,
               w_opt put_reason reason,
               w_lift (time_value payload ''cost_us'' ''cost_ms'' u32_max) put_u32,
               w_lift (memory_value payload ''size_bytes'' ''size_mb'') put_u64,
               put_frame_field frame_number,
               put_ids dependencies])))))))
     | _ \<Rightarrow> invalid_payload ''FluidLink v2 operation batch must be an object.'')"

definition decode_operation_batch_event_payload :: "bytes \<Rightarrow> pydict res" where
  "decode_operation_batch_event_payload payload = p_run
     (pbind (rd_take 16) (\<lambda>batch_id. pbind (plift (validate_batch_id batch_id)) (\<lambda>_.
     pbind rd_u16 (\<lambda>c1. pbind (plift (batch_count (PInt c1))) (\<lambda>operation_count.
     pbind rd_u8 (\<lambda>o1. pbind (plift (enum_name o1 operation_types ''operation type'')) (\<lambda>operation_type.
     pbind rd_u8 (\<lambda>q1. pbind (plift (enum_name q1 queues ''queue'')) (\<lambda>queue.
     pbind rd_u8 (\<lambda>presence.
     if presence AND NOT 15 \<noteq> 0
     then plift (invalid_payload ''FluidLink v2 operation batch presence mask is invalid.'')
     else
     pbind (p_opt (presence AND 1 \<noteq> 0) rd_id) (\<lambda>source.
     pbind (p_opt (presence AND 2 \<noteq> 0) rd_id) (\<lambda>target.
     pbind (p_opt (presence AND 4 \<noteq> 0) rd_reason) (\<lambda>reason.
     pbind rd_u32 (\<lambda>cost_us.
     pbind rd_u64 (\<lambda>size_bytes.
     pbind (p_opt (presence AND 8 \<noteq> 0) rd_u64) (\<lambda>frame_number.
     pbind read_dependencies (\<lambda>dependencies.
     pbind rd_finish (\<lambda>_.
     pret ([(lit ''batch_id'', PStr (bytes_hex batch_id)), (lit ''operation_count'', PInt operation_count),
            (lit ''operation_type'', PStr (lit operation_type)), (lit ''queue'', PStr (lit queue))]
       @ opt_entry ''source'' (map_option PStr source)
       @ opt_entry ''target'' (map_option PStr target)
       @ opt_entry ''reason'' (map_option PStr reason)
       @ [(lit ''cost_us'', PInt cost_us), (lit ''cost_ms'', PFloat (int_truediv cost_us 1000)),
          (lit ''size_bytes'', PInt size_bytes), (lit ''size_mb'', PFloat (int_truediv size_bytes mebibyte))]
       @ opt_entry ''frame'' (map_option PInt frame_number)
       @ [(lit ''depends_on'', PList (map PStr dependencies))]))))))))))))))))))) payload"

text \<open>A batch decision entry: opcode byte and the 17-byte decision.\<close>

definition put_batch_decision :: "pyval \<Rightarrow> writer" where
  "put_batch_decision decision d =
     ebind (batch_decision decision) (\<lambda>(opcode, reply).
     ebind (put_u8 opcode d) (\<lambda>d1.
     ebind (encode_runtime_decision_payload reply) (\<lambda>b.
     put_raw b (Some 17) d1)))"

definition encode_operation_batch_decision_payload :: "pyval \<Rightarrow> bytes res" where
  "encode_operation_batch_decision_payload value =
     (case value of
       PDict payload \<Rightarrow>
         ebind (batch_id_bytes (dget payload ''batch_id'')) (\<lambda>batch_id.
         case dget payload ''decisions'' of
           PList decisions \<Rightarrow>
             ebind (batch_count (PInt (int (length decisions)))) (\<lambda>count.
             w_run (w_all
               [put_raw batch_id (Some 16),
                put_u16 count,
                efold put_batch_decision decisions]))
         | _ \<Rightarrow> invalid_payload ''FluidLink v2 operation batch decisions must be a list.'')
     | _ \<Rightarrow> invalid_payload ''FluidLink v2 operation batch decision must be an object.'')"

definition rd_batch_decision :: "pydict parser" where
  "rd_batch_decision =
     pbind rd_u8 (\<lambda>opcode.
     pbind (rd_take 17) (\<lambda>b.
     pbind (plift (decode_runtime_decision_payload b)) (\<lambda>reply.
     pbind (plift (validate_batch_decision (PInt opcode) reply)) (\<lambda>_.
     pret ((lit ''decision_opcode'', PInt opcode) # reply)))))"

definition decode_operation_batch_decision_payload :: "bytes \<Rightarrow> pydict res" where
  "decode_operation_batch_decision_payload payload = p_run
     (pbind (rd_take 16) (\<lambda>batch_id. pbind (plift (validate_batch_id batch_id)) (\<lambda>_.
     pbind rd_u16 (\<lambda>c1. pbind (plift (batch_count (PInt c1))) (\<lambda>count.
     pbind (prepeat (nat count) rd_batch_decision) (\<lambda>decisions.
     pbind rd_finish (\<lambda>_.
     pret [(lit ''batch_id'', PStr (bytes_hex batch_id)), (lit ''decisions'', PList (map PDict decisions))]))))))) payload"

section \<open>Shared facts\<close>

lemma dget_opt_entry [simp]:
  "dget (opt_entry k v @ d) k' = (if k = k' then (case v of None \<Rightarrow> dget d k' | Some x \<Rightarrow> x) else dget d k')"
  "dhas (opt_entry k v @ d) k' \<longleftrightarrow> (k = k' \<and> v \<noteq> None) \<or> dhas d k'"
  "dget (opt_entry k v) k' = (if k = k' then (case v of None \<Rightarrow> PNone | Some x \<Rightarrow> x) else PNone)"
  "dhas (opt_entry k v) k' \<longleftrightarrow> k = k' \<and> v \<noteq> None"
  by (auto simp: opt_entry_def split: option.splits)

lemma first_key_simps [simp]:
  "first_key d [] v = v"
  "first_key d (k # ks) v = (if dget d k \<noteq> PNone then dget d k else first_key d ks v)"
  by (simp_all add: first_key_def)

lemma efold_put_ids:
  "efold (put_text16 256 False) items d = Inr d' \<longleftrightarrow>
    (\<exists>ss. items = map PStr ss \<and> list_all (text_valid 256 False) ss \<and> d' = d @ concat (map (text_enc 2) ss))"
proof (induction items arbitrary: d)
  case (Cons v vs)
  show ?case
  proof
    assume "efold (put_text16 256 False) (v # vs) d = Inr d'"
    then show "\<exists>ss. v # vs = map PStr ss \<and> list_all (text_valid 256 False) ss \<and> d' = d @ concat (map (text_enc 2) ss)"
      by (auto simp: result_inversions put_text16_any Cons.IH) (rule_tac x = "s # ss" in exI, simp)
  qed (auto simp: result_inversions put_text16_any Cons.IH)
qed auto

lemma etraverse_ids:
  "etraverse (\<lambda>item. encode_bounded_text item 256 False) items = Inr bs \<Longrightarrow>
     \<exists>ss. items = map PStr ss \<and> list_all (text_valid 256 False) ss"
proof (induction items arbitrary: bs)
  case (Cons v vs)
  then obtain s ss where "v = PStr s" "text_valid 256 False s" "vs = map PStr ss"
      "list_all (text_valid 256 False) ss"
    by (fastforce simp: result_inversions encode_bounded_text_iff)
  then show ?case by (intro exI[of _ "s # ss"]) simp
qed auto

lemma etraverse_ids_ok:
  "list_all (text_valid 256 False) ss \<Longrightarrow>
     \<exists>bs. etraverse (\<lambda>item. encode_bounded_text item 256 False) (map PStr ss) = Inr bs"
proof (induction ss)
  case (Cons s ss)
  then obtain b where "utf8_encode s = Some b" by (auto simp: text_valid_def split: option.splits)
  with Cons show ?case by (auto simp: result_inversions encode_bounded_text_iff)
qed simp

lemma text_list_iff:
  "text_list v m n = Inr items \<longleftrightarrow>
    (\<exists>ss. v = PList (map PStr ss) \<and> items = map PStr ss \<and> length ss \<le> m \<and> list_all (text_valid 256 False) ss)"
proof
  assume "text_list v m n = Inr items"
  then show "\<exists>ss. v = PList (map PStr ss) \<and> items = map PStr ss \<and> length ss \<le> m \<and> list_all (text_valid 256 False) ss"
    by (auto simp: text_list_def result_inversions limit_defs split: pyval.splits dest!: etraverse_ids)
next
  assume "\<exists>ss. v = PList (map PStr ss) \<and> items = map PStr ss \<and> length ss \<le> m \<and> list_all (text_valid 256 False) ss"
  then show "text_list v m n = Inr items"
    using etraverse_ids_ok by (fastforce simp: text_list_def result_inversions limit_defs)
qed

lemma ids_length:
  "list_all (text_valid 256 False) ss \<Longrightarrow> length (concat (map (text_enc 2) ss)) \<le> 258 * length ss"
proof (induction ss)
  case (Cons s ss)
  then show ?case using text_enc_length[of 256 False s 2] by simp
qed simp

lemma read_ids_at: "pbind (read_ids 32 message) f (reader_at pre suf) = Inr q \<longleftrightarrow>
    (\<exists>ss t. length ss \<le> 32 \<and> list_all (text_valid 256 False) ss
       \<and> suf = le_bytes 1 (int (length ss)) @ concat (map (text_enc 2) ss) @ t
       \<and> f ss (reader_at (pre @ le_bytes 1 (int (length ss)) @ concat (map (text_enc 2) ss)) t) = Inr q)"
proof -
  have *: "pbind (read_ids 32 message) f = pbind rd_u8 (\<lambda>count.
     if int 32 < count then plift (invalid_payload message)
     else pbind (prepeat (nat count) (rd_text16 max_identifier_bytes False)) f)"
    by (auto simp: read_ids_def pbind_def fun_eq_iff ebind_def plift_def invalid_payload_def
        protocol_error_def split: sum.splits prod.splits)
  show ?thesis
  proof
    assume "pbind (read_ids 32 message) f (reader_at pre suf) = Inr q"
    then obtain c t where c: "0 \<le> c" "suf = le_bytes 1 c @ t"
      and r: "(if int 32 < c then plift (invalid_payload message)
        else pbind (prepeat (nat c) (rd_text16 256 False)) f) (reader_at (pre @ le_bytes 1 c) t) = Inr q"
      unfolding * u8.pbind_at rd_id_def limit_defs by blast
    then obtain ss u where ss: "c \<le> 32" "length ss = nat c" "list_all (text_valid 256 False) ss"
      "t = concat (map (text_enc 2) ss) @ u"
      "f ss (reader_at ((pre @ le_bytes 1 c) @ concat (map (text_enc 2) ss)) u) = Inr q"
      unfolding if_fail_at id16.pbind_gets_at limit_defs not_less of_nat_numeral by blast
    then have ceq: "c = int (length ss)" using c by simp
    show "\<exists>ss t. length ss \<le> 32 \<and> list_all (text_valid 256 False) ss
       \<and> suf = le_bytes 1 (int (length ss)) @ concat (map (text_enc 2) ss) @ t
       \<and> f ss (reader_at (pre @ le_bytes 1 (int (length ss)) @ concat (map (text_enc 2) ss)) t) = Inr q"
      using c(2) ss(1,3,4,5) unfolding ceq by (intro exI[of _ ss] exI[of _ u]) simp
  next
    assume "\<exists>ss t. length ss \<le> 32 \<and> list_all (text_valid 256 False) ss
       \<and> suf = le_bytes 1 (int (length ss)) @ concat (map (text_enc 2) ss) @ t
       \<and> f ss (reader_at (pre @ le_bytes 1 (int (length ss)) @ concat (map (text_enc 2) ss)) t) = Inr q"
    then obtain ss t where "length ss \<le> 32" "list_all (text_valid 256 False) ss"
      "suf = le_bytes 1 (int (length ss)) @ concat (map (text_enc 2) ss) @ t"
      "f ss (reader_at (pre @ le_bytes 1 (int (length ss)) @ concat (map (text_enc 2) ss)) t) = Inr q"
      by blast
    then show "pbind (read_ids 32 message) f (reader_at pre suf) = Inr q"
      unfolding * by (simp add: payload_simps rd_id_def)
        (intro exI[of _ "int (length ss)"] conjI exI[of _ "concat (map (text_enc 2) ss) @ t"] exI[of _ ss] exI[of _ t]; simp)
  qed
qed

lemma ids_at:
  "pbind read_dependencies f = pbind (read_ids 32 ''FluidLink v2 dependency count exceeds its limit.'') f"
  "pbind read_aliases f = pbind (read_ids 32 ''FluidLink v2 alias count exceeds its limit.'') f"
  by (simp_all add: read_dependencies_def read_aliases_def limit_defs)

lemma mask15:
  assumes "f AND NOT 15 = 0"
  shows "(if f AND 1 \<noteq> 0 then 1 else 0) OR (if f AND 2 \<noteq> 0 then 2 else 0)
     OR (if f AND 4 \<noteq> 0 then 4 else 0) OR (if f AND 8 \<noteq> 0 then 8 else 0) = (f :: int)"
proof -
  have "list_all (\<lambda>f. (if f AND 1 \<noteq> 0 then 1 else 0) OR (if f AND 2 \<noteq> 0 then 2 else 0)
     OR (if f AND 4 \<noteq> 0 then 4 else 0) OR (if f AND 8 \<noteq> 0 then 8 else 0) = (f :: int)) [0..15]"
    by code_simp
  moreover have "0 \<le> f \<and> f \<le> 15" using assms by (intro mask_range) simp_all
  ultimately show ?thesis by (auto simp: list_all_iff)
qed

lemma mask63:
  assumes "f AND NOT 63 = 0"
  shows "(if f AND 1 \<noteq> 0 then 1 else 0) OR (if f AND 2 \<noteq> 0 then 2 else 0)
     OR (if f AND 4 \<noteq> 0 then 4 else 0) OR (if f AND 8 \<noteq> 0 then 8 else 0)
     OR (if f AND 16 \<noteq> 0 then 16 else 0) OR (if f AND 32 \<noteq> 0 then 32 else 0) = (f :: int)"
proof -
  have "list_all (\<lambda>f. (if f AND 1 \<noteq> 0 then 1 else 0) OR (if f AND 2 \<noteq> 0 then 2 else 0)
     OR (if f AND 4 \<noteq> 0 then 4 else 0) OR (if f AND 8 \<noteq> 0 then 8 else 0)
     OR (if f AND 16 \<noteq> 0 then 16 else 0) OR (if f AND 32 \<noteq> 0 then 32 else 0) = (f :: int)) [0..63]"
    by code_simp
  moreover have "0 \<le> f \<and> f \<le> 63" using assms by (intro mask_range) simp_all
  ultimately show ?thesis by (auto simp: list_all_iff)
qed

end
