(* ===== verification/Link_Canonical.thy ===== *)
theory Link_Canonical
  imports Link_Events
begin

text \<open>
  Canonicity of the event payloads of FluidLink v2: what a decoder of \<^verbatim>\<open>Link_Events\<close> accepts
  is encoded again to the very same bytes. Sizes that the protocol shows as floating-point
  mebibytes have to be below 512 TiB for that (\<open>small_sizes\<close>); beyond, the float is no longer
  exact. Batches carry the integers too, and need no such bound.
\<close>

section \<open>Canonicity\<close>

lemma pbind_pbind: "pbind (pbind p g) f = pbind p (\<lambda>x. pbind (g x) f)"
  by (auto simp: pbind_def fun_eq_iff ebind_def split: sum.splits)

lemma pbind_flat:
  "pbind (if c then plift (invalid_payload s) else b) f = (if c then plift (invalid_payload s) else pbind b f)"
  "pbind (pret x) f = f x"
  "pbind (plift (invalid_payload s)) f = plift (invalid_payload s)"
  by (auto simp: pbind_def fun_eq_iff ebind_def pret_def plift_def invalid_payload_def protocol_error_def)

lemmas event_simps = payload_simps pbind_pbind pbind_flat ids_at read_ids_at rd_id_def rd_reason_def

text \<open>The sizes an event shows are below 512 TiB, so that their mebibytes are exact.\<close>

definition small_float :: "pyval \<Rightarrow> bool" where
  "small_float v = (case v of PFloat (Fin x) \<Rightarrow> x < 536870912 | _ \<Rightarrow> True)"

definition small_sizes :: "pydict \<Rightarrow> bool" where
  "small_sizes d = list_all (\<lambda>(_, v). small_float v \<and>
     (case v of PDict b \<Rightarrow> list_all (\<lambda>(_, w). small_float w) b | _ \<Rightarrow> True)) d"

lemma small_float_bytes:
  assumes n: "0 \<le> n" "n \<le> 18446744073709551615" and s: "small_float (PFloat (int_truediv n 1048576))"
  shows "n < 2 ^ 50"
proof (rule ccontr)
  assume "\<not> n < 2 ^ 50"
  then have big: "(of_int (2 ^ 50) :: rat) \<le> of_int n" by (simp only: of_int_le_iff not_less)
  have "(of_int n :: rat) \<le> of_int 18446744073709551615" using n by (simp only: of_int_le_iff)
  then have le: "of_int n / 1048576 \<le> (17592186044416 :: rat)" and ge: "1073741824 \<le> (of_int n / 1048576 :: rat)"
    using big by simp_all
  let ?x = "of_int n / 1048576 :: rat"
  have "?x \<le> powb 2 100" using le by (simp add: powb_def)
  then obtain y where y: "to_f64 ?x = Fin y" using to_f64_Fin[of ?x] ge by auto
  then have "\<bar>y - ?x\<bar> \<le> (\<bar>?x\<bar> + 1) / 2 ^ 53" by (rule to_f64_error)
  also have "\<dots> \<le> 1" using le ge by simp
  finally have "?x - 1 \<le> y" by (simp only: abs_le_iff) linarith
  moreover have "y < 536870912" using s y by (simp add: small_float_def int_truediv_def)
  ultimately show False using ge by linarith
qed

lemma enum_name_inv:
  assumes "table_ok t" "enum_name n t nm = Inr k"
  shows "enum_value (PStr (lit k)) t nm' = Inr n"
  using enum_roundtrip[OF assms] by blast

lemma dget_or_if: "dget_or d k v = (if dhas d k then dget d k else v)"
  by (auto simp: dhas_def dget_def dget_or_def split: option.splits)

lemma state_canonical:
  assumes "p_run (pbind decode_state_event (\<lambda>result. pbind rd_finish (\<lambda>_. pret (dput ''event'' v result)))) p = Inr d"
  shows "encode_state_event d = Inr p"
proof -
  obtain a k where a: "0 \<le> a" "a \<le> 255" "enum_name a state_actions ''state action'' = Inr k"
    and p: "p = le_bytes 1 a" and d: "d = dput ''event'' v [(lit ''action'', PStr (lit k))]"
    using assms by (auto simp: decode_state_event_def event_simps)
  have "enum_value (PStr (lit k)) state_actions ''state action'' = Inr a"
    by (rule enum_name_inv[OF _ a(3)]) simp
  then show ?thesis
    using a by (simp add: d dget_dput dhas_dput encode_state_event_def value_or_default_def p payload_simps)
qed

lemma mask1: "f AND NOT 1 = 0 \<Longrightarrow> f = 0 \<or> f = (1 :: int)"
  using mask_range[of f 1] by auto

lemma lifecycle_end: "enum_name a lifecycle_actions nm = Inr k \<Longrightarrow> a = 2 \<longleftrightarrow> k = ''end''"
  by (auto simp: enum_name_def lifecycle_actions_def split: if_splits)

lemma frame_canonical:
  assumes "p_run (pbind decode_frame_event (\<lambda>result. pbind rd_finish (\<lambda>_. pret (dput ''event'' v result)))) p = Inr d"
  shows "encode_frame_event d = Inr p"
proof -
  obtain a k f n us where a: "0 \<le> a" "a \<le> 255" "enum_name a lifecycle_actions ''frame action'' = Inr k"
    and f: "f AND NOT 1 = 0" "\<not> (k = ''end'' \<and> f \<noteq> 0)" and n: "0 \<le> n" "n \<le> 18446744073709551615"
    and us: "given us (f AND 1 \<noteq> 0)" "pred_option (\<lambda>v. 0 \<le> v \<and> v \<le> 4294967295) us"
    and p: "p = le_bytes 1 a @ le_bytes 1 f @ le_bytes 8 n @ opt_bytes (le_bytes 4) us @ []"
    and d: "d = dput ''event'' v ([(lit ''action'', PStr (lit k)), (lit ''frame'', PInt n)]
        @ opt_entry ''target_frame_ms'' (map_option (\<lambda>n. PFloat (int_truediv n 1000)) us))"
    using assms unfolding decode_frame_event_def event_simps append_assoc append_Nil append_Nil2
    by blast
  have e: "enum_value (PStr (lit k)) lifecycle_actions ''frame action'' = Inr a"
    by (rule enum_name_inv[OF _ a(3)]) simp
  note le = lifecycle_end[OF a(3)]
  show ?thesis
  proof (cases us)
    case None
    then have "f = 0" using f us mask1[of f] by (auto simp: given_def)
    then show ?thesis
      using a e n None by (simp add: d dget_dput dhas_dput encode_frame_event_def value_or_default_def p payload_simps)
  next
    case (Some u)
    then have "f = 1" using f us mask1[of f] by (auto simp: given_def)
    moreover have "time_scalar (PFloat (int_truediv u 1000)) False 4294967295 = Inr u"
      using time_scalar_roundtrip[of u] us Some by (simp add: u32_max_def)
    ultimately show ?thesis
      using a e n Some f le us by (simp add: d dget_dput dhas_dput encode_frame_event_def value_or_default_def p payload_simps)
  qed
qed


definition opt_val :: "pyval option \<Rightarrow> pyval" where
  "opt_val v = (case v of None \<Rightarrow> PNone | Some x \<Rightarrow> x)"

lemma opt_val_simps [simp]: "opt_val None = PNone" "opt_val (Some x) = x"
  by (simp_all add: opt_val_def)

lemma presence_given:
  assumes "given source (f AND 1 \<noteq> 0)" "given target (f AND 2 \<noteq> 0)" "given reason (f AND 4 \<noteq> 0)"
    and "given fr (f AND 8 \<noteq> 0)" "f AND NOT 15 = 0"
  shows "presence_of source target reason (opt_val (map_option PInt fr)) = f"
proof -
  have "((opt_val (map_option PInt fr)) \<noteq> PNone) = (f AND 8 \<noteq> 0)"
    using assms(4) by (cases fr) (auto simp: given_def)
  then show ?thesis
    using assms(1-3) mask15[OF assms(5)] unfolding presence_of_def given_def by simp
qed

lemma optional_text_option [simp]:
  "optional_text (opt_val (map_option PStr s)) = Inr s"
  by (cases s) (simp_all add: optional_text_def)

lemma put_frame_option:
  "pred_option (\<lambda>v. 0 \<le> v \<and> v \<le> 18446744073709551615) fr \<Longrightarrow>
   put_frame_field (opt_val (map_option PInt fr)) d = Inr (d @ opt_bytes (le_bytes 8) fr)"
  by (cases fr) (auto simp: put_frame_field_def payload_simps)

lemma opt_text_length:
  "pred_option (text_valid 256 False) v \<Longrightarrow> length (opt_bytes (text_enc 2) v) \<le> 258"
  "pred_option (text_valid 512 False) v \<Longrightarrow> length (opt_bytes (text_enc 2) v) \<le> 514"
  using text_enc_length[of 256 False _ 2] text_enc_length[of 512 False _ 2]
  by (cases v; force)+

lemma opt_u64_length: "length (opt_bytes (le_bytes k) v) \<le> k"
  by (cases v) auto

lemma text_length256: "text_valid 256 e s \<Longrightarrow> length (text_enc 2 s) \<le> 258"
  using text_enc_length[of 256 e s 2] by simp

lemma put_opt_text:
  "w_opt put_id v d = Inr d' \<longleftrightarrow> pred_option (text_valid 256 False) v \<and> d' = d @ opt_bytes (text_enc 2) v"
  "w_opt put_reason v d = Inr d' \<longleftrightarrow> pred_option (text_valid 512 False) v \<and> d' = d @ opt_bytes (text_enc 2) v"
  by (cases v; auto simp: put_id_def put_reason_def limit_defs put_text16_iff)+

lemma put_ids_iff: "list_all (text_valid 256 False) ss \<Longrightarrow> length ss \<le> 255 \<Longrightarrow>
    put_ids (map PStr ss) d = Inr (d @ le_bytes 1 (int (length ss)) @ concat (map (text_enc 2) ss))"
  by (auto simp: put_ids_def limit_defs wire_puts efold_put_ids result_inversions)

text \<open>Times and sizes that were shown as floats are found again.\<close>

lemma time_value_shown:
  assumes "\<not> dhas d us" "dhas d ms" "dget d ms = PFloat (int_truediv n 1000)" "0 \<le> n" "n \<le> 4294967295"
  shows "time_value d us ms 4294967295 = Inr n"
  using assms time_scalar_roundtrip[of n] by (simp add: time_value_def dget_or_if u32_max_def)

lemma memory_value_shown:
  assumes "\<not> dhas d bs" "dhas d mb" "dget d mb = PFloat (int_truediv n 1048576)" "0 \<le> n" "n \<le> 18446744073709551615"
    and "small_float (PFloat (int_truediv n 1048576))"
  shows "memory_value d bs mb = Inr n"
  using assms megabytes_roundtrip[of n mb] small_float_bytes[of n]
  by (simp add: memory_value_def dget_or_if mebibyte_def)

lemma small_sizes_dput: "k \<notin> fst ` set d \<Longrightarrow> small_sizes (alist_put k v d) \<Longrightarrow> small_sizes d"
  by (induction k v d rule: alist_put.induct) (auto simp: small_sizes_def)

lemma small_sizes_at: "small_sizes d \<Longrightarrow> (k, v) \<in> set d \<Longrightarrow> small_float v"
  by (auto simp: small_sizes_def list_all_iff)

lemma operation_canonical:
  assumes dec: "p_run (pbind decode_operation_event (\<lambda>result. pbind rd_finish (\<lambda>_. pret (dput ''event'' w result)))) p = Inr d"
    and small: "small_sizes d"
  shows "encode_operation_event d = Inr p"
proof -
  obtain o1 ot q1 q f oid src tgt rsn c b fr deps where
    o1: "0 \<le> o1 \<and> o1 \<le> 255" "enum_name o1 operation_types ''operation type'' = Inr ot"
    and q1: "0 \<le> q1 \<and> q1 \<le> 255" "enum_name q1 queues ''queue'' = Inr q"
    and f: "0 \<le> f \<and> f \<le> 255" "\<not> f AND NOT 15 \<noteq> 0"
    and oid: "text_valid 256 False oid"
    and src: "given src (f AND 1 \<noteq> 0)" "pred_option (text_valid 256 False) src"
    and tgt: "given tgt (f AND 2 \<noteq> 0)" "pred_option (text_valid 256 False) tgt"
    and rsn: "given rsn (f AND 4 \<noteq> 0)" "pred_option (text_valid 512 False) rsn"
    and c: "0 \<le> c \<and> c \<le> 4294967295" and b: "0 \<le> b \<and> b \<le> 18446744073709551615"
    and fr: "given fr (f AND 8 \<noteq> 0)" "pred_option (\<lambda>v. 0 \<le> v \<and> v \<le> 18446744073709551615) fr"
    and deps: "length deps \<le> 32" "list_all (text_valid 256 False) deps"
    and p: "p = le_bytes 1 o1 @ le_bytes 1 q1 @ le_bytes 1 f @ text_enc 2 oid @ opt_bytes (text_enc 2) src
        @ opt_bytes (text_enc 2) tgt @ opt_bytes (text_enc 2) rsn @ le_bytes 4 c @ le_bytes 8 b
        @ opt_bytes (le_bytes 8) fr @ le_bytes 1 (int (length deps)) @ concat (map (text_enc 2) deps) @ []"
    and d: "d = dput ''event'' w ([(lit ''operation_type'', PStr (lit ot)), (lit ''queue'', PStr (lit q)),
            (lit ''id'', PStr oid)]
       @ opt_entry ''source'' (map_option PStr src)
       @ opt_entry ''target'' (map_option PStr tgt)
       @ opt_entry ''reason'' (map_option PStr rsn)
       @ [(lit ''cost_ms'', PFloat (int_truediv c 1000)), (lit ''size_mb'', PFloat (int_truediv b 1048576))]
       @ opt_entry ''frame'' (map_option PInt fr)
       @ [(lit ''depends_on'', PList (map PStr deps))])"
    using dec unfolding decode_operation_event_def event_simps append_assoc append_Nil append_Nil2
    by blast
  have sm: "small_float (PFloat (int_truediv b 1048576))"
  proof (rule small_sizes_at)
    show "small_sizes d" by (rule small)
    show "(lit ''size_mb'', PFloat (int_truediv b 1048576)) \<in> set d"
      by (simp add: d dput_def opt_entry_def split: option.split)
  qed
  note look = dget_dput dhas_dput value_or_default_def
  have g: "first_key d [''operation_type'', ''op'', ''kind''] PNone = PStr (lit ot)"
    "first_key d [''id'', ''operation_id''] (PStr []) = PStr oid"
    "value_or_default d ''queue'' (PStr (lit ''unknown'')) = PStr (lit q)"
    "value_or_default d ''depends_on'' (PList []) = PList (map PStr deps)"
    "dget d ''source'' = (opt_val (map_option PStr src))"
    "dget d ''target'' = (opt_val (map_option PStr tgt))"
    "dget d ''reason'' = (opt_val (map_option PStr rsn))"
    "dget d ''frame'' = (opt_val (map_option PInt fr))"
    by (simp_all add: d look opt_val_def split: option.split)
  have t: "time_value d ''cost_us'' ''cost_ms'' u32_max = Inr c"
    using c unfolding u32_max_def by (intro time_value_shown) (simp_all add: d look)
  have m: "memory_value d ''size_bytes'' ''size_mb'' = Inr b"
    using b sm by (intro memory_value_shown) (simp_all add: d look)
  note e = enum_name_inv[OF _ o1(2)] enum_name_inv[OF _ q1(2)]
  have len: "length p \<le> 65535"
    using text_length256[OF oid] opt_text_length(1)[OF src(2)] opt_text_length(1)[OF tgt(2)]
      opt_text_length(2)[OF rsn(2)] opt_u64_length[of 8 fr] ids_length[OF deps(2)] deps(1)
    by (simp add: p)
  have dep: "text_list (PList (map PStr deps)) 32 ''dependencies'' = Inr (map PStr deps)"
    using deps by (auto simp: text_list_iff limit_defs)
  have pr: "presence_of src tgt rsn (opt_val (map_option PInt fr)) = f"
    using src(1) tgt(1) rsn(1) fr(1) f(2) by (intro presence_given) auto
  show ?thesis
    unfolding encode_operation_event_def Let_def g optional_text_option ebind_Inr pr
    using o1 q1 f oid src tgt rsn c b fr deps len t m
    by (simp add: wire_puts result_inversions e dep put_opt_text limit_defs put_frame_option put_ids_iff p)
qed


lemma batch_id_bytes_hex:
  "validate_batch_id b = Inr u \<longleftrightarrow> length b = 16 \<and> any_byte b"
  "length b = 16 \<Longrightarrow> any_byte b \<Longrightarrow> batch_id_bytes (PStr (bytes_hex b)) = Inr b"
proof -
  show v: "validate_batch_id b = Inr u \<longleftrightarrow> length b = 16 \<and> any_byte b" for u
    by (auto simp: validate_batch_id_def)
  assume b: "length b = 16" "any_byte b"
  have "\<not> list_ex (\<lambda>c. \<not> is_hex c) (bytes_hex b)"
    using bytes_hex_is_hex[of b] by (auto simp: list_all_iff list_ex_iff)
  then show "batch_id_bytes (PStr (bytes_hex b)) = Inr b"
    using b v[of "()"] by (simp add: batch_id_bytes_def Let_def bytes_hex_length bytes_fromhex_hex)
qed

lemma batch_count_iff: "batch_count (PInt n) = Inr c \<longleftrightarrow> c = n \<and> 1 \<le> n \<and> n \<le> 256"
  by (auto simp: batch_count_def Let_def limit_defs)

text \<open>A decoded batch is encoded to the bytes it came from, whatever its size.\<close>

lemma batch_event_canonical:
  assumes dec: "decode_operation_batch_event_payload p = Inr d"
  shows "encode_operation_batch_event_payload (PDict d) = Inr p"
proof -
  obtain bid n o1 ot q1 q f src tgt rsn c b fr deps where
    bid: "int (length bid) = 16" "any_byte bid" and n: "1 \<le> n \<and> n \<le> 256" "0 \<le> n \<and> n \<le> 65535"
    and o1: "0 \<le> o1 \<and> o1 \<le> 255" "enum_name o1 operation_types ''operation type'' = Inr ot"
    and q1: "0 \<le> q1 \<and> q1 \<le> 255" "enum_name q1 queues ''queue'' = Inr q"
    and f: "0 \<le> f \<and> f \<le> 255" "\<not> f AND NOT 15 \<noteq> 0"
    and src: "given src (f AND 1 \<noteq> 0)" "pred_option (text_valid 256 False) src"
    and tgt: "given tgt (f AND 2 \<noteq> 0)" "pred_option (text_valid 256 False) tgt"
    and rsn: "given rsn (f AND 4 \<noteq> 0)" "pred_option (text_valid 512 False) rsn"
    and c: "0 \<le> c \<and> c \<le> 4294967295" and b: "0 \<le> b \<and> b \<le> 18446744073709551615"
    and fr: "given fr (f AND 8 \<noteq> 0)" "pred_option (\<lambda>v. 0 \<le> v \<and> v \<le> 18446744073709551615) fr"
    and deps: "length deps \<le> 32" "list_all (text_valid 256 False) deps"
    and p: "p = bid @ le_bytes 2 n @ le_bytes 1 o1 @ le_bytes 1 q1 @ le_bytes 1 f @ opt_bytes (text_enc 2) src
        @ opt_bytes (text_enc 2) tgt @ opt_bytes (text_enc 2) rsn @ le_bytes 4 c @ le_bytes 8 b
        @ opt_bytes (le_bytes 8) fr @ le_bytes 1 (int (length deps)) @ concat (map (text_enc 2) deps) @ []"
    and d: "d = [(lit ''batch_id'', PStr (bytes_hex bid)), (lit ''operation_count'', PInt n),
            (lit ''operation_type'', PStr (lit ot)), (lit ''queue'', PStr (lit q))]
       @ opt_entry ''source'' (map_option PStr src)
       @ opt_entry ''target'' (map_option PStr tgt)
       @ opt_entry ''reason'' (map_option PStr rsn)
       @ [(lit ''cost_us'', PInt c), (lit ''cost_ms'', PFloat (int_truediv c 1000)),
          (lit ''size_bytes'', PInt b), (lit ''size_mb'', PFloat (int_truediv b 1048576))]
       @ opt_entry ''frame'' (map_option PInt fr)
       @ [(lit ''depends_on'', PList (map PStr deps))]"
    using dec unfolding decode_operation_batch_event_payload_def event_simps append_assoc append_Nil append_Nil2
      batch_id_bytes_hex(1) batch_count_iff
    by blast
  have g: "dget d ''batch_id'' = PStr (bytes_hex bid)" "dget d ''operation_count'' = PInt n"
    "first_key d [''operation_type'', ''op'', ''kind''] PNone = PStr (lit ot)"
    "value_or_default d ''queue'' (PStr (lit ''unknown'')) = PStr (lit q)"
    "value_or_default d ''depends_on'' (PList []) = PList (map PStr deps)"
    "dget d ''source'' = opt_val (map_option PStr src)" "dget d ''target'' = opt_val (map_option PStr tgt)"
    "dget d ''reason'' = opt_val (map_option PStr rsn)" "dget d ''frame'' = opt_val (map_option PInt fr)"
    by (simp_all add: d value_or_default_def opt_val_def split: option.split)
  have t: "time_value d ''cost_us'' ''cost_ms'' 4294967295 = Inr c"
    and m: "memory_value d ''size_bytes'' ''size_mb'' = Inr b"
    using c b by (simp_all add: d time_value_def memory_value_def payload_simps)
  note e = enum_name_inv[OF _ o1(2)] enum_name_inv[OF _ q1(2)]
  have len: "length p \<le> 65535"
    using bid opt_text_length(1)[OF src(2)] opt_text_length(1)[OF tgt(2)]
      opt_text_length(2)[OF rsn(2)] opt_u64_length[of 8 fr] ids_length[OF deps(2)] deps(1)
    by (simp add: p)
  have dep: "text_list (PList (map PStr deps)) 32 ''dependencies'' = Inr (map PStr deps)"
    using deps by (auto simp: text_list_iff)
  have pr: "presence_of src tgt rsn (opt_val (map_option PInt fr)) = f"
    using src(1) tgt(1) rsn(1) fr(1) f(2) by (intro presence_given) auto
  have i: "batch_id_bytes (PStr (bytes_hex bid)) = Inr bid" "batch_count (PInt n) = Inr n"
    using bid n by (simp_all add: batch_id_bytes_hex batch_count_iff)
  show ?thesis
    unfolding encode_operation_batch_event_payload_def pyval.case Let_def g optional_text_option ebind_Inr pr i
      max_dependencies_def dep
    using o1 q1 f src tgt rsn c b fr deps len t m bid n
    by (simp add: wire_puts result_inversions e put_opt_text limit_defs put_frame_option put_ids_iff p)
qed

section \<open>Resource events\<close>

lemma resource_release: "enum_name a resource_actions nm = Inr k \<Longrightarrow> (a = 2) = (k = ''release'')"
  by (auto simp: enum_name_def resource_actions_def split: if_splits)

lemma release_canonical:
  assumes a: "0 \<le> a \<and> a \<le> 255" "enum_name a resource_actions ''resource action'' = Inr ''release''"
    and rid: "text_valid 256 False rid"
    and d: "d = dput ''event'' w [(lit ''action'', PStr (lit ''release'')), (lit ''id'', PStr rid)]"
  shows "encode_resource_event d = Inr (le_bytes 1 a @ text_enc 2 rid)"
proof -
  have g: "value_or_default d ''action'' (PStr (lit ''register'')) = PStr (lit ''release'')"
    "first_key d [''id'', ''resource_id''] (PStr []) = PStr rid"
    "\<not> list_ex (dhas d) registration_keys"
    by (simp_all add: d value_or_default_def dget_dput dhas_dput registration_keys_def)
  note e = enum_name_inv[OF _ a(2)]
  have "length (text_enc 2 rid) \<le> 258" by (rule text_length256[OF rid])
  moreover have "a = 2" using resource_release[OF a(2)] by simp
  ultimately show ?thesis
    using a rid unfolding encode_resource_event_def Let_def g
    by (simp add: e wire_puts result_inversions limit_defs g w_finish_def max_payload_bytes_def)
qed

lemma registration_canonical:
  assumes a: "0 \<le> a \<and> a \<le> 255" "enum_name a resource_actions ''resource action'' = Inr ac" "ac \<noteq> ''release''"
    and rid: "text_valid 256 False rid"
    and k: "0 \<le> k1 \<and> k1 \<le> 255" "enum_name k1 resource_kinds ''resource kind'' = Inr k"
    and m: "0 \<le> m1 \<and> m1 \<le> 255" "enum_name m1 memory_layers ''memory layer'' = Inr m"
    and l: "0 \<le> l1 \<and> l1 \<le> 255" "enum_name l1 lifetimes ''lifetime'' = Inr l"
    and b: "0 \<le> b \<and> b \<le> 18446744073709551615"
    and al: "length al \<le> 32" "list_all (text_valid 256 False) al"
    and d: "d = dput ''event'' w ([(lit ''action'', PStr (lit ac)), (lit ''id'', PStr rid)] @
       [(lit ''kind'', PStr (lit k)), (lit ''memory'', PStr (lit m)),
        (lit ''lifetime'', PStr (lit l)), (lit ''size_mb'', PFloat (int_truediv b 1048576)),
        (lit ''aliases'', PList (map PStr al))])"
    and small: "small_sizes d"
  shows "encode_resource_event d = Inr (le_bytes 1 a @ text_enc 2 rid @ le_bytes 1 k1 @ le_bytes 1 m1
      @ le_bytes 1 l1 @ le_bytes 8 b @ le_bytes 1 (int (length al)) @ concat (map (text_enc 2) al))"
proof -
  note look = dget_dput dhas_dput value_or_default_def
  have g: "value_or_default d ''action'' (PStr (lit ''register'')) = PStr (lit ac)"
    "first_key d [''id'', ''resource_id''] (PStr []) = PStr rid"
    "value_or_default d ''kind'' (PStr (lit ''unknown'')) = PStr (lit k)"
    "value_or_default d ''memory'' (PStr (lit ''ram'')) = PStr (lit m)"
    "value_or_default d ''lifetime'' (PStr (lit ''unknown'')) = PStr (lit l)"
    "value_or_default d ''aliases'' (PList []) = PList (map PStr al)"
    by (simp_all add: d look)
  note e = enum_name_inv[OF _ a(2)] enum_name_inv[OF _ k(2)] enum_name_inv[OF _ m(2)] enum_name_inv[OF _ l(2)]
  have sm: "small_float (PFloat (int_truediv b 1048576))"
  proof (rule small_sizes_at)
    show "small_sizes d" by (rule small)
    show "(lit ''size_mb'', PFloat (int_truediv b 1048576)) \<in> set d" by (simp add: d dput_def)
  qed
  have mv: "memory_value d ''size_bytes'' ''size_mb'' = Inr b"
    using b sm by (intro memory_value_shown) (simp_all add: d look)
  have ai: "text_list (PList (map PStr al)) 32 ''aliases'' = Inr (map PStr al)"
    using al by (auto simp: text_list_iff)
  have "a \<noteq> 2" using resource_release[OF a(2)] a(3) by simp
  moreover have "length (text_enc 2 rid) \<le> 258" by (rule text_length256[OF rid])
  moreover note ids_length[OF al(2)]
  ultimately show ?thesis
    using a k m l b rid al mv unfolding encode_resource_event_def Let_def g
    by (simp add: e wire_puts result_inversions limit_defs ai w_finish_def max_payload_bytes_def efold_put_ids) blast
qed

lemma resource_canonical:
  assumes dec: "p_run (pbind decode_resource_event (\<lambda>result. pbind rd_finish (\<lambda>_. pret (dput ''event'' w result)))) p = Inr d"
    and small: "small_sizes d"
  shows "encode_resource_event d = Inr p"
proof -
  let ?F = "\<lambda>result. pbind rd_finish (\<lambda>_. pret (dput ''event'' w result))"
  obtain a ac rid t r where a: "0 \<le> a \<and> a \<le> 255" "enum_name a resource_actions ''resource action'' = Inr ac"
    and rid: "text_valid 256 False rid" and p: "p = le_bytes 1 a @ text_enc 2 rid @ t"
    and k: "pbind (if ac = ''release'' then pret [(lit ''action'', PStr (lit ac)), (lit ''id'', PStr rid)]
        else read_registration [(lit ''action'', PStr (lit ac)), (lit ''id'', PStr rid)]) ?F
        (reader_at (le_bytes 1 a @ text_enc 2 rid) t) = Inr (d, r)"
    using dec unfolding decode_resource_event_def event_simps append_assoc append_Nil append_Nil2 Let_def
    by blast
  show ?thesis
  proof (cases "ac = ''release''")
    case True
    then have "t = [] \<and> d = dput ''event'' w [(lit ''action'', PStr (lit ac)), (lit ''id'', PStr rid)]"
      using k by (simp add: event_simps)
    then show ?thesis using release_canonical[OF a(1) a(2)[unfolded True] rid] True p by simp
  next
    case False
    then have k': "pbind (read_registration [(lit ''action'', PStr (lit ac)), (lit ''id'', PStr rid)]) ?F
        (reader_at (le_bytes 1 a @ text_enc 2 rid) t) = Inr (d, r)"
      using k by simp
    obtain k1 k m1 m l1 l b al where "0 \<le> k1 \<and> k1 \<le> 255" "enum_name k1 resource_kinds ''resource kind'' = Inr k"
      "0 \<le> m1 \<and> m1 \<le> 255" "enum_name m1 memory_layers ''memory layer'' = Inr m"
      "0 \<le> l1 \<and> l1 \<le> 255" "enum_name l1 lifetimes ''lifetime'' = Inr l"
      "0 \<le> b \<and> b \<le> 18446744073709551615"
      "length al \<le> 32" "list_all (text_valid 256 False) al"
      and t: "t = le_bytes 1 k1 @ le_bytes 1 m1 @ le_bytes 1 l1 @ le_bytes 8 b @ le_bytes 1 (int (length al))
         @ concat (map (text_enc 2) al) @ []"
      and "d = dput ''event'' w ([(lit ''action'', PStr (lit ac)), (lit ''id'', PStr rid)] @
       [(lit ''kind'', PStr (lit k)), (lit ''memory'', PStr (lit m)),
        (lit ''lifetime'', PStr (lit l)), (lit ''size_mb'', PFloat (int_truediv b 1048576)),
        (lit ''aliases'', PList (map PStr al))])"
      using k' unfolding read_registration_def event_simps append_assoc append_Nil append_Nil2 by blast
    then show ?thesis using registration_canonical[OF a False rid] small p by simp
  qed
qed

section \<open>Batch decisions\<close>

lemma batch_decision_dget:
  assumes "decode_runtime_decision_payload b = Inr r"
  shows "dget r ''decision_opcode'' = PNone"
  using assms unfolding decode_decision_iff by (auto split: if_splits)

lemma put_batch_decision_read:
  assumes "decode_runtime_decision_payload b = Inr r" "validate_batch_decision (PInt n) r = Inr u"
  shows "put_batch_decision (PDict ((lit ''decision_opcode'', PInt n) # r)) d = Inr (d @ le_bytes 1 n @ b)"
proof -
  let ?e = "(lit ''decision_opcode'', PInt n) # r"
  have len: "length b = 17" using assms(1) unfolding decode_decision_iff by auto
  have c: "encode_runtime_decision_payload r = Inr b" by (rule decision_canonical[OF assms(1)])
  have o: "dget_or ?e k v = dget_or r k v" "dhas ?e k = dhas r k" "dget ?e k = dget r k"
    if "k \<noteq> ''decision_opcode''" for k v
    using that by (simp_all add: dget_or_def dhas_def dget_def)
  have "encode_runtime_decision_payload ?e = encode_runtime_decision_payload r"
    unfolding encode_runtime_decision_payload_def time_value_def memory_value_def
    by (simp add: o split del: if_split cong: if_cong)
  with c have "encode_runtime_decision_payload ?e = Inr b" by simp
  moreover have "validate_batch_decision (PInt n) ?e = Inr n" "0 \<le> n" "n \<le> 255"
    using assms(2) by (auto simp: validate_batch_decision_def Let_def o split: if_splits)
  ultimately show ?thesis
    using len by (simp add: put_batch_decision_def batch_decision_def wire_puts u8.put_valid result_inversions)
qed


lemma read_batch_decisions:
  assumes "prepeat k rd_batch_decision (reader_at pre suf) = Inr (ds, r)"
  shows "\<exists>bs t. length ds = k \<and> suf = bs @ t \<and> r = reader_at (pre @ bs) t \<and> length bs = 18 * k \<and>
     (\<forall>d. efold put_batch_decision (map PDict ds) d = Inr (d @ bs))"
  using assms
proof (induction k arbitrary: pre suf ds)
  case 0
  then show ?case by (auto simp: pret_eq_Inr)
next
  case (Suc k)
  obtain n b dec t1 ds1 where n: "0 \<le> n \<and> n \<le> 255" and b: "int (length b) = 17"
    and dec: "decode_runtime_decision_payload b = Inr dec"
    and v: "\<exists>u. validate_batch_decision (PInt n) dec = Inr u"
    and suf: "suf = le_bytes 1 n @ b @ t1"
    and r: "prepeat k rd_batch_decision (reader_at (pre @ le_bytes 1 n @ b) t1) = Inr (ds1, r)"
    and ds: "ds = ((lit ''decision_opcode'', PInt n) # dec) # ds1"
    using Suc.prems unfolding prepeat.simps rd_batch_decision_def event_simps append_assoc
    unfolding pbind_eq_Inr pret_eq_Inr by blast
  obtain bs t where IH: "length ds1 = k" "t1 = bs @ t" "r = reader_at (pre @ le_bytes 1 n @ b @ bs) t"
    "length bs = 18 * k" "\<And>d. efold put_batch_decision (map PDict ds1) d = Inr (d @ bs)"
    using Suc.IH[OF r] by auto
  then show ?case
    using put_batch_decision_read[OF dec] v b
    by (intro exI[of _ "le_bytes 1 n @ b @ bs"] exI[of _ t]) (auto simp: ds suf)
qed

text \<open>Decoded batch decisions are encoded to the bytes they came from.\<close>

lemma batch_decision_canonical:
  assumes dec: "decode_operation_batch_decision_payload p = Inr d"
  shows "encode_operation_batch_decision_payload (PDict d) = Inr p"
proof -
  obtain bid n t ds r where bid: "int (length bid) = 16" "any_byte bid"
    and n: "1 \<le> n \<and> n \<le> 256" "0 \<le> n \<and> n \<le> 65535" and p: "p = bid @ le_bytes 2 n @ t"
    and ds: "prepeat (nat n) rd_batch_decision (reader_at (bid @ le_bytes 2 n) t) = Inr (ds, r)"
    and fin: "rd_finish r = Inr ((), r)"
    and d: "d = [(lit ''batch_id'', PStr (bytes_hex bid)), (lit ''decisions'', PList (map PDict ds))]"
    using dec unfolding decode_operation_batch_decision_payload_def event_simps append_assoc append_Nil
      batch_id_bytes_hex(1) batch_count_iff
    unfolding pbind_eq_Inr pret_eq_Inr rd_finish_def by (auto split: if_splits)
  obtain bs u where len: "length ds = nat n" and t: "t = bs @ u" and r: "r = reader_at (bid @ le_bytes 2 n @ bs) u"
    and bs: "length bs = 18 * nat n" "\<And>d. efold put_batch_decision (map PDict ds) d = Inr (d @ bs)"
    using read_batch_decisions[OF ds] by auto
  have "u = []" using fin unfolding r by (simp add: rd_finish_at)
  have nn: "int (length ds) = n" using len n by simp
  have i: "batch_id_bytes (PStr (bytes_hex bid)) = Inr bid" "batch_count (PInt n) = Inr n"
    using bid n by (simp_all add: batch_id_bytes_hex batch_count_iff)
  have "nat n \<le> 256" using n by (simp add: nat_le_iff)
  then have "length p \<le> 65535" using bid bs(1) by (simp add: p t \<open>u = []\<close>)
  then show ?thesis
    using i bid n by (simp add: encode_operation_batch_decision_payload_def d nn wire_puts result_inversions bs(2) p t \<open>u = []\<close>)
qed


section \<open>Session events\<close>

lemma text16_any_at: "pbind (rd_text16 256 e) f (reader_at pre suf) = Inr q \<longleftrightarrow>
    (\<exists>v t. text_valid 256 e v \<and> suf = text_enc 2 v @ t \<and> f v (reader_at (pre @ text_enc 2 v) t) = Inr q)"
  by (cases e) (simp_all add: id16.pbind_at id16_opt.pbind_at)

definition memory_bits :: "(nat \<Rightarrow> int option) \<Rightarrow> (string \<times> nat) list \<Rightarrow> int" where
  "memory_bits val fs = foldr (\<lambda>(_, b) acc. (if val b \<noteq> None then push_bit b 1 else 0) OR acc) fs 0"

definition memory_list :: "(nat \<Rightarrow> int option) \<Rightarrow> (string \<times> nat) list \<Rightarrow> (nat \<times> int) list" where
  "memory_list val fs = concat (map (\<lambda>(_, b). case val b of None \<Rightarrow> [] | Some n \<Rightarrow> [(b, n)]) fs)"

definition shown_mb :: "int option \<Rightarrow> pyval option" where
  "shown_mb v = map_option (\<lambda>n. PFloat (int_truediv n mebibyte)) v"

lemma session_memory_shown:
  assumes "\<And>name b. (name, b) \<in> set fs \<Longrightarrow>
      first_present d budgets [name @ ''_bytes'', name @ ''_mb''] = map_option (\<lambda>v. (v, name @ ''_mb'')) (shown_mb (val b))"
    and "\<And>name b n. (name, b) \<in> set fs \<Longrightarrow> val b = Some n \<Longrightarrow> 0 \<le> n \<and> n < 2 ^ 50"
  shows "session_memory d budgets fs = Inr (memory_bits val fs, memory_list val fs)"
  using assms
proof (induction fs)
  case (Cons p fs)
  obtain name b where p: "p = (name, b)" by (cases p)
  have IH: "session_memory d budgets fs = Inr (memory_bits val fs, memory_list val fs)"
    by (rule Cons.IH) (metis Cons.prems list.set_intros(2))+
  have h: "first_present d budgets [name @ ''_bytes'', name @ ''_mb''] = map_option (\<lambda>v. (v, name @ ''_mb'')) (shown_mb (val b))"
    using Cons.prems(1)[of name b] p by simp
  show ?case
  proof (cases "val b")
    case None
    then show ?thesis using IH h by (simp add: p memory_bits_def memory_list_def shown_mb_def)
  next
    case (Some n)
    then have "memory_scalar (PFloat (int_truediv n mebibyte)) False = Inr n"
      using Cons.prems(2)[of name b n] p by (intro memory_scalar_roundtrip) auto
    then show ?thesis using IH h Some
      by (simp add: p memory_bits_def memory_list_def shown_mb_def)
  qed
qed (simp add: memory_bits_def memory_list_def)

lemma map_of_memory_list: "map_of (memory_list val fs) b = (if b \<in> snd ` set fs then val b else None)"
proof (induction fs)
  case (Cons p fs)
  then show ?case by (cases p; cases "val (snd p)") (auto simp: memory_list_def)
qed (simp add: memory_list_def)

lemma write_memory:
  assumes "\<And>name b. (name, b) \<in> set fs \<Longrightarrow> given (val b) (f AND push_bit b 1 \<noteq> 0)"
    and "\<And>name b. (name, b) \<in> set fs \<Longrightarrow> look b = val b"
    and "\<And>name b. (name, b) \<in> set fs \<Longrightarrow> pred_option (\<lambda>v. 0 \<le> v \<and> v \<le> 18446744073709551615) (val b)"
  shows "w_all (map (\<lambda>(_, b). w_opt put_u64 (look b)) (filter (\<lambda>(_, b). f AND push_bit b 1 \<noteq> 0) fs)) d
    = Inr (d @ concat (map (\<lambda>(_, b). opt_bytes (le_bytes 8) (val b)) fs))"
  using assms
proof (induction fs arbitrary: d)
  case (Cons p fs)
  obtain name b where p: "p = (name, b)" by (cases p)
  have IH: "w_all (map (\<lambda>(_, b). w_opt put_u64 (look b)) (filter (\<lambda>(_, b). f AND push_bit b 1 \<noteq> 0) fs)) d
    = Inr (d @ concat (map (\<lambda>(_, b). opt_bytes (le_bytes 8) (val b)) fs))" for d
  proof (rule Cons.IH)
    fix name b assume "(name, b) \<in> set fs"
    then have "(name, b) \<in> set (p # fs)" by simp
    then show "given (val b) (f AND push_bit b 1 \<noteq> 0)" "look b = val b"
      "pred_option (\<lambda>v. 0 \<le> v \<and> v \<le> 18446744073709551615) (val b)"
      by (rule Cons.prems)+
  qed
  have b: "given (val b) (f AND push_bit b 1 \<noteq> 0)" "look b = val b"
    "pred_option (\<lambda>v. 0 \<le> v \<and> v \<le> 18446744073709551615) (val b)"
    using Cons.prems[of name b] p by simp_all
  show ?case
  proof (cases "val b")
    case None
    then have "\<not> f AND push_bit b 1 \<noteq> 0" using b by (simp add: given_def)
    then show ?thesis using IH None by (simp add: p)
  next
    case (Some n)
    then have "f AND push_bit b 1 \<noteq> 0" "put_u64 n d = Inr (d @ le_bytes 8 n)"
      using b by (auto simp: given_def u64.put_valid)
    then show ?thesis using IH b Some by (simp add: p)
  qed
qed simp

lemma small_sizes_budget:
  "small_sizes d \<Longrightarrow> (k', PDict bud) \<in> set d \<Longrightarrow> (k, v) \<in> set bud \<Longrightarrow> small_float v"
  by (fastforce simp: small_sizes_def list_all_iff)


lemma session_canonical:
  assumes dec: "p_run (pbind decode_session_event (\<lambda>result. pbind rd_finish (\<lambda>_. pret (dput ''event'' w result)))) p = Inr d"
    and small: "small_sizes d"
  shows "encode_session_event d = Inr p"
proof -
  obtain a k f sid us m1 m2 m3 m4 m5 B where a: "0 \<le> a \<and> a \<le> 255" "enum_name a lifecycle_actions ''session action'' = Inr k"
    and f: "0 \<le> f \<and> f \<le> 255" "\<not> f AND NOT 63 \<noteq> 0" "\<not> (k = ''end'' \<and> f \<noteq> 0)"
    and sid: "text_valid 256 (k = ''end'') sid"
    and us: "given us (f AND 1 \<noteq> 0)" "pred_option (\<lambda>v. 0 \<le> v \<and> v \<le> 4294967295) us"
    and m1: "given m1 (f AND push_bit 1 1 \<noteq> 0)" "pred_option (\<lambda>v. 0 \<le> v \<and> v \<le> 18446744073709551615) m1"
    and m2: "given m2 (f AND push_bit 2 1 \<noteq> 0)" "pred_option (\<lambda>v. 0 \<le> v \<and> v \<le> 18446744073709551615) m2"
    and m3: "given m3 (f AND push_bit 3 1 \<noteq> 0)" "pred_option (\<lambda>v. 0 \<le> v \<and> v \<le> 18446744073709551615) m3"
    and m4: "given m4 (f AND push_bit 4 1 \<noteq> 0)" "pred_option (\<lambda>v. 0 \<le> v \<and> v \<le> 18446744073709551615) m4"
    and m5: "given m5 (f AND push_bit 5 1 \<noteq> 0)" "pred_option (\<lambda>v. 0 \<le> v \<and> v \<le> 18446744073709551615) m5"
    and p: "p = le_bytes 1 a @ le_bytes 1 f @ text_enc 2 sid @ opt_bytes (le_bytes 4) us @ opt_bytes (le_bytes 8) m1
       @ opt_bytes (le_bytes 8) m2 @ opt_bytes (le_bytes 8) m3 @ opt_bytes (le_bytes 8) m4 @ opt_bytes (le_bytes 8) m5 @ []"
    and B: "B = opt_entry ''frame_ms'' (map_option (\<lambda>n. PFloat (int_truediv n 1000)) us)
       @ opt_entry (''ram'' @ ''_mb'') (map_option (\<lambda>n. PFloat (int_truediv n 1048576)) m1)
       @ opt_entry (''vram'' @ ''_mb'') (map_option (\<lambda>n. PFloat (int_truediv n 1048576)) m2)
       @ opt_entry (''shared'' @ ''_mb'') (map_option (\<lambda>n. PFloat (int_truediv n 1048576)) m3)
       @ opt_entry (''staging'' @ ''_mb'') (map_option (\<lambda>n. PFloat (int_truediv n 1048576)) m4)
       @ opt_entry (''swapchain'' @ ''_mb'') (map_option (\<lambda>n. PFloat (int_truediv n 1048576)) m5) @ []"
    and d: "d = dput ''event'' w ((lit ''action'', PStr (lit k))
              # (if sid \<noteq> [] then [(lit ''id'', PStr sid)] else [])
              @ (if B \<noteq> [] then [(lit ''budgets'', PDict B)] else []))"
    using dec unfolding decode_session_event_def read_budgets.simps memory_fields_def event_simps append_assoc append_Nil append_Nil2 Let_def
      text16_any_at
    by blast
  define val where "val b = (if b = 1 then m1 else if b = 2 then m2 else if b = 3 then m3
      else if b = 4 then m4 else if b = 5 then m5 else None)" for b :: nat
  note look = dget_dput dhas_dput value_or_default_def
  have g: "value_or_default d ''action'' (PStr (lit ''begin'')) = PStr (lit k)"
    "first_key d [''id'', ''session_id''] (PStr []) = PStr sid"
    "value_or_default d ''budgets'' (PDict []) = PDict B"
    by (simp_all add: d look)
  note e = enum_name_inv[OF _ a(2)]
  note le = lifecycle_end[OF a(2)]
  have t: "first_present d B [''target_frame_us'', ''target_frame_ms'', ''frame_us'', ''frame_ms'']
      = map_option (\<lambda>n. (PFloat (int_truediv n 1000), ''frame_ms'')) us"
  proof -
    have "\<not> dhas d ''target_frame_us''" "\<not> dhas d ''target_frame_ms''" "\<not> dhas d ''frame_us''" "\<not> dhas d ''frame_ms''"
      by (simp_all add: d look)
    then show ?thesis by (cases us) (simp_all add: B)
  qed
  have small_b: "val b = Some n \<Longrightarrow> 0 \<le> n \<and> n < 2 ^ 50" for b n
  proof -
    assume v: "val b = Some n"
    then have n: "0 \<le> n" "n \<le> 18446744073709551615"
      using m1(2) m2(2) m3(2) m4(2) m5(2) by (auto simp: val_def split: if_splits)
    have "\<exists>key. (key, PFloat (int_truediv n 1048576)) \<in> set B"
      using v by (auto simp: val_def B opt_entry_def split: if_splits)
    then obtain key where key: "(key, PFloat (int_truediv n 1048576)) \<in> set B" ..
    moreover have "(lit ''budgets'', PDict B) \<in> set d" using key by (auto simp: d dput_def)
    ultimately have "small_float (PFloat (int_truediv n 1048576))" by (intro small_sizes_budget[OF small])
    then show ?thesis using small_float_bytes[OF n] n by simp
  qed
  have dk: "dhas d k \<Longrightarrow> k = ''action'' \<or> k = ''id'' \<or> k = ''budgets'' \<or> k = ''event''" for k
    by (auto simp: d look split: if_splits)
  have sm: "session_memory d B memory_fields = Inr (memory_bits val memory_fields, memory_list val memory_fields)"
  proof (rule session_memory_shown)
    fix name b assume "(name, b) \<in> set memory_fields"
    then have "name = ''ram'' \<and> b = 1 \<or> name = ''vram'' \<and> b = 2 \<or> name = ''shared'' \<and> b = 3
        \<or> name = ''staging'' \<and> b = 4 \<or> name = ''swapchain'' \<and> b = 5"
      by (simp add: memory_fields_def)
    moreover have nd: "\<not> dhas d (n @ ''_bytes'')" "\<not> dhas d (n @ ''_mb'')"
      if "n \<in> {''ram'', ''vram'', ''shared'', ''staging'', ''swapchain''}" for n
      using that dk[of "n @ ''_bytes''"] dk[of "n @ ''_mb''"] by auto
    ultimately show "first_present d B [name @ ''_bytes'', name @ ''_mb''] = map_option (\<lambda>v. (v, name @ ''_mb'')) (shown_mb (val b))"
      using nd[of name]
      by (elim disjE) (simp_all add: B val_def shown_mb_def mebibyte_def split: option.split)
  qed (rule small_b)
  have pr: "(if map_option (\<lambda>n. (PFloat (int_truediv n 1000), ''frame_ms'')) us \<noteq> None then 1 else 0)
      OR memory_bits val memory_fields = f"
    using us(1) m1(1) m2(1) m3(1) m4(1) m5(1) mask63[of f] f(2)
    by (simp add: memory_bits_def memory_fields_def val_def given_def split del: if_split cong: if_cong)
  have wm: "w_all (map (\<lambda>(_, b). w_opt put_u64 (map_of (memory_list val memory_fields) b))
         (filter (\<lambda>(_, b). f AND push_bit b 1 \<noteq> 0) memory_fields)) x
    = Inr (x @ concat (map (\<lambda>(_, b). opt_bytes (le_bytes 8) (val b)) memory_fields))" for x
  proof (rule write_memory)
    fix name b assume "(name, b) \<in> set memory_fields"
    then show "given (val b) (f AND push_bit b 1 \<noteq> 0)" "map_of (memory_list val memory_fields) b = val b"
      "pred_option (\<lambda>v. 0 \<le> v \<and> v \<le> 18446744073709551615) (val b)"
      unfolding map_of_memory_list using m1 m2 m3 m4 m5
      by (auto simp: memory_fields_def val_def)
  qed
  have mem: "concat (map (\<lambda>(_, b). opt_bytes (le_bytes 8) (val b)) memory_fields) =
      opt_bytes (le_bytes 8) m1 @ opt_bytes (le_bytes 8) m2 @ opt_bytes (le_bytes 8) m3
      @ opt_bytes (le_bytes 8) m4 @ opt_bytes (le_bytes 8) m5"
    by (simp add: memory_fields_def val_def)
  have wt: "(case map_option (\<lambda>n. (PFloat (int_truediv n 1000), ''frame_ms'')) us of None \<Rightarrow> Inr
      | Some (v, key) \<Rightarrow> w_lift (time_scalar v (key = ''target_frame_us'' \<or> key = ''frame_us'') u32_max) put_u32) x
    = Inr (x @ opt_bytes (le_bytes 4) us)" for x
    using us(2) time_scalar_roundtrip[of "the us"]
    by (cases us) (auto simp: w_lift_def u32_max_def u32.put_valid)
  have len: "length p \<le> 65535"
    using text_length256[OF sid] opt_u64_length[of 4 us] opt_u64_length[of 8 m1] opt_u64_length[of 8 m2]
      opt_u64_length[of 8 m3] opt_u64_length[of 8 m4] opt_u64_length[of 8 m5]
    by (simp add: p)
  have ne: "\<not> (a = 2 \<and> f \<noteq> 0)" using f(3) le by blast
  have w: "put_u8 a x = Inr (x @ le_bytes 1 a)" "put_u8 f x = Inr (x @ le_bytes 1 f)"
    "put_text16 max_identifier_bytes (a = 2) (PStr sid) x = Inr (x @ text_enc 2 sid)" for x
    using a(1) f(1) sid le by (simp_all add: u8.put_valid put_text16_iff limit_defs)
  have "encode_session_event d = w_finish p"
    unfolding encode_session_event_def g Let_def t e[OF tables_ok(1)] ebind_Inr pyval.case sm prod.case pr
      if_not_P[OF ne] w_run_def w_all.simps w wt wm
    by (simp add: mem p)
  then show ?thesis using len by (simp add: w_finish_def max_payload_bytes_def)
qed


section \<open>All events\<close>

lemma event_payload_canonical_all:
  assumes dec: "decode_runtime_event_payload e p = Inr d" and sizes: "e = ev_frame \<or> e = ev_state \<or> small_sizes d"
  shows "encode_runtime_event_payload e (PDict d) = Inr p"
proof -
  let ?w = "PStr (lit (event_name e))"
  have e: "is_event_opcode e" and r: "p_run (pbind (event_parser e) (\<lambda>result.
      pbind rd_finish (\<lambda>_. pret (dput ''event'' ?w result)))) p = Inr d"
    using dec by (auto simp: decode_runtime_event_payload_def unsupported_event_def split: if_splits)
  note r' = r[unfolded event_parser_def]
  consider "e = ev_session" | "e = ev_frame" | "e = ev_resource" | "e = ev_operation" | "e = ev_state"
    using e by (auto simp: is_event_opcode_def)
  then show ?thesis
  proof cases
    case 1
    then have small: "small_sizes d" using sizes by (simp add: link_consts)
    then show ?thesis using session_canonical[OF _ small, of ?w p] r' e 1
      by (simp add: encode_runtime_event_payload_def)
  next
    case 2 then show ?thesis using frame_canonical[of ?w p d] r' e
      by (simp add: encode_runtime_event_payload_def link_consts)
  next
    case 3
    then have small: "small_sizes d" using sizes by (simp add: link_consts)
    then show ?thesis using resource_canonical[OF _ small, of ?w p] r' e 3
      by (simp add: encode_runtime_event_payload_def link_consts)
  next
    case 4
    then have small: "small_sizes d" using sizes by (simp add: link_consts)
    then show ?thesis using operation_canonical[OF _ small, of ?w p] r' e 4
      by (simp add: encode_runtime_event_payload_def link_consts)
  next
    case 5 then show ?thesis using state_canonical[of ?w p d] r' e
      by (simp add: encode_runtime_event_payload_def link_consts)
  qed
qed

section \<open>Properties\<close>

text \<open>C6: decoding a frame or state event, or a session, resource or operation event whose sizes are below 512 TiB, and encoding
  the resulting dictionary gives back the received bytes.\<close>

theorem event_payload_canonical:
  "decode_runtime_event_payload e p = Inr d \<Longrightarrow> e = ev_frame \<or> e = ev_state \<or> small_sizes d \<Longrightarrow>
     encode_runtime_event_payload e (PDict d) = Inr p"
  by (rule event_payload_canonical_all)

definition demo_op :: bytes where
  "demo_op = le_bytes 1 1 @ le_bytes 1 2 @ le_bytes 1 11 @ text_enc 2 (lit ''op'') @ text_enc 2 (lit ''a'')
     @ text_enc 2 (lit ''b'') @ le_bytes 4 2500 @ le_bytes 8 1048576 @ le_bytes 8 7 @ le_bytes 1 0"

definition demo_op_event :: pydict where
  "demo_op_event = [(lit ''operation_type'', PStr (lit ''copy'')), (lit ''queue'', PStr (lit ''copy'')),
     (lit ''id'', PStr (lit ''op'')), (lit ''source'', PStr (lit ''a'')), (lit ''target'', PStr (lit ''b'')),
     (lit ''cost_ms'', PFloat (Fin (5 / 2))), (lit ''size_mb'', PFloat (Fin 1)), (lit ''frame'', PInt 7),
     (lit ''depends_on'', PList []), (lit ''event'', PStr (lit ''operation''))]"

lemma demo_op_decodes: "decode_runtime_event_payload 103 demo_op = Inr demo_op_event" "small_sizes demo_op_event"
  by code_simp+

theorem event_payload_canonical_witness:
  "encode_runtime_event_payload 103 (PDict demo_op_event) = Inr demo_op"
  by (rule event_payload_canonical[OF demo_op_decodes(1)]) (simp add: demo_op_decodes(2))

text \<open>
  Beyond 512 TiB the bytes of an event need not come back: the decoder turns a size into a float of mebibytes, and the largest
  size a payload can carry rounds up to one the encoder refuses.
\<close>

definition huge_op :: bytes where
  "huge_op = le_bytes 1 1 @ le_bytes 1 2 @ le_bytes 1 11 @ text_enc 2 (lit ''op'') @ text_enc 2 (lit ''a'')
     @ text_enc 2 (lit ''b'') @ le_bytes 4 2500 @ le_bytes 8 18446744073709551615 @ le_bytes 8 7 @ le_bytes 1 0"

lemma huge_size_refused:
  "case decode_runtime_event_payload 103 huge_op of Inl _ \<Rightarrow> False
   | Inr d \<Rightarrow> \<not> succeeds (encode_runtime_event_payload 103 (PDict d))"
  by code_simp

text \<open>Decoding an operation batch and encoding the resulting dictionary gives back the received
  bytes, without any bound on its sizes.\<close>

theorem batch_payload_canonical:
  "decode_operation_batch_event_payload p = Inr d \<Longrightarrow>
     encode_operation_batch_event_payload (PDict d) = Inr p"
  by (rule batch_event_canonical)

definition demo_batch :: bytes where
  "demo_batch = replicate 16 5 @ le_bytes 2 2 @ le_bytes 1 4 @ le_bytes 1 2 @ le_bytes 1 2 @ text_enc 2 (lit ''tex'')
     @ le_bytes 4 1500 @ le_bytes 8 18446744073709551615 @ le_bytes 1 1 @ text_enc 2 (lit ''x'')"

definition demo_batch_event :: pydict where
  "demo_batch_event = [(lit ''batch_id'', PStr (bytes_hex (replicate 16 5))), (lit ''operation_count'', PInt 2),
     (lit ''operation_type'', PStr (lit ''upload'')), (lit ''queue'', PStr (lit ''copy'')),
     (lit ''target'', PStr (lit ''tex'')), (lit ''cost_us'', PInt 1500), (lit ''cost_ms'', PFloat (Fin (3 / 2))),
     (lit ''size_bytes'', PInt 18446744073709551615), (lit ''size_mb'', PFloat (Fin 17592186044416)),
     (lit ''depends_on'', PList [PStr (lit ''x'')])]"

lemma demo_batch_decodes: "decode_operation_batch_event_payload demo_batch = Inr demo_batch_event"
  by code_simp

theorem batch_payload_canonical_witness:
  "encode_operation_batch_event_payload (PDict demo_batch_event) = Inr demo_batch"
  by (rule batch_payload_canonical[OF demo_batch_decodes])

text \<open>The same for a batch of decisions: decoding it and encoding the resulting dictionary gives back the
  received bytes.\<close>

theorem batch_decisions_canonical:
  "decode_operation_batch_decision_payload p = Inr d \<Longrightarrow>
     encode_operation_batch_decision_payload (PDict d) = Inr p"
  by (rule batch_decision_canonical)

theorem batch_decisions_canonical_witness:
  "\<exists>d. encode_operation_batch_decision_payload (PDict d)
     = Inr (replicate 16 5 @ le_bytes 2 1 @ le_bytes 1 0 @ le_bytes 1 7 @ le_bytes 8 0 @ le_bytes 8 9)"
proof -
  have "succeeds (decode_operation_batch_decision_payload
     (replicate 16 5 @ le_bytes 2 1 @ le_bytes 1 0 @ le_bytes 1 7 @ le_bytes 8 0 @ le_bytes 8 9))"
    by code_simp
  then obtain d where "decode_operation_batch_decision_payload
     (replicate 16 5 @ le_bytes 2 1 @ le_bytes 1 0 @ le_bytes 1 7 @ le_bytes 8 0 @ le_bytes 8 9) = Inr d"
    by (auto simp: succeeds_iff)
  from batch_decisions_canonical[OF this] show ?thesis by blast
qed

end
