(* ===== verification/Link_Session.thy ===== *)
theory Link_Session
  imports Link_Canonical
begin

text \<open>
  The server side of a FluidLink v2 connection: \<^verbatim>\<open>FluidLinkV2ServerSession\<close>
  (\<^verbatim>\<open>fluidgateway/fluidlink_v2.py\<close>) with \<^verbatim>\<open>compact_runtime_response\<close>
  (\<^verbatim>\<open>fluidgateway/fluidlink.py\<close>). The session is a record; \<^verbatim>\<open>process\<close> takes the request,
  the event handler with its state and the identity a fresh \<^verbatim>\<open>uuid4\<close> would give, and returns
  the response (or the exception that escapes), the session and the handler's state.
\<close>

section \<open>Requests and responses\<close>

definition session_flags :: "bytes option \<Rightarrow> int" where
  "session_flags session_id = (if session_id \<noteq> None then flag_has_session else 0)"

definition fluidlink_v2_request ::
    "int \<Rightarrow> int \<Rightarrow> bytes \<Rightarrow> bytes option \<Rightarrow> int \<Rightarrow> bytes option \<Rightarrow> bytes \<Rightarrow> frame" where
  "fluidlink_v2_request opcode sequence payload session_id subject_opcode message_id fresh =
     \<lparr>fr_kind = kind_request, fr_opcode = opcode, fr_subject = subject_opcode, fr_decision = 0,
      fr_flags = session_flags session_id, fr_sequence = sequence,
      fr_message_id = (case message_id of Some m \<Rightarrow> if m = [] then fresh else m | None \<Rightarrow> fresh),
      fr_session_id = session_id, fr_payload = payload\<rparr>"

definition fluidlink_v2_response ::
    "frame \<Rightarrow> int \<Rightarrow> bytes \<Rightarrow> bytes option \<Rightarrow> int \<Rightarrow> int \<Rightarrow> bool \<Rightarrow> frame" where
  "fluidlink_v2_response request opcode payload session_id subject_opcode decision_opcode ok =
     \<lparr>fr_kind = kind_response, fr_opcode = opcode, fr_subject = subject_opcode,
      fr_decision = decision_opcode,
      fr_flags = session_flags session_id OR (if ok then flag_ok else 0),
      fr_sequence = fr_sequence request, fr_message_id = fr_message_id request,
      fr_session_id = session_id, fr_payload = payload\<rparr>"

section \<open>Runtime responses (fluidlink.py)\<close>

definition decision_opcodes :: "(string \<times> int) list" where
  "decision_opcodes = [(''eliminate-self-copy'', 1), (''deduplicate-identical-transfer'', 2),
     (''collapse-aliased-resource-copy'', 3), (''remove-orphan-sync'', 4), (''remove-empty-sync'', 5),
     (''reuse-transient-buffer'', 6)]"

definition quoted :: "string \<Rightarrow> pystr" where
  "quoted s = [39] @ lit s @ [39]"

text \<open>\<^verbatim>\<open>DECISION_OPCODE_BY_POLICY.get(policy, UNKNOWN)\<close>; lists and dictionaries are not hashable.\<close>

definition decision_opcode_by_policy :: "pyval \<Rightarrow> int res" where
  "decision_opcode_by_policy policy =
     (case policy of
        PStr s \<Rightarrow> Inr (case table_lookup decision_opcodes s of Some n \<Rightarrow> n | None \<Rightarrow> dec_unknown)
      | PList _ \<Rightarrow> Inl (TypeError (lit ''unhashable type: '' @ quoted ''list''))
      | PDict _ \<Rightarrow> Inl (TypeError (lit ''unhashable type: '' @ quoted ''dict''))
      | _ \<Rightarrow> Inr dec_unknown)"

definition numeric_value :: "pyval \<Rightarrow> string \<Rightarrow> pyfloat res" where
  "numeric_value value name =
    (let not_numeric = Inl (ValueError (lit ''Runtime decision '' @ lit name @ lit '' must be numeric.''));
         not_fit = Inl (ValueError (lit ''Runtime decision '' @ lit name
                     @ lit '' must fit in a finite floating-point value.''));
         bad = Inl (ValueError (lit ''Runtime decision '' @ lit name @ lit '' must be finite and non-negative.''));
         check = (\<lambda>x. case x of Fin y \<Rightarrow> if y < 0 then bad else Inr x | _ \<Rightarrow> bad)
     in case value of
          PNone \<Rightarrow> Inr (Fin 0)
        | PInt n \<Rightarrow> (case to_f64 (of_int n) of Fin y \<Rightarrow> check (Fin y) | _ \<Rightarrow> not_fit)
        | PFloat x \<Rightarrow> check x
        | _ \<Rightarrow> not_numeric)"

definition compact_runtime_response :: "int \<Rightarrow> pydict \<Rightarrow> (int \<times> pydict) res" where
  "compact_runtime_response event_opcode response =
    (let accepted = [(lit ''accepted'', PBool (dget response ''ok'' = PBool True))] in
     if event_opcode \<noteq> ev_operation then Inr (dec_execute, accepted)
     else case dget response ''result'' of
       PDict result \<Rightarrow>
         ebind (case dget result ''decision'' of
             PDict decision \<Rightarrow>
               ebind (decision_opcode_by_policy (dget decision ''policy'')) (\<lambda>opcode.
               ebind (numeric_value (dget decision ''estimated_saved_ms'') ''estimated_saved_ms'') (\<lambda>ms.
               ebind (numeric_value (dget decision ''estimated_saved_mb'') ''estimated_saved_mb'') (\<lambda>mb.
               Inr (opcode, ms, mb))))
           | _ \<Rightarrow> Inr (dec_execute, Fin 0, Fin 0)) (\<lambda>(opcode, ms, mb).
         Inr (opcode, accepted @
           [(lit ''executed'', PBool (dget result ''executed'' = PBool True)),
            (lit ''saved_ms'', PFloat ms), (lit ''saved_mb'', PFloat mb)]))
     | _ \<Rightarrow> Inl (ValueError (lit ''Runtime operation response is missing its result object.'')))"

section \<open>The session\<close>

record v2_session =
  ss_server_name :: pystr
  ss_server_version :: pystr
  ss_session_id :: "bytes option"
  ss_contract_digest :: "bytes option"
  ss_expected_sequence :: int
  ss_accepted :: int
  ss_closed :: bool

type_synonym 'h handler = "'h \<Rightarrow> pydict \<Rightarrow> 'h \<times> (pystr + pydict)"
type_synonym 'h step_result = "frame res \<times> v2_session \<times> 'h"

definition new_session :: "pystr \<Rightarrow> pystr \<Rightarrow> v2_session res" where
  "new_session server_name server_version =
     ebind (encode_bounded_text (PStr server_name) max_peer_name_bytes False) (\<lambda>_.
     ebind (encode_bounded_text (PStr server_version) max_peer_version_bytes False) (\<lambda>_.
     Inr \<lparr>ss_server_name = server_name, ss_server_version = server_version, ss_session_id = None,
          ss_contract_digest = None, ss_expected_sequence = 1, ss_accepted = 0, ss_closed = False\<rparr>))"

definition session_error :: "v2_session \<Rightarrow> frame \<Rightarrow> error_code \<Rightarrow> pystr \<Rightarrow> frame res" where
  "session_error s request code message =
     ebind (encode_error_payload code message) (\<lambda>payload.
     Inr (fluidlink_v2_response request op_error payload (ss_session_id s) (fr_subject request)
            dec_unknown False))"

definition handle_hello :: "v2_session \<Rightarrow> frame \<Rightarrow> bytes \<Rightarrow> frame res \<times> v2_session" where
  "handle_hello s request fresh =
    (if fr_session_id request \<noteq> None \<or> fr_subject request \<noteq> 0 \<or> fr_decision request \<noteq> 0
     then (session_error s request INVALID_FRAME (lit ''FluidLink v2 hello header is invalid.''), s)
     else case decode_hello_payload (fr_payload request) of
       Inl e \<Rightarrow> (session_error s request INVALID_PAYLOAD (exn_str e), s)
     | Inr hello \<Rightarrow>
        if hl_contract_digest hello \<noteq> contract_digest_v2 \<and> hl_contract_digest hello \<noteq> batch_contract_digest
        then (session_error s request CONTRACT_MISMATCH
               (lit ''FluidLink peers do not share the same v2 contract.''), s)
        else if hl_contract_digest hello = batch_contract_digest
          \<and> hl_contract_digest hello \<noteq> contract_digest_v2
          \<and> hl_required hello AND cap_batched_runtime_events = 0
        then (session_error s request INVALID_PAYLOAD
               (lit ''The FluidLink v2 batch profile requires its batch capability.''), s)
        else
          (let available = (if hl_contract_digest hello = contract_digest_v2
                            then v2_capabilities else v2_batch_capabilities);
               unavailable = hl_required hello AND NOT available
           in if unavailable \<noteq> 0
           then (session_error s request REQUIRED_CAPABILITY_UNAVAILABLE
                  (lit ''Required capability mask 0x'' @ show_hex unavailable @ lit '' is unavailable.''), s)
           else
             (let s' = s\<lparr>ss_session_id := Some fresh,
                         ss_contract_digest := Some (hl_contract_digest hello),
                         ss_accepted := (hl_requested hello OR hl_required hello) AND available\<rparr>
              in (ebind (encode_welcome_payload (PInt available) (PInt (ss_accepted s'))
                          (PStr (ss_server_name s')) (PStr (ss_server_version s'))
                          (PInt max_payload_bytes) (hl_contract_digest hello)) (\<lambda>payload.
                   Inr (fluidlink_v2_response request op_welcome payload (Some fresh) 0 0 True)), s'))))"

text \<open>The operations of a batch, in order, until the handler or its response fails.\<close>

definition batch_event :: "pydict \<Rightarrow> pystr \<Rightarrow> nat \<Rightarrow> pydict" where
  "batch_event batch batch_id ordinal =
     dput ''id'' (PStr (lit ''batch-'' @ batch_id @ lit ''-'' @ show_pad3 (int ordinal)))
      (dput ''event'' (PStr (lit ''operation''))
        (filter (\<lambda>(k, _). k \<noteq> lit ''batch_id'' \<and> k \<noteq> lit ''operation_count'') batch))"

fun run_batch :: "'h handler \<Rightarrow> pydict \<Rightarrow> pystr \<Rightarrow> nat list \<Rightarrow> 'h \<Rightarrow> 'h \<times> (pystr + pyval list)" where
  "run_batch handler batch batch_id [] h = (h, Inr [])"
| "run_batch handler batch batch_id (ordinal # ordinals) h =
     (case handler h (batch_event batch batch_id ordinal) of
        (h', Inl message) \<Rightarrow> (h', Inl message)
      | (h', Inr response) \<Rightarrow>
         (case compact_runtime_response ev_operation response of
            Inl e \<Rightarrow> (h', Inl (exn_str e))
          | Inr (opcode, reply) \<Rightarrow>
             (case run_batch handler batch batch_id ordinals h' of
                (h'', Inl message) \<Rightarrow> (h'', Inl message)
              | (h'', Inr decisions) \<Rightarrow>
                  (h'', Inr (PDict ((lit ''decision_opcode'', PInt opcode) # reply) # decisions)))))"

definition handle_operation_batch :: "v2_session \<Rightarrow> frame \<Rightarrow> 'h handler \<Rightarrow> 'h \<Rightarrow> 'h step_result" where
  "handle_operation_batch s request handler h =
    (if ss_contract_digest s \<noteq> Some batch_contract_digest \<or> ss_accepted s AND cap_batched_runtime_events = 0
     then (session_error s request CAPABILITY_NOT_NEGOTIATED
            (lit ''FluidLink v2 batched runtime events were not negotiated.''), s, h)
     else case decode_operation_batch_event_payload (fr_payload request) of
       Inl e \<Rightarrow> (session_error s request INVALID_PAYLOAD (exn_str e), s, h)
     | Inr batch \<Rightarrow>
        (let batch_id = (case dget batch ''batch_id'' of PStr i \<Rightarrow> i | _ \<Rightarrow> []);
             count = (case dget batch ''operation_count'' of PInt n \<Rightarrow> nat n | _ \<Rightarrow> 0);
             (h', decisions) = run_batch handler batch batch_id [0..<count] h;
             outcome = (case decisions of
                 Inl message \<Rightarrow> Inl message
               | Inr ds \<Rightarrow>
                  (case encode_operation_batch_decision_payload
                      (PDict [(lit ''batch_id'', PStr batch_id), (lit ''decisions'', PList ds)]) of
                     Inl e \<Rightarrow> Inl (exn_str e) | Inr p \<Rightarrow> Inr p))
         in case outcome of
              Inl message \<Rightarrow>
                (session_error (s\<lparr>ss_closed := True\<rparr>) request RUNTIME_EVENT_REJECTED message,
                 s\<lparr>ss_closed := True\<rparr>, h')
            | Inr payload \<Rightarrow>
                (Inr (fluidlink_v2_response request op_runtime_decision payload (ss_session_id s)
                        operation_batch_event_opcode batch_vector_decision_opcode True), s, h')))"

definition handle_runtime_event :: "v2_session \<Rightarrow> frame \<Rightarrow> 'h handler \<Rightarrow> 'h \<Rightarrow> 'h step_result" where
  "handle_runtime_event s request handler h =
    (if ss_accepted s AND v2_required_capabilities \<noteq> v2_required_capabilities
     then (session_error s request CAPABILITY_NOT_NEGOTIATED
            (lit ''FluidLink v2 runtime capabilities were not negotiated.''), s, h)
     else if fr_subject request = operation_batch_event_opcode
     then handle_operation_batch s request handler h
     else if \<not> is_event_opcode (fr_subject request)
     then (session_error s request UNSUPPORTED_EVENT_OPCODE
            (lit ''Unsupported FluidLink event opcode '' @ show_int (fr_subject request) @ lit ''.''), s, h)
     else case decode_runtime_event_payload (fr_subject request) (fr_payload request) of
       Inl e \<Rightarrow> (session_error s request INVALID_PAYLOAD (exn_str e), s, h)
     | Inr event \<Rightarrow>
        (case handler h event of
           (h', Inl message) \<Rightarrow> (session_error s request RUNTIME_EVENT_REJECTED message, s, h')
         | (h', Inr response) \<Rightarrow>
            (case ebind (compact_runtime_response (fr_subject request) response) (\<lambda>(opcode, reply).
                    ebind (encode_runtime_decision_payload reply) (\<lambda>p. Inr (opcode, p))) of
               Inl e \<Rightarrow> (session_error s request RUNTIME_EVENT_REJECTED (exn_str e), s, h')
             | Inr (opcode, p) \<Rightarrow>
                 (Inr (fluidlink_v2_response request op_runtime_decision p (ss_session_id s)
                         (fr_subject request) opcode True), s, h'))))"

definition handle_ping :: "v2_session \<Rightarrow> frame \<Rightarrow> frame res" where
  "handle_ping s request =
    (if ss_accepted s AND cap_heartbeat = 0
     then session_error s request CAPABILITY_NOT_NEGOTIATED
            (lit ''FluidLink v2 heartbeat capability was not negotiated.'')
     else case decode_nonce_payload (fr_payload request) of
       Inl e \<Rightarrow> session_error s request INVALID_PAYLOAD (exn_str e)
     | Inr nonce \<Rightarrow>
        ebind (encode_nonce_payload (PStr nonce)) (\<lambda>payload.
        Inr (fluidlink_v2_response request op_pong payload (ss_session_id s) 0 0 True)))"

definition handle_goodbye :: "v2_session \<Rightarrow> frame \<Rightarrow> frame res \<times> v2_session" where
  "handle_goodbye s request =
    (if fr_payload request \<noteq> []
     then (session_error s request INVALID_PAYLOAD (lit ''FluidLink v2 goodbye payload must be empty.''), s)
     else (Inr (fluidlink_v2_response request op_goodbye [] (ss_session_id s) 0 0 True),
           s\<lparr>ss_closed := True\<rparr>))"

definition session_process ::
    "v2_session \<Rightarrow> frame \<Rightarrow> 'h handler \<Rightarrow> 'h \<Rightarrow> bytes \<Rightarrow> 'h step_result" where
  "session_process s request handler h fresh =
    (if fr_kind request \<noteq> kind_request
     then (session_error s request INVALID_FRAME (lit ''FluidLink v2 server accepts request frames only.''), s, h)
     else if fr_sequence request \<noteq> ss_expected_sequence s
     then (session_error s request SEQUENCE_MISMATCH
            (lit ''Expected sequence '' @ show_int (ss_expected_sequence s) @ lit '', received ''
             @ show_int (fr_sequence request) @ lit ''.''), s, h)
     else if ss_session_id s = None
     then (let s1 = s\<lparr>ss_expected_sequence := ss_expected_sequence s + 1\<rparr> in
           if fr_opcode request \<noteq> op_hello
           then (session_error s1 request HANDSHAKE_REQUIRED
                  (lit ''A FluidLink v2 hello request is required first.''), s1, h)
           else (let (r, s2) = handle_hello s1 request fresh in (r, s2, h)))
     else if fr_session_id request \<noteq> ss_session_id s
     then (session_error s request SESSION_MISMATCH
            (lit ''FluidLink v2 session_id does not match the negotiated session.''), s, h)
     else if ss_closed s
     then (session_error s request SESSION_CLOSED (lit ''The FluidLink v2 session is already closed.''), s, h)
     else
      (let s1 = s\<lparr>ss_expected_sequence := ss_expected_sequence s + 1\<rparr> in
       if fr_decision request \<noteq> 0
       then (session_error s1 request INVALID_FRAME
              (lit ''FluidLink v2 requests must use decision opcode zero.''), s1, h)
       else if fr_opcode request = op_runtime_event then handle_runtime_event s1 request handler h
       else if fr_subject request \<noteq> 0
       then (session_error s1 request INVALID_FRAME
              (lit ''Only runtime event requests may use a subject opcode.''), s1, h)
       else if fr_opcode request = op_ping then (handle_ping s1 request, s1, h)
       else if fr_opcode request = op_goodbye
       then (let (r, s2) = handle_goodbye s1 request in (r, s2, h))
       else (session_error s1 request UNSUPPORTED_OPCODE
              (lit ''Unsupported FluidLink opcode '' @ show_int (fr_opcode request) @ lit ''.''), s1, h)))"

section \<open>The shape of responses\<close>

lemma response_fields [simp]:
  "fr_kind (fluidlink_v2_response q opc p i su de ok) = kind_response"
  "fr_opcode (fluidlink_v2_response q opc p i su de ok) = opc"
  "fr_subject (fluidlink_v2_response q opc p i su de ok) = su"
  "fr_decision (fluidlink_v2_response q opc p i su de ok) = de"
  "fr_flags (fluidlink_v2_response q opc p i su de ok) = session_flags i OR (if ok then flag_ok else 0)"
  "fr_sequence (fluidlink_v2_response q opc p i su de ok) = fr_sequence q"
  "fr_message_id (fluidlink_v2_response q opc p i su de ok) = fr_message_id q"
  "fr_session_id (fluidlink_v2_response q opc p i su de ok) = i"
  "fr_payload (fluidlink_v2_response q opc p i su de ok) = p"
  by (simp_all add: fluidlink_v2_response_def)

text \<open>A response to the request in the session: an error, or one of the positive answers.\<close>

definition answers :: "v2_session \<Rightarrow> frame \<Rightarrow> frame \<Rightarrow> bool" where
  "answers s q f \<longleftrightarrow>
     (\<exists>c m p. encode_error_payload c m = Inr p \<and>
        f = fluidlink_v2_response q op_error p (ss_session_id s) (fr_subject q) dec_unknown False)
   \<or> (\<exists>opc p su de. f = fluidlink_v2_response q opc p (ss_session_id s) su de True \<and>
        opc \<in> {op_welcome, op_runtime_decision, op_pong, op_goodbye} \<and>
        (su = 0 \<or> su = fr_subject q) \<and> 0 \<le> de \<and> de \<le> 255 \<and> int (length p) \<le> 65535)"

lemma error_answers: "session_error s q c m = Inr f \<Longrightarrow> answers s q f"
  by (auto simp: session_error_def answers_def result_inversions)

lemma error_answers': "session_error s q c m = Inr f \<Longrightarrow> ss_session_id s = ss_session_id t \<Longrightarrow> answers t q f"
  by (auto simp: session_error_def answers_def result_inversions)

lemma payload_bound:
  "encode_welcome_payload a b c d m g = Inr p \<Longrightarrow> int (length p) \<le> 65535"
  "encode_nonce_payload v = Inr p \<Longrightarrow> int (length p) \<le> 65535"
  "encode_error_payload ec em = Inr p \<Longrightarrow> int (length p) \<le> 65535"
  "encode_runtime_decision_payload r = Inr p \<Longrightarrow> int (length p) \<le> 65535"
  by (auto simp: encode_welcome_payload_def encode_nonce_payload_def encode_error_payload_def
      encode_runtime_decision_payload_def Let_def
      result_inversions w_run_iff subset_error_def split: pyval.splits if_splits)

lemma batch_payload_bound:
  assumes "encode_operation_batch_decision_payload v = Inr p"
  shows "int (length p) \<le> 65535"
proof (cases v)
  case (PDict d)
  then show ?thesis using assms
    by (cases "dget d ''decisions''")
       (auto simp: encode_operation_batch_decision_payload_def result_inversions w_run_iff)
qed (use assms in \<open>auto simp: encode_operation_batch_decision_payload_def\<close>)

lemma positive_answers:
  "su = 0 \<or> su = fr_subject q \<Longrightarrow> 0 \<le> de \<Longrightarrow> de \<le> 255 \<Longrightarrow> int (length p) \<le> 65535 \<Longrightarrow>
   opc \<in> {op_welcome, op_runtime_decision, op_pong, op_goodbye} \<Longrightarrow> ss_session_id s = i \<Longrightarrow>
   answers s q (fluidlink_v2_response q opc p i su de True)"
  unfolding answers_def by blast

lemma policy_opcode_range: "decision_opcode_by_policy v = Inr n \<Longrightarrow> 0 \<le> n \<and> n \<le> 255"
  by (auto simp: decision_opcode_by_policy_def dec_unknown_def decision_opcodes_def
      split: pyval.splits option.splits if_splits)

lemma compact_opcode_range: "compact_runtime_response e r = Inr (n, d) \<Longrightarrow> 0 \<le> n \<and> n \<le> 255"
  by (auto simp: compact_runtime_response_def Let_def result_inversions dec_execute_def
      split: pyval.splits if_splits dest: policy_opcode_range)

lemma hello_answers: "handle_hello s q i = (Inr f, s') \<Longrightarrow> answers s' q f"
  by (auto simp: handle_hello_def Let_def result_inversions dest!: error_answers payload_bound(1)
      split: if_splits sum.splits intro!: positive_answers)

lemma batch_answers: "handle_operation_batch s q g h = (Inr f, s', h') \<Longrightarrow> fr_subject q = 105 \<Longrightarrow> answers s' q f"
  by (auto simp: handle_operation_batch_def Let_def operation_batch_event_opcode_def
      batch_vector_decision_opcode_def intro!: positive_answers
      split: if_splits sum.splits prod.splits dest!: error_answers batch_payload_bound)

lemma event_answers: "handle_runtime_event s q g h = (Inr f, s', h') \<Longrightarrow> answers s' q f"
  by (auto simp: handle_runtime_event_def operation_batch_event_opcode_def result_inversions
      intro!: positive_answers
      split: if_splits sum.splits prod.splits dest!: error_answers payload_bound(4) batch_answers compact_opcode_range)

lemma ping_answers: "handle_ping s q = Inr f \<Longrightarrow> answers s q f"
  by (auto simp: handle_ping_def result_inversions intro!: positive_answers
      split: if_splits sum.splits dest!: error_answers payload_bound(2))

lemma goodbye_answers: "handle_goodbye s q = (Inr f, s') \<Longrightarrow> answers s' q f"
  by (auto simp: handle_goodbye_def intro!: positive_answers split: if_splits dest!: error_answers)

lemma process_answers: "session_process s q g h i = (Inr f, s', h') \<Longrightarrow> answers s' q f"
  by (auto simp: session_process_def Let_def split: if_splits prod.splits
      dest!: error_answers hello_answers event_answers ping_answers goodbye_answers)

section \<open>The session invariant\<close>

definition negotiated :: "bytes \<Rightarrow> int \<Rightarrow> bool" where
  "negotiated digest accepted \<longleftrightarrow>
     digest = contract_digest_v2 \<and> accepted AND NOT v2_capabilities = 0
   \<or> digest = batch_contract_digest \<and> accepted AND NOT v2_batch_capabilities = 0
       \<and> accepted AND cap_batched_runtime_events \<noteq> 0"

definition session_ok :: "v2_session \<Rightarrow> bool" where
  "session_ok s \<longleftrightarrow> text_valid 128 False (ss_server_name s) \<and> text_valid 64 False (ss_server_version s)
     \<and> 1 \<le> ss_expected_sequence s
     \<and> (case ss_session_id s of
          None \<Rightarrow> ss_contract_digest s = None \<and> ss_accepted s = 0 \<and> \<not> ss_closed s
        | Some i \<Rightarrow> \<not> id_invalid i \<and> (\<exists>d. ss_contract_digest s = Some d \<and> negotiated d (ss_accepted s)))"

lemma new_session_ok: "new_session n v = Inr s \<Longrightarrow> session_ok s"
  by (auto simp: new_session_def result_inversions encode_bounded_text_iff limit_defs session_ok_def)

lemma digests_differ: "contract_digest_v2 \<noteq> batch_contract_digest" "length contract_digest_v2 = 32"
    "length batch_contract_digest = 32"
  by code_simp+

lemma masked_subset: "(m AND a) AND NOT a = (0 :: int)"
  by (simp add: bit_eq_iff bit_simps)

lemma masked_subset_nums: "(m AND 127) AND - 128 = (0 :: int)" "(m AND 255) AND - 256 = (0 :: int)"
  using masked_subset[of m 127] masked_subset[of m 255] by simp_all

lemma batch_bit_kept: "r AND NOT 255 = 0 \<Longrightarrow> r AND 128 \<noteq> 0 \<Longrightarrow> ((q OR r) AND 255) AND 128 \<noteq> (0 :: int)"
proof
  assume r: "r AND 128 \<noteq> 0" and z: "((q OR r) AND 255) AND 128 = 0"
  have "((q OR r) AND 255) AND 128 = (q OR r) AND 128" by (simp add: and.assoc)
  moreover have "r AND 128 = r AND ((q OR r) AND 128)"
    by (rule bit_eqI) (auto simp: bit_simps)
  ultimately show False using r z by simp
qed

lemma hello_ok:
  assumes "session_ok s" "\<not> id_invalid i" "handle_hello s q i = (r, s')" "ss_session_id s = None"
  shows "session_ok s' \<and> ss_expected_sequence s' = ss_expected_sequence s"
  using assms batch_bit_kept
  by (auto simp: handle_hello_def Let_def session_ok_def negotiated_def masked_subset_nums digests_differ
      digests_differ(1)[symmetric] capability_values cap_defs
      split: if_splits sum.splits)

lemma closing_ok: "session_ok s \<Longrightarrow> ss_session_id s \<noteq> None \<Longrightarrow> session_ok (s\<lparr>ss_closed := True\<rparr>)"
  by (auto simp: session_ok_def)

lemma counting_ok: "session_ok s \<Longrightarrow> session_ok (s\<lparr>ss_expected_sequence := ss_expected_sequence s + 1\<rparr>)"
  by (auto simp: session_ok_def split: option.splits)

lemma batch_state: "handle_operation_batch s q g h = (r, s', h') \<Longrightarrow> s' = s \<or> s' = s\<lparr>ss_closed := True\<rparr>"
  by (auto simp: handle_operation_batch_def Let_def split: if_splits sum.splits prod.splits)

lemma event_state: "handle_runtime_event s q g h = (r, s', h') \<Longrightarrow> s' = s \<or> s' = s\<lparr>ss_closed := True\<rparr>"
  by (auto simp: handle_runtime_event_def split: if_splits sum.splits prod.splits dest: batch_state)

lemma goodbye_state: "handle_goodbye s q = (r, s') \<Longrightarrow> s' = s \<or> s' = s\<lparr>ss_closed := True\<rparr>"
  by (auto simp: handle_goodbye_def split: if_splits)

lemma process_ok:
  assumes "session_ok s" "\<not> id_invalid i" "session_process s q g h i = (r, s', h')"
  shows "session_ok s'"
proof (cases "ss_session_id s")
  case None
  let ?s1 = "s\<lparr>ss_expected_sequence := ss_expected_sequence s + 1\<rparr>"
  have "session_ok ?s1" by (rule counting_ok[OF assms(1)])
  moreover have "handle_hello ?s1 q i = (x, t) \<Longrightarrow> session_ok t" for x t
    using hello_ok[OF calculation assms(2)] None by auto
  ultimately show ?thesis using assms None
    by (auto simp: session_process_def Let_def split: if_splits prod.splits)
next
  case (Some j)
  let ?s1 = "s\<lparr>ss_expected_sequence := ss_expected_sequence s + 1\<rparr>"
  have k: "session_ok ?s1" by (rule counting_ok[OF assms(1)])
  then have "session_ok (?s1\<lparr>ss_closed := True\<rparr>)" using Some by (intro closing_ok) auto
  with k show ?thesis using assms Some
    by (auto simp: session_process_def Let_def split: if_splits prod.splits
        dest!: event_state goodbye_state)
qed

text \<open>The states a connection can be in.\<close>

inductive reachable :: "'h handler \<Rightarrow> 'h \<Rightarrow> v2_session \<Rightarrow> 'h \<Rightarrow> bool" for g h0 where
  start: "new_session n v = Inr s \<Longrightarrow> reachable g h0 s h0"
| step: "reachable g h0 s h \<Longrightarrow> \<not> id_invalid i \<Longrightarrow> session_process s q g h i = (r, s', h')
    \<Longrightarrow> reachable g h0 s' h'"

inductive_cases reachableE: "reachable g h0 s h"

lemma session_invariant: "reachable g h0 s h \<Longrightarrow> session_ok s"
  by (induction rule: reachable.induct) (auto intro: new_session_ok process_ok)

section \<open>Closing is final, sequence numbers are used once\<close>

lemma closed_session_final:
  assumes "ss_closed s" "ss_session_id s \<noteq> None" "session_process s q g h i = (r, s', h')"
  shows "s' = s \<and> h' = h \<and> (\<forall>f. r = Inr f \<longrightarrow> fr_opcode f = op_error)"
  using assms
  by (auto simp: session_process_def session_error_def result_inversions split: if_splits)

lemma hello_sequence: "handle_hello s q i = (r, s') \<Longrightarrow> ss_expected_sequence s' = ss_expected_sequence s"
  by (auto simp: handle_hello_def Let_def split: if_splits sum.splits)

lemma closed_sequence: "s' = s \<or> s' = s\<lparr>ss_closed := True\<rparr> \<Longrightarrow> ss_expected_sequence s' = ss_expected_sequence s"
  by auto

text \<open>The handler is consulted only for a negotiated runtime event in an open session, in sequence.\<close>

definition may_consult :: "v2_session \<Rightarrow> frame \<Rightarrow> bool" where
  "may_consult s q \<longleftrightarrow> fr_kind q = kind_request \<and> fr_sequence q = ss_expected_sequence s
     \<and> ss_session_id s \<noteq> None \<and> fr_session_id q = ss_session_id s \<and> \<not> ss_closed s
     \<and> fr_decision q = 0 \<and> fr_opcode q = op_runtime_event
     \<and> ss_accepted s AND v2_required_capabilities = v2_required_capabilities
     \<and> (fr_subject q = operation_batch_event_opcode \<longrightarrow>
          ss_contract_digest s = Some batch_contract_digest \<and> ss_accepted s AND cap_batched_runtime_events \<noteq> 0)"

definition event_negotiated :: "v2_session \<Rightarrow> frame \<Rightarrow> bool" where
  "event_negotiated s q \<longleftrightarrow> ss_accepted s AND v2_required_capabilities = v2_required_capabilities
     \<and> (fr_subject q = operation_batch_event_opcode \<longrightarrow>
          ss_contract_digest s = Some batch_contract_digest \<and> ss_accepted s AND cap_batched_runtime_events \<noteq> 0)"

lemma event_guarded:
  assumes "\<not> event_negotiated s q"
  shows "\<exists>e. \<forall>g h. handle_runtime_event s q g h = (e, s, h)"
proof (cases "ss_accepted s AND v2_required_capabilities = v2_required_capabilities")
  case True
  then show ?thesis using assms
    by (intro exI) (auto simp: event_negotiated_def handle_runtime_event_def handle_operation_batch_def)
qed (auto simp: handle_runtime_event_def)

lemma snd_let_pair: "snd (snd (let (r, t) = x in (r, t, h))) = h"
  by (simp add: split_def)

lemma process_event:
  assumes "fr_opcode q = op_runtime_event" "fr_decision q = 0" "\<not> ss_closed s"
    "fr_session_id q = ss_session_id s" "ss_session_id s = Some j" "fr_sequence q = ss_expected_sequence s"
    "fr_kind q = kind_request"
  shows "session_process s q g h i =
    handle_runtime_event (s\<lparr>ss_expected_sequence := ss_expected_sequence s + 1\<rparr>) q g h"
  using assms by (simp add: session_process_def)

lemma handler_guarded:
  assumes n: "\<not> may_consult s q"
  shows "session_process s q g h i = session_process s q g' h i \<and> snd (snd (session_process s q g h i)) = h"
proof (cases "fr_opcode q = op_runtime_event \<and> fr_decision q = 0 \<and> \<not> ss_closed s
    \<and> fr_session_id q = ss_session_id s \<and> ss_session_id s \<noteq> None \<and> fr_sequence q = ss_expected_sequence s
    \<and> fr_kind q = kind_request")
  case True
  let ?s1 = "s\<lparr>ss_expected_sequence := ss_expected_sequence s + 1\<rparr>"
  have "\<not> event_negotiated ?s1 q"
    using n True by (auto simp: may_consult_def event_negotiated_def)
  then obtain e where "handle_runtime_event ?s1 q g h = (e, ?s1, h)" "handle_runtime_event ?s1 q g' h = (e, ?s1, h)"
    using event_guarded by fast
  moreover obtain j where "ss_session_id s = Some j" using True by blast
  ultimately show ?thesis using True process_event[of q s j g h i] process_event[of q s j g' h i] by simp
next
  case False
  then show ?thesis by (auto simp: session_process_def Let_def split_def link_consts)
qed

text \<open>A request is turned away before its number is used, or uses it up.\<close>

definition turned_away :: "v2_session \<Rightarrow> frame \<Rightarrow> bool" where
  "turned_away s q \<longleftrightarrow> fr_kind q \<noteq> kind_request \<or> fr_sequence q \<noteq> ss_expected_sequence s
     \<or> ss_session_id s \<noteq> None \<and> (fr_session_id q \<noteq> ss_session_id s \<or> ss_closed s)"

lemma turned_away_same:
  "turned_away s q \<Longrightarrow> session_process s q g h i = (r, s', h') \<Longrightarrow>
    s' = s \<and> h' = h \<and> (\<forall>f. r = Inr f \<longrightarrow> fr_opcode f = op_error)"
  by (auto simp: turned_away_def session_process_def session_error_def result_inversions split: if_splits)

lemma not_turned_away:
  assumes "\<not> turned_away s q" and "session_process s q g h i = (r, s', h')"
  shows "fr_sequence q = ss_expected_sequence s \<and> ss_expected_sequence s' = ss_expected_sequence s + 1"
  using assms
  by (auto simp: turned_away_def session_process_def Let_def split: if_splits prod.splits
      dest!: event_state [THEN closed_sequence] goodbye_state [THEN closed_sequence] hello_sequence)

lemma requests_used_once:
  assumes first: "session_process s q g h i = (r, s', h')" and again: "session_process s' q g2 h2 i2 = (r2, s2, h3)"
  shows "s2 = s' \<and> h3 = h2 \<and> (\<forall>f. r2 = Inr f \<longrightarrow> fr_opcode f = op_error)"
proof -
  have "turned_away s' q"
  proof (cases "turned_away s q")
    case True
    with turned_away_same [OF True first] show ?thesis by simp
  next
    case False
    from not_turned_away [OF False first] have "fr_sequence q \<noteq> ss_expected_sequence s'" by linarith
    then show ?thesis by (simp add: turned_away_def)
  qed
  then show ?thesis using again by (rule turned_away_same)
qed

section \<open>Responses can be sent\<close>

lemma error_payload_bound: "encode_error_payload c m = Inr p \<Longrightarrow> int (length p) \<le> 65535"
  by (rule payload_bound(3))

lemma answer_valid:
  assumes a: "answers s q f" and q: "frame_valid q" and s: "session_ok s"
  shows "frame_valid f"
proof -
  have sid: "\<not> id_invalid j" if "ss_session_id s = Some j" for j
    using s that by (simp add: session_ok_def)
  have q': "0 \<le> fr_subject q" "fr_subject q \<le> 255" "1 \<le> fr_sequence q" "fr_sequence q \<le> 18446744073709551615"
    "\<not> id_invalid (fr_message_id q)"
    using q by (simp_all add: frame_valid_def)
  show ?thesis
    using a unfolding answers_def
  proof
    assume "\<exists>c m p. encode_error_payload c m = Inr p \<and>
        f = fluidlink_v2_response q op_error p (ss_session_id s) (fr_subject q) dec_unknown False"
    then obtain c m p where "encode_error_payload c m = Inr p"
      and "f = fluidlink_v2_response q op_error p (ss_session_id s) (fr_subject q) dec_unknown False" by blast
    then show ?thesis using q' sid error_payload_bound[of c m p]
      by (auto simp: frame_valid_def link_consts session_flags_def max_payload_bytes_def)
  next
    assume "\<exists>opc p su de. f = fluidlink_v2_response q opc p (ss_session_id s) su de True \<and>
        opc \<in> {op_welcome, op_runtime_decision, op_pong, op_goodbye} \<and>
        (su = 0 \<or> su = fr_subject q) \<and> 0 \<le> de \<and> de \<le> 255 \<and> int (length p) \<le> 65535"
    then show ?thesis using q' sid
      by (cases "ss_session_id s") (auto simp: frame_valid_def link_consts session_flags_def max_payload_bytes_def)
  qed
qed

lemma response_shape:
  assumes "answers s q f"
  shows "fr_kind f = kind_response \<and> fr_sequence f = fr_sequence q \<and> fr_message_id f = fr_message_id q
    \<and> fr_session_id f = ss_session_id s \<and> (frame_ok f \<longleftrightarrow> fr_opcode f \<noteq> op_error)"
  using assms by (cases "ss_session_id s") (auto simp: answers_def frame_ok_def session_flags_def link_consts)

section \<open>The handshake\<close>

lemma hello_grants:
  assumes "handle_hello s q i = (Inr f, s')" "fr_opcode f = op_welcome"
  shows "\<exists>hello available. decode_hello_payload (fr_payload q) = Inr hello
    \<and> available = (if hl_contract_digest hello = contract_digest_v2 then v2_capabilities else v2_batch_capabilities)
    \<and> ss_contract_digest s' = Some (hl_contract_digest hello)
    \<and> ss_session_id s' = Some i
    \<and> ss_accepted s' = (hl_requested hello OR hl_required hello) AND available
    \<and> hl_required hello AND NOT available = 0
    \<and> hl_required hello AND NOT (ss_accepted s') = 0
    \<and> decode_welcome_payload (fr_payload f) = Inr \<lparr>wl_contract_digest = hl_contract_digest hello,
         wl_available = available, wl_accepted = ss_accepted s', wl_max_payload = 65535,
         wl_server_name = ss_server_name s, wl_server_version = ss_server_version s\<rparr>"
proof -
  obtain hello where h: "decode_hello_payload (fr_payload q) = Inr hello"
    using assms by (auto simp: handle_hello_def session_error_def result_inversions link_consts
        split: if_splits sum.splits)
  define av where "av = (if hl_contract_digest hello = contract_digest_v2 then v2_capabilities else v2_batch_capabilities)"
  let ?acc = "(hl_requested hello OR hl_required hello) AND av"
  from assms h have r: "hl_required hello AND NOT av = 0"
    and s': "s' = s\<lparr>ss_session_id := Some i, ss_contract_digest := Some (hl_contract_digest hello), ss_accepted := ?acc\<rparr>"
    and w: "encode_welcome_payload (PInt av) (PInt ?acc) (PStr (ss_server_name s)) (PStr (ss_server_version s))
       (PInt max_payload_bytes) (hl_contract_digest hello) = Inr (fr_payload f)"
    by (auto simp: handle_hello_def session_error_def result_inversions link_consts av_def Let_def
        split: if_splits)
  have "hl_required hello AND NOT ?acc = hl_required hello AND NOT av"
    by (rule bit_eqI) (auto simp: bit_simps)
  then show ?thesis
    using h r w[folded welcome_codec_iff] unfolding av_def[symmetric]
    by (intro exI[of _ hello] exI[of _ av]) (simp add: s' max_payload_bytes_def, simp add: av_def)
qed

section \<open>A sample connection\<close>

definition demo_hello :: bytes where
  "demo_hello = contract_digest_v2 @ le_bytes 8 127 @ le_bytes 8 27 @ text_enc 1 (lit ''cli'') @ text_enc 1 (lit ''1'')"

definition demo_request :: "int \<Rightarrow> int \<Rightarrow> int \<Rightarrow> bytes option \<Rightarrow> bytes \<Rightarrow> frame" where
  "demo_request opc su n sid p = fluidlink_v2_request opc n p sid su (Some (replicate 16 7)) (replicate 16 9)"

definition demo_session :: v2_session where
  "demo_session = \<lparr>ss_server_name = lit ''srv'', ss_server_version = lit ''1'', ss_session_id = None,
     ss_contract_digest = None, ss_expected_sequence = 1, ss_accepted = 0, ss_closed = False\<rparr>"

definition demo_handler :: "pydict list handler" where
  "demo_handler h e = (e # h, Inr [(lit ''ok'', PBool True), (lit ''result'', PDict [(lit ''executed'', PBool True)])])"

definition demo_open :: v2_session where
  "demo_open = demo_session\<lparr>ss_session_id := Some (replicate 16 3), ss_contract_digest := Some contract_digest_v2,
     ss_expected_sequence := 2, ss_accepted := 127\<rparr>"

lemma demo_start: "new_session (lit ''srv'') (lit ''1'') = Inr demo_session"
  by code_simp

lemma demo_hello_step:
  "snd (session_process demo_session (demo_request 1 0 1 None demo_hello) demo_handler [] (replicate 16 3)) = (demo_open, [])"
  by code_simp

lemma demo_reachable: "reachable demo_handler [] demo_open []"
proof (rule reachable.step)
  show "reachable demo_handler [] demo_session []" by (rule reachable.start[OF demo_start])
  show "\<not> id_invalid (replicate 16 3)" by code_simp
  show "session_process demo_session (demo_request 1 0 1 None demo_hello) demo_handler [] (replicate 16 3)
      = (fst (session_process demo_session (demo_request 1 0 1 None demo_hello) demo_handler [] (replicate 16 3)), demo_open, [])"
    using demo_hello_step by (simp add: prod_eq_iff)
qed

section \<open>Properties\<close>

text \<open>C1: in every state a server session can reach, its names are encodable, the expected sequence
  is positive, an unopened session has negotiated nothing and is not closed, and an open one has a
  valid identity, one of the two contracts, and only capabilities of that contract.\<close>

theorem session_state_invariant: "reachable g h0 s h \<Longrightarrow> session_ok s"
  by (rule session_invariant)

theorem session_state_invariant_witness: "session_ok demo_open"
  by (rule session_state_invariant[OF demo_reachable])

text \<open>C15: the response to a valid request in a reachable session is a valid frame (so it can be
  encoded), echoes the request's sequence number and message identity, carries the session's
  identity, and is flagged OK exactly when it is not an error.\<close>

theorem response_valid_and_matched:
  assumes "reachable g h0 s h" "\<not> id_invalid i" "validate_frame q = Inr ()"
    and "session_process s q g h i = (Inr f, s', h')"
  shows "validate_frame f = Inr () \<and> fr_kind f = kind_response \<and> fr_sequence f = fr_sequence q
    \<and> fr_message_id f = fr_message_id q \<and> fr_session_id f = ss_session_id s'
    \<and> (frame_ok f \<longleftrightarrow> fr_opcode f \<noteq> op_error)"
proof -
  have "session_ok s'" by (rule process_ok[OF session_invariant[OF assms(1)] assms(2,4)])
  moreover have "answers s' q f" by (rule process_answers[OF assms(4)])
  ultimately show ?thesis
    using answer_valid[of s' q f] response_shape[of s' q f] assms(3) unfolding validate_frame_iff by simp
qed

theorem response_valid_and_matched_witness:
  "\<exists>f. fst (session_process demo_open (demo_request 20 0 2 (Some (replicate 16 3)) [1, 65]) demo_handler [] []) = Inr f
     \<and> validate_frame f = Inr ()"
proof -
  let ?x = "session_process demo_open (demo_request 20 0 2 (Some (replicate 16 3)) [1, 65]) demo_handler [] (replicate 16 4)"
  have e: "session_process demo_open (demo_request 20 0 2 (Some (replicate 16 3)) [1, 65]) demo_handler [] [] = ?x"
    by code_simp
  have v: "validate_frame (demo_request 20 0 2 (Some (replicate 16 3)) [1, 65]) = Inr ()" by code_simp
  have i: "\<not> id_invalid (replicate 16 4)" by code_simp
  have "succeeds (fst ?x)" by code_simp
  then obtain f where f: "fst ?x = Inr f" by (auto simp: succeeds_iff)
  then have "?x = (Inr f, fst (snd ?x), snd (snd ?x))" by (simp add: prod_eq_iff)
  from response_valid_and_matched[OF demo_reachable i v this] show ?thesis unfolding e using f by simp
qed

text \<open>C3: the event handler is not consulted, and its state does not change, unless the request is a
  runtime event in sequence, in the open session, with the capabilities (and for a batch the batch
  contract) negotiated: for any other request the result does not depend on the handler.\<close>

theorem handler_consulted_only_when_negotiated:
  "\<not> may_consult s q \<Longrightarrow>
   session_process s q g h i = session_process s q g' h i \<and> snd (snd (session_process s q g h i)) = h"
  by (rule handler_guarded)

theorem handler_consulted_only_when_negotiated_witness:
  "snd (snd (session_process demo_session (demo_request 10 103 1 None demo_op) demo_handler [] [])) = []"
proof -
  have "\<not> may_consult demo_session (demo_request 10 103 1 None demo_op)" by code_simp
  from handler_consulted_only_when_negotiated[OF this, of demo_handler "[]" "[]" demo_handler]
  show ?thesis by (rule conjunct2)
qed

text \<open>C25: closing is final: a closed session answers every request with an error, its state and the
  handler's do not change.\<close>

theorem closed_is_final:
  "ss_closed s \<Longrightarrow> ss_session_id s \<noteq> None \<Longrightarrow> session_process s q g h i = (r, s', h') \<Longrightarrow>
     s' = s \<and> h' = h \<and> (\<forall>f. r = Inr f \<longrightarrow> fr_opcode f = op_error)"
  by (rule closed_session_final)

theorem closed_is_final_witness:
  "fst (snd (session_process (demo_open\<lparr>ss_closed := True\<rparr>) (demo_request 20 0 2 (Some (replicate 16 3)) [1, 65])
      demo_handler [] [])) = demo_open\<lparr>ss_closed := True\<rparr>"
proof -
  have "ss_closed (demo_open\<lparr>ss_closed := True\<rparr>)" "ss_session_id (demo_open\<lparr>ss_closed := True\<rparr>) \<noteq> None"
    by code_simp+
  from closed_is_final[OF this] show ?thesis by (metis prod.collapse)
qed

text \<open>C24: a request is acted on at most once: whatever a request did, sending it again changes neither the session nor the
  handler's state and yields no response but an error; and a request that did something, to the session, to the handler's state or
  by a response other than an error, has used up its sequence number.\<close>

theorem request_not_replayed:
  "session_process s q g h i = (r, s', h') \<Longrightarrow> session_process s' q g2 h2 i2 = (r2, s2, h3) \<Longrightarrow>
     s2 = s' \<and> h3 = h2 \<and> (\<forall>f. r2 = Inr f \<longrightarrow> fr_opcode f = op_error)
     \<and> (s' \<noteq> s \<or> h' \<noteq> h \<or> (\<exists>f. r = Inr f \<and> fr_opcode f \<noteq> op_error) \<longrightarrow>
          fr_sequence q = ss_expected_sequence s \<and> ss_expected_sequence s' = ss_expected_sequence s + 1)"
  using requests_used_once [of s q g h i r s' h' g2 h2 i2 r2 s2 h3] turned_away_same [of s q g h i r s' h']
    not_turned_away [of s q g h i r s' h'] by blast

theorem request_not_replayed_witness:
  "fst (snd (session_process demo_open (demo_request 10 103 2 (Some (replicate 16 3)) demo_op) demo_handler [] [])) = demo_open\<lparr>ss_expected_sequence := 3\<rparr>
   \<and> length (snd (snd (session_process demo_open (demo_request 10 103 2 (Some (replicate 16 3)) demo_op) demo_handler [] []))) = 1
   \<and> snd (snd (session_process (demo_open\<lparr>ss_expected_sequence := 3\<rparr>) (demo_request 10 103 2 (Some (replicate 16 3)) demo_op) demo_handler [] [])) = []"
proof -
  let ?q = "demo_request 10 103 2 (Some (replicate 16 3)) demo_op" and ?s = "demo_open\<lparr>ss_expected_sequence := 3\<rparr>"
  have first: "fst (snd (session_process demo_open ?q demo_handler [] [])) = ?s"
    "length (snd (snd (session_process demo_open ?q demo_handler [] []))) = 1" by code_simp+
  then have "session_process demo_open ?q demo_handler [] [] = (fst (session_process demo_open ?q demo_handler [] []), ?s,
      snd (snd (session_process demo_open ?q demo_handler [] [])))" by (simp add: prod_eq_iff)
  from request_not_replayed [OF this, of demo_handler "[]" "[]"
      "fst (session_process ?s ?q demo_handler [] [])" "fst (snd (session_process ?s ?q demo_handler [] []))"
      "snd (snd (session_process ?s ?q demo_handler [] []))"]
  have "snd (snd (session_process ?s ?q demo_handler [] [])) = []" by simp
  with first show ?thesis by blast
qed

text \<open>C11: when the hello is answered with a welcome, the session has a fresh identity, it accepts exactly the capabilities
  that the hello requests or requires and that are available under its contract, every required one is among them, and the
  welcome tells the client exactly that.\<close>

theorem handshake_grants:
  "handle_hello s q i = (Inr f, s') \<Longrightarrow> fr_opcode f = op_welcome \<Longrightarrow>
   \<exists>hello available. decode_hello_payload (fr_payload q) = Inr hello
    \<and> available = (if hl_contract_digest hello = contract_digest_v2 then v2_capabilities else v2_batch_capabilities)
    \<and> ss_contract_digest s' = Some (hl_contract_digest hello)
    \<and> ss_session_id s' = Some i
    \<and> ss_accepted s' = (hl_requested hello OR hl_required hello) AND available
    \<and> hl_required hello AND NOT available = 0
    \<and> hl_required hello AND NOT (ss_accepted s') = 0
    \<and> decode_welcome_payload (fr_payload f) = Inr \<lparr>wl_contract_digest = hl_contract_digest hello,
         wl_available = available, wl_accepted = ss_accepted s', wl_max_payload = 65535,
         wl_server_name = ss_server_name s, wl_server_version = ss_server_version s\<rparr>"
  by (rule hello_grants)

theorem handshake_grants_witness:
  "\<exists>hello. decode_hello_payload demo_hello = Inr hello"
proof -
  let ?x = "handle_hello demo_session (demo_request 1 0 1 None demo_hello) (replicate 16 3)"
  have s: "(case fst ?x of Inr f \<Rightarrow> fr_opcode f = op_welcome | Inl _ \<Rightarrow> False)" by code_simp
  then obtain f where "fst ?x = Inr f" and o: "fr_opcode f = op_welcome" by (auto split: sum.splits)
  then have "?x = (Inr f, snd ?x)" by (simp add: prod_eq_iff)
  from handshake_grants[OF this o] have "\<exists>hello. decode_hello_payload (fr_payload (demo_request 1 0 1 None demo_hello)) = Inr hello"
    by blast
  then show ?thesis by (simp add: demo_request_def fluidlink_v2_request_def)
qed

end
