(* ===== verification/Py_Builtins.thy ===== *)
theory Py_Builtins
  imports Py_Value
begin

text \<open>
  The Python builtins the runtime modules apply to event values: truth, \<^verbatim>\<open>str\<close>, \<^verbatim>\<open>repr\<close>,
  \<^verbatim>\<open>int\<close>, \<^verbatim>\<open>float\<close>, float arithmetic, \<^verbatim>\<open>round(x, n)\<close>, \<^verbatim>\<open>sum\<close>, and searching in text.
  \<^verbatim>\<open>sum\<close> is the left-to-right sum of CPython before 3.12. Integers are taken to have at most
  4300 digits (JSON numerals have no more); non-ASCII characters above the first 256 count as
  printable in \<^verbatim>\<open>repr\<close>.
\<close>

section \<open>Truth and text\<close>

definition truthy :: "pyval \<Rightarrow> bool" where
  "truthy v = (case v of PNone \<Rightarrow> False | PBool b \<Rightarrow> b | PInt n \<Rightarrow> n \<noteq> 0 | PFloat x \<Rightarrow> x \<noteq> Fin 0
     | PStr s \<Rightarrow> s \<noteq> [] | PList xs \<Rightarrow> xs \<noteq> [] | PDict d \<Rightarrow> d \<noteq> [])"

definition py_or :: "pyval \<Rightarrow> pyval \<Rightarrow> pyval" where
  "py_or a b = (if truthy a then a else b)"

fun drop_trailing_zeros :: "nat \<Rightarrow> int \<Rightarrow> int" where
  "drop_trailing_zeros 0 m = m"
| "drop_trailing_zeros (Suc k) m = (if m mod 10 = 0 then drop_trailing_zeros k (m div 10) else m)"

text \<open>\<^verbatim>\<open>repr\<close> of a float: the shortest decimal that reads back, in fixed or exponent form.\<close>

definition float_text :: "rat \<Rightarrow> pystr" where
  "float_text x =
    (if x = 0 then lit ''0.0'' else
     let d = float_repr \<bar>x\<bar>; k = flogb 10 d + 1;
         ds = show_int (drop_trailing_zeros 16 \<lfloor>d * powb 10 (17 - k)\<rfloor>); n = int (length ds);
         e = k - 1;
         body = (if - 4 < k \<and> k \<le> 16
           then (if k \<le> 0 then lit ''0.'' @ replicate (nat (- k)) 48 @ ds
                 else if n \<le> k then ds @ replicate (nat (k - n)) 48 @ lit ''.0''
                 else take (nat k) ds @ [46] @ drop (nat k) ds)
           else take 1 ds @ (if 1 < n then [46] @ drop 1 ds else []) @ [101, if e < 0 then 45 else 43]
                @ (if \<bar>e\<bar> < 10 then [48] else []) @ show_int \<bar>e\<bar>)
     in if x < 0 then 45 # body else body)"

definition show_float :: "pyfloat \<Rightarrow> pystr" where
  "show_float x = (case x of Fin y \<Rightarrow> float_text y | PInf \<Rightarrow> lit ''inf'' | NInf \<Rightarrow> lit ''-inf'' | NaN \<Rightarrow> lit ''nan'')"

definition pad_hex :: "nat \<Rightarrow> int \<Rightarrow> pystr" where
  "pad_hex k c = (let s = show_hex c in replicate (k - length s) 48 @ s)"

definition repr_char :: "int \<Rightarrow> int \<Rightarrow> pystr" where
  "repr_char quote c =
     (if c = 92 \<or> c = quote then [92, c]
      else if c = 10 then [92, 110] else if c = 13 then [92, 114] else if c = 9 then [92, 116]
      else if c < 32 \<or> (127 \<le> c \<and> c \<le> 160) \<or> c = 173 then [92, 120] @ pad_hex 2 c
      else if 55296 \<le> c \<and> c \<le> 57343 then [92, 117] @ pad_hex 4 c
      else [c])"

definition repr_text :: "pystr \<Rightarrow> pystr" where
  "repr_text s =
     (let quote = (if 39 \<in> set s \<and> 34 \<notin> set s then 34 else 39)
      in [quote] @ concat (map (repr_char quote) s) @ [quote])"

fun join_text :: "pystr \<Rightarrow> pystr list \<Rightarrow> pystr" where
  "join_text sep [] = []"
| "join_text sep [s] = s"
| "join_text sep (s # t # ss) = s @ sep @ join_text sep (t # ss)"

primrec py_repr :: "pyval \<Rightarrow> pystr" where
  "py_repr PNone = lit ''None''"
| "py_repr (PBool b) = (if b then lit ''True'' else lit ''False'')"
| "py_repr (PInt n) = show_int n"
| "py_repr (PFloat x) = show_float x"
| "py_repr (PStr s) = repr_text s"
| "py_repr (PList xs) = [91] @ join_text (lit '', '') (map py_repr xs) @ [93]"
| "py_repr (PDict d) = [123] @ join_text (lit '', '')
     (map (\<lambda>(k, r). repr_text k @ lit '': '' @ r) (map (map_prod id py_repr) d)) @ [125]"

definition py_str :: "pyval \<Rightarrow> pystr" where
  "py_str v = (case v of PStr s \<Rightarrow> s | _ \<Rightarrow> py_repr v)"

lemma py_str_PStr [simp]: "py_str (PStr s) = s"
  by (simp add: py_str_def)

fun has_infix :: "pystr \<Rightarrow> pystr \<Rightarrow> bool" where
  "has_infix p [] = (p = [])"
| "has_infix p (c # s) = (take (length p) (c # s) = p \<or> has_infix p s)"

lemma has_infix_iff: "has_infix p s \<longleftrightarrow> (\<exists>a b. s = a @ p @ b)"
proof (induction s)
  case (Cons c s)
  have "(\<exists>a b. c # s = a @ p @ b) \<longleftrightarrow> (\<exists>b. c # s = p @ b) \<or> (\<exists>a b. s = a @ p @ b)"
    by (metis append_Cons append_Nil list.exhaust list.inject)
  moreover have "take (length p) (c # s) = p \<longleftrightarrow> (\<exists>b. c # s = p @ b)"
    by (metis append_eq_conv_conj append_take_drop_id)
  ultimately show ?case using Cons by simp
qed auto

section \<open>int and float\<close>

definition type_name :: "pyval \<Rightarrow> string" where
  "type_name v = (case v of PNone \<Rightarrow> ''NoneType'' | PBool _ \<Rightarrow> ''bool'' | PInt _ \<Rightarrow> ''int'' | PFloat _ \<Rightarrow> ''float''
     | PStr _ \<Rightarrow> ''str'' | PList _ \<Rightarrow> ''list'' | PDict _ \<Rightarrow> ''dict'')"

definition truncate_rat :: "rat \<Rightarrow> int" where
  "truncate_rat x = (if 0 \<le> x then \<lfloor>x\<rfloor> else \<lceil>x\<rceil>)"

definition py_int :: "pyval \<Rightarrow> int res" where
  "py_int v = (case v of
     PBool b \<Rightarrow> Inr (if b then 1 else 0)
   | PInt n \<Rightarrow> Inr n
   | PFloat (Fin x) \<Rightarrow> Inr (truncate_rat x)
   | PFloat NaN \<Rightarrow> Inl (ValueError (lit ''cannot convert float NaN to integer''))
   | PFloat _ \<Rightarrow> Inl (OverflowError (lit ''cannot convert float infinity to integer''))
   | PStr s \<Rightarrow>
       if int_accepts s
       then (let (neg, b) = drop_sign (py_strip s); n = digits_val (filter is_digit b)
             in Inr (if neg then - n else n))
       else Inl (ValueError (lit ''invalid literal for int() with base 10: '' @ repr_text s))
   | _ \<Rightarrow> Inl (TypeError (lit ''int() argument must be a string, a bytes-like object or a real number, not ''
            @ repr_text (lit (type_name v)))))"

text \<open>Underscores in a float literal stand between digits.\<close>

fun underscores_between :: "bool \<Rightarrow> pystr \<Rightarrow> bool" where
  "underscores_between prev [] = True"
| "underscores_between prev (c # cs) =
     (if c = 95 then prev \<and> (case cs of d # _ \<Rightarrow> is_digit d | [] \<Rightarrow> False) \<and> underscores_between False cs
      else underscores_between (is_digit c) cs)"

definition float_parse :: "pystr \<Rightarrow> pyfloat option" where
  "float_parse s =
    (let (neg, b) = drop_sign (py_strip s); low = py_lower b in
     if low = lit ''inf'' \<or> low = lit ''infinity'' then Some (if neg then NInf else PInf)
     else if low = lit ''nan'' then Some NaN
     else if \<not> underscores_between False b then None
     else case dec_scan (filter (\<lambda>c. c \<noteq> 95) b) of
       None \<Rightarrow> None
     | Some (v, _) \<Rightarrow> Some (to_f64 (if neg then - v else v)))"

definition py_float :: "pyval \<Rightarrow> pyfloat res" where
  "py_float v = (case v of
     PBool b \<Rightarrow> Inr (Fin (if b then 1 else 0))
   | PInt n \<Rightarrow> (case to_f64 (of_int n) of Fin x \<Rightarrow> Inr (Fin x)
        | _ \<Rightarrow> Inl (OverflowError (lit ''int too large to convert to float'')))
   | PFloat x \<Rightarrow> Inr x
   | PStr s \<Rightarrow> (case float_parse s of Some x \<Rightarrow> Inr x
        | None \<Rightarrow> Inl (ValueError (lit ''could not convert string to float: '' @ repr_text s)))
   | _ \<Rightarrow> Inl (TypeError (lit ''float() argument must be a string or a real number, not ''
            @ repr_text (lit (type_name v)))))"

section \<open>Float arithmetic\<close>

definition fneg :: "pyfloat \<Rightarrow> pyfloat" where
  "fneg x = (case x of Fin a \<Rightarrow> Fin (- a) | PInf \<Rightarrow> NInf | NInf \<Rightarrow> PInf | NaN \<Rightarrow> NaN)"

fun fadd :: "pyfloat \<Rightarrow> pyfloat \<Rightarrow> pyfloat" where
  "fadd (Fin a) (Fin b) = to_f64 (a + b)"
| "fadd NaN y = NaN"
| "fadd x NaN = NaN"
| "fadd PInf NInf = NaN"
| "fadd NInf PInf = NaN"
| "fadd PInf y = PInf"
| "fadd NInf y = NInf"
| "fadd (Fin a) y = y"

definition fsub :: "pyfloat \<Rightarrow> pyfloat \<Rightarrow> pyfloat" where
  "fsub x y = fadd x (fneg y)"

definition fsign :: "pyfloat \<Rightarrow> int" where
  "fsign x = (case x of Fin a \<Rightarrow> (if a < 0 then - 1 else if a = 0 then 0 else 1) | PInf \<Rightarrow> 1 | NInf \<Rightarrow> - 1 | NaN \<Rightarrow> 0)"

definition signed_inf :: "int \<Rightarrow> pyfloat" where
  "signed_inf s = (if s = 0 then NaN else if 0 < s then PInf else NInf)"

definition fmul :: "pyfloat \<Rightarrow> pyfloat \<Rightarrow> pyfloat" where
  "fmul x y = (case (x, y) of (Fin a, Fin b) \<Rightarrow> to_f64 (a * b)
     | _ \<Rightarrow> if x = NaN \<or> y = NaN then NaN else signed_inf (fsign x * fsign y))"

text \<open>The order; no comparison with NaN holds.\<close>

fun fless :: "pyfloat \<Rightarrow> pyfloat \<Rightarrow> bool" where
  "fless (Fin a) (Fin b) = (a < b)"
| "fless NaN y = False"
| "fless x NaN = False"
| "fless PInf y = False"
| "fless x NInf = False"
| "fless x y = True"

definition feq :: "pyfloat \<Rightarrow> pyfloat \<Rightarrow> bool" where
  "feq x y = (x = y \<and> x \<noteq> NaN)"

definition fle :: "pyfloat \<Rightarrow> pyfloat \<Rightarrow> bool" where
  "fle x y = (fless x y \<or> feq x y)"

text \<open>\<^verbatim>\<open>max(x, y)\<close> and \<^verbatim>\<open>min(x, y)\<close> keep the first unless the second compares as larger, smaller.\<close>

definition fmax :: "pyfloat \<Rightarrow> pyfloat \<Rightarrow> pyfloat" where
  "fmax x y = (if fless x y then y else x)"

definition fmin :: "pyfloat \<Rightarrow> pyfloat \<Rightarrow> pyfloat" where
  "fmin x y = (if fless y x then y else x)"

definition fsum :: "pyfloat list \<Rightarrow> pyfloat" where
  "fsum xs = foldl fadd (Fin 0) xs"

text \<open>\<^verbatim>\<open>round(x, n)\<close>: the exact value is rounded to \<open>n\<close> decimals (ties to even), then to binary64.\<close>

definition fround :: "int \<Rightarrow> pyfloat \<Rightarrow> pyfloat" where
  "fround n x = (case x of Fin a \<Rightarrow> to_f64 (round_at 10 (- n) a) | _ \<Rightarrow> x)"

lemma fround_error:
  assumes "fround n (Fin a) = Fin b"
  shows "\<bar>b - a\<bar> \<le> powb 10 (- n) / 2 + (\<bar>a\<bar> + powb 10 (- n) / 2 + 1) / 2 ^ 53"
proof -
  let ?r = "round_at 10 (- n) a"
  have r: "\<bar>?r - a\<bar> \<le> powb 10 (- n) / 2" by (rule round_at_error) simp
  have "to_f64 ?r = Fin b" using assms by (simp add: fround_def)
  then have "\<bar>b - ?r\<bar> \<le> (\<bar>?r\<bar> + 1) / 2 ^ 53" by (rule to_f64_error)
  also have "\<dots> \<le> (\<bar>a\<bar> + powb 10 (- n) / 2 + 1) / 2 ^ 53"
  proof (rule divide_right_mono)
    show "\<bar>?r\<bar> + 1 \<le> \<bar>a\<bar> + powb 10 (- n) / 2 + 1"
      using r abs_triangle_ineq [of "?r - a" a] by simp
  qed simp
  finally have "\<bar>b - ?r\<bar> \<le> (\<bar>a\<bar> + powb 10 (- n) / 2 + 1) / 2 ^ 53" .
  moreover have "\<bar>b - a\<bar> \<le> \<bar>b - ?r\<bar> + \<bar>?r - a\<bar>" using abs_triangle_ineq [of "b - ?r" "?r - a"] by simp
  ultimately show ?thesis using r by linarith
qed

end
