(* ===== verification/Runtime_Types.thy ===== *)
theory Runtime_Types
  imports Py_Builtins
begin

text \<open>
  The data of the runtime optimizer (\<^verbatim>\<open>src/fluidgateway/runtime.py\<close>): resources, operations,
  decisions, plans and manifests, their conversion to dictionaries, and the parsing of a
  manifest from the JSON value its file holds. Reading the file and \<^verbatim>\<open>json.loads\<close> are not
  modelled: \<open>load_manifest\<close> takes the value and the stem of the file's name.
\<close>

section \<open>Records\<close>

record runtime_resource =
  rs_id :: pystr
  rs_kind :: pystr
  rs_memory :: pystr
  rs_size :: pyfloat
  rs_lifetime :: pystr
  rs_aliases :: "pystr list"

record runtime_operation =
  ro_id :: pystr
  ro_type :: pystr
  ro_source :: "pystr option"
  ro_target :: "pystr option"
  ro_queue :: pystr
  ro_reason :: pystr
  ro_cost :: pyfloat
  ro_size :: pyfloat
  ro_frame :: "int option"
  ro_depends :: "pystr list"

record runtime_decision =
  rd_operation :: pystr
  rd_action :: pystr
  rd_policy :: pystr
  rd_rationale :: pystr
  rd_saved_ms :: pyfloat
  rd_saved_mb :: pyfloat

record runtime_plan =
  rp_mode :: pystr
  rp_manifest :: pystr
  rp_original :: nat
  rp_optimized :: nat
  rp_saved_ms :: pyfloat
  rp_saved_mb :: pyfloat
  rp_kept :: "runtime_operation list"
  rp_decisions :: "runtime_decision list"
  rp_warnings :: "pystr list"

type_synonym resources = "(pystr \<times> runtime_resource) list"

record runtime_manifest =
  rm_name :: pystr
  rm_resources :: resources
  rm_operations :: "runtime_operation list"

section \<open>Dictionaries\<close>

definition opt_str :: "pystr option \<Rightarrow> pyval" where
  "opt_str v = (case v of None \<Rightarrow> PNone | Some s \<Rightarrow> PStr s)"

definition opt_int :: "int option \<Rightarrow> pyval" where
  "opt_int v = (case v of None \<Rightarrow> PNone | Some n \<Rightarrow> PInt n)"

definition str_list :: "pystr list \<Rightarrow> pyval" where
  "str_list xs = PList (map PStr xs)"

definition resource_to_dict :: "runtime_resource \<Rightarrow> pyval" where
  "resource_to_dict r = PDict
    [(lit ''id'', PStr (rs_id r)), (lit ''kind'', PStr (rs_kind r)), (lit ''memory'', PStr (rs_memory r)),
     (lit ''size_mb'', PFloat (rs_size r)), (lit ''lifetime'', PStr (rs_lifetime r)),
     (lit ''aliases'', str_list (rs_aliases r))]"

definition operation_to_dict :: "runtime_operation \<Rightarrow> pyval" where
  "operation_to_dict op = PDict
    [(lit ''id'', PStr (ro_id op)), (lit ''type'', PStr (ro_type op)), (lit ''source'', opt_str (ro_source op)),
     (lit ''target'', opt_str (ro_target op)), (lit ''queue'', PStr (ro_queue op)), (lit ''reason'', PStr (ro_reason op)),
     (lit ''cost_ms'', PFloat (ro_cost op)), (lit ''size_mb'', PFloat (ro_size op)), (lit ''frame'', opt_int (ro_frame op)),
     (lit ''depends_on'', str_list (ro_depends op))]"

definition decision_to_dict :: "runtime_decision \<Rightarrow> pyval" where
  "decision_to_dict d = PDict
    [(lit ''operation_id'', PStr (rd_operation d)), (lit ''action'', PStr (rd_action d)), (lit ''policy'', PStr (rd_policy d)),
     (lit ''rationale'', PStr (rd_rationale d)), (lit ''estimated_saved_ms'', PFloat (rd_saved_ms d)),
     (lit ''estimated_saved_mb'', PFloat (rd_saved_mb d))]"

definition plan_to_dict :: "runtime_plan \<Rightarrow> pyval" where
  "plan_to_dict p = PDict
    [(lit ''mode'', PStr (rp_mode p)), (lit ''manifest_name'', PStr (rp_manifest p)),
     (lit ''original_operations'', PInt (int (rp_original p))), (lit ''optimized_operations'', PInt (int (rp_optimized p))),
     (lit ''estimated_saved_ms'', PFloat (rp_saved_ms p)), (lit ''estimated_saved_mb'', PFloat (rp_saved_mb p)),
     (lit ''kept_operations'', PList (map operation_to_dict (rp_kept p))),
     (lit ''decisions'', PList (map decision_to_dict (rp_decisions p))), (lit ''warnings'', str_list (rp_warnings p))]"

section \<open>Parsing\<close>

definition memory_layer_names :: "pystr list" where
  "memory_layer_names = map lit [''ram'', ''vram'', ''shared'', ''staging'', ''swapchain'', ''display'']"

definition resource_type_names :: "pystr list" where
  "resource_type_names = map lit [''buffer'', ''texture'', ''framebuffer'', ''command'', ''unknown'']"

definition operation_type_names :: "pystr list" where
  "operation_type_names = map lit [''copy'', ''sync'', ''allocate'', ''upload'', ''present'', ''compute'', ''draw'']"

definition value_error :: "pystr \<Rightarrow> 'a res" where
  "value_error msg = Inl (ValueError msg)"

lemma value_error_neq_Inr [simp]: "value_error m \<noteq> Inr x" "ebind (value_error m) f = value_error m"
  by (simp_all add: value_error_def)

lemma if_value_error [simp]: "(if c then value_error m else r) = Inr x \<longleftrightarrow> \<not> c \<and> r = Inr x"
  by simp

definition normalized_choice :: "pyval \<Rightarrow> pystr list \<Rightarrow> string \<Rightarrow> pystr" where
  "normalized_choice v allowed dflt =
    (let s = py_lower (py_strip (py_str (py_or v (PStr (lit dflt)))))
     in if s \<in> set allowed then s else lit dflt)"

definition is_finite :: "pyfloat \<Rightarrow> bool" where
  "is_finite x = (case x of Fin _ \<Rightarrow> True | _ \<Rightarrow> False)"

definition is_bool :: "pyval \<Rightarrow> bool" where
  "is_bool v = (case v of PBool _ \<Rightarrow> True | _ \<Rightarrow> False)"

definition nonnegative_number :: "pyval \<Rightarrow> string \<Rightarrow> pyfloat res" where
  "nonnegative_number v name =
    (if v = PNone then Inr (Fin 0) else
     case py_float v of
       Inl _ \<Rightarrow> value_error (lit name @ lit '' must be a finite nonnegative number.'')
     | Inr r \<Rightarrow> if is_bool v \<or> \<not> is_finite r \<or> fless r (Fin 0)
         then value_error (lit name @ lit '' must be a finite nonnegative number.'') else Inr r)"

definition optional_text_of :: "pyval \<Rightarrow> pystr option" where
  "optional_text_of v = (if v = PNone then None else
     let s = py_strip (py_str v) in if s = [] then None else Some s)"

definition is_transient_reason :: "pystr \<Rightarrow> bool" where
  "is_transient_reason reason =
    (let s = py_lower reason in
     list_ex (\<lambda>t. has_infix (lit t) s) [''transient'', ''scratch'', ''temporary'', ''staging''])"

definition parse_resource :: "pyval \<Rightarrow> runtime_resource res" where
  "parse_resource v = (case v of PDict d \<Rightarrow>
     let rid = py_strip (py_str (py_or (dget d ''id'') (PStr [])));
         kind = normalized_choice (dget d ''kind'') resource_type_names ''unknown'';
         mem = normalized_choice (dget d ''memory'') memory_layer_names ''ram''
     in if rid = [] then value_error (lit ''Resource id is required.'') else
        (case py_or (dget d ''aliases'') (PList []) of PList al \<Rightarrow>
           ebind (nonnegative_number (dget d ''size_mb'') ''size_mb'') (\<lambda>sz.
           Inr \<lparr>rs_id = rid, rs_kind = kind, rs_memory = mem, rs_size = sz,
                rs_lifetime = py_str (py_or (dget d ''lifetime'') (PStr (lit ''unknown''))), rs_aliases = map py_str al\<rparr>)
         | _ \<Rightarrow> value_error (lit ''Resource '' @ rid @ lit '' aliases must be a list.''))
   | _ \<Rightarrow> value_error (lit ''Resource entries must be objects.''))"

definition parse_frame :: "pyval \<Rightarrow> int option res" where
  "parse_frame v = (if v = PNone then Inr None else emap Some (py_int v))"

definition parse_operation :: "pyval \<Rightarrow> runtime_operation res" where
  "parse_operation v = (case v of PDict d \<Rightarrow>
     let oid = py_strip (py_str (py_or (dget d ''id'') (PStr [])))
     in if oid = [] then value_error (lit ''Operation id is required.'') else
        (case py_or (dget d ''depends_on'') (PList []) of PList deps \<Rightarrow>
           ebind (nonnegative_number (dget d ''cost_ms'') ''cost_ms'') (\<lambda>cost.
           ebind (nonnegative_number (dget d ''size_mb'') ''size_mb'') (\<lambda>sz.
           ebind (parse_frame (dget d ''frame'')) (\<lambda>fr.
           Inr \<lparr>ro_id = oid, ro_type = normalized_choice (dget d ''type'') operation_type_names ''compute'',
                ro_source = optional_text_of (dget d ''source''), ro_target = optional_text_of (dget d ''target''),
                ro_queue = py_str (py_or (dget d ''queue'') (PStr (lit ''unknown''))),
                ro_reason = py_str (py_or (dget d ''reason'') (PStr [])),
                ro_cost = cost, ro_size = sz, ro_frame = fr, ro_depends = map py_str deps\<rparr>)))
         | _ \<Rightarrow> value_error (lit ''Operation '' @ oid @ lit '' depends_on must be a list.''))
   | _ \<Rightarrow> value_error (lit ''Operation entries must be objects.''))"

fun add_resources :: "pyval list \<Rightarrow> resources \<Rightarrow> resources res" where
  "add_resources [] res = Inr res"
| "add_resources (v # vs) res = ebind (parse_resource v) (\<lambda>r.
     if rs_id r \<in> fst ` set res then value_error (lit ''Duplicate resource id: '' @ rs_id r)
     else add_resources vs (res @ [(rs_id r, r)]))"

definition load_manifest :: "pyval \<Rightarrow> pystr \<Rightarrow> runtime_manifest res" where
  "load_manifest payload stem = (case payload of PDict d \<Rightarrow>
     (case dget_or d ''resources'' (PList []) of PList rvs \<Rightarrow>
       (case dget_or d ''operations'' (PList []) of PList ovs \<Rightarrow>
          ebind (add_resources rvs []) (\<lambda>res.
          ebind (etraverse parse_operation ovs) (\<lambda>ops.
          Inr \<lparr>rm_name = py_str (py_or (dget d ''name'') (PStr stem)), rm_resources = res, rm_operations = ops\<rparr>))
        | _ \<Rightarrow> value_error (lit ''Runtime manifest field 'operations' must be a list.''))
      | _ \<Rightarrow> value_error (lit ''Runtime manifest field 'resources' must be a list.''))
   | _ \<Rightarrow> value_error (lit ''Runtime manifest must be a JSON object.''))"

definition warn_unknown :: "resources \<Rightarrow> runtime_operation \<Rightarrow> pystr list" where
  "warn_unknown res op = concat (map (\<lambda>(role, rid). case rid of None \<Rightarrow> []
       | Some r \<Rightarrow> if r \<noteq> [] \<and> r \<notin> fst ` set res
           then [lit ''Operation '' @ ro_id op @ lit '' references unknown '' @ lit role @ lit '' resource '' @ r @ lit ''.''] else [])
     [(''source'', ro_source op), (''target'', ro_target op)])"

definition validate_manifest :: "runtime_manifest \<Rightarrow> pystr list" where
  "validate_manifest m = concat (map (warn_unknown (rm_resources m)) (rm_operations m))
     @ (if rm_operations m = [] then [lit ''Manifest contains no operations.''] else [])"

section \<open>What parsing yields\<close>

lemma dropWhile_rev_fix: "s = [] \<or> \<not> P (last s) \<Longrightarrow> rev (dropWhile P (rev s)) = s"
  by (cases s rule: rev_cases) auto

lemma py_strip_fix:
  assumes "s = [] \<or> \<not> is_space (List.hd s) \<and> \<not> is_space (last s)"
  shows "py_strip s = s"
proof -
  have "dropWhile is_space s = s" using assms by (cases s) auto
  moreover have "rev (dropWhile is_space (rev s)) = s" by (rule dropWhile_rev_fix) (use assms in blast)
  ultimately show ?thesis by (simp only: py_strip_def)
qed

lemma py_strip_idem [simp]: "py_strip (py_strip s) = py_strip s"
proof (cases "py_strip s = []")
  case False
  let ?a = "dropWhile is_space s"
  have ne: "dropWhile is_space (rev ?a) \<noteq> []" using False by (simp add: py_strip_def)
  have last: "\<not> is_space (last (py_strip s))"
    using hd_dropWhile [of is_space "rev ?a"] ne by (simp add: py_strip_def last_rev)
  have "?a \<noteq> []" using ne by (metis dropWhile.simps(1) rev.simps(1))
  then have ha: "\<not> is_space (List.hd ?a)" by (rule hd_dropWhile)
  have "?a = py_strip s @ rev (takeWhile is_space (rev ?a))"
    by (metis py_strip_def rev_append rev_rev_ident takeWhile_dropWhile_id)
  then have "List.hd ?a = List.hd (py_strip s)" using False by (metis hd_append2)
  then show ?thesis using ha last by (simp add: py_strip_fix)
next
  case True
  then show ?thesis by (metis py_strip_def dropWhile.simps(1) rev.simps(1))
qed

lemma show_int_nonempty [simp]: "show_int n \<noteq> []"
proof -
  have "digits_of 10 k \<noteq> []" for k by (subst digits_of.simps) simp
  then show ?thesis by (simp add: show_int_def show_base_def)
qed

lemma lit_nonempty [simp]: "lit s = [] \<longleftrightarrow> s = []"
  by (simp add: lit_def)

lemma float_text_nonempty [simp]: "float_text x \<noteq> []"
  by (simp add: float_text_def Let_def)

lemma show_float_nonempty [simp]: "show_float x \<noteq> []"
  by (cases x) (simp_all add: show_float_def)

lemma py_str_nonempty: "truthy v \<Longrightarrow> py_str v \<noteq> []"
  by (cases v) (simp_all add: py_str_def truthy_def)

lemma py_or_str_nonempty: "s \<noteq> [] \<Longrightarrow> py_str (py_or v (PStr s)) \<noteq> []"
  by (simp add: py_or_def py_str_nonempty)

definition number_ok :: "pyfloat \<Rightarrow> bool" where
  "number_ok x \<longleftrightarrow> is_finite x \<and> \<not> fless x (Fin 0)"

definition name_ok :: "pystr \<Rightarrow> bool" where
  "name_ok s \<longleftrightarrow> s \<noteq> [] \<and> py_strip s = s"

definition resource_ok :: "runtime_resource \<Rightarrow> bool" where
  "resource_ok r \<longleftrightarrow> name_ok (rs_id r) \<and> rs_kind r \<in> set resource_type_names \<and> rs_memory r \<in> set memory_layer_names
     \<and> number_ok (rs_size r) \<and> rs_lifetime r \<noteq> []"

definition operation_ok :: "runtime_operation \<Rightarrow> bool" where
  "operation_ok op \<longleftrightarrow> name_ok (ro_id op) \<and> ro_type op \<in> set operation_type_names
     \<and> (\<forall>s \<in> set_option (ro_source op). name_ok s) \<and> (\<forall>t \<in> set_option (ro_target op). name_ok t)
     \<and> ro_queue op \<noteq> [] \<and> number_ok (ro_cost op) \<and> number_ok (ro_size op)"

definition resources_ok :: "resources \<Rightarrow> bool" where
  "resources_ok res \<longleftrightarrow> distinct (map fst res) \<and> (\<forall>(k, r) \<in> set res. rs_id r = k)"

definition manifest_ok :: "runtime_manifest \<Rightarrow> bool" where
  "manifest_ok m \<longleftrightarrow> resources_ok (rm_resources m) \<and> (\<forall>(k, r) \<in> set (rm_resources m). resource_ok r)
     \<and> (\<forall>op \<in> set (rm_operations m). operation_ok op)"

lemma nonnegative_number_ok: "nonnegative_number v n = Inr x \<Longrightarrow> number_ok x"
  by (auto simp: nonnegative_number_def number_ok_def is_finite_def split: if_splits sum.splits)

lemma nonnegative_number_float: "number_ok x \<Longrightarrow> nonnegative_number (PFloat x) n = Inr x"
  by (simp add: nonnegative_number_def number_ok_def is_bool_def py_float_def)

lemma normalized_choice_mem: "lit dflt \<in> set allowed \<Longrightarrow> normalized_choice v allowed dflt \<in> set allowed"
  by (simp add: normalized_choice_def Let_def)

lemma default_names:
  "lit ''unknown'' \<in> set resource_type_names" "lit ''ram'' \<in> set memory_layer_names"
  "lit ''compute'' \<in> set operation_type_names"
  by (simp_all add: resource_type_names_def memory_layer_names_def operation_type_names_def)

lemma choice_names_lowercase:
  "\<forall>s \<in> set (resource_type_names @ memory_layer_names @ operation_type_names).
     s \<noteq> [] \<and> py_lower (py_strip s) = s"
  by code_simp

lemma normalized_choice_fix:
  assumes "s \<in> set resource_type_names \<or> s \<in> set memory_layer_names \<or> s \<in> set operation_type_names"
    and "s \<in> set allowed"
  shows "normalized_choice (PStr s) allowed dflt = s"
  using assms choice_names_lowercase by (auto simp: normalized_choice_def py_or_def truthy_def Let_def)

lemma optional_text_of_ok: "optional_text_of v = Some s \<Longrightarrow> name_ok s"
  by (auto simp: optional_text_of_def name_ok_def Let_def split: if_splits)

lemma optional_text_of_fix: "\<forall>s \<in> set_option x. name_ok s \<Longrightarrow> optional_text_of (opt_str x) = x"
  by (auto simp: optional_text_of_def opt_str_def name_ok_def Let_def split: option.splits)


lemma parse_resource_ok:
  assumes "parse_resource v = Inr r"
  shows "resource_ok r"
proof -
  from assms obtain d al where v: "v = PDict d" and al: "py_or (dget d ''aliases'') (PList []) = PList al"
    by (auto simp: parse_resource_def Let_def split: pyval.splits if_splits)
  let ?id = "py_strip (py_str (py_or (dget d ''id'') (PStr [])))"
  from assms v al obtain sz where id: "?id \<noteq> []" and sz: "nonnegative_number (dget d ''size_mb'') ''size_mb'' = Inr sz"
    and r: "r = \<lparr>rs_id = ?id, rs_kind = normalized_choice (dget d ''kind'') resource_type_names ''unknown'',
      rs_memory = normalized_choice (dget d ''memory'') memory_layer_names ''ram'', rs_size = sz,
      rs_lifetime = py_str (py_or (dget d ''lifetime'') (PStr (lit ''unknown''))), rs_aliases = map py_str al\<rparr>"
    by (auto simp: parse_resource_def Let_def ebind_eq_Inr split: if_splits)
  show ?thesis using id nonnegative_number_ok [OF sz]
    by (simp add: r resource_ok_def name_ok_def normalized_choice_mem default_names py_or_str_nonempty lit_nonempty)
qed


lemma parse_operation_ok:
  assumes "parse_operation v = Inr op"
  shows "operation_ok op"
proof -
  from assms obtain d deps where v: "v = PDict d" and deps: "py_or (dget d ''depends_on'') (PList []) = PList deps"
    by (auto simp: parse_operation_def Let_def split: pyval.splits if_splits)
  let ?id = "py_strip (py_str (py_or (dget d ''id'') (PStr [])))"
  from assms v deps obtain cost sz fr where id: "?id \<noteq> []"
    and cost: "nonnegative_number (dget d ''cost_ms'') ''cost_ms'' = Inr cost"
    and sz: "nonnegative_number (dget d ''size_mb'') ''size_mb'' = Inr sz"
    and op: "op = \<lparr>ro_id = ?id, ro_type = normalized_choice (dget d ''type'') operation_type_names ''compute'',
      ro_source = optional_text_of (dget d ''source''), ro_target = optional_text_of (dget d ''target''),
      ro_queue = py_str (py_or (dget d ''queue'') (PStr (lit ''unknown''))),
      ro_reason = py_str (py_or (dget d ''reason'') (PStr [])),
      ro_cost = cost, ro_size = sz, ro_frame = fr, ro_depends = map py_str deps\<rparr>"
    by (auto simp: parse_operation_def Let_def ebind_eq_Inr split: if_splits)
  show ?thesis using id nonnegative_number_ok [OF sz] nonnegative_number_ok [OF cost]
    by (auto simp: op operation_ok_def name_ok_def normalized_choice_mem default_names py_or_str_nonempty
        dest: optional_text_of_ok [unfolded name_ok_def])
qed

lemma py_str_comp_PStr [simp]: "py_str \<circ> PStr = (\<lambda>s. s)"
  by (simp add: fun_eq_iff)

lemma py_or_PStr: "s \<noteq> [] \<Longrightarrow> py_or (PStr s) v = PStr s"
  by (simp add: py_or_def truthy_def)

lemma py_or_str_list: "\<exists>vs. py_or (str_list xs) (PList []) = PList vs \<and> map py_str vs = xs"
  by (cases xs) (simp_all add: py_or_def truthy_def str_list_def)

lemma parse_resource_to_dict:
  assumes "resource_ok r"
  shows "parse_resource (resource_to_dict r) = Inr r"
proof -
  obtain vs where "py_or (str_list (rs_aliases r)) (PList []) = PList vs" "map py_str vs = rs_aliases r"
    using py_or_str_list by blast
  with assms show ?thesis
    by (simp add: parse_resource_def resource_to_dict_def resource_ok_def name_ok_def py_or_PStr
        normalized_choice_fix nonnegative_number_float)
qed

lemma parse_frame_opt_int [simp]: "parse_frame (opt_int x) = Inr x"
  by (cases x) (simp_all add: parse_frame_def opt_int_def py_int_def)

lemma py_or_PStr_default: "py_str (py_or (PStr s) (PStr [])) = s"
  by (simp add: py_or_def truthy_def)

lemma parse_operation_to_dict:
  assumes "operation_ok op"
  shows "parse_operation (operation_to_dict op) = Inr op"
proof -
  obtain vs where "py_or (str_list (ro_depends op)) (PList []) = PList vs" "map py_str vs = ro_depends op"
    using py_or_str_list by blast
  with assms show ?thesis
    by (simp add: parse_operation_def operation_to_dict_def operation_ok_def name_ok_def py_or_PStr py_or_PStr_default
        normalized_choice_fix nonnegative_number_float optional_text_of_fix)
qed

lemma add_resources_ok:
  assumes "add_resources vs res = Inr res'" and "resources_ok res" and "\<forall>(k, r) \<in> set res. resource_ok r"
  shows "resources_ok res' \<and> (\<forall>(k, r) \<in> set res'. resource_ok r)"
  using assms
proof (induction vs res rule: add_resources.induct)
  case (2 v vs res)
  from 2(2) obtain r where r: "parse_resource v = Inr r" "rs_id r \<notin> fst ` set res"
    and rec: "add_resources vs (res @ [(rs_id r, r)]) = Inr res'"
    by (auto simp: ebind_eq_Inr)
  show ?case
    by (rule 2(1)[OF r(1) r(2) rec]) (use 2(3,4) r parse_resource_ok [OF r(1)] in \<open>auto simp: resources_ok_def\<close>)
qed simp

lemma load_manifest_fields:
  assumes "load_manifest v stem = Inr m"
  obtains rvs ovs where "add_resources rvs [] = Inr (rm_resources m)"
    and "etraverse parse_operation ovs = Inr (rm_operations m)"
  using assms by (auto simp: load_manifest_def ebind_eq_Inr split: pyval.splits)

lemma load_manifest_ok:
  assumes "load_manifest v stem = Inr m"
  shows "manifest_ok m"
proof -
  from assms obtain rvs ovs where res: "add_resources rvs [] = Inr (rm_resources m)"
    and ops: "etraverse parse_operation ovs = Inr (rm_operations m)"
    by (rule load_manifest_fields)
  have "resources_ok (rm_resources m) \<and> (\<forall>(k, r) \<in> set (rm_resources m). resource_ok r)"
    by (rule add_resources_ok [OF res]) (simp_all add: resources_ok_def)
  moreover have "operation_ok op" if "op \<in> set (rm_operations m)" for op
    using ops that by (auto simp: etraverse_eq_Inr list_all2_conv_all_nth in_set_conv_nth intro: parse_operation_ok)
  ultimately show ?thesis by (simp add: manifest_ok_def)
qed

lemma add_resources_to_dict:
  assumes "\<forall>r \<in> set rs. resource_ok r" and "distinct (map fst res @ map rs_id rs)"
  shows "add_resources (map resource_to_dict rs) res = Inr (res @ map (\<lambda>r. (rs_id r, r)) rs)"
  using assms
proof (induction rs arbitrary: res)
  case (Cons r rs)
  then show ?case by (simp add: parse_resource_to_dict)
qed simp

lemma resources_ok_map: "resources_ok res \<Longrightarrow> map (\<lambda>r. (rs_id r, r)) (map snd res) = res"
  by (induction res) (auto simp: resources_ok_def)

text \<open>The dictionary form of a whole manifest.\<close>

definition manifest_dict :: "runtime_manifest \<Rightarrow> pyval" where
  "manifest_dict m = PDict [(lit ''name'', PStr (rm_name m)),
     (lit ''resources'', PList (map (resource_to_dict \<circ> snd) (rm_resources m))),
     (lit ''operations'', PList (map operation_to_dict (rm_operations m)))]"

lemma reload_manifest:
  assumes ok: "manifest_ok m" and name: "rm_name m \<noteq> []"
  shows "load_manifest (manifest_dict m) stem = Inr m"
proof -
  have ids: "map rs_id (map snd (rm_resources m)) = map fst (rm_resources m)"
    using ok by (auto simp: manifest_ok_def resources_ok_def)
  have rs: "\<forall>r \<in> set (map snd (rm_resources m)). resource_ok r"
    using ok by (auto simp: manifest_ok_def)
  have d: "distinct (map fst [] @ map rs_id (map snd (rm_resources m)))"
    using ok by (simp add: ids manifest_ok_def resources_ok_def del: map_map)
  have "add_resources (map (resource_to_dict \<circ> snd) (rm_resources m)) [] = Inr (rm_resources m)"
    using add_resources_to_dict [OF rs d] resources_ok_map [of "rm_resources m"] ok by (simp add: manifest_ok_def)
  moreover have "etraverse parse_operation (map operation_to_dict (rm_operations m)) = Inr (rm_operations m)"
    using ok by (auto simp: etraverse_eq_Inr list_all2_conv_all_nth manifest_ok_def parse_operation_to_dict)
  ultimately show ?thesis using name
    by (simp add: load_manifest_def manifest_dict_def dget_or_dget py_or_PStr)
qed


section \<open>Property\<close>

text \<open>C23: Every manifest that loads is well formed (distinct stripped ids, known types and memory layers, finite
  non-negative sizes and costs), and loading its dictionary form gives it back.\<close>

theorem manifest_reload:
  assumes "load_manifest v stem = Inr m" and "stem \<noteq> []"
  shows "manifest_ok m \<and> load_manifest (manifest_dict m) stem' = Inr m"
proof -
  have "rm_name m \<noteq> []"
    using assms by (auto simp: load_manifest_def ebind_eq_Inr py_or_str_nonempty split: pyval.splits)
  then show ?thesis using load_manifest_ok [OF assms(1)] by (simp add: reload_manifest)
qed

definition demo_manifest_value :: pyval where
  "demo_manifest_value = PDict
    [(lit ''resources'', PList [PDict [(lit ''id'', PStr (lit '' a '')), (lit ''memory'', PStr (lit ''VRAM'')), (lit ''size_mb'', PInt 8)],
       PDict [(lit ''id'', PInt 7), (lit ''aliases'', PList [PStr (lit ''x''), PBool True])]]),
     (lit ''operations'', PList [PDict [(lit ''id'', PStr (lit ''o1'')), (lit ''type'', PStr (lit ''Copy '')), (lit ''source'', PStr (lit ''a'')),
       (lit ''target'', PStr (lit ''7'')), (lit ''cost_ms'', PStr (lit ''0.5'')), (lit ''frame'', PStr (lit ''3''))]])]"

definition demo_manifest :: runtime_manifest where
  "demo_manifest = \<lparr>rm_name = lit ''demo'',
     rm_resources =
       [(lit ''a'', \<lparr>rs_id = lit ''a'', rs_kind = lit ''unknown'', rs_memory = lit ''vram'', rs_size = Fin 8,
          rs_lifetime = lit ''unknown'', rs_aliases = []\<rparr>),
        (lit ''7'', \<lparr>rs_id = lit ''7'', rs_kind = lit ''unknown'', rs_memory = lit ''ram'', rs_size = Fin 0,
          rs_lifetime = lit ''unknown'', rs_aliases = [lit ''x'', lit ''True'']\<rparr>)],
     rm_operations =
       [\<lparr>ro_id = lit ''o1'', ro_type = lit ''copy'', ro_source = Some (lit ''a''), ro_target = Some (lit ''7''),
          ro_queue = lit ''unknown'', ro_reason = [], ro_cost = Fin (1 / 2), ro_size = Fin 0, ro_frame = Some 3, ro_depends = []\<rparr>]\<rparr>"

lemma demo_manifest_loads: "load_manifest demo_manifest_value (lit ''demo'') = Inr demo_manifest"
  by code_simp

theorem manifest_reload_witness:
  "manifest_ok demo_manifest \<and> load_manifest (manifest_dict demo_manifest) [] = Inr demo_manifest"
  by (rule manifest_reload [OF demo_manifest_loads]) simp

end
