(* ===== verification/Runtime_State.thy ===== *)
theory Runtime_State
  imports Runtime_Types
begin

text \<open>
  The optimizer's state and its steps (\<^verbatim>\<open>RuntimeOptimizationState\<close> and \<^verbatim>\<open>decide_operation\<close> of
  \<^verbatim>\<open>src/fluidgateway/runtime.py\<close>). Dictionaries are association lists in insertion order. Sizes
  are finite (parsing rejects the rest), so a size is equal to another exactly when the floats are.
\<close>

section \<open>State\<close>

record opt_state =
  os_resources :: resources
  os_last_copy :: "(pystr \<times> runtime_operation) list"
  os_buffers :: "((pystr option \<times> pyfloat) \<times> runtime_operation) list"
  os_replacements :: "(pystr \<times> pystr list) list"
  os_removed :: "pystr set"
  os_ids :: "pystr set"

definition new_opt_state :: "resources \<Rightarrow> opt_state" where
  "new_opt_state res = \<lparr>os_resources = res, os_last_copy = [], os_buffers = [], os_replacements = [],
     os_removed = {}, os_ids = {}\<rparr>"

text \<open>Membership of an optional id in a dictionary: \<^verbatim>\<open>None\<close> is no key.\<close>

definition known :: "resources \<Rightarrow> pystr option \<Rightarrow> bool" where
  "known res rid = (case rid of None \<Rightarrow> False | Some r \<Rightarrow> r \<in> fst ` set res)"

definition lookup_opt :: "(pystr \<times> 'a) list \<Rightarrow> pystr option \<Rightarrow> 'a option" where
  "lookup_opt m rid = (case rid of None \<Rightarrow> None | Some r \<Rightarrow> map_of m r)"

definition shares_alias :: "runtime_resource \<Rightarrow> runtime_resource \<Rightarrow> bool" where
  "shares_alias r q \<longleftrightarrow> rs_memory q = rs_memory r \<and> list_ex (\<lambda>a. a \<in> set (rs_aliases r)) (rs_aliases q)"

definition ordered_nub :: "pystr list \<Rightarrow> pystr list" where
  "ordered_nub xs = rev (remdups (rev xs))"

section \<open>Invalidation\<close>

text \<open>
  One turn of the \<^verbatim>\<open>for\<close> loop adds the views of the popped resource that are new; the pending ids
  are a stack with its top first.
\<close>

fun add_views :: "runtime_resource \<Rightarrow> runtime_resource list \<Rightarrow> pystr set \<times> pystr list \<Rightarrow> pystr set \<times> pystr list" where
  "add_views r [] ap = ap"
| "add_views r (q # qs) (affected, pending) = add_views r qs
     (if rs_id q \<notin> affected \<and> shares_alias r q then (insert (rs_id q) affected, rs_id q # pending)
      else (affected, pending))"

definition unvisited :: "resources \<Rightarrow> pystr set \<Rightarrow> nat" where
  "unvisited res affected = card (rs_id ` snd ` set res - affected)"

lemma add_views_mono: "add_views r qs (a, p) = (a', p') \<Longrightarrow> a \<subseteq> a'"
proof (induction qs arbitrary: a p)
  case (Cons q qs)
  then show ?case by (cases "rs_id q \<notin> a \<and> shares_alias r q") auto
qed simp

lemma add_views_measure:
  assumes "add_views r qs (a, p) = (a', p')" and "set qs \<subseteq> snd ` set res"
  shows "2 * unvisited res a' + length p' \<le> 2 * unvisited res a + length p"
  using assms
proof (induction qs arbitrary: a p)
  case (Cons q qs)
  show ?case
  proof (cases "rs_id q \<notin> a \<and> shares_alias r q")
    case True
    have "rs_id q \<in> rs_id ` snd ` set res - a" using Cons.prems True by auto
    then have "card (rs_id ` snd ` set res - a) = Suc (card (rs_id ` snd ` set res - a - {rs_id q}))"
      by (intro card.remove [symmetric, THEN sym]) simp_all
    moreover have "rs_id ` snd ` set res - insert (rs_id q) a = rs_id ` snd ` set res - a - {rs_id q}" by blast
    ultimately have "unvisited res a = Suc (unvisited res (insert (rs_id q) a))"
      by (simp add: unvisited_def)
    then show ?thesis using Cons.IH [of "insert (rs_id q) a" "rs_id q # p"] Cons.prems True by simp
  next
    case False
    then show ?thesis using Cons by (auto split: if_splits)
  qed
qed simp

text \<open>None where the loop meets an unknown resource.\<close>

function affected_ids :: "resources \<Rightarrow> pystr set \<Rightarrow> pystr list \<Rightarrow> pystr set option" where
  "affected_ids res affected [] = Some affected"
| "affected_ids res affected (p # pending) =
     (case map_of res p of
        None \<Rightarrow> None
      | Some r \<Rightarrow> (case add_views r (map snd res) (affected, pending) of
          (affected', pending') \<Rightarrow> affected_ids res affected' pending'))"
  by pat_completeness auto
termination
proof (relation "measure (\<lambda>(res, affected, pending). 2 * unvisited res affected + length pending)")
  fix res :: resources and affected p pending r affected' pending'
  assume "map_of res p = Some r" and eq: "(affected', pending') = add_views r (map snd res) (affected, pending)"
  have "2 * unvisited res affected' + length pending' \<le> 2 * unvisited res affected + length pending"
    by (rule add_views_measure [of r "map snd res"]) (use eq in auto)
  then show "((res, affected', pending'), (res, affected, p # pending))
      \<in> measure (\<lambda>(res, affected, pending). 2 * unvisited res affected + length pending)" by simp
qed simp

definition invalidate_resource :: "pystr option \<Rightarrow> opt_state \<Rightarrow> opt_state" where
  "invalidate_resource rid st =
    (case (case rid of None \<Rightarrow> None | Some r \<Rightarrow> affected_ids (os_resources st) {r} [r]) of
       None \<Rightarrow> st\<lparr>os_last_copy := []\<rparr>
     | Some affected \<Rightarrow> st\<lparr>os_last_copy := filter (\<lambda>(target, prev).
         \<not> (target \<in> affected \<or> (case ro_source prev of None \<Rightarrow> False | Some s \<Rightarrow> s \<in> affected))) (os_last_copy st)\<rparr>)"

definition release_resource :: "pystr \<Rightarrow> opt_state \<Rightarrow> runtime_resource option \<times> opt_state" where
  "release_resource rid st =
    (let st1 = invalidate_resource (Some rid) st;
         st2 = st1\<lparr>os_buffers := filter (\<lambda>((t, _), _). t \<noteq> Some rid) (os_buffers st1)\<rparr>
     in (map_of (os_resources st2) rid, st2\<lparr>os_resources := filter (\<lambda>(k, _). k \<noteq> rid) (os_resources st2)\<rparr>))"

text \<open>Two resources are linked when their keys carry views of the same data in the same memory layer.\<close>

definition alias_rel :: "resources \<Rightarrow> (pystr \<times> pystr) set" where
  "alias_rel res = {(a, b). \<exists>ra rb. map_of res a = Some ra \<and> map_of res b = Some rb \<and> shares_alias ra rb}"

lemma shares_alias_sym: "shares_alias r q \<longleftrightarrow> shares_alias q r"
  by (auto simp: shares_alias_def list_ex_iff)

lemma alias_rel_sym: "sym (alias_rel res)"
  using shares_alias_sym by (fastforce simp: alias_rel_def sym_def)

lemma resources_ok_map_of: "resources_ok res \<Longrightarrow> map_of res k = Some r \<longleftrightarrow> (k, r) \<in> set res"
  by (simp add: resources_ok_def)

lemma resources_ok_id: "resources_ok res \<Longrightarrow> map_of res k = Some r \<Longrightarrow> rs_id r = k"
  by (auto simp: resources_ok_def dest: map_of_SomeD)

lemma alias_rel_Image:
  assumes "resources_ok res" and "map_of res p = Some r"
  shows "alias_rel res `` {p} = {rs_id q |q. q \<in> snd ` set res \<and> shares_alias r q}"
proof (intro equalityI subsetI)
  fix x assume "x \<in> alias_rel res `` {p}"
  then obtain q where q: "map_of res x = Some q" "shares_alias r q" using assms(2) by (auto simp: alias_rel_def)
  moreover have "rs_id q = x" using q(1) assms(1) by (simp add: resources_ok_id)
  moreover have "q \<in> snd ` set res" using map_of_SomeD [OF q(1)] by (rule rev_image_eqI) simp
  ultimately show "x \<in> {rs_id q |q. q \<in> snd ` set res \<and> shares_alias r q}" by auto
next
  fix x assume "x \<in> {rs_id q |q. q \<in> snd ` set res \<and> shares_alias r q}"
  then obtain k q where "(k, q) \<in> set res" "shares_alias r q" "x = rs_id q" by auto
  moreover have "map_of res k = Some q" using calculation(1) assms(1) by (simp add: resources_ok_map_of)
  moreover have "rs_id q = k" using calculation(4) assms(1) by (rule resources_ok_id [rotated])
  ultimately show "x \<in> alias_rel res `` {p}" using assms(2) by (auto simp: alias_rel_def)
qed

lemma alias_rel_dom:
  assumes "(a, b) \<in> alias_rel res"
  shows "a \<in> fst ` set res" and "b \<in> fst ` set res"
  using assms by (auto simp: alias_rel_def intro: rev_image_eqI dest!: map_of_SomeD)

lemma add_views_result:
  assumes "add_views r qs (a, p) = (a', p')"
  shows "a' = a \<union> {rs_id q |q. q \<in> set qs \<and> shares_alias r q} \<and> set p' = set p \<union> (a' - a)"
  using assms
proof (induction qs arbitrary: a p)
  case (Cons q qs)
  show ?case
  proof (cases "rs_id q \<notin> a \<and> shares_alias r q")
    case True
    have "add_views r qs (insert (rs_id q) a, rs_id q # p) = (a', p')" using Cons.prems True by simp
    from Cons.IH [OF this] show ?thesis using True by auto
  next
    case False
    have "add_views r qs (a, p) = (a', p')" using Cons.prems False by auto
    from Cons.IH [OF this] show ?thesis using False by auto
  qed
qed simp

lemma affected_ids_reach:
  assumes "resources_ok res" and "set pending \<subseteq> affected" and "set pending \<subseteq> fst ` set res"
    and "\<forall>x \<in> affected - set pending. alias_rel res `` {x} \<subseteq> affected"
  shows "affected_ids res affected pending = Some ((alias_rel res)\<^sup>* `` affected)"
  using assms
proof (induction res affected pending rule: affected_ids.induct)
  case (1 res affected)
  then have "alias_rel res `` affected \<subseteq> affected" by auto
  then show ?case by (simp add: Image_closed_trancl)
next
  case (2 res affected p pending)
  from 2(4) obtain r where r: "map_of res p = Some r"
    by (auto simp: image_iff) (metis map_of_SomeD not_Some_eq weak_map_of_SomeI prod.collapse)
  obtain a' p' where av: "add_views r (map snd res) (affected, pending) = (a', p')" by force
  have res: "a' = affected \<union> alias_rel res `` {p}" "set p' = set pending \<union> (a' - affected)"
    using add_views_result [OF av] by (simp_all add: alias_rel_Image [OF 2(2) r])
  have "affected_ids res a' p' = Some ((alias_rel res)\<^sup>* `` a')"
  proof (rule 2(1) [OF r av [symmetric]])
    show "set p' \<subseteq> a'" using res 2(3) by auto
    show "set p' \<subseteq> fst ` set res"
      using res 2(4) alias_rel_dom(2) by auto
    show "\<forall>x \<in> a' - set p'. alias_rel res `` {x} \<subseteq> a'"
      using res 2(5) by auto
  qed (rule 2(2))
  moreover have "(alias_rel res)\<^sup>* `` a' = (alias_rel res)\<^sup>* `` affected"
    using res 2(3) by (auto intro: converse_rtrancl_into_rtrancl)
  ultimately show ?case using r av by simp
qed

definition alias_class :: "resources \<Rightarrow> pystr \<Rightarrow> pystr set" where
  "alias_class res r = (alias_rel res)\<^sup>* `` {r}"

lemma affected_ids_class:
  assumes "resources_ok res"
  shows "affected_ids res {r} [r] = (if r \<in> fst ` set res then Some (alias_class res r) else None)"
proof (cases "r \<in> fst ` set res")
  case True
  then show ?thesis using affected_ids_reach [OF assms, of "[r]" "{r}"] by (simp add: alias_class_def)
next
  case False
  then have "map_of res r = None" by (simp add: map_of_eq_None_iff)
  then show ?thesis using False by simp
qed

lemma invalidate_fields [simp]:
  "os_resources (invalidate_resource rid st) = os_resources st" "os_buffers (invalidate_resource rid st) = os_buffers st"
  "os_replacements (invalidate_resource rid st) = os_replacements st" "os_removed (invalidate_resource rid st) = os_removed st"
  "os_ids (invalidate_resource rid st) = os_ids st"
  by (simp_all add: invalidate_resource_def split: option.split)

definition touches :: "pystr set \<Rightarrow> pystr \<times> runtime_operation \<Rightarrow> bool" where
  "touches c = (\<lambda>(t, prev). t \<in> c \<or> (\<exists>s. ro_source prev = Some s \<and> s \<in> c))"

lemma invalidate_last_copy:
  assumes "resources_ok (os_resources st)"
  shows "os_last_copy (invalidate_resource rid st) =
    (case rid of None \<Rightarrow> [] | Some r \<Rightarrow> if r \<in> fst ` set (os_resources st)
       then filter (\<lambda>e. \<not> touches (alias_class (os_resources st) r) e) (os_last_copy st) else [])"
proof -
  have "(\<lambda>(target, prev). \<not> (target \<in> c \<or> (case ro_source prev of None \<Rightarrow> False | Some s \<Rightarrow> s \<in> c)))
      = (\<lambda>e. \<not> touches c e)" for c
    by (auto simp: touches_def fun_eq_iff split: option.splits)
  then show ?thesis
    by (simp add: invalidate_resource_def affected_ids_class [OF assms] del: affected_ids.simps split: option.split)
qed

section \<open>Decisions\<close>

definition make_decision :: "runtime_operation \<Rightarrow> string \<Rightarrow> string \<Rightarrow> string \<Rightarrow> pyfloat \<Rightarrow> pyfloat \<Rightarrow> runtime_decision" where
  "make_decision op action policy rationale ms mb =
    \<lparr>rd_operation = ro_id op, rd_action = lit action, rd_policy = lit policy, rd_rationale = lit rationale,
     rd_saved_ms = ms, rd_saved_mb = mb\<rparr>"

definition is_transfer :: "runtime_operation \<Rightarrow> bool" where
  "is_transfer op \<longleftrightarrow> ro_type op \<in> {lit ''copy'', lit ''upload''}"

text \<open>The part of \<open>decide_operation\<close> for transfers between known resources.\<close>

definition decide_transfer :: "runtime_operation \<Rightarrow> resources \<Rightarrow> (pystr \<times> runtime_operation) list \<Rightarrow> runtime_decision option" where
  "decide_transfer op res last_copy =
    (if ro_source op = ro_target op
     then Some (make_decision op ''remove'' ''eliminate-self-copy''
       ''Source and target are the same resource; the transfer does no useful movement.'' (ro_cost op) (ro_size op))
     else if (case (lookup_opt res (ro_target op), lookup_opt res (ro_source op)) of
         (Some t, Some s) \<Rightarrow> shares_alias s t | _ \<Rightarrow> False)
     then Some (make_decision op ''remove'' ''collapse-aliased-resource-copy''
       ''Source and target alias the same data in the same memory layer.'' (ro_cost op) (ro_size op))
     else (case lookup_opt last_copy (ro_target op) of
         None \<Rightarrow> None
       | Some prev \<Rightarrow>
           if ro_source prev = ro_source op \<and> ro_size prev = ro_size op \<and> ro_frame prev = ro_frame op \<and> ro_queue prev = ro_queue op
           then Some (make_decision op ''remove'' ''deduplicate-identical-transfer''
             ''Previous transfer already populated the same target from the same source.'' (ro_cost op) (ro_size op))
           else None))"

definition decide_operation :: "runtime_operation \<Rightarrow> resources \<Rightarrow> (pystr \<times> runtime_operation) list
    \<Rightarrow> ((pystr option \<times> pyfloat) \<times> runtime_operation) list \<Rightarrow> pystr set \<Rightarrow> runtime_decision option" where
  "decide_operation op res last_copy buffers removed =
    (if is_transfer op
     then (if \<not> known res (ro_source op) \<or> \<not> known res (ro_target op) then None else decide_transfer op res last_copy)
     else if ro_type op = lit ''sync'' then
       (if ro_depends op \<noteq> [] \<and> list_all (\<lambda>d. d \<in> removed) (ro_depends op)
        then Some (make_decision op ''remove'' ''remove-orphan-sync''
          ''Synchronization only waits on operations already removed by earlier policies.'' (ro_cost op) (Fin 0))
        else if fle (ro_cost op) (Fin 0) \<and> ro_depends op = []
        then Some (make_decision op ''remove'' ''remove-empty-sync''
          ''Synchronization has no dependency and no measured cost.'' (Fin 0) (Fin 0))
        else None)
     else if ro_type op = lit ''allocate'' then
       (case map_of buffers (ro_target op, ro_size op) of
          None \<Rightarrow> None
        | Some prev \<Rightarrow> if ro_frame prev = ro_frame op \<and> is_transient_reason (ro_reason op)
            then Some (make_decision op ''reuse'' ''reuse-transient-buffer''
              ''A transient buffer with the same target and size is already available for reuse.'' (ro_cost op) (ro_size op))
            else None)
     else None)"

section \<open>One operation\<close>

definition resolve_dependencies :: "(pystr \<times> pystr list) list \<Rightarrow> pystr list \<Rightarrow> pystr list" where
  "resolve_dependencies repl deps =
    ordered_nub (concat (map (\<lambda>d. case map_of repl d of None \<Rightarrow> [d] | Some rs \<Rightarrow> rs) deps))"

definition retained_operation :: "opt_state \<Rightarrow> runtime_operation \<Rightarrow> runtime_decision \<Rightarrow> runtime_operation option" where
  "retained_operation st op d =
    (if rd_policy d = lit ''deduplicate-identical-transfer'' then lookup_opt (os_last_copy st) (ro_target op)
     else if rd_policy d = lit ''reuse-transient-buffer'' then map_of (os_buffers st) (ro_target op, ro_size op)
     else if rd_policy d = lit ''collapse-aliased-resource-copy'' then lookup_opt (os_last_copy st) (ro_source op)
     else None)"

definition record_removed :: "runtime_operation \<Rightarrow> runtime_decision \<Rightarrow> opt_state \<Rightarrow> opt_state" where
  "record_removed op d st =
    (let replacements = (case retained_operation st op d of None \<Rightarrow> [] | Some r \<Rightarrow> [ro_id r]) @ ro_depends op;
         st1 = st\<lparr>os_replacements := alist_put (ro_id op) (ordered_nub replacements) (os_replacements st)\<rparr>
     in if replacements = [] then st1\<lparr>os_removed := insert (ro_id op) (os_removed st1)\<rparr> else st1)"

definition record_write :: "runtime_operation \<Rightarrow> opt_state \<Rightarrow> opt_state" where
  "record_write op st =
    (if ro_type op \<in> {lit ''copy'', lit ''upload'', lit ''allocate'', lit ''compute'', lit ''draw''}
     then invalidate_resource (ro_target op) st else st)"

definition record_transfer :: "runtime_operation \<Rightarrow> opt_state \<Rightarrow> opt_state" where
  "record_transfer op st = (case ro_target op of
       Some t \<Rightarrow> if is_transfer op \<and> known (os_resources st) (Some t)
         then st\<lparr>os_last_copy := alist_put t op (os_last_copy st)\<rparr> else st
     | None \<Rightarrow> st)"

definition record_allocation :: "runtime_operation \<Rightarrow> opt_state \<Rightarrow> opt_state" where
  "record_allocation op st =
    (if ro_type op = lit ''allocate'' \<and> known (os_resources st) (ro_target op)
     then st\<lparr>os_buffers := alist_put (ro_target op, ro_size op) op
            (filter (\<lambda>((t, _), _). t \<noteq> ro_target op) (os_buffers st))\<rparr>
     else st)"

definition record_kept :: "runtime_operation \<Rightarrow> opt_state \<Rightarrow> opt_state" where
  "record_kept op st = record_allocation op (record_transfer op (record_write op st))"

lemma record_write_fields [simp]:
  "os_resources (record_write op st) = os_resources st" "os_ids (record_write op st) = os_ids st"
  "os_replacements (record_write op st) = os_replacements st" "os_removed (record_write op st) = os_removed st"
  "os_buffers (record_write op st) = os_buffers st"
  by (simp_all add: record_write_def)

lemma record_transfer_fields [simp]:
  "os_resources (record_transfer op st) = os_resources st" "os_ids (record_transfer op st) = os_ids st"
  "os_replacements (record_transfer op st) = os_replacements st" "os_removed (record_transfer op st) = os_removed st"
  "os_buffers (record_transfer op st) = os_buffers st"
  by (simp_all add: record_transfer_def split: option.split)

lemma record_allocation_fields [simp]:
  "os_resources (record_allocation op st) = os_resources st" "os_ids (record_allocation op st) = os_ids st"
  "os_replacements (record_allocation op st) = os_replacements st" "os_removed (record_allocation op st) = os_removed st"
  "os_last_copy (record_allocation op st) = os_last_copy st"
  by (simp_all add: record_allocation_def)

lemma record_kept_fields [simp]:
  "os_resources (record_kept op st) = os_resources st" "os_ids (record_kept op st) = os_ids st"
  "os_replacements (record_kept op st) = os_replacements st" "os_removed (record_kept op st) = os_removed st"
  by (simp_all add: record_kept_def)

lemma set_alist_put: "set (alist_put k v d) \<subseteq> insert (k, v) (set d)"
  by (induction k v d rule: alist_put.induct) auto

lemma invalidate_subset: "set (os_last_copy (invalidate_resource rid st)) \<subseteq> set (os_last_copy st)"
  by (auto simp: invalidate_resource_def split: option.splits)

lemma record_kept_last_copy: "set (os_last_copy (record_kept op st)) \<subseteq> set (os_last_copy st) \<union> UNIV \<times> {op}"
proof -
  have "set (os_last_copy (record_write op st)) \<subseteq> set (os_last_copy st)"
    using invalidate_subset by (simp add: record_write_def)
  moreover have "set (os_last_copy (record_transfer op st')) \<subseteq> set (os_last_copy st') \<union> UNIV \<times> {op}" for st'
  proof (cases "ro_target op")
    case (Some t)
    then show ?thesis using set_alist_put [of t op "os_last_copy st'"] by (auto simp: record_transfer_def)
  qed (simp add: record_transfer_def)
  ultimately show ?thesis unfolding record_kept_def record_allocation_fields by blast
qed

lemma record_allocation_buffers:
  "set (os_buffers (record_allocation op st)) \<subseteq>
     (if known (os_resources st) (ro_target op) then insert ((ro_target op, ro_size op), op) (set (os_buffers st)) else set (os_buffers st))"
proof (cases "ro_type op = lit ''allocate'' \<and> known (os_resources st) (ro_target op)")
  case True
  have "set (alist_put (ro_target op, ro_size op) op (filter (\<lambda>((t, _), _). t \<noteq> ro_target op) (os_buffers st)))
      \<subseteq> insert ((ro_target op, ro_size op), op) (set (os_buffers st))"
    by (rule subset_trans [OF set_alist_put]) (rule insert_mono, rule filter_is_subset)
  then show ?thesis using True by (simp add: record_allocation_def)
qed (auto simp: record_allocation_def)

lemma record_kept_buffers: "set (os_buffers (record_kept op st)) \<subseteq> set (os_buffers st) \<union> UNIV \<times> {op}"
  using record_allocation_buffers [of op "record_transfer op (record_write op st)"]
  by (auto simp: record_kept_def split: if_splits)

definition opt_process :: "runtime_operation \<Rightarrow> opt_state
    \<Rightarrow> ((runtime_operation \<times> runtime_decision option) \<times> opt_state) res" where
  "opt_process op st =
    (if ro_id op \<in> os_ids st then value_error (lit ''Duplicate operation id: '' @ ro_id op) else
     let dependencies = resolve_dependencies (os_replacements st) (ro_depends op);
         decision = decide_operation op (os_resources st) (os_last_copy st) (os_buffers st) (os_removed st);
         st1 = st\<lparr>os_ids := insert (ro_id op) (os_ids st)\<rparr>;
         op1 = op\<lparr>ro_depends := dependencies\<rparr>
     in Inr ((op1, decision), (case decision of Some d \<Rightarrow> record_removed op1 d st1 | None \<Rightarrow> record_kept op1 st1)))"

end
