(* ===== verification/Runtime_Plan.thy ===== *)
theory Runtime_Plan
  imports Runtime_State "HOL-Library.Multiset"
begin

text \<open>
  \<^verbatim>\<open>optimize_manifest\<close> of \<^verbatim>\<open>src/fluidgateway/runtime.py\<close>: the loop over a manifest's operations,
  an abstract semantics of what the operations do to the data of the resources, the proof that the
  operations a plan keeps do to the data what all the operations may do, and the proofs about the
  dependencies a plan rewrites.
\<close>

section \<open>The loop\<close>

fun optimize_loop :: "runtime_operation list \<Rightarrow> opt_state \<Rightarrow> runtime_decision list \<Rightarrow> runtime_operation list
    \<Rightarrow> (runtime_decision list \<times> runtime_operation list) res" where
  "optimize_loop [] st decisions kept = Inr (decisions, kept)"
| "optimize_loop (op # ops) st decisions kept = ebind (opt_process op st) (\<lambda>((op1, decision), st1).
     case decision of
       Some d \<Rightarrow> optimize_loop ops st1 (decisions @ [d]) kept
     | None \<Rightarrow> optimize_loop ops st1 decisions (kept @ [op1]))"

definition optimize_manifest :: "runtime_manifest \<Rightarrow> runtime_plan res" where
  "optimize_manifest m =
    (let warnings = validate_manifest m in
     ebind (optimize_loop (rm_operations m) (new_opt_state (rm_resources m)) [] []) (\<lambda>(decisions, kept).
     Inr \<lparr>rp_mode = lit ''runtime-optimizer-v0.4-manifest'', rp_manifest = rm_name m,
       rp_original = length (rm_operations m), rp_optimized = length kept,
       rp_saved_ms = fround 4 (fsum (map rd_saved_ms decisions)), rp_saved_mb = fround 4 (fsum (map rd_saved_mb decisions)),
       rp_kept = kept, rp_decisions = decisions, rp_warnings = warnings\<rparr>))"

text \<open>The results of the steps one by one, of which the loop's lists are the projections.\<close>

fun steps :: "runtime_operation list \<Rightarrow> opt_state \<Rightarrow> ((runtime_operation \<times> runtime_decision option) list \<times> opt_state) res" where
  "steps [] st = Inr ([], st)"
| "steps (op # ops) st = ebind (opt_process op st) (\<lambda>(r, st1). ebind (steps ops st1) (\<lambda>(rs, st2). Inr (r # rs, st2)))"

definition kept_of :: "(runtime_operation \<times> runtime_decision option) list \<Rightarrow> runtime_operation list" where
  "kept_of rs = map fst (filter (\<lambda>r. snd r = None) rs)"

definition decisions_of :: "(runtime_operation \<times> runtime_decision option) list \<Rightarrow> runtime_decision list" where
  "decisions_of rs = map (\<lambda>r. the (snd r)) (filter (\<lambda>r. snd r \<noteq> None) rs)"

lemma kept_of_simps [simp]:
  "kept_of [] = []" "kept_of ((op, None) # rs) = op # kept_of rs" "kept_of ((op, Some d) # rs) = kept_of rs"
  "decisions_of [] = []" "decisions_of ((op, None) # rs) = decisions_of rs" "decisions_of ((op, Some d) # rs) = d # decisions_of rs"
  by (simp_all add: kept_of_def decisions_of_def)

lemma optimize_loop_steps:
  "optimize_loop ops st ds ks = emap (\<lambda>(rs, _). (ds @ decisions_of rs, ks @ kept_of rs)) (steps ops st)"
proof (induction ops arbitrary: st ds ks)
  case (Cons op ops)
  show ?case
  proof (cases "opt_process op st")
    case (Inr r)
    obtain op1 d st1 where "r = ((op1, d), st1)" by (metis prod.collapse)
    then show ?thesis using Inr Cons.IH [of st1]
      by (cases d; cases "steps ops st1") auto
  qed simp
qed simp

lemma optimize_manifest_steps:
  "optimize_manifest m = Inr p \<longleftrightarrow> (\<exists>rs st. steps (rm_operations m) (new_opt_state (rm_resources m)) = Inr (rs, st)
     \<and> p = \<lparr>rp_mode = lit ''runtime-optimizer-v0.4-manifest'', rp_manifest = rm_name m,
       rp_original = length (rm_operations m), rp_optimized = length (kept_of rs),
       rp_saved_ms = fround 4 (fsum (map rd_saved_ms (decisions_of rs))),
       rp_saved_mb = fround 4 (fsum (map rd_saved_mb (decisions_of rs))),
       rp_kept = kept_of rs, rp_decisions = decisions_of rs, rp_warnings = validate_manifest m\<rparr>)"
  by (auto simp: optimize_manifest_def optimize_loop_steps ebind_eq_Inr emap_eq_Inr)

section \<open>What one step does to the state\<close>

lemma record_removed_fields [simp]:
  "os_resources (record_removed op d st) = os_resources st" "os_last_copy (record_removed op d st) = os_last_copy st"
  "os_buffers (record_removed op d st) = os_buffers st" "os_ids (record_removed op d st) = os_ids st"
  by (simp_all add: record_removed_def Let_def)

lemma opt_process_eq_Inr:
  "opt_process op st = Inr ((op1, d), st') \<longleftrightarrow>
     ro_id op \<notin> os_ids st
     \<and> d = decide_operation op (os_resources st) (os_last_copy st) (os_buffers st) (os_removed st)
     \<and> op1 = op\<lparr>ro_depends := resolve_dependencies (os_replacements st) (ro_depends op)\<rparr>
     \<and> st' = (case d of Some d' \<Rightarrow> record_removed op1 d' (st\<lparr>os_ids := insert (ro_id op) (os_ids st)\<rparr>)
         | None \<Rightarrow> record_kept op1 (st\<lparr>os_ids := insert (ro_id op) (os_ids st)\<rparr>))"
  by (auto simp: opt_process_def Let_def)

lemma opt_process_ids: "opt_process op st = Inr (r, st') \<Longrightarrow> os_ids st' = insert (ro_id op) (os_ids st)"
  by (cases r) (auto simp: opt_process_eq_Inr split: option.splits)

lemma opt_process_resources: "opt_process op st = Inr (r, st') \<Longrightarrow> os_resources st' = os_resources st"
  by (cases r) (auto simp: opt_process_eq_Inr split: option.splits)

lemma opt_process_Inl: "opt_process op st = Inl e \<longleftrightarrow> ro_id op \<in> os_ids st \<and> e = ValueError (lit ''Duplicate operation id: '' @ ro_id op)"
  by (auto simp: opt_process_def Let_def value_error_def)

lemma steps_total_iff:
  "(\<exists>r. steps ops st = Inr r) \<longleftrightarrow> distinct (map ro_id ops) \<and> set (map ro_id ops) \<inter> os_ids st = {}"
proof (induction ops arbitrary: st)
  case (Cons op ops)
  show ?case
  proof (cases "opt_process op st")
    case (Inl e)
    then have "ro_id op \<in> os_ids st" by (simp add: opt_process_Inl)
    then show ?thesis using Inl by simp
  next
    case (Inr r)
    obtain q st1 where r: "r = (q, st1)" by (cases r)
    have "ro_id op \<notin> os_ids st" using Inr r by (cases q) (simp add: opt_process_eq_Inr)
    moreover have "os_ids st1 = insert (ro_id op) (os_ids st)" using Inr r opt_process_ids by simp
    moreover have "(\<exists>x. steps (op # ops) st = Inr x) \<longleftrightarrow> (\<exists>x. steps ops st1 = Inr x)"
      using Inr r by (auto simp: ebind_eq_Inr)
    ultimately show ?thesis using Cons.IH [of st1] by auto
  qed
qed simp

lemma steps_ids:
  assumes "steps ops st = Inr (rs, st')"
  shows "map (ro_id \<circ> fst) rs = map ro_id ops" and "os_resources st' = os_resources st"
    and "\<forall>(op, d) \<in> set rs. \<forall>d'. d = Some d' \<longrightarrow> rd_operation d' = ro_id op"
proof -
  have "map (ro_id \<circ> fst) rs = map ro_id ops \<and> os_resources st' = os_resources st
      \<and> (\<forall>(op, d) \<in> set rs. \<forall>d'. d = Some d' \<longrightarrow> rd_operation d' = ro_id op)"
    using assms
  proof (induction ops arbitrary: st rs)
    case (Cons op ops)
    then obtain op1 d st1 rs' where p: "opt_process op st = Inr ((op1, d), st1)"
      and s: "steps ops st1 = Inr (rs', st')" and rs: "rs = (op1, d) # rs'"
      by (auto simp: ebind_eq_Inr)
    have "rd_operation d' = ro_id op" if "d = Some d'" for d'
      using p that by (auto simp: opt_process_eq_Inr decide_operation_def decide_transfer_def make_decision_def
          split: if_splits option.splits)
    then show ?case using Cons.IH [OF s] opt_process_resources [OF p] p
      by (auto simp: rs opt_process_eq_Inr)
  qed simp
  then show "map (ro_id \<circ> fst) rs = map ro_id ops" and "os_resources st' = os_resources st"
    and "\<forall>(op, d) \<in> set rs. \<forall>d'. d = Some d' \<longrightarrow> rd_operation d' = ro_id op" by auto
qed


lemma kept_decisions_mset:
  assumes "\<forall>(op, d) \<in> set rs. \<forall>d'. d = Some d' \<longrightarrow> rd_operation d' = ro_id op"
  shows "mset (map ro_id (kept_of rs)) + mset (map rd_operation (decisions_of rs)) = mset (map (ro_id \<circ> fst) rs)"
  using assms
proof (induction rs)
  case (Cons r rs)
  then show ?case by (cases r; cases "snd r") auto
qed simp

text \<open>The first repeated id of a list of ids.\<close>

fun first_repeated :: "pystr set \<Rightarrow> pystr list \<Rightarrow> pystr option" where
  "first_repeated seen [] = None"
| "first_repeated seen (i # is) = (if i \<in> seen then Some i else first_repeated (insert i seen) is)"

lemma steps_Inl:
  "steps ops st = Inl e \<longleftrightarrow>
    (\<exists>i. first_repeated (os_ids st) (map ro_id ops) = Some i \<and> e = ValueError (lit ''Duplicate operation id: '' @ i))"
proof (induction ops arbitrary: st)
  case (Cons op ops)
  show ?case
  proof (cases "opt_process op st")
    case (Inl e')
    then have "ro_id op \<in> os_ids st" "e' = ValueError (lit ''Duplicate operation id: '' @ ro_id op)"
      by (simp_all add: opt_process_Inl)
    then show ?thesis using Inl by auto
  next
    case (Inr r)
    obtain q st1 where r: "r = (q, st1)" by (cases r)
    have "ro_id op \<notin> os_ids st" using Inr r by (cases q) (simp add: opt_process_eq_Inr)
    moreover have "os_ids st1 = insert (ro_id op) (os_ids st)" using Inr r opt_process_ids by simp
    ultimately show ?thesis using Cons.IH [of st1] Inr r by (auto simp: ebind_eq_Inl)
  qed
qed simp

lemma first_repeated_None: "first_repeated seen is = None \<longleftrightarrow> distinct is \<and> set is \<inter> seen = {}"
  by (induction "is" arbitrary: seen) auto

section \<open>What operations do to the data\<close>

text \<open>
  A data model says what a transfer of a given size makes of the target's data, what the other
  operations write, and what operations on unknown resources do. Transfers are idempotent, and a
  transfer between equal data changes nothing. Operations do not depend on their ordering edges.
  An allocation leaves arbitrary data. Views of the same data change together.
\<close>

record 'd data_model =
  dm_copy :: "pyfloat \<Rightarrow> 'd \<Rightarrow> 'd \<Rightarrow> 'd"
  dm_write :: "runtime_operation \<Rightarrow> (pystr \<Rightarrow> 'd) \<Rightarrow> 'd"
  dm_opaque :: "runtime_operation \<Rightarrow> (pystr \<Rightarrow> 'd) \<Rightarrow> pystr \<Rightarrow> 'd"

definition coherent :: "resources \<Rightarrow> (pystr \<Rightarrow> 'd) \<Rightarrow> bool" where
  "coherent res mem \<longleftrightarrow> (\<forall>(a, b) \<in> alias_rel res. mem a = mem b)"

definition data_laws :: "'d data_model \<Rightarrow> resources \<Rightarrow> bool" where
  "data_laws dm res \<longleftrightarrow> (\<forall>n d s. dm_copy dm n (dm_copy dm n d s) s = dm_copy dm n d s)
     \<and> (\<forall>n d. dm_copy dm n d d = d) \<and> (\<forall>op mem. coherent res mem \<longrightarrow> coherent res (dm_opaque dm op mem))"

definition write_class :: "resources \<Rightarrow> pystr \<Rightarrow> 'd \<Rightarrow> (pystr \<Rightarrow> 'd) \<Rightarrow> pystr \<Rightarrow> 'd" where
  "write_class res t d mem = (\<lambda>x. if x \<in> alias_class res t then d else mem x)"

definition is_writer :: "runtime_operation \<Rightarrow> bool" where
  "is_writer op \<longleftrightarrow> ro_type op \<in> {lit ''copy'', lit ''upload'', lit ''allocate'', lit ''compute'', lit ''draw''}"

definition is_allocate :: "runtime_operation \<Rightarrow> bool" where
  "is_allocate op \<longleftrightarrow> ro_type op = lit ''allocate''"

definition without_edges :: "runtime_operation \<Rightarrow> runtime_operation" where
  "without_edges op = op\<lparr>ro_depends := []\<rparr>"

inductive exec_op :: "'d data_model \<Rightarrow> resources \<Rightarrow> runtime_operation \<Rightarrow> (pystr \<Rightarrow> 'd) \<Rightarrow> (pystr \<Rightarrow> 'd) \<Rightarrow> bool"
  for dm :: "'d data_model" and res :: resources where
  exec_transfer: "is_transfer op \<Longrightarrow> ro_source op = Some s \<Longrightarrow> s \<in> fst ` set res \<Longrightarrow> ro_target op = Some t \<Longrightarrow> t \<in> fst ` set res
     \<Longrightarrow> exec_op dm res op mem (write_class res t (dm_copy dm (ro_size op) (mem t) (mem s)) mem)"
| exec_allocate: "is_allocate op \<Longrightarrow> ro_target op = Some t \<Longrightarrow> t \<in> fst ` set res \<Longrightarrow> exec_op dm res op mem (write_class res t d mem)"
| exec_write: "is_writer op \<Longrightarrow> \<not> is_allocate op \<Longrightarrow> \<not> (is_transfer op \<and> known res (ro_source op)) \<Longrightarrow> ro_target op = Some t
     \<Longrightarrow> t \<in> fst ` set res \<Longrightarrow> exec_op dm res op mem (write_class res t (dm_write dm (without_edges op) mem) mem)"
| exec_unknown_target: "is_writer op \<Longrightarrow> \<not> known res (ro_target op) \<Longrightarrow> exec_op dm res op mem (dm_opaque dm (without_edges op) mem)"
| exec_no_write: "\<not> is_writer op \<Longrightarrow> exec_op dm res op mem mem"

fun exec_ops :: "'d data_model \<Rightarrow> resources \<Rightarrow> runtime_operation list \<Rightarrow> (pystr \<Rightarrow> 'd) \<Rightarrow> (pystr \<Rightarrow> 'd) \<Rightarrow> bool" where
  "exec_ops dm res [] mem mem' \<longleftrightarrow> mem' = mem"
| "exec_ops dm res (op # ops) mem mem' \<longleftrightarrow> (\<exists>mem1. exec_op dm res op mem mem1 \<and> exec_ops dm res ops mem1 mem')"

lemma is_transfer_writer: "is_transfer op \<Longrightarrow> is_writer op" "is_transfer op \<Longrightarrow> \<not> is_allocate op"
  by (auto simp: is_transfer_def is_writer_def is_allocate_def)

lemma is_allocate_writer: "is_allocate op \<Longrightarrow> is_writer op"
  by (simp add: is_allocate_def is_writer_def)

lemma known_iff: "known res rid \<longleftrightarrow> (\<exists>r. rid = Some r \<and> r \<in> fst ` set res)"
  by (cases rid) (simp_all add: known_def)

lemma exec_op_total: "\<exists>mem'. exec_op dm res op mem mem'"
proof (cases "is_writer op")
  case False
  then show ?thesis by (blast intro: exec_no_write)
next
  case True
  show ?thesis
  proof (cases "known res (ro_target op)")
    case False
    with True show ?thesis by (blast intro: exec_unknown_target)
  next
    case True
    then obtain t where t: "ro_target op = Some t" "t \<in> fst ` set res" by (auto simp: known_iff)
    consider "is_allocate op" | s where "is_transfer op" "ro_source op = Some s" "s \<in> fst ` set res"
      | "\<not> is_allocate op" "\<not> (is_transfer op \<and> known res (ro_source op))"
      by (auto simp: known_iff)
    then show ?thesis
    proof cases
      case 1
      then show ?thesis using t by (blast intro: exec_allocate)
    next
      case 2
      then show ?thesis using t by (blast intro: exec_transfer)
    next
      case 3
      then show ?thesis using \<open>is_writer op\<close> t by (blast intro: exec_write)
    qed
  qed
qed

lemma exec_ops_total: "\<exists>mem'. exec_ops dm res ops mem mem'"
proof (induction ops arbitrary: mem)
  case (Cons op ops)
  then show ?case using exec_op_total by fastforce
qed (metis exec_ops.simps(1))

lemma exec_op_edges: "exec_op dm res (op\<lparr>ro_depends := ds\<rparr>) mem mem' \<longleftrightarrow> exec_op dm res op mem mem'"
  by (simp add: exec_op.simps is_transfer_def is_allocate_def is_writer_def without_edges_def)

subsection \<open>Views of the same data\<close>

lemma alias_class_refl [simp]: "t \<in> alias_class res t"
  by (simp add: alias_class_def)

lemma alias_class_rel: "(a, b) \<in> alias_rel res \<Longrightarrow> a \<in> alias_class res t \<longleftrightarrow> b \<in> alias_class res t"
  using alias_rel_sym [of res] by (auto simp: alias_class_def dest: symD intro: rtrancl_into_rtrancl)

lemma coherent_write: "coherent res mem \<Longrightarrow> coherent res (write_class res t d mem)"
  using alias_class_rel by (auto simp: coherent_def write_class_def)

lemma coherent_class:
  assumes "coherent res mem" and "x \<in> alias_class res t"
  shows "mem x = mem t"
proof -
  have "(t, x) \<in> (alias_rel res)\<^sup>*" using assms(2) by (simp add: alias_class_def)
  then show ?thesis using assms(1) by induction (auto simp: coherent_def)
qed

lemma write_class_same: "coherent res mem \<Longrightarrow> write_class res t (mem t) mem = mem"
  by (auto simp: write_class_def fun_eq_iff dest: coherent_class)

lemma exec_op_coherent:
  assumes "exec_op dm res op mem mem'" and "data_laws dm res" and "coherent res mem"
  shows "coherent res mem'"
  using assms by cases (auto simp: data_laws_def intro: coherent_write)


section \<open>Keeping fewer operations does the same to the data\<close>

text \<open>
  What the optimizer knows about the data: the target of a recorded transfer holds what the
  transfer would give again, and the buffers it may reuse are known resources.
\<close>

definition entry_ok :: "'d data_model \<Rightarrow> resources \<Rightarrow> (pystr \<Rightarrow> 'd) \<Rightarrow> pystr \<times> runtime_operation \<Rightarrow> bool" where
  "entry_ok dm res mem e \<longleftrightarrow> (case e of (t, prev) \<Rightarrow> \<forall>s. ro_source prev = Some s \<longrightarrow> s \<in> fst ` set res
     \<longrightarrow> dm_copy dm (ro_size prev) (mem t) (mem s) = mem t)"

definition data_inv :: "'d data_model \<Rightarrow> opt_state \<Rightarrow> (pystr \<Rightarrow> 'd) \<Rightarrow> bool" where
  "data_inv dm st mem \<longleftrightarrow> coherent (os_resources st) mem
     \<and> (\<forall>e \<in> set (os_last_copy st). entry_ok dm (os_resources st) mem e)
     \<and> (\<forall>e \<in> set (os_buffers st). known (os_resources st) (fst (fst e)))"

lemma lookup_opt_Some: "lookup_opt m x = Some v \<longleftrightarrow> (\<exists>r. x = Some r \<and> map_of m r = Some v)"
  by (cases x) (simp_all add: lookup_opt_def)

lemma decide_transfer_cases:
  assumes "decide_transfer op res lc = Some d"
  obtains "ro_source op = ro_target op"
  | s t where "ro_source op = Some s" "ro_target op = Some t" "(s, t) \<in> alias_rel res"
  | t prev where "ro_target op = Some t" "(t, prev) \<in> set lc" "ro_source prev = ro_source op" "ro_size prev = ro_size op"
proof (cases "ro_source op = ro_target op")
  case False
  show ?thesis
  proof (cases "\<exists>rt rs. lookup_opt res (ro_target op) = Some rt \<and> lookup_opt res (ro_source op) = Some rs \<and> shares_alias rs rt")
    case True
    then show ?thesis by (auto simp: lookup_opt_Some alias_rel_def intro: that(2))
  next
    case False
    with \<open>ro_source op \<noteq> ro_target op\<close> assms obtain prev where "lookup_opt lc (ro_target op) = Some prev"
      "ro_source prev = ro_source op" "ro_size prev = ro_size op"
      by (auto simp: decide_transfer_def split: if_splits option.splits)
    then show ?thesis by (auto simp: lookup_opt_Some intro: that(3) dest: map_of_SomeD)
  qed
qed (rule that(1))

lemma decide_operation_cases:
  assumes "decide_operation op res lc bufs removed = Some d"
  obtains "\<not> is_writer op"
  | "is_transfer op" "known res (ro_source op)" "known res (ro_target op)" "decide_transfer op res lc = Some d"
  | prev where "is_allocate op" "((ro_target op, ro_size op), prev) \<in> set bufs"
proof (cases "is_transfer op")
  case True
  then show ?thesis using assms by (auto simp: decide_operation_def intro: that(2) split: if_splits)
next
  case False
  show ?thesis
  proof (cases "is_writer op")
    case True
    with False assms have "is_allocate op" "\<exists>prev. map_of bufs (ro_target op, ro_size op) = Some prev"
      by (auto simp: decide_operation_def is_writer_def is_allocate_def split: if_splits option.splits)
    then show ?thesis by (auto intro: that(3) dest: map_of_SomeD)
  qed (rule that(1))
qed

lemma removed_exec:
  assumes "decide_operation op (os_resources st) (os_last_copy st) (os_buffers st) removed = Some d"
    and inv: "data_inv dm st mem" and laws: "data_laws dm (os_resources st)"
  shows "exec_op dm (os_resources st) op mem mem"
proof -
  let ?res = "os_resources st"
  have coh: "coherent ?res mem" using inv by (simp add: data_inv_def)
  have copy_same: "exec_op dm ?res op mem mem"
    if "is_transfer op" "ro_source op = Some s" "s \<in> fst ` set ?res" "ro_target op = Some t" "t \<in> fst ` set ?res"
      "dm_copy dm (ro_size op) (mem t) (mem s) = mem t" for s t
    using exec_transfer [OF that(1-5), of dm mem] that(6) by (simp add: write_class_same [OF coh])
  from assms(1) show ?thesis
  proof (cases rule: decide_operation_cases)
    case 1
    then show ?thesis by (rule exec_no_write)
  next
    case 2
    then obtain s t where st: "is_transfer op" "ro_source op = Some s" "s \<in> fst ` set ?res"
      "ro_target op = Some t" "t \<in> fst ` set ?res" by (auto simp: known_iff)
    have "dm_copy dm (ro_size op) (mem t) (mem s) = mem t"
      using 2(4)
    proof (cases rule: decide_transfer_cases)
      case 1
      then show ?thesis using st laws by (simp add: data_laws_def)
    next
      case (2 s' t')
      then have "mem s = mem t" using st coh by (auto simp: coherent_def)
      then show ?thesis using laws by (simp add: data_laws_def)
    next
      case (3 t' prev)
      then have "entry_ok dm ?res mem (t, prev)" using inv st by (simp add: data_inv_def)
      then show ?thesis using 3 st by (simp add: entry_ok_def)
    qed
    with st show ?thesis by (intro copy_same [of s t])
  next
    case (3 prev)
    then have "known ?res (ro_target op)" using inv by (force simp: data_inv_def)
    then obtain t where t: "ro_target op = Some t" "t \<in> fst ` set ?res" by (auto simp: known_iff)
    show ?thesis using exec_allocate [OF 3(1) t, of dm mem "mem t"] by (simp add: write_class_same [OF coh])
  qed
qed

text \<open>A write to a class of views leaves the recorded transfers that do not touch the class as they were.\<close>

lemma entry_ok_write:
  assumes "entry_ok dm res mem e" and "\<not> touches (alias_class res t) e"
  shows "entry_ok dm res (write_class res t d mem) e"
  using assms by (cases e) (auto simp: entry_ok_def touches_def write_class_def)

lemma data_inv_write:
  assumes inv: "data_inv dm st mem" and ok: "resources_ok (os_resources st)" and t: "t \<in> fst ` set (os_resources st)"
  shows "data_inv dm (invalidate_resource (Some t) st) (write_class (os_resources st) t d mem)"
  using inv t by (simp add: data_inv_def invalidate_last_copy [OF ok] coherent_write entry_ok_write)

lemma data_inv_forget:
  assumes "data_inv dm st mem" and "coherent (os_resources st) mem'" and "os_last_copy st' = []"
    and "os_resources st' = os_resources st" and "os_buffers st' = os_buffers st"
  shows "data_inv dm st' mem'"
  using assms by (simp add: data_inv_def)

lemma invalidate_unknown:
  assumes "resources_ok (os_resources st)" and "\<not> known (os_resources st) rid"
  shows "os_last_copy (invalidate_resource rid st) = []"
  using assms by (auto simp: invalidate_last_copy known_def split: option.splits)


lemma exec_transfer_entry:
  assumes ex: "exec_op dm res op mem mem'" and tr: "is_transfer op" and t: "ro_target op = Some t" "t \<in> fst ` set res"
    and laws: "data_laws dm res"
  shows "entry_ok dm res mem' (t, op)"
proof (cases "known res (ro_source op)")
  case True
  then obtain s where s: "ro_source op = Some s" "s \<in> fst ` set res" by (auto simp: known_iff)
  have "mem' = write_class res t (dm_copy dm (ro_size op) (mem t) (mem s)) mem"
    using ex by cases (use tr t s is_transfer_writer in \<open>auto simp: known_iff\<close>)
  then show ?thesis using laws s by (auto simp: entry_ok_def write_class_def data_laws_def)
qed (auto simp: entry_ok_def known_iff)

lemma record_write_alt: "record_write op st = (if is_writer op then invalidate_resource (ro_target op) st else st)"
  by (simp only: record_write_def is_writer_def)

lemma exec_writer_inv:
  assumes ex: "exec_op dm (os_resources st) op mem mem'" and inv: "data_inv dm st mem"
    and laws: "data_laws dm (os_resources st)" and ok: "resources_ok (os_resources st)"
  shows "data_inv dm (record_write op st) mem'"
  using ex
proof cases
  case exec_unknown_target
  then show ?thesis using exec_op_coherent [OF ex laws] inv
    by (auto simp: record_write_alt data_inv_def invalidate_unknown [OF ok])
qed (use inv is_transfer_writer is_allocate_writer in \<open>auto simp: record_write_alt intro: data_inv_write [OF _ ok]\<close>)

lemma record_kept_inv:
  assumes ex: "exec_op dm (os_resources st) op mem mem'" and inv: "data_inv dm st mem"
    and laws: "data_laws dm (os_resources st)" and ok: "resources_ok (os_resources st)"
  shows "data_inv dm (record_kept op st) mem'"
proof -
  let ?res = "os_resources st" and ?st1 = "record_write op st"
  have i1: "data_inv dm ?st1 mem'" by (rule exec_writer_inv [OF assms])
  have i2: "data_inv dm (record_transfer op ?st1) mem'"
  proof (cases "\<exists>t. ro_target op = Some t \<and> is_transfer op \<and> known ?res (Some t)")
    case True
    then obtain t where t: "ro_target op = Some t" "is_transfer op" "t \<in> fst ` set ?res" by (auto simp: known_iff)
    have "record_transfer op ?st1 = ?st1\<lparr>os_last_copy := alist_put t op (os_last_copy ?st1)\<rparr>"
      by (simp add: record_transfer_def t known_iff)
    moreover have "entry_ok dm ?res mem' (t, op)" using exec_transfer_entry [OF ex _ _ _ laws] t by blast
    ultimately show ?thesis using i1 set_alist_put [of t op "os_last_copy ?st1"] by (auto simp: data_inv_def)
  next
    case False
    then have "record_transfer op ?st1 = ?st1" by (auto simp: record_transfer_def split: option.split)
    then show ?thesis using i1 by simp
  qed
  then show ?thesis
    using record_allocation_buffers [of op "record_transfer op ?st1"]
    by (auto simp: record_kept_def data_inv_def split: if_splits)
qed

lemma steps_refine:
  assumes "steps ops st = Inr (rs, st')" and "exec_ops dm (os_resources st) (kept_of rs) mem mem'"
    and "data_inv dm st mem" and laws: "data_laws dm (os_resources st)" and ok: "resources_ok (os_resources st)"
  shows "exec_ops dm (os_resources st) ops mem mem'"
  using assms
proof (induction ops arbitrary: st rs mem)
  case (Cons op ops)
  then obtain op1 d st1 rs' where p: "opt_process op st = Inr ((op1, d), st1)"
    and s: "steps ops st1 = Inr (rs', st')" and rs: "rs = (op1, d) # rs'"
    by (auto simp: ebind_eq_Inr)
  let ?st = "st\<lparr>os_ids := insert (ro_id op) (os_ids st)\<rparr>"
  have res: "os_resources st1 = os_resources st" by (rule opt_process_resources [OF p])
  have op1: "exec_op dm res op1 m m' \<longleftrightarrow> exec_op dm res op m m'" for res m m'
    using p by (auto simp: opt_process_eq_Inr exec_op_edges)
  have inv: "data_inv dm ?st mem" using Cons.prems(3) by (simp add: data_inv_def)
  show ?case
  proof (cases d)
    case None
    then obtain mem1 where ex: "exec_op dm (os_resources st) op1 mem mem1"
      and rest: "exec_ops dm (os_resources st) (kept_of rs') mem1 mem'"
      using Cons.prems(2) rs by auto
    have "st1 = record_kept op1 ?st" using p None by (simp add: opt_process_eq_Inr)
    then have "data_inv dm st1 mem1" using record_kept_inv [of dm ?st op1 mem mem1] ex inv laws ok Cons.prems by simp
    then have "exec_ops dm (os_resources st) ops mem1 mem'"
      using Cons.IH [OF s] rest Cons.prems res by simp
    then show ?thesis using ex op1 by auto
  next
    case (Some d')
    have dec: "decide_operation op (os_resources st) (os_last_copy st) (os_buffers st) (os_removed st) = Some d'"
      and st1: "st1 = record_removed op1 d' ?st" using p Some by (auto simp: opt_process_eq_Inr)
    have "exec_op dm (os_resources st) op mem mem" using removed_exec [OF dec] Cons.prems by blast
    moreover have "data_inv dm st1 mem" using Cons.prems(3) by (simp add: st1 data_inv_def)
    then have "exec_ops dm (os_resources st) ops mem mem'"
      using Cons.IH [OF s] Cons.prems Some rs res by simp
    ultimately show ?thesis by auto
  qed
qed simp

lemma new_opt_state_inv: "coherent res mem \<Longrightarrow> data_inv dm (new_opt_state res) mem"
  by (simp add: data_inv_def new_opt_state_def)

end
