(* ===== verification/Runtime_Deps.thy ===== *)
theory Runtime_Deps
  imports Runtime_Plan
begin

text \<open>
  The dependencies of the operations a plan keeps, in a manifest whose operations wait only for earlier ones: they name
  no removed operation, and every kept operation still waits for what it waited for through removed ones.
\<close>

definition resolved_by :: "(pystr \<times> pystr list) list \<Rightarrow> pystr \<Rightarrow> pystr set" where
  "resolved_by repl d = (case map_of repl d of None \<Rightarrow> {d} | Some rs \<Rightarrow> set rs)"

definition removed_names :: "opt_state \<Rightarrow> pystr set" where
  "removed_names st = dom (map_of (os_replacements st))"

lemma set_ordered_nub [simp]: "set (ordered_nub xs) = set xs"
  by (simp add: ordered_nub_def)

lemma set_resolve: "set (resolve_dependencies repl deps) = (\<Union>d \<in> set deps. resolved_by repl d)"
  by (auto simp: resolve_dependencies_def resolved_by_def split: option.splits)

text \<open>Operations that only wait for operations listed before them, or for none of the list.\<close>

fun backward :: "runtime_operation list \<Rightarrow> bool" where
  "backward [] \<longleftrightarrow> True"
| "backward (op # ops) \<longleftrightarrow> set (ro_depends op) \<inter> set (map ro_id (op # ops)) = {} \<and> backward ops"

definition settled :: "opt_state \<Rightarrow> pystr set \<Rightarrow> pystr \<Rightarrow> bool" where
  "settled st future i \<longleftrightarrow> i \<notin> removed_names st \<and> i \<notin> future"

definition deps_inv :: "opt_state \<Rightarrow> pystr set \<Rightarrow> bool" where
  "deps_inv st future \<longleftrightarrow> removed_names st \<inter> future = {}
     \<and> (\<forall>k rs. map_of (os_replacements st) k = Some rs \<longrightarrow> (\<forall>x \<in> set rs. settled st future x))
     \<and> (\<forall>e \<in> set (os_last_copy st). settled st future (ro_id (snd e)))
     \<and> (\<forall>e \<in> set (os_buffers st). settled st future (ro_id (snd e)))"

lemma retained_mem:
  "retained_operation st op d = Some r \<Longrightarrow> r \<in> snd ` set (os_last_copy st) \<or> r \<in> snd ` set (os_buffers st)"
  by (force simp: retained_operation_def lookup_opt_Some split: if_splits dest: map_of_SomeD)

lemma record_removed_replacements:
  "map_of (os_replacements (record_removed op d st)) =
     (map_of (os_replacements st))(ro_id op \<mapsto>
        ordered_nub ((case retained_operation st op d of None \<Rightarrow> [] | Some r \<Rightarrow> [ro_id r]) @ ro_depends op))"
  by (simp add: record_removed_def Let_def map_of_alist_put split: option.split)

lemma opt_process_removed_names:
  assumes "opt_process op st = Inr ((op1, d), st')"
  shows "removed_names st' = (if d = None then removed_names st else insert (ro_id op) (removed_names st))"
  using assms by (auto simp: opt_process_eq_Inr removed_names_def record_removed_replacements split: option.splits)

lemma opt_process_replacements:
  assumes "opt_process op st = Inr ((op1, d), st')"
  shows "k \<noteq> ro_id op \<Longrightarrow> map_of (os_replacements st') k = map_of (os_replacements st) k"
    and "d \<noteq> None \<Longrightarrow> \<exists>rs. map_of (os_replacements st') (ro_id op) = Some rs \<and> set (ro_depends op1) \<subseteq> set rs"
  using assms by (auto simp: opt_process_eq_Inr record_removed_replacements split: option.splits)

lemma resolved_settled:
  assumes "deps_inv st F" and "set (ro_depends op) \<inter> F = {}"
    and "x \<in> set (resolve_dependencies (os_replacements st) (ro_depends op))"
  shows "settled st F x"
  using assms by (fastforce simp: set_resolve resolved_by_def deps_inv_def settled_def removed_names_def split: option.splits)

lemma opt_process_deps:
  assumes p: "opt_process op st = Inr ((op1, d), st')" and inv: "deps_inv st F"
    and F: "ro_id op \<in> F" "set (ro_depends op) \<inter> F = {}"
  shows "deps_inv st' (F - {ro_id op})" and "\<forall>x \<in> set (ro_depends op1). settled st F x"
proof -
  let ?st = "st\<lparr>os_ids := insert (ro_id op) (os_ids st)\<rparr>"
  have op1: "op1 = op\<lparr>ro_depends := resolve_dependencies (os_replacements st) (ro_depends op)\<rparr>"
    using p by (simp add: opt_process_eq_Inr)
  show deps: "\<forall>x \<in> set (ro_depends op1). settled st F x"
    using resolved_settled [OF inv F(2)] by (simp add: op1)
  have names: "removed_names st' = (if d = None then removed_names st else insert (ro_id op) (removed_names st))"
    by (rule opt_process_removed_names [OF p])
  have keep: "settled st' (F - {ro_id op}) x" if "settled st F x" for x
    using that F(1) names by (auto simp: settled_def)
  show "deps_inv st' (F - {ro_id op})"
  proof (cases d)
    case None
    then have st': "st' = record_kept op1 ?st" using p by (simp add: opt_process_eq_Inr)
    have self: "settled st' (F - {ro_id op}) (ro_id op1)"
      using names None inv F(1) by (auto simp: settled_def deps_inv_def op1)
    have "settled st' (F - {ro_id op}) (ro_id (snd e))" if "e \<in> set (os_last_copy st')" for e
      using that self keep inv record_kept_last_copy [of op1 ?st] by (auto simp: st' deps_inv_def)
    moreover have "settled st' (F - {ro_id op}) (ro_id (snd e))" if "e \<in> set (os_buffers st')" for e
      using that self keep inv record_kept_buffers [of op1 ?st] by (auto simp: st' deps_inv_def)
    ultimately show ?thesis using keep inv names None by (auto simp: deps_inv_def st')
  next
    case (Some d')
    then have st': "st' = record_removed op1 d' ?st" using p by (simp add: opt_process_eq_Inr)
    have ret: "settled st F (ro_id r)" if "retained_operation ?st op1 d' = Some r" for r
      using retained_mem [OF that] inv by (auto simp: deps_inv_def)
    have "settled st' (F - {ro_id op}) x" if "map_of (os_replacements st') k = Some rs" "x \<in> set rs" for k rs x
    proof (cases "k = ro_id op")
      case True
      then show ?thesis using that deps ret keep
        by (auto simp: st' record_removed_replacements op1 split: option.splits)
    next
      case False
      then show ?thesis using that inv keep by (auto simp: st' record_removed_replacements op1 deps_inv_def)
    qed
    then show ?thesis using keep inv names Some by (auto simp: deps_inv_def st')
  qed
qed

lemma steps_removed_names:
  assumes "steps ops st = Inr (rs, st')"
  shows "removed_names st' = removed_names st \<union> set (map rd_operation (decisions_of rs))"
    and "k \<notin> set (map ro_id ops) \<Longrightarrow> map_of (os_replacements st') k = map_of (os_replacements st) k"
proof -
  have "removed_names st' = removed_names st \<union> set (map rd_operation (decisions_of rs))
      \<and> (\<forall>k. k \<notin> set (map ro_id ops) \<longrightarrow> map_of (os_replacements st') k = map_of (os_replacements st) k)"
    using assms
  proof (induction ops arbitrary: st rs)
    case (Cons op ops)
    then obtain op1 d st1 rs' where p: "opt_process op st = Inr ((op1, d), st1)"
      and s: "steps ops st1 = Inr (rs', st')" and rs: "rs = (op1, d) # rs'"
      by (auto simp: ebind_eq_Inr)
    have "rd_operation d' = ro_id op" if "d = Some d'" for d'
      using steps_ids(3) [OF Cons.prems] rs that p by (auto simp: opt_process_eq_Inr)
    then show ?case using Cons.IH [OF s] opt_process_removed_names [OF p] opt_process_replacements(1) [OF p]
      by (cases d) (auto simp: rs)
  qed simp
  then show "removed_names st' = removed_names st \<union> set (map rd_operation (decisions_of rs))"
    and "k \<notin> set (map ro_id ops) \<Longrightarrow> map_of (os_replacements st') k = map_of (os_replacements st) k" by auto
qed

text \<open>In terms of the final replacements, a step resolves every dependency.\<close>

definition resolved_step :: "opt_state \<Rightarrow> runtime_operation \<Rightarrow> runtime_operation \<times> runtime_decision option \<Rightarrow> bool" where
  "resolved_step st op r \<longleftrightarrow> ro_id (fst r) = ro_id op
     \<and> set (ro_depends (fst r)) = (\<Union>x \<in> set (ro_depends op). resolved_by (os_replacements st) x)
     \<and> set (ro_depends (fst r)) \<inter> removed_names st = {}
     \<and> (snd r \<noteq> None \<longrightarrow> set (ro_depends (fst r)) \<subseteq> resolved_by (os_replacements st) (ro_id op))"

lemma steps_resolved:
  assumes "steps ops st = Inr (rs, st')" and "deps_inv st (set (map ro_id ops))" and "backward ops"
    and "distinct (map ro_id ops)"
  shows "list_all2 (resolved_step st') ops rs"
  using assms
proof (induction ops arbitrary: st rs)
  case (Cons op ops)
  then obtain op1 d st1 rs' where p: "opt_process op st = Inr ((op1, d), st1)"
    and s: "steps ops st1 = Inr (rs', st')" and rs: "rs = (op1, d) # rs'"
    by (auto simp: ebind_eq_Inr)
  let ?F = "set (map ro_id (op # ops))"
  have F: "ro_id op \<in> ?F" "set (ro_depends op) \<inter> ?F = {}" "?F - {ro_id op} = set (map ro_id ops)"
    using Cons.prems by auto
  have inv1: "deps_inv st1 (set (map ro_id ops))" and deps: "\<forall>x \<in> set (ro_depends op1). settled st ?F x"
    using opt_process_deps [OF p Cons.prems(2) F(1,2)] F(3) by auto
  have op1: "op1 = op\<lparr>ro_depends := resolve_dependencies (os_replacements st) (ro_depends op)\<rparr>"
    using p by (simp add: opt_process_eq_Inr)
  have later: "map_of (os_replacements st') k = map_of (os_replacements st) k" if "k \<notin> ?F" for k
    using steps_removed_names(2) [OF s, of k] opt_process_replacements(1) [OF p, of k] that by auto
  have "set (map rd_operation (decisions_of rs)) \<subseteq> ?F"
    using kept_decisions_mset [OF steps_ids(3) [OF Cons.prems(1)]] steps_ids(1) [OF Cons.prems(1)]
    by (metis mset_map set_mset_mset mset_subset_eq_add_right set_mset_mono)
  then have "set (ro_depends op1) \<inter> removed_names st' = {}"
    using deps steps_removed_names(1) [OF Cons.prems(1)] by (auto simp: settled_def)
  moreover have "set (ro_depends op1) = (\<Union>x \<in> set (ro_depends op). resolved_by (os_replacements st') x)"
    using F(2) later by (auto simp: op1 set_resolve resolved_by_def disjoint_iff)
  moreover have "set (ro_depends op1) \<subseteq> resolved_by (os_replacements st') (ro_id op)" if "d \<noteq> None"
  proof -
    obtain reps where "map_of (os_replacements st1) (ro_id op) = Some reps" "set (ro_depends op1) \<subseteq> set reps"
      using opt_process_replacements(2) [OF p] \<open>d \<noteq> None\<close> by auto
    moreover have "ro_id op \<notin> set (map ro_id ops)" using Cons.prems(4) by simp
    ultimately show ?thesis using steps_removed_names(2) [OF s] by (simp add: resolved_by_def)
  qed
  ultimately have "resolved_step st' op (op1, d)" by (simp add: resolved_step_def op1)
  then show ?case using Cons.IH [OF s inv1] Cons.prems by (simp add: rs)
qed simp


text \<open>Which operations an operation waits for, directly or through removed ones.\<close>

inductive needs :: "runtime_operation list \<Rightarrow> pystr set \<Rightarrow> pystr \<Rightarrow> pystr \<Rightarrow> bool"
  for ops :: "runtime_operation list" and removed :: "pystr set" where
  needs_direct: "op \<in> set ops \<Longrightarrow> b \<in> set (ro_depends op) \<Longrightarrow> needs ops removed (ro_id op) b"
| needs_through: "op \<in> set ops \<Longrightarrow> r \<in> set (ro_depends op) \<Longrightarrow> r \<in> removed \<Longrightarrow> needs ops removed r b
    \<Longrightarrow> needs ops removed (ro_id op) b"

lemma decisions_of_mem: "d \<in> set (decisions_of rs) \<longleftrightarrow> (\<exists>op. (op, Some d) \<in> set rs)"
  by (force simp: decisions_of_def)

lemma list_all2_right: "list_all2 P xs ys \<Longrightarrow> y \<in> set ys \<Longrightarrow> \<exists>x \<in> set xs. P x y"
  by (induction rule: list_all2_induct) auto

lemma distinct_map_eq: "distinct (map f xs) \<Longrightarrow> x \<in> set xs \<Longrightarrow> y \<in> set xs \<Longrightarrow> f x = f y \<Longrightarrow> x = y"
  by (auto simp: distinct_map inj_on_def)

lemma needs_resolved:
  assumes "needs ops (removed_names st) i b" and "b \<notin> removed_names st"
    and steps: "list_all2 (resolved_step st) ops rs" and dist: "distinct (map ro_id ops)"
    and rem: "\<forall>r \<in> removed_names st. \<exists>op1 d. (op1, Some d) \<in> set rs \<and> ro_id op1 = r"
    and "op \<in> set ops" and "ro_id op = i"
  shows "b \<in> (\<Union>x \<in> set (ro_depends op). resolved_by (os_replacements st) x)"
  using assms(1,2,6,7)
proof (induction arbitrary: op)
  case (needs_direct op' b)
  have "op = op'" using distinct_map_eq [OF dist] needs_direct by blast
  moreover have "resolved_by (os_replacements st) b = {b}"
    using needs_direct(3) by (auto simp: resolved_by_def removed_names_def split: option.split)
  ultimately show ?case using needs_direct by auto
next
  case (needs_through op' r b)
  have op: "op = op'" using distinct_map_eq [OF dist] needs_through by blast
  from rem needs_through(3) obtain op1 d where "(op1, Some d) \<in> set rs" "ro_id op1 = r" by blast
  then obtain opr where "opr \<in> set ops" "resolved_step st opr (op1, Some d)"
    using list_all2_right [OF steps] by blast
  then have "b \<in> resolved_by (os_replacements st) r"
    using needs_through.IH [of opr] needs_through.prems(1) \<open>ro_id op1 = r\<close> by (auto simp: resolved_step_def)
  then show ?case using op needs_through(2) by auto
qed

lemma plan_steps:
  assumes "optimize_manifest m = Inr p"
  obtains rs st where "steps (rm_operations m) (new_opt_state (rm_resources m)) = Inr (rs, st)"
    and "rp_kept p = kept_of rs" and "rp_decisions p = decisions_of rs"
    and "distinct (map ro_id (rm_operations m))" and "map (ro_id \<circ> fst) rs = map ro_id (rm_operations m)"
    and "\<forall>(op, d) \<in> set rs. \<forall>d'. d = Some d' \<longrightarrow> rd_operation d' = ro_id op"
    and "rp_original p = length (rm_operations m)" and "rp_optimized p = length (kept_of rs)"
proof -
  from assms obtain rs st where s: "steps (rm_operations m) (new_opt_state (rm_resources m)) = Inr (rs, st)"
    and p: "rp_kept p = kept_of rs" "rp_decisions p = decisions_of rs" "rp_original p = length (rm_operations m)"
      "rp_optimized p = length (kept_of rs)"
    by (auto simp: optimize_manifest_steps)
  have "distinct (map ro_id (rm_operations m))"
    using steps_total_iff [of "rm_operations m" "new_opt_state (rm_resources m)"] s by auto
  with s p steps_ids [OF s] show ?thesis by (intro that)
qed

lemma plan_dependencies_settled:
  assumes plan: "optimize_manifest m = Inr p" and bw: "backward (rm_operations m)"
    and k: "k \<in> set (rp_kept p)"
  shows "set (ro_depends k) \<inter> set (map rd_operation (rp_decisions p)) = {}"
    and "needs (rm_operations m) (set (map rd_operation (rp_decisions p))) (ro_id k) b
      \<Longrightarrow> b \<notin> set (map rd_operation (rp_decisions p)) \<Longrightarrow> b \<in> set (ro_depends k)"
proof -
  let ?ops = "rm_operations m"
  from plan obtain rs st where s: "steps ?ops (new_opt_state (rm_resources m)) = Inr (rs, st)"
    and p: "rp_kept p = kept_of rs" "rp_decisions p = decisions_of rs" and dist: "distinct (map ro_id ?ops)"
    and names: "\<forall>(op, d) \<in> set rs. \<forall>d'. d = Some d' \<longrightarrow> rd_operation d' = ro_id op"
    by (rule plan_steps)
  have res: "list_all2 (resolved_step st) ?ops rs"
    by (rule steps_resolved [OF s _ bw dist]) (simp add: deps_inv_def new_opt_state_def removed_names_def)
  have rem: "removed_names st = set (map rd_operation (rp_decisions p))"
    using steps_removed_names(1) [OF s] by (simp add: p new_opt_state_def removed_names_def)
  have rem_mem: "\<forall>r \<in> removed_names st. \<exists>op1 d. (op1, Some d) \<in> set rs \<and> ro_id op1 = r"
    using names by (fastforce simp: rem p decisions_of_mem)
  from k have "(k, None) \<in> set rs" by (auto simp: p kept_of_def)
  then obtain op where op: "op \<in> set ?ops" and r: "resolved_step st op (k, None)"
    using list_all2_right [OF res] by blast
  show "set (ro_depends k) \<inter> set (map rd_operation (rp_decisions p)) = {}"
    using r rem unfolding resolved_step_def fst_conv by blast
  show "b \<in> set (ro_depends k)"
    if "needs ?ops (set (map rd_operation (rp_decisions p))) (ro_id k) b"
      "b \<notin> set (map rd_operation (rp_decisions p))"
    using needs_resolved [OF that(1)[folded rem] that(2)[folded rem] res dist rem_mem op] r
    by (simp add: resolved_step_def)
qed


section \<open>Properties of the optimizer\<close>

text \<open>C4: Whatever executing the operations a plan keeps may leave in the resources, executing all the operations
  of the manifest may leave too: the optimizer removes no operation that matters to the data. The data is any
  type whose transfers are idempotent and do nothing between equal data.\<close>

theorem plan_refines_data:
  assumes "optimize_manifest m = Inr p" and "resources_ok (rm_resources m)" and "data_laws dm (rm_resources m)"
    and "coherent (rm_resources m) mem" and "exec_ops dm (rm_resources m) (rp_kept p) mem mem'"
  shows "exec_ops dm (rm_resources m) (rm_operations m) mem mem'"
proof -
  from assms(1) obtain rs st where s: "steps (rm_operations m) (new_opt_state (rm_resources m)) = Inr (rs, st)"
    and k: "rp_kept p = kept_of rs" by (rule plan_steps)
  have "data_inv dm (new_opt_state (rm_resources m)) mem" by (rule new_opt_state_inv) (rule assms(4))
  moreover have "os_resources (new_opt_state (rm_resources m)) = rm_resources m" by (simp add: new_opt_state_def)
  ultimately show ?thesis using steps_refine [OF s, of dm mem mem'] assms k by simp
qed

text \<open>C13: In a manifest whose operations wait only for earlier ones, no kept operation of the plan waits for a removed one,
  and each still waits for every kept operation it waited for directly or through removed ones.\<close>

theorem plan_dependencies:
  assumes "optimize_manifest m = Inr p" and "backward (rm_operations m)" and "k \<in> set (rp_kept p)"
  shows "set (ro_depends k) \<inter> set (map rd_operation (rp_decisions p)) = {}
    \<and> {b. needs (rm_operations m) (set (map rd_operation (rp_decisions p))) (ro_id k) b}
        - set (map rd_operation (rp_decisions p)) \<subseteq> set (ro_depends k)"
  using plan_dependencies_settled [OF assms] by blast

text \<open>C22: The optimizer returns a plan exactly when no operation id repeats, and then every operation is either kept or
  decided on, once, and the counts say so; otherwise it raises the error that names the first repeated id.\<close>

theorem optimize_accounts:
  "case first_repeated {} (map ro_id (rm_operations m)) of
     None \<Rightarrow> \<exists>p. optimize_manifest m = Inr p
       \<and> mset (map ro_id (rp_kept p)) + mset (map rd_operation (rp_decisions p)) = mset (map ro_id (rm_operations m))
       \<and> rp_optimized p = length (rp_kept p) \<and> rp_original p = length (rp_kept p) + length (rp_decisions p)
   | Some i \<Rightarrow> optimize_manifest m = Inl (ValueError (lit ''Duplicate operation id: '' @ i))"
proof (cases "first_repeated {} (map ro_id (rm_operations m))")
  case None
  then obtain rs st where "steps (rm_operations m) (new_opt_state (rm_resources m)) = Inr (rs, st)"
    using steps_total_iff [of "rm_operations m" "new_opt_state (rm_resources m)"]
    by (auto simp: first_repeated_None new_opt_state_def)
  then obtain p where p: "optimize_manifest m = Inr p" by (auto simp: optimize_manifest_steps)
  then obtain rs where rs: "rp_kept p = kept_of rs" "rp_decisions p = decisions_of rs"
      "map (ro_id \<circ> fst) rs = map ro_id (rm_operations m)" "rp_original p = length (rm_operations m)"
      "rp_optimized p = length (kept_of rs)"
      "\<forall>(op, d) \<in> set rs. \<forall>d'. d = Some d' \<longrightarrow> rd_operation d' = ro_id op"
    by (rule plan_steps)
  have ms: "mset (map ro_id (rp_kept p)) + mset (map rd_operation (rp_decisions p)) = mset (map ro_id (rm_operations m))"
    using kept_decisions_mset [OF rs(6)] rs by simp
  then have "length (rp_kept p) + length (rp_decisions p) = length (rm_operations m)"
    by (metis length_map size_mset size_union)
  then show ?thesis using None p rs ms by auto
next
  case (Some i)
  have "steps (rm_operations m) (new_opt_state (rm_resources m)) = Inl (ValueError (lit ''Duplicate operation id: '' @ i))"
    using Some by (simp add: steps_Inl new_opt_state_def)
  then show ?thesis using Some by (simp add: optimize_manifest_def optimize_loop_steps)
qed

text \<open>C14: Invalidating a resource stops at every input and forgets exactly the recorded transfers whose target or source is
  connected to it by a chain of views of the same data in one memory layer; for an unknown resource it forgets all.\<close>

theorem invalidation_exact:
  assumes "resources_ok (os_resources st)"
  shows "invalidate_resource rid st = st\<lparr>os_last_copy := (case rid of None \<Rightarrow> []
    | Some r \<Rightarrow> if r \<notin> fst ` set (os_resources st) then []
       else filter (\<lambda>(t, prev). (r, t) \<notin> (alias_rel (os_resources st))\<^sup>*
         \<and> (\<forall>s \<in> set_option (ro_source prev). (r, s) \<notin> (alias_rel (os_resources st))\<^sup>*)) (os_last_copy st))\<rparr>"
proof -
  have "filter (\<lambda>e. \<not> touches (alias_class res r) e) lc = filter (\<lambda>(t, prev). (r, t) \<notin> (alias_rel res)\<^sup>*
         \<and> (\<forall>s \<in> set_option (ro_source prev). (r, s) \<notin> (alias_rel res)\<^sup>*)) lc" for res r lc
    by (rule filter_cong) (auto simp: touches_def alias_class_def)
  then have "os_last_copy (invalidate_resource rid st) = (case rid of None \<Rightarrow> []
    | Some r \<Rightarrow> if r \<notin> fst ` set (os_resources st) then []
       else filter (\<lambda>(t, prev). (r, t) \<notin> (alias_rel (os_resources st))\<^sup>*
         \<and> (\<forall>s \<in> set_option (ro_source prev). (r, s) \<notin> (alias_rel (os_resources st))\<^sup>*)) (os_last_copy st))"
    by (simp add: invalidate_last_copy [OF assms] split: option.split)
  then show ?thesis by (intro opt_state.equality) simp_all
qed

section \<open>Witnesses\<close>

definition demo_resource :: "string \<Rightarrow> string \<Rightarrow> string list \<Rightarrow> pystr \<times> runtime_resource" where
  "demo_resource i mem aliases = (lit i, \<lparr>rs_id = lit i, rs_kind = lit ''buffer'', rs_memory = lit mem, rs_size = Fin 4,
     rs_lifetime = lit ''frame'', rs_aliases = map lit aliases\<rparr>)"

definition demo_operation :: "string \<Rightarrow> string \<Rightarrow> string option \<Rightarrow> string option \<Rightarrow> string list \<Rightarrow> runtime_operation" where
  "demo_operation i ty s t deps = \<lparr>ro_id = lit i, ro_type = lit ty, ro_source = map_option lit s, ro_target = map_option lit t,
     ro_queue = lit ''q'', ro_reason = [], ro_cost = Fin 1, ro_size = Fin 4, ro_frame = Some 1, ro_depends = map lit deps\<rparr>"

definition demo_runtime :: runtime_manifest where
  "demo_runtime = \<lparr>rm_name = lit ''demo'',
     rm_resources = [demo_resource ''a'' ''ram'' [''x''], demo_resource ''b'' ''ram'' [''x'', ''y''],
       demo_resource ''c'' ''ram'' [''y''], demo_resource ''d'' ''vram'' []],
     rm_operations = [demo_operation ''o1'' ''copy'' (Some ''a'') (Some ''d'') [],
       demo_operation ''o2'' ''copy'' (Some ''a'') (Some ''d'') [],
       demo_operation ''o3'' ''sync'' None None [''o2'']]\<rparr>"

definition demo_plan :: runtime_plan where
  "demo_plan = \<lparr>rp_mode = lit ''runtime-optimizer-v0.4-manifest'', rp_manifest = lit ''demo'', rp_original = 3, rp_optimized = 2,
     rp_saved_ms = Fin 1, rp_saved_mb = Fin 4,
     rp_kept = [demo_operation ''o1'' ''copy'' (Some ''a'') (Some ''d'') [], demo_operation ''o3'' ''sync'' None None [''o1'']],
     rp_decisions = [make_decision (demo_operation ''o2'' ''copy'' (Some ''a'') (Some ''d'') []) ''remove''
       ''deduplicate-identical-transfer'' ''Previous transfer already populated the same target from the same source.'' (Fin 1) (Fin 4)],
     rp_warnings = []\<rparr>"

lemma demo_plan_computed: "optimize_manifest demo_runtime = Inr demo_plan"
  by code_simp

definition demo_data :: "nat data_model" where
  "demo_data = \<lparr>dm_copy = (\<lambda>n d s. s), dm_write = (\<lambda>op mem. 0), dm_opaque = (\<lambda>op mem. mem)\<rparr>"

definition demo_memory :: "pystr \<Rightarrow> nat" where
  "demo_memory x = (if x = lit ''d'' then 0 else 5)"

lemma demo_resources_ok: "resources_ok (rm_resources demo_runtime)"
  by (simp add: resources_ok_def demo_runtime_def demo_resource_def)

lemma demo_memory_coherent: "coherent (rm_resources demo_runtime) demo_memory"
  by (auto simp: coherent_def alias_rel_def shares_alias_def demo_runtime_def demo_resource_def demo_memory_def split: if_splits)

lemma demo_kept_exec:
  "exec_ops demo_data (rm_resources demo_runtime) (rp_kept demo_plan) demo_memory
     (write_class (rm_resources demo_runtime) (lit ''d'') 5 demo_memory)"
proof -
  let ?res = "rm_resources demo_runtime"
  let ?o1 = "demo_operation ''o1'' ''copy'' (Some ''a'') (Some ''d'') []"
  let ?o3 = "demo_operation ''o3'' ''sync'' None None [''o1'']"
  have "exec_op demo_data ?res ?o1 demo_memory
      (write_class ?res (lit ''d'') (dm_copy demo_data (ro_size ?o1) (demo_memory (lit ''d'')) (demo_memory (lit ''a''))) demo_memory)"
    by (rule exec_transfer) (simp_all add: demo_operation_def is_transfer_def demo_runtime_def demo_resource_def)
  moreover have "exec_op demo_data ?res ?o3 mem mem" for mem
    by (rule exec_no_write) (simp add: demo_operation_def is_writer_def)
  ultimately show ?thesis by (auto simp: demo_plan_def demo_data_def demo_memory_def)
qed

text \<open>
  Why the operations have to wait for earlier ones only: an id is replaced by what is known of it when its operation is processed, so an
  operation that waits for a later one, which a decision then removes, stays in the plan waiting for an operation the plan does not hold.
\<close>

definition forward_runtime :: runtime_manifest where
  "forward_runtime = demo_runtime\<lparr>rm_operations := [demo_operation ''o1'' ''copy'' (Some ''a'') (Some ''d'') [],
     demo_operation ''o3'' ''sync'' None None [''o2''], demo_operation ''o2'' ''copy'' (Some ''a'') (Some ''d'') []]\<rparr>"

definition forward_plan :: runtime_plan where
  "forward_plan = demo_plan\<lparr>rp_kept := [demo_operation ''o1'' ''copy'' (Some ''a'') (Some ''d'') [],
     demo_operation ''o3'' ''sync'' None None [''o2'']]\<rparr>"

lemma forward_dependency_kept:
  "optimize_manifest forward_runtime = Inr forward_plan
    \<and> demo_operation ''o3'' ''sync'' None None [''o2''] \<in> set (rp_kept forward_plan)
    \<and> lit ''o2'' \<in> set (map rd_operation (rp_decisions forward_plan)) \<and> \<not> backward (rm_operations forward_runtime)"
proof (intro conjI)
  show "optimize_manifest forward_runtime = Inr forward_plan" by code_simp
  show "\<not> backward (rm_operations forward_runtime)"
    by (simp add: forward_runtime_def demo_operation_def lit_def)
qed (simp_all add: forward_plan_def demo_plan_def make_decision_def demo_operation_def)

theorem plan_refines_data_witness:
  "exec_ops demo_data (rm_resources demo_runtime) (rm_operations demo_runtime) demo_memory
     (write_class (rm_resources demo_runtime) (lit ''d'') 5 demo_memory)"
  by (rule plan_refines_data [OF demo_plan_computed demo_resources_ok _ demo_memory_coherent demo_kept_exec])
    (simp add: data_laws_def demo_data_def)

theorem plan_dependencies_witness:
  "lit ''o1'' \<in> set (ro_depends (demo_operation ''o3'' ''sync'' None None [''o1'']))
   \<and> needs (rm_operations demo_runtime) {lit ''o2''} (lit ''o3'') (lit ''o2'')
   \<and> lit ''o2'' \<notin> set (ro_depends (demo_operation ''o3'' ''sync'' None None [''o1'']))"
proof -
  have removed: "set (map rd_operation (rp_decisions demo_plan)) = {lit ''o2''}"
    by (simp add: demo_plan_def make_decision_def demo_operation_def)
  have "set (ro_depends (demo_operation ''o3'' ''sync'' None None [''o1''])) \<inter> {lit ''o2''} = {}"
    using plan_dependencies [OF demo_plan_computed, of "demo_operation ''o3'' ''sync'' None None [''o1'']"] removed
    by (simp add: demo_runtime_def demo_operation_def demo_plan_def)
  moreover have "needs (rm_operations demo_runtime) {lit ''o2''} (ro_id (demo_operation ''o3'' ''sync'' None None [''o2''])) (lit ''o2'')"
    by (rule needs_direct) (simp_all add: demo_runtime_def demo_operation_def)
  ultimately show ?thesis by (simp add: demo_operation_def)
qed

theorem invalidation_exact_witness:
  "os_last_copy (invalidate_resource None (new_opt_state (rm_resources demo_runtime))) = []
   \<and> os_last_copy (invalidate_resource (Some (lit ''a''))
      ((new_opt_state (rm_resources demo_runtime))\<lparr>os_last_copy :=
         [(lit ''c'', demo_operation ''o9'' ''copy'' (Some ''d'') (Some ''c'') [])]\<rparr>)) = []"
proof -
  let ?st = "(new_opt_state (rm_resources demo_runtime))\<lparr>os_last_copy :=
         [(lit ''c'', demo_operation ''o9'' ''copy'' (Some ''d'') (Some ''c'') [])]\<rparr>"
  have ok: "resources_ok (os_resources ?st)" using demo_resources_ok by (simp add: new_opt_state_def)
  have "(lit ''a'', lit ''b'') \<in> alias_rel (os_resources ?st)" "(lit ''b'', lit ''c'') \<in> alias_rel (os_resources ?st)"
    by (simp_all add: alias_rel_def new_opt_state_def demo_runtime_def demo_resource_def shares_alias_def)
  then have "(lit ''a'', lit ''c'') \<in> (alias_rel (os_resources ?st))\<^sup>*" by (rule rtrancl_into_rtrancl [OF r_into_rtrancl])
  then have "os_last_copy (invalidate_resource (Some (lit ''a'')) ?st) = []"
    by (subst invalidation_exact [OF ok]) simp
  then show ?thesis by (simp add: invalidate_resource_def)
qed

end
