(* ===== verification/Event_Stream.thy ===== *)
theory Event_Stream
  imports Runtime_Deps
begin

text \<open>
  The incremental controller (\<^verbatim>\<open>src/fluidgateway/control.py\<close>) and the replay of an event stream
  through it (\<^verbatim>\<open>src/fluidgateway/events.py\<close>). The controller's dictionary of resources is the
  optimizer's own, so it is the one in the optimizer's state. Reading the lines of the file and
  \<^verbatim>\<open>json.loads\<close> are not modelled: a stream is the list of its line numbers and objects.
\<close>

section \<open>Controller\<close>

record controller_result =
  cr_operation :: runtime_operation
  cr_decision :: "runtime_decision option"
  cr_executed :: bool

definition result_pairs :: "controller_result \<Rightarrow> pydict" where
  "result_pairs r =
    [(lit ''operation'', operation_to_dict (cr_operation r)),
     (lit ''decision'', (case cr_decision r of None \<Rightarrow> PNone | Some d \<Rightarrow> decision_to_dict d)),
     (lit ''executed'', PBool (cr_executed r))]"

record controller =
  ct_optimization :: opt_state
  ct_executed :: "runtime_operation list"
  ct_decisions :: "runtime_decision list"

definition new_controller :: controller where
  "new_controller = \<lparr>ct_optimization = new_opt_state [], ct_executed = [], ct_decisions = []\<rparr>"

definition ct_resources :: "controller \<Rightarrow> resources" where
  "ct_resources c = os_resources (ct_optimization c)"

definition register_resource :: "controller \<Rightarrow> pystr \<Rightarrow> pystr \<Rightarrow> pystr \<Rightarrow> pyval \<Rightarrow> pystr \<Rightarrow> pystr list
    \<Rightarrow> (runtime_resource \<times> controller) res" where
  "register_resource c rid kind mem sz life aliases =
    ebind (parse_resource (PDict
      [(lit ''id'', PStr rid), (lit ''kind'', PStr kind), (lit ''memory'', PStr mem), (lit ''size_mb'', sz),
       (lit ''lifetime'', PStr life), (lit ''aliases'', str_list aliases)])) (\<lambda>r.
    if rs_id r \<in> fst ` set (ct_resources c) then value_error (lit ''Duplicate resource id: '' @ rs_id r)
    else Inr (r, c\<lparr>ct_optimization := (ct_optimization c)\<lparr>os_resources := ct_resources c @ [(rs_id r, r)]\<rparr>\<rparr>))"

definition submit_operation :: "controller \<Rightarrow> pystr \<Rightarrow> pystr \<Rightarrow> pystr option \<Rightarrow> pystr option \<Rightarrow> pystr \<Rightarrow> pystr
    \<Rightarrow> pyval \<Rightarrow> pyval \<Rightarrow> int option \<Rightarrow> pystr list \<Rightarrow> (controller_result \<times> controller) res" where
  "submit_operation c oid ty src tgt queue reason cost sz frame deps =
    ebind (parse_operation (PDict
      [(lit ''id'', PStr oid), (lit ''type'', PStr ty), (lit ''source'', opt_str src), (lit ''target'', opt_str tgt),
       (lit ''queue'', PStr queue), (lit ''reason'', PStr reason), (lit ''cost_ms'', cost), (lit ''size_mb'', sz),
       (lit ''frame'', opt_int frame), (lit ''depends_on'', str_list deps)])) (\<lambda>op.
    ebind (opt_process op (ct_optimization c)) (\<lambda>((op1, decision), st).
    Inr (case decision of
        Some d \<Rightarrow> (\<lparr>cr_operation = op1, cr_decision = Some d, cr_executed = False\<rparr>,
          c\<lparr>ct_optimization := st, ct_decisions := ct_decisions c @ [d]\<rparr>)
      | None \<Rightarrow> (\<lparr>cr_operation = op1, cr_decision = None, cr_executed = True\<rparr>,
          c\<lparr>ct_optimization := st, ct_executed := ct_executed c @ [op1]\<rparr>))))"

definition controller_release :: "controller \<Rightarrow> pystr \<Rightarrow> runtime_resource option \<times> controller" where
  "controller_release c rid = (case release_resource rid (ct_optimization c) of (r, st) \<Rightarrow> (r, c\<lparr>ct_optimization := st\<rparr>))"

definition snapshot :: "controller \<Rightarrow> pyval" where
  "snapshot c = PDict
    [(lit ''mode'', PStr (lit ''runtime-control-plane-v0.5'')),
     (lit ''resources'', PList (map (resource_to_dict \<circ> snd) (ct_resources c))),
     (lit ''executed_operations'', PList (map operation_to_dict (ct_executed c))),
     (lit ''decisions'', PList (map decision_to_dict (ct_decisions c))),
     (lit ''estimated_saved_ms'', PFloat (fround 4 (fsum (map rd_saved_ms (ct_decisions c))))),
     (lit ''estimated_saved_mb'', PFloat (fround 4 (fsum (map rd_saved_mb (ct_decisions c)))))]"

section \<open>Events\<close>

definition as_string_list :: "pyval \<Rightarrow> pystr list res" where
  "as_string_list v = (case v of PList xs \<Rightarrow> Inr (map py_str xs) | _ \<Rightarrow> value_error (lit ''Expected a list value.''))"

definition register_resource_event :: "controller \<Rightarrow> pydict \<Rightarrow> (runtime_resource \<times> controller) res" where
  "register_resource_event c p =
    (let rid = py_or (dget p ''id'') (dget p ''resource_id'') in
     if \<not> truthy rid then value_error (lit ''Resource event requires 'id' or 'resource_id'.'') else
     ebind (as_string_list (py_or (dget p ''aliases'') (PList []))) (\<lambda>aliases.
     register_resource c (py_str rid) (py_str (py_or (dget p ''kind'') (PStr (lit ''unknown''))))
       (py_str (py_or (dget p ''memory'') (PStr (lit ''ram'')))) (dget p ''size_mb'')
       (py_str (py_or (dget p ''lifetime'') (PStr (lit ''unknown'')))) aliases))"

definition submit_operation_event :: "controller \<Rightarrow> pydict \<Rightarrow> (controller_result \<times> controller) res" where
  "submit_operation_event c p =
    (let oid = py_or (dget p ''id'') (dget p ''operation_id'');
         ty = py_or (py_or (dget p ''operation_type'') (dget p ''op'')) (dget p ''kind'') in
     if \<not> truthy oid then value_error (lit ''Operation event requires 'id' or 'operation_id'.'')
     else if \<not> truthy ty
       then value_error (lit ''Operation event '' @ py_str oid @ lit '' requires an operation type.'') else
     ebind (parse_frame (dget p ''frame'')) (\<lambda>frame.
     ebind (as_string_list (py_or (dget p ''depends_on'') (PList []))) (\<lambda>deps.
     submit_operation c (py_str oid) (py_str ty) (optional_text_of (dget p ''source'')) (optional_text_of (dget p ''target''))
       (py_str (py_or (dget p ''queue'') (PStr (lit ''unknown'')))) (py_str (py_or (dget p ''reason'') (PStr [])))
       (dget p ''cost_ms'') (dget p ''size_mb'') frame deps)))"

definition event_type_of :: "pydict \<Rightarrow> pystr" where
  "event_type_of p = py_lower (py_strip (py_str (py_or (py_or (dget p ''event'') (dget p ''type'')) (PStr []))))"

definition process_event_payload :: "controller \<Rightarrow> pydict \<Rightarrow> int option \<Rightarrow> (pydict \<times> controller) res" where
  "process_event_payload c p index =
    (let ty = event_type_of p;
         mark = (case index of None \<Rightarrow> [] | Some i \<Rightarrow> [(lit ''event_index'', PInt i)]) in
     if ty = lit ''resource'' then
       ebind (register_resource_event c p) (\<lambda>(r, c1).
       Inr ([(lit ''ok'', PBool True), (lit ''event'', PStr (lit ''resource'')), (lit ''resource'', resource_to_dict r)] @ mark, c1))
     else if ty = lit ''operation'' then
       ebind (submit_operation_event c p) (\<lambda>(r, c1).
       Inr ([(lit ''ok'', PBool True), (lit ''event'', PStr (lit ''operation'')), (lit ''result'', PDict (mark @ result_pairs r))] @ mark, c1))
     else value_error (lit ''Unsupported event type: '' @ (if ty = [] then lit ''missing'' else ty)))"

record replay_result =
  er_mode :: pystr
  er_events :: nat
  er_resources :: nat
  er_operations :: nat
  er_results :: "pyval list"
  er_snapshot :: pyval

definition replay_to_dict :: "replay_result \<Rightarrow> pyval" where
  "replay_to_dict r = PDict
    [(lit ''mode'', PStr (er_mode r)), (lit ''events_processed'', PInt (int (er_events r))),
     (lit ''resource_events'', PInt (int (er_resources r))), (lit ''operation_events'', PInt (int (er_operations r))),
     (lit ''results'', PList (er_results r)), (lit ''snapshot'', er_snapshot r)]"

definition replay_event :: "int \<times> pydict \<Rightarrow> replay_result \<times> controller \<Rightarrow> (replay_result \<times> controller) res" where
  "replay_event e rc = (case (e, rc) of ((index, payload), (r, c)) \<Rightarrow>
     ebind (process_event_payload c payload (Some index)) (\<lambda>(response, c1).
     let r1 = r\<lparr>er_events := er_events r + 1\<rparr>; ty = dget response ''event'' in
     Inr (if ty = PStr (lit ''resource'') then r1\<lparr>er_resources := er_resources r + 1\<rparr>
       else if ty = PStr (lit ''operation'')
         then r1\<lparr>er_operations := er_operations r + 1, er_results := er_results r @ [dget response ''result'']\<rparr>
       else r1, c1)))"

definition replay_event_stream :: "(int \<times> pydict) list \<Rightarrow> replay_result res" where
  "replay_event_stream events =
    ebind (efold replay_event events
      (\<lparr>er_mode = lit ''runtime-event-stream-v0.6'', er_events = 0, er_resources = 0, er_operations = 0, er_results = [],
        er_snapshot = PNone\<rparr>, new_controller)) (\<lambda>(r, c).
    Inr (r\<lparr>er_snapshot := snapshot c\<rparr>))"

section \<open>Streaming a manifest\<close>

definition resource_event :: "runtime_resource \<Rightarrow> pydict" where
  "resource_event r = (lit ''event'', PStr (lit ''resource'')) # (case resource_to_dict r of PDict d \<Rightarrow> d | _ \<Rightarrow> [])"

definition operation_event :: "runtime_operation \<Rightarrow> pydict" where
  "operation_event op = (lit ''event'', PStr (lit ''operation'')) # (lit ''operation_type'', PStr (ro_type op))
     # (case operation_to_dict op of PDict d \<Rightarrow> d | _ \<Rightarrow> [])"

definition manifest_events :: "runtime_manifest \<Rightarrow> pydict list" where
  "manifest_events m = map (resource_event \<circ> snd) (rm_resources m) @ map operation_event (rm_operations m)"

lemma as_string_list_str_list: "as_string_list (py_or (str_list xs) (PList [])) = Inr xs"
  using py_or_str_list [of xs] by (auto simp: as_string_list_def)

lemma register_resource_event_ok:
  assumes "resource_ok r" and "rs_id r \<notin> fst ` set (ct_resources c)"
  shows "register_resource_event c (resource_event r) =
    Inr (r, c\<lparr>ct_optimization := (ct_optimization c)\<lparr>os_resources := ct_resources c @ [(rs_id r, r)]\<rparr>\<rparr>)"
proof -
  have ne: "rs_id r \<noteq> []" "rs_kind r \<noteq> []" "rs_memory r \<noteq> []" "rs_lifetime r \<noteq> []"
    using assms(1) choice_names_lowercase by (auto simp: resource_ok_def name_ok_def)
  have "register_resource_event c (resource_event r) = register_resource c (rs_id r) (rs_kind r) (rs_memory r)
      (PFloat (rs_size r)) (rs_lifetime r) (rs_aliases r)"
    using ne by (simp add: register_resource_event_def resource_event_def resource_to_dict_def py_or_PStr truthy_def
        as_string_list_str_list)
  moreover have "PDict [(lit ''id'', PStr (rs_id r)), (lit ''kind'', PStr (rs_kind r)), (lit ''memory'', PStr (rs_memory r)),
     (lit ''size_mb'', PFloat (rs_size r)), (lit ''lifetime'', PStr (rs_lifetime r)),
     (lit ''aliases'', str_list (rs_aliases r))] = resource_to_dict r" by (simp add: resource_to_dict_def)
  ultimately show ?thesis using assms by (simp add: register_resource_def parse_resource_to_dict)
qed

lemma submit_operation_event_ok:
  assumes "operation_ok op"
  shows "submit_operation_event c (operation_event op) = submit_operation c (ro_id op) (ro_type op) (ro_source op) (ro_target op)
    (ro_queue op) (ro_reason op) (PFloat (ro_cost op)) (PFloat (ro_size op)) (ro_frame op) (ro_depends op)"
proof -
  have ne: "ro_id op \<noteq> []" "ro_type op \<noteq> []" "ro_queue op \<noteq> []"
    using assms choice_names_lowercase by (auto simp: operation_ok_def name_ok_def)
  show ?thesis
    using ne assms by (simp add: submit_operation_event_def operation_event_def operation_to_dict_def py_or_PStr truthy_def
        as_string_list_str_list py_or_PStr_default optional_text_of_fix operation_ok_def)
qed

definition step_result :: "runtime_operation \<times> runtime_decision option \<Rightarrow> controller_result" where
  "step_result r = \<lparr>cr_operation = fst r, cr_decision = snd r, cr_executed = (snd r = None)\<rparr>"

lemma submit_operation_ok:
  assumes "operation_ok op"
  shows "submit_operation c (ro_id op) (ro_type op) (ro_source op) (ro_target op)
    (ro_queue op) (ro_reason op) (PFloat (ro_cost op)) (PFloat (ro_size op)) (ro_frame op) (ro_depends op)
    = ebind (opt_process op (ct_optimization c)) (\<lambda>(r, st). Inr (step_result r,
        c\<lparr>ct_optimization := st, ct_executed := ct_executed c @ kept_of [r], ct_decisions := ct_decisions c @ decisions_of [r]\<rparr>))"
proof -
  have "PDict [(lit ''id'', PStr (ro_id op)), (lit ''type'', PStr (ro_type op)), (lit ''source'', opt_str (ro_source op)),
     (lit ''target'', opt_str (ro_target op)), (lit ''queue'', PStr (ro_queue op)), (lit ''reason'', PStr (ro_reason op)),
     (lit ''cost_ms'', PFloat (ro_cost op)), (lit ''size_mb'', PFloat (ro_size op)), (lit ''frame'', opt_int (ro_frame op)),
     (lit ''depends_on'', str_list (ro_depends op))] = operation_to_dict op" by (simp add: operation_to_dict_def)
  then show ?thesis
    by (cases "opt_process op (ct_optimization c)")
      (auto simp: submit_operation_def parse_operation_to_dict [OF assms] step_result_def split: option.split)
qed

lemma event_types [simp]:
  "event_type_of (resource_event r) = lit ''resource''" "event_type_of (operation_event op) = lit ''operation''"
proof -
  have "py_lower (py_strip (lit ''resource'')) = lit ''resource''" "py_lower (py_strip (lit ''operation'')) = lit ''operation''"
    by code_simp+
  then show "event_type_of (resource_event r) = lit ''resource''" "event_type_of (operation_event op) = lit ''operation''"
    by (simp_all add: event_type_of_def resource_event_def operation_event_def py_or_def truthy_def)
qed

lemma replay_resource_event:
  assumes "resource_ok q" and "rs_id q \<notin> fst ` set (ct_resources c)"
  shows "replay_event (i, resource_event q) (r, c) = Inr (r\<lparr>er_events := er_events r + 1, er_resources := er_resources r + 1\<rparr>,
    c\<lparr>ct_optimization := (ct_optimization c)\<lparr>os_resources := ct_resources c @ [(rs_id q, q)]\<rparr>\<rparr>)"
  by (simp add: replay_event_def process_event_payload_def register_resource_event_ok [OF assms] Let_def)

lemma replay_operation_event:
  assumes "operation_ok op"
  shows "replay_event (i, operation_event op) (r, c) = ebind (opt_process op (ct_optimization c)) (\<lambda>(x, st).
    Inr (r\<lparr>er_events := er_events r + 1, er_operations := er_operations r + 1,
        er_results := er_results r @ [PDict ((lit ''event_index'', PInt i) # result_pairs (step_result x))]\<rparr>,
      c\<lparr>ct_optimization := st, ct_executed := ct_executed c @ kept_of [x], ct_decisions := ct_decisions c @ decisions_of [x]\<rparr>))"
  by (cases "opt_process op (ct_optimization c)")
    (auto simp: replay_event_def process_event_payload_def submit_operation_event_ok [OF assms] submit_operation_ok [OF assms])

lemma replay_resources:
  assumes "\<forall>r \<in> set rs. resource_ok r" and "distinct (map fst (ct_resources c) @ map rs_id rs)" and "length ns = length rs"
  shows "efold replay_event (zip ns (map resource_event rs)) (r, c) =
    Inr (r\<lparr>er_events := er_events r + length rs, er_resources := er_resources r + length rs\<rparr>,
      c\<lparr>ct_optimization := (ct_optimization c)\<lparr>os_resources := ct_resources c @ map (\<lambda>q. (rs_id q, q)) rs\<rparr>\<rparr>)"
  using assms
proof (induction rs arbitrary: r c ns)
  case (Cons q rs)
  then obtain i ns' where ns: "ns = i # ns'" "length ns' = length rs" by (cases ns) auto
  let ?c = "c\<lparr>ct_optimization := (ct_optimization c)\<lparr>os_resources := ct_resources c @ [(rs_id q, q)]\<rparr>\<rparr>"
  have res: "ct_resources ?c = ct_resources c @ [(rs_id q, q)]" by (simp add: ct_resources_def)
  have "efold replay_event (zip ns' (map resource_event rs)) (r', ?c) =
      Inr (r'\<lparr>er_events := er_events r' + length rs, er_resources := er_resources r' + length rs\<rparr>,
        ?c\<lparr>ct_optimization := (ct_optimization ?c)\<lparr>os_resources := ct_resources ?c @ map (\<lambda>q. (rs_id q, q)) rs\<rparr>\<rparr>)" for r'
    by (rule Cons.IH) (use Cons.prems ns in \<open>auto simp: res\<close>)
  moreover have "rs_id q \<notin> fst ` set (ct_resources c)" "resource_ok q" using Cons.prems by auto
  ultimately show ?case by (simp add: ns replay_resource_event res)
qed (simp add: ct_resources_def)

lemma replay_operations:
  assumes "\<forall>op \<in> set ops. operation_ok op" and "length ns = length ops"
  shows "efold replay_event (zip ns (map operation_event ops)) (r, c) =
    emap (\<lambda>(rs, st). (r\<lparr>er_events := er_events r + length ops, er_operations := er_operations r + length ops,
        er_results := er_results r @ map2 (\<lambda>i x. PDict ((lit ''event_index'', PInt i) # result_pairs (step_result x))) ns rs\<rparr>,
      c\<lparr>ct_optimization := st, ct_executed := ct_executed c @ kept_of rs, ct_decisions := ct_decisions c @ decisions_of rs\<rparr>))
    (steps ops (ct_optimization c))"
  using assms
proof (induction ops arbitrary: r c ns)
  case (Cons op ops)
  then obtain i ns' where ns: "ns = i # ns'" "length ns' = length ops" by (cases ns) auto
  show ?case
  proof (cases "opt_process op (ct_optimization c)")
    case (Inl e)
    then show ?thesis using Cons.prems by (simp add: ns replay_operation_event)
  next
    case (Inr q)
    obtain op1 d st where q: "q = ((op1, d), st)" by (metis prod.collapse)
    show ?thesis using Cons.prems Cons.IH ns Inr
      by (cases "steps ops st"; cases d) (auto simp: q replay_operation_event)
  qed
qed simp

section \<open>Property\<close>

definition plan_snapshot :: "runtime_manifest \<Rightarrow> runtime_plan \<Rightarrow> pyval" where
  "plan_snapshot m p = PDict
    [(lit ''mode'', PStr (lit ''runtime-control-plane-v0.5'')),
     (lit ''resources'', PList (map (resource_to_dict \<circ> snd) (rm_resources m))),
     (lit ''executed_operations'', PList (map operation_to_dict (rp_kept p))),
     (lit ''decisions'', PList (map decision_to_dict (rp_decisions p))),
     (lit ''estimated_saved_ms'', PFloat (rp_saved_ms p)), (lit ''estimated_saved_mb'', PFloat (rp_saved_mb p))]"

text \<open>C7: Feeding a well-formed manifest to the incremental controller as a stream of events, its resources and then its
  operations, gives the snapshot of the plan the batch optimizer computes for the manifest, and raises the same error when
  that raises one.\<close>

theorem replay_equals_plan:
  assumes "manifest_ok m" and "length ns = length (manifest_events m)"
  shows "emap er_snapshot (replay_event_stream (zip ns (manifest_events m))) = emap (plan_snapshot m) (optimize_manifest m)"
proof -
  let ?rs = "map snd (rm_resources m)" and ?ops = "rm_operations m"
  let ?n1 = "take (length ?rs) ns" and ?n2 = "drop (length ?rs) ns"
  have ids: "map rs_id ?rs = map fst (rm_resources m)" using assms(1) by (auto simp: manifest_ok_def resources_ok_def)
  have rok: "\<forall>r \<in> set ?rs. resource_ok r" "\<forall>op \<in> set ?ops. operation_ok op" using assms(1) by (auto simp: manifest_ok_def)
  have res: "map (\<lambda>q. (rs_id q, q)) ?rs = rm_resources m"
    using assms(1) by (intro resources_ok_map) (simp add: manifest_ok_def)
  have dist: "distinct (map fst (ct_resources new_controller) @ map rs_id ?rs)"
    using assms(1) by (simp add: ids ct_resources_def new_controller_def new_opt_state_def manifest_ok_def resources_ok_def del: map_map)
  have len: "length ?n1 = length ?rs" "length ?n2 = length ?ops" using assms(2) by (auto simp: manifest_events_def)
  have "zip ns (manifest_events m) = zip (?n1 @ ?n2) (map resource_event ?rs @ map operation_event ?ops)"
    by (simp add: manifest_events_def)
  also have "\<dots> = zip ?n1 (map resource_event ?rs) @ zip ?n2 (map operation_event ?ops)"
    using len by (intro zip_append) simp
  finally have events: "zip ns (manifest_events m) = zip ?n1 (map resource_event ?rs) @ zip ?n2 (map operation_event ?ops)" .
  have start: "(ct_optimization new_controller)\<lparr>os_resources := ct_resources new_controller @ rm_resources m\<rparr>
      = new_opt_state (rm_resources m)"
    by (simp add: new_controller_def ct_resources_def new_opt_state_def)
  let ?c0 = "new_controller\<lparr>ct_optimization := new_opt_state (rm_resources m)\<rparr>"
  have c0: "ct_optimization ?c0 = new_opt_state (rm_resources m)" "ct_executed ?c0 = []" "ct_decisions ?c0 = []"
    by (simp_all add: new_controller_def)
  have run: "efold replay_event (zip ns (manifest_events m)) (r, new_controller) =
      efold replay_event (zip ?n2 (map operation_event ?ops)) (r\<lparr>er_events := er_events r + length ?rs, er_resources := er_resources r + length ?rs\<rparr>, ?c0)" for r
    by (simp only: events efold_append replay_resources [OF rok(1) dist len(1)] res start ebind_Inr)
  show ?thesis
  proof (cases "steps ?ops (new_opt_state (rm_resources m))")
    case (Inl e)
    then show ?thesis
      unfolding replay_event_stream_def run replay_operations [OF rok(2) len(2)] c0
      by (simp add: optimize_manifest_def optimize_loop_steps)
  next
    case (Inr q)
    obtain rs st where q: "q = (rs, st)" by (cases q)
    have "os_resources st = rm_resources m" using steps_ids(2) [of ?ops _ rs st] Inr q by (simp add: new_opt_state_def)
    then show ?thesis
      unfolding replay_event_stream_def run replay_operations [OF rok(2) len(2)] c0
      by (simp add: Inr q optimize_manifest_def optimize_loop_steps snapshot_def plan_snapshot_def ct_resources_def)
  qed
qed

theorem replay_equals_plan_witness:
  "emap er_snapshot (replay_event_stream (zip [1, 2, 3, 4, 5, 6, 7] (manifest_events demo_runtime))) = Inr (plan_snapshot demo_runtime demo_plan)"
proof -
  have "manifest_ok demo_runtime" by code_simp
  moreover have "length [1, 2, 3, 4, 5, 6, 7 :: int] = length (manifest_events demo_runtime)"
    by (simp add: manifest_events_def demo_runtime_def)
  ultimately show ?thesis by (simp add: replay_equals_plan demo_plan_computed)
qed

end
