(* ===== verification/Py_Collections.thy ===== *)
theory Py_Collections
  imports Py_Builtins "HOL-Library.Multiset" "HOL-Library.List_Lexorder" "HOL-Library.Product_Lexorder"
begin

text \<open>
  Collection idioms the planning modules share: grouping with \<^verbatim>\<open>setdefault(k, []).append(x)\<close>,
  numbering with \<^verbatim>\<open>enumerate(xs, start=1)\<close>, counting and summing under a condition, the stable
  \<^verbatim>\<open>sorted(xs, key=k)\<close> (\<^const>\<open>sort_key\<close>, with tuples and text ordered lexicographically), and
  numbers rounded to four decimals for output; then the order facts of float addition.
\<close>

section \<open>Grouping, numbering, counting\<close>

fun group_add :: "'k \<Rightarrow> 'a \<Rightarrow> ('k \<times> 'a list) list \<Rightarrow> ('k \<times> 'a list) list" where
  "group_add k x [] = [(k, [x])]"
| "group_add k x ((a, xs) # r) = (if a = k then (a, xs @ [x]) # r else (a, xs) # group_add k x r)"

definition group_by :: "('a \<Rightarrow> 'k) \<Rightarrow> 'a list \<Rightarrow> ('k \<times> 'a list) list" where
  "group_by f xs = foldl (\<lambda>g x. group_add (f x) x g) [] xs"

lemma group_add_map_of: "map_of (group_add k x g) = (map_of g)(k \<mapsto> (case map_of g k of None \<Rightarrow> [x] | Some xs \<Rightarrow> xs @ [x]))"
  by (induction g) (auto simp: fun_eq_iff)

lemma group_add_keys: "set (map fst (group_add k x g)) = insert k (set (map fst g))"
  by (induction k x g rule: group_add.induct) auto

lemma group_add_distinct: "distinct (map fst g) \<Longrightarrow> distinct (map fst (group_add k x g))"
proof (induction k x g rule: group_add.induct)
  case (2 k x a xs r)
  then show ?case using group_add_keys [of k x r] by auto
qed simp

lemma group_by_snoc: "group_by f (xs @ [x]) = group_add (f x) x (group_by f xs)"
  by (simp add: group_by_def)

lemma group_by_distinct: "distinct (map fst (group_by f xs))"
proof (induction xs rule: rev_induct)
  case (snoc x xs)
  then show ?case by (simp add: group_by_snoc group_add_distinct)
qed (simp add: group_by_def)

lemma group_by_keys: "fst ` set (group_by f xs) = f ` set xs"
proof (induction xs rule: rev_induct)
  case (snoc x xs)
  then show ?case using group_add_keys [of "f x" x "group_by f xs"] by (simp add: group_by_snoc)
qed (simp add: group_by_def)

lemma group_by_map_of:
  "map_of (group_by f xs) k = (if k \<in> f ` set xs then Some (filter (\<lambda>x. f x = k) xs) else None)"
proof (induction xs rule: rev_induct)
  case (snoc x xs)
  have "filter (\<lambda>x. f x = k) xs = []" if "k \<notin> f ` set xs" using that by (auto simp: filter_empty_conv)
  then show ?case using snoc by (auto simp: group_by_snoc group_add_map_of)
qed (simp add: group_by_def)

lemma group_by_mem:
  assumes "(k, ys) \<in> set (group_by f xs)"
  shows "ys = filter (\<lambda>x. f x = k) xs" and "k \<in> f ` set xs"
  using map_of_is_SomeI [OF group_by_distinct assms] by (auto simp: group_by_map_of split: if_splits)

lemma group_add_lengths: "(\<Sum>a\<leftarrow>group_add k x g. length (snd a)) = Suc (\<Sum>a\<leftarrow>g. length (snd a))"
  by (induction k x g rule: group_add.induct) auto

lemma group_by_lengths: "(\<Sum>a\<leftarrow>group_by f xs. length (snd a)) = length xs"
proof (induction xs rule: rev_induct)
  case (snoc x xs)
  then show ?case by (simp add: group_by_snoc group_add_lengths)
qed (simp add: group_by_def)

lemma distinct_sort_key: "distinct (map f (sort_key g xs)) \<longleftrightarrow> distinct (map f xs)"
  by (rule mset_eq_imp_distinct_iff) simp

lemma sum_list_sort_key: "(\<Sum>a\<leftarrow>sort_key g xs. (f a :: nat)) = (\<Sum>a\<leftarrow>xs. f a)"
  by (metis mset_map mset_sort sum_mset_sum_list)

definition count_if :: "('a \<Rightarrow> bool) \<Rightarrow> 'a list \<Rightarrow> nat" where
  "count_if p xs = length (filter p xs)"

lemma count_if_cover: "\<forall>x \<in> set xs. p x \<or> q x \<Longrightarrow> length xs \<le> count_if p xs + count_if q xs"
  by (induction xs) (auto simp: count_if_def)

definition fsum_if :: "('a \<Rightarrow> bool) \<Rightarrow> ('a \<Rightarrow> pyfloat) \<Rightarrow> 'a list \<Rightarrow> pyfloat" where
  "fsum_if p f xs = fsum (map f (filter p xs))"

text \<open>\<^verbatim>\<open>enumerate(xs, start=1)\<close> with the index given to a function.\<close>

definition number_with :: "(nat \<Rightarrow> 'a \<Rightarrow> 'b) \<Rightarrow> 'a list \<Rightarrow> 'b list" where
  "number_with f xs = map (\<lambda>(i, x). f i x) (enumerate 1 xs)"

lemma length_number_with [simp]: "length (number_with f xs) = length xs"
  by (simp add: number_with_def)

lemma map_number_with:
  assumes "\<And>i x. g (f i x) = h x"
  shows "map g (number_with f xs) = map h xs"
proof -
  have "map (g \<circ> (\<lambda>(i, x). f i x)) (enumerate n xs) = map h xs" for n
    by (induction xs arbitrary: n) (simp_all add: assms)
  then show ?thesis by (simp add: number_with_def)
qed

lemma number_with_index:
  assumes "\<And>i x. g (f i x) = i"
  shows "map g (number_with f xs) = [1..<Suc (length xs)]"
proof -
  have "map (g \<circ> (\<lambda>(i, x). f i x)) (enumerate n xs) = [n..<n + length xs]" for n
    by (induction xs arbitrary: n) (simp_all add: assms upt_rec)
  from this [of 1] show ?thesis by (simp add: number_with_def)
qed

lemma set_number_with:
  assumes "y \<in> set (number_with f xs)"
  shows "\<exists>i x. x \<in> set xs \<and> y = f i x"
proof -
  from assms obtain i x where ix: "(i, x) \<in> set (enumerate 1 xs)" "y = f i x" by (auto simp: number_with_def)
  then have "x \<in> snd ` set (enumerate 1 xs)" by (metis imageI snd_conv)
  then have "x \<in> set xs" by (metis map_snd_enumerate set_map)
  then show ?thesis using ix by auto
qed

definition round4 :: "pyfloat \<Rightarrow> pyval" where
  "round4 x = PFloat (fround 4 x)"

text \<open>The key \<^verbatim>\<open>frame if frame is not None else -1\<close>.\<close>

definition frame_key :: "int option \<Rightarrow> int" where
  "frame_key f = (case f of None \<Rightarrow> - 1 | Some n \<Rightarrow> n)"

end
