(* ===== verification/Memory_Transit.thy ===== *)
theory Memory_Transit
  imports Runtime_Types Py_Collections
begin

text \<open>
  The memory transit map (\<^verbatim>\<open>src/fluidgateway/transit.py\<close>): operation results, which are JSON
  dictionaries, become hops between memory layers with the waste the optimizer found, and the
  hops are summed per path.
\<close>

section \<open>Data\<close>

record transit_hop =
  th_operation :: pystr
  th_type :: pystr
  th_frame :: "int option"
  th_queue :: pystr
  th_source :: "pystr option"
  th_target :: "pystr option"
  th_source_memory :: pystr
  th_target_memory :: pystr
  th_path :: pystr
  th_size :: pyfloat
  th_cost :: pyfloat
  th_executed :: bool
  th_avoided :: bool
  th_class :: pystr
  th_policy :: pyval
  th_rationale :: pystr

definition hop_to_dict :: "transit_hop \<Rightarrow> pyval" where
  "hop_to_dict h = PDict
    [(lit ''operation_id'', PStr (th_operation h)), (lit ''operation_type'', PStr (th_type h)), (lit ''frame'', opt_int (th_frame h)),
     (lit ''queue'', PStr (th_queue h)), (lit ''source_resource_id'', opt_str (th_source h)),
     (lit ''target_resource_id'', opt_str (th_target h)), (lit ''source_memory'', PStr (th_source_memory h)),
     (lit ''target_memory'', PStr (th_target_memory h)), (lit ''path'', PStr (th_path h)), (lit ''size_mb'', round4 (th_size h)),
     (lit ''cost_ms'', round4 (th_cost h)), (lit ''executed'', PBool (th_executed h)), (lit ''avoided'', PBool (th_avoided h)),
     (lit ''classification'', PStr (th_class h)), (lit ''waste_policy'', th_policy h), (lit ''rationale'', PStr (th_rationale h))]"

record path_summary =
  ps_path :: pystr
  ps_hops :: nat
  ps_executed_hops :: nat
  ps_avoided_hops :: nat
  ps_attempted :: pyfloat
  ps_executed :: pyfloat
  ps_avoided :: pyfloat
  ps_cost :: pyfloat
  ps_avoided_cost :: pyfloat

definition path_to_dict :: "path_summary \<Rightarrow> pyval" where
  "path_to_dict p = PDict
    [(lit ''path'', PStr (ps_path p)), (lit ''hop_count'', PInt (int (ps_hops p))),
     (lit ''executed_hop_count'', PInt (int (ps_executed_hops p))), (lit ''avoided_hop_count'', PInt (int (ps_avoided_hops p))),
     (lit ''attempted_mb'', round4 (ps_attempted p)), (lit ''executed_mb'', round4 (ps_executed p)),
     (lit ''avoided_mb'', round4 (ps_avoided p)), (lit ''cost_ms'', round4 (ps_cost p)),
     (lit ''avoided_cost_ms'', round4 (ps_avoided_cost p))]"

record transit_map =
  tm_mode :: pystr
  tm_hop_count :: nat
  tm_executed_hops :: nat
  tm_avoided_hops :: nat
  tm_attempted :: pyfloat
  tm_executed :: pyfloat
  tm_avoided :: pyfloat
  tm_avoidable_cost :: pyfloat
  tm_paths :: "path_summary list"
  tm_hops :: "transit_hop list"

definition transit_to_dict :: "transit_map \<Rightarrow> pyval" where
  "transit_to_dict t = PDict
    [(lit ''mode'', PStr (tm_mode t)), (lit ''hop_count'', PInt (int (tm_hop_count t))),
     (lit ''executed_hop_count'', PInt (int (tm_executed_hops t))), (lit ''avoided_hop_count'', PInt (int (tm_avoided_hops t))),
     (lit ''attempted_transfer_mb'', round4 (tm_attempted t)), (lit ''executed_transfer_mb'', round4 (tm_executed t)),
     (lit ''avoided_transfer_mb'', round4 (tm_avoided t)), (lit ''estimated_avoidable_cost_ms'', round4 (tm_avoidable_cost t)),
     (lit ''paths'', PList (map path_to_dict (tm_paths t))), (lit ''hops'', PList (map hop_to_dict (tm_hops t)))]"

section \<open>Reading results\<close>

text \<open>A registered resource, or a dictionary in its place.\<close>

datatype resource_entry = Typed runtime_resource | Raw pyval

type_synonym resource_dicts = "(pystr \<times> pydict) list"

fun normalize_resources :: "(pystr \<times> resource_entry) list \<Rightarrow> resource_dicts" where
  "normalize_resources [] = []"
| "normalize_resources ((rid, e) # r) =
     (case (case e of Typed q \<Rightarrow> resource_to_dict q | Raw v \<Rightarrow> v) of
        PDict d \<Rightarrow> (rid, d) # normalize_resources r
      | _ \<Rightarrow> normalize_resources r)"

definition transit_number :: "pyval \<Rightarrow> pyfloat res" where
  "transit_number v = (case py_float (py_or v (PFloat (Fin 0))) of
      Inl (OverflowError m) \<Rightarrow> Inl (OverflowError m)
    | Inl _ \<Rightarrow> Inr (Fin 0)
    | Inr x \<Rightarrow> Inr x)"

text \<open>\<^verbatim>\<open>if x and x in resources\<close>.\<close>

definition given :: "pystr option \<Rightarrow> bool" where
  "given rid \<longleftrightarrow> rid \<noteq> None \<and> rid \<noteq> Some []"

definition lookup_given :: "pystr option \<Rightarrow> resource_dicts \<Rightarrow> pydict option" where
  "lookup_given rid res = (case rid of None \<Rightarrow> None | Some r \<Rightarrow> if r = [] then None else map_of res r)"

definition is_transit_operation :: "pystr \<Rightarrow> pystr option \<Rightarrow> pystr option \<Rightarrow> bool" where
  "is_transit_operation ty src tgt \<longleftrightarrow>
     ty \<in> set (map lit [''copy'', ''upload'', ''allocate'', ''draw'', ''present'', ''sync'']) \<or> given src \<or> given tgt"

definition resource_memory :: "pystr option \<Rightarrow> resource_dicts \<Rightarrow> pystr" where
  "resource_memory rid res = (case lookup_given rid res of None \<Rightarrow> lit ''unknown''
     | Some d \<Rightarrow> py_str (py_or (dget d ''memory'') (PStr (lit ''unknown''))))"

definition resolve_source_memory :: "pystr \<Rightarrow> pystr option \<Rightarrow> resource_dicts \<Rightarrow> pystr" where
  "resolve_source_memory ty src res =
    (if ty = lit ''allocate'' then lit ''allocation'' else if ty = lit ''sync'' then lit ''sync'' else resource_memory src res)"

definition resolve_target_memory :: "pystr \<Rightarrow> pystr option \<Rightarrow> pystr \<Rightarrow> resource_dicts \<Rightarrow> pystr" where
  "resolve_target_memory ty tgt queue res = (if ty = lit ''sync'' then queue else resource_memory tgt res)"

definition policy_classifications :: "(pystr \<times> pystr) list" where
  "policy_classifications = map (map_prod lit lit)
    [(''deduplicate-identical-transfer'', ''duplicate-transfer''), (''collapse-aliased-resource-copy'', ''same-layer-aliased-copy''),
     (''eliminate-self-copy'', ''self-transfer''), (''reuse-transient-buffer'', ''redundant-allocation''),
     (''remove-orphan-sync'', ''orphan-sync''), (''remove-empty-sync'', ''empty-sync'')]"

text \<open>The decision is a dictionary; an absent one is the empty dictionary, as in \<^verbatim>\<open>decision or {}\<close>.\<close>

definition classify :: "pystr \<Rightarrow> pystr \<Rightarrow> pystr \<Rightarrow> pydict \<Rightarrow> pystr" where
  "classify ty src_mem tgt_mem decision =
    (case map_of policy_classifications (py_str (py_or (dget decision ''policy'') (PStr []))) of
       Some c \<Rightarrow> c
     | None \<Rightarrow>
         if ty = lit ''allocate'' then lit ''allocation''
         else if ty = lit ''sync'' then lit ''synchronization''
         else if ty \<in> {lit ''draw'', lit ''present''} then lit ''presentation-path''
         else if src_mem = tgt_mem then lit ''same-memory-transfer''
         else lit ''cross-memory-transfer'')"

text \<open>\<^verbatim>\<open>operation.get("type") in {...}\<close> on the raw value: a list or dictionary is not hashable.\<close>

definition drawn_type :: "pyval \<Rightarrow> bool res" where
  "drawn_type v = (case v of
     PStr s \<Rightarrow> Inr (s \<in> {lit ''draw'', lit ''present'', lit ''compute''})
   | PList _ \<Rightarrow> Inl (TypeError (lit ''unhashable type: '' @ repr_text (lit ''list'')))
   | PDict _ \<Rightarrow> Inl (TypeError (lit ''unhashable type: '' @ repr_text (lit ''dict'')))
   | _ \<Rightarrow> Inr False)"

definition transit_size :: "pydict \<Rightarrow> pystr option \<Rightarrow> resource_dicts \<Rightarrow> pyfloat res" where
  "transit_size op tgt res = ebind (transit_number (dget op ''size_mb'')) (\<lambda>sz.
     if fless (Fin 0) sz then Inr sz else
     (case lookup_given tgt res of
        None \<Rightarrow> Inr (Fin 0)
      | Some d \<Rightarrow> ebind (drawn_type (dget op ''type'')) (\<lambda>b. if b then transit_number (dget d ''size_mb'') else Inr (Fin 0))))"

definition build_hop :: "pydict \<Rightarrow> resource_dicts \<Rightarrow> transit_hop option res" where
  "build_hop result res = (case py_or (dget result ''operation'') (PDict []) of
     PDict op \<Rightarrow>
       let ty = py_str (py_or (dget op ''type'') (PStr (lit ''unknown'')));
           src = optional_text_of (dget op ''source'');
           tgt = optional_text_of (dget op ''target'')
       in if \<not> is_transit_operation ty src tgt then Inr None else
       let queue = py_str (py_or (dget op ''queue'') (PStr (lit ''unknown'')));
           decision = (case dget result ''decision'' of PDict d \<Rightarrow> d | _ \<Rightarrow> []);
           executed = truthy (dget result ''executed'');
           src_mem = resolve_source_memory ty src res;
           tgt_mem = resolve_target_memory ty tgt queue res
       in ebind (parse_frame (dget op ''frame'')) (\<lambda>frame.
          ebind (transit_size op tgt res) (\<lambda>sz.
          ebind (transit_number (dget op ''cost_ms'')) (\<lambda>cost.
          Inr (Some \<lparr>th_operation = py_str (py_or (dget op ''id'') (PStr [])), th_type = ty, th_frame = frame, th_queue = queue,
            th_source = src, th_target = tgt, th_source_memory = src_mem, th_target_memory = tgt_mem,
            th_path = src_mem @ lit ''->'' @ tgt_mem, th_size = sz, th_cost = cost,
            th_executed = executed, th_avoided = (decision \<noteq> [] \<or> \<not> executed),
            th_class = classify ty src_mem tgt_mem decision, th_policy = dget decision ''policy'',
            th_rationale = py_str (py_or (dget decision ''rationale'') (py_or (dget op ''reason'')
              (PStr (lit ''Observed runtime data movement.''))))\<rparr>))))
   | _ \<Rightarrow> Inr None)"

section \<open>The map\<close>

definition summarize_path :: "pystr \<times> transit_hop list \<Rightarrow> path_summary" where
  "summarize_path = (\<lambda>(path, hops).
    \<lparr>ps_path = path, ps_hops = length hops, ps_executed_hops = count_if th_executed hops, ps_avoided_hops = count_if th_avoided hops,
     ps_attempted = fsum (map th_size hops), ps_executed = fsum_if th_executed th_size hops,
     ps_avoided = fsum_if th_avoided th_size hops, ps_cost = fsum (map th_cost hops),
     ps_avoided_cost = fsum_if th_avoided th_cost hops\<rparr>)"

definition summarize_paths :: "transit_hop list \<Rightarrow> path_summary list" where
  "summarize_paths hops = map summarize_path (sort_key fst (group_by th_path hops))"

fun build_hops :: "pydict list \<Rightarrow> resource_dicts \<Rightarrow> transit_hop list res" where
  "build_hops [] res = Inr []"
| "build_hops (r # rs) res = ebind (build_hop r res) (\<lambda>h. ebind (build_hops rs res) (\<lambda>hs.
     Inr (case h of None \<Rightarrow> hs | Some x \<Rightarrow> x # hs)))"

definition build_memory_transit_map :: "pydict list \<Rightarrow> (pystr \<times> resource_entry) list \<Rightarrow> transit_map res" where
  "build_memory_transit_map results resources =
    ebind (build_hops results (normalize_resources resources)) (\<lambda>hops.
    Inr \<lparr>tm_mode = lit ''memory-transit-map-v0.22'', tm_hop_count = length hops,
      tm_executed_hops = count_if th_executed hops, tm_avoided_hops = count_if th_avoided hops,
      tm_attempted = fsum (map th_size hops), tm_executed = fsum_if th_executed th_size hops,
      tm_avoided = fsum_if th_avoided th_size hops, tm_avoidable_cost = fsum_if th_avoided th_cost hops,
      tm_paths = summarize_paths hops, tm_hops = hops\<rparr>)"

section \<open>Paths\<close>

lemma set_sort_key_group: "set (sort_key fst (group_by f xs)) = set (group_by f xs)"
  by simp

lemma summarize_paths_names:
  "map ps_path (summarize_paths hops) = map fst (sort_key fst (group_by th_path hops))"
  by (auto simp: summarize_paths_def summarize_path_def)

lemma summarize_paths_mem:
  assumes "p \<in> set (summarize_paths hops)"
  shows "p = summarize_path (ps_path p, filter (\<lambda>h. th_path h = ps_path p) hops)" and "ps_path p \<in> th_path ` set hops"
proof -
  from assms obtain k hs where "(k, hs) \<in> set (group_by th_path hops)" and p: "p = summarize_path (k, hs)"
    by (auto simp: summarize_paths_def)
  then show "p = summarize_path (ps_path p, filter (\<lambda>h. th_path h = ps_path p) hops)" "ps_path p \<in> th_path ` set hops"
    using group_by_mem [of k hs th_path hops] by (simp_all add: summarize_path_def)
qed

lemma build_memory_transit_map_fields:
  assumes "build_memory_transit_map results resources = Inr t"
  shows "tm_paths t = summarize_paths (tm_hops t)" and "tm_hop_count t = length (tm_hops t)"
    and "tm_executed_hops t = count_if th_executed (tm_hops t)" and "tm_avoided_hops t = count_if th_avoided (tm_hops t)"
    and "build_hops results (normalize_resources resources) = Inr (tm_hops t)"
  using assms by (auto simp: build_memory_transit_map_def ebind_eq_Inr)

lemma build_hop_avoided: "build_hop r res = Inr (Some h) \<Longrightarrow> \<not> th_executed h \<Longrightarrow> th_avoided h"
  by (auto simp: build_hop_def Let_def ebind_eq_Inr split: pyval.splits if_splits)

lemma build_hops_mem:
  "build_hops rs res = Inr hs \<Longrightarrow> h \<in> set hs \<Longrightarrow> \<exists>r \<in> set rs. build_hop r res = Inr (Some h)"
  by (induction rs arbitrary: hs) (auto simp: ebind_eq_Inr split: option.splits)

text \<open>C30: The path summaries of a transit map name every path of its hops once, in order, and each counts and sums exactly
  the hops of its path, so the counts add up to the number of hops; a hop that was not executed counts as avoided.\<close>

theorem transit_paths_partition:
  assumes "build_memory_transit_map results resources = Inr t"
  shows "sorted (map ps_path (tm_paths t)) \<and> distinct (map ps_path (tm_paths t))
    \<and> set (map ps_path (tm_paths t)) = th_path ` set (tm_hops t)
    \<and> (\<forall>p \<in> set (tm_paths t). p = summarize_path (ps_path p, filter (\<lambda>h. th_path h = ps_path p) (tm_hops t)))
    \<and> sum_list (map ps_hops (tm_paths t)) = tm_hop_count t
    \<and> tm_hop_count t \<le> tm_executed_hops t + tm_avoided_hops t"
proof -
  let ?hops = "tm_hops t" and ?g = "group_by th_path (tm_hops t)"
  note f = build_memory_transit_map_fields [OF assms]
  have names: "map ps_path (tm_paths t) = map fst (sort_key fst ?g)" by (simp add: f summarize_paths_names)
  have "distinct (map ps_path (tm_paths t))" by (simp add: names distinct_sort_key group_by_distinct)
  moreover have "sum_list (map ps_hops (tm_paths t)) = length ?hops"
    by (simp add: f summarize_paths_def summarize_path_def comp_def case_prod_beta sum_list_sort_key group_by_lengths)
  moreover have "length ?hops \<le> count_if th_executed ?hops + count_if th_avoided ?hops"
  proof -
    have "\<forall>h \<in> set ?hops. th_executed h \<or> th_avoided h"
      using build_hops_mem [OF f(5)] build_hop_avoided by blast
    then show ?thesis by (rule count_if_cover)
  qed
  moreover have "sorted (map ps_path (tm_paths t))" by (simp add: names)
  moreover have "set (map ps_path (tm_paths t)) = th_path ` set ?hops"
    by (simp add: names group_by_keys)
  moreover have "\<forall>p \<in> set (tm_paths t). p = summarize_path (ps_path p, filter (\<lambda>h. th_path h = ps_path p) ?hops)"
    using summarize_paths_mem(1) by (auto simp: f)
  ultimately show ?thesis by (simp add: f)
qed


section \<open>Witness\<close>

definition demo_op :: "string \<Rightarrow> string \<Rightarrow> string \<Rightarrow> string \<Rightarrow> int \<Rightarrow> int \<Rightarrow> int \<Rightarrow> pyval" where
  "demo_op i ty s t fr cost sz = PDict [(lit ''id'', PStr (lit i)), (lit ''type'', PStr (lit ty)), (lit ''source'', PStr (lit s)),
     (lit ''target'', PStr (lit t)), (lit ''frame'', PInt fr), (lit ''cost_ms'', PFloat (Fin (of_int cost))),
     (lit ''size_mb'', PFloat (Fin (of_int sz)))]"

text \<open>A duplicate upload the optimizer removed, an expensive upload and a present of the same frame.\<close>

definition demo_results :: "pydict list" where
  "demo_results =
    [[(lit ''operation'', demo_op ''o2'' ''copy'' ''a'' ''d'' 1 2 8), (lit ''executed'', PBool False),
      (lit ''decision'', PDict [(lit ''policy'', PStr (lit ''deduplicate-identical-transfer'')), (lit ''rationale'', PStr (lit ''dup''))])],
     [(lit ''operation'', demo_op ''o1'' ''copy'' ''a'' ''d'' 1 2 32), (lit ''executed'', PBool True), (lit ''decision'', PNone)],
     [(lit ''operation'', demo_op ''o3'' ''present'' ''d'' ''s'' 1 4 0), (lit ''executed'', PBool True), (lit ''decision'', PNone)]]"

definition demo_entries :: "(pystr \<times> resource_entry) list" where
  "demo_entries = [(lit ''a'', Raw (PDict [(lit ''memory'', PStr (lit ''ram''))])),
     (lit ''d'', Raw (PDict [(lit ''memory'', PStr (lit ''vram''))])),
     (lit ''s'', Raw (PDict [(lit ''memory'', PStr (lit ''swapchain'')), (lit ''size_mb'', PFloat (Fin 4))]))]"

definition demo_hop :: "string \<Rightarrow> string \<Rightarrow> string \<Rightarrow> string \<Rightarrow> string \<Rightarrow> string \<Rightarrow> pyfloat \<Rightarrow> pyfloat \<Rightarrow> bool \<Rightarrow> string \<Rightarrow> pyval \<Rightarrow> string \<Rightarrow> transit_hop" where
  "demo_hop i ty s t sm tm sz cost ex cls pol rat = \<lparr>th_operation = lit i, th_type = lit ty, th_frame = Some 1, th_queue = lit ''unknown'',
     th_source = Some (lit s), th_target = Some (lit t), th_source_memory = lit sm, th_target_memory = lit tm,
     th_path = lit sm @ lit ''->'' @ lit tm, th_size = sz, th_cost = cost, th_executed = ex, th_avoided = (\<not> ex), th_class = lit cls,
     th_policy = pol, th_rationale = lit rat\<rparr>"

definition demo_hops :: "transit_hop list" where
  "demo_hops =
    [demo_hop ''o2'' ''copy'' ''a'' ''d'' ''ram'' ''vram'' (Fin 8) (Fin 2) False ''duplicate-transfer''
       (PStr (lit ''deduplicate-identical-transfer'')) ''dup'',
     demo_hop ''o1'' ''copy'' ''a'' ''d'' ''ram'' ''vram'' (Fin 32) (Fin 2) True ''cross-memory-transfer'' PNone ''Observed runtime data movement.'',
     demo_hop ''o3'' ''present'' ''d'' ''s'' ''vram'' ''swapchain'' (Fin 4) (Fin 4) True ''presentation-path'' PNone ''Observed runtime data movement.'']"

lemma demo_hops_built: "build_hops demo_results (normalize_resources demo_entries) = Inr demo_hops"
  by code_simp

lemma demo_transit_built: "\<exists>t. build_memory_transit_map demo_results demo_entries = Inr t \<and> tm_hops t = demo_hops \<and> tm_hop_count t = 3"
  by (simp add: build_memory_transit_map_def demo_hops_built) (simp add: demo_hops_def)

theorem transit_paths_partition_witness:
  "\<exists>t. build_memory_transit_map demo_results demo_entries = Inr t \<and> sum_list (map ps_hops (tm_paths t)) = 3"
proof -
  obtain t where t: "build_memory_transit_map demo_results demo_entries = Inr t" "tm_hop_count t = 3" using demo_transit_built by blast
  then show ?thesis using transit_paths_partition [OF t(1)] by auto
qed

end
