(* ===== verification/Frame_Plans.thy ===== *)
theory Frame_Plans
  imports Memory_Transit
begin

text \<open>
  From hops to commands: route directives (\<^verbatim>\<open>src/fluidgateway/routing.py\<close>), frame window slots
  (\<^verbatim>\<open>src/fluidgateway/windowing.py\<close>) and execution commands (\<^verbatim>\<open>src/fluidgateway/packet.py\<close>).
\<close>

section \<open>Route directives\<close>

record route_directive =
  rt_directive :: pystr
  rt_priority :: int
  rt_operation :: pystr
  rt_frame :: "int option"
  rt_path :: pystr
  rt_source_memory :: pystr
  rt_target_memory :: pystr
  rt_target :: "pystr option"
  rt_value :: pyfloat
  rt_cost :: pyfloat
  rt_saved_ms :: pyfloat
  rt_saved_mb :: pyfloat
  rt_class :: pystr
  rt_rationale :: pystr
  rt_effect :: pystr

definition directive_to_dict :: "route_directive \<Rightarrow> pyval" where
  "directive_to_dict d = PDict
    [(lit ''directive'', PStr (rt_directive d)), (lit ''priority'', PInt (rt_priority d)), (lit ''operation_id'', PStr (rt_operation d)),
     (lit ''frame'', opt_int (rt_frame d)), (lit ''path'', PStr (rt_path d)), (lit ''source_memory'', PStr (rt_source_memory d)),
     (lit ''target_memory'', PStr (rt_target_memory d)), (lit ''target_resource_id'', opt_str (rt_target d)),
     (lit ''value_mb'', round4 (rt_value d)), (lit ''cost_ms'', round4 (rt_cost d)), (lit ''expected_saved_ms'', round4 (rt_saved_ms d)),
     (lit ''expected_saved_mb'', round4 (rt_saved_mb d)), (lit ''source_classification'', PStr (rt_class d)),
     (lit ''rationale'', PStr (rt_rationale d)), (lit ''expected_effect'', PStr (rt_effect d))]"

record route_plan =
  rp2_mode :: pystr
  rp2_directive_count :: nat
  rp2_suppress :: nat
  rp2_prefetch :: nat
  rp2_residency :: nat
  rp2_sync :: nat
  rp2_saved_ms :: pyfloat
  rp2_saved_mb :: pyfloat
  rp2_directives :: "route_directive list"

definition route_plan_to_dict :: "route_plan \<Rightarrow> pyval" where
  "route_plan_to_dict p = PDict
    [(lit ''mode'', PStr (rp2_mode p)), (lit ''directive_count'', PInt (int (rp2_directive_count p))),
     (lit ''suppress_count'', PInt (int (rp2_suppress p))), (lit ''prefetch_count'', PInt (int (rp2_prefetch p))),
     (lit ''residency_count'', PInt (int (rp2_residency p))), (lit ''sync_count'', PInt (int (rp2_sync p))),
     (lit ''estimated_saved_ms'', round4 (rp2_saved_ms p)), (lit ''estimated_saved_mb'', round4 (rp2_saved_mb p)),
     (lit ''directives'', PList (map directive_to_dict (rp2_directives p)))]"

definition make_directive :: "transit_hop \<Rightarrow> string \<Rightarrow> int \<Rightarrow> pyfloat \<Rightarrow> pyfloat \<Rightarrow> string \<Rightarrow> string \<Rightarrow> route_directive" where
  "make_directive h name priority saved_ms saved_mb rationale effect =
    \<lparr>rt_directive = lit name, rt_priority = priority, rt_operation = th_operation h, rt_frame = th_frame h, rt_path = th_path h,
     rt_source_memory = th_source_memory h, rt_target_memory = th_target_memory h, rt_target = th_target h,
     rt_value = th_size h, rt_cost = th_cost h, rt_saved_ms = saved_ms, rt_saved_mb = saved_mb,
     rt_class = th_class h, rt_rationale = lit rationale, rt_effect = lit effect\<rparr>"

definition is_cross_memory_transfer :: "transit_hop \<Rightarrow> bool" where
  "is_cross_memory_transfer h \<longleftrightarrow> th_class h = lit ''cross-memory-transfer'' \<and> th_executed h
     \<and> th_source_memory h \<noteq> lit ''unknown'' \<and> th_target_memory h \<noteq> lit ''unknown''"

definition is_large_or_expensive :: "transit_hop \<Rightarrow> bool" where
  "is_large_or_expensive h \<longleftrightarrow> fle (Fin 16) (th_size h) \<or> fle (Fin 1) (th_cost h)"

definition directive_from_hop :: "transit_hop \<Rightarrow> route_directive option" where
  "directive_from_hop h =
    (if th_class h \<in> {lit ''duplicate-transfer'', lit ''same-layer-aliased-copy'', lit ''self-transfer''} then
       Some (make_directive h ''suppress_redundant_hop'' 96 (th_cost h) (th_size h)
         ''Suppress a data movement hop already proven redundant.''
         ''Remove useless transfer pressure from the CPU/GPU memory path.'')
     else if th_class h = lit ''redundant-allocation'' then
       Some (make_directive h ''reuse_transient_allocation'' 88 (th_cost h) (th_size h)
         ''Reuse an equivalent transient allocation instead of allocating again.''
         ''Reduce allocator churn and transient VRAM/RAM pressure.'')
     else if th_class h \<in> {lit ''orphan-sync'', lit ''empty-sync''} then
       Some (make_directive h ''remove_sync_wait'' 92 (th_cost h) (Fin 0)
         ''Remove synchronization that no longer gates useful work.''
         ''Lower CPU/GPU wait time caused by useless synchronization.'')
     else if is_cross_memory_transfer h \<and> is_large_or_expensive h then
       Some (make_directive h ''prestage_cross_memory_transfer'' 82 (Fin 0) (Fin 0)
         ''Route this cross-memory movement before draw-critical work.''
         ''Move RAM/VRAM traffic out of the hot frame path.'')
     else if th_class h = lit ''allocation'' \<and> fle (Fin 16) (th_size h) then
       Some (make_directive h ''pool_transient_allocation'' 72 (Fin 0) (Fin 0)
         ''Pool this allocation shape for reuse across nearby frames.''
         ''Reduce late allocation work and memory allocator pressure.'')
     else if th_class h = lit ''presentation-path'' then
       Some (make_directive h ''protect_presentation_route'' 70 (Fin 0) (Fin 0)
         ''Protect the final frame presentation path from extra hops.''
         ''Keep display-facing work predictable and avoid late copies.'')
     else None)"

definition build_memory_route_plan :: "transit_map \<Rightarrow> route_plan" where
  "build_memory_route_plan t =
    (let ds = sort_key (\<lambda>d. (- rt_priority d, frame_key (rt_frame d), rt_operation d))
           (List.map_filter directive_from_hop (tm_hops t));
         named = (\<lambda>n d. rt_directive d = lit n)
     in \<lparr>rp2_mode = lit ''memory-route-plan-v0.23'', rp2_directive_count = length ds,
       rp2_suppress = count_if (\<lambda>d. rt_directive d \<in> {lit ''suppress_redundant_hop'', lit ''reuse_transient_allocation''}) ds,
       rp2_prefetch = count_if (named ''prestage_cross_memory_transfer'') ds,
       rp2_residency = count_if (named ''protect_presentation_route'') ds,
       rp2_sync = count_if (named ''remove_sync_wait'') ds,
       rp2_saved_ms = fsum (map rt_saved_ms ds), rp2_saved_mb = fsum (map rt_saved_mb ds), rp2_directives = ds\<rparr>)"

section \<open>Frame window slots\<close>

record window_slot =
  ws_sequence :: nat
  ws_window :: pystr
  ws_phase :: pystr
  ws_directive :: pystr
  ws_operation :: pystr
  ws_frame :: "int option"
  ws_path :: pystr
  ws_target :: "pystr option"
  ws_value :: pyfloat
  ws_cost :: pyfloat
  ws_saved_ms :: pyfloat
  ws_saved_mb :: pyfloat
  ws_rationale :: pystr
  ws_effect :: pystr

definition slot_to_dict :: "window_slot \<Rightarrow> pyval" where
  "slot_to_dict s = PDict
    [(lit ''sequence'', PInt (int (ws_sequence s))), (lit ''window'', PStr (ws_window s)), (lit ''phase'', PStr (ws_phase s)),
     (lit ''directive'', PStr (ws_directive s)), (lit ''operation_id'', PStr (ws_operation s)), (lit ''frame'', opt_int (ws_frame s)),
     (lit ''path'', PStr (ws_path s)), (lit ''target_resource_id'', opt_str (ws_target s)), (lit ''value_mb'', round4 (ws_value s)),
     (lit ''cost_ms'', round4 (ws_cost s)), (lit ''expected_saved_ms'', round4 (ws_saved_ms s)),
     (lit ''expected_saved_mb'', round4 (ws_saved_mb s)), (lit ''rationale'', PStr (ws_rationale s)),
     (lit ''expected_effect'', PStr (ws_effect s))]"

text \<open>The summary of one frame's slots, and in \<open>packet.py\<close> of one frame's commands.\<close>

record frame_summary =
  fs_frame :: int
  fs_count :: nat
  fs_never :: nat
  fs_pre_frame :: nat
  fs_setup :: nat
  fs_hot_path :: nat
  fs_post_present :: nat
  fs_saved_ms :: pyfloat
  fs_saved_mb :: pyfloat

definition window_summary_to_dict :: "frame_summary \<Rightarrow> pyval" where
  "window_summary_to_dict f = PDict
    [(lit ''frame'', PInt (fs_frame f)), (lit ''slot_count'', PInt (int (fs_count f))), (lit ''never_count'', PInt (int (fs_never f))),
     (lit ''pre_frame_count'', PInt (int (fs_pre_frame f))), (lit ''setup_count'', PInt (int (fs_setup f))),
     (lit ''hot_path_count'', PInt (int (fs_hot_path f))), (lit ''post_present_count'', PInt (int (fs_post_present f))),
     (lit ''estimated_saved_ms'', round4 (fs_saved_ms f)), (lit ''estimated_saved_mb'', round4 (fs_saved_mb f))]"

record window_plan =
  wp_mode :: pystr
  wp_slot_count :: nat
  wp_frame_count :: nat
  wp_never :: nat
  wp_pre_frame :: nat
  wp_setup :: nat
  wp_hot_path :: nat
  wp_post_present :: nat
  wp_relief :: pyfloat
  wp_saved_mb :: pyfloat
  wp_frames :: "frame_summary list"
  wp_slots :: "window_slot list"

definition window_plan_to_dict :: "window_plan \<Rightarrow> pyval" where
  "window_plan_to_dict p = PDict
    [(lit ''mode'', PStr (wp_mode p)), (lit ''slot_count'', PInt (int (wp_slot_count p))),
     (lit ''frame_count'', PInt (int (wp_frame_count p))), (lit ''never_count'', PInt (int (wp_never p))),
     (lit ''pre_frame_count'', PInt (int (wp_pre_frame p))), (lit ''setup_count'', PInt (int (wp_setup p))),
     (lit ''hot_path_count'', PInt (int (wp_hot_path p))), (lit ''post_present_count'', PInt (int (wp_post_present p))),
     (lit ''estimated_hot_path_relief_ms'', round4 (wp_relief p)), (lit ''estimated_saved_mb'', round4 (wp_saved_mb p)),
     (lit ''frames'', PList (map window_summary_to_dict (wp_frames p))), (lit ''slots'', PList (map slot_to_dict (wp_slots p)))]"

definition window_order :: "(pystr \<times> int) list" where
  "window_order = map (map_prod lit id) [(''never'', 0), (''pre-frame'', 1), (''setup'', 2), (''hot-path'', 3), (''post-present'', 4)]"

definition classify_window :: "pystr \<Rightarrow> string option \<times> string" where
  "classify_window d =
    (if d = lit ''suppress_redundant_hop'' then (Some ''never'', ''suppress'')
     else if d = lit ''reuse_transient_allocation'' then (Some ''never'', ''reuse'')
     else if d = lit ''remove_sync_wait'' then (Some ''never'', ''remove-sync'')
     else if d = lit ''prestage_cross_memory_transfer'' then (Some ''pre-frame'', ''prefetch'')
     else if d = lit ''pool_transient_allocation'' then (Some ''setup'', ''pool'')
     else if d = lit ''protect_presentation_route'' then (Some ''hot-path'', ''present'')
     else (None, ''unknown''))"

definition slot_from_directive :: "route_directive \<Rightarrow> window_slot option" where
  "slot_from_directive d = (case classify_window (rt_directive d) of
     (None, _) \<Rightarrow> None
   | (Some w, phase) \<Rightarrow> Some \<lparr>ws_sequence = 0, ws_window = lit w, ws_phase = lit phase, ws_directive = rt_directive d,
       ws_operation = rt_operation d, ws_frame = rt_frame d, ws_path = rt_path d, ws_target = rt_target d,
       ws_value = rt_value d, ws_cost = rt_cost d, ws_saved_ms = rt_saved_ms d, ws_saved_mb = rt_saved_mb d,
       ws_rationale = rt_rationale d, ws_effect = rt_effect d\<rparr>)"

definition sort_slots :: "window_slot list \<Rightarrow> window_slot list" where
  "sort_slots slots = sort_key (\<lambda>s. (frame_key (ws_frame s),
     case map_of window_order (ws_window s) of None \<Rightarrow> 99 | Some n \<Rightarrow> n, ws_operation s)) slots"

text \<open>Rebuilding a slot from its dictionary rounds its numbers.\<close>

definition renumber_slot :: "nat \<Rightarrow> window_slot \<Rightarrow> window_slot" where
  "renumber_slot i s = s\<lparr>ws_sequence := i, ws_value := fround 4 (ws_value s), ws_cost := fround 4 (ws_cost s),
     ws_saved_ms := fround 4 (ws_saved_ms s), ws_saved_mb := fround 4 (ws_saved_mb s)\<rparr>"

definition count_window :: "('a \<Rightarrow> pystr) \<Rightarrow> string \<Rightarrow> 'a list \<Rightarrow> nat" where
  "count_window w name xs = count_if (\<lambda>x. w x = lit name) xs"

text \<open>The groups of the elements that have a frame, by increasing frame.\<close>

definition frame_groups :: "('a \<Rightarrow> int option) \<Rightarrow> 'a list \<Rightarrow> (int \<times> 'a list) list" where
  "frame_groups f xs = sort_key fst (group_by (\<lambda>x. the (f x)) (filter (\<lambda>x. f x \<noteq> None) xs))"

definition summarize_frame :: "('a \<Rightarrow> pystr) \<Rightarrow> ('a \<Rightarrow> pyfloat) \<Rightarrow> ('a \<Rightarrow> pyfloat) \<Rightarrow> int \<times> 'a list \<Rightarrow> frame_summary" where
  "summarize_frame w ms mb = (\<lambda>(frame, xs).
    \<lparr>fs_frame = frame, fs_count = length xs, fs_never = count_window w ''never'' xs, fs_pre_frame = count_window w ''pre-frame'' xs,
     fs_setup = count_window w ''setup'' xs, fs_hot_path = count_window w ''hot-path'' xs,
     fs_post_present = count_window w ''post-present'' xs, fs_saved_ms = fsum (map ms xs), fs_saved_mb = fsum (map mb xs)\<rparr>)"

definition summarize_slot_frames :: "window_slot list \<Rightarrow> frame_summary list" where
  "summarize_slot_frames slots = map (summarize_frame ws_window ws_saved_ms ws_saved_mb) (frame_groups ws_frame slots)"

definition build_frame_window_plan :: "route_plan \<Rightarrow> window_plan" where
  "build_frame_window_plan p =
    (let slots = number_with renumber_slot (sort_slots (List.map_filter slot_from_directive (rp2_directives p)))
     in \<lparr>wp_mode = lit ''frame-window-plan-v0.24'', wp_slot_count = length slots,
       wp_frame_count = card (ws_frame ` set slots - {None}),
       wp_never = count_window ws_window ''never'' slots, wp_pre_frame = count_window ws_window ''pre-frame'' slots,
       wp_setup = count_window ws_window ''setup'' slots, wp_hot_path = count_window ws_window ''hot-path'' slots,
       wp_post_present = count_window ws_window ''post-present'' slots,
       wp_relief = fsum (map ws_saved_ms slots), wp_saved_mb = fsum (map ws_saved_mb slots),
       wp_frames = summarize_slot_frames slots, wp_slots = slots\<rparr>)"

end
