(* ===== verification/Execution_Packet.thy ===== *)
theory Execution_Packet
  imports Frame_Plans
begin

text \<open>
  The execution packet (\<^verbatim>\<open>src/fluidgateway/packet.py\<close>) and its simulation
  (\<^verbatim>\<open>src/fluidgateway/executor.py\<close>). \<open>packet.py\<close> summarizes the commands of a frame as
  \<open>windowing.py\<close> does its slots; both use the record \<open>frame_summary\<close>.
\<close>

section \<open>Commands\<close>

record exec_command =
  xc_sequence :: nat
  xc_action :: pystr
  xc_window :: pystr
  xc_phase :: pystr
  xc_operation :: pystr
  xc_frame :: "int option"
  xc_path :: pystr
  xc_target :: "pystr option"
  xc_value :: pyfloat
  xc_cost :: pyfloat
  xc_saved_ms :: pyfloat
  xc_saved_mb :: pyfloat
  xc_directive :: pystr
  xc_reason :: pystr

definition command_to_dict :: "exec_command \<Rightarrow> pyval" where
  "command_to_dict c = PDict
    [(lit ''sequence'', PInt (int (xc_sequence c))), (lit ''action'', PStr (xc_action c)), (lit ''window'', PStr (xc_window c)),
     (lit ''phase'', PStr (xc_phase c)), (lit ''operation_id'', PStr (xc_operation c)), (lit ''frame'', opt_int (xc_frame c)),
     (lit ''path'', PStr (xc_path c)), (lit ''target_resource_id'', opt_str (xc_target c)), (lit ''value_mb'', round4 (xc_value c)),
     (lit ''cost_ms'', round4 (xc_cost c)), (lit ''expected_saved_ms'', round4 (xc_saved_ms c)),
     (lit ''expected_saved_mb'', round4 (xc_saved_mb c)), (lit ''source_directive'', PStr (xc_directive c)),
     (lit ''reason'', PStr (xc_reason c))]"

definition packet_summary_to_dict :: "frame_summary \<Rightarrow> pyval" where
  "packet_summary_to_dict f = PDict
    [(lit ''frame'', PInt (fs_frame f)), (lit ''command_count'', PInt (int (fs_count f))), (lit ''skip_count'', PInt (int (fs_never f))),
     (lit ''pre_frame_count'', PInt (int (fs_pre_frame f))), (lit ''setup_count'', PInt (int (fs_setup f))),
     (lit ''hot_path_count'', PInt (int (fs_hot_path f))), (lit ''post_present_count'', PInt (int (fs_post_present f))),
     (lit ''estimated_saved_ms'', round4 (fs_saved_ms f)), (lit ''estimated_saved_mb'', round4 (fs_saved_mb f))]"

record exec_packet =
  xp_mode :: pystr
  xp_command_count :: nat
  xp_frame_count :: nat
  xp_skip :: nat
  xp_pre_frame :: nat
  xp_setup :: nat
  xp_hot_path :: nat
  xp_post_present :: nat
  xp_relief :: pyfloat
  xp_saved_mb :: pyfloat
  xp_frames :: "frame_summary list"
  xp_commands :: "exec_command list"

definition packet_to_dict :: "exec_packet \<Rightarrow> pyval" where
  "packet_to_dict p = PDict
    [(lit ''mode'', PStr (xp_mode p)), (lit ''command_count'', PInt (int (xp_command_count p))),
     (lit ''frame_count'', PInt (int (xp_frame_count p))), (lit ''skip_count'', PInt (int (xp_skip p))),
     (lit ''pre_frame_count'', PInt (int (xp_pre_frame p))), (lit ''setup_count'', PInt (int (xp_setup p))),
     (lit ''hot_path_count'', PInt (int (xp_hot_path p))), (lit ''post_present_count'', PInt (int (xp_post_present p))),
     (lit ''estimated_hot_path_relief_ms'', round4 (xp_relief p)), (lit ''estimated_saved_mb'', round4 (xp_saved_mb p)),
     (lit ''frames'', PList (map packet_summary_to_dict (xp_frames p))),
     (lit ''commands'', PList (map command_to_dict (xp_commands p)))]"

definition phase_actions :: "(pystr \<times> pystr) list" where
  "phase_actions = map (map_prod lit lit)
    [(''suppress'', ''skip_transfer''), (''reuse'', ''reuse_allocation''), (''remove-sync'', ''drop_sync_wait''),
     (''prefetch'', ''prestage_transfer''), (''pool'', ''pool_allocation''), (''present'', ''execute_protected'')]"

definition action_for_slot :: "window_slot \<Rightarrow> pystr" where
  "action_for_slot s = (case map_of phase_actions (ws_phase s) of None \<Rightarrow> lit ''execute'' | Some a \<Rightarrow> a)"

definition command_from_slot :: "nat \<Rightarrow> window_slot \<Rightarrow> exec_command" where
  "command_from_slot i s =
    \<lparr>xc_sequence = i, xc_action = action_for_slot s, xc_window = ws_window s, xc_phase = ws_phase s, xc_operation = ws_operation s,
     xc_frame = ws_frame s, xc_path = ws_path s, xc_target = ws_target s, xc_value = ws_value s, xc_cost = ws_cost s,
     xc_saved_ms = ws_saved_ms s, xc_saved_mb = ws_saved_mb s, xc_directive = ws_directive s, xc_reason = ws_rationale s\<rparr>"

definition summarize_command_frames :: "exec_command list \<Rightarrow> frame_summary list" where
  "summarize_command_frames cs = map (summarize_frame xc_window xc_saved_ms xc_saved_mb) (frame_groups xc_frame cs)"

definition build_execution_packet :: "window_plan \<Rightarrow> exec_packet" where
  "build_execution_packet p =
    (let cs = number_with command_from_slot (wp_slots p)
     in \<lparr>xp_mode = lit ''runtime-execution-packet-v0.25'', xp_command_count = length cs,
       xp_frame_count = card (xc_frame ` set cs - {None}), xp_skip = count_window xc_window ''never'' cs,
       xp_pre_frame = count_window xc_window ''pre-frame'' cs, xp_setup = count_window xc_window ''setup'' cs,
       xp_hot_path = count_window xc_window ''hot-path'' cs, xp_post_present = count_window xc_window ''post-present'' cs,
       xp_relief = fsum (map xc_saved_ms cs), xp_saved_mb = fsum (map xc_saved_mb cs),
       xp_frames = summarize_command_frames cs, xp_commands = cs\<rparr>)"

section \<open>Simulation\<close>

record command_result =
  cx_sequence :: nat
  cx_operation :: pystr
  cx_action :: pystr
  cx_window :: pystr
  cx_frame :: "int option"
  cx_status :: pystr
  cx_effect :: pystr
  cx_cost :: pyfloat
  cx_saved_mb :: pyfloat
  cx_reason :: pystr

definition command_result_to_dict :: "command_result \<Rightarrow> pyval" where
  "command_result_to_dict r = PDict
    [(lit ''sequence'', PInt (int (cx_sequence r))), (lit ''operation_id'', PStr (cx_operation r)), (lit ''action'', PStr (cx_action r)),
     (lit ''window'', PStr (cx_window r)), (lit ''frame'', opt_int (cx_frame r)), (lit ''status'', PStr (cx_status r)),
     (lit ''effect'', PStr (cx_effect r)), (lit ''cost_ms'', round4 (cx_cost r)), (lit ''saved_mb'', round4 (cx_saved_mb r)),
     (lit ''reason'', PStr (cx_reason r))]"

record frame_result =
  fr2_frame :: int
  fr2_commands :: nat
  fr2_applied :: nat
  fr2_ignored :: nat
  fr2_removed :: pyfloat
  fr2_prestaged :: pyfloat
  fr2_setup :: pyfloat
  fr2_protected :: pyfloat
  fr2_before :: pyfloat
  fr2_after :: pyfloat
  fr2_relief :: pyfloat
  fr2_saved_mb :: pyfloat

definition frame_result_to_dict :: "frame_result \<Rightarrow> pyval" where
  "frame_result_to_dict f = PDict
    [(lit ''frame'', PInt (fr2_frame f)), (lit ''command_count'', PInt (int (fr2_commands f))),
     (lit ''applied_count'', PInt (int (fr2_applied f))), (lit ''ignored_count'', PInt (int (fr2_ignored f))),
     (lit ''removed_cost_ms'', round4 (fr2_removed f)), (lit ''prestaged_cost_ms'', round4 (fr2_prestaged f)),
     (lit ''setup_cost_ms'', round4 (fr2_setup f)), (lit ''protected_hot_path_cost_ms'', round4 (fr2_protected f)),
     (lit ''hot_path_before_ms'', round4 (fr2_before f)), (lit ''hot_path_after_ms'', round4 (fr2_after f)),
     (lit ''hot_path_relief_ms'', round4 (fr2_relief f)), (lit ''estimated_saved_mb'', round4 (fr2_saved_mb f))]"

record exec_simulation =
  es_mode :: pystr
  es_commands :: nat
  es_frame_count :: nat
  es_applied :: nat
  es_ignored :: nat
  es_removed :: pyfloat
  es_prestaged :: pyfloat
  es_setup :: pyfloat
  es_protected :: pyfloat
  es_before :: pyfloat
  es_after :: pyfloat
  es_relief :: pyfloat
  es_saved_mb :: pyfloat
  es_frames :: "frame_result list"
  es_results :: "command_result list"

definition simulation_to_dict :: "exec_simulation \<Rightarrow> pyval" where
  "simulation_to_dict s = PDict
    [(lit ''mode'', PStr (es_mode s)), (lit ''command_count'', PInt (int (es_commands s))),
     (lit ''frame_count'', PInt (int (es_frame_count s))), (lit ''applied_count'', PInt (int (es_applied s))),
     (lit ''ignored_count'', PInt (int (es_ignored s))), (lit ''removed_cost_ms'', round4 (es_removed s)),
     (lit ''prestaged_cost_ms'', round4 (es_prestaged s)), (lit ''setup_cost_ms'', round4 (es_setup s)),
     (lit ''protected_hot_path_cost_ms'', round4 (es_protected s)), (lit ''hot_path_before_ms'', round4 (es_before s)),
     (lit ''hot_path_after_ms'', round4 (es_after s)), (lit ''hot_path_relief_ms'', round4 (es_relief s)),
     (lit ''estimated_saved_mb'', round4 (es_saved_mb s)), (lit ''frames'', PList (map frame_result_to_dict (es_frames s))),
     (lit ''command_results'', PList (map command_result_to_dict (es_results s)))]"

definition action_effects :: "(pystr \<times> pystr) list" where
  "action_effects = map (map_prod lit lit)
    [(''skip_transfer'', ''removed''), (''reuse_allocation'', ''removed''), (''drop_sync_wait'', ''removed''),
     (''prestage_transfer'', ''prestaged''), (''pool_allocation'', ''setup''), (''execute_protected'', ''protected'')]"

definition effect_for_action :: "pystr \<Rightarrow> pystr" where
  "effect_for_action a = (case map_of action_effects a of None \<Rightarrow> lit ''ignored'' | Some e \<Rightarrow> e)"

definition simulate_command :: "exec_command \<Rightarrow> command_result" where
  "simulate_command c = (let effect = effect_for_action (xc_action c) in
    \<lparr>cx_sequence = xc_sequence c, cx_operation = xc_operation c, cx_action = xc_action c, cx_window = xc_window c,
     cx_frame = xc_frame c, cx_status = (if effect = lit ''ignored'' then lit ''ignored'' else lit ''applied''),
     cx_effect = effect, cx_cost = xc_cost c, cx_saved_mb = (if effect = lit ''removed'' then xc_saved_mb c else Fin 0),
     cx_reason = xc_reason c\<rparr>)"

definition effect_cost :: "command_result list \<Rightarrow> string \<Rightarrow> pyfloat" where
  "effect_cost rs effect = fsum_if (\<lambda>r. cx_effect r = lit effect) cx_cost rs"

definition count_result_status :: "command_result list \<Rightarrow> string \<Rightarrow> nat" where
  "count_result_status rs status = count_if (\<lambda>r. cx_status r = lit status) rs"

definition summarize_result_frame :: "int \<times> command_result list \<Rightarrow> frame_result" where
  "summarize_result_frame = (\<lambda>(frame, rs).
    let removed = effect_cost rs ''removed''; prestaged = effect_cost rs ''prestaged'';
        setup = effect_cost rs ''setup''; protected = effect_cost rs ''protected'';
        before = fadd (fadd (fadd removed prestaged) setup) protected; after = protected
    in \<lparr>fr2_frame = frame, fr2_commands = length rs, fr2_applied = count_result_status rs ''applied'',
        fr2_ignored = count_result_status rs ''ignored'', fr2_removed = removed, fr2_prestaged = prestaged, fr2_setup = setup,
        fr2_protected = protected, fr2_before = before, fr2_after = after, fr2_relief = fmax (Fin 0) (fsub before after),
        fr2_saved_mb = fsum (map cx_saved_mb rs)\<rparr>)"

definition summarize_result_frames :: "command_result list \<Rightarrow> frame_result list" where
  "summarize_result_frames rs = map summarize_result_frame (frame_groups cx_frame rs)"

definition simulate_execution :: "exec_packet \<Rightarrow> exec_simulation" where
  "simulate_execution p =
    (let rs = map simulate_command (xp_commands p); fs = summarize_result_frames rs
     in \<lparr>es_mode = lit ''runtime-execution-simulation-v0.26'', es_commands = length rs, es_frame_count = length fs,
       es_applied = count_result_status rs ''applied'', es_ignored = count_result_status rs ''ignored'',
       es_removed = fsum (map fr2_removed fs), es_prestaged = fsum (map fr2_prestaged fs), es_setup = fsum (map fr2_setup fs),
       es_protected = fsum (map fr2_protected fs), es_before = fsum (map fr2_before fs), es_after = fsum (map fr2_after fs),
       es_relief = fsum (map fr2_relief fs), es_saved_mb = fsum (map fr2_saved_mb fs), es_frames = fs, es_results = rs\<rparr>)"

end
