(* ===== verification/Budget_Envelope.thy ===== *)
theory Budget_Envelope
  imports Execution_Packet
begin

text \<open>
  The adaptive loop (\<^verbatim>\<open>src/fluidgateway/adaptive.py\<close>) turns simulated frames into pressure and
  directives; the budget envelope (\<^verbatim>\<open>src/fluidgateway/budget.py\<close>) turns those and the residency of
  the memory layers into limits for the arbiter.
\<close>

definition fabs :: "pyfloat \<Rightarrow> pyfloat" where
  "fabs x = (case x of Fin a \<Rightarrow> Fin \<bar>a\<bar> | NaN \<Rightarrow> NaN | _ \<Rightarrow> PInf)"

text \<open>\<^verbatim>\<open>max(xs, default=d)\<close>.\<close>

definition fmax_list :: "pyfloat \<Rightarrow> pyfloat list \<Rightarrow> pyfloat" where
  "fmax_list d xs = (case xs of [] \<Rightarrow> d | y # ys \<Rightarrow> foldl fmax y ys)"

definition default_frame_budget :: pyfloat where
  "default_frame_budget = to_f64 (1667 / 100)"

section \<open>Adaptive loop\<close>

record adaptive_directive =
  ad_action :: pystr
  ad_priority :: int
  ad_frame :: int
  ad_target :: pystr
  ad_value :: pyfloat
  ad_unit :: pystr
  ad_reason :: pystr
  ad_effect :: pystr

definition adaptive_directive_to_dict :: "adaptive_directive \<Rightarrow> pyval" where
  "adaptive_directive_to_dict d = PDict
    [(lit ''action'', PStr (ad_action d)), (lit ''priority'', PInt (ad_priority d)), (lit ''frame'', PInt (ad_frame d)),
     (lit ''target'', PStr (ad_target d)), (lit ''value'', round4 (ad_value d)), (lit ''unit'', PStr (ad_unit d)),
     (lit ''reason'', PStr (ad_reason d)), (lit ''expected_effect'', PStr (ad_effect d))]"

record adaptive_frame =
  af_frame :: int
  af_target :: pyfloat
  af_before :: pyfloat
  af_after :: pyfloat
  af_relief :: pyfloat
  af_delta :: pyfloat
  af_pressure :: pystr
  af_profile :: pystr
  af_directives :: nat

definition adaptive_frame_to_dict :: "adaptive_frame \<Rightarrow> pyval" where
  "adaptive_frame_to_dict f = PDict
    [(lit ''frame'', PInt (af_frame f)), (lit ''target_frame_ms'', round4 (af_target f)), (lit ''hot_path_before_ms'', round4 (af_before f)),
     (lit ''hot_path_after_ms'', round4 (af_after f)), (lit ''hot_path_relief_ms'', round4 (af_relief f)),
     (lit ''budget_delta_ms'', round4 (af_delta f)), (lit ''pressure_status'', PStr (af_pressure f)),
     (lit ''profile'', PStr (af_profile f)), (lit ''directive_count'', PInt (int (af_directives f)))]"

record adaptive_loop =
  al_mode :: pystr
  al_frame_count :: nat
  al_over :: nat
  al_within :: nat
  al_max_over :: pyfloat
  al_relief :: pyfloat
  al_adjustments :: nat
  al_profile :: pystr
  al_frames :: "adaptive_frame list"
  al_directives :: "adaptive_directive list"

definition adaptive_loop_to_dict :: "adaptive_loop \<Rightarrow> pyval" where
  "adaptive_loop_to_dict l = PDict
    [(lit ''mode'', PStr (al_mode l)), (lit ''frame_count'', PInt (int (al_frame_count l))),
     (lit ''over_budget_count'', PInt (int (al_over l))), (lit ''within_budget_count'', PInt (int (al_within l))),
     (lit ''max_over_budget_ms'', round4 (al_max_over l)), (lit ''total_hot_path_relief_ms'', round4 (al_relief l)),
     (lit ''adjustment_count'', PInt (int (al_adjustments l))), (lit ''profile'', PStr (al_profile l)),
     (lit ''frames'', PList (map adaptive_frame_to_dict (al_frames l))),
     (lit ''directives'', PList (map adaptive_directive_to_dict (al_directives l)))]"

definition adaptive_directive_ms :: "string \<Rightarrow> int \<Rightarrow> int \<Rightarrow> string \<Rightarrow> pyfloat \<Rightarrow> string \<Rightarrow> string \<Rightarrow> adaptive_directive" where
  "adaptive_directive_ms action priority frame target v reason effect =
    \<lparr>ad_action = lit action, ad_priority = priority, ad_frame = frame, ad_target = lit target, ad_value = v, ad_unit = lit ''ms'',
     ad_reason = lit reason, ad_effect = lit effect\<rparr>"

definition directives_for_frame :: "frame_result \<Rightarrow> pyfloat \<Rightarrow> pyfloat \<Rightarrow> adaptive_directive list" where
  "directives_for_frame f target delta =
    (if fless delta (Fin 0) then
       [adaptive_directive_ms ''tighten-hot-path-admission'' 95 (fr2_frame f) ''hot-path'' (fabs delta)
          ''Simulated hot path remains over the frame target.''
          ''Reject or defer more non-critical work before this frame executes.'',
        adaptive_directive_ms ''expand-pre-frame-window'' 90 (fr2_frame f) ''pre-frame'' (fadd (fr2_prestaged f) (fabs delta))
          ''More work must move before the frame to recover target headroom.''
          ''Increase the early transfer window for predictable RAM/VRAM movement.'']
       @ (if fless target (fr2_protected f) then
            [adaptive_directive_ms ''split-protected-hot-path'' 88 (fr2_frame f) ''hot-path'' (fsub (fr2_protected f) target)
               ''Protected hot-path work alone exceeds the target frame budget.''
               ''Look for work that can be tiled, staged, cached, or moved earlier.''] else [])
       @ (if fless (Fin 0) (fr2_removed f) then
            [adaptive_directive_ms ''keep-suppression-active'' 84 (fr2_frame f) ''never'' (fr2_removed f)
               ''Existing suppression is still buying measurable frame relief.''
               ''Keep redundant transfers, allocations, and sync waits out.''] else [])
     else
       (if fless (Fin 0) (fr2_prestaged f) then
          [adaptive_directive_ms ''preserve-pre-frame-window'' 72 (fr2_frame f) ''pre-frame'' (fr2_prestaged f)
             ''The simulated frame is within budget with prestaged work.''
             ''Keep predictable transfer work outside the hot path.''] else [])
       @ (if fless (Fin 0) (fr2_removed f) then
            [adaptive_directive_ms ''maintain-suppression-cache'' 70 (fr2_frame f) ''never'' (fr2_removed f)
               ''Suppressed work contributes to the current headroom.''
               ''Continue eliminating redundant copies, allocations, and waits.''] else [])
       @ [adaptive_directive_ms ''hold-current-packet'' 55 (fr2_frame f) ''packet'' delta
            ''Simulation is within the frame target.''
            ''Keep this packet shape unless later telemetry regresses.''])"

definition frame_target :: "(int \<times> pyfloat) list \<Rightarrow> int \<Rightarrow> pyfloat" where
  "frame_target targets frame = (case map_of targets frame of None \<Rightarrow> default_frame_budget | Some t \<Rightarrow> t)"

definition adaptive_frame_of :: "(int \<times> pyfloat) list \<Rightarrow> frame_result \<Rightarrow> adaptive_frame \<times> adaptive_directive list" where
  "adaptive_frame_of targets f =
    (let target = frame_target targets (fr2_frame f); delta = fsub target (fr2_after f);
         fits = fle (Fin 0) delta; ds = directives_for_frame f target delta
     in (\<lparr>af_frame = fr2_frame f, af_target = target, af_before = fr2_before f, af_after = fr2_after f, af_relief = fr2_relief f,
          af_delta = delta, af_pressure = (if fits then lit ''within-budget'' else lit ''over-budget''),
          af_profile = (if fits then lit ''stable'' else lit ''aggressive''), af_directives = length ds\<rparr>, ds))"

definition build_adaptive_loop :: "exec_simulation \<Rightarrow> (int \<times> pyfloat) list \<Rightarrow> adaptive_loop" where
  "build_adaptive_loop s targets =
    (let results = map (adaptive_frame_of targets) (es_frames s); frames = map fst results; ds = concat (map snd results);
         over = map (\<lambda>f. fabs (af_delta f)) (filter (\<lambda>f. af_pressure f = lit ''over-budget'') frames)
     in \<lparr>al_mode = lit ''adaptive-executor-loop-v0.27'', al_frame_count = length frames,
       al_over = count_if (\<lambda>f. af_pressure f = lit ''over-budget'') frames,
       al_within = count_if (\<lambda>f. af_pressure f = lit ''within-budget'') frames,
       al_max_over = fmax_list (Fin 0) over, al_relief = fsum (map af_relief frames), al_adjustments = length ds,
       al_profile = (if over \<noteq> [] then lit ''aggressive'' else lit ''stable''), al_frames = frames,
       al_directives = sort_key (\<lambda>d. (- ad_priority d, ad_frame d, ad_action d)) ds\<rparr>)"

section \<open>Envelopes\<close>

record memory_envelope =
  me_memory :: pystr
  me_active :: pyfloat
  me_budget :: "pyfloat option"
  me_headroom :: "pyfloat option"
  me_pressure :: pyfloat
  me_status :: pystr
  me_recommendation :: pystr

definition rounded_or_none :: "pyfloat option \<Rightarrow> pyval" where
  "rounded_or_none v = (case v of None \<Rightarrow> PNone | Some x \<Rightarrow> round4 x)"

definition memory_envelope_to_dict :: "memory_envelope \<Rightarrow> pyval" where
  "memory_envelope_to_dict e = PDict
    [(lit ''memory'', PStr (me_memory e)), (lit ''active_mb'', round4 (me_active e)), (lit ''budget_mb'', rounded_or_none (me_budget e)),
     (lit ''headroom_mb'', rounded_or_none (me_headroom e)), (lit ''pressure_mb'', round4 (me_pressure e)),
     (lit ''status'', PStr (me_status e)), (lit ''recommendation'', PStr (me_recommendation e))]"

record frame_envelope =
  fe_frame :: int
  fe_profile :: pystr
  fe_pressure :: pystr
  fe_target :: pyfloat
  fe_max_hot_path :: pyfloat
  fe_copy_budget :: pyfloat
  fe_pre_frame :: pyfloat
  fe_delta :: pyfloat
  fe_admission :: pystr
  fe_memory_policy :: pystr
  fe_directives :: nat

definition frame_envelope_to_dict :: "frame_envelope \<Rightarrow> pyval" where
  "frame_envelope_to_dict e = PDict
    [(lit ''frame'', PInt (fe_frame e)), (lit ''profile'', PStr (fe_profile e)), (lit ''pressure_status'', PStr (fe_pressure e)),
     (lit ''target_frame_ms'', round4 (fe_target e)), (lit ''max_hot_path_ms'', round4 (fe_max_hot_path e)),
     (lit ''copy_queue_budget_ms'', round4 (fe_copy_budget e)), (lit ''pre_frame_window_ms'', round4 (fe_pre_frame e)),
     (lit ''budget_delta_ms'', round4 (fe_delta e)), (lit ''admission_policy'', PStr (fe_admission e)),
     (lit ''memory_policy'', PStr (fe_memory_policy e)), (lit ''directive_count'', PInt (int (fe_directives e)))]"

record runtime_envelope =
  re_mode :: pystr
  re_profile :: pystr
  re_policy :: pystr
  re_frame_count :: nat
  re_over :: nat
  re_layer_count :: nat
  re_constrained :: nat
  re_pressure :: pyfloat
  re_frames :: "frame_envelope list"
  re_layers :: "memory_envelope list"

definition runtime_envelope_to_dict :: "runtime_envelope \<Rightarrow> pyval" where
  "runtime_envelope_to_dict e = PDict
    [(lit ''mode'', PStr (re_mode e)), (lit ''profile'', PStr (re_profile e)), (lit ''next_frame_policy'', PStr (re_policy e)),
     (lit ''frame_count'', PInt (int (re_frame_count e))), (lit ''over_budget_frame_count'', PInt (int (re_over e))),
     (lit ''memory_layer_count'', PInt (int (re_layer_count e))), (lit ''constrained_memory_count'', PInt (int (re_constrained e))),
     (lit ''total_memory_pressure_mb'', round4 (re_pressure e)), (lit ''frames'', PList (map frame_envelope_to_dict (re_frames e))),
     (lit ''memory_layers'', PList (map memory_envelope_to_dict (re_layers e)))]"

definition known_memory_layers :: "pystr list" where
  "known_memory_layers = map lit [''ram'', ''vram'', ''shared'', ''staging'', ''swapchain'']"

text \<open>The state snapshot: none, a live snapshot's two dictionaries, or a dictionary read from outside.\<close>

datatype state_source = NoState | LiveState "(pystr \<times> pyfloat) list" "(pystr \<times> pyfloat) list" | DictState pydict

fun float_map :: "pydict \<Rightarrow> (pystr \<times> pyfloat) list res" where
  "float_map [] = Inr []"
| "float_map ((k, v) # d) = (if v = PNone then float_map d
     else ebind (py_float v) (\<lambda>x. ebind (float_map d) (\<lambda>r. Inr ((k, x) # r))))"

definition snapshot_map :: "state_source \<Rightarrow> string \<Rightarrow> (pystr \<times> pyfloat) list res" where
  "snapshot_map s key = (case s of
     NoState \<Rightarrow> Inr []
   | LiveState totals budgets \<Rightarrow> Inr (if key = ''memory_totals_mb'' then totals else budgets)
   | DictState d \<Rightarrow> (case dget d key of PDict e \<Rightarrow> float_map e | _ \<Rightarrow> Inr []))"

definition build_memory_layer :: "pystr \<Rightarrow> pyfloat \<Rightarrow> pyfloat option \<Rightarrow> memory_envelope" where
  "build_memory_layer memory active budget = (case budget of
     None \<Rightarrow> \<lparr>me_memory = memory, me_active = active, me_budget = None, me_headroom = None, me_pressure = Fin 0,
         me_status = lit ''unbounded'', me_recommendation = lit ''observe-residency''\<rparr>
   | Some b \<Rightarrow>
       let pressure = fmax (Fin 0) (fsub active b);
           (status, recommendation) =
             (if fless (Fin 0) pressure then (''over-budget'', ''evict-or-defer-residency'')
              else if fle (fmul b (to_f64 (85 / 100))) active then (''near-budget'', ''reserve-headroom'')
              else (''within-budget'', ''hold-residency''))
       in \<lparr>me_memory = memory, me_active = active, me_budget = Some b, me_headroom = Some (fsub b active), me_pressure = pressure,
           me_status = lit status, me_recommendation = lit recommendation\<rparr>)"

definition get_or_zero :: "(pystr \<times> pyfloat) list \<Rightarrow> pystr \<Rightarrow> pyfloat" where
  "get_or_zero m k = (case map_of m k of None \<Rightarrow> Fin 0 | Some x \<Rightarrow> x)"

definition build_memory_layers :: "state_source \<Rightarrow> (pystr \<times> pyfloat) list \<Rightarrow> memory_envelope list res" where
  "build_memory_layers s memory_budgets =
    ebind (snapshot_map s ''memory_totals_mb'') (\<lambda>totals.
    ebind (snapshot_map s ''memory_budgets_mb'') (\<lambda>extra.
    let budgets = foldl (\<lambda>m (k, v). alist_put k v m) memory_budgets extra;
        memories = sort (remdups (known_memory_layers @ map fst totals @ map fst budgets))
    in Inr (map (\<lambda>m. build_memory_layer m (get_or_zero totals m) (map_of budgets m))
        (filter (\<lambda>m. fless (Fin 0) (get_or_zero totals m) \<or> m \<in> fst ` set budgets) memories))))"

definition next_frame_policy :: "pystr \<Rightarrow> bool \<Rightarrow> pystr" where
  "next_frame_policy profile constrained =
    (if profile = lit ''aggressive'' \<and> constrained then lit ''tighten-frame-and-memory-admission''
     else if profile = lit ''aggressive'' then lit ''tighten-frame-admission''
     else if constrained then lit ''tighten-memory-admission'' else lit ''maintain-current-envelope'')"

definition suggest_copy_queue_budget :: "pyfloat \<Rightarrow> pyfloat \<Rightarrow> pyfloat" where
  "suggest_copy_queue_budget target delta =
    (if fle delta (Fin 0) then Fin 0 else fmin (fmul target (to_f64 (15 / 100))) (fmul delta (Fin (1 / 4))))"

definition directive_value :: "adaptive_directive list \<Rightarrow> pystr set \<Rightarrow> pyfloat" where
  "directive_value ds wanted = fmax_list (Fin 0) (map ad_value (filter (\<lambda>d. ad_action d \<in> wanted) ds))"

definition build_frame_envelope :: "adaptive_frame \<Rightarrow> adaptive_directive list \<Rightarrow> bool \<Rightarrow> frame_envelope" where
  "build_frame_envelope f directives constrained =
    (let ds = filter (\<lambda>d. ad_frame d = af_frame f) directives;
         over = (af_pressure f = lit ''over-budget'');
         window = directive_value ds {lit ''expand-pre-frame-window'', lit ''preserve-pre-frame-window''}
     in \<lparr>fe_frame = af_frame f, fe_profile = (if over \<or> constrained then lit ''aggressive'' else lit ''stable''),
       fe_pressure = af_pressure f, fe_target = af_target f, fe_max_hot_path = af_target f,
       fe_copy_budget = (if over then Fin 0 else suggest_copy_queue_budget (af_target f) (af_delta f)),
       fe_pre_frame = window, fe_delta = af_delta f,
       fe_admission = (if over then lit ''block-noncritical-hot-path'' else lit ''allow-budgeted-hot-path''),
       fe_memory_policy = (if constrained then lit ''evict-or-defer-residency'' else lit ''hold-current-residency''),
       fe_directives = length ds\<rparr>)"

definition build_runtime_envelope :: "adaptive_loop \<Rightarrow> state_source \<Rightarrow> (pystr \<times> pyfloat) list \<Rightarrow> runtime_envelope res" where
  "build_runtime_envelope l s memory_budgets =
    ebind (build_memory_layers s memory_budgets) (\<lambda>layers.
    let constrained_count = count_if (\<lambda>e. me_status e \<in> {lit ''near-budget'', lit ''over-budget''}) layers;
        constrained = (0 < constrained_count);
        frames = map (\<lambda>f. build_frame_envelope f (al_directives l) constrained) (al_frames l);
        over = count_if (\<lambda>e. fe_pressure e = lit ''over-budget'') frames;
        profile = (if over \<noteq> 0 \<or> constrained then lit ''aggressive'' else lit ''stable'')
    in Inr \<lparr>re_mode = lit ''runtime-budget-envelope-v0.28'', re_profile = profile, re_policy = next_frame_policy profile constrained,
       re_frame_count = length frames, re_over = over, re_layer_count = length layers, re_constrained = constrained_count,
       re_pressure = fsum (map me_pressure layers), re_frames = frames, re_layers = layers\<rparr>)"

end
