(* ===== verification/Py_Float_Order.thy ===== *)
theory Py_Float_Order
  imports Py_Builtins
begin

text \<open>
  Order facts of binary64 arithmetic on numbers that are not negative: rounding is monotone and
  keeps floats, so adding a number that is not negative never makes a sum smaller.
\<close>

lemma rnd_even_mono:
  assumes "x \<le> y"
  shows "rnd_even x \<le> rnd_even y"
proof (rule ccontr)
  assume "\<not> rnd_even x \<le> rnd_even y"
  then have lt: "rnd_even y + 1 \<le> rnd_even x" by linarith
  have "of_int (rnd_even y) + 1 \<le> (of_int (rnd_even x) :: rat)"
    using lt by (metis of_int_1 of_int_add of_int_le_iff)
  moreover have "of_int (rnd_even x) - x \<le> 1 / 2" "y - of_int (rnd_even y) \<le> 1 / 2"
    using rnd_even_error [of x] rnd_even_error [of y]
      abs_ge_self [of "of_int (rnd_even x) - x"] abs_ge_minus_self [of "of_int (rnd_even y) - y"] by linarith+
  ultimately have "x = y" using assms by linarith
  with lt show False by simp
qed

lemma round_at_mono: "x \<le> y \<Longrightarrow> round_at 2 e x \<le> round_at 2 e y"
  unfolding round_at_def
  by (intro mult_right_mono of_int_le_iff [THEN iffD2] rnd_even_mono divide_right_mono) simp_all

lemma powb_less: "m < n \<Longrightarrow> powb 2 m < powb 2 n"
  by (simp add: powb_power_int power_int_strict_increasing)

lemma flogb_mono:
  assumes "0 < x" and "x \<le> y"
  shows "flogb 2 x \<le> flogb 2 y"
proof (rule ccontr)
  assume "\<not> flogb 2 x \<le> flogb 2 y"
  then have "powb 2 (flogb 2 y + 1) \<le> powb 2 (flogb 2 x)" by (intro powb_mono) simp_all
  then show False using flogb_bounds [of 2 x] flogb_bounds [of 2 y] assms by simp
qed

lemma round_at_power:
  assumes "e \<le> k"
  shows "round_at 2 e (powb 2 k) = powb 2 k"
proof (rule round_at_exact)
  have "powb 2 k = powb 2 (k - e) * powb 2 e" using powb_add [of 2 "k - e" e] by simp
  moreover have "powb 2 (k - e) = of_int (2 ^ nat (k - e))" using assms by (simp add: powb_def)
  ultimately show "powb 2 k = of_int (2 ^ nat (k - e)) * powb 2 e" by simp
qed simp

lemma round_pos_mono:
  assumes "0 < x" and "x \<le> y"
  shows "round_at 2 (f64_exp x) x \<le> round_at 2 (f64_exp y) y"
proof -
  have le: "f64_exp x \<le> f64_exp y" using flogb_mono [OF assms] assms by (simp add: f64_exp_def)
  show ?thesis
  proof (cases "f64_exp x = f64_exp y")
    case True
    then show ?thesis using assms by (simp add: round_at_mono)
  next
    case False
    let ?k = "flogb 2 y"
    have ey: "f64_exp y = ?k - 52" "flogb 2 x - 52 < ?k - 52"
      using False le assms by (auto simp: f64_exp_def)
    have "x \<le> powb 2 ?k"
      using flogb_bounds [of 2 x] powb_mono [of 2 "flogb 2 x + 1" ?k] ey assms by simp
    then have "round_at 2 (f64_exp x) x \<le> round_at 2 (f64_exp x) (powb 2 ?k)" by (rule round_at_mono)
    also have "\<dots> = powb 2 ?k" using le ey by (intro round_at_power) simp
    also have "\<dots> = round_at 2 (f64_exp y) (powb 2 ?k)" using ey by (intro round_at_power [symmetric]) simp
    also have "\<dots> \<le> round_at 2 (f64_exp y) y"
      using flogb_bounds [of 2 y] assms by (intro round_at_mono) simp
    finally show ?thesis .
  qed
qed

lemma round_at_nonneg: "0 \<le> x \<Longrightarrow> 0 \<le> round_at 2 e x"
  using round_at_mono [of 0 x e] by (simp add: round_at_def rnd_even_def)

definition fnonneg :: "pyfloat \<Rightarrow> bool" where
  "fnonneg x \<longleftrightarrow> (case x of Fin a \<Rightarrow> 0 \<le> a | PInf \<Rightarrow> True | _ \<Rightarrow> False)"

lemma fle_simps [simp]:
  "fle (Fin a) (Fin b) \<longleftrightarrow> a \<le> b" "fle (Fin a) PInf" "fle PInf PInf" "\<not> fle PInf (Fin a)" "\<not> fle NaN x" "\<not> fle x NaN" "\<not> fle (Fin a) NInf" "\<not> fle PInf NInf"
  by (auto simp: fle_def feq_def elim: fless.elims)

lemma fle_trans: "fle x y \<Longrightarrow> fle y z \<Longrightarrow> fle x z"
  by (cases x; cases y; cases z) (auto simp: fle_def feq_def)

lemma fle_refl: "x \<noteq> NaN \<Longrightarrow> fle x x"
  by (simp add: fle_def feq_def)

lemma f64_pack_nonneg: "0 \<le> v \<Longrightarrow> fnonneg (f64_pack v)"
  by (simp add: f64_pack_def fnonneg_def)

lemma f64_pack_mono:
  assumes "0 \<le> v" and "v \<le> w"
  shows "fle (f64_pack v) (f64_pack w)"
  using assms flogb_mono [of v w] by (auto simp: f64_pack_def)

lemma to_f64_nonneg: "0 \<le> x \<Longrightarrow> fnonneg (to_f64 x)"
  using f64_pack_nonneg round_at_nonneg by (auto simp: to_f64_def fnonneg_def)

lemma to_f64_mono:
  assumes "0 \<le> x" and "x \<le> y"
  shows "fle (to_f64 x) (to_f64 y)"
proof (cases "x = 0")
  case True
  then show ?thesis using to_f64_nonneg [of y] assms
    by (cases "to_f64 y") (auto simp: to_f64_def fnonneg_def)
next
  case False
  then show ?thesis using round_pos_mono [of x y] assms
    by (auto simp: to_f64_def intro: f64_pack_mono round_at_nonneg)
qed

section \<open>Floats\<close>

text \<open>The finite numbers of type \<open>pyfloat\<close> that binary64 has.\<close>

definition is_f64 :: "pyfloat \<Rightarrow> bool" where
  "is_f64 x \<longleftrightarrow> (case x of Fin a \<Rightarrow> to_f64 a = Fin a | _ \<Rightarrow> True)"

lemma round_at_mantissa:
  assumes "0 < x"
  shows "rnd_even (x / powb 2 (f64_exp x)) \<le> 2 ^ 53"
proof -
  let ?e = "f64_exp x"
  have "x < powb 2 (flogb 2 x + 1)" using flogb_bounds [of 2 x] assms by simp
  also have "\<dots> \<le> powb 2 (?e + 53)" using assms by (intro powb_mono) (simp_all add: f64_exp_def)
  also have "\<dots> = 2 ^ 53 * powb 2 ?e" by (simp add: powb_add) (simp add: powb_def)
  finally have "x / powb 2 ?e \<le> of_int (2 ^ 53)" by (simp add: pos_divide_le_eq)
  then have "rnd_even (x / powb 2 ?e) \<le> rnd_even (of_int (2 ^ 53))" by (rule rnd_even_mono)
  then show ?thesis by (simp only: rnd_even_int)
qed

lemma to_f64_fix:
  assumes "0 \<le> x" and "to_f64 x = Fin y"
  shows "to_f64 y = Fin y"
proof (cases "x = 0")
  case False
  then have x: "0 < x" using assms by simp
  let ?e = "f64_exp x" and ?m = "rnd_even (x / powb 2 (f64_exp x))"
  have y: "y = of_int ?m * powb 2 ?e" and small: "y \<noteq> 0 \<longrightarrow> flogb 2 \<bar>y\<bar> < 1024"
    using assms False by (auto simp: to_f64_def f64_pack_def round_at_def split: if_splits)
  have big: "\<bar>y\<bar> < powb 2 1024"
  proof (cases "y = 0")
    case False
    then have "\<bar>y\<bar> < powb 2 (flogb 2 \<bar>y\<bar> + 1)" using flogb_bounds [of 2 "\<bar>y\<bar>"] by simp
    also have "\<dots> \<le> powb 2 1024" using small False by (intro powb_mono) simp_all
    finally show ?thesis .
  qed simp
  have e: "- 1074 \<le> ?e" by (simp add: f64_exp_def)
  have m0: "0 \<le> ?m" using rnd_even_mono [of "of_int 0" "x / powb 2 ?e"] x by (simp only: rnd_even_int) simp
  show ?thesis
  proof (cases "?m = 2 ^ 53")
    case True
    have "y = of_int 1 * powb 2 (53 + ?e)" using True by (simp add: y powb_add) (simp add: powb_def)
    then show ?thesis by (rule to_f64_exact) (use e big in simp_all)
  next
    case False
    then have "\<bar>?m\<bar> < 2 ^ 53" using round_at_mantissa [OF x] m0 by simp
    from to_f64_exact [OF y this e big] show ?thesis .
  qed
qed (use assms in \<open>simp add: to_f64_def\<close>)

lemma is_f64_fadd: "fnonneg x \<Longrightarrow> fnonneg y \<Longrightarrow> is_f64 (fadd x y)"
  by (cases x; cases y) (auto simp: fnonneg_def is_f64_def split: pyfloat.split intro: to_f64_fix [OF add_nonneg_nonneg])

lemma fnonneg_fadd: "fnonneg x \<Longrightarrow> fnonneg y \<Longrightarrow> fnonneg (fadd x y)"
  by (cases x; cases y) (auto simp: fnonneg_def intro: to_f64_nonneg [unfolded fnonneg_def])

lemma fadd_mono_left:
  assumes "fle x y" and "fnonneg x" and "fnonneg z"
  shows "fle (fadd x z) (fadd y z)"
proof (cases x; cases y; cases z)
  fix a b c assume "x = Fin a" "y = Fin b" "z = Fin c"
  then show ?thesis using assms to_f64_mono [of "a + c" "b + c"] by (simp add: fnonneg_def)
next
  fix a c assume "x = Fin a" "y = PInf" "z = Fin c"
  then show ?thesis using to_f64_nonneg [of "a + c"] assms by (cases "to_f64 (a + c)") (auto simp: fnonneg_def)
qed (use assms in \<open>auto simp: fnonneg_def\<close>)

lemma fadd_ge_left:
  assumes "is_f64 x" and "fnonneg x" and "fnonneg z"
  shows "fle x (fadd x z)"
proof (cases x; cases z)
  fix a c assume "x = Fin a" "z = Fin c"
  then show ?thesis using assms to_f64_mono [of a "a + c"] by (simp add: fnonneg_def is_f64_def)
qed (use assms in \<open>auto simp: fnonneg_def\<close>)

lemma fadd_commute: "fadd x y = fadd y x"
  by (cases x; cases y) (simp_all add: add.commute)

lemma fadd_ge_right: "is_f64 z \<Longrightarrow> fnonneg x \<Longrightarrow> fnonneg z \<Longrightarrow> fle z (fadd x z)"
  using fadd_ge_left [of z x] by (simp add: fadd_commute)

lemma fmax_zero_nonneg: "fnonneg (fmax (Fin 0) x)"
  by (cases x) (auto simp: fmax_def fnonneg_def)

lemma fsum_snoc: "fsum (xs @ [x]) = fadd (fsum xs) x"
  by (simp add: fsum_def)

lemma fsum_f64: "\<forall>x \<in> set xs. fnonneg x \<Longrightarrow> fnonneg (fsum xs) \<and> is_f64 (fsum xs)"
proof (induction xs rule: rev_induct)
  case (snoc x xs)
  then show ?case by (simp add: fsum_snoc fnonneg_fadd is_f64_fadd)
qed (simp add: fsum_def fnonneg_def is_f64_def to_f64_def)

end
