(* ===== verification/Budget_Arbiter.thy ===== *)
theory Budget_Arbiter
  imports Budget_Envelope Py_Float_Order
begin

text \<open>
  The budget arbiter (\<^verbatim>\<open>src/fluidgateway/arbiter.py\<close>): every command of a packet is dropped,
  prestaged, admitted or deferred against the envelope of its frame, with the time used so far
  kept per frame.
\<close>

section \<open>Data\<close>

record command_arbitration =
  ca_sequence :: nat
  ca_operation :: pystr
  ca_frame :: "int option"
  ca_window :: pystr
  ca_action :: pystr
  ca_decision :: pystr
  ca_status :: pystr
  ca_cost :: pyfloat
  ca_used :: pyfloat
  ca_limit :: pyfloat
  ca_reason :: pystr
  ca_effect :: pystr

definition arbitration_to_dict :: "command_arbitration \<Rightarrow> pyval" where
  "arbitration_to_dict a = PDict
    [(lit ''sequence'', PInt (int (ca_sequence a))), (lit ''operation_id'', PStr (ca_operation a)), (lit ''frame'', opt_int (ca_frame a)),
     (lit ''window'', PStr (ca_window a)), (lit ''action'', PStr (ca_action a)), (lit ''decision'', PStr (ca_decision a)),
     (lit ''status'', PStr (ca_status a)), (lit ''cost_ms'', round4 (ca_cost a)), (lit ''budget_used_ms'', round4 (ca_used a)),
     (lit ''budget_limit_ms'', round4 (ca_limit a)), (lit ''reason'', PStr (ca_reason a)), (lit ''expected_effect'', PStr (ca_effect a))]"

record memory_arbitration =
  ma_memory :: pystr
  ma_decision :: pystr
  ma_status :: pystr
  ma_active :: pyfloat
  ma_budget :: "pyfloat option"
  ma_pressure :: pyfloat
  ma_reason :: pystr
  ma_effect :: pystr

definition memory_arbitration_to_dict :: "memory_arbitration \<Rightarrow> pyval" where
  "memory_arbitration_to_dict a = PDict
    [(lit ''memory'', PStr (ma_memory a)), (lit ''decision'', PStr (ma_decision a)), (lit ''status'', PStr (ma_status a)),
     (lit ''active_mb'', round4 (ma_active a)), (lit ''budget_mb'', rounded_or_none (ma_budget a)),
     (lit ''pressure_mb'', round4 (ma_pressure a)), (lit ''reason'', PStr (ma_reason a)), (lit ''expected_effect'', PStr (ma_effect a))]"

record arbitration_plan =
  ap_mode :: pystr
  ap_profile :: pystr
  ap_policy :: pystr
  ap_command_count :: nat
  ap_admitted :: nat
  ap_deferred :: nat
  ap_dropped :: nat
  ap_prestaged :: nat
  ap_memory_count :: nat
  ap_admitted_hot :: pyfloat
  ap_deferred_hot :: pyfloat
  ap_prestaged_cost :: pyfloat
  ap_dropped_cost :: pyfloat
  ap_pressure :: pyfloat
  ap_commands :: "command_arbitration list"
  ap_memory :: "memory_arbitration list"

definition arbitration_plan_to_dict :: "arbitration_plan \<Rightarrow> pyval" where
  "arbitration_plan_to_dict p = PDict
    [(lit ''mode'', PStr (ap_mode p)), (lit ''profile'', PStr (ap_profile p)), (lit ''next_frame_policy'', PStr (ap_policy p)),
     (lit ''command_count'', PInt (int (ap_command_count p))), (lit ''admitted_count'', PInt (int (ap_admitted p))),
     (lit ''deferred_count'', PInt (int (ap_deferred p))), (lit ''dropped_count'', PInt (int (ap_dropped p))),
     (lit ''prestaged_count'', PInt (int (ap_prestaged p))), (lit ''memory_action_count'', PInt (int (ap_memory_count p))),
     (lit ''admitted_hot_path_cost_ms'', round4 (ap_admitted_hot p)), (lit ''deferred_hot_path_cost_ms'', round4 (ap_deferred_hot p)),
     (lit ''prestaged_cost_ms'', round4 (ap_prestaged_cost p)), (lit ''dropped_cost_ms'', round4 (ap_dropped_cost p)),
     (lit ''total_memory_pressure_mb'', round4 (ap_pressure p)), (lit ''commands'', PList (map arbitration_to_dict (ap_commands p))),
     (lit ''memory_actions'', PList (map memory_arbitration_to_dict (ap_memory p)))]"

section \<open>Commands\<close>

text \<open>The two dictionaries of used time, keyed by \<^verbatim>\<open>command.frame or -1\<close>.\<close>

record used_time =
  ut_hot :: "(int \<times> pyfloat) list"
  ut_pre :: "(int \<times> pyfloat) list"

definition bucket :: "int option \<Rightarrow> int" where
  "bucket f = (case f of None \<Rightarrow> - 1 | Some n \<Rightarrow> if n = 0 then - 1 else n)"

definition used_so_far :: "(int \<times> pyfloat) list \<Rightarrow> int \<Rightarrow> pyfloat" where
  "used_so_far m k = (case map_of m k of None \<Rightarrow> Fin 0 | Some x \<Rightarrow> x)"

definition make_arbitration :: "exec_command \<Rightarrow> string \<Rightarrow> string \<Rightarrow> pyfloat \<Rightarrow> pyfloat \<Rightarrow> string \<Rightarrow> string \<Rightarrow> command_arbitration" where
  "make_arbitration c decision status used limit reason effect =
    \<lparr>ca_sequence = xc_sequence c, ca_operation = xc_operation c, ca_frame = xc_frame c, ca_window = xc_window c, ca_action = xc_action c,
     ca_decision = lit decision, ca_status = lit status, ca_cost = xc_cost c, ca_used = used, ca_limit = limit,
     ca_reason = lit reason, ca_effect = lit effect\<rparr>"

definition arbitrate_command :: "exec_command \<Rightarrow> frame_envelope option \<Rightarrow> used_time \<Rightarrow> command_arbitration \<times> used_time" where
  "arbitrate_command c envelope u =
    (let k = bucket (xc_frame c); hot_limit = (case envelope of None \<Rightarrow> xc_cost c | Some e \<Rightarrow> fe_max_hot_path e) in
     if xc_window c = lit ''never'' then
       (make_arbitration c ''drop-waste'' ''dropped'' (Fin 0) (Fin 0)
          ''The packet already classified this work as removable.''
          ''Keep redundant copies, allocations, and sync waits out of the runtime path.'', u)
     else if xc_window c = lit ''pre-frame'' then
       (let limit = (case envelope of None \<Rightarrow> xc_cost c | Some e \<Rightarrow> fe_pre_frame e);
            used = fadd (used_so_far (ut_pre u) k) (xc_cost c);
            u1 = u\<lparr>ut_pre := alist_put k used (ut_pre u)\<rparr>
        in if fle used limit then
             (make_arbitration c ''prestage-before-frame'' ''prestaged'' used limit
                ''The command fits in the pre-frame window.''
                ''Move predictable RAM/VRAM traffic before draw-critical work.'', u1)
           else
             (make_arbitration c ''defer-pre-frame-overflow'' ''deferred'' used limit
                ''Pre-frame work exceeds the reserved budget window.''
                ''Keep the pre-frame queue from becoming the next source of stutter.'', u1))
     else if xc_window c = lit ''setup'' then
       (make_arbitration c ''prepare-before-hot-path'' ''admitted'' (xc_cost c) hot_limit
          ''Setup work should happen before protected hot-path execution.''
          ''Reduce allocator and preparation pressure during the frame.'', u)
     else if xc_window c = lit ''hot-path'' then
       (let used = fadd (used_so_far (ut_hot u) k) (xc_cost c);
            u1 = u\<lparr>ut_hot := alist_put k used (ut_hot u)\<rparr>
        in if fle used hot_limit then
             (make_arbitration c ''admit-hot-path'' ''admitted'' used hot_limit
                ''Protected work still fits inside the frame budget envelope.''
                ''Allow required draw/present work while earlier layers suppress waste.'', u1)
           else
             (make_arbitration c ''split-or-defer-hot-path'' ''deferred'' used hot_limit
                ''Protected hot-path work exceeds the frame budget envelope.''
                ''Force the next runtime layer to split, simplify, cache, or move work earlier.'', u1))
     else
       (make_arbitration c ''admit-current-path'' ''admitted'' (xc_cost c) hot_limit
          ''No specific budget rule matched this command window.''
          ''Preserve work while upstream policies improve precision.'', u))"

text \<open>\<^verbatim>\<open>{frame.frame: frame for frame in envelope.frames}\<close>: the last envelope of a frame counts.\<close>

definition envelope_for :: "frame_envelope list \<Rightarrow> int option \<Rightarrow> frame_envelope option" where
  "envelope_for es f = (case f of None \<Rightarrow> None | Some n \<Rightarrow> map_of (rev (map (\<lambda>e. (fe_frame e, e)) es)) n)"

fun arbitrate_all :: "frame_envelope list \<Rightarrow> exec_command list \<Rightarrow> used_time \<Rightarrow> command_arbitration list" where
  "arbitrate_all es [] u = []"
| "arbitrate_all es (c # cs) u =
     (case arbitrate_command c (envelope_for es (xc_frame c)) u of (a, u1) \<Rightarrow> a # arbitrate_all es cs u1)"

definition arbitrate_memory_layer :: "memory_envelope \<Rightarrow> memory_arbitration option" where
  "arbitrate_memory_layer e =
    (if me_status e = lit ''over-budget'' then
       Some \<lparr>ma_memory = me_memory e, ma_decision = lit ''evict-or-defer-residency'', ma_status = me_status e, ma_active = me_active e,
         ma_budget = me_budget e, ma_pressure = me_pressure e, ma_reason = lit ''Active residency exceeds the configured memory budget.'',
         ma_effect = lit ''Reduce RAM/VRAM pressure by evicting transient resources or deferring uploads.''\<rparr>
     else if me_status e = lit ''near-budget'' then
       Some \<lparr>ma_memory = me_memory e, ma_decision = lit ''reserve-memory-headroom'', ma_status = me_status e, ma_active = me_active e,
         ma_budget = me_budget e, ma_pressure = me_pressure e, ma_reason = lit ''Active residency is close to the configured budget.'',
         ma_effect = lit ''Avoid late eviction pressure when the next frame allocates or uploads.''\<rparr>
     else None)"

definition has_status :: "string \<Rightarrow> command_arbitration \<Rightarrow> bool" where
  "has_status status a \<longleftrightarrow> ca_status a = lit status"

definition window_cost :: "command_arbitration list \<Rightarrow> string \<Rightarrow> string \<Rightarrow> pyfloat" where
  "window_cost as status window = fsum_if (\<lambda>a. has_status status a \<and> ca_window a = lit window) ca_cost as"

definition build_budget_arbitration :: "exec_packet \<Rightarrow> runtime_envelope \<Rightarrow> arbitration_plan" where
  "build_budget_arbitration p e =
    (let cs = arbitrate_all (re_frames e) (xp_commands p) \<lparr>ut_hot = [], ut_pre = []\<rparr>;
         ms = List.map_filter arbitrate_memory_layer (re_layers e)
     in \<lparr>ap_mode = lit ''runtime-budget-arbiter-v0.29'', ap_profile = re_profile e, ap_policy = re_policy e,
       ap_command_count = length cs, ap_admitted = count_if (has_status ''admitted'') cs, ap_deferred = count_if (has_status ''deferred'') cs,
       ap_dropped = count_if (has_status ''dropped'') cs, ap_prestaged = count_if (has_status ''prestaged'') cs,
       ap_memory_count = length ms, ap_admitted_hot = window_cost cs ''admitted'' ''hot-path'',
       ap_deferred_hot = window_cost cs ''deferred'' ''hot-path'', ap_prestaged_cost = window_cost cs ''prestaged'' ''pre-frame'',
       ap_dropped_cost = window_cost cs ''dropped'' ''never'', ap_pressure = fsum (map ma_pressure ms),
       ap_commands = cs, ap_memory = ms\<rparr>)"

end
