(* ===== verification/Packet_Props.thy ===== *)
theory Packet_Props
  imports Execution_Packet Py_Float_Order
begin

text \<open>
  The plans from a transit map to its execution packet lose no directive and keep the waste the
  optimizer found out of the frame.
\<close>

section \<open>Directives, slots and commands\<close>

definition directive_names :: "pystr set" where
  "directive_names = lit ` {''suppress_redundant_hop'', ''reuse_transient_allocation'', ''remove_sync_wait'',
     ''prestage_cross_memory_transfer'', ''pool_transient_allocation'', ''protect_presentation_route''}"

lemma directive_from_hop_fields:
  assumes "directive_from_hop h = Some d"
  shows "rt_directive d \<in> directive_names" and "rt_operation d = th_operation h" and "rt_cost d = th_cost h"
  using assms by (simp_all add: directive_from_hop_def make_directive_def directive_names_def split: if_split_asm) fastforce+

lemma route_directives_mset:
  "mset (rp2_directives (build_memory_route_plan t)) = mset (List.map_filter directive_from_hop (tm_hops t))"
  "rp2_directive_count (build_memory_route_plan t) = length (rp2_directives (build_memory_route_plan t))"
  by (simp_all add: build_memory_route_plan_def Let_def)

lemma set_map_filter_iff: "y \<in> set (List.map_filter f xs) \<longleftrightarrow> (\<exists>x \<in> set xs. f x = Some y)"
  by (induction xs) (auto simp: List.map_filter_simps split: option.splits)

lemma route_directives_mem:
  assumes "d \<in> set (rp2_directives (build_memory_route_plan t))"
  shows "\<exists>h \<in> set (tm_hops t). directive_from_hop h = Some d"
  using assms set_mset_mset [of "rp2_directives (build_memory_route_plan t)"] route_directives_mset(1) [of t]
  by (metis set_map_filter_iff set_mset_mset)

lemma slot_of_named:
  assumes "rt_directive d \<in> directive_names"
  obtains s where "slot_from_directive d = Some s" and "ws_operation s = rt_operation d" and "ws_cost s = rt_cost d"
    and "ws_frame s = rt_frame d"
  using assms by (auto simp: slot_from_directive_def classify_window_def directive_names_def)

lemma map_filter_total:
  assumes "\<forall>x \<in> set xs. \<exists>y. f x = Some y"
  shows "List.map_filter f xs = map (the \<circ> f) xs"
  using assms by (induction xs) (auto simp: List.map_filter_simps)

lemma plan_slots:
  assumes "\<forall>d \<in> set (rp2_directives p). rt_directive d \<in> directive_names"
  shows "wp_slots (build_frame_window_plan p)
      = number_with renumber_slot (sort_slots (map (the \<circ> slot_from_directive) (rp2_directives p)))"
proof -
  have "\<forall>d \<in> set (rp2_directives p). \<exists>s. slot_from_directive d = Some s"
    using assms slot_of_named by (metis (no_types, lifting))
  then show ?thesis by (simp add: build_frame_window_plan_def Let_def map_filter_total)
qed

text \<open>The window, phase, action and effect that go together.\<close>

definition placement :: "(pystr \<times> pystr \<times> pystr \<times> pystr) set" where
  "placement = (\<lambda>(w, p, a, e). (lit w, lit p, lit a, lit e)) `
    {(''never'', ''suppress'', ''skip_transfer'', ''removed''), (''never'', ''reuse'', ''reuse_allocation'', ''removed''),
     (''never'', ''remove-sync'', ''drop_sync_wait'', ''removed''), (''pre-frame'', ''prefetch'', ''prestage_transfer'', ''prestaged''),
     (''setup'', ''pool'', ''pool_allocation'', ''setup''), (''hot-path'', ''present'', ''execute_protected'', ''protected'')}"

lemma window_placement:
  "classify_window x = (Some w, p) \<Longrightarrow> (w, p) \<in> {(''never'', ''suppress''), (''never'', ''reuse''), (''never'', ''remove-sync''),
     (''pre-frame'', ''prefetch''), (''setup'', ''pool''), (''hot-path'', ''present'')}"
  by (simp add: classify_window_def split: if_split_asm)

lemma slot_placement:
  assumes "slot_from_directive d = Some s"
  shows "(ws_window s, ws_phase s, action_for_slot s, effect_for_action (action_for_slot s)) \<in> placement"
proof -
  from assms obtain w p where wp: "classify_window (rt_directive d) = (Some w, p)" and s: "ws_window s = lit w" "ws_phase s = lit p"
    by (auto simp: slot_from_directive_def split: prod.splits option.splits)
  from window_placement [OF wp] show ?thesis
    by (elim insertE emptyE) (simp_all add: s placement_def action_for_slot_def phase_actions_def effect_for_action_def action_effects_def)
qed

lemma packet_commands:
  "xp_commands (build_execution_packet w) = number_with command_from_slot (wp_slots w)"
  "xp_command_count (build_execution_packet w) = length (xp_commands (build_execution_packet w))"
  by (simp_all add: build_execution_packet_def Let_def)

definition packet_of :: "transit_map \<Rightarrow> exec_packet" where
  "packet_of t = build_execution_packet (build_frame_window_plan (build_memory_route_plan t))"

lemma packet_command_origin:
  assumes "c \<in> set (xp_commands (packet_of t))"
  shows "\<exists>i j h d s. h \<in> set (tm_hops t) \<and> directive_from_hop h = Some d \<and> slot_from_directive d = Some s
    \<and> c = command_from_slot i (renumber_slot j s)"
proof -
  let ?p = "build_memory_route_plan t"
  have named: "\<forall>d \<in> set (rp2_directives ?p). rt_directive d \<in> directive_names"
    using route_directives_mem directive_from_hop_fields(1) by blast
  from assms obtain i s' where s': "s' \<in> set (wp_slots (build_frame_window_plan ?p))" and c: "c = command_from_slot i s'"
    using set_number_with by (fastforce simp: packet_of_def packet_commands)
  from s' obtain j s where s: "s \<in> set (sort_slots (map (the \<circ> slot_from_directive) (rp2_directives ?p)))" and s'': "s' = renumber_slot j s"
    using set_number_with by (fastforce simp: plan_slots [OF named])
  then obtain d where d: "d \<in> set (rp2_directives ?p)" "s = the (slot_from_directive d)" by (auto simp: sort_slots_def)
  moreover obtain h where "h \<in> set (tm_hops t)" "directive_from_hop h = Some d" using route_directives_mem [OF d(1)] by blast
  moreover have "slot_from_directive d = Some s" using slot_of_named named d by (metis option.sel)
  ultimately show ?thesis using c s'' by blast
qed

lemma renumber_slot_fields [simp]:
  "ws_window (renumber_slot i s) = ws_window s" "ws_phase (renumber_slot i s) = ws_phase s"
  "ws_operation (renumber_slot i s) = ws_operation s" "ws_frame (renumber_slot i s) = ws_frame s"
  "ws_sequence (renumber_slot i s) = i" "ws_cost (renumber_slot i s) = fround 4 (ws_cost s)"
  "action_for_slot (renumber_slot i s) = action_for_slot s"
  by (simp_all add: renumber_slot_def action_for_slot_def)

lemma command_from_slot_fields [simp]:
  "xc_window (command_from_slot i s) = ws_window s" "xc_phase (command_from_slot i s) = ws_phase s"
  "xc_operation (command_from_slot i s) = ws_operation s" "xc_frame (command_from_slot i s) = ws_frame s"
  "xc_action (command_from_slot i s) = action_for_slot s" "xc_sequence (command_from_slot i s) = i"
  "xc_cost (command_from_slot i s) = ws_cost s"
  by (simp_all add: command_from_slot_def)

lemma packet_placement:
  assumes "c \<in> set (xp_commands (packet_of t))"
  shows "(xc_window c, xc_phase c, xc_action c, effect_for_action (xc_action c)) \<in> placement"
proof -
  obtain i j h d s where "slot_from_directive d = Some s" "c = command_from_slot i (renumber_slot j s)"
    using packet_command_origin [OF assms] by blast
  then show ?thesis using slot_placement by simp
qed

text \<open>The operation and the window a directive leads to.\<close>

definition directive_place :: "route_directive \<Rightarrow> pystr \<times> pystr" where
  "directive_place d = (rt_operation d, case fst (classify_window (rt_directive d)) of None \<Rightarrow> [] | Some w \<Rightarrow> lit w)"

lemma slot_place:
  "slot_from_directive d = Some s \<Longrightarrow> (ws_operation s, ws_window s) = directive_place d"
  by (auto simp: slot_from_directive_def directive_place_def split: prod.splits option.splits)

lemma packet_places:
  "mset (map (\<lambda>c. (xc_operation c, xc_window c)) (xp_commands (packet_of t)))
    = mset (map (directive_place \<circ> the \<circ> directive_from_hop) (filter (\<lambda>h. directive_from_hop h \<noteq> None) (tm_hops t)))"
proof -
  let ?p = "build_memory_route_plan t" and ?k = "\<lambda>s. (ws_operation s, ws_window s)"
  have named: "\<forall>d \<in> set (rp2_directives ?p). rt_directive d \<in> directive_names"
    using route_directives_mem directive_from_hop_fields(1) by blast
  have "map (\<lambda>c. (xc_operation c, xc_window c)) (xp_commands (packet_of t)) = map ?k (wp_slots (build_frame_window_plan ?p))"
    unfolding packet_of_def packet_commands by (rule map_number_with) simp
  also have "\<dots> = map ?k (sort_slots (map (the \<circ> slot_from_directive) (rp2_directives ?p)))"
    unfolding plan_slots [OF named] by (rule map_number_with) simp
  finally have "mset (map (\<lambda>c. (xc_operation c, xc_window c)) (xp_commands (packet_of t)))
      = mset (map (?k \<circ> (the \<circ> slot_from_directive)) (rp2_directives ?p))"
    by (simp add: sort_slots_def multiset.map_comp)
  also have "map (?k \<circ> (the \<circ> slot_from_directive)) (rp2_directives ?p) = map directive_place (rp2_directives ?p)"
  proof (rule map_cong [OF refl])
    fix d assume "d \<in> set (rp2_directives ?p)"
    then obtain s where "slot_from_directive d = Some s" using slot_of_named [of d] named by metis
    then show "(?k \<circ> (the \<circ> slot_from_directive)) d = directive_place d" by (simp add: slot_place)
  qed
  also have "mset (map directive_place (rp2_directives ?p)) = mset (map directive_place (List.map_filter directive_from_hop (tm_hops t)))"
    by (simp add: route_directives_mset(1) mset_map)
  also have "map directive_place (List.map_filter directive_from_hop (tm_hops t))
      = map (directive_place \<circ> the \<circ> directive_from_hop) (filter (\<lambda>h. directive_from_hop h \<noteq> None) (tm_hops t))"
    by (simp add: List.map_filter_def comp_assoc)
  finally show ?thesis .
qed

lemma packet_operations:
  "mset (map xc_operation (xp_commands (packet_of t)))
    = mset (map th_operation (filter (\<lambda>h. directive_from_hop h \<noteq> None) (tm_hops t)))"
proof -
  have "mset (map xc_operation (xp_commands (packet_of t)))
      = image_mset fst (mset (map (\<lambda>c. (xc_operation c, xc_window c)) (xp_commands (packet_of t))))"
    by (simp add: multiset.map_comp comp_def)
  also have "\<dots> = mset (map (fst \<circ> (directive_place \<circ> the \<circ> directive_from_hop)) (filter (\<lambda>h. directive_from_hop h \<noteq> None) (tm_hops t)))"
    unfolding packet_places by (simp add: multiset.map_comp)
  also have "map (fst \<circ> (directive_place \<circ> the \<circ> directive_from_hop)) (filter (\<lambda>h. directive_from_hop h \<noteq> None) (tm_hops t))
      = map th_operation (filter (\<lambda>h. directive_from_hop h \<noteq> None) (tm_hops t))"
    by (auto simp: directive_place_def directive_from_hop_fields(2))
  finally show ?thesis .
qed

definition waste_classes :: "pystr set" where
  "waste_classes = lit ` {''duplicate-transfer'', ''same-layer-aliased-copy'', ''self-transfer'', ''redundant-allocation'', ''orphan-sync'', ''empty-sync''}"

lemma hop_never_window:
  "(\<exists>d. directive_from_hop h = Some d \<and> snd (directive_place d) = lit ''never'') \<longleftrightarrow> th_class h \<in> waste_classes"
  by (auto simp: directive_from_hop_def make_directive_def directive_place_def classify_window_def waste_classes_def)

lemma never_filter:
  "map fst (filter (\<lambda>x. snd x = lit ''never'') (map (directive_place \<circ> the \<circ> directive_from_hop) (filter (\<lambda>h. directive_from_hop h \<noteq> None) hs)))
    = map th_operation (filter (\<lambda>h. th_class h \<in> waste_classes) hs)"
proof (induction hs)
  case (Cons h hs)
  show ?case
  proof (cases "directive_from_hop h")
    case None
    then show ?thesis using Cons hop_never_window [of h] by simp
  next
    case (Some d)
    moreover have "fst (directive_place d) = th_operation h"
      using directive_from_hop_fields(2) [OF Some] by (simp add: directive_place_def)
    ultimately show ?thesis using Cons hop_never_window [of h] by simp
  qed
qed simp

lemma packet_never:
  "mset (map xc_operation (filter (\<lambda>c. xc_window c = lit ''never'') (xp_commands (packet_of t))))
    = mset (map th_operation (filter (\<lambda>h. th_class h \<in> waste_classes) (tm_hops t)))"
proof -
  let ?never = "\<lambda>x :: pystr \<times> pystr. snd x = lit ''never''" and ?g = "directive_place \<circ> the \<circ> directive_from_hop"
  have "mset (map xc_operation (filter (\<lambda>c. xc_window c = lit ''never'') (xp_commands (packet_of t))))
      = image_mset fst (filter_mset ?never (mset (map (\<lambda>c. (xc_operation c, xc_window c)) (xp_commands (packet_of t)))))"
    by (simp add: filter_mset_image_mset multiset.map_comp comp_def)
  also have "\<dots> = mset (map fst (filter ?never (map ?g (filter (\<lambda>h. directive_from_hop h \<noteq> None) (tm_hops t)))))"
    unfolding packet_places by simp
  finally show ?thesis unfolding never_filter .
qed

definition command_key :: "exec_command \<Rightarrow> int \<times> int \<times> pystr" where
  "command_key c = (frame_key (xc_frame c), case map_of window_order (xc_window c) of None \<Rightarrow> 99 | Some n \<Rightarrow> n, xc_operation c)"

lemma packet_sorted: "sorted (map command_key (xp_commands (packet_of t)))"
proof -
  let ?p = "build_memory_route_plan t"
  let ?k = "\<lambda>s. (frame_key (ws_frame s), case map_of window_order (ws_window s) of None \<Rightarrow> 99 | Some n \<Rightarrow> n, ws_operation s)"
  have "map command_key (xp_commands (packet_of t)) = map ?k (wp_slots (build_frame_window_plan ?p))"
    unfolding packet_of_def packet_commands by (rule map_number_with) (simp add: command_key_def)
  also have "\<dots> = map ?k (sort_slots (List.map_filter slot_from_directive (rp2_directives ?p)))"
    unfolding build_frame_window_plan_def Let_def window_plan.simps by (rule map_number_with) simp
  finally show ?thesis by (simp add: sort_slots_def)
qed

text \<open>C31: For every transit map, the execution packet has one command per hop that has a route directive and no others,
  numbered from one in the order of frame, window and operation id.\<close>

theorem packet_complete:
  "mset (map xc_operation (xp_commands (packet_of t)))
      = mset (map th_operation (filter (\<lambda>h. directive_from_hop h \<noteq> None) (tm_hops t)))
    \<and> map xc_sequence (xp_commands (packet_of t)) = [1..<Suc (xp_command_count (packet_of t))]
    \<and> sorted (map command_key (xp_commands (packet_of t)))
    \<and> xp_command_count (packet_of t) = rp2_directive_count (build_memory_route_plan t)"
proof -
  have "map xc_sequence (xp_commands (packet_of t)) = [1..<Suc (xp_command_count (packet_of t))]"
    unfolding packet_of_def packet_commands length_number_with by (rule number_with_index) simp
  moreover have "xp_command_count (packet_of t) = rp2_directive_count (build_memory_route_plan t)"
  proof -
    have "length (xp_commands (packet_of t)) = length (filter (\<lambda>h. directive_from_hop h \<noteq> None) (tm_hops t))"
      using packet_operations [of t] by (metis length_map size_mset)
    moreover have "length (rp2_directives (build_memory_route_plan t)) = length (filter (\<lambda>h. directive_from_hop h \<noteq> None) (tm_hops t))"
      using route_directives_mset(1) [of t] by (metis List.map_filter_def length_map size_mset)
    ultimately show ?thesis by (simp add: packet_of_def packet_commands(2) route_directives_mset(2))
  qed
  ultimately show ?thesis using packet_sorted packet_operations by (simp only: simp_thms)
qed

text \<open>C32: In every execution packet the window of a command decides its simulated effect: work in the window never is removed,
  work before the frame is prestaged, setup work is setup, hot-path work is protected, and nothing else occurs, so the
  simulation ignores no command; the commands in the window never are
  exactly those of the hops the optimizer proved wasteful.\<close>

theorem packet_windows:
  "list_all (\<lambda>c. (xc_window c, effect_for_action (xc_action c)) \<in>
        {(lit ''never'', lit ''removed''), (lit ''pre-frame'', lit ''prestaged''), (lit ''setup'', lit ''setup''), (lit ''hot-path'', lit ''protected'')})
      (xp_commands (packet_of t))
    \<and> es_ignored (simulate_execution (packet_of t)) = 0
    \<and> es_applied (simulate_execution (packet_of t)) = length (xp_commands (packet_of t))
    \<and> mset (map xc_operation (filter (\<lambda>c. xc_window c = lit ''never'') (xp_commands (packet_of t))))
      = mset (map th_operation (filter (\<lambda>h. th_class h \<in> waste_classes) (tm_hops t)))"
proof -
  have win: "(xc_window c, effect_for_action (xc_action c)) \<in>
        {(lit ''never'', lit ''removed''), (lit ''pre-frame'', lit ''prestaged''), (lit ''setup'', lit ''setup''), (lit ''hot-path'', lit ''protected'')}"
    if "c \<in> set (xp_commands (packet_of t))" for c
    using packet_placement [OF that] by (auto simp: placement_def)
  have st: "cx_status (simulate_command c) = lit ''applied''" if "c \<in> set (xp_commands (packet_of t))" for c
    using win [OF that] by (auto simp: simulate_command_def Let_def)
  have "filter (\<lambda>r. cx_status r = lit ''ignored'') (map simulate_command (xp_commands (packet_of t))) = []"
    using st by (auto simp: filter_empty_conv)
  moreover have "filter (\<lambda>r. cx_status r = lit ''applied'') (map simulate_command (xp_commands (packet_of t)))
      = map simulate_command (xp_commands (packet_of t))"
    using st by (auto simp: filter_id_conv)
  ultimately show ?thesis using win packet_never [of t]
    by (simp add: simulate_execution_def Let_def count_result_status_def count_if_def list_all_iff)
qed

section \<open>Simulated frames\<close>

lemma effect_cost_f64:
  assumes "\<forall>r \<in> set rs. fnonneg (cx_cost r)"
  shows "fnonneg (effect_cost rs e)" and "is_f64 (effect_cost rs e)"
  using fsum_f64 [of "map cx_cost (filter (\<lambda>r. cx_effect r = lit e) rs)"] assms
  by (simp_all add: effect_cost_def fsum_if_def)

lemma frame_groups_mem: "(k, xs) \<in> set (frame_groups f ys) \<Longrightarrow> xs = filter (\<lambda>y. f y = Some k) ys"
  using group_by_mem(1) [of k xs "\<lambda>y. the (f y)" "filter (\<lambda>y. f y \<noteq> None) ys"]
  by (auto simp: frame_groups_def intro: filter_cong)

text \<open>C33: When no command costs less than nothing, the simulated hot path of a frame after the packet is never longer, in
  binary64, than before it, the relief reported is not negative, and the frame's results are exactly those of its commands.\<close>

theorem simulation_never_slower:
  assumes "\<forall>c \<in> set (xp_commands p). fnonneg (xc_cost c)" and "f \<in> set (es_frames (simulate_execution p))"
  shows "fle (fr2_after f) (fr2_before f) \<and> fnonneg (fr2_relief f)
    \<and> f = summarize_result_frame (fr2_frame f,
        filter (\<lambda>r. cx_frame r = Some (fr2_frame f)) (map simulate_command (xp_commands p)))"
proof -
  let ?rs = "map simulate_command (xp_commands p)"
  from assms(2) obtain k rs where g: "(k, rs) \<in> set (frame_groups cx_frame ?rs)" and f: "f = summarize_result_frame (k, rs)"
    by (auto simp: simulate_execution_def summarize_result_frames_def Let_def)
  have rs: "rs = filter (\<lambda>r. cx_frame r = Some k) ?rs" by (rule frame_groups_mem [OF g])
  have "\<forall>r \<in> set rs. fnonneg (cx_cost r)" using assms(1) by (auto simp: rs simulate_command_def Let_def)
  note e = effect_cost_f64 [OF this]
  have "fle (fr2_after f) (fr2_before f)"
    by (simp add: f summarize_result_frame_def Let_def fadd_ge_right fnonneg_fadd e)
  moreover have "fnonneg (fr2_relief f)" by (simp add: f summarize_result_frame_def Let_def fmax_zero_nonneg)
  moreover have "fr2_frame f = k" by (simp add: f summarize_result_frame_def Let_def)
  ultimately show ?thesis using f rs by simp
qed

section \<open>Witness\<close>

definition demo_command :: "string \<Rightarrow> string \<Rightarrow> string \<Rightarrow> pyfloat \<Rightarrow> exec_command" where
  "demo_command operation window action cost = \<lparr>xc_sequence = 1, xc_action = lit action, xc_window = lit window, xc_phase = [],
     xc_operation = lit operation, xc_frame = Some 1, xc_path = [], xc_target = None, xc_value = Fin 0, xc_cost = cost,
     xc_saved_ms = Fin 0, xc_saved_mb = Fin 0, xc_directive = [], xc_reason = []\<rparr>"

definition demo_packet :: exec_packet where
  "demo_packet = \<lparr>xp_mode = [], xp_command_count = 3, xp_frame_count = 1, xp_skip = 1, xp_pre_frame = 1, xp_setup = 0, xp_hot_path = 1,
     xp_post_present = 0, xp_relief = Fin 4, xp_saved_mb = Fin 0, xp_frames = [],
     xp_commands = [demo_command ''o2'' ''never'' ''skip_transfer'' (Fin 2), demo_command ''o1'' ''pre-frame'' ''prestage_transfer'' (Fin 2),
       demo_command ''o3'' ''hot-path'' ''execute_protected'' (Fin 4)]\<rparr>"

lemma demo_packet_costs: "\<forall>c \<in> set (xp_commands demo_packet). fnonneg (xc_cost c)"
  by (simp add: demo_packet_def demo_command_def fnonneg_def)

lemma demo_packet_groups: "frame_groups cx_frame (map simulate_command (xp_commands demo_packet)) \<noteq> []"
proof -
  have "cx_frame (simulate_command c) = xc_frame c" for c by (simp add: simulate_command_def Let_def)
  then have "fst ` set (frame_groups cx_frame (map simulate_command (xp_commands demo_packet))) \<noteq> {}"
    by (simp add: demo_packet_def demo_command_def frame_groups_def group_by_keys)
  then show ?thesis by auto
qed

theorem simulation_never_slower_witness:
  "list_ex (\<lambda>f. fle (fr2_after f) (fr2_before f)) (es_frames (simulate_execution demo_packet))"
proof -
  have "es_frames (simulate_execution demo_packet) \<noteq> []"
    using demo_packet_groups by (simp add: simulate_execution_def summarize_result_frames_def Let_def)
  then have f: "List.hd (es_frames (simulate_execution demo_packet)) \<in> set (es_frames (simulate_execution demo_packet))"
    by (rule hd_in_set)
  from simulation_never_slower [OF demo_packet_costs f] show ?thesis using f unfolding list_ex_iff by blast
qed

end
