(* ===== verification/Arbiter_Props.thy ===== *)
theory Arbiter_Props
  imports Budget_Arbiter Packet_Props
begin

text \<open>
  The arbiter keeps the hot-path time it admits and the time it prestages inside the envelopes, in binary64 arithmetic and in the
  order of the packet, and decides on every command once. Setup commands it admits without metering them.
\<close>

lemma arbitrate_command_fields:
  assumes "arbitrate_command c e u = (a, u1)"
  shows "ca_frame a = xc_frame c" and "ca_window a = xc_window c" and "ca_cost a = xc_cost c"
    and "ca_sequence a = xc_sequence c" and "ca_operation a = xc_operation c"
  using assms by (auto simp: arbitrate_command_def make_arbitration_def Let_def split: if_splits)

lemma used_so_far_put: "used_so_far (alist_put k v m) = (used_so_far m)(k := v)"
  by (auto simp: used_so_far_def map_of_alist_put fun_eq_iff)

section \<open>A metered window\<close>

text \<open>
  The contract of a window whose commands are charged to a meter: each of its commands adds its cost
  to the meter of its frame, is granted when the sum fits the limit of the frame's envelope, and no
  other command touches the meter.
\<close>

locale metered_window =
  fixes window status :: string and used :: "used_time \<Rightarrow> (int \<times> pyfloat) list" and limit :: "frame_envelope \<Rightarrow> pyfloat"
  assumes charged: "xc_window c = lit window \<Longrightarrow> arbitrate_command c env u = (a, u1) \<Longrightarrow>
      used_so_far (used u1) = (used_so_far (used u))(bucket (xc_frame c) :=
        fadd (used_so_far (used u) (bucket (xc_frame c))) (xc_cost c))"
    and granted: "xc_window c = lit window \<Longrightarrow> arbitrate_command c (Some e) u = (a, u1) \<Longrightarrow>
      has_status status a \<longleftrightarrow> fle (fadd (used_so_far (used u) (bucket (xc_frame c))) (xc_cost c)) (limit e)"
    and untouched: "xc_window c \<noteq> lit window \<Longrightarrow> arbitrate_command c env u = (a, u1) \<Longrightarrow> used u1 = used u"
begin

definition grants :: "int option \<Rightarrow> command_arbitration \<Rightarrow> bool" where
  "grants f a \<longleftrightarrow> has_status status a \<and> ca_window a = lit window \<and> ca_frame a = f"

definition meter_ok :: "used_time \<Rightarrow> bool" where
  "meter_ok u \<longleftrightarrow> (\<forall>k. fnonneg (used_so_far (used u) k) \<and> is_f64 (used_so_far (used u) k))"

lemma meter_step:
  assumes "meter_ok u" and "fnonneg (xc_cost c)" and "arbitrate_command c env u = (a, u1)"
  shows "meter_ok u1" and "fle (used_so_far (used u) k) (used_so_far (used u1) k)"
proof -
  have nn: "x \<noteq> NaN" if "fnonneg x" for x using that by (auto simp: fnonneg_def)
  show "meter_ok u1"
    using assms charged [of c env u a u1] untouched [of c env u a u1]
    by (cases "xc_window c = lit window") (auto simp: meter_ok_def fnonneg_fadd is_f64_fadd)
  show "fle (used_so_far (used u) k) (used_so_far (used u1) k)"
    using assms charged [of c env u a u1] untouched [of c env u a u1] nn
    by (cases "xc_window c = lit window") (auto simp: meter_ok_def fadd_ge_left fle_refl)
qed

lemma granted_within:
  assumes "\<forall>c \<in> set cs. fnonneg (xc_cost c)" and "envelope_for es f = Some e" and "meter_ok u"
    and "fle (fsum acc) (used_so_far (used u) (bucket f))" and "\<forall>x \<in> set acc. fnonneg x"
    and "acc = [] \<or> fle (fsum acc) (limit e)"
  shows "acc @ map ca_cost (filter (grants f) (arbitrate_all es cs u)) = []
    \<or> fle (fsum (acc @ map ca_cost (filter (grants f) (arbitrate_all es cs u)))) (limit e)"
  using assms
proof (induction cs arbitrary: u acc)
  case (Cons c cs)
  obtain a u1 where a: "arbitrate_command c (envelope_for es (xc_frame c)) u = (a, u1)" by force
  note fields = arbitrate_command_fields [OF a]
  have cost: "fnonneg (xc_cost c)" using Cons.prems by simp
  have ok1: "meter_ok u1" and grow: "fle (used_so_far (used u) (bucket f)) (used_so_far (used u1) (bucket f))"
    using meter_step [OF Cons.prems(3) cost a] by auto
  show ?case
  proof (cases "grants f a")
    case True
    then have w: "xc_window c = lit window" "xc_frame c = f" "has_status status a" by (auto simp: grants_def fields)
    let ?v = "fadd (used_so_far (used u) (bucket f)) (xc_cost c)"
    have within: "fle ?v (limit e)" using granted [OF w(1), of e u a u1] a w Cons.prems(2) by simp
    have u1: "used_so_far (used u1) (bucket f) = ?v" using charged [OF w(1) a] w by simp
    have nn: "fnonneg (fsum acc)" using fsum_f64 [OF Cons.prems(5)] by simp
    have s: "fle (fsum (acc @ [xc_cost c])) ?v"
      unfolding fsum_snoc by (rule fadd_mono_left [OF Cons.prems(4) nn cost])
    have "acc @ [xc_cost c] = [] \<or> fle (fsum (acc @ [xc_cost c])) (limit e)" using fle_trans [OF s within] by simp
    moreover have "fle (fsum (acc @ [xc_cost c])) (used_so_far (used u1) (bucket f))" using s u1 by simp
    ultimately show ?thesis
      using Cons.IH [of u1 "acc @ [xc_cost c]"] Cons.prems True a ok1 by (simp add: fields)
  next
    case False
    have "fle (fsum acc) (used_so_far (used u1) (bucket f))" using fle_trans [OF Cons.prems(4) grow] .
    then show ?thesis using Cons.IH [of u1 acc] Cons.prems False a ok1 by simp
  qed
qed simp

lemma grants_bounded:
  assumes "\<forall>c \<in> set cs. fnonneg (xc_cost c)" and "envelope_for es f = Some e"
    and "used \<lparr>ut_hot = [], ut_pre = []\<rparr> = []"
  shows "filter (grants f) (arbitrate_all es cs \<lparr>ut_hot = [], ut_pre = []\<rparr>) = []
    \<or> fle (fsum (map ca_cost (filter (grants f) (arbitrate_all es cs \<lparr>ut_hot = [], ut_pre = []\<rparr>)))) (limit e)"
proof -
  let ?u = "\<lparr>ut_hot = [], ut_pre = []\<rparr>"
  have "meter_ok ?u" using assms(3) by (simp add: meter_ok_def used_so_far_def fnonneg_def is_f64_def to_f64_def)
  moreover have "fle (fsum []) (used_so_far (used ?u) (bucket f))"
    using assms(3) by (simp add: used_so_far_def fsum_def)
  ultimately show ?thesis using granted_within [OF assms(1,2), of ?u "[]"] by simp
qed

end

interpretation hot: metered_window "''hot-path''" "''admitted''" ut_hot fe_max_hot_path
  by unfold_locales
    (auto simp: arbitrate_command_def Let_def make_arbitration_def has_status_def used_so_far_put split: if_splits)

interpretation pre: metered_window "''pre-frame''" "''prestaged''" ut_pre fe_pre_frame
  by unfold_locales
    (auto simp: arbitrate_command_def Let_def make_arbitration_def has_status_def used_so_far_put split: if_splits)

lemma arbitration_commands:
  "ap_commands (build_budget_arbitration p e) = arbitrate_all (re_frames e) (xp_commands p) \<lparr>ut_hot = [], ut_pre = []\<rparr>"
  by (simp add: build_budget_arbitration_def Let_def)

text \<open>C8: For commands of finite or infinite non-negative cost, the hot-path time the arbiter admits in a frame that has an
  envelope, summed in binary64 in the order of the packet, does not exceed the frame's hot-path limit, and the time it
  prestages for the frame does not exceed the frame's pre-frame window.\<close>

theorem arbitration_within_budget:
  assumes "\<forall>c \<in> set (xp_commands p). fnonneg (xc_cost c)" and "envelope_for (re_frames env) f = Some e"
  shows "let granted = \<lambda>status window. map ca_cost (filter (\<lambda>a. has_status status a \<and> ca_window a = lit window \<and> ca_frame a = f)
        (ap_commands (build_budget_arbitration p env)))
    in (granted ''admitted'' ''hot-path'' = [] \<or> fle (fsum (granted ''admitted'' ''hot-path'')) (fe_max_hot_path e))
      \<and> (granted ''prestaged'' ''pre-frame'' = [] \<or> fle (fsum (granted ''prestaged'' ''pre-frame'')) (fe_pre_frame e))"
  using hot.grants_bounded [OF assms] pre.grants_bounded [OF assms]
  unfolding arbitration_commands hot.grants_def pre.grants_def Let_def by simp

text \<open>The bound is one on the hot path: setup commands are admitted whatever the limit they are reported with, and use up none of it.\<close>

lemma setup_unmetered:
  assumes "xc_window c = lit ''setup''" and "arbitrate_command c (Some e) u = (a, u1)"
  shows "has_status ''admitted'' a \<and> ca_used a = xc_cost c \<and> ca_limit a = fe_max_hot_path e \<and> u1 = u"
  using assms by (simp add: arbitrate_command_def make_arbitration_def has_status_def lit_def Let_def) auto

lemma arbitrate_all_fields:
  "map ca_sequence (arbitrate_all es cs u) = map xc_sequence cs" "map ca_operation (arbitrate_all es cs u) = map xc_operation cs"
  by (induction cs arbitrary: u) (auto split: prod.split dest: arbitrate_command_fields(4,5))

definition one_status :: "command_arbitration \<Rightarrow> bool" where
  "one_status a \<longleftrightarrow> ca_status a \<in> lit ` {''admitted'', ''deferred'', ''dropped'', ''prestaged''}
     \<and> (ca_status a = lit ''dropped'' \<longleftrightarrow> ca_window a = lit ''never'')
     \<and> (ca_status a = lit ''deferred'' \<longrightarrow> \<not> fle (ca_used a) (ca_limit a))"

lemma arbitrate_command_status: "arbitrate_command c e u = (a, u1) \<Longrightarrow> one_status a"
  by (auto simp: arbitrate_command_def make_arbitration_def one_status_def Let_def split: if_splits)

lemma arbitrate_all_status: "a \<in> set (arbitrate_all es cs u) \<Longrightarrow> one_status a"
proof (induction cs arbitrary: u)
  case (Cons c cs)
  obtain b u1 where "arbitrate_command c (envelope_for es (xc_frame c)) u = (b, u1)" by force
  then show ?case using Cons arbitrate_command_status by auto
qed simp

lemma status_partition:
  assumes "\<forall>a \<in> set as. one_status a"
  shows "count_if (has_status ''admitted'') as + count_if (has_status ''deferred'') as + count_if (has_status ''dropped'') as
    + count_if (has_status ''prestaged'') as = length as"
  using assms by (induction as) (auto simp: count_if_def one_status_def has_status_def)

text \<open>The arbiter decides on every command of a packet exactly once, in the packet's order: the four counts add up to the
  number of commands, a command is dropped exactly when its window is never, and it is deferred only when the time used
  with it does not fit its limit.\<close>

theorem arbitration_decides_all:
  "map ca_operation (ap_commands (build_budget_arbitration p env)) = map xc_operation (xp_commands p)
    \<and> map ca_sequence (ap_commands (build_budget_arbitration p env)) = map xc_sequence (xp_commands p)
    \<and> (let b = build_budget_arbitration p env in
         ap_admitted b + ap_deferred b + ap_dropped b + ap_prestaged b = length (xp_commands p)
         \<and> list_all one_status (ap_commands b))"
proof -
  let ?as = "arbitrate_all (re_frames env) (xp_commands p) \<lparr>ut_hot = [], ut_pre = []\<rparr>"
  have "\<forall>a \<in> set ?as. one_status a" using arbitrate_all_status by blast
  moreover have "length ?as = length (xp_commands p)" using arbitrate_all_fields(1) by (metis length_map)
  ultimately show ?thesis
    using status_partition [of ?as]
    by (simp add: build_budget_arbitration_def Let_def arbitrate_all_fields list_all_iff)
qed

section \<open>Witness\<close>

definition demo_envelope :: frame_envelope where
  "demo_envelope = \<lparr>fe_frame = 1, fe_profile = [], fe_pressure = [], fe_target = Fin 5, fe_max_hot_path = Fin 5, fe_copy_budget = Fin 0,
     fe_pre_frame = Fin 2, fe_delta = Fin 1, fe_admission = [], fe_memory_policy = [], fe_directives = 0\<rparr>"

definition demo_runtime_envelope :: runtime_envelope where
  "demo_runtime_envelope = \<lparr>re_mode = [], re_profile = [], re_policy = [], re_frame_count = 1, re_over = 0, re_layer_count = 0,
     re_constrained = 0, re_pressure = Fin 0, re_frames = [demo_envelope], re_layers = []\<rparr>"

theorem arbitration_within_budget_witness:
  "let granted = \<lambda>status window. map ca_cost (filter (\<lambda>a. has_status status a \<and> ca_window a = lit window \<and> ca_frame a = Some 1)
        (ap_commands (build_budget_arbitration demo_packet demo_runtime_envelope)))
    in (granted ''admitted'' ''hot-path'' = [] \<or> fle (fsum (granted ''admitted'' ''hot-path'')) (fe_max_hot_path demo_envelope))
      \<and> (granted ''prestaged'' ''pre-frame'' = [] \<or> fle (fsum (granted ''prestaged'' ''pre-frame'')) (fe_pre_frame demo_envelope))"
  using demo_packet_costs
  by (intro arbitration_within_budget) (simp_all add: list_all_iff envelope_for_def demo_runtime_envelope_def demo_envelope_def)

end
