(* ===== verification/Dispatch_Plan.thy ===== *)
theory Dispatch_Plan
  imports Arbiter_Props
begin

text \<open>
  The dispatch plan (\<^verbatim>\<open>src/fluidgateway/dispatch.py\<close>): arbitrated commands and memory actions
  become dispatch commands in phase order.
\<close>

record dispatch_command =
  dc_sequence :: nat
  dc_order :: int
  dc_phase :: pystr
  dc_command :: pystr
  dc_status :: pystr
  dc_decision :: pystr
  dc_operation :: "pystr option"
  dc_memory :: "pystr option"
  dc_frame :: "int option"
  dc_target :: "pystr option"
  dc_path :: "pystr option"
  dc_cost :: pyfloat
  dc_value :: pyfloat
  dc_reason :: pystr
  dc_effect :: pystr

definition dispatch_to_dict :: "dispatch_command \<Rightarrow> pyval" where
  "dispatch_to_dict d = PDict
    [(lit ''sequence'', PInt (int (dc_sequence d))), (lit ''phase_order'', PInt (dc_order d)), (lit ''phase'', PStr (dc_phase d)),
     (lit ''command'', PStr (dc_command d)), (lit ''status'', PStr (dc_status d)), (lit ''source_decision'', PStr (dc_decision d)),
     (lit ''operation_id'', opt_str (dc_operation d)), (lit ''memory'', opt_str (dc_memory d)), (lit ''frame'', opt_int (dc_frame d)),
     (lit ''target_resource_id'', opt_str (dc_target d)), (lit ''path'', opt_str (dc_path d)), (lit ''cost_ms'', round4 (dc_cost d)),
     (lit ''value_mb'', round4 (dc_value d)), (lit ''reason'', PStr (dc_reason d)), (lit ''expected_effect'', PStr (dc_effect d))]"

record dispatch_plan =
  dp_mode :: pystr
  dp_profile :: pystr
  dp_policy :: pystr
  dp_command_count :: nat
  dp_control :: nat
  dp_memory :: nat
  dp_setup :: nat
  dp_pre_frame :: nat
  dp_hot_path :: nat
  dp_next_frame :: nat
  dp_dropped :: nat
  dp_deferred :: nat
  dp_cost :: pyfloat
  dp_pressure :: pyfloat
  dp_commands :: "dispatch_command list"

definition dispatch_plan_to_dict :: "dispatch_plan \<Rightarrow> pyval" where
  "dispatch_plan_to_dict p = PDict
    [(lit ''mode'', PStr (dp_mode p)), (lit ''profile'', PStr (dp_profile p)), (lit ''next_frame_policy'', PStr (dp_policy p)),
     (lit ''command_count'', PInt (int (dp_command_count p))), (lit ''control_count'', PInt (int (dp_control p))),
     (lit ''memory_count'', PInt (int (dp_memory p))), (lit ''setup_count'', PInt (int (dp_setup p))),
     (lit ''pre_frame_count'', PInt (int (dp_pre_frame p))), (lit ''hot_path_count'', PInt (int (dp_hot_path p))),
     (lit ''next_frame_count'', PInt (int (dp_next_frame p))), (lit ''dropped_count'', PInt (int (dp_dropped p))),
     (lit ''deferred_count'', PInt (int (dp_deferred p))), (lit ''total_cost_ms'', round4 (dp_cost p)),
     (lit ''total_memory_pressure_mb'', round4 (dp_pressure p)), (lit ''commands'', PList (map dispatch_to_dict (dp_commands p)))]"

definition phase_order :: "pystr \<Rightarrow> int" where
  "phase_order ph = the (map_of (map (map_prod lit id)
     [(''control'', 0), (''memory'', 1), (''setup'', 2), (''pre-frame'', 3), (''hot-path'', 4), (''next-frame'', 5)]) ph)"

definition dispatch_shape :: "command_arbitration \<Rightarrow> string option \<times> string \<times> string" where
  "dispatch_shape a =
    (if ca_decision a = lit ''drop-waste'' then (Some ''control'', ''drop_operation'', ''dropped'')
     else if ca_decision a = lit ''prestage-before-frame'' then (Some ''pre-frame'', ''prestage_operation'', ''scheduled'')
     else if ca_decision a = lit ''prepare-before-hot-path'' then (Some ''setup'', ''prepare_operation'', ''scheduled'')
     else if ca_decision a = lit ''admit-hot-path'' then (Some ''hot-path'', ''execute_operation'', ''scheduled'')
     else if ca_decision a \<in> {lit ''split-or-defer-hot-path'', lit ''defer-pre-frame-overflow''}
       then (Some ''next-frame'', ''defer_or_split_operation'', ''deferred'')
     else if ca_decision a = lit ''admit-current-path'' then (Some ''hot-path'', ''execute_operation'', ''scheduled'')
     else (None, ''ignore'', ''ignored''))"

definition dispatch_from_arbitration :: "command_arbitration \<Rightarrow> (pystr \<times> exec_command) list \<Rightarrow> dispatch_command option" where
  "dispatch_from_arbitration a by_operation =
    (let pc = map_of by_operation (ca_operation a) in
     case dispatch_shape a of
       (None, _) \<Rightarrow> None
     | (Some ph, command, status) \<Rightarrow> Some
         \<lparr>dc_sequence = 0, dc_order = phase_order (lit ph), dc_phase = lit ph, dc_command = lit command, dc_status = lit status,
          dc_decision = ca_decision a, dc_operation = Some (ca_operation a), dc_memory = None, dc_frame = ca_frame a,
          dc_target = (case pc of None \<Rightarrow> None | Some c \<Rightarrow> xc_target c), dc_path = map_option xc_path pc,
          dc_cost = ca_cost a, dc_value = (case pc of None \<Rightarrow> Fin 0 | Some c \<Rightarrow> xc_value c),
          dc_reason = ca_reason a, dc_effect = ca_effect a\<rparr>)"

definition dispatch_from_memory :: "memory_arbitration \<Rightarrow> dispatch_command" where
  "dispatch_from_memory m =
    \<lparr>dc_sequence = 0, dc_order = phase_order (lit ''memory''), dc_phase = lit ''memory'',
     dc_command = (if ma_decision m = lit ''evict-or-defer-residency'' then lit ''evict_or_defer_residency'' else lit ''reserve_memory_headroom''),
     dc_status = lit ''scheduled'', dc_decision = ma_decision m, dc_operation = None, dc_memory = Some (ma_memory m), dc_frame = None,
     dc_target = None, dc_path = None, dc_cost = Fin 0, dc_value = ma_pressure m, dc_reason = ma_reason m, dc_effect = ma_effect m\<rparr>"

text \<open>\<^verbatim>\<open>command.operation_id or command.memory or ""\<close>.\<close>

definition text_or :: "pystr option \<Rightarrow> pystr \<Rightarrow> pystr" where
  "text_or x y = (case x of None \<Rightarrow> y | Some s \<Rightarrow> if s = [] then y else s)"

definition dispatch_key :: "dispatch_command \<Rightarrow> int \<times> int \<times> pystr \<times> pystr" where
  "dispatch_key d = (dc_order d, frame_key (dc_frame d), text_or (dc_operation d) (text_or (dc_memory d) []), dc_command d)"

definition sort_dispatch :: "dispatch_command list \<Rightarrow> dispatch_command list" where
  "sort_dispatch ds = sort_key dispatch_key ds"

text \<open>Rebuilding a command from its dictionary rounds its numbers.\<close>

definition renumber_dispatch :: "nat \<Rightarrow> dispatch_command \<Rightarrow> dispatch_command" where
  "renumber_dispatch i d = d\<lparr>dc_sequence := i, dc_cost := fround 4 (dc_cost d), dc_value := fround 4 (dc_value d)\<rparr>"

definition count_phase :: "dispatch_command list \<Rightarrow> string \<Rightarrow> nat" where
  "count_phase ds ph = count_if (\<lambda>d. dc_phase d = lit ph) ds"

definition packet_by_operation :: "exec_packet \<Rightarrow> (pystr \<times> exec_command) list" where
  "packet_by_operation p = foldl (\<lambda>m c. alist_put (xc_operation c) c m) [] (xp_commands p)"

definition build_dispatch_plan :: "arbitration_plan \<Rightarrow> exec_packet \<Rightarrow> dispatch_plan" where
  "build_dispatch_plan a p =
    (let by_operation = packet_by_operation p;
         ds = List.map_filter (\<lambda>c. dispatch_from_arbitration c by_operation) (ap_commands a) @ map dispatch_from_memory (ap_memory a);
         cs = number_with renumber_dispatch (sort_dispatch ds)
     in \<lparr>dp_mode = lit ''runtime-dispatch-plan-v0.30'', dp_profile = ap_profile a, dp_policy = ap_policy a, dp_command_count = length cs,
       dp_control = count_phase cs ''control'', dp_memory = count_phase cs ''memory'', dp_setup = count_phase cs ''setup'',
       dp_pre_frame = count_phase cs ''pre-frame'', dp_hot_path = count_phase cs ''hot-path'', dp_next_frame = count_phase cs ''next-frame'',
       dp_dropped = count_if (\<lambda>d. dc_status d = lit ''dropped'') cs, dp_deferred = count_if (\<lambda>d. dc_status d = lit ''deferred'') cs,
       dp_cost = fsum (map dc_cost cs), dp_pressure = fsum_if (\<lambda>d. dc_phase d = lit ''memory'') dc_value cs, dp_commands = cs\<rparr>)"

section \<open>Every decision is dispatched\<close>

definition pipeline :: "transit_map \<Rightarrow> runtime_envelope \<Rightarrow> dispatch_plan" where
  "pipeline t env = build_dispatch_plan (build_budget_arbitration (packet_of t) env) (packet_of t)"

definition decision_kinds :: "(pystr \<times> pystr) set" where
  "decision_kinds = (\<lambda>(d, s). (lit d, lit s)) ` {(''drop-waste'', ''dropped''), (''prestage-before-frame'', ''prestaged''),
     (''defer-pre-frame-overflow'', ''deferred''), (''prepare-before-hot-path'', ''admitted''), (''admit-hot-path'', ''admitted''),
     (''split-or-defer-hot-path'', ''deferred''), (''admit-current-path'', ''admitted'')}"

lemma decision_kindsI [simp]:
  "(lit ''drop-waste'', lit ''dropped'') \<in> decision_kinds"
  "(lit ''prestage-before-frame'', lit ''prestaged'') \<in> decision_kinds"
  "(lit ''defer-pre-frame-overflow'', lit ''deferred'') \<in> decision_kinds"
  "(lit ''prepare-before-hot-path'', lit ''admitted'') \<in> decision_kinds"
  "(lit ''admit-hot-path'', lit ''admitted'') \<in> decision_kinds"
  "(lit ''split-or-defer-hot-path'', lit ''deferred'') \<in> decision_kinds"
  "(lit ''admit-current-path'', lit ''admitted'') \<in> decision_kinds"
  by (simp_all add: decision_kinds_def)

text \<open>An answer of the arbiter: one of its decisions, with the status of that decision; setup work and nothing else is prepared.\<close>

definition arbitrated :: "command_arbitration \<Rightarrow> bool" where
  "arbitrated a \<longleftrightarrow> (ca_decision a, ca_status a) \<in> decision_kinds
     \<and> (ca_decision a = lit ''prepare-before-hot-path'' \<longleftrightarrow> ca_window a = lit ''setup'')"

lemma arbitrate_command_kind: "arbitrate_command c e u = (a, u1) \<Longrightarrow> arbitrated a"
  by (auto simp: arbitrated_def arbitrate_command_def make_arbitration_def Let_def split: if_splits)

lemma arbitrate_all_kind: "a \<in> set (arbitrate_all es cs u) \<Longrightarrow> arbitrated a"
proof (induction cs arbitrary: u)
  case (Cons c cs)
  obtain b u1 where "arbitrate_command c (envelope_for es (xc_frame c)) u = (b, u1)" by force
  then show ?case using Cons arbitrate_command_kind by auto
qed simp

text \<open>
  The status and the phase an answer of the arbiter is to be dispatched with, from its status and its window: waste goes to the
  control phase, what is prestaged to the pre-frame phase, what is deferred to the next frame, and what is admitted to the setup
  phase or to the hot path.
\<close>

definition dispatch_place :: "command_arbitration \<Rightarrow> pystr \<times> pystr" where
  "dispatch_place a =
    (if has_status ''dropped'' a then (lit ''dropped'', lit ''control'')
     else if has_status ''prestaged'' a then (lit ''scheduled'', lit ''pre-frame'')
     else if has_status ''deferred'' a then (lit ''deferred'', lit ''next-frame'')
     else (lit ''scheduled'', if ca_window a = lit ''setup'' then lit ''setup'' else lit ''hot-path''))"

type_synonym dispatched_work = "pystr option \<times> pystr \<times> pystr \<times> pystr option \<times> int option \<times> pystr \<times> pyfloat"

definition work_of :: "dispatch_command \<Rightarrow> dispatched_work" where
  "work_of d = (dc_operation d, dc_status d, dc_phase d, dc_memory d, dc_frame d, dc_decision d, dc_cost d)"

definition answer_work :: "command_arbitration \<Rightarrow> dispatched_work" where
  "answer_work a = (Some (ca_operation a), fst (dispatch_place a), snd (dispatch_place a), None, ca_frame a, ca_decision a,
     fround 4 (ca_cost a))"

definition memory_work :: "memory_arbitration \<Rightarrow> dispatched_work" where
  "memory_work m = (None, lit ''scheduled'', lit ''memory'', Some (ma_memory m), None, ma_decision m, Fin 0)"

lemma dispatched:
  assumes "arbitrated a"
  obtains d where "dispatch_from_arbitration a m = Some d" and "work_of (renumber_dispatch i d) = answer_work a"
proof -
  have "\<exists>d. dispatch_from_arbitration a m = Some d \<and> work_of (renumber_dispatch i d) = answer_work a"
    using assms
    by (auto simp: arbitrated_def decision_kinds_def dispatch_from_arbitration_def dispatch_shape_def work_of_def answer_work_def
        dispatch_place_def has_status_def renumber_dispatch_def Let_def)
  then show ?thesis using that by blast
qed

lemma dispatched_memory: "work_of (renumber_dispatch i (dispatch_from_memory m)) = memory_work m"
proof -
  have "fround 4 (Fin 0) = Fin 0" by code_simp
  then show ?thesis by (simp add: work_of_def renumber_dispatch_def dispatch_from_memory_def memory_work_def)
qed

lemma dropped_operations:
  "map ca_operation (filter (has_status ''dropped'') (arbitrate_all es cs u))
    = map xc_operation (filter (\<lambda>c. xc_window c = lit ''never'') cs)"
proof (induction cs arbitrary: u)
  case (Cons c cs)
  obtain a u1 where a: "arbitrate_command c (envelope_for es (xc_frame c)) u = (a, u1)" by force
  then have "has_status ''dropped'' a \<longleftrightarrow> xc_window c = lit ''never''"
    using arbitrate_command_status [OF a] arbitrate_command_fields(2) [OF a] by (simp add: one_status_def has_status_def)
  then show ?case using Cons a arbitrate_command_fields(5) [OF a] by simp
qed simp

lemma dispatch_commands:
  assumes "\<forall>a \<in> set (ap_commands b). arbitrated a"
  shows "dp_commands (build_dispatch_plan b p) = number_with renumber_dispatch (sort_dispatch
      (map (\<lambda>a. the (dispatch_from_arbitration a (packet_by_operation p))) (ap_commands b) @ map dispatch_from_memory (ap_memory b)))"
proof -
  have "\<forall>a \<in> set (ap_commands b). \<exists>d. dispatch_from_arbitration a (packet_by_operation p) = Some d"
    using assms dispatched by (metis (no_types, lifting))
  then show ?thesis by (simp add: build_dispatch_plan_def Let_def map_filter_total comp_def)
qed

lemma renumber_dispatch_fields [simp]:
  "dc_sequence (renumber_dispatch i d) = i" "dispatch_key (renumber_dispatch i d) = dispatch_key d"
  by (simp_all add: renumber_dispatch_def dispatch_key_def)

lemma work_of_renumber: "work_of (renumber_dispatch i d) = work_of (renumber_dispatch 0 d)"
  by (simp add: work_of_def renumber_dispatch_def)

text \<open>What is dispatched, as a multiset.\<close>

lemma dispatch_multiset:
  assumes "\<forall>a \<in> set (ap_commands b). arbitrated a"
  shows "mset (map work_of (dp_commands (build_dispatch_plan b p)))
    = mset (map answer_work (ap_commands b)) + mset (map memory_work (ap_memory b))"
proof -
  let ?k = "work_of \<circ> renumber_dispatch 0"
  let ?f = "\<lambda>a. the (dispatch_from_arbitration a (packet_by_operation p))"
  have "map work_of (dp_commands (build_dispatch_plan b p))
      = map ?k (sort_dispatch (map ?f (ap_commands b) @ map dispatch_from_memory (ap_memory b)))"
    unfolding dispatch_commands [OF assms] comp_def by (rule map_number_with) (rule work_of_renumber)
  then have "mset (map work_of (dp_commands (build_dispatch_plan b p)))
      = mset (map (?k \<circ> ?f) (ap_commands b)) + mset (map (?k \<circ> dispatch_from_memory) (ap_memory b))"
    by (simp add: sort_dispatch_def multiset.map_comp)
  also have "map (?k \<circ> ?f) (ap_commands b) = map answer_work (ap_commands b)"
  proof (rule map_cong [OF refl])
    fix a assume "a \<in> set (ap_commands b)"
    then have "arbitrated a" using assms by blast
    then obtain d where "dispatch_from_arbitration a (packet_by_operation p) = Some d" "work_of (renumber_dispatch 0 d) = answer_work a"
      by (rule dispatched)
    then show "(?k \<circ> ?f) a = answer_work a" by simp
  qed
  also have "map (?k \<circ> dispatch_from_memory) (ap_memory b) = map memory_work (ap_memory b)"
    by (simp add: dispatched_memory)
  finally show ?thesis .
qed

lemma all_arbitrated: "\<forall>a \<in> set (ap_commands (build_budget_arbitration p env)). arbitrated a"
  using arbitrate_all_kind unfolding arbitration_commands by blast

lemma work_dropped:
  "fst (answer_work a) = Some (ca_operation a)" "fst (snd (answer_work a)) = lit ''dropped'' \<longleftrightarrow> has_status ''dropped'' a"
  "fst (snd (memory_work m)) = lit ''dropped'' \<longleftrightarrow> False"
  by (simp_all add: answer_work_def memory_work_def dispatch_place_def)

lemma pipeline_dropped:
  "mset (map dc_operation (filter (\<lambda>d. dc_status d = lit ''dropped'') (dp_commands (pipeline t env))))
    = mset (map (Some \<circ> th_operation) (filter (\<lambda>h. th_class h \<in> waste_classes) (tm_hops t)))"
proof -
  let ?b = "build_budget_arbitration (packet_of t) env"
  let ?q = "\<lambda>x :: dispatched_work. fst (snd x) = lit ''dropped''"
  have "mset (map dc_operation (filter (\<lambda>d. dc_status d = lit ''dropped'') (dp_commands (pipeline t env))))
      = image_mset fst (filter_mset ?q (mset (map work_of (dp_commands (pipeline t env)))))"
    by (simp add: filter_mset_image_mset multiset.map_comp comp_def work_of_def)
  also have "\<dots> = mset (map (Some \<circ> ca_operation) (filter (has_status ''dropped'') (ap_commands ?b)))"
    unfolding pipeline_def dispatch_multiset [OF all_arbitrated]
    by (simp add: filter_mset_image_mset multiset.map_comp comp_def work_dropped)
  also have "map (Some \<circ> ca_operation) (filter (has_status ''dropped'') (ap_commands ?b))
      = map Some (map xc_operation (filter (\<lambda>c. xc_window c = lit ''never'') (xp_commands (packet_of t))))"
    unfolding arbitration_commands dropped_operations [of "re_frames env" "xp_commands (packet_of t)" "\<lparr>ut_hot = [], ut_pre = []\<rparr>", symmetric] map_map ..
  also have "mset \<dots> = image_mset Some (mset (map xc_operation (filter (\<lambda>c. xc_window c = lit ''never'') (xp_commands (packet_of t)))))"
    by (simp add: multiset.map_comp)
  finally show ?thesis unfolding packet_never by (simp add: multiset.map_comp comp_def)
qed

text \<open>C20: From a transit map to the dispatch plan: every answer of the arbiter is dispatched once, with its operation, frame, decision
  and cost (rounded to four decimals) and with the status and phase that its own status and window call for, and so is every memory
  action; the commands are listed in the order of phase, frame, name and command and numbered from one; there is one per hop with a
  route directive and one per memory action; and the operations dropped are exactly those of the hops the optimizer proved
  wasteful.\<close>

theorem pipeline_dispatches:
  "let b = build_budget_arbitration (packet_of t) env; ds = dp_commands (pipeline t env) in
    mset (map work_of ds) = mset (map answer_work (ap_commands b)) + mset (map memory_work (ap_memory b))
    \<and> sorted (map dispatch_key ds)
    \<and> map dc_sequence ds = [1..<Suc (dp_command_count (pipeline t env))]
    \<and> dp_command_count (pipeline t env) = length (filter (\<lambda>h. directive_from_hop h \<noteq> None) (tm_hops t))
        + length (List.map_filter arbitrate_memory_layer (re_layers env))
    \<and> mset (map dc_operation (filter (\<lambda>d. dc_status d = lit ''dropped'') ds))
        = mset (map (Some \<circ> th_operation) (filter (\<lambda>h. th_class h \<in> waste_classes) (tm_hops t)))"
proof -
  let ?b = "build_budget_arbitration (packet_of t) env"
  note cs = dispatch_commands [OF all_arbitrated, of "packet_of t" env "packet_of t", folded pipeline_def]
  have count: "dp_command_count (pipeline t env) = length (dp_commands (pipeline t env))"
    by (simp add: pipeline_def build_dispatch_plan_def Let_def)
  have "map dispatch_key (dp_commands (pipeline t env)) = map dispatch_key (sort_dispatch
      (map (\<lambda>a. the (dispatch_from_arbitration a (packet_by_operation (packet_of t)))) (ap_commands ?b) @ map dispatch_from_memory (ap_memory ?b)))"
    unfolding cs by (rule map_number_with) simp
  then have "sorted (map dispatch_key (dp_commands (pipeline t env)))" by (simp add: sort_dispatch_def)
  moreover have "map dc_sequence (dp_commands (pipeline t env)) = [1..<Suc (dp_command_count (pipeline t env))]"
    unfolding count unfolding cs length_number_with by (rule number_with_index) simp
  moreover have "length (dp_commands (pipeline t env)) = length (ap_commands ?b) + length (ap_memory ?b)"
    by (simp add: cs sort_dispatch_def)
  moreover have "length (ap_commands ?b) = length (xp_commands (packet_of t))"
    unfolding arbitration_commands using arbitrate_all_fields(1) by (metis length_map)
  moreover have "length (xp_commands (packet_of t)) = length (filter (\<lambda>h. directive_from_hop h \<noteq> None) (tm_hops t))"
    using packet_operations [of t] by (metis length_map size_mset)
  moreover have "ap_memory ?b = List.map_filter arbitrate_memory_layer (re_layers env)"
    by (simp add: build_budget_arbitration_def Let_def)
  ultimately show ?thesis
    using pipeline_dropped [of t env] dispatch_multiset [OF all_arbitrated, of "packet_of t" env "packet_of t", folded pipeline_def]
    by (simp add: count Let_def)
qed

end
