(* ===== verification/Py_Float_Ops.thy ===== *)
theory Py_Float_Ops
  imports Budget_Envelope Py_Float_Order
begin

text \<open>
  More of Python's float operations, for the stages after the dispatch plan: division, \<^verbatim>\<open>min\<close> with a
  default, the format \<^verbatim>\<open>:.4f\<close>, and the order facts about them.
\<close>

section \<open>Operations\<close>

text \<open>\<^verbatim>\<open>x / y\<close> for a finite \<open>y\<close> that is not zero.\<close>

definition fdiv :: "pyfloat \<Rightarrow> rat \<Rightarrow> pyfloat" where
  "fdiv x y = (case x of Fin a \<Rightarrow> to_f64 (a / y) | NaN \<Rightarrow> NaN | _ \<Rightarrow> signed_inf (fsign x * fsign (Fin y)))"

text \<open>\<^verbatim>\<open>x / y\<close> for a divisor that is not zero or below.\<close>

definition fdiv_pos :: "pyfloat \<Rightarrow> pyfloat \<Rightarrow> pyfloat" where
  "fdiv_pos x y = (case y of Fin b \<Rightarrow> fdiv x b | PInf \<Rightarrow> (case x of Fin a \<Rightarrow> Fin 0 | _ \<Rightarrow> NaN) | _ \<Rightarrow> NaN)"

text \<open>\<^verbatim>\<open>min(xs, default=d)\<close>.\<close>

definition fmin_list :: "pyfloat \<Rightarrow> pyfloat list \<Rightarrow> pyfloat" where
  "fmin_list d xs = (case xs of [] \<Rightarrow> d | y # ys \<Rightarrow> foldl fmin y ys)"

text \<open>\<^verbatim>\<open>f"{x:.4f}"\<close>: the exact value is rounded to four decimals, ties to even. A zero has no sign here.\<close>

definition fixed4 :: "pyfloat \<Rightarrow> pystr" where
  "fixed4 x = (case x of
     Fin a \<Rightarrow> (let n = rnd_even (\<bar>a\<bar> * 10000); digits = show_int (n mod 10000)
       in (if a < 0 then [45] else []) @ show_int (n div 10000) @ [46] @ replicate (4 - length digits) 48 @ digits)
   | PInf \<Rightarrow> lit ''inf'' | NInf \<Rightarrow> lit ''-inf'' | NaN \<Rightarrow> lit ''nan'')"

text \<open>\<^verbatim>\<open>s.startswith(p)\<close> and \<^verbatim>\<open>x or y\<close> on floats.\<close>

definition starts_with :: "pystr \<Rightarrow> pystr \<Rightarrow> bool" where
  "starts_with p s \<longleftrightarrow> take (length p) s = p"

definition float_or :: "pyfloat \<Rightarrow> pyfloat \<Rightarrow> pyfloat" where
  "float_or x y = (if x = Fin 0 then y else x)"

definition opt_float_or_zero :: "pyfloat option \<Rightarrow> pyfloat" where
  "opt_float_or_zero x = (case x of None \<Rightarrow> Fin 0 | Some y \<Rightarrow> y)"

section \<open>Order\<close>

lemma fle_NInf [simp]: "fle NInf x \<longleftrightarrow> x \<noteq> NaN"
  by (cases x) (simp_all add: fle_def feq_def)

lemma not_fle: "x \<noteq> NaN \<Longrightarrow> y \<noteq> NaN \<Longrightarrow> \<not> fle x y \<longleftrightarrow> fless y x"
  by (cases x; cases y) (auto simp: fle_def feq_def)

lemma fless_imp_fle: "fless x y \<Longrightarrow> fle x y"
  by (simp add: fle_def)

lemma fle_fmin: "x \<noteq> NaN \<Longrightarrow> y \<noteq> NaN \<Longrightarrow> fle (fmin x y) x \<and> fle (fmin x y) y"
  by (cases x; cases y) (auto simp: fmin_def)

lemma fle_fmax: "x \<noteq> NaN \<Longrightarrow> y \<noteq> NaN \<Longrightarrow> fle x (fmax x y) \<and> fle y (fmax x y)"
  by (cases x; cases y) (auto simp: fmax_def)

lemma fnonneg_iff: "fnonneg x \<longleftrightarrow> fle (Fin 0) x"
  by (cases x) (simp_all add: fnonneg_def)

lemma fnonneg_not_NaN: "fnonneg x \<Longrightarrow> x \<noteq> NaN"
  by (auto simp: fnonneg_def)

section \<open>Rounding\<close>

lemma rnd_even_neg: "rnd_even (- z) = - rnd_even z"
proof -
  let ?f = "\<lfloor>z\<rfloor>"
  show ?thesis
  proof (cases "z = of_int ?f")
    case True
    then have "rnd_even z = ?f" "rnd_even (- z) = - ?f"
      by (metis rnd_even_int, metis of_int_minus rnd_even_int)
    then show ?thesis by simp
  next
    case False
    then have "of_int ?f < z" using of_int_floor_le [of z] by linarith
    then have "\<lfloor>- z\<rfloor> = - ?f - 1" by (intro floor_unique) (use real_of_int_floor_add_one_gt in linarith)+
    then show ?thesis by (auto simp: rnd_even_def Let_def)
  qed
qed

lemma round_at_neg: "round_at b e (- x) = - round_at b e x"
  by (simp add: round_at_def rnd_even_neg)

lemma to_f64_neg: "to_f64 (- x) = fneg (to_f64 x)"
  by (simp add: to_f64_def f64_exp_def round_at_neg f64_pack_def fneg_def)

lemma fneg_fneg [simp]: "fneg (fneg x) = x"
  by (cases x) (simp_all add: fneg_def)

lemma fle_fneg: "fle (fneg x) (fneg y) \<longleftrightarrow> fle y x"
  by (cases x; cases y) (simp_all add: fneg_def)

lemma is_f64_fneg [simp]: "is_f64 (fneg x) \<longleftrightarrow> is_f64 x"
  by (cases x) (auto simp: fneg_def is_f64_def to_f64_neg split: pyfloat.splits)

lemma is_f64_to_f64 [simp]: "is_f64 (to_f64 x)"
proof -
  have nonneg: "is_f64 (to_f64 y)" if "0 \<le> y" for y
    using to_f64_fix [OF that] by (simp add: is_f64_def split: pyfloat.split)
  show ?thesis
  proof (cases "0 \<le> x")
    case False
    then have "is_f64 (fneg (to_f64 (- x)))" using nonneg [of "- x"] by simp
    then show ?thesis by (simp add: to_f64_neg)
  qed (rule nonneg)
qed

lemma is_f64_sum [simp]: "is_f64 (fadd x y)"
proof -
  have "is_f64 PInf" "is_f64 NInf" "is_f64 NaN" by (simp_all add: is_f64_def)
  then show ?thesis by (cases x; cases y) simp_all
qed

lemma is_f64_fmul [simp]: "is_f64 (fmul x y)"
proof -
  have "is_f64 PInf" "is_f64 NInf" "is_f64 NaN" by (simp_all add: is_f64_def)
  then show ?thesis by (simp add: fmul_def signed_inf_def split: pyfloat.split)
qed

lemma is_f64_fmin: "is_f64 x \<Longrightarrow> is_f64 y \<Longrightarrow> is_f64 (fmin x y)"
  and is_f64_fmax: "is_f64 x \<Longrightarrow> is_f64 y \<Longrightarrow> is_f64 (fmax x y)"
  by (simp_all add: fmin_def fmax_def)

lemma to_f64_le: "x \<le> y \<Longrightarrow> fle (to_f64 x) (to_f64 y)"
proof -
  assume le: "x \<le> y"
  have not_NaN: "to_f64 z \<noteq> NaN" for z by (simp add: to_f64_def f64_pack_def)
  show ?thesis
  proof (cases "0 \<le> x")
    case False
    show ?thesis
    proof (cases "0 \<le> y")
      case True
      have "fle (to_f64 x) (Fin 0)"
        using to_f64_nonneg [of "- x"] False by (cases "to_f64 x") (simp_all add: to_f64_neg fneg_def fnonneg_def)
      moreover have "fle (Fin 0) (to_f64 y)" using to_f64_nonneg [OF True] by (simp add: fnonneg_iff)
      ultimately show ?thesis by (rule fle_trans)
    next
      case False
      then have "fle (to_f64 (- y)) (to_f64 (- x))" using le by (intro to_f64_mono) simp_all
      then show ?thesis by (simp add: to_f64_neg fle_fneg)
    qed
  qed (rule to_f64_mono [OF _ le])
qed

lemma fadd_zero: "is_f64 x \<Longrightarrow> fadd x (Fin 0) = x"
  by (cases x) (simp_all add: is_f64_def)

lemma fadd_le: "is_f64 x \<Longrightarrow> fle y (Fin 0) \<Longrightarrow> x \<noteq> NaN \<Longrightarrow> y \<noteq> NInf \<Longrightarrow> fle (fadd x y) x"
proof (cases x; cases y)
  fix a b assume "is_f64 x" "fle y (Fin 0)" "x = Fin a" "y = Fin b"
  then show ?thesis using to_f64_le [of "a + b" a] by (simp add: is_f64_def)
qed simp_all

lemma fsub_le: "is_f64 x \<Longrightarrow> fnonneg y \<Longrightarrow> y \<noteq> PInf \<Longrightarrow> x \<noteq> NaN \<Longrightarrow> fle (fsub x y) x"
  unfolding fsub_def by (rule fadd_le) (cases y; simp add: fneg_def fnonneg_def)+

text \<open>Zeros do not change a sum.\<close>

lemma fsum_zeros: "fsum (map (\<lambda>x. if p x then f x else Fin 0) xs) = fsum_if p f xs"
proof -
  have fold: "is_f64 a \<Longrightarrow> foldl fadd a (map (\<lambda>x. if p x then f x else Fin 0) xs) = foldl fadd a (map f (filter p xs))" for a
    by (induction xs arbitrary: a) (simp_all add: fadd_zero)
  have "is_f64 (Fin 0)" by (simp add: is_f64_def to_f64_def)
  from fold [OF this] show ?thesis by (simp add: fsum_def fsum_if_def)
qed

lemma is_f64_fround [simp]: "is_f64 (fround n x)"
proof -
  have "is_f64 PInf" "is_f64 NInf" "is_f64 NaN" by (simp_all add: is_f64_def)
  then show ?thesis by (simp add: fround_def split: pyfloat.split)
qed

lemma fsum_single: "is_f64 x \<Longrightarrow> fsum [x] = x"
  using fadd_zero [of x] by (simp add: fsum_def fadd_commute)

lemma fround_nonneg: "fnonneg x \<Longrightarrow> fnonneg (fround n x)"
proof (cases x)
  case (Fin a)
  moreover assume "fnonneg x"
  ultimately have "0 \<le> rnd_even (a / powb 10 (- n))"
    using rnd_even_mono [of "of_int 0" "a / powb 10 (- n)"] by (simp only: rnd_even_int) (simp add: fnonneg_def)
  then show ?thesis using Fin by (simp add: fround_def round_at_def to_f64_nonneg)
qed (simp_all add: fround_def fnonneg_def)

lemma fround_mono: "fle x y \<Longrightarrow> fle (fround n x) (fround n y)"
proof (cases x; cases y)
  fix a b assume "fle x y" "x = Fin a" "y = Fin b"
  then have "round_at 10 (- n) a \<le> round_at 10 (- n) b"
    unfolding round_at_def by (intro mult_right_mono of_int_le_iff [THEN iffD2] rnd_even_mono divide_right_mono) simp_all
  then show ?thesis using \<open>x = Fin a\<close> \<open>y = Fin b\<close> by (simp add: fround_def to_f64_le)
next
  fix a assume "x = Fin a" "y = PInf"
  moreover have "to_f64 z \<noteq> NaN" for z by (simp add: to_f64_def f64_pack_def)
  ultimately show ?thesis by (cases "to_f64 (round_at 10 (- n) a)") (simp_all add: fround_def)
next
  fix a assume "x = NInf" "y = Fin a"
  moreover have "to_f64 z \<noteq> NaN" for z by (simp add: to_f64_def f64_pack_def)
  ultimately show ?thesis by (simp add: fround_def)
qed (simp_all add: fround_def)

section \<open>Budgets\<close>

text \<open>A finite binary64 number that is not negative.\<close>

definition is_budget :: "pyfloat \<Rightarrow> bool" where
  "is_budget x \<longleftrightarrow> is_f64 x \<and> fnonneg x \<and> x \<noteq> PInf"

lemma is_budget_fle: "is_budget x \<Longrightarrow> fnonneg y \<Longrightarrow> fle y x \<Longrightarrow> is_f64 y \<Longrightarrow> is_budget y"
  by (cases y; cases x) (auto simp: is_budget_def fnonneg_def)

lemma is_budget_zero [simp]: "is_budget (Fin 0)"
  by (simp add: is_budget_def is_f64_def fnonneg_def to_f64_def)

lemma is_budget_not_NaN: "is_budget x \<Longrightarrow> x \<noteq> NaN"
  by (auto simp: is_budget_def fnonneg_def)

lemma fmax_least: "fle x z \<Longrightarrow> fle y z \<Longrightarrow> fle (fmax x y) z"
  by (simp add: fmax_def)

lemma fmin_fnonneg: "fnonneg x \<Longrightarrow> fnonneg y \<Longrightarrow> fnonneg (fmin x y)"
  by (simp add: fmin_def)

lemma fmax_fnonneg: "fnonneg x \<Longrightarrow> fnonneg (fmax x y)"
  by (cases x; cases y) (auto simp: fmax_def fnonneg_def)

lemma fmul_fnonneg: "fnonneg x \<Longrightarrow> 0 < k \<Longrightarrow> fnonneg (fmul x (Fin k))"
  by (cases x) (auto simp: fmul_def fnonneg_def fsign_def signed_inf_def intro: to_f64_nonneg [unfolded fnonneg_def])

lemma fmul_fle: "is_budget x \<Longrightarrow> 0 < k \<Longrightarrow> k \<le> 1 \<Longrightarrow> fle (fmul x (Fin k)) x"
proof (cases x)
  case (Fin a)
  assume "is_budget x" "0 < k" "k \<le> 1"
  then have a: "to_f64 a = Fin a" and "a * k \<le> a"
    using Fin by (auto simp: is_budget_def is_f64_def fnonneg_def intro: mult_left_le)
  then have "fle (to_f64 (a * k)) (to_f64 a)" by (intro to_f64_le)
  then show ?thesis by (simp add: Fin fmul_def a)
qed (auto simp: is_budget_def fnonneg_def)

lemma fmax_zero_sub:
  assumes "is_budget t" and "is_budget g"
  shows "is_budget (fmax (Fin 0) (fsub t g))" and "fle (fmax (Fin 0) (fsub t g)) t"
proof -
  have "fle (fsub t g) t" using assms by (intro fsub_le) (auto simp: is_budget_def fnonneg_def)
  moreover have "fle (Fin 0) t" using assms(1) by (simp add: is_budget_def flip: fnonneg_iff)
  ultimately show le: "fle (fmax (Fin 0) (fsub t g)) t" by (intro fmax_least)
  have "is_f64 (fmax (Fin 0) (fsub t g))" by (simp add: fmax_def fsub_def) (simp add: is_f64_def to_f64_def)
  with le show "is_budget (fmax (Fin 0) (fsub t g))" using is_budget_fle [OF assms(1) fmax_zero_nonneg] by blast
qed

lemma fmax_zero_id: "fnonneg x \<Longrightarrow> fmax (Fin 0) x = x"
  by (cases x) (auto simp: fmax_def fnonneg_def)

lemma fsub_zero: "is_f64 x \<Longrightarrow> fsub x (Fin 0) = x"
  using fadd_zero [of x] by (simp add: fsub_def fneg_def)

lemma fmin_list_snoc: "fmin_list d (xs @ [x]) = (if xs = [] then x else fmin (fmin_list d xs) x)"
  by (cases xs) (simp_all add: fmin_list_def)

lemma fmin_list_lower:
  assumes "\<forall>x \<in> set xs. x \<noteq> NaN"
  shows "xs \<noteq> [] \<longrightarrow> fmin_list d xs \<noteq> NaN \<and> fmin_list d xs \<in> set xs \<and> (\<forall>x \<in> set xs. fle (fmin_list d xs) x)"
  using assms
proof (induction xs rule: rev_induct)
  case (snoc x xs)
  show ?case
  proof (cases "xs = []")
    case False
    let ?m = "fmin_list d xs"
    from False snoc have m: "?m \<noteq> NaN" "?m \<in> set xs" "\<forall>y \<in> set xs. fle ?m y" and x: "x \<noteq> NaN" by auto
    from fle_fmin [OF m(1) x] have le: "fle (fmin ?m x) ?m" "fle (fmin ?m x) x" by auto
    have "fmin ?m x = ?m \<or> fmin ?m x = x" by (simp add: fmin_def)
    then have "fmin ?m x \<noteq> NaN" "fmin ?m x \<in> set (xs @ [x])" using m x by auto
    moreover have "\<forall>y \<in> set (xs @ [x]). fle (fmin ?m x) y" using le m(3) fle_trans by auto
    ultimately show ?thesis using False by (simp add: fmin_list_snoc)
  qed (use snoc in \<open>simp add: fmin_list_def fle_refl\<close>)
qed simp

end
