(* ===== verification/Dispatch_Execution.thy ===== *)
theory Dispatch_Execution
  imports Dispatch_Plan Py_Float_Ops
begin

text \<open>
  The simulated execution of a dispatch plan (\<^verbatim>\<open>src/fluidgateway/applier.py\<close>): every dispatched
  command books its cost under exactly one of four headings, or its value as memory relief.
\<close>

section \<open>Steps\<close>

record execution_step_result =
  xs_sequence :: nat
  xs_phase :: pystr
  xs_command :: pystr
  xs_outcome :: pystr
  xs_operation_id :: "pystr option"
  xs_memory :: "pystr option"
  xs_frame :: "int option"
  xs_current_frame_cost_ms :: pyfloat
  xs_pre_frame_cost_ms :: pyfloat
  xs_avoided_cost_ms :: pyfloat
  xs_deferred_cost_ms :: pyfloat
  xs_memory_relief_mb :: pyfloat
  xs_reason :: pystr
  xs_expected_effect :: pystr

definition execution_step_result_to_dict :: "execution_step_result \<Rightarrow> pyval" where
  "execution_step_result_to_dict x = PDict
    [(lit ''sequence'', PInt (int (xs_sequence x))), (lit ''phase'', PStr (xs_phase x)),
     (lit ''command'', PStr (xs_command x)), (lit ''outcome'', PStr (xs_outcome x)),
     (lit ''operation_id'', opt_str (xs_operation_id x)), (lit ''memory'', opt_str (xs_memory x)),
     (lit ''frame'', opt_int (xs_frame x)), (lit ''current_frame_cost_ms'', round4 (xs_current_frame_cost_ms x)),
     (lit ''pre_frame_cost_ms'', round4 (xs_pre_frame_cost_ms x)), (lit ''avoided_cost_ms'', round4 (xs_avoided_cost_ms x)),
     (lit ''deferred_cost_ms'', round4 (xs_deferred_cost_ms x)), (lit ''memory_relief_mb'', round4 (xs_memory_relief_mb x)),
     (lit ''reason'', PStr (xs_reason x)), (lit ''expected_effect'', PStr (xs_expected_effect x))]"

record execution_report =
  xr_mode :: pystr
  xr_profile :: pystr
  xr_next_frame_policy :: pystr
  xr_step_count :: nat
  xr_applied_count :: nat
  xr_scheduled_count :: nat
  xr_deferred_count :: nat
  xr_removed_count :: nat
  xr_memory_action_count :: nat
  xr_current_frame_cost_ms :: pyfloat
  xr_pre_frame_cost_ms :: pyfloat
  xr_avoided_cost_ms :: pyfloat
  xr_deferred_cost_ms :: pyfloat
  xr_memory_relief_mb :: pyfloat
  xr_steps :: "execution_step_result list"

definition execution_report_to_dict :: "execution_report \<Rightarrow> pyval" where
  "execution_report_to_dict x = PDict
    [(lit ''mode'', PStr (xr_mode x)), (lit ''profile'', PStr (xr_profile x)),
     (lit ''next_frame_policy'', PStr (xr_next_frame_policy x)), (lit ''step_count'', PInt (int (xr_step_count x))),
     (lit ''applied_count'', PInt (int (xr_applied_count x))), (lit ''scheduled_count'', PInt (int (xr_scheduled_count x))),
     (lit ''deferred_count'', PInt (int (xr_deferred_count x))), (lit ''removed_count'', PInt (int (xr_removed_count x))),
     (lit ''memory_action_count'', PInt (int (xr_memory_action_count x))),
     (lit ''current_frame_cost_ms'', round4 (xr_current_frame_cost_ms x)),
     (lit ''pre_frame_cost_ms'', round4 (xr_pre_frame_cost_ms x)), (lit ''avoided_cost_ms'', round4 (xr_avoided_cost_ms x)),
     (lit ''deferred_cost_ms'', round4 (xr_deferred_cost_ms x)), (lit ''memory_relief_mb'', round4 (xr_memory_relief_mb x)),
     (lit ''steps'', PList (map execution_step_result_to_dict (xr_steps x)))]"

definition execution_step_of :: "dispatch_command \<Rightarrow> string \<Rightarrow> pyfloat \<Rightarrow> pyfloat \<Rightarrow> pyfloat \<Rightarrow> pyfloat \<Rightarrow> pyfloat
    \<Rightarrow> execution_step_result" where
  "execution_step_of c outcome current pre_frame avoided deferred relief =
    \<lparr>xs_sequence = dc_sequence c, xs_phase = dc_phase c, xs_command = dc_command c, xs_outcome = lit outcome,
     xs_operation_id = dc_operation c, xs_memory = dc_memory c, xs_frame = dc_frame c, xs_current_frame_cost_ms = current,
     xs_pre_frame_cost_ms = pre_frame, xs_avoided_cost_ms = avoided, xs_deferred_cost_ms = deferred, xs_memory_relief_mb = relief,
     xs_reason = dc_reason c, xs_expected_effect = dc_effect c\<rparr>"

definition execution_step :: "dispatch_command \<Rightarrow> execution_step_result" where
  "execution_step c =
    (if dc_command c = lit ''drop_operation''
       then execution_step_of c ''applied'' (Fin 0) (Fin 0) (dc_cost c) (Fin 0) (Fin 0)
     else if dc_command c = lit ''prestage_operation''
       then execution_step_of c ''scheduled'' (Fin 0) (dc_cost c) (Fin 0) (Fin 0) (Fin 0)
     else if dc_command c = lit ''execute_operation''
       then execution_step_of c ''applied'' (dc_cost c) (Fin 0) (Fin 0) (Fin 0) (Fin 0)
     else if dc_command c = lit ''defer_or_split_operation''
       then execution_step_of c ''deferred'' (Fin 0) (Fin 0) (Fin 0) (dc_cost c) (Fin 0)
     else if dc_command c \<in> {lit ''evict_or_defer_residency'', lit ''reserve_memory_headroom''}
       then execution_step_of c ''scheduled'' (Fin 0) (Fin 0) (Fin 0) (Fin 0) (dc_value c)
     else execution_step_of c ''ignored'' (Fin 0) (Fin 0) (Fin 0) (Fin 0) (Fin 0))"

definition count_outcome :: "execution_step_result list \<Rightarrow> string \<Rightarrow> nat" where
  "count_outcome steps outcome = count_if (\<lambda>s. xs_outcome s = lit outcome) steps"

definition count_command :: "execution_step_result list \<Rightarrow> string \<Rightarrow> nat" where
  "count_command steps command = count_if (\<lambda>s. xs_command s = lit command) steps"

definition sum_step_value :: "(execution_step_result \<Rightarrow> pyfloat) \<Rightarrow> execution_step_result list \<Rightarrow> pyfloat" where
  "sum_step_value field steps = fsum (map field steps)"

definition execute_dispatch_plan :: "dispatch_plan \<Rightarrow> execution_report" where
  "execute_dispatch_plan p =
    (let steps = map execution_step (dp_commands p)
     in \<lparr>xr_mode = lit ''runtime-dispatch-execution-v0.31'', xr_profile = dp_profile p, xr_next_frame_policy = dp_policy p,
       xr_step_count = length steps, xr_applied_count = count_outcome steps ''applied'',
       xr_scheduled_count = count_outcome steps ''scheduled'', xr_deferred_count = count_outcome steps ''deferred'',
       xr_removed_count = count_command steps ''drop_operation'', xr_memory_action_count = count_if (\<lambda>s. xs_memory s \<noteq> None) steps,
       xr_current_frame_cost_ms = sum_step_value xs_current_frame_cost_ms steps,
       xr_pre_frame_cost_ms = sum_step_value xs_pre_frame_cost_ms steps, xr_avoided_cost_ms = sum_step_value xs_avoided_cost_ms steps,
       xr_deferred_cost_ms = sum_step_value xs_deferred_cost_ms steps, xr_memory_relief_mb = sum_step_value xs_memory_relief_mb steps,
       xr_steps = steps\<rparr>)"

section \<open>What is booked\<close>

definition dispatch_kinds :: "(pystr \<times> pystr \<times> pystr) set" where
  "dispatch_kinds =
    {(lit ''control'', lit ''drop_operation'', lit ''dropped''), (lit ''pre-frame'', lit ''prestage_operation'', lit ''scheduled''),
     (lit ''setup'', lit ''prepare_operation'', lit ''scheduled''), (lit ''hot-path'', lit ''execute_operation'', lit ''scheduled''),
     (lit ''next-frame'', lit ''defer_or_split_operation'', lit ''deferred''),
     (lit ''memory'', lit ''evict_or_defer_residency'', lit ''scheduled''),
     (lit ''memory'', lit ''reserve_memory_headroom'', lit ''scheduled'')}"

lemma dispatched_kind:
  assumes "dispatch_from_arbitration a m = Some d"
  shows "(dc_phase d, dc_command d, dc_status d) \<in> dispatch_kinds"
proof -
  from assms obtain ph c s where shape: "dispatch_shape a = (Some ph, c, s)"
    and d: "dc_phase d = lit ph" "dc_command d = lit c" "dc_status d = lit s"
    by (auto simp: dispatch_from_arbitration_def Let_def split: option.splits prod.splits)
  from shape show ?thesis unfolding d by (simp add: dispatch_shape_def dispatch_kinds_def split: if_splits)
qed

lemma dispatched_memory_kind:
  "(dc_phase (dispatch_from_memory m), dc_command (dispatch_from_memory m), dc_status (dispatch_from_memory m)) \<in> dispatch_kinds"
  by (simp add: dispatch_from_memory_def dispatch_kinds_def)

lemma pipeline_kind:
  assumes "d \<in> set (dp_commands (pipeline t env))"
  shows "(dc_phase d, dc_command d, dc_status d) \<in> dispatch_kinds"
proof -
  let ?b = "build_budget_arbitration (packet_of t) env" and ?m = "packet_by_operation (packet_of t)"
  from assms have "d \<in> set (number_with renumber_dispatch (sort_dispatch
      (List.map_filter (\<lambda>c. dispatch_from_arbitration c ?m) (ap_commands ?b) @ map dispatch_from_memory (ap_memory ?b))))"
    by (simp add: pipeline_def build_dispatch_plan_def Let_def)
  then obtain i x where x: "x \<in> set (List.map_filter (\<lambda>c. dispatch_from_arbitration c ?m) (ap_commands ?b)
      @ map dispatch_from_memory (ap_memory ?b))" and d: "d = renumber_dispatch i x"
    using set_number_with by (fastforce simp: sort_dispatch_def)
  from x have "(dc_phase x, dc_command x, dc_status x) \<in> dispatch_kinds"
    using dispatched_kind dispatched_memory_kind by (auto simp: List.map_filter_def)
  then show ?thesis by (simp add: d renumber_dispatch_def)
qed

text \<open>Where a command of each kind is booked.\<close>

lemma execution_step_table:
  "dc_command d = lit ''drop_operation'' \<Longrightarrow> execution_step d = execution_step_of d ''applied'' (Fin 0) (Fin 0) (dc_cost d) (Fin 0) (Fin 0)"
  "dc_command d = lit ''prestage_operation'' \<Longrightarrow> execution_step d = execution_step_of d ''scheduled'' (Fin 0) (dc_cost d) (Fin 0) (Fin 0) (Fin 0)"
  "dc_command d = lit ''prepare_operation'' \<Longrightarrow> execution_step d = execution_step_of d ''ignored'' (Fin 0) (Fin 0) (Fin 0) (Fin 0) (Fin 0)"
  "dc_command d = lit ''execute_operation'' \<Longrightarrow> execution_step d = execution_step_of d ''applied'' (dc_cost d) (Fin 0) (Fin 0) (Fin 0) (Fin 0)"
  "dc_command d = lit ''defer_or_split_operation'' \<Longrightarrow> execution_step d = execution_step_of d ''deferred'' (Fin 0) (Fin 0) (Fin 0) (dc_cost d) (Fin 0)"
  "dc_command d = lit ''evict_or_defer_residency'' \<Longrightarrow> execution_step d = execution_step_of d ''scheduled'' (Fin 0) (Fin 0) (Fin 0) (Fin 0) (dc_value d)"
  "dc_command d = lit ''reserve_memory_headroom'' \<Longrightarrow> execution_step d = execution_step_of d ''scheduled'' (Fin 0) (Fin 0) (Fin 0) (Fin 0) (dc_value d)"
  by (simp_all add: execution_step_def)

lemma execution_step_booked:
  assumes "(dc_phase d, dc_command d, dc_status d) \<in> dispatch_kinds"
  shows "xs_current_frame_cost_ms (execution_step d) = (if dc_phase d = lit ''hot-path'' then dc_cost d else Fin 0)"
    and "xs_pre_frame_cost_ms (execution_step d) = (if dc_phase d = lit ''pre-frame'' then dc_cost d else Fin 0)"
    and "xs_avoided_cost_ms (execution_step d) = (if dc_status d = lit ''dropped'' then dc_cost d else Fin 0)"
    and "xs_deferred_cost_ms (execution_step d) = (if dc_status d = lit ''deferred'' then dc_cost d else Fin 0)"
    and "xs_memory_relief_mb (execution_step d) = (if dc_phase d = lit ''memory'' then dc_value d else Fin 0)"
    and "xs_outcome (execution_step d) = (if dc_phase d = lit ''setup'' then lit ''ignored''
      else if dc_phase d \<in> {lit ''pre-frame'', lit ''memory''} then lit ''scheduled''
      else if dc_status d = lit ''deferred'' then lit ''deferred'' else lit ''applied'')"
    and "xs_command (execution_step d) = lit ''drop_operation'' \<longleftrightarrow> dc_status d = lit ''dropped''"
    and "xs_outcome (execution_step d) = lit ''deferred'' \<longleftrightarrow> dc_status d = lit ''deferred''"
  using assms by (auto simp: dispatch_kinds_def execution_step_table execution_step_of_def)

lemma sum_booked:
  assumes "\<And>d. d \<in> set ds \<Longrightarrow> g (execution_step d) = (if p d then f d else Fin 0)"
  shows "sum_step_value g (map execution_step ds) = fsum_if p f ds"
proof -
  have "map (g \<circ> execution_step) ds = map (\<lambda>d. if p d then f d else Fin 0) ds" using assms by simp
  then show ?thesis by (simp only: sum_step_value_def map_map fsum_zeros)
qed

lemma execution_sums:
  assumes "\<And>d. d \<in> set ds \<Longrightarrow> (dc_phase d, dc_command d, dc_status d) \<in> dispatch_kinds"
  shows "sum_step_value xs_current_frame_cost_ms (map execution_step ds) = fsum_if (\<lambda>d. dc_phase d = lit ''hot-path'') dc_cost ds"
    and "sum_step_value xs_pre_frame_cost_ms (map execution_step ds) = fsum_if (\<lambda>d. dc_phase d = lit ''pre-frame'') dc_cost ds"
    and "sum_step_value xs_avoided_cost_ms (map execution_step ds) = fsum_if (\<lambda>d. dc_status d = lit ''dropped'') dc_cost ds"
    and "sum_step_value xs_deferred_cost_ms (map execution_step ds) = fsum_if (\<lambda>d. dc_status d = lit ''deferred'') dc_cost ds"
    and "sum_step_value xs_memory_relief_mb (map execution_step ds) = fsum_if (\<lambda>d. dc_phase d = lit ''memory'') dc_value ds"
  by (rule sum_booked, simp add: execution_step_booked [OF assms])+

lemma count_booked:
  assumes "\<And>d. d \<in> set ds \<Longrightarrow> q (execution_step d) \<longleftrightarrow> p d"
  shows "count_if q (map execution_step ds) = count_if p ds"
  using assms by (induction ds) (auto simp: count_if_def)

lemma count_four:
  assumes "\<forall>x \<in> set xs. f x \<in> {a, b, c, d}" and "distinct [a, b, c, d]"
  shows "count_if (\<lambda>x. f x = a) xs + count_if (\<lambda>x. f x = b) xs + count_if (\<lambda>x. f x = c) xs
    + count_if (\<lambda>x. f x = d) xs = length xs"
  using assms by (induction xs) (auto simp: count_if_def)

text \<open>The simulated execution of a dispatch plan books the cost of every dispatched operation under exactly one heading:
  the hot path's as current-frame cost, the pre-frame work's as pre-frame cost, the dropped operations' as avoided, the
  deferred operations' as deferred, and the memory actions' value as memory relief; the counts agree with the plan's. The
  one exception is setup work, whose steps have the outcome ignored and book nothing.\<close>

theorem execution_books_plan:
  "let p = pipeline t env; r = execute_dispatch_plan p in
     xr_step_count r = dp_command_count p \<and> xr_removed_count r = dp_dropped p \<and> xr_deferred_count r = dp_deferred p
     \<and> xr_applied_count r + xr_scheduled_count r + xr_deferred_count r + dp_setup p = xr_step_count r
     \<and> xr_current_frame_cost_ms r = fsum_if (\<lambda>d. dc_phase d = lit ''hot-path'') dc_cost (dp_commands p)
     \<and> xr_pre_frame_cost_ms r = fsum_if (\<lambda>d. dc_phase d = lit ''pre-frame'') dc_cost (dp_commands p)
     \<and> xr_avoided_cost_ms r = fsum_if (\<lambda>d. dc_status d = lit ''dropped'') dc_cost (dp_commands p)
     \<and> xr_deferred_cost_ms r = fsum_if (\<lambda>d. dc_status d = lit ''deferred'') dc_cost (dp_commands p)
     \<and> xr_memory_relief_mb r = dp_pressure p"
proof -
  let ?p = "pipeline t env" and ?ds = "dp_commands (pipeline t env)"
  note k = execution_step_booked [OF pipeline_kind]
  have plan: "dp_command_count ?p = length ?ds" "dp_dropped ?p = count_if (\<lambda>d. dc_status d = lit ''dropped'') ?ds"
    "dp_deferred ?p = count_if (\<lambda>d. dc_status d = lit ''deferred'') ?ds" "dp_setup ?p = count_if (\<lambda>d. dc_phase d = lit ''setup'') ?ds"
    "dp_pressure ?p = fsum_if (\<lambda>d. dc_phase d = lit ''memory'') dc_value ?ds"
    by (simp_all add: pipeline_def build_dispatch_plan_def Let_def count_phase_def)
  have deferred: "count_outcome (map execution_step ?ds) ''deferred'' = dp_deferred ?p"
    unfolding plan count_outcome_def by (rule count_booked) (rule k(8))
  have removed: "count_command (map execution_step ?ds) ''drop_operation'' = dp_dropped ?p"
    unfolding plan count_command_def by (rule count_booked) (rule k(7))
  have all: "count_outcome (map execution_step ?ds) ''applied'' + count_outcome (map execution_step ?ds) ''scheduled''
      + count_outcome (map execution_step ?ds) ''deferred'' + dp_setup ?p = length ?ds"
  proof -
    have "count_if (\<lambda>s. xs_outcome s = lit ''ignored'') (map execution_step ?ds) = dp_setup ?p"
      unfolding plan by (rule count_booked) (use k(6) in simp)
    moreover have "count_outcome (map execution_step ?ds) ''applied'' + count_outcome (map execution_step ?ds) ''scheduled''
        + count_outcome (map execution_step ?ds) ''deferred''
        + count_if (\<lambda>s. xs_outcome s = lit ''ignored'') (map execution_step ?ds) = length (map execution_step ?ds)"
      unfolding count_outcome_def
    proof (rule count_four)
      show "\<forall>s \<in> set (map execution_step ?ds). xs_outcome s \<in> {lit ''applied'', lit ''scheduled'', lit ''deferred'', lit ''ignored''}"
        using k(6) by simp
    qed simp
    ultimately show ?thesis by simp
  qed
  show ?thesis
    using deferred removed all
    by (simp add: execute_dispatch_plan_def Let_def plan(1,5) execution_sums [OF pipeline_kind])
qed

end
