(* ===== verification/Runtime_Calibration.thy ===== *)
theory Runtime_Calibration
  imports Dispatch_Execution Py_Float_Ops
begin

text \<open>
  Calibration (\<^verbatim>\<open>src/fluidgateway/calibration.py\<close>): the observed cost of each frame against what the
  simulated dispatch leaves in it, and the guard band kept for the next frame. A frame is the
  adapter's statistics object (\<^verbatim>\<open>AdapterFrameStats\<close> in \<^verbatim>\<open>adapter.py\<close>) or a dictionary.
\<close>

section \<open>Frame statistics\<close>

record frame_stats =
  as_frame :: int
  as_target_frame_ms :: pyfloat
  as_begin_event_index :: "int option"
  as_end_event_index :: "int option"
  as_operation_count :: nat
  as_decision_count :: nat
  as_policy_action_count :: nat
  as_policy_action_ids :: "pystr list option"
  as_estimated_total_cost_ms :: pyfloat
  as_estimated_saved_ms :: pyfloat
  as_estimated_saved_mb :: pyfloat
  as_transfer_mb :: pyfloat
  as_queue_costs :: "(pystr \<times> pyfloat) list option"

definition new_frame_stats :: "int \<Rightarrow> frame_stats" where
  "new_frame_stats frame =
    \<lparr>as_frame = frame, as_target_frame_ms = default_frame_budget, as_begin_event_index = None, as_end_event_index = None,
     as_operation_count = 0, as_decision_count = 0, as_policy_action_count = 0, as_policy_action_ids = None,
     as_estimated_total_cost_ms = Fin 0, as_estimated_saved_ms = Fin 0, as_estimated_saved_mb = Fin 0, as_transfer_mb = Fin 0,
     as_queue_costs = None\<rparr>"

text \<open>\<^verbatim>\<open>x or []\<close>, \<^verbatim>\<open>x or {}\<close>.\<close>

definition list_or_empty :: "'a list option \<Rightarrow> 'a list" where
  "list_or_empty x = (case x of None \<Rightarrow> [] | Some xs \<Rightarrow> xs)"

definition frame_stats_to_dict :: "frame_stats \<Rightarrow> pyval" where
  "frame_stats_to_dict s = PDict
    [(lit ''frame'', PInt (as_frame s)), (lit ''target_frame_ms'', round4 (as_target_frame_ms s)),
     (lit ''begin_event_index'', opt_int (as_begin_event_index s)), (lit ''end_event_index'', opt_int (as_end_event_index s)),
     (lit ''operation_count'', PInt (int (as_operation_count s))), (lit ''decision_count'', PInt (int (as_decision_count s))),
     (lit ''policy_action_count'', PInt (int (as_policy_action_count s))),
     (lit ''policy_action_ids'', str_list (list_or_empty (as_policy_action_ids s))),
     (lit ''estimated_total_cost_ms'', round4 (as_estimated_total_cost_ms s)),
     (lit ''estimated_saved_ms'', round4 (as_estimated_saved_ms s)), (lit ''estimated_saved_mb'', round4 (as_estimated_saved_mb s)),
     (lit ''transfer_mb'', round4 (as_transfer_mb s)),
     (lit ''queue_costs'', PDict (map (\<lambda>(q, c). (q, round4 c)) (sort_key fst (list_or_empty (as_queue_costs s)))))]"

datatype frame_source = StatsFrame frame_stats | DictFrame pydict

text \<open>\<^verbatim>\<open>read_field\<close> for the three fields the calibration reads.\<close>

definition read_field :: "frame_source \<Rightarrow> string \<Rightarrow> pyval \<Rightarrow> pyval" where
  "read_field f field d = (case f of
     DictFrame e \<Rightarrow> dget_or e field d
   | StatsFrame s \<Rightarrow> (if field = ''frame'' then PInt (as_frame s)
       else if field = ''target_frame_ms'' then PFloat (as_target_frame_ms s)
       else if field = ''estimated_total_cost_ms'' then PFloat (as_estimated_total_cost_ms s)
       else d))"

section \<open>Calibration\<close>

record frame_calibration =
  fc_frame :: int
  fc_target_frame_ms :: pyfloat
  fc_observed_frame_cost_ms :: pyfloat
  fc_planned_current_frame_cost_ms :: pyfloat
  fc_planned_pre_frame_cost_ms :: pyfloat
  fc_planned_deferred_cost_ms :: pyfloat
  fc_planned_avoided_cost_ms :: pyfloat
  fc_planned_frame_relief_ms :: pyfloat
  fc_guardband_ms :: pyfloat
  fc_recommended_next_frame_budget_ms :: pyfloat
  fc_observed_pressure_status :: pystr
  fc_planned_pressure_status :: pystr
  fc_action :: pystr
  fc_confidence :: pystr

definition frame_calibration_to_dict :: "frame_calibration \<Rightarrow> pyval" where
  "frame_calibration_to_dict x = PDict
    [(lit ''frame'', PInt (fc_frame x)), (lit ''target_frame_ms'', round4 (fc_target_frame_ms x)),
     (lit ''observed_frame_cost_ms'', round4 (fc_observed_frame_cost_ms x)),
     (lit ''planned_current_frame_cost_ms'', round4 (fc_planned_current_frame_cost_ms x)),
     (lit ''planned_pre_frame_cost_ms'', round4 (fc_planned_pre_frame_cost_ms x)),
     (lit ''planned_deferred_cost_ms'', round4 (fc_planned_deferred_cost_ms x)),
     (lit ''planned_avoided_cost_ms'', round4 (fc_planned_avoided_cost_ms x)),
     (lit ''planned_frame_relief_ms'', round4 (fc_planned_frame_relief_ms x)),
     (lit ''guardband_ms'', round4 (fc_guardband_ms x)),
     (lit ''recommended_next_frame_budget_ms'', round4 (fc_recommended_next_frame_budget_ms x)),
     (lit ''observed_pressure_status'', PStr (fc_observed_pressure_status x)),
     (lit ''planned_pressure_status'', PStr (fc_planned_pressure_status x)), (lit ''action'', PStr (fc_action x)),
     (lit ''confidence'', PStr (fc_confidence x))]"

record calibration_report =
  cb_mode :: pystr
  cb_frame_count :: nat
  cb_over_budget_observed_count :: nat
  cb_over_budget_planned_count :: nat
  cb_total_observed_frame_cost_ms :: pyfloat
  cb_total_planned_current_frame_cost_ms :: pyfloat
  cb_total_planned_frame_relief_ms :: pyfloat
  cb_total_pre_frame_cost_ms :: pyfloat
  cb_total_deferred_cost_ms :: pyfloat
  cb_total_avoided_cost_ms :: pyfloat
  cb_total_memory_relief_mb :: pyfloat
  cb_max_guardband_ms :: pyfloat
  cb_recommended_next_frame_budget_ms :: pyfloat
  cb_action_count :: nat
  cb_frames :: "frame_calibration list"

definition calibration_report_to_dict :: "calibration_report \<Rightarrow> pyval" where
  "calibration_report_to_dict x = PDict
    [(lit ''mode'', PStr (cb_mode x)), (lit ''frame_count'', PInt (int (cb_frame_count x))),
     (lit ''over_budget_observed_count'', PInt (int (cb_over_budget_observed_count x))),
     (lit ''over_budget_planned_count'', PInt (int (cb_over_budget_planned_count x))),
     (lit ''total_observed_frame_cost_ms'', round4 (cb_total_observed_frame_cost_ms x)),
     (lit ''total_planned_current_frame_cost_ms'', round4 (cb_total_planned_current_frame_cost_ms x)),
     (lit ''total_planned_frame_relief_ms'', round4 (cb_total_planned_frame_relief_ms x)),
     (lit ''total_pre_frame_cost_ms'', round4 (cb_total_pre_frame_cost_ms x)),
     (lit ''total_deferred_cost_ms'', round4 (cb_total_deferred_cost_ms x)),
     (lit ''total_avoided_cost_ms'', round4 (cb_total_avoided_cost_ms x)),
     (lit ''total_memory_relief_mb'', round4 (cb_total_memory_relief_mb x)),
     (lit ''max_guardband_ms'', round4 (cb_max_guardband_ms x)),
     (lit ''recommended_next_frame_budget_ms'', round4 (cb_recommended_next_frame_budget_ms x)),
     (lit ''action_count'', PInt (int (cb_action_count x))),
     (lit ''frames'', PList (map frame_calibration_to_dict (cb_frames x)))]"

definition pressure_status :: "pyfloat \<Rightarrow> pyfloat \<Rightarrow> pystr" where
  "pressure_status cost target = (if fless target cost then lit ''over-budget'' else lit ''within-budget'')"

definition next_guardband :: "pyfloat \<Rightarrow> pyfloat \<Rightarrow> pyfloat \<Rightarrow> pyfloat" where
  "next_guardband observed target relief =
    (if fle observed target then Fin 0
     else fmin (fmul target (Fin (1 / 4))) (fmax (Fin (1 / 2)) (fmul relief (Fin (1 / 4)))))"

definition calibration_action :: "pystr \<Rightarrow> pystr \<Rightarrow> pyfloat \<Rightarrow> pystr" where
  "calibration_action observed planned relief =
    (if planned = lit ''over-budget'' then lit ''tighten-dispatch-guardband''
     else if observed = lit ''over-budget'' then lit ''apply-dispatch-before-next-frame''
     else if fless (Fin 0) relief then lit ''preserve-dispatch-shape''
     else lit ''monitor'')"

definition calibrate_read :: "execution_report \<Rightarrow> int \<Rightarrow> pyfloat \<Rightarrow> pyfloat \<Rightarrow> frame_calibration" where
  "calibrate_read r frame target observed =
    (let steps = filter (\<lambda>s. xs_frame s = Some frame) (xr_steps r);
         current = fsum (map xs_current_frame_cost_ms steps);
         relief = fmax (Fin 0) (fsub observed current);
         observed_status = pressure_status observed target; planned_status = pressure_status current target;
         guardband = next_guardband observed target relief
     in \<lparr>fc_frame = frame, fc_target_frame_ms = target, fc_observed_frame_cost_ms = observed,
       fc_planned_current_frame_cost_ms = current, fc_planned_pre_frame_cost_ms = fsum (map xs_pre_frame_cost_ms steps),
       fc_planned_deferred_cost_ms = fsum (map xs_deferred_cost_ms steps),
       fc_planned_avoided_cost_ms = fsum (map xs_avoided_cost_ms steps), fc_planned_frame_relief_ms = relief,
       fc_guardband_ms = guardband, fc_recommended_next_frame_budget_ms = fmax (Fin 0) (fsub target guardband),
       fc_observed_pressure_status = observed_status, fc_planned_pressure_status = planned_status,
       fc_action = calibration_action observed_status planned_status relief,
       fc_confidence = (if steps \<noteq> [] then lit ''medium'' else lit ''low'')\<rparr>)"

definition calibrate_frame :: "execution_report \<Rightarrow> frame_source \<Rightarrow> frame_calibration res" where
  "calibrate_frame r f =
    ebind (py_int (read_field f ''frame'' (PInt 0))) (\<lambda>frame.
    ebind (py_float (read_field f ''target_frame_ms'' (PFloat default_frame_budget))) (\<lambda>target.
    ebind (py_float (read_field f ''estimated_total_cost_ms'' (PFloat (Fin 0)))) (\<lambda>observed.
    Inr (calibrate_read r frame target observed))))"

definition calibration_of :: "execution_report \<Rightarrow> frame_calibration list \<Rightarrow> calibration_report" where
  "calibration_of r fs =
    \<lparr>cb_mode = lit ''runtime-calibration-report-v0.32'', cb_frame_count = length fs,
     cb_over_budget_observed_count = count_if (\<lambda>f. fc_observed_pressure_status f = lit ''over-budget'') fs,
     cb_over_budget_planned_count = count_if (\<lambda>f. fc_planned_pressure_status f = lit ''over-budget'') fs,
     cb_total_observed_frame_cost_ms = fsum (map fc_observed_frame_cost_ms fs),
     cb_total_planned_current_frame_cost_ms = fsum (map fc_planned_current_frame_cost_ms fs),
     cb_total_planned_frame_relief_ms = fsum (map fc_planned_frame_relief_ms fs),
     cb_total_pre_frame_cost_ms = xr_pre_frame_cost_ms r, cb_total_deferred_cost_ms = xr_deferred_cost_ms r,
     cb_total_avoided_cost_ms = xr_avoided_cost_ms r, cb_total_memory_relief_mb = xr_memory_relief_mb r,
     cb_max_guardband_ms = fmax_list (Fin 0) (map fc_guardband_ms fs),
     cb_recommended_next_frame_budget_ms = fmin_list (Fin 0) (map fc_recommended_next_frame_budget_ms fs),
     cb_action_count = count_if (\<lambda>f. fc_action f \<noteq> lit ''monitor'') fs, cb_frames = fs\<rparr>"

definition build_runtime_calibration :: "execution_report \<Rightarrow> frame_source list \<Rightarrow> calibration_report res" where
  "build_runtime_calibration r frames = ebind (etraverse (calibrate_frame r) frames) (\<lambda>fs. Inr (calibration_of r fs))"

section \<open>Bounds\<close>

lemma calibrate_stats: "calibrate_frame r (StatsFrame s)
    = Inr (calibrate_read r (as_frame s) (as_target_frame_ms s) (as_estimated_total_cost_ms s))"
  by (simp add: calibrate_frame_def read_field_def py_int_def py_float_def)

lemma calibration_stats: "build_runtime_calibration r (map StatsFrame ss) = Inr (calibration_of r
    (map (\<lambda>s. calibrate_read r (as_frame s) (as_target_frame_ms s) (as_estimated_total_cost_ms s)) ss))"
proof -
  have "etraverse (calibrate_frame r) (map StatsFrame ss)
      = Inr (map (\<lambda>s. calibrate_read r (as_frame s) (as_target_frame_ms s) (as_estimated_total_cost_ms s)) ss)"
    by (induction ss) (simp_all add: calibrate_stats)
  then show ?thesis by (simp add: build_runtime_calibration_def)
qed

lemma guardband_budget:
  assumes "is_budget t"
  shows "is_budget (next_guardband x t (fmax (Fin 0) y))"
proof -
  let ?q = "fmul t (Fin (1 / 4))" and ?h = "fmax (Fin (1 / 2)) (fmul (fmax (Fin 0) y) (Fin (1 / 4)))"
  have q: "fnonneg ?q" "fle ?q t" using assms fmul_fnonneg [of t] fmul_fle [of t] by (auto simp: is_budget_def)
  have h: "fnonneg ?h" by (rule fmax_fnonneg) (simp add: fnonneg_def)
  have "fle (fmin ?q ?h) ?q" using fle_fmin fnonneg_not_NaN q(1) h by blast
  then have "fle (fmin ?q ?h) t" using q(2) fle_trans by blast
  moreover have "is_f64 (Fin (1 / 2))" by code_simp
  then have "is_f64 (fmin ?q ?h)" by (intro is_f64_fmin is_f64_fmax) simp_all
  ultimately have "is_budget (fmin ?q ?h)" using is_budget_fle [OF assms] fmin_fnonneg [OF q(1) h] by blast
  then show ?thesis by (simp add: next_guardband_def)
qed

text \<open>C34: Calibrating the adapter's frame statistics never fails, keeps the frames in order, and for finite targets recommends
  for every frame a budget that is not negative and not above the target; a frame observed within its target keeps the whole
  target, with no guard band; and the report's budget is one of the frames' and not above any of them.\<close>

theorem calibration_budgets:
  assumes "\<forall>s \<in> set ss. is_budget (as_target_frame_ms s)"
  shows "\<exists>c. build_runtime_calibration r (map StatsFrame ss) = Inr c \<and> map fc_frame (cb_frames c) = map as_frame ss
    \<and> (\<forall>f \<in> set (cb_frames c). is_budget (fc_recommended_next_frame_budget_ms f) \<and> is_budget (fc_guardband_ms f)
        \<and> fle (fc_recommended_next_frame_budget_ms f) (fc_target_frame_ms f)
        \<and> (fle (fc_observed_frame_cost_ms f) (fc_target_frame_ms f)
            \<longrightarrow> fc_guardband_ms f = Fin 0 \<and> fc_recommended_next_frame_budget_ms f = fc_target_frame_ms f)
        \<and> fle (cb_recommended_next_frame_budget_ms c) (fc_recommended_next_frame_budget_ms f))"
proof -
  let ?k = "\<lambda>s. calibrate_read r (as_frame s) (as_target_frame_ms s) (as_estimated_total_cost_ms s)"
  let ?c = "calibration_of r (map ?k ss)"
  have f: "is_budget (fc_recommended_next_frame_budget_ms f) \<and> is_budget (fc_guardband_ms f)
      \<and> fle (fc_recommended_next_frame_budget_ms f) (fc_target_frame_ms f)
      \<and> (fle (fc_observed_frame_cost_ms f) (fc_target_frame_ms f)
          \<longrightarrow> fc_guardband_ms f = Fin 0 \<and> fc_recommended_next_frame_budget_ms f = fc_target_frame_ms f)"
    if "f \<in> set (cb_frames ?c)" for f
  proof -
    from that obtain s where s: "s \<in> set ss" and f: "f = ?k s" by (auto simp: calibration_of_def)
    from s assms have t: "is_budget (as_target_frame_ms s)" by blast
    let ?g = "fc_guardband_ms f"
    have g: "is_budget ?g" using guardband_budget [OF t] by (simp add: f calibrate_read_def Let_def)
    have rec: "fc_recommended_next_frame_budget_ms f = fmax (Fin 0) (fsub (fc_target_frame_ms f) ?g)"
      and target: "fc_target_frame_ms f = as_target_frame_ms s" by (simp_all add: f calibrate_read_def Let_def)
    have "?g = Fin 0" if "fle (fc_observed_frame_cost_ms f) (fc_target_frame_ms f)"
      using that by (simp add: f calibrate_read_def Let_def next_guardband_def)
    moreover have "fmax (Fin 0) (fsub (fc_target_frame_ms f) (Fin 0)) = fc_target_frame_ms f"
      using t by (simp add: target fsub_zero fmax_zero_id is_budget_def)
    ultimately show ?thesis using g fmax_zero_sub [OF t g] by (auto simp: rec target)
  qed
  have "\<forall>f \<in> set (cb_frames ?c). fle (cb_recommended_next_frame_budget_ms ?c) (fc_recommended_next_frame_budget_ms f)"
  proof
    fix f assume mem: "f \<in> set (cb_frames ?c)"
    have "\<forall>x \<in> set (map fc_recommended_next_frame_budget_ms (cb_frames ?c)). x \<noteq> NaN" using f is_budget_not_NaN by auto
    from fmin_list_lower [OF this, of "Fin 0"] mem
    show "fle (cb_recommended_next_frame_budget_ms ?c) (fc_recommended_next_frame_budget_ms f)"
      by (auto simp: calibration_of_def)
  qed
  then show ?thesis
    using f by (intro exI [of _ ?c]) (simp add: calibration_stats, simp add: calibration_of_def calibrate_read_def Let_def)
qed

section \<open>Witness\<close>

definition demo_stats :: "frame_stats list" where
  "demo_stats = [(new_frame_stats 1)\<lparr>as_target_frame_ms := Fin 16\<rparr>,
     (new_frame_stats 2)\<lparr>as_target_frame_ms := Fin 16, as_estimated_total_cost_ms := Fin 20\<rparr>]"

definition demo_execution :: execution_report where
  "demo_execution = \<lparr>xr_mode = [], xr_profile = [], xr_next_frame_policy = [], xr_step_count = 0, xr_applied_count = 0,
     xr_scheduled_count = 0, xr_deferred_count = 0, xr_removed_count = 0, xr_memory_action_count = 0,
     xr_current_frame_cost_ms = Fin 0, xr_pre_frame_cost_ms = Fin 0, xr_avoided_cost_ms = Fin 0, xr_deferred_cost_ms = Fin 0,
     xr_memory_relief_mb = Fin 0, xr_steps = []\<rparr>"

definition demo_calibration :: calibration_report where
  "demo_calibration = calibration_of demo_execution
     (map (\<lambda>s. calibrate_read demo_execution (as_frame s) (as_target_frame_ms s) (as_estimated_total_cost_ms s)) demo_stats)"

lemma demo_calibration_frames:
  "map (\<lambda>f. (fc_frame f, fc_target_frame_ms f, fc_recommended_next_frame_budget_ms f)) (cb_frames demo_calibration)
    = [(1, Fin 16, Fin 16), (2, Fin 16, Fin 12)]"
proof -
  have "next_guardband (Fin 0) (Fin 16) (fmax (Fin 0) (fsub (Fin 0) (Fin 0))) = Fin 0"
    "next_guardband (Fin 20) (Fin 16) (fmax (Fin 0) (fsub (Fin 20) (Fin 0))) = Fin 4"
    "fmax (Fin 0) (fsub (Fin 16) (Fin 0)) = Fin 16" "fmax (Fin 0) (fsub (Fin 16) (Fin 4)) = Fin 12" by code_simp+
  then show ?thesis
    by (simp add: demo_calibration_def calibration_of_def calibrate_read_def demo_stats_def new_frame_stats_def demo_execution_def
      fsum_def Let_def)
qed

lemma demo_targets: "list_all (\<lambda>s. is_budget (as_target_frame_ms s)) demo_stats"
proof -
  have "is_budget (Fin 16)" by code_simp
  then show ?thesis by (simp add: demo_stats_def)
qed

theorem calibration_budgets_witness:
  "\<exists>c. build_runtime_calibration demo_execution (map StatsFrame demo_stats) = Inr c \<and> map fc_frame (cb_frames c) = map as_frame demo_stats
    \<and> list_all (\<lambda>f. fle (fc_recommended_next_frame_budget_ms f) (fc_target_frame_ms f)) (cb_frames c)"
  using calibration_budgets [of demo_stats demo_execution] demo_targets unfolding list_all_iff by blast

end
