(* ===== verification/Live_Policy.thy ===== *)
theory Live_Policy
  imports Event_Stream Runtime_Calibration
begin

text \<open>
  What a session does at every event: the live command of an operation (\<^verbatim>\<open>src/fluidgateway/live.py\<close>), the snapshot
  of the session (\<^verbatim>\<open>state.py\<close>), the policy engine with its budgets (\<^verbatim>\<open>policy.py\<close>), the governor
  that emits every directive once (\<^verbatim>\<open>governor.py\<close>) and the execution gate (\<^verbatim>\<open>gate.py\<close>).
\<close>

section \<open>Live command\<close>

record live_command =
  lc_mode :: pystr
  lc_action :: pystr
  lc_operation_id :: pystr
  lc_frame :: "int option"
  lc_queue :: pystr
  lc_resource_id :: "pystr option"
  lc_reason :: pystr
  lc_confidence :: pystr

definition live_command_to_dict :: "live_command \<Rightarrow> pyval" where
  "live_command_to_dict x = PDict
    [(lit ''mode'', PStr (lc_mode x)), (lit ''action'', PStr (lc_action x)), (lit ''operation_id'', PStr (lc_operation_id x)),
     (lit ''frame'', opt_int (lc_frame x)), (lit ''queue'', PStr (lc_queue x)),
     (lit ''resource_id'', opt_str (lc_resource_id x)), (lit ''reason'', PStr (lc_reason x)),
     (lit ''confidence'', PStr (lc_confidence x))]"

definition is_heavy_transfer :: "pyfloat \<Rightarrow> pyfloat \<Rightarrow> pyfloat \<Rightarrow> bool" where
  "is_heavy_transfer cost sz target \<longleftrightarrow> fle (fmax (Fin 1) (fmul target (to_f64 (1 / 5)))) cost \<or> fle (Fin 16) sz"

definition live_command_of :: "runtime_operation \<Rightarrow> string \<Rightarrow> pystr \<Rightarrow> string \<Rightarrow> live_command" where
  "live_command_of op action reason confidence =
    \<lparr>lc_mode = lit ''live-command-contract-v0.14'', lc_action = lit action, lc_operation_id = ro_id op, lc_frame = ro_frame op,
     lc_queue = ro_queue op, lc_resource_id = ro_target op, lc_reason = reason, lc_confidence = lit confidence\<rparr>"

definition build_live_command :: "controller_result \<Rightarrow> pyfloat \<Rightarrow> live_command" where
  "build_live_command r target =
    (let op = cr_operation r in
     case cr_decision r of
       Some d \<Rightarrow> live_command_of op (if rd_action d = lit ''reuse'' then ''reuse'' else ''defer'') (rd_rationale d) ''high''
     | None \<Rightarrow>
         if is_transfer op \<and> is_heavy_transfer (ro_cost op) (ro_size op) target
         then live_command_of op ''prefetch_now'' (lit ''Transfer is large enough to move before frame-critical work.'') ''medium''
         else live_command_of op ''execute_now'' (lit ''No earlier FluidGateway policy blocked this operation.'') ''medium'')"

section \<open>Snapshot\<close>

record live_snapshot =
  sn_mode :: pystr
  sn_session_id :: pystr
  sn_current_frame :: "int option"
  sn_open_frame :: bool
  sn_frames_observed :: nat
  sn_events_processed :: nat
  sn_operation_events :: nat
  sn_resource_events :: nat
  sn_active_resource_count :: nat
  sn_memory_totals_mb :: "(pystr \<times> pyfloat) list"
  sn_memory_budgets_mb :: "(pystr \<times> pyfloat) list"
  sn_queue_costs_ms :: "(pystr \<times> pyfloat) list"
  sn_decisions_count :: nat
  sn_policy_action_count :: nat
  sn_live_command_count :: nat
  sn_estimated_total_cost_ms_current_frame :: pyfloat
  sn_transfer_mb_current_frame :: pyfloat

text \<open>The values of a dictionary rounded, in the order of its keys.\<close>

definition rounded_map :: "(pystr \<times> pyfloat) list \<Rightarrow> pyval" where
  "rounded_map d = PDict (map (\<lambda>(k, v). (k, round4 v)) (sort_key fst d))"

definition live_snapshot_to_dict :: "live_snapshot \<Rightarrow> pyval" where
  "live_snapshot_to_dict s = PDict
    [(lit ''mode'', PStr (sn_mode s)), (lit ''session_id'', PStr (sn_session_id s)), (lit ''current_frame'', opt_int (sn_current_frame s)),
     (lit ''open_frame'', PBool (sn_open_frame s)), (lit ''frames_observed'', PInt (int (sn_frames_observed s))),
     (lit ''events_processed'', PInt (int (sn_events_processed s))), (lit ''operation_events'', PInt (int (sn_operation_events s))),
     (lit ''resource_events'', PInt (int (sn_resource_events s))),
     (lit ''active_resource_count'', PInt (int (sn_active_resource_count s))),
     (lit ''memory_totals_mb'', rounded_map (sn_memory_totals_mb s)), (lit ''memory_budgets_mb'', rounded_map (sn_memory_budgets_mb s)),
     (lit ''queue_costs_ms'', rounded_map (sn_queue_costs_ms s)), (lit ''decisions_count'', PInt (int (sn_decisions_count s))),
     (lit ''policy_action_count'', PInt (int (sn_policy_action_count s))),
     (lit ''live_command_count'', PInt (int (sn_live_command_count s))),
     (lit ''estimated_total_cost_ms_current_frame'', round4 (sn_estimated_total_cost_ms_current_frame s)),
     (lit ''transfer_mb_current_frame'', round4 (sn_transfer_mb_current_frame s))]"

text \<open>\<^verbatim>\<open>d[k] = d.get(k, 0.0) + x\<close>\<close>

definition add_at :: "'k \<Rightarrow> pyfloat \<Rightarrow> ('k \<times> pyfloat) list \<Rightarrow> ('k \<times> pyfloat) list" where
  "add_at k x d = alist_put k (fadd (case map_of d k of None \<Rightarrow> Fin 0 | Some y \<Rightarrow> y) x) d"

definition session_queue_costs :: "(int \<times> frame_stats) list \<Rightarrow> (pystr \<times> pyfloat) list" where
  "session_queue_costs frames =
    fold (\<lambda>(_, f) d. fold (\<lambda>(q, c). add_at q c) (list_or_empty (as_queue_costs f)) d) frames []"

text \<open>The arguments of the snapshot that only pass through it.\<close>

definition build_live_state_snapshot :: "pystr \<Rightarrow> int option \<Rightarrow> (int \<times> frame_stats) list \<Rightarrow> nat \<Rightarrow> (pystr \<times> pyfloat) list
    \<Rightarrow> (pystr \<times> pyfloat) list \<Rightarrow> nat \<Rightarrow> nat \<Rightarrow> nat \<Rightarrow> nat \<Rightarrow> nat \<Rightarrow> nat \<Rightarrow> live_snapshot" where
  "build_live_state_snapshot session current frames active totals budgets decisions events operations resources policies commands =
    (let stats = Option.bind current (map_of frames)
     in \<lparr>sn_mode = lit ''live-state-snapshot-v0.15'', sn_session_id = session, sn_current_frame = current,
       sn_open_frame = (current \<noteq> None), sn_frames_observed = length frames, sn_events_processed = events,
       sn_operation_events = operations, sn_resource_events = resources, sn_active_resource_count = active,
       sn_memory_totals_mb = totals, sn_memory_budgets_mb = budgets, sn_queue_costs_ms = session_queue_costs frames,
       sn_decisions_count = decisions, sn_policy_action_count = policies, sn_live_command_count = commands,
       sn_estimated_total_cost_ms_current_frame = (case stats of None \<Rightarrow> Fin 0 | Some f \<Rightarrow> as_estimated_total_cost_ms f),
       sn_transfer_mb_current_frame = (case stats of None \<Rightarrow> Fin 0 | Some f \<Rightarrow> as_transfer_mb f)\<rparr>)"

section \<open>Policy engine\<close>

record policy_evidence =
  pv_label :: pystr
  pv_value :: pystr
  pv_detail :: pystr

definition policy_evidence_to_dict :: "policy_evidence \<Rightarrow> pyval" where
  "policy_evidence_to_dict x = PDict
    [(lit ''label'', PStr (pv_label x)), (lit ''value'', PStr (pv_value x)), (lit ''detail'', PStr (pv_detail x))]"

record engine_action =
  pa_id :: pystr
  pa_title :: pystr
  pa_scope :: pystr
  pa_severity :: pystr
  pa_confidence :: pystr
  pa_frame :: "int option"
  pa_policy :: pystr
  pa_rationale :: pystr
  pa_recommendation :: pystr
  pa_evidence :: "policy_evidence list"

definition engine_action_to_dict :: "engine_action \<Rightarrow> pyval" where
  "engine_action_to_dict x = PDict
    [(lit ''id'', PStr (pa_id x)), (lit ''title'', PStr (pa_title x)), (lit ''scope'', PStr (pa_scope x)),
     (lit ''severity'', PStr (pa_severity x)), (lit ''confidence'', PStr (pa_confidence x)),
     (lit ''frame'', opt_int (pa_frame x)), (lit ''policy'', PStr (pa_policy x)), (lit ''rationale'', PStr (pa_rationale x)),
     (lit ''recommendation'', PStr (pa_recommendation x)),
     (lit ''evidence'', PList (map policy_evidence_to_dict (pa_evidence x)))]"

record policy_engine =
  pe_target_frame_ms :: pyfloat
  pe_memory_budgets_mb :: "(pystr \<times> pyfloat) list"
  pe_active_resources :: resources
  pe_memory_totals_mb :: "(pystr \<times> pyfloat) list"
  pe_actions :: "engine_action list"
  pe_emitted :: "(pystr \<times> int option \<times> pystr) set"

definition new_policy_engine :: policy_engine where
  "new_policy_engine = \<lparr>pe_target_frame_ms = default_frame_budget, pe_memory_budgets_mb = [], pe_active_resources = [],
     pe_memory_totals_mb = [], pe_actions = [], pe_emitted = {}\<rparr>"

definition number_value :: "pyval \<Rightarrow> pyfloat option" where
  "number_value v = (if v = PNone \<or> v = PStr [] then None
     else case nonnegative_number v ''budget'' of Inl _ \<Rightarrow> None | Inr x \<Rightarrow> Some x)"

fun first_number :: "pydict \<Rightarrow> string list \<Rightarrow> pyfloat option" where
  "first_number p [] = None"
| "first_number p (k # ks) = (case number_value (dget p k) of Some x \<Rightarrow> Some x | None \<Rightarrow> first_number p ks)"

definition budget_memories :: "string list" where
  "budget_memories = [''ram'', ''vram'', ''shared'', ''staging'', ''swapchain'']"

definition put_known :: "pystr \<Rightarrow> pyfloat option \<Rightarrow> (pystr \<times> pyfloat) list \<Rightarrow> (pystr \<times> pyfloat) list" where
  "put_known k x d = (case x of None \<Rightarrow> d | Some v \<Rightarrow> alist_put k v d)"

definition configure_engine :: "pydict \<Rightarrow> policy_engine \<Rightarrow> policy_engine" where
  "configure_engine p e =
    (let asked = first_number p [''target_frame_ms'', ''frame_budget_ms'', ''budget_ms''];
         (target, from_budgets) = (case dget p ''budgets'' of
             PDict b \<Rightarrow> (if asked = None \<or> asked = Some (Fin 0) then number_value (dget b ''frame_ms'') else asked,
               fold (\<lambda>m. put_known (lit m) (number_value (dget b (m @ ''_mb'')))) budget_memories (pe_memory_budgets_mb e))
           | _ \<Rightarrow> (asked, pe_memory_budgets_mb e))
     in e\<lparr>pe_target_frame_ms := (case target of None \<Rightarrow> pe_target_frame_ms e | Some x \<Rightarrow> x),
       pe_memory_budgets_mb :=
         fold (\<lambda>m. put_known (lit m) (first_number p [m @ ''_budget_mb'', m @ ''_mb''])) budget_memories from_budgets\<rparr>)"

definition frame_budget_from :: "pydict \<Rightarrow> policy_engine \<Rightarrow> pyfloat" where
  "frame_budget_from p e = (case first_number p [''target_frame_ms'', ''frame_budget_ms'', ''budget_ms''] of
     None \<Rightarrow> pe_target_frame_ms e | Some x \<Rightarrow> float_or x (pe_target_frame_ms e))"

definition memory_totals :: "resources \<Rightarrow> (pystr \<times> pyfloat) list" where
  "memory_totals rs = fold (\<lambda>(_, r). add_at (rs_memory r) (rs_size r)) rs []"

definition emit_once :: "engine_action \<Rightarrow> int option \<Rightarrow> pystr \<Rightarrow> policy_engine \<Rightarrow> engine_action list \<times> policy_engine" where
  "emit_once a frame key e =
    (let k = (pa_id a, frame, key)
     in if k \<in> pe_emitted e then ([], e)
        else ([a], e\<lparr>pe_emitted := insert k (pe_emitted e), pe_actions := pe_actions e @ [a]\<rparr>))"

definition evidence :: "string \<Rightarrow> pystr \<Rightarrow> pystr \<Rightarrow> policy_evidence" where
  "evidence label value detail = \<lparr>pv_label = lit label, pv_value = value, pv_detail = detail\<rparr>"

text \<open>\<^verbatim>\<open>m.upper()\<close>, of a memory that has a budget: one of the five names above.\<close>

definition upper_name :: "pystr \<Rightarrow> pystr" where
  "upper_name s = map (\<lambda>c. if 97 \<le> c \<and> c \<le> 122 then c - 32 else c) s"

definition in_ms :: "pyfloat \<Rightarrow> pystr" where "in_ms x = fixed4 x @ lit '' ms''"

definition in_mb :: "pyfloat \<Rightarrow> pystr" where "in_mb x = fixed4 x @ lit '' MB''"

definition memory_pressure_action :: "pystr \<Rightarrow> pyfloat \<Rightarrow> pyfloat \<Rightarrow> int option \<Rightarrow> engine_action" where
  "memory_pressure_action mem total_mb limit frame =
    \<lparr>pa_id = mem @ lit ''-budget-pressure'', pa_title = upper_name mem @ lit '' residency exceeds configured budget'',
     pa_scope = mem @ lit ''-residency'', pa_severity = (if fle (fmul limit (Fin (5 / 4))) total_mb then lit ''high'' else lit ''medium''),
     pa_confidence = lit ''medium'', pa_frame = frame, pa_policy = lit ''reduce-or-defer-resource-residency'',
     pa_rationale = lit ''Active resources in this memory layer exceed the budget declared by the adapter.'',
     pa_recommendation = lit ''Release transient resources earlier, avoid duplicate residency, or defer non-critical uploads.'',
     pa_evidence = [evidence ''Active residency'' (in_mb total_mb) (lit ''Total active resource size currently registered in '' @ mem @ lit ''.''),
       evidence ''Configured budget'' (in_mb limit) (lit ''Budget declared for '' @ mem @ lit ''.'')]\<rparr>"

definition check_memory_budget :: "pystr \<Rightarrow> int option \<Rightarrow> policy_engine \<Rightarrow> engine_action list \<times> policy_engine" where
  "check_memory_budget mem frame e = (case map_of (pe_memory_budgets_mb e) mem of
     None \<Rightarrow> ([], e)
   | Some limit \<Rightarrow>
       let t = (case map_of (pe_memory_totals_mb e) mem of None \<Rightarrow> Fin 0 | Some x \<Rightarrow> x)
       in if fle t limit then ([], e) else emit_once (memory_pressure_action mem t limit frame) frame mem e)"

definition engine_register :: "runtime_resource \<Rightarrow> int option \<Rightarrow> policy_engine \<Rightarrow> engine_action list \<times> policy_engine" where
  "engine_register r frame e =
    (let active = alist_put (rs_id r) r (pe_active_resources e)
     in check_memory_budget (rs_memory r) frame (e\<lparr>pe_active_resources := active, pe_memory_totals_mb := memory_totals active\<rparr>))"

definition engine_release :: "pystr \<Rightarrow> policy_engine \<Rightarrow> policy_engine" where
  "engine_release rid e =
    (let active = filter (\<lambda>(k, _). k \<noteq> rid) (pe_active_resources e)
     in e\<lparr>pe_active_resources := active, pe_memory_totals_mb := memory_totals active\<rparr>)"

definition late_upload_action :: "runtime_operation \<Rightarrow> int option \<Rightarrow> pyfloat \<Rightarrow> engine_action" where
  "late_upload_action op frame target =
    \<lparr>pa_id = lit ''late-upload-pressure'', pa_title = lit ''Late transfer pressure inside frame'', pa_scope = lit ''frame-transfer'',
     pa_severity = (if fle (fmul target (Fin (1 / 2))) (ro_cost op) then lit ''high'' else lit ''medium''),
     pa_confidence = lit ''medium'', pa_frame = frame, pa_policy = lit ''schedule-large-transfers-before-frame-critical-work'',
     pa_rationale = lit ''A copy/upload operation consumes a large slice of the current frame budget.'',
     pa_recommendation = lit ''Move predictable uploads earlier, keep hot resources resident, or split the transfer before draw-critical work.'',
     pa_evidence = [evidence ''Transfer cost'' (in_ms (ro_cost op)) (lit ''Measured cost submitted by the adapter for this operation.''),
       evidence ''Frame budget'' (in_ms target) (lit ''Target budget configured for the active frame/session.''),
       evidence ''Transfer size'' (in_mb (ro_size op)) (lit ''Amount of data moved by the operation.'')]\<rparr>"

definition engine_operation :: "controller_result \<Rightarrow> int option \<Rightarrow> pyfloat \<Rightarrow> policy_engine \<Rightarrow> engine_action list \<times> policy_engine" where
  "engine_operation r frame target e =
    (let op = cr_operation r in
     if \<not> cr_executed r \<or> \<not> is_transfer op \<or> fless (ro_cost op) (fmax (Fin 1) (fmul target (to_f64 (1 / 5)))) then ([], e)
     else emit_once (late_upload_action op frame target) frame (ro_id op) e)"

definition frame_pressure_action :: "int \<Rightarrow> pyfloat \<Rightarrow> pyfloat \<Rightarrow> engine_action" where
  "frame_pressure_action frame target cost =
    \<lparr>pa_id = lit ''frame-budget-pressure'', pa_title = lit ''Frame work exceeds target budget'', pa_scope = lit ''frame-budget'',
     pa_severity = (if fle (fmul target (Fin (3 / 2))) cost then lit ''high'' else lit ''medium''),
     pa_confidence = lit ''medium'', pa_frame = Some frame, pa_policy = lit ''budget-frame-work-before-execution'',
     pa_rationale = lit ''The submitted work for this frame is heavier than the configured frame budget.'',
     pa_recommendation = lit ''Defer non-critical uploads/compute, reduce queue depth, or move preparation to an earlier frame.'',
     pa_evidence = [evidence ''Estimated frame work'' (in_ms cost) (lit ''Sum of executed operation costs observed for the frame.''),
       evidence ''Target frame budget'' (in_ms target) (lit ''Configured frame budget.'')]\<rparr>"

definition queue_imbalance_action :: "int \<Rightarrow> pystr \<Rightarrow> pyfloat \<Rightarrow> engine_action" where
  "queue_imbalance_action frame queue cost =
    \<lparr>pa_id = lit ''queue-imbalance-pressure'', pa_title = lit ''One queue dominates the frame budget'', pa_scope = lit ''queue-budget'',
     pa_severity = lit ''medium'', pa_confidence = lit ''low'', pa_frame = Some frame, pa_policy = lit ''rebalance-frame-work-across-queues'',
     pa_rationale = lit ''One queue consumes most of the frame budget while other queues also receive work.'',
     pa_recommendation = lit ''Move independent work earlier or spread it across available queues when dependencies allow.'',
     pa_evidence = [evidence ''Busiest queue'' queue (lit ''Queue with the highest observed operation cost.''),
       evidence ''Busiest queue cost'' (in_ms cost) (lit ''Observed operation cost on the busiest queue.'')]\<rparr>"

text \<open>\<^verbatim>\<open>max(d.items(), key=lambda item: item[1])\<close>: the first of the largest.\<close>

definition busiest :: "'k \<times> pyfloat \<Rightarrow> ('k \<times> pyfloat) list \<Rightarrow> 'k \<times> pyfloat" where
  "busiest x xs = foldl (\<lambda>m y. if fless (snd m) (snd y) then y else m) x xs"

definition engine_finish_frame ::
    "int \<Rightarrow> pyfloat \<Rightarrow> pyfloat \<Rightarrow> (pystr \<times> pyfloat) list \<Rightarrow> policy_engine \<Rightarrow> engine_action list \<times> policy_engine" where
  "engine_finish_frame frame target cost queues e =
    (let (as1, e1) = (if fless target cost then emit_once (frame_pressure_action frame target cost) (Some frame) (lit ''frame-budget'') e
           else ([], e));
         (as2, e2) = (case queues of
             [] \<Rightarrow> ([], e1)
           | x # xs \<Rightarrow> (case busiest x xs of (queue, ms) \<Rightarrow>
               if fless (fmul target (Fin (3 / 4))) ms \<and> 1 < length queues
               then emit_once (queue_imbalance_action frame queue ms) (Some frame) queue e1 else ([], e1)))
     in (as1 @ as2, e2))"

section \<open>Governor\<close>

record governor_evidence =
  gv_label :: pystr
  gv_value :: pystr
  gv_detail :: pystr

definition governor_evidence_to_dict :: "governor_evidence \<Rightarrow> pyval" where
  "governor_evidence_to_dict x = PDict
    [(lit ''label'', PStr (gv_label x)), (lit ''value'', PStr (gv_value x)), (lit ''detail'', PStr (gv_detail x))]"

record governor_directive =
  gw_mode :: pystr
  gw_action :: pystr
  gw_priority :: int
  gw_frame :: "int option"
  gw_queue :: pystr
  gw_operation_id :: "pystr option"
  gw_resource_id :: "pystr option"
  gw_reason :: pystr
  gw_expected_effect :: pystr
  gw_evidence :: "governor_evidence list"

definition governor_directive_to_dict :: "governor_directive \<Rightarrow> pyval" where
  "governor_directive_to_dict x = PDict
    [(lit ''mode'', PStr (gw_mode x)), (lit ''action'', PStr (gw_action x)), (lit ''priority'', PInt (gw_priority x)),
     (lit ''frame'', opt_int (gw_frame x)), (lit ''queue'', PStr (gw_queue x)),
     (lit ''operation_id'', opt_str (gw_operation_id x)), (lit ''resource_id'', opt_str (gw_resource_id x)),
     (lit ''reason'', PStr (gw_reason x)), (lit ''expected_effect'', PStr (gw_expected_effect x)),
     (lit ''evidence'', PList (map governor_evidence_to_dict (gw_evidence x)))]"

definition governed :: "string \<Rightarrow> pystr \<Rightarrow> pystr \<Rightarrow> governor_evidence" where
  "governed label value detail = \<lparr>gv_label = lit label, gv_value = value, gv_detail = detail\<rparr>"

definition governor_directive_of :: "string \<Rightarrow> int \<Rightarrow> int option \<Rightarrow> pystr \<Rightarrow> pystr option \<Rightarrow> pystr option \<Rightarrow> pystr \<Rightarrow> string
    \<Rightarrow> governor_evidence list \<Rightarrow> governor_directive" where
  "governor_directive_of action priority frame queue op res reason effect ev =
    \<lparr>gw_mode = lit ''live-policy-loop-v0.16'', gw_action = lit action, gw_priority = priority, gw_frame = frame, gw_queue = queue,
     gw_operation_id = op, gw_resource_id = res, gw_reason = reason, gw_expected_effect = lit effect, gw_evidence = ev\<rparr>"

definition prefetch_directive :: "live_snapshot \<Rightarrow> live_command option \<Rightarrow> governor_directive list" where
  "prefetch_directive s c = (case c of
     None \<Rightarrow> []
   | Some l \<Rightarrow>
       if sn_open_frame s \<and> lc_action l = lit ''prefetch_now'' then
         [governor_directive_of ''prefetch-before-critical-path'' 90 (lc_frame l) (lc_queue l) (Some (lc_operation_id l)) (lc_resource_id l)
            (lit ''A streamed operation was classified as prefetchable while the frame is open.'')
            ''Move predictable transfer work away from draw-critical frame time.''
            [governed ''Live command'' (lc_action l) (lit ''Immediate command emitted for this operation.''),
             governed ''Current frame work'' (in_ms (sn_estimated_total_cost_ms_current_frame s))
               (lit ''Accumulated executed work in the open frame.'')]]
       else [])"

definition copy_queue_directive :: "live_snapshot \<Rightarrow> pyfloat \<Rightarrow> live_command option \<Rightarrow> governor_directive list" where
  "copy_queue_directive s target c =
    (let ms = (case map_of (sn_queue_costs_ms s) (lit ''copy'') of None \<Rightarrow> Fin 0 | Some x \<Rightarrow> x) in
     if sn_open_frame s \<and> fle (fmax (Fin 1) (fmul target (Fin (1 / 4)))) ms then
       [governor_directive_of ''drain-copy-queue-before-draw'' 85 (sn_current_frame s) (lit ''copy'') (map_option lc_operation_id c)
          (Option.bind c lc_resource_id) (lit ''Copy queue work is already a large slice of the active frame budget.'')
          ''Schedule remaining transfers earlier or outside the frame-critical section.''
          [governed ''Copy queue cost'' (in_ms ms) (lit ''Accumulated copy queue work observed for the session.''),
           governed ''Target frame budget'' (in_ms target) (lit ''Current budget used by the live policy loop.'')]]
     else [])"

definition frame_budget_directive :: "live_snapshot \<Rightarrow> pyfloat \<Rightarrow> live_command option \<Rightarrow> governor_directive list" where
  "frame_budget_directive s target c =
    (let ms = sn_estimated_total_cost_ms_current_frame s in
     if sn_open_frame s \<and> fle (fmul target (to_f64 (9 / 10))) ms then
       [governor_directive_of ''protect-frame-budget'' 80 (sn_current_frame s) (lit ''frame'') (map_option lc_operation_id c)
          (Option.bind c lc_resource_id) (lit ''The open frame is close to exhausting its configured budget.'')
          ''Defer non-critical uploads, syncs, and allocations until the frame is safe.''
          [governed ''Current frame work'' (in_ms ms) (lit ''Accumulated executed work in the open frame.''),
           governed ''Target frame budget'' (in_ms target) (lit ''Current budget used by the live policy loop.'')]]
     else [])"

definition residency_directive :: "live_snapshot \<Rightarrow> (pystr \<times> pyfloat) list \<Rightarrow> pystr \<times> pyfloat \<Rightarrow> governor_directive list" where
  "residency_directive s budgets m = (case m of (mem, total_mb) \<Rightarrow>
     (case map_of budgets mem of
        None \<Rightarrow> []
      | Some limit \<Rightarrow>
          if fle total_mb limit then [] else
          [governor_directive_of ''reduce-memory-residency'' 88 (sn_current_frame s) (lit ''memory'') None (Some mem)
             (lit ''Active '' @ upper_name mem @ lit '' residency exceeds the declared budget.'')
             ''Release transient resources earlier or avoid duplicate residency.''
             [governed ''Active residency'' (in_mb total_mb) (lit ''Current active resources registered in '' @ mem @ lit ''.''),
              governed ''Memory budget'' (in_mb limit) (lit ''Configured budget for '' @ mem @ lit ''.'')]]))"

type_synonym emitted_keys = "(pystr \<times> int option \<times> pystr) set"

definition directive_key :: "governor_directive \<Rightarrow> pystr \<times> int option \<times> pystr" where
  "directive_key d = (gw_action d, gw_frame d,
     if gw_action d = lit ''prefetch-before-critical-path'' then text_or (gw_operation_id d) (text_or (gw_resource_id d) (gw_queue d))
     else if gw_action d = lit ''reduce-memory-residency'' then text_or (gw_resource_id d) (gw_queue d)
     else gw_queue d)"

text \<open>The directives not emitted before, in order; each one emitted is remembered.\<close>

fun mark_emitted :: "governor_directive list \<Rightarrow> emitted_keys \<Rightarrow> governor_directive list \<times> emitted_keys" where
  "mark_emitted [] e = ([], e)"
| "mark_emitted (d # ds) e =
    (if directive_key d \<in> e then mark_emitted ds e
     else (case mark_emitted ds (insert (directive_key d) e) of (r, e1) \<Rightarrow> (d # r, e1)))"

definition governor_evaluate :: "live_snapshot \<Rightarrow> pyfloat option \<Rightarrow> (pystr \<times> pyfloat) list \<Rightarrow> live_command option \<Rightarrow> emitted_keys
    \<Rightarrow> governor_directive list \<times> emitted_keys" where
  "governor_evaluate s target budgets c e =
    (let t = (case target of None \<Rightarrow> default_frame_budget | Some x \<Rightarrow> float_or x default_frame_budget)
     in mark_emitted (prefetch_directive s c @ copy_queue_directive s t c @ frame_budget_directive s t c
          @ concat (map (residency_directive s budgets) (sn_memory_totals_mb s))) e)"

section \<open>Execution gate\<close>

record gate_evidence =
  gx_label :: pystr
  gx_value :: pystr
  gx_detail :: pystr

definition gate_evidence_to_dict :: "gate_evidence \<Rightarrow> pyval" where
  "gate_evidence_to_dict x = PDict
    [(lit ''label'', PStr (gx_label x)), (lit ''value'', PStr (gx_value x)), (lit ''detail'', PStr (gx_detail x))]"

record execution_gate =
  gn_mode :: pystr
  gn_action :: pystr
  gn_operation_id :: pystr
  gn_frame :: "int option"
  gn_queue :: pystr
  gn_resource_id :: "pystr option"
  gn_should_execute :: bool
  gn_preferred_phase :: pystr
  gn_reason :: pystr
  gn_expected_effect :: pystr
  gn_source_directives :: "pystr list"
  gn_evidence :: "gate_evidence list"

definition execution_gate_to_dict :: "execution_gate \<Rightarrow> pyval" where
  "execution_gate_to_dict x = PDict
    [(lit ''mode'', PStr (gn_mode x)), (lit ''action'', PStr (gn_action x)), (lit ''operation_id'', PStr (gn_operation_id x)),
     (lit ''frame'', opt_int (gn_frame x)), (lit ''queue'', PStr (gn_queue x)),
     (lit ''resource_id'', opt_str (gn_resource_id x)), (lit ''should_execute'', PBool (gn_should_execute x)),
     (lit ''preferred_phase'', PStr (gn_preferred_phase x)), (lit ''reason'', PStr (gn_reason x)),
     (lit ''expected_effect'', PStr (gn_expected_effect x)), (lit ''source_directives'', str_list (gn_source_directives x)),
     (lit ''evidence'', PList (map gate_evidence_to_dict (gn_evidence x)))]"

definition critical_types :: "pystr set" where
  "critical_types = {lit ''draw'', lit ''compute'', lit ''present''}"

definition should_hold_noncritical_work :: "pystr \<Rightarrow> live_snapshot \<Rightarrow> pyfloat \<Rightarrow> bool" where
  "should_hold_noncritical_work ty s target \<longleftrightarrow>
    ty \<notin> critical_types \<and> sn_open_frame s \<and> fle (fmul target (to_f64 (9 / 10))) (sn_estimated_total_cost_ms_current_frame s)"

definition execution_gate_of :: "string \<Rightarrow> runtime_operation \<Rightarrow> bool \<Rightarrow> string \<Rightarrow> string \<Rightarrow> string \<Rightarrow> pystr list \<Rightarrow> gate_evidence list
    \<Rightarrow> execution_gate" where
  "execution_gate_of action op execute phase reason effect directives ev =
    \<lparr>gn_mode = lit ''adaptive-execution-gate-v0.17'', gn_action = lit action, gn_operation_id = ro_id op, gn_frame = ro_frame op,
     gn_queue = ro_queue op, gn_resource_id = ro_target op, gn_should_execute = execute, gn_preferred_phase = lit phase,
     gn_reason = lit reason, gn_expected_effect = lit effect, gn_source_directives = directives, gn_evidence = ev\<rparr>"

definition build_execution_gate ::
    "controller_result \<Rightarrow> live_command \<Rightarrow> governor_directive list \<Rightarrow> live_snapshot \<Rightarrow> pyfloat \<Rightarrow> execution_gate" where
  "build_execution_gate r c ds s target =
    (let op = cr_operation r; acts = map gw_action ds;
         ev = [\<lparr>gx_label = lit ''Live command'', gx_value = lc_action c, gx_detail = lit ''Immediate command produced for this operation.''\<rparr>,
           \<lparr>gx_label = lit ''Current frame work'', gx_value = in_ms (sn_estimated_total_cost_ms_current_frame s),
             gx_detail = lit ''Accumulated executed work in the open frame when the gate was evaluated.''\<rparr>,
           \<lparr>gx_label = lit ''Target frame budget'', gx_value = in_ms target,
             gx_detail = lit ''Frame budget used by the adaptive execution gate.''\<rparr>]
     in if lc_action c = lit ''reuse'' then
          execution_gate_of ''reuse_existing_resource'' op False ''reuse''
            ''The control plane found an existing resource or allocation to reuse.''
            ''Avoid redundant buffer allocation or transfer work.'' acts ev
        else if lc_action c = lit ''defer'' then
          execution_gate_of ''defer_redundant_work'' op False ''deferred''
            ''The control plane classified this operation as redundant or removable.''
            ''Prevent unnecessary CPU/GPU/RAM/VRAM movement from reaching the frame path.'' acts ev
        else if should_hold_noncritical_work (ro_type op) s target then
          execution_gate_of ''hold_noncritical_work'' op False ''next-frame''
            ''The frame is near budget and this operation is not frame-critical.''
            ''Keep late uploads, syncs, and allocations from adding stutter pressure.'' acts ev
        else if lc_action c = lit ''prefetch_now'' \<or> lit ''prefetch-before-critical-path'' \<in> set acts then
          execution_gate_of ''prestage_before_draw'' op True ''prefetch''
            ''This transfer should run before draw-critical work instead of late in the frame.''
            ''Shorten the hot frame path by moving predictable data movement earlier.'' acts ev
        else execution_gate_of ''execute_now'' op True (if ro_type op \<in> critical_types then ''critical'' else ''current-frame'')
          ''No FluidGateway gate blocked, deferred, or prestaged this operation.''
          ''Allow required frame work to continue while higher layers reduce waste.'' acts ev)"

end
