(* ===== verification/Admission_Feedback.thy ===== *)
theory Admission_Feedback
  imports Runtime_Calibration
begin

text \<open>
  What follows an operation's gate: its admission (\<^verbatim>\<open>src/fluidgateway/admission.py\<close>), the efficiency ledger of a
  session (\<^verbatim>\<open>efficiency.py\<close>), the feedback on its frames (\<^verbatim>\<open>feedback.py\<close>) and the commands
  made of it (\<^verbatim>\<open>actuation.py\<close>).
\<close>

section \<open>Admission\<close>

record admission =
  am_mode :: pystr
  am_action :: pystr
  am_operation_id :: pystr
  am_frame :: "int option"
  am_queue :: pystr
  am_resource_id :: pyval
  am_phase :: pystr
  am_admitted :: bool
  am_contribution :: pystr
  am_cost_ms :: pyfloat
  am_size_mb :: pyfloat
  am_reason :: pystr

definition admission_to_dict :: "admission \<Rightarrow> pyval" where
  "admission_to_dict x = PDict
    [(lit ''mode'', PStr (am_mode x)), (lit ''action'', PStr (am_action x)), (lit ''operation_id'', PStr (am_operation_id x)),
     (lit ''frame'', opt_int (am_frame x)), (lit ''queue'', PStr (am_queue x)), (lit ''resource_id'', am_resource_id x),
     (lit ''phase'', PStr (am_phase x)), (lit ''admitted'', PBool (am_admitted x)),
     (lit ''contribution'', PStr (am_contribution x)), (lit ''cost_ms'', round4 (am_cost_ms x)),
     (lit ''size_mb'', round4 (am_size_mb x)), (lit ''reason'', PStr (am_reason x))]"

record admission_plan =
  aj_mode :: pystr
  aj_operation_count :: nat
  aj_immediate_count :: nat
  aj_prefetch_count :: nat
  aj_deferred_count :: nat
  aj_reused_count :: nat
  aj_held_count :: nat
  aj_estimated_hot_path_cost_ms :: pyfloat
  aj_estimated_prestaged_cost_ms :: pyfloat
  aj_estimated_prestaged_transfer_mb :: pyfloat
  aj_estimated_avoided_cost_ms :: pyfloat
  aj_estimated_avoided_transfer_mb :: pyfloat
  aj_estimated_held_cost_ms :: pyfloat
  aj_estimated_held_transfer_mb :: pyfloat
  aj_slots :: "admission list"

definition admission_plan_to_dict :: "admission_plan \<Rightarrow> pyval" where
  "admission_plan_to_dict x = PDict
    [(lit ''mode'', PStr (aj_mode x)), (lit ''operation_count'', PInt (int (aj_operation_count x))),
     (lit ''immediate_count'', PInt (int (aj_immediate_count x))), (lit ''prefetch_count'', PInt (int (aj_prefetch_count x))),
     (lit ''deferred_count'', PInt (int (aj_deferred_count x))), (lit ''reused_count'', PInt (int (aj_reused_count x))),
     (lit ''held_count'', PInt (int (aj_held_count x))),
     (lit ''estimated_hot_path_cost_ms'', round4 (aj_estimated_hot_path_cost_ms x)),
     (lit ''estimated_prestaged_cost_ms'', round4 (aj_estimated_prestaged_cost_ms x)),
     (lit ''estimated_prestaged_transfer_mb'', round4 (aj_estimated_prestaged_transfer_mb x)),
     (lit ''estimated_avoided_cost_ms'', round4 (aj_estimated_avoided_cost_ms x)),
     (lit ''estimated_avoided_transfer_mb'', round4 (aj_estimated_avoided_transfer_mb x)),
     (lit ''estimated_held_cost_ms'', round4 (aj_estimated_held_cost_ms x)),
     (lit ''estimated_held_transfer_mb'', round4 (aj_estimated_held_transfer_mb x)),
     (lit ''slots'', PList (map admission_to_dict (aj_slots x)))]"

text \<open>\<^verbatim>\<open>v.get\<close> of a value that may not be a dictionary.\<close>

definition as_dict :: "pyval \<Rightarrow> pydict res" where
  "as_dict v = (case v of PDict d \<Rightarrow> Inr d
     | _ \<Rightarrow> Inl (AttributeError (repr_text (lit (type_name v)) @ lit '' object has no attribute 'get'')))"

definition transfer_size :: "pystr \<Rightarrow> pyfloat \<Rightarrow> pyfloat" where
  "transfer_size ty sz = (if ty \<in> {lit ''copy'', lit ''upload'', lit ''allocate''} then sz else Fin 0)"

definition admission_of :: "string \<Rightarrow> pystr \<Rightarrow> int option \<Rightarrow> pystr \<Rightarrow> pyval \<Rightarrow> pystr \<Rightarrow> bool \<Rightarrow> string \<Rightarrow> pyfloat \<Rightarrow> pyfloat \<Rightarrow> string
    \<Rightarrow> admission" where
  "admission_of action op frame queue res phase admitted contribution cost sz reason =
    \<lparr>am_mode = lit ''adaptive-admission-controller-v0.18'', am_action = lit action, am_operation_id = op, am_frame = frame,
     am_queue = queue, am_resource_id = res, am_phase = phase, am_admitted = admitted, am_contribution = lit contribution,
     am_cost_ms = cost, am_size_mb = sz, am_reason = lit reason\<rparr>"

text \<open>The branches on the gate's action.\<close>

definition admission_for_gate :: "pystr \<Rightarrow> pystr \<Rightarrow> pystr \<Rightarrow> int option \<Rightarrow> pystr \<Rightarrow> pyval \<Rightarrow> pystr \<Rightarrow> pyfloat \<Rightarrow> pyfloat \<Rightarrow> admission" where
  "admission_for_gate action oid ty frame queue res phase cost sz =
    (if action = lit ''prestage_before_draw'' then
       admission_of ''admit-prefetch'' oid frame queue res (lit ''prefetch'') True ''prestaged'' cost (transfer_size ty sz)
         ''Admit operation into the prefetch phase before draw-critical work.''
     else if action = lit ''defer_redundant_work'' then
       admission_of ''reject-redundant'' oid frame queue res (lit ''deferred'') False ''avoided'' cost sz
         ''Reject redundant work from the executable queue.''
     else if action = lit ''reuse_existing_resource'' then
       admission_of ''reuse-existing'' oid frame queue res (lit ''reuse'') False ''reused'' cost sz
         ''Use an existing resource instead of executing equivalent work.''
     else if action = lit ''hold_noncritical_work'' then
       admission_of ''hold-next-frame'' oid frame queue res (lit ''next-frame'') False ''held'' cost (transfer_size ty sz)
         ''Hold non-critical work outside the current hot frame.''
     else admission_of ''admit-now'' oid frame queue res phase True ''hot-path'' cost (Fin 0)
       ''Admit operation into the current executable frame path.'')"

definition build_admission_decision :: "pydict \<Rightarrow> admission res" where
  "build_admission_decision result =
    ebind (as_dict (py_or (dget result ''operation'') (PDict []))) (\<lambda>op.
    ebind (as_dict (py_or (dget result ''execution_gate'') (PDict []))) (\<lambda>g.
    ebind (transit_number (dget op ''cost_ms'')) (\<lambda>cost.
    ebind (transit_number (dget op ''size_mb'')) (\<lambda>sz.
    ebind (parse_frame (dget_or op ''frame'' (dget g ''frame''))) (\<lambda>frame.
    Inr (admission_for_gate (py_str (py_or (dget g ''action'') (PStr (lit ''execute_now''))))
      (py_str (py_or (py_or (dget op ''id'') (dget g ''operation_id'')) (PStr []))) (py_str (py_or (dget op ''type'') (PStr [])))
      frame (py_str (py_or (py_or (dget op ''queue'') (dget g ''queue'')) (PStr (lit ''unknown''))))
      (py_or (dget op ''target'') (dget g ''resource_id'')) (py_str (py_or (dget g ''preferred_phase'') (PStr (lit ''current-frame''))))
      cost sz))))))"

text \<open>What an admission can be: its action and its contribution.\<close>

definition admission_kinds :: "(pystr \<times> pystr) list" where
  "admission_kinds = [(lit ''admit-prefetch'', lit ''prestaged''), (lit ''reject-redundant'', lit ''avoided''),
     (lit ''reuse-existing'', lit ''reused''), (lit ''hold-next-frame'', lit ''held''), (lit ''admit-now'', lit ''hot-path'')]"

lemma admission_for_gate_kind:
  "(am_action (admission_for_gate ac oid ty fr q rs ph cost sz), am_contribution (admission_for_gate ac oid ty fr q rs ph cost sz)) \<in> set admission_kinds"
  by (simp add: admission_for_gate_def admission_of_def admission_kinds_def)

lemma admission_for_gate_fields [simp]:
  "am_operation_id (admission_for_gate ac oid ty fr q rs ph cost sz) = oid" "am_frame (admission_for_gate ac oid ty fr q rs ph cost sz) = fr"
  "am_cost_ms (admission_for_gate ac oid ty fr q rs ph cost sz) = cost" "am_queue (admission_for_gate ac oid ty fr q rs ph cost sz) = q"
  "am_admitted (admission_for_gate ac oid ty fr q rs ph cost sz)
    \<longleftrightarrow> ac \<notin> {lit ''defer_redundant_work'', lit ''reuse_existing_resource'', lit ''hold_noncritical_work''}"
  by (simp_all add: admission_for_gate_def admission_of_def)

definition count_admission :: "admission list \<Rightarrow> string \<Rightarrow> nat" where
  "count_admission slots action = count_if (\<lambda>s. am_action s = lit action) slots"

definition sum_cost :: "admission list \<Rightarrow> string \<Rightarrow> pyfloat" where
  "sum_cost slots c = fsum_if (\<lambda>s. am_contribution s = lit c) am_cost_ms slots"

definition sum_size :: "admission list \<Rightarrow> string \<Rightarrow> pyfloat" where
  "sum_size slots c = fsum_if (\<lambda>s. am_contribution s = lit c) am_size_mb slots"

definition admission_plan_of :: "admission list \<Rightarrow> admission_plan" where
  "admission_plan_of slots =
    \<lparr>aj_mode = lit ''adaptive-admission-controller-v0.18'', aj_operation_count = length slots,
     aj_immediate_count = count_admission slots ''admit-now'', aj_prefetch_count = count_admission slots ''admit-prefetch'',
     aj_deferred_count = count_admission slots ''reject-redundant'', aj_reused_count = count_admission slots ''reuse-existing'',
     aj_held_count = count_admission slots ''hold-next-frame'', aj_estimated_hot_path_cost_ms = sum_cost slots ''hot-path'',
     aj_estimated_prestaged_cost_ms = sum_cost slots ''prestaged'', aj_estimated_prestaged_transfer_mb = sum_size slots ''prestaged'',
     aj_estimated_avoided_cost_ms = fadd (sum_cost slots ''avoided'') (sum_cost slots ''reused''),
     aj_estimated_avoided_transfer_mb = fadd (sum_size slots ''avoided'') (sum_size slots ''reused''),
     aj_estimated_held_cost_ms = sum_cost slots ''held'', aj_estimated_held_transfer_mb = sum_size slots ''held'', aj_slots = slots\<rparr>"

fun admission_slots :: "pyval list \<Rightarrow> admission list res" where
  "admission_slots [] = Inr []"
| "admission_slots (v # vs) = (case v of
     PDict d \<Rightarrow>
       if truthy (dget d ''operation'')
       then ebind (build_admission_decision d) (\<lambda>a. ebind (admission_slots vs) (\<lambda>as. Inr (a # as)))
       else admission_slots vs
   | _ \<Rightarrow> admission_slots vs)"

definition build_admission_plan :: "pyval list \<Rightarrow> admission_plan res" where
  "build_admission_plan results = ebind (admission_slots results) (\<lambda>slots. Inr (admission_plan_of slots))"

section \<open>Efficiency\<close>

record efficiency_impact =
  ei_mode :: pystr
  ei_operation_id :: pystr
  ei_frame :: "int option"
  ei_impact :: pystr
  ei_relief_cost_ms :: pyfloat
  ei_relief_transfer_mb :: pyfloat
  ei_hot_path_cost_ms :: pyfloat
  ei_reason :: pystr

definition efficiency_impact_to_dict :: "efficiency_impact \<Rightarrow> pyval" where
  "efficiency_impact_to_dict x = PDict
    [(lit ''mode'', PStr (ei_mode x)), (lit ''operation_id'', PStr (ei_operation_id x)), (lit ''frame'', opt_int (ei_frame x)),
     (lit ''impact'', PStr (ei_impact x)), (lit ''relief_cost_ms'', round4 (ei_relief_cost_ms x)),
     (lit ''relief_transfer_mb'', round4 (ei_relief_transfer_mb x)),
     (lit ''hot_path_cost_ms'', round4 (ei_hot_path_cost_ms x)), (lit ''reason'', PStr (ei_reason x))]"

record frame_efficiency =
  fy_frame :: int
  fy_operation_count :: nat
  fy_hot_path_cost_ms :: pyfloat
  fy_shifted_cost_ms :: pyfloat
  fy_avoided_cost_ms :: pyfloat
  fy_held_cost_ms :: pyfloat
  fy_transfer_relief_mb :: pyfloat
  fy_efficiency_score :: pyfloat

definition frame_efficiency_to_dict :: "frame_efficiency \<Rightarrow> pyval" where
  "frame_efficiency_to_dict x = PDict
    [(lit ''frame'', PInt (fy_frame x)), (lit ''operation_count'', PInt (int (fy_operation_count x))),
     (lit ''hot_path_cost_ms'', round4 (fy_hot_path_cost_ms x)), (lit ''shifted_cost_ms'', round4 (fy_shifted_cost_ms x)),
     (lit ''avoided_cost_ms'', round4 (fy_avoided_cost_ms x)), (lit ''held_cost_ms'', round4 (fy_held_cost_ms x)),
     (lit ''transfer_relief_mb'', round4 (fy_transfer_relief_mb x)), (lit ''efficiency_score'', round4 (fy_efficiency_score x))]"

record efficiency_ledger =
  el_mode :: pystr
  el_operation_count :: nat
  el_hot_path_cost_ms :: pyfloat
  el_shifted_cost_ms :: pyfloat
  el_avoided_cost_ms :: pyfloat
  el_held_cost_ms :: pyfloat
  el_transfer_relief_mb :: pyfloat
  el_managed_cost_ms :: pyfloat
  el_relief_cost_ms :: pyfloat
  el_efficiency_score :: pyfloat
  el_frames :: "frame_efficiency list"

definition efficiency_ledger_to_dict :: "efficiency_ledger \<Rightarrow> pyval" where
  "efficiency_ledger_to_dict x = PDict
    [(lit ''mode'', PStr (el_mode x)), (lit ''operation_count'', PInt (int (el_operation_count x))),
     (lit ''hot_path_cost_ms'', round4 (el_hot_path_cost_ms x)), (lit ''shifted_cost_ms'', round4 (el_shifted_cost_ms x)),
     (lit ''avoided_cost_ms'', round4 (el_avoided_cost_ms x)), (lit ''held_cost_ms'', round4 (el_held_cost_ms x)),
     (lit ''transfer_relief_mb'', round4 (el_transfer_relief_mb x)), (lit ''managed_cost_ms'', round4 (el_managed_cost_ms x)),
     (lit ''relief_cost_ms'', round4 (el_relief_cost_ms x)), (lit ''efficiency_score'', round4 (el_efficiency_score x)),
     (lit ''frames'', PList (map frame_efficiency_to_dict (el_frames x)))]"

definition impact_of :: "admission \<Rightarrow> string \<Rightarrow> pyfloat \<Rightarrow> pyfloat \<Rightarrow> pyfloat \<Rightarrow> string \<Rightarrow> efficiency_impact" where
  "impact_of a impact cost transfer hot_path reason =
    \<lparr>ei_mode = lit ''frame-efficiency-ledger-v0.19'', ei_operation_id = am_operation_id a, ei_frame = am_frame a,
     ei_impact = lit impact, ei_relief_cost_ms = cost, ei_relief_transfer_mb = transfer, ei_hot_path_cost_ms = hot_path,
     ei_reason = lit reason\<rparr>"

definition build_efficiency_impact :: "admission \<Rightarrow> efficiency_impact" where
  "build_efficiency_impact a =
    (if am_contribution a = lit ''prestaged'' then
       impact_of a ''shifted-off-hot-path'' (am_cost_ms a) (am_size_mb a) (Fin 0)
         ''Transfer work was admitted into prefetch instead of the hot frame path.''
     else if am_contribution a \<in> {lit ''avoided'', lit ''reused''} then
       impact_of a ''avoided-waste'' (am_cost_ms a) (am_size_mb a) (Fin 0)
         ''Redundant or reusable work was kept out of the executable queue.''
     else if am_contribution a = lit ''held'' then
       impact_of a ''held-out-of-hot-frame'' (am_cost_ms a) (am_size_mb a) (Fin 0)
         ''Non-critical work was held for a later frame.''
     else impact_of a ''hot-path-work'' (Fin 0) (Fin 0) (am_cost_ms a) ''Required work remained on the current frame path.'')"

definition efficiency_score :: "pyfloat \<Rightarrow> pyfloat \<Rightarrow> pyfloat" where
  "efficiency_score relief managed = (if fle managed (Fin 0) then Fin 0 else fmul (fdiv_pos relief managed) (Fin 100))"

definition frame_efficiency_of :: "int \<times> admission list \<Rightarrow> frame_efficiency" where
  "frame_efficiency_of g = (case g of (frame, slots) \<Rightarrow>
     let hot = sum_cost slots ''hot-path''; shifted = sum_cost slots ''prestaged'';
         avoided = fsum_if (\<lambda>s. am_contribution s \<in> {lit ''avoided'', lit ''reused''}) am_cost_ms slots;
         held = sum_cost slots ''held'';
         relief = fadd (fadd shifted avoided) held; managed = fadd hot relief
     in \<lparr>fy_frame = frame, fy_operation_count = length slots, fy_hot_path_cost_ms = hot, fy_shifted_cost_ms = shifted,
         fy_avoided_cost_ms = avoided, fy_held_cost_ms = held,
         fy_transfer_relief_mb = fsum_if (\<lambda>s. am_contribution s \<in> {lit ''prestaged'', lit ''avoided'', lit ''reused'', lit ''held''}) am_size_mb slots,
         fy_efficiency_score = efficiency_score relief managed\<rparr>)"

definition build_frame_efficiency :: "admission list \<Rightarrow> frame_efficiency list" where
  "build_frame_efficiency slots =
    map frame_efficiency_of (sort_key fst (group_by (the \<circ> am_frame) (filter (\<lambda>s. am_frame s \<noteq> None) slots)))"

definition build_efficiency_ledger :: "admission_plan \<Rightarrow> efficiency_ledger" where
  "build_efficiency_ledger p =
    (let hot = aj_estimated_hot_path_cost_ms p; shifted = aj_estimated_prestaged_cost_ms p; avoided = aj_estimated_avoided_cost_ms p;
         held = aj_estimated_held_cost_ms p; relief = fadd (fadd shifted avoided) held; managed = fadd hot relief
     in \<lparr>el_mode = lit ''frame-efficiency-ledger-v0.19'', el_operation_count = aj_operation_count p, el_hot_path_cost_ms = hot,
         el_shifted_cost_ms = shifted, el_avoided_cost_ms = avoided, el_held_cost_ms = held,
         el_transfer_relief_mb = fadd (fadd (aj_estimated_prestaged_transfer_mb p) (aj_estimated_avoided_transfer_mb p))
           (aj_estimated_held_transfer_mb p),
         el_managed_cost_ms = managed, el_relief_cost_ms = relief, el_efficiency_score = efficiency_score relief managed,
         el_frames = build_frame_efficiency (aj_slots p)\<rparr>)"

section \<open>Feedback\<close>

record advice_action =
  fb_action :: pystr
  fb_priority :: int
  fb_frame :: int
  fb_target :: pystr
  fb_recommendation :: pystr
  fb_evidence :: "(pystr \<times> pyfloat) list"

record frame_advice =
  fk_frame :: int
  fk_target_frame_ms :: pyfloat
  fk_hot_path_cost_ms :: pyfloat
  fk_hot_path_headroom_ms :: pyfloat
  fk_suggested_copy_budget_ms :: pyfloat
  fk_suggested_prefetch_window_ms :: pyfloat
  fk_transfer_relief_mb :: pyfloat
  fk_efficiency_score :: pyfloat

definition frame_advice_to_dict :: "frame_advice \<Rightarrow> pyval" where
  "frame_advice_to_dict x = PDict
    [(lit ''frame'', PInt (fk_frame x)), (lit ''target_frame_ms'', round4 (fk_target_frame_ms x)),
     (lit ''hot_path_cost_ms'', round4 (fk_hot_path_cost_ms x)),
     (lit ''hot_path_headroom_ms'', round4 (fk_hot_path_headroom_ms x)),
     (lit ''suggested_copy_budget_ms'', round4 (fk_suggested_copy_budget_ms x)),
     (lit ''suggested_prefetch_window_ms'', round4 (fk_suggested_prefetch_window_ms x)),
     (lit ''transfer_relief_mb'', round4 (fk_transfer_relief_mb x)), (lit ''efficiency_score'', round4 (fk_efficiency_score x))]"

definition advice_action_to_dict :: "advice_action \<Rightarrow> pyval" where
  "advice_action_to_dict x = PDict
    [(lit ''action'', PStr (fb_action x)), (lit ''priority'', PInt (fb_priority x)), (lit ''frame'', PInt (fb_frame x)),
     (lit ''target'', PStr (fb_target x)), (lit ''recommendation'', PStr (fb_recommendation x)),
     (lit ''evidence'', PDict (map (\<lambda>(k, v). (k, round4 v)) (sort_key fst (fb_evidence x))))]"

record advice_plan =
  fq_mode :: pystr
  fq_frame_count :: nat
  fq_action_count :: nat
  fq_average_efficiency_score :: pyfloat
  fq_frames :: "frame_advice list"
  fq_actions :: "advice_action list"

definition advice_plan_to_dict :: "advice_plan \<Rightarrow> pyval" where
  "advice_plan_to_dict x = PDict
    [(lit ''mode'', PStr (fq_mode x)), (lit ''frame_count'', PInt (int (fq_frame_count x))),
     (lit ''action_count'', PInt (int (fq_action_count x))),
     (lit ''average_efficiency_score'', round4 (fq_average_efficiency_score x)),
     (lit ''frames'', PList (map frame_advice_to_dict (fq_frames x))),
     (lit ''actions'', PList (map advice_action_to_dict (fq_actions x)))]"

definition suggest_copy_budget :: "pyfloat \<Rightarrow> pyfloat \<Rightarrow> pyfloat" where
  "suggest_copy_budget target headroom =
    (if fle headroom (Fin 0) then Fin 0 else fmin (fmul target (to_f64 (3 / 20))) (fmul headroom (Fin (1 / 4))))"

definition suggest_prefetch_window :: "pyfloat \<Rightarrow> pyfloat \<Rightarrow> pyfloat \<Rightarrow> pyfloat" where
  "suggest_prefetch_window target moved relief =
    (if fle relief (Fin 0) then fmax (Fin 0) moved else fmax (fmul target (to_f64 (1 / 5))) moved)"

definition advice_action_of :: "string \<Rightarrow> int \<Rightarrow> int \<Rightarrow> string \<Rightarrow> string \<Rightarrow> (string \<times> pyfloat) list \<Rightarrow> advice_action" where
  "advice_action_of action priority frame target recommendation evidence =
    \<lparr>fb_action = lit action, fb_priority = priority, fb_frame = frame, fb_target = lit target,
     fb_recommendation = lit recommendation, fb_evidence = map (map_prod lit id) evidence\<rparr>"

definition actions_for_frame :: "frame_efficiency \<Rightarrow> frame_advice \<Rightarrow> advice_action list" where
  "actions_for_frame f k =
    (if fless (Fin 0) (fy_shifted_cost_ms f) then
       [advice_action_of ''preserve-prefetch-window'' 90 (fy_frame f) ''prefetch''
          ''Keep predictable transfers in a prefetch phase before draw-critical work.''
          [(''shifted_cost_ms'', fy_shifted_cost_ms f), (''suggested_prefetch_window_ms'', fk_suggested_prefetch_window_ms k)]] else [])
    @ (if fless (Fin 0) (fy_avoided_cost_ms f) then
       [advice_action_of ''maintain-reuse-dedupe'' 85 (fy_frame f) ''control-plane''
          ''Keep rejecting redundant transfers and reusing transient resources.''
          [(''avoided_cost_ms'', fy_avoided_cost_ms f), (''transfer_relief_mb'', fy_transfer_relief_mb f)]] else [])
    @ (if fless (Fin 0) (fy_transfer_relief_mb f) then
       [advice_action_of ''cap-copy-queue'' 80 (fy_frame f) ''copy''
          ''Limit late copy queue work to the suggested budget in the next frame.''
          [(''suggested_copy_budget_ms'', fk_suggested_copy_budget_ms k), (''transfer_relief_mb'', fy_transfer_relief_mb f)]] else [])
    @ (if fle (fmul (fk_target_frame_ms k) (to_f64 (4 / 5))) (fy_hot_path_cost_ms f) then
       [advice_action_of ''protect-hot-path-headroom'' 95 (fy_frame f) ''frame''
          ''Protect the next frame by holding non-critical work earlier.''
          [(''hot_path_cost_ms'', fy_hot_path_cost_ms f), (''target_frame_ms'', fk_target_frame_ms k)]] else [])"

definition frame_advice_of :: "(int \<times> pyfloat) list \<Rightarrow> frame_efficiency \<Rightarrow> frame_advice" where
  "frame_advice_of targets f =
    (let target = frame_target targets (fy_frame f); headroom = fmax (Fin 0) (fsub target (fy_hot_path_cost_ms f))
     in \<lparr>fk_frame = fy_frame f, fk_target_frame_ms = target, fk_hot_path_cost_ms = fy_hot_path_cost_ms f,
         fk_hot_path_headroom_ms = headroom, fk_suggested_copy_budget_ms = suggest_copy_budget target headroom,
         fk_suggested_prefetch_window_ms =
           suggest_prefetch_window target (fadd (fy_shifted_cost_ms f) (fy_held_cost_ms f)) (fy_transfer_relief_mb f),
         fk_transfer_relief_mb = fy_transfer_relief_mb f, fk_efficiency_score = fy_efficiency_score f\<rparr>)"

definition build_feedback_plan :: "efficiency_ledger \<Rightarrow> (int \<times> pyfloat) list option \<Rightarrow> advice_plan" where
  "build_feedback_plan l frame_targets =
    (let targets = list_or_empty frame_targets;
         fs = map (frame_advice_of targets) (el_frames l);
         as = concat (map (\<lambda>f. actions_for_frame f (frame_advice_of targets f)) (el_frames l))
     in \<lparr>fq_mode = lit ''adaptive-feedback-controller-v0.20'', fq_frame_count = length fs, fq_action_count = length as,
         fq_average_efficiency_score =
           (if fs = [] then Fin 0 else fdiv (fsum (map fk_efficiency_score fs)) (of_nat (length fs))),
         fq_frames = fs, fq_actions = as\<rparr>)"

section \<open>Actuation\<close>

record actuation_command =
  ac_sequence :: nat
  ac_command :: pystr
  ac_frame :: int
  ac_target :: pystr
  ac_value :: pyfloat
  ac_unit :: pystr
  ac_source_action :: pystr
  ac_reason :: pystr

definition actuation_command_to_dict :: "actuation_command \<Rightarrow> pyval" where
  "actuation_command_to_dict x = PDict
    [(lit ''sequence'', PInt (int (ac_sequence x))), (lit ''command'', PStr (ac_command x)),
     (lit ''frame'', PInt (ac_frame x)), (lit ''target'', PStr (ac_target x)), (lit ''value'', round4 (ac_value x)),
     (lit ''unit'', PStr (ac_unit x)), (lit ''source_action'', PStr (ac_source_action x)), (lit ''reason'', PStr (ac_reason x))]"

record actuation_plan =
  at_mode :: pystr
  at_command_count :: nat
  at_total_copy_budget_ms :: pyfloat
  at_total_prefetch_window_ms :: pyfloat
  at_commands :: "actuation_command list"

definition actuation_plan_to_dict :: "actuation_plan \<Rightarrow> pyval" where
  "actuation_plan_to_dict x = PDict
    [(lit ''mode'', PStr (at_mode x)), (lit ''command_count'', PInt (int (at_command_count x))),
     (lit ''total_copy_budget_ms'', round4 (at_total_copy_budget_ms x)),
     (lit ''total_prefetch_window_ms'', round4 (at_total_prefetch_window_ms x)),
     (lit ''commands'', PList (map actuation_command_to_dict (at_commands x)))]"

definition actuation_command_of :: "nat \<Rightarrow> advice_action \<Rightarrow> string \<Rightarrow> string \<Rightarrow> pyfloat \<Rightarrow> string \<Rightarrow> string \<Rightarrow> actuation_command" where
  "actuation_command_of sequence a name target x unit reason =
    \<lparr>ac_sequence = sequence, ac_command = lit name, ac_frame = fb_frame a, ac_target = lit target, ac_value = x, ac_unit = lit unit,
     ac_source_action = fb_action a, ac_reason = lit reason\<rparr>"

definition evidence_value :: "advice_action \<Rightarrow> string \<Rightarrow> pyfloat" where
  "evidence_value a k = (case map_of (fb_evidence a) (lit k) of None \<Rightarrow> Fin 0 | Some x \<Rightarrow> x)"

definition command_from_action :: "nat \<Rightarrow> advice_action \<Rightarrow> actuation_command option" where
  "command_from_action sequence a =
    (if fb_action a = lit ''preserve-prefetch-window'' then
       Some (actuation_command_of sequence a ''reserve_prefetch_window'' ''prefetch'' (evidence_value a ''suggested_prefetch_window_ms'') ''ms''
         ''Reserve predictable transfer time before draw-critical work.'')
     else if fb_action a = lit ''cap-copy-queue'' then
       Some (actuation_command_of sequence a ''set_copy_queue_budget'' ''copy'' (evidence_value a ''suggested_copy_budget_ms'') ''ms''
         ''Limit late copy queue work in the next frame.'')
     else if fb_action a = lit ''maintain-reuse-dedupe'' then
       Some (actuation_command_of sequence a ''enable_reuse_dedupe'' ''control-plane'' (Fin 1) ''enabled''
         ''Keep reuse and dedupe gates active for redundant work.'')
     else if fb_action a = lit ''protect-hot-path-headroom'' then
       Some (actuation_command_of sequence a ''protect_hot_path_headroom'' ''frame'' (evidence_value a ''target_frame_ms'') ''ms''
         ''Protect the next frame from non-critical queue pressure.'')
     else None)"

definition sum_value :: "actuation_command list \<Rightarrow> string \<Rightarrow> pyfloat" where
  "sum_value cs name = fsum_if (\<lambda>c. ac_command c = lit name) ac_value cs"

definition build_actuation_plan :: "advice_plan \<Rightarrow> actuation_plan" where
  "build_actuation_plan p =
    (let cs = foldl (\<lambda>cs a. case command_from_action (length cs + 1) a of None \<Rightarrow> cs | Some c \<Rightarrow> cs @ [c]) [] (fq_actions p)
     in \<lparr>at_mode = lit ''runtime-actuation-plan-v0.21'', at_command_count = length cs,
         at_total_copy_budget_ms = sum_value cs ''set_copy_queue_budget'',
         at_total_prefetch_window_ms = sum_value cs ''reserve_prefetch_window'', at_commands = cs\<rparr>)"

end
