(* ===== verification/Lifetime_Schedule.thy ===== *)
theory Lifetime_Schedule
  imports Py_Float_Ops Runtime_State
begin

text \<open>
  The resource lifetime planner (\<^verbatim>\<open>src/fluidgateway/lifetime.py\<close>), the frame scheduler simulated on its plan
  (\<^verbatim>\<open>scheduler.py\<close>) and the enforcement commands of a schedule (\<^verbatim>\<open>enforcement.py\<close>).
\<close>

section \<open>Lifetime plan\<close>

record lifetime_action =
  la_action :: pystr
  la_resource_id :: pystr
  la_target_frame :: "int option"
  la_memory :: pystr
  la_size_mb :: pyfloat
  la_priority :: int
  la_rationale :: pystr
  la_expected_effect :: pystr
  la_source_operation_id :: "pystr option"

definition lifetime_action_to_dict :: "lifetime_action \<Rightarrow> pyval" where
  "lifetime_action_to_dict x = PDict
    [(lit ''action'', PStr (la_action x)), (lit ''resource_id'', PStr (la_resource_id x)),
     (lit ''target_frame'', opt_int (la_target_frame x)), (lit ''memory'', PStr (la_memory x)),
     (lit ''size_mb'', PFloat (la_size_mb x)), (lit ''priority'', PInt (la_priority x)),
     (lit ''rationale'', PStr (la_rationale x)), (lit ''expected_effect'', PStr (la_expected_effect x)),
     (lit ''source_operation_id'', opt_str (la_source_operation_id x))]"

record lifetime_plan =
  lp_mode :: pystr
  lp_plan_action_count :: nat
  lp_estimated_reduced_transfer_mb :: pyfloat
  lp_estimated_release_mb :: pyfloat
  lp_actions :: "lifetime_action list"

definition lifetime_plan_to_dict :: "lifetime_plan \<Rightarrow> pyval" where
  "lifetime_plan_to_dict x = PDict
    [(lit ''mode'', PStr (lp_mode x)), (lit ''plan_action_count'', PInt (int (lp_plan_action_count x))),
     (lit ''estimated_reduced_transfer_mb'', round4 (lp_estimated_reduced_transfer_mb x)),
     (lit ''estimated_release_mb'', round4 (lp_estimated_release_mb x)),
     (lit ''actions'', PList (map lifetime_action_to_dict (lp_actions x)))]"

text \<open>The planner: dictionaries in insertion order, and the set of the keys of the actions added so far.\<close>

record lifetime_planner =
  lf_resources :: "(pystr \<times> runtime_resource) list"
  lf_first_use :: "(pystr \<times> int) list"
  lf_last_use :: "(pystr \<times> int) list"
  lf_released :: "(pystr \<times> runtime_resource) list"
  lf_transfers :: "runtime_operation list"
  lf_actions :: "lifetime_action list"
  lf_keys :: "(pystr \<times> pystr \<times> pystr option) set"

definition new_lifetime_planner :: lifetime_planner where
  "new_lifetime_planner = \<lparr>lf_resources = [], lf_first_use = [], lf_last_use = [], lf_released = [], lf_transfers = [],
     lf_actions = [], lf_keys = {}\<rparr>"

definition record_use :: "pystr \<Rightarrow> int \<Rightarrow> lifetime_planner \<Rightarrow> lifetime_planner" where
  "record_use rid frame p = p\<lparr>
     lf_first_use := (if map_of (lf_first_use p) rid = None then alist_put rid frame (lf_first_use p) else lf_first_use p),
     lf_last_use := alist_put rid frame (lf_last_use p)\<rparr>"

definition planner_register :: "runtime_resource \<Rightarrow> int option \<Rightarrow> lifetime_planner \<Rightarrow> lifetime_planner" where
  "planner_register r frame p =
    (let p1 = p\<lparr>lf_resources := alist_put (rs_id r) r (lf_resources p)\<rparr>
     in case frame of None \<Rightarrow> p1 | Some f \<Rightarrow> record_use (rs_id r) f p1)"

definition planner_release :: "runtime_resource option \<Rightarrow> pystr \<Rightarrow> lifetime_planner \<Rightarrow> lifetime_planner" where
  "planner_release r rid p = (case r of None \<Rightarrow> p | Some x \<Rightarrow> p\<lparr>lf_released := alist_put rid x (lf_released p)\<rparr>)"

definition use_of :: "pystr option \<Rightarrow> int \<Rightarrow> lifetime_planner \<Rightarrow> lifetime_planner" where
  "use_of rid frame p = (case rid of None \<Rightarrow> p | Some s \<Rightarrow> if s = [] then p else record_use s frame p)"

definition planner_operation :: "runtime_operation \<Rightarrow> bool \<Rightarrow> lifetime_planner \<Rightarrow> lifetime_planner" where
  "planner_operation op executed p =
    (if \<not> executed then p
     else let p1 = (case ro_frame op of None \<Rightarrow> p | Some f \<Rightarrow> use_of (ro_target op) f (use_of (ro_source op) f p))
       in if is_transfer op then p1\<lparr>lf_transfers := lf_transfers p1 @ [op]\<rparr> else p1)"

definition add_action :: "lifetime_action \<Rightarrow> lifetime_planner \<Rightarrow> lifetime_planner" where
  "add_action a p =
    (let key = (la_action a, la_resource_id a, la_source_operation_id a)
     in if key \<in> lf_keys p then p
        else p\<lparr>lf_keys := insert key (lf_keys p), lf_actions := lf_actions p @ [a]\<rparr>)"

definition keep_resident :: "runtime_resource \<Rightarrow> int \<Rightarrow> pystr \<Rightarrow> lifetime_action" where
  "keep_resident r frame rid =
    \<lparr>la_action = lit ''keep-resident'', la_resource_id = rid, la_target_frame = Some frame, la_memory = rs_memory r,
     la_size_mb = rs_size r, la_priority = (if rs_kind r = lit ''texture'' then 85 else 70),
     la_rationale = lit ''Resource is consumed from VRAM during frame work and should avoid late re-upload.'',
     la_expected_effect = lit ''Lower copy pressure before draw/compute work and fewer RAM to VRAM transfers.'',
     la_source_operation_id = None\<rparr>"

definition release_after_frame :: "runtime_resource \<Rightarrow> int option \<Rightarrow> pystr \<Rightarrow> lifetime_action" where
  "release_after_frame r frame rid =
    \<lparr>la_action = lit ''release-after-frame'', la_resource_id = rid, la_target_frame = frame, la_memory = rs_memory r,
     la_size_mb = rs_size r, la_priority = 80,
     la_rationale = lit ''Transient resource should not stay resident after its last observed frame use.'',
     la_expected_effect = lit ''Reduce memory pressure and make staging/scratch capacity available earlier.'',
     la_source_operation_id = None\<rparr>"

definition plan_resource :: "pystr \<times> runtime_resource \<Rightarrow> lifetime_planner \<Rightarrow> lifetime_planner" where
  "plan_resource e p = (case e of (rid, r) \<Rightarrow>
     let p1 = (if rs_memory r = lit ''vram'' \<and> rs_kind r \<in> {lit ''texture'', lit ''buffer''}
            \<and> rs_lifetime r \<in> {lit ''frame'', lit ''transient''}
          then (case map_of (lf_first_use p) rid of None \<Rightarrow> p | Some f \<Rightarrow> add_action (keep_resident r f rid) p) else p)
     in if rs_lifetime r = lit ''transient'' then add_action (release_after_frame r (map_of (lf_last_use p) rid) rid) p1 else p1)"

definition prefetch_action :: "runtime_operation \<Rightarrow> int \<Rightarrow> pystr \<Rightarrow> lifetime_action" where
  "prefetch_action op frame mem =
    \<lparr>la_action = lit ''prefetch-before-frame'', la_resource_id = ro_id op, la_target_frame = Some frame, la_memory = mem,
     la_size_mb = ro_size op, la_priority = (if fle (Fin 4) (ro_cost op) then 90 else 75),
     la_rationale = lit ''Transfer is large enough to be scheduled before frame-critical work.'',
     la_expected_effect = lit ''Move upload/copy pressure away from the frame's draw-critical path.'',
     la_source_operation_id = Some (ro_id op)\<rparr>"

definition defer_action :: "runtime_operation \<Rightarrow> int \<Rightarrow> pystr \<Rightarrow> lifetime_action" where
  "defer_action op frame mem =
    \<lparr>la_action = lit ''defer-upload'', la_resource_id = ro_id op, la_target_frame = Some frame, la_memory = mem,
     la_size_mb = ro_size op, la_priority = 65,
     la_rationale = lit ''If the resource is not needed by the current frame, this transfer should be delayed.'',
     la_expected_effect = lit ''Avoid moving data that could be unused, overwritten, or better batched later.'',
     la_source_operation_id = Some (ro_id op)\<rparr>"

definition plan_transfer :: "runtime_operation \<Rightarrow> lifetime_planner \<Rightarrow> lifetime_planner" where
  "plan_transfer op p = (case ro_frame op of
     None \<Rightarrow> p
   | Some f \<Rightarrow>
       if fle (Fin 1) (ro_cost op) \<or> fle (Fin 16) (ro_size op) then
         let mem = (case map_of (lf_resources p) (case ro_target op of None \<Rightarrow> [] | Some t \<Rightarrow> t) of
               None \<Rightarrow> lit ''unknown'' | Some r \<Rightarrow> rs_memory r)
         in add_action (defer_action op f mem) (add_action (prefetch_action op f mem) p)
       else p)"

definition reduced_transfers :: "lifetime_action list \<Rightarrow> (pystr \<times> pyfloat) list" where
  "reduced_transfers as = foldl (\<lambda>d a.
     if la_action a \<in> {lit ''prefetch-before-frame'', lit ''defer-upload''} then
       let key = (case la_source_operation_id a of None \<Rightarrow> la_resource_id a | Some s \<Rightarrow> if s = [] then la_resource_id a else s)
       in alist_put key (fmax (la_size_mb a) (case map_of d key of None \<Rightarrow> Fin 0 | Some x \<Rightarrow> x)) d
     else d) [] as"

definition finalize_planner :: "lifetime_planner \<Rightarrow> lifetime_plan \<times> lifetime_planner" where
  "finalize_planner p =
    (let p1 = fold plan_resource (lf_resources p) p;
         p2 = fold plan_transfer (lf_transfers p1) p1;
         as = lf_actions p2
     in (\<lparr>lp_mode = lit ''resource-lifetime-plan-v0.11'', lp_plan_action_count = length as,
          lp_estimated_reduced_transfer_mb = fsum (map snd (reduced_transfers as)),
          lp_estimated_release_mb = fsum_if (\<lambda>a. la_action a = lit ''release-after-frame'') la_size_mb as,
          lp_actions = sort_key (\<lambda>a. (- la_priority a, la_action a, la_resource_id a)) as\<rparr>, p2))"

section \<open>Schedule\<close>

record scheduled_step =
  sq_sequence :: nat
  sq_kind :: pystr
  sq_phase :: pystr
  sq_frame :: "int option"
  sq_queue :: pystr
  sq_operation_id :: "pystr option"
  sq_resource_id :: "pystr option"
  sq_cost_ms :: pyfloat
  sq_size_mb :: pyfloat
  sq_source_action :: "pystr option"
  sq_rationale :: pystr

definition scheduled_step_to_dict :: "scheduled_step \<Rightarrow> pyval" where
  "scheduled_step_to_dict x = PDict
    [(lit ''sequence'', PInt (int (sq_sequence x))), (lit ''kind'', PStr (sq_kind x)), (lit ''phase'', PStr (sq_phase x)),
     (lit ''frame'', opt_int (sq_frame x)), (lit ''queue'', PStr (sq_queue x)),
     (lit ''operation_id'', opt_str (sq_operation_id x)), (lit ''resource_id'', opt_str (sq_resource_id x)),
     (lit ''cost_ms'', round4 (sq_cost_ms x)), (lit ''size_mb'', round4 (sq_size_mb x)),
     (lit ''source_action'', opt_str (sq_source_action x)), (lit ''rationale'', PStr (sq_rationale x))]"

record frame_schedule =
  fh_frame :: int
  fh_target_frame_ms :: pyfloat
  fh_critical_path_before_ms :: pyfloat
  fh_critical_path_after_ms :: pyfloat
  fh_moved_transfer_ms :: pyfloat
  fh_moved_transfer_mb :: pyfloat
  fh_budget_status_before :: pystr
  fh_budget_status_after :: pystr
  fh_step_count :: nat

definition frame_schedule_to_dict :: "frame_schedule \<Rightarrow> pyval" where
  "frame_schedule_to_dict x = PDict
    [(lit ''frame'', PInt (fh_frame x)), (lit ''target_frame_ms'', round4 (fh_target_frame_ms x)),
     (lit ''critical_path_before_ms'', round4 (fh_critical_path_before_ms x)),
     (lit ''critical_path_after_ms'', round4 (fh_critical_path_after_ms x)),
     (lit ''moved_transfer_ms'', round4 (fh_moved_transfer_ms x)),
     (lit ''moved_transfer_mb'', round4 (fh_moved_transfer_mb x)),
     (lit ''budget_status_before'', PStr (fh_budget_status_before x)),
     (lit ''budget_status_after'', PStr (fh_budget_status_after x)), (lit ''step_count'', PInt (int (fh_step_count x)))]"

record scheduler_plan =
  sl_mode :: pystr
  sl_scheduled_step_count :: nat
  sl_estimated_critical_path_before_ms :: pyfloat
  sl_estimated_critical_path_after_ms :: pyfloat
  sl_estimated_latency_reduction_ms :: pyfloat
  sl_estimated_moved_transfer_mb :: pyfloat
  sl_frames :: "frame_schedule list"
  sl_steps :: "scheduled_step list"

definition scheduler_plan_to_dict :: "scheduler_plan \<Rightarrow> pyval" where
  "scheduler_plan_to_dict x = PDict
    [(lit ''mode'', PStr (sl_mode x)), (lit ''scheduled_step_count'', PInt (int (sl_scheduled_step_count x))),
     (lit ''estimated_critical_path_before_ms'', round4 (sl_estimated_critical_path_before_ms x)),
     (lit ''estimated_critical_path_after_ms'', round4 (sl_estimated_critical_path_after_ms x)),
     (lit ''estimated_latency_reduction_ms'', round4 (sl_estimated_latency_reduction_ms x)),
     (lit ''estimated_moved_transfer_mb'', round4 (sl_estimated_moved_transfer_mb x)),
     (lit ''frames'', PList (map frame_schedule_to_dict (sl_frames x))),
     (lit ''steps'', PList (map scheduled_step_to_dict (sl_steps x)))]"

definition operation_sort_key :: "runtime_operation \<Rightarrow> int \<times> pystr" where
  "operation_sort_key op =
    (if ro_type op = lit ''sync'' then 0 else if ro_type op \<in> {lit ''copy'', lit ''upload''} then 1
     else if ro_type op = lit ''compute'' then 2 else if ro_type op = lit ''draw'' then 3
     else if ro_type op = lit ''present'' then 4 else 5, ro_id op)"

definition operation_phase :: "runtime_operation \<Rightarrow> pystr" where
  "operation_phase op =
    (if ro_type op \<in> {lit ''copy'', lit ''upload''} then lit ''prepare''
     else if ro_type op \<in> {lit ''draw'', lit ''compute'', lit ''present''} then lit ''critical''
     else if ro_type op = lit ''sync'' then lit ''sync'' else lit ''work'')"

definition budget_status :: "pyfloat \<Rightarrow> pyfloat \<Rightarrow> pystr" where
  "budget_status cost target = (if fle cost target then lit ''within-budget'' else lit ''over-budget'')"

text \<open>The prefetch actions by source operation; a later action replaces an earlier one.\<close>

definition prefetch_actions :: "lifetime_plan \<Rightarrow> (pystr \<times> lifetime_action) list" where
  "prefetch_actions p = foldl (\<lambda>d a. case la_source_operation_id a of
       Some s \<Rightarrow> if la_action a = lit ''prefetch-before-frame'' \<and> s \<noteq> [] then alist_put s a d else d
     | None \<Rightarrow> d) [] (lp_actions p)"

definition release_actions :: "lifetime_plan \<Rightarrow> int \<Rightarrow> lifetime_action list" where
  "release_actions p frame = filter (\<lambda>a. la_action a = lit ''release-after-frame'' \<and> la_target_frame a = Some frame) (lp_actions p)"

definition prefetch_step :: "int \<Rightarrow> (pystr \<times> lifetime_action) list \<Rightarrow> runtime_operation \<Rightarrow> scheduled_step" where
  "prefetch_step frame acts op =
    \<lparr>sq_sequence = 0, sq_kind = lit ''operation'', sq_phase = lit ''prefetch'', sq_frame = Some frame, sq_queue = ro_queue op,
     sq_operation_id = Some (ro_id op), sq_resource_id = ro_target op, sq_cost_ms = ro_cost op, sq_size_mb = ro_size op,
     sq_source_action = map_option la_action (map_of acts (ro_id op)),
     sq_rationale = (case map_of acts (ro_id op) of None \<Rightarrow> [] | Some a \<Rightarrow> la_rationale a)\<rparr>"

definition critical_step :: "int \<Rightarrow> runtime_operation \<Rightarrow> scheduled_step" where
  "critical_step frame op =
    \<lparr>sq_sequence = 0, sq_kind = lit ''operation'', sq_phase = operation_phase op, sq_frame = Some frame, sq_queue = ro_queue op,
     sq_operation_id = Some (ro_id op), sq_resource_id = ro_target op, sq_cost_ms = ro_cost op, sq_size_mb = ro_size op,
     sq_source_action = None, sq_rationale = lit ''Keep operation on the frame-critical schedule.''\<rparr>"

definition cleanup_step :: "int \<Rightarrow> lifetime_action \<Rightarrow> scheduled_step" where
  "cleanup_step frame a =
    \<lparr>sq_sequence = 0, sq_kind = lit ''lifetime-action'', sq_phase = lit ''cleanup'', sq_frame = Some frame, sq_queue = lit ''memory'',
     sq_operation_id = la_source_operation_id a, sq_resource_id = Some (la_resource_id a), sq_cost_ms = Fin 0,
     sq_size_mb = la_size_mb a, sq_source_action = Some (la_action a), sq_rationale = la_rationale a\<rparr>"

text \<open>The steps of a frame, numbered from the next sequence number.\<close>

definition frame_schedule_steps :: "lifetime_plan \<Rightarrow> runtime_operation list \<Rightarrow> int \<Rightarrow> scheduled_step list" where
  "frame_schedule_steps p ops frame =
    (let acts = prefetch_actions p; prefetched = (\<lambda>op. map_of acts (ro_id op) \<noteq> None)
     in map (prefetch_step frame acts) (sort_key ro_id (filter prefetched ops))
        @ map (critical_step frame) (sort_key operation_sort_key (filter (\<lambda>op. \<not> prefetched op) ops))
        @ map (cleanup_step frame) (sort_key (\<lambda>a. (- la_priority a, la_resource_id a)) (release_actions p frame)))"

definition number_steps :: "nat \<Rightarrow> scheduled_step list \<Rightarrow> scheduled_step list" where
  "number_steps n ss = map (\<lambda>(i, s). s\<lparr>sq_sequence := i\<rparr>) (enumerate n ss)"

definition schedule_frame :: "lifetime_plan \<Rightarrow> runtime_operation list \<Rightarrow> (int \<times> pyfloat) list \<Rightarrow> (int \<times> pyfloat) list
    \<Rightarrow> frame_schedule list \<times> scheduled_step list \<Rightarrow> int \<Rightarrow> frame_schedule list \<times> scheduled_step list" where
  "schedule_frame p operations targets costs st frame = (case st of (fs, ss) \<Rightarrow>
     let ops = filter (\<lambda>op. ro_frame op = Some frame) operations;
         target = (case map_of targets frame of None \<Rightarrow> to_f64 (1667 / 100) | Some x \<Rightarrow> x);
         before = (case map_of costs frame of None \<Rightarrow> fsum (map ro_cost ops) | Some x \<Rightarrow> x);
         moved = filter (\<lambda>op. map_of (prefetch_actions p) (ro_id op) \<noteq> None) ops;
         moved_ms = fsum (map ro_cost moved);
         after = fmax (Fin 0) (fsub before moved_ms);
         ss1 = ss @ number_steps (length ss + 1) (frame_schedule_steps p ops frame)
     in (fs @ [\<lparr>fh_frame = frame, fh_target_frame_ms = target, fh_critical_path_before_ms = before,
           fh_critical_path_after_ms = after, fh_moved_transfer_ms = moved_ms, fh_moved_transfer_mb = fsum (map ro_size moved),
           fh_budget_status_before = budget_status before target, fh_budget_status_after = budget_status after target,
           fh_step_count = count_if (\<lambda>s. sq_frame s = Some frame) ss1\<rparr>], ss1))"

definition schedule_frames :: "runtime_operation list \<Rightarrow> (int \<times> pyfloat) list \<Rightarrow> (int \<times> pyfloat) list \<Rightarrow> int list" where
  "schedule_frames operations targets costs =
    sorted_list_of_set (set (map fst targets) \<union> set (map fst costs) \<union> set (List.map_filter ro_frame operations))"

definition simulate_scheduler ::
    "runtime_operation list \<Rightarrow> (int \<times> pyfloat) list \<Rightarrow> (int \<times> pyfloat) list \<Rightarrow> lifetime_plan \<Rightarrow> scheduler_plan" where
  "simulate_scheduler operations targets costs p =
    (case foldl (schedule_frame p operations targets costs) ([], []) (schedule_frames operations targets costs) of (fs, ss) \<Rightarrow>
     let before = fsum (map fh_critical_path_before_ms fs); after = fsum (map fh_critical_path_after_ms fs)
     in \<lparr>sl_mode = lit ''frame-scheduler-simulation-v0.12'', sl_scheduled_step_count = length ss,
         sl_estimated_critical_path_before_ms = before, sl_estimated_critical_path_after_ms = after,
         sl_estimated_latency_reduction_ms = fmax (Fin 0) (fsub before after),
         sl_estimated_moved_transfer_mb = fsum (map fh_moved_transfer_mb fs), sl_frames = fs, sl_steps = ss\<rparr>)"

section \<open>Enforcement\<close>

record enforcement_command =
  nc_sequence :: nat
  nc_action :: pystr
  nc_frame :: "int option"
  nc_queue :: pystr
  nc_operation_id :: "pystr option"
  nc_resource_id :: "pystr option"
  nc_reason :: pystr
  nc_source_phase :: pystr
  nc_expected_effect :: pystr

definition enforcement_command_to_dict :: "enforcement_command \<Rightarrow> pyval" where
  "enforcement_command_to_dict x = PDict
    [(lit ''sequence'', PInt (int (nc_sequence x))), (lit ''action'', PStr (nc_action x)),
     (lit ''frame'', opt_int (nc_frame x)), (lit ''queue'', PStr (nc_queue x)),
     (lit ''operation_id'', opt_str (nc_operation_id x)), (lit ''resource_id'', opt_str (nc_resource_id x)),
     (lit ''reason'', PStr (nc_reason x)), (lit ''source_phase'', PStr (nc_source_phase x)),
     (lit ''expected_effect'', PStr (nc_expected_effect x))]"

record enforcement_plan =
  ep_mode :: pystr
  ep_command_count :: nat
  ep_commands_by_action :: "(pystr \<times> nat) list"
  ep_commands :: "enforcement_command list"

definition enforcement_plan_to_dict :: "enforcement_plan \<Rightarrow> pyval" where
  "enforcement_plan_to_dict x = PDict
    [(lit ''mode'', PStr (ep_mode x)), (lit ''command_count'', PInt (int (ep_command_count x))),
     (lit ''commands_by_action'', PDict (map (\<lambda>(k, n). (k, PInt (int n))) (sort_key id (ep_commands_by_action x)))),
     (lit ''commands'', PList (map enforcement_command_to_dict (ep_commands x)))]"

definition enforce :: "scheduled_step \<Rightarrow> string \<Rightarrow> string \<Rightarrow> string \<Rightarrow> enforcement_command" where
  "enforce s action reason effect =
    \<lparr>nc_sequence = sq_sequence s, nc_action = lit action, nc_frame = sq_frame s, nc_queue = sq_queue s,
     nc_operation_id = sq_operation_id s, nc_resource_id = sq_resource_id s, nc_reason = lit reason,
     nc_source_phase = sq_phase s, nc_expected_effect = lit effect\<rparr>"

definition command_from_step :: "scheduled_step \<Rightarrow> enforcement_command option" where
  "command_from_step s =
    (if sq_phase s = lit ''prefetch'' then
       Some (enforce s ''prefetch_now'' ''Move this transfer before frame-critical work.''
         ''Reduce copy/upload work on the active frame path.'')
     else if sq_phase s \<in> {lit ''critical'', lit ''prepare'', lit ''sync'', lit ''work''} then
       Some (enforce s ''execute_now'' ''Operation remains on the current executable frame path.''
         ''Preserve required frame work while earlier phases reduce pressure.'')
     else if sq_phase s = lit ''cleanup'' then
       Some (enforce s ''release_after_frame'' ''Release transient memory once frame work has consumed it.''
         ''Lower memory residency pressure for later frames.'')
     else None)"

definition build_enforcement_plan :: "scheduler_plan \<Rightarrow> enforcement_plan" where
  "build_enforcement_plan p =
    (let cs = List.map_filter command_from_step (sl_steps p)
     in \<lparr>ep_mode = lit ''adapter-enforcement-contract-v0.13'', ep_command_count = length cs,
         ep_commands_by_action = foldl (\<lambda>d c. alist_put (nc_action c)
             ((case map_of d (nc_action c) of None \<Rightarrow> 0 | Some n \<Rightarrow> n) + 1) d) [] cs,
         ep_commands = cs\<rparr>)"

section \<open>Finalizing again\<close>

lemma add_action_fields [simp]:
  "lf_resources (add_action a p) = lf_resources p" "lf_first_use (add_action a p) = lf_first_use p"
  "lf_last_use (add_action a p) = lf_last_use p" "lf_transfers (add_action a p) = lf_transfers p"
  by (simp_all add: add_action_def Let_def)

definition action_key :: "lifetime_action \<Rightarrow> pystr \<times> pystr \<times> pystr option" where
  "action_key a = (la_action a, la_resource_id a, la_source_operation_id a)"

lemma add_action_known: "action_key a \<in> lf_keys p \<Longrightarrow> add_action a p = p"
  by (simp add: add_action_def action_key_def)

lemma add_action_keys: "lf_keys (add_action a p) = insert (action_key a) (lf_keys p)"
  by (auto simp: add_action_def action_key_def Let_def)

text \<open>A planning step adds actions that only depend on fields no step changes.\<close>

definition planned_for_resource :: "lifetime_planner \<Rightarrow> pystr \<times> runtime_resource \<Rightarrow> lifetime_action list" where
  "planned_for_resource p e = (case e of (rid, r) \<Rightarrow>
     (if rs_memory r = lit ''vram'' \<and> rs_kind r \<in> {lit ''texture'', lit ''buffer''} \<and> rs_lifetime r \<in> {lit ''frame'', lit ''transient''}
      then (case map_of (lf_first_use p) rid of None \<Rightarrow> [] | Some f \<Rightarrow> [keep_resident r f rid]) else [])
     @ (if rs_lifetime r = lit ''transient'' then [release_after_frame r (map_of (lf_last_use p) rid) rid] else []))"

definition planned_for_transfer :: "lifetime_planner \<Rightarrow> runtime_operation \<Rightarrow> lifetime_action list" where
  "planned_for_transfer p op = (case ro_frame op of None \<Rightarrow> [] | Some f \<Rightarrow>
     if fle (Fin 1) (ro_cost op) \<or> fle (Fin 16) (ro_size op) then
       let mem = (case map_of (lf_resources p) (case ro_target op of None \<Rightarrow> [] | Some t \<Rightarrow> t) of
             None \<Rightarrow> lit ''unknown'' | Some r \<Rightarrow> rs_memory r)
       in [prefetch_action op f mem, defer_action op f mem] else [])"

definition same_uses :: "lifetime_planner \<Rightarrow> lifetime_planner \<Rightarrow> bool" where
  "same_uses p q \<longleftrightarrow> lf_resources q = lf_resources p \<and> lf_first_use q = lf_first_use p \<and> lf_last_use q = lf_last_use p
     \<and> lf_transfers q = lf_transfers p"

lemma plan_steps_actions:
  "same_uses p0 p \<Longrightarrow> plan_resource e p = fold add_action (planned_for_resource p0 e) p"
  "same_uses p0 p \<Longrightarrow> plan_transfer op p = fold add_action (planned_for_transfer p0 op) p"
  by (auto simp: same_uses_def plan_resource_def planned_for_resource_def plan_transfer_def planned_for_transfer_def Let_def
    split: option.split prod.split)

lemma same_uses_add [simp]: "same_uses p0 (fold add_action as p) = same_uses p0 p"
  by (induction as arbitrary: p) (simp_all add: same_uses_def)

lemma plan_resources_actions: "same_uses p0 p \<Longrightarrow> fold plan_resource es p = fold add_action (concat (map (planned_for_resource p0) es)) p"
  by (induction es arbitrary: p) (simp_all add: plan_steps_actions(1))

lemma plan_transfers_actions: "same_uses p0 p \<Longrightarrow> fold plan_transfer es p = fold add_action (concat (map (planned_for_transfer p0) es)) p"
  by (induction es arbitrary: p) (simp_all add: plan_steps_actions(2))

lemma add_actions_known: "action_key ` set as \<subseteq> lf_keys p \<Longrightarrow> fold add_action as p = p"
  by (induction as) (simp_all add: add_action_known)

lemma add_actions_keys: "lf_keys (fold add_action as p) = action_key ` set as \<union> lf_keys p"
  by (induction as arbitrary: p) (simp_all add: add_action_keys)

definition planned_actions :: "lifetime_planner \<Rightarrow> lifetime_action list" where
  "planned_actions p = concat (map (planned_for_resource p) (lf_resources p)) @ concat (map (planned_for_transfer p) (lf_transfers p))"

lemma finalize_adds: "snd (finalize_planner p) = fold add_action (planned_actions p) p"
proof -
  have "same_uses p p" by (simp add: same_uses_def)
  note first = plan_resources_actions [OF this]
  then have "same_uses p (fold plan_resource (lf_resources p) p)" using \<open>same_uses p p\<close> by simp
  from plan_transfers_actions [OF this] this show ?thesis
    by (simp add: finalize_planner_def planned_actions_def first Let_def same_uses_def)
qed

text \<open>Finalizing the lifetime planner a second time, as at the end of a session and again for its result, adds nothing: the plan
  and the planner stay the same.\<close>

theorem finalize_again: "finalize_planner (snd (finalize_planner p)) = (fst (finalize_planner p), snd (finalize_planner p))"
proof -
  let ?q = "snd (finalize_planner p)"
  have same: "same_uses p ?q" by (simp add: finalize_adds) (simp add: same_uses_def)
  have "planned_for_resource ?q = planned_for_resource p" "planned_for_transfer ?q = planned_for_transfer p"
    using same unfolding fun_eq_iff same_uses_def planned_for_resource_def planned_for_transfer_def by (simp_all only: simp_thms)
  with same have "planned_actions ?q = planned_actions p" by (simp add: planned_actions_def same_uses_def)
  then have again: "snd (finalize_planner ?q) = ?q"
    by (simp add: finalize_adds add_actions_keys add_actions_known)
  have "fst (finalize_planner x) = fst (finalize_planner y)"
    if "lf_actions (snd (finalize_planner x)) = lf_actions (snd (finalize_planner y))" for x y
    using that by (simp add: finalize_planner_def Let_def)
  with again show ?thesis by (metis prod.collapse)
qed

section \<open>Every operation once\<close>

lemma number_steps_append: "number_steps n (xs @ ys) = number_steps n xs @ number_steps (n + length xs) ys"
  by (simp add: number_steps_def enumerate_append_eq)

lemma length_number_steps [simp]: "length (number_steps n xs) = length xs"
  by (simp add: number_steps_def)

lemma set_number_steps: "s \<in> set (number_steps n xs) \<Longrightarrow> \<exists>x \<in> set xs. \<exists>i. s = x\<lparr>sq_sequence := i\<rparr>"
proof -
  assume "s \<in> set (number_steps n xs)"
  then obtain i x where "(i, x) \<in> set (enumerate n xs)" "s = x\<lparr>sq_sequence := i\<rparr>" by (auto simp: number_steps_def)
  moreover from this have "x \<in> set xs" by (auto simp: in_set_enumerate_eq)
  ultimately show ?thesis by blast
qed

definition frame_operations :: "runtime_operation list \<Rightarrow> int \<Rightarrow> runtime_operation list" where
  "frame_operations ops f = filter (\<lambda>op. ro_frame op = Some f) ops"

lemma schedule_steps:
  "snd (foldl (schedule_frame p ops targets costs) (fs, ss) frames)
    = ss @ number_steps (length ss + 1) (concat (map (\<lambda>f. frame_schedule_steps p (frame_operations ops f) f) frames))"
proof (induction frames arbitrary: fs ss)
  case (Cons f frames)
  then show ?case
    by (simp add: schedule_frame_def Let_def number_steps_append frame_operations_def)
qed (simp add: number_steps_def)

lemma simulate_steps:
  "sl_steps (simulate_scheduler ops targets costs p)
    = number_steps 1 (concat (map (\<lambda>f. frame_schedule_steps p (frame_operations ops f) f) (schedule_frames ops targets costs)))"
  using schedule_steps [of p ops targets costs "[]" "[]" "schedule_frames ops targets costs"]
  by (simp add: simulate_scheduler_def Let_def split: prod.split) (metis snd_conv)

definition enforced :: "scheduled_step \<Rightarrow> enforcement_command" where
  "enforced s = the (command_from_step s)"

definition scheduled_phase :: "scheduled_step \<Rightarrow> bool" where
  "scheduled_phase s \<longleftrightarrow> sq_phase s \<in> {lit ''prefetch'', lit ''critical'', lit ''prepare'', lit ''sync'', lit ''work'', lit ''cleanup''}"

lemma enforced_phase: "scheduled_phase s \<Longrightarrow> command_from_step s = Some (enforced s)"
  by (auto simp: scheduled_phase_def command_from_step_def enforced_def)

lemma frame_steps_phase: "s \<in> set (frame_schedule_steps p ops f) \<Longrightarrow> scheduled_phase s"
  by (auto simp: frame_schedule_steps_def scheduled_phase_def prefetch_step_def critical_step_def cleanup_step_def operation_phase_def Let_def)

lemma map_filter_all_Some: "(\<And>x. x \<in> set xs \<Longrightarrow> f x = Some (g x)) \<Longrightarrow> List.map_filter f xs = map g xs"
  by (induction xs) (simp_all add: List.map_filter_simps)

lemma enforcement_commands:
  "ep_commands (build_enforcement_plan (simulate_scheduler ops targets costs p)) = map enforced (sl_steps (simulate_scheduler ops targets costs p))"
proof -
  let ?ss = "sl_steps (simulate_scheduler ops targets costs p)"
  have "scheduled_phase s" if mem: "s \<in> set ?ss" for s
  proof -
    obtain x i where "s = x\<lparr>sq_sequence := i\<rparr>"
      "x \<in> set (concat (map (\<lambda>f. frame_schedule_steps p (frame_operations ops f) f) (schedule_frames ops targets costs)))"
      using set_number_steps [OF mem [unfolded simulate_steps]] by blast
    then show ?thesis using frame_steps_phase by (fastforce simp: scheduled_phase_def)
  qed
  then have "List.map_filter command_from_step ?ss = map enforced ?ss"
    by (intro map_filter_all_Some enforced_phase)
  then show ?thesis by (simp add: build_enforcement_plan_def Let_def)
qed

text \<open>The work a command of an action is for, and the work of an operation: the frame, the operation, its queue and its target.\<close>

type_synonym enforced_work = "int option \<times> pystr option \<times> pystr \<times> pystr option"

definition command_work :: "enforcement_command \<Rightarrow> enforced_work" where
  "command_work c = (nc_frame c, nc_operation_id c, nc_queue c, nc_resource_id c)"

definition operation_work :: "runtime_operation \<Rightarrow> enforced_work" where
  "operation_work op = (ro_frame op, Some (ro_id op), ro_queue op, ro_target op)"

definition enforced_operations :: "string \<Rightarrow> enforcement_command list \<Rightarrow> enforced_work list" where
  "enforced_operations action cs = map command_work (filter (\<lambda>c. nc_action c = lit action) cs)"

lemma enforced_operations_append: "enforced_operations a (xs @ ys) = enforced_operations a xs @ enforced_operations a ys"
  by (simp add: enforced_operations_def)

lemma enforced_number: "nc_action (enforced (s\<lparr>sq_sequence := i\<rparr>)) = nc_action (enforced s)"
    "command_work (enforced (s\<lparr>sq_sequence := i\<rparr>)) = command_work (enforced s)"
  if "scheduled_phase s"
  using that by (auto simp: scheduled_phase_def enforced_def command_from_step_def enforce_def command_work_def)

lemma number_steps_simps: "number_steps n [] = []" "number_steps n (s # ss) = s\<lparr>sq_sequence := n\<rparr> # number_steps (Suc n) ss"
  by (simp_all add: number_steps_def)

lemma enforced_operations_number:
  "list_all scheduled_phase ss \<Longrightarrow>
    enforced_operations a (map enforced (number_steps n ss)) = enforced_operations a (map enforced ss)"
  by (induction ss arbitrary: n) (simp_all add: number_steps_simps enforced_operations_def enforced_number)

lemma enforced_operations_concat: "enforced_operations a (map enforced (concat xss)) = concat (map (enforced_operations a \<circ> map enforced) xss)"
  by (induction xss) (simp_all add: enforced_operations_append, simp add: enforced_operations_def)

lemma enforced_sequence: "scheduled_phase s \<Longrightarrow> nc_sequence (enforced s) = sq_sequence s"
  by (auto simp: scheduled_phase_def enforced_def command_from_step_def enforce_def)

definition prefetched :: "lifetime_plan \<Rightarrow> runtime_operation \<Rightarrow> bool" where
  "prefetched p op \<longleftrightarrow> map_of (prefetch_actions p) (ro_id op) \<noteq> None"

lemma enforced_steps:
  "nc_action (enforced (prefetch_step f acts op)) = lit ''prefetch_now''"
  "command_work (enforced (prefetch_step f acts op)) = (Some f, snd (operation_work op))"
  "nc_action (enforced (critical_step f op)) = lit ''execute_now''"
  "command_work (enforced (critical_step f op)) = (Some f, snd (operation_work op))"
  "nc_action (enforced (cleanup_step f a)) = lit ''release_after_frame''" "nc_frame (enforced (cleanup_step f a)) = Some f"
  by (simp_all add: enforced_def command_from_step_def enforce_def prefetch_step_def critical_step_def cleanup_step_def
    operation_phase_def command_work_def operation_work_def)

lemma mset_map_sort_key: "mset (map f (sort_key k xs)) = mset (map f xs)"
  by simp

lemma enforced_frame:
  assumes "\<forall>op \<in> set ops. ro_frame op = Some f"
  shows "mset (enforced_operations ''prefetch_now'' (map enforced (frame_schedule_steps p ops f)))
      = mset (map operation_work (filter (prefetched p) ops))"
    and "mset (enforced_operations ''execute_now'' (map enforced (frame_schedule_steps p ops f)))
      = mset (map operation_work (filter (\<lambda>op. \<not> prefetched p op) ops))"
proof -
  have here: "map (\<lambda>op. (Some f, snd (operation_work op))) (filter q ops) = map operation_work (filter q ops)" for q
    using assms by (intro map_cong refl) (auto simp: operation_work_def)
  have "enforced_operations ''prefetch_now'' (map enforced (frame_schedule_steps p ops f))
      = map (\<lambda>op. (Some f, snd (operation_work op))) (sort_key ro_id (filter (prefetched p) ops))"
    "enforced_operations ''execute_now'' (map enforced (frame_schedule_steps p ops f))
      = map (\<lambda>op. (Some f, snd (operation_work op))) (sort_key operation_sort_key (filter (\<lambda>op. \<not> prefetched p op) ops))"
    by (simp_all add: frame_schedule_steps_def enforced_operations_def enforced_steps filter_map comp_def Let_def prefetched_def [abs_def])
  then show "mset (enforced_operations ''prefetch_now'' (map enforced (frame_schedule_steps p ops f)))
      = mset (map operation_work (filter (prefetched p) ops))"
    "mset (enforced_operations ''execute_now'' (map enforced (frame_schedule_steps p ops f)))
      = mset (map operation_work (filter (\<lambda>op. \<not> prefetched p op) ops))"
    by (simp_all only: mset_map_sort_key here)
qed

lemma filter_disjoint: "(\<And>x. \<not> (q x \<and> r x)) \<Longrightarrow> mset (filter q xs) + mset (filter r xs) = mset (filter (\<lambda>x. q x \<or> r x) xs)"
  by (induction xs) auto

lemma frames_partition:
  "distinct fs \<Longrightarrow> mset (concat (map (\<lambda>f. filter (\<lambda>op. ro_frame op = Some f) ops) fs))
    = mset (filter (\<lambda>op. ro_frame op \<in> Some ` set fs) ops)"
proof (induction fs)
  case (Cons f fs)
  then have "mset (filter (\<lambda>op. ro_frame op = Some f) ops) + mset (filter (\<lambda>op. ro_frame op \<in> Some ` set fs) ops)
      = mset (filter (\<lambda>op. ro_frame op = Some f \<or> ro_frame op \<in> Some ` set fs) ops)"
    by (intro filter_disjoint) auto
  with Cons show ?case by simp
qed simp

lemma schedule_frames_props:
  "distinct (schedule_frames ops targets costs)" "sorted (schedule_frames ops targets costs)"
  "op \<in> set ops \<Longrightarrow> ro_frame op = Some f \<Longrightarrow> f \<in> set (schedule_frames ops targets costs)"
  by (auto simp: schedule_frames_def List.map_filter_def) force

lemma framed_operations:
  "mset (filter (\<lambda>op. ro_frame op \<in> Some ` set (schedule_frames ops targets costs)) ops) = mset (filter (\<lambda>op. ro_frame op \<noteq> None) ops)"
  using schedule_frames_props(3) by (intro arg_cong [where f = mset] filter_cong refl) force

lemma mset_concat_cong: "(\<And>x. mset (f x) = mset (g x)) \<Longrightarrow> mset (concat (map f xs)) = mset (concat (map g xs))"
  by (induction xs) simp_all

lemma concat_map_filter: "concat (map (\<lambda>f. map h (filter q (g f))) xs) = map h (filter q (concat (map g xs)))"
  by (induction xs) simp_all

text \<open>Where a command stands: its frame, then what is moved before the frame, what the frame executes, what is released after it.\<close>

definition command_place :: "enforcement_command \<Rightarrow> int \<times> nat" where
  "command_place c = (frame_key (nc_frame c),
     if nc_action c = lit ''prefetch_now'' then 0 else if nc_action c = lit ''execute_now'' then 1 else 2)"

lemma sorted_concat_placed:
  assumes "sorted fs" and "distinct fs" and "\<And>f. sorted (map g (h f))" and "\<And>f x. x \<in> set (h f) \<Longrightarrow> fst (g x) = f"
  shows "sorted (map g (concat (map h fs)))"
  using assms(1,2)
proof (induction fs)
  case (Cons f fs)
  have "g x \<le> g y" if "x \<in> set (h f)" "f1 \<in> set fs" "y \<in> set (h f1)" for x f1 y
  proof -
    have "f < f1" using Cons.prems that(2) by (auto simp: less_le)
    moreover have "fst (g x) = f" "fst (g y) = f1" using assms(4) that by blast+
    ultimately show ?thesis by (cases "g x"; cases "g y") simp
  qed
  with Cons assms(3) show ?case by (auto simp: sorted_append)
qed simp

lemma steps_placed:
  "sorted (map (command_place \<circ> enforced) (frame_schedule_steps p ops f))"
  "s \<in> set (frame_schedule_steps p ops f) \<Longrightarrow> fst ((command_place \<circ> enforced) s) = f"
proof -
  have place: "command_place (enforced (prefetch_step f acts op)) = (f, 0)" "command_place (enforced (critical_step f op)) = (f, 1)"
    "command_place (enforced (cleanup_step f a)) = (f, 2)" for acts op a
    using enforced_steps(2) [of f acts op] enforced_steps(4) [of f op]
    by (simp_all add: command_place_def enforced_steps command_work_def frame_key_def)
  then show "sorted (map (command_place \<circ> enforced) (frame_schedule_steps p ops f))"
    by (auto simp: frame_schedule_steps_def Let_def sorted_append comp_def map_replicate_const)
  show "s \<in> set (frame_schedule_steps p ops f) \<Longrightarrow> fst ((command_place \<circ> enforced) s) = f"
    by (auto simp: frame_schedule_steps_def Let_def place)
qed

lemma number_steps_sequence: "map sq_sequence (number_steps n xs) = [n..<n + length xs]"
  by (induction xs arbitrary: n) (simp_all add: number_steps_simps upt_rec)

lemma number_steps_placed:
  "list_all scheduled_phase ss \<Longrightarrow> map (command_place \<circ> enforced) (number_steps n ss) = map (command_place \<circ> enforced) ss"
  by (induction ss arbitrary: n) (use enforced_number in \<open>simp_all add: number_steps_simps command_place_def command_work_def\<close>)

lemma enforced_all:
  assumes "\<And>os f. \<forall>op \<in> set os. ro_frame op = Some f
    \<Longrightarrow> mset (enforced_operations a (map enforced (frame_schedule_steps p os f))) = mset (map operation_work (filter q os))"
  shows "mset (enforced_operations a (map enforced (sl_steps (simulate_scheduler ops targets costs p))))
    = mset (map operation_work (filter q (filter (\<lambda>op. ro_frame op \<noteq> None) ops)))"
proof -
  let ?fs = "schedule_frames ops targets costs"
  have phases: "list_all scheduled_phase (concat (map (\<lambda>f. frame_schedule_steps p (frame_operations ops f) f) ?fs))"
    using frame_steps_phase by (auto simp: list_all_iff)
  have "mset (enforced_operations a (map enforced (sl_steps (simulate_scheduler ops targets costs p))))
      = mset (concat (map (\<lambda>f. enforced_operations a (map enforced (frame_schedule_steps p (frame_operations ops f) f))) ?fs))"
    by (simp add: simulate_steps enforced_operations_number [OF phases] enforced_operations_concat comp_def)
  also have "\<dots> = mset (concat (map (\<lambda>f. map operation_work (filter q (frame_operations ops f))) ?fs))"
    by (rule mset_concat_cong, rule assms) (simp add: frame_operations_def)
  also have "\<dots> = image_mset operation_work (filter_mset q (mset (concat (map (\<lambda>f. filter (\<lambda>op. ro_frame op = Some f) ops) ?fs))))"
    by (simp only: frame_operations_def concat_map_filter mset_map mset_filter)
  also have "\<dots> = image_mset operation_work (filter_mset q (mset (filter (\<lambda>op. ro_frame op \<noteq> None) ops)))"
    by (simp only: frames_partition [OF schedule_frames_props(1)] framed_operations)
  finally show ?thesis by (simp only: mset_map mset_filter)
qed

text \<open>C18: Each executed operation of a frame has exactly one enforcement command, for its own frame, queue and target: to prefetch it
  now when the lifetime plan moves it, and to execute it now otherwise. The commands are numbered from one in order of their frames,
  and within a frame what is prefetched comes before what is executed and releases come last.\<close>

theorem enforcement_covers_schedule:
  "let cs = ep_commands (build_enforcement_plan (simulate_scheduler ops targets costs p));
       framed = filter (\<lambda>op. ro_frame op \<noteq> None) ops
   in map nc_sequence cs = [1..<Suc (length cs)]
    \<and> sorted (map command_place cs)
    \<and> mset (enforced_operations ''prefetch_now'' cs) = mset (map operation_work (filter (prefetched p) framed))
    \<and> mset (enforced_operations ''execute_now'' cs) = mset (map operation_work (filter (\<lambda>op. \<not> prefetched p op) framed))"
proof -
  let ?ss = "concat (map (\<lambda>f. frame_schedule_steps p (frame_operations ops f) f) (schedule_frames ops targets costs))"
  have phases: "list_all scheduled_phase ?ss" using frame_steps_phase by (auto simp: list_all_iff)
  have "\<forall>s \<in> set (number_steps 1 ?ss). scheduled_phase s"
    using set_number_steps frame_steps_phase by (fastforce simp: scheduled_phase_def)
  then have seq: "map nc_sequence (map enforced (number_steps 1 ?ss)) = [1..<Suc (length ?ss)]"
    using number_steps_sequence [of 1 ?ss] enforced_sequence by (simp add: comp_def cong: map_cong)
  have "sorted (map (command_place \<circ> enforced) ?ss)"
    by (rule sorted_concat_placed [OF schedule_frames_props(2,1) steps_placed])
  then have places: "sorted (map command_place (map enforced (number_steps 1 ?ss)))"
    by (simp only: map_map number_steps_placed [OF phases])
  have len: "length (map enforced (number_steps 1 ?ss)) = length ?ss" by simp
  show ?thesis
    using seq places enforced_all [OF enforced_frame(1), of ops targets costs] enforced_all [OF enforced_frame(2), of ops targets costs]
    unfolding Let_def enforcement_commands simulate_steps len by blast
qed

end
