(* ===== verification/Runtime_Manager.thy ===== *)
theory Runtime_Manager
  imports Runtime_Calibration
begin

text \<open>
  The manager directive (\<^verbatim>\<open>src/fluidgateway/manager.py\<close>): the next frame's budgets and modes from the
  calibration and the budget envelope.
\<close>

record frame_directive =
  fm_frame :: int
  fm_target_frame_ms :: pyfloat
  fm_observed_frame_cost_ms :: pyfloat
  fm_planned_current_frame_cost_ms :: pyfloat
  fm_expected_frame_relief_ms :: pyfloat
  fm_next_frame_budget_ms :: pyfloat
  fm_hot_path_budget_ms :: pyfloat
  fm_copy_queue_budget_ms :: pyfloat
  fm_pre_frame_window_ms :: pyfloat
  fm_guardband_ms :: pyfloat
  fm_admission_mode :: pystr
  fm_scheduler_mode :: pystr
  fm_queue_policy :: pystr
  fm_calibration_action :: pystr
  fm_reason :: pystr

definition frame_directive_to_dict :: "frame_directive \<Rightarrow> pyval" where
  "frame_directive_to_dict x = PDict
    [(lit ''frame'', PInt (fm_frame x)), (lit ''target_frame_ms'', round4 (fm_target_frame_ms x)),
     (lit ''observed_frame_cost_ms'', round4 (fm_observed_frame_cost_ms x)),
     (lit ''planned_current_frame_cost_ms'', round4 (fm_planned_current_frame_cost_ms x)),
     (lit ''expected_frame_relief_ms'', round4 (fm_expected_frame_relief_ms x)),
     (lit ''next_frame_budget_ms'', round4 (fm_next_frame_budget_ms x)),
     (lit ''hot_path_budget_ms'', round4 (fm_hot_path_budget_ms x)),
     (lit ''copy_queue_budget_ms'', round4 (fm_copy_queue_budget_ms x)),
     (lit ''pre_frame_window_ms'', round4 (fm_pre_frame_window_ms x)), (lit ''guardband_ms'', round4 (fm_guardband_ms x)),
     (lit ''admission_mode'', PStr (fm_admission_mode x)), (lit ''scheduler_mode'', PStr (fm_scheduler_mode x)),
     (lit ''queue_policy'', PStr (fm_queue_policy x)), (lit ''calibration_action'', PStr (fm_calibration_action x)),
     (lit ''reason'', PStr (fm_reason x))]"

record memory_directive =
  mm_memory :: pystr
  mm_active_mb :: pyfloat
  mm_budget_mb :: "pyfloat option"
  mm_pressure_mb :: pyfloat
  mm_status :: pystr
  mm_action :: pystr
  mm_expected_relief_mb :: pyfloat
  mm_reserve_headroom_mb :: pyfloat
  mm_reason :: pystr

definition memory_directive_to_dict :: "memory_directive \<Rightarrow> pyval" where
  "memory_directive_to_dict x = PDict
    [(lit ''memory'', PStr (mm_memory x)), (lit ''active_mb'', round4 (mm_active_mb x)),
     (lit ''budget_mb'', rounded_or_none (mm_budget_mb x)), (lit ''pressure_mb'', round4 (mm_pressure_mb x)),
     (lit ''status'', PStr (mm_status x)), (lit ''action'', PStr (mm_action x)),
     (lit ''expected_relief_mb'', round4 (mm_expected_relief_mb x)),
     (lit ''reserve_headroom_mb'', round4 (mm_reserve_headroom_mb x)), (lit ''reason'', PStr (mm_reason x))]"

record manager_directive =
  rm_mode :: pystr
  rm_profile :: pystr
  rm_next_frame_policy :: pystr
  rm_dispatch_action :: pystr
  rm_frame_count :: nat
  rm_memory_layer_count :: nat
  rm_memory_action_count :: nat
  rm_control_action_count :: nat
  rm_next_frame_budget_ms :: pyfloat
  rm_hot_path_budget_ms :: pyfloat
  rm_copy_queue_budget_ms :: pyfloat
  rm_pre_frame_window_ms :: pyfloat
  rm_total_expected_memory_relief_mb :: pyfloat
  rm_frames :: "frame_directive list"
  rm_memory_directives :: "memory_directive list"

definition manager_directive_to_dict :: "manager_directive \<Rightarrow> pyval" where
  "manager_directive_to_dict x = PDict
    [(lit ''mode'', PStr (rm_mode x)), (lit ''profile'', PStr (rm_profile x)),
     (lit ''next_frame_policy'', PStr (rm_next_frame_policy x)), (lit ''dispatch_action'', PStr (rm_dispatch_action x)),
     (lit ''frame_count'', PInt (int (rm_frame_count x))), (lit ''memory_layer_count'', PInt (int (rm_memory_layer_count x))),
     (lit ''memory_action_count'', PInt (int (rm_memory_action_count x))),
     (lit ''control_action_count'', PInt (int (rm_control_action_count x))),
     (lit ''next_frame_budget_ms'', round4 (rm_next_frame_budget_ms x)),
     (lit ''hot_path_budget_ms'', round4 (rm_hot_path_budget_ms x)),
     (lit ''copy_queue_budget_ms'', round4 (rm_copy_queue_budget_ms x)),
     (lit ''pre_frame_window_ms'', round4 (rm_pre_frame_window_ms x)),
     (lit ''total_expected_memory_relief_mb'', round4 (rm_total_expected_memory_relief_mb x)),
     (lit ''frames'', PList (map frame_directive_to_dict (rm_frames x))),
     (lit ''memory_directives'', PList (map memory_directive_to_dict (rm_memory_directives x)))]"

definition admission_mode :: "frame_calibration \<Rightarrow> pystr" where
  "admission_mode c =
    (if fc_planned_pressure_status c = lit ''over-budget'' then lit ''tighten-hot-path-admission''
     else if fc_observed_pressure_status c = lit ''over-budget'' then lit ''prestage-and-defer-noncritical''
     else if fc_action c = lit ''preserve-dispatch-shape'' then lit ''preserve-budgeted-hot-path''
     else lit ''observe-admission'')"

definition scheduler_mode :: "frame_calibration \<Rightarrow> pystr" where
  "scheduler_mode c =
    (if fc_action c = lit ''tighten-dispatch-guardband'' then lit ''guardband-tightening''
     else if fc_action c = lit ''apply-dispatch-before-next-frame'' then lit ''closed-loop-aggressive''
     else if fc_action c = lit ''preserve-dispatch-shape'' then lit ''closed-loop-stable''
     else lit ''observe'')"

definition queue_policy :: "pyfloat \<Rightarrow> pystr" where
  "queue_policy budget = (if fle budget (Fin 0) then lit ''block-late-copy-queue'' else lit ''budget-copy-queue'')"

definition dispatch_action :: "frame_calibration list \<Rightarrow> pystr" where
  "dispatch_action fs = (let actions = fc_action ` set fs in
     if lit ''tighten-dispatch-guardband'' \<in> actions then lit ''tighten-dispatch-guardband''
     else if lit ''apply-dispatch-before-next-frame'' \<in> actions then lit ''activate-dispatch-profile''
     else if lit ''preserve-dispatch-shape'' \<in> actions then lit ''preserve-dispatch-profile''
     else lit ''monitor-runtime'')"

definition manager_reason :: "frame_calibration \<Rightarrow> pystr" where
  "manager_reason c =
    (if fc_action c = lit ''apply-dispatch-before-next-frame''
       then lit ''Observed frame pressure can be relieved by the planned dispatch shape.''
     else if fc_action c = lit ''tighten-dispatch-guardband''
       then lit ''Planned current-frame work still exceeds the target budget.''
     else if fc_action c = lit ''preserve-dispatch-shape''
       then lit ''Observed work fits the frame while dispatch keeps useful relief.''
     else lit ''No stronger manager action is supported by the current evidence.'')"

definition build_frame_directive :: "frame_calibration \<Rightarrow> frame_envelope option \<Rightarrow> frame_directive" where
  "build_frame_directive c e =
    (let next_budget = fc_recommended_next_frame_budget_ms c;
         max_hot_path = (case e of None \<Rightarrow> fc_target_frame_ms c | Some x \<Rightarrow> fe_max_hot_path x);
         copy_budget = (if fc_action c \<in> {lit ''apply-dispatch-before-next-frame'', lit ''tighten-dispatch-guardband''} then Fin 0
           else case e of None \<Rightarrow> Fin 0 | Some x \<Rightarrow> fe_copy_budget x);
         window = fmax (case e of None \<Rightarrow> Fin 0 | Some x \<Rightarrow> fe_pre_frame x) (fc_planned_pre_frame_cost_ms c)
     in \<lparr>fm_frame = fc_frame c, fm_target_frame_ms = fc_target_frame_ms c,
       fm_observed_frame_cost_ms = fc_observed_frame_cost_ms c,
       fm_planned_current_frame_cost_ms = fc_planned_current_frame_cost_ms c,
       fm_expected_frame_relief_ms = fc_planned_frame_relief_ms c, fm_next_frame_budget_ms = next_budget,
       fm_hot_path_budget_ms = fmin max_hot_path next_budget, fm_copy_queue_budget_ms = copy_budget,
       fm_pre_frame_window_ms = window, fm_guardband_ms = fc_guardband_ms c, fm_admission_mode = admission_mode c,
       fm_scheduler_mode = scheduler_mode c, fm_queue_policy = queue_policy copy_budget, fm_calibration_action = fc_action c,
       fm_reason = manager_reason c\<rparr>)"

definition memory_directive_of :: "memory_envelope \<Rightarrow> string \<Rightarrow> pyfloat \<Rightarrow> pyfloat \<Rightarrow> string \<Rightarrow> memory_directive" where
  "memory_directive_of l action relief headroom reason =
    \<lparr>mm_memory = me_memory l, mm_active_mb = me_active l, mm_budget_mb = me_budget l, mm_pressure_mb = me_pressure l,
     mm_status = me_status l, mm_action = lit action, mm_expected_relief_mb = relief, mm_reserve_headroom_mb = headroom,
     mm_reason = lit reason\<rparr>"

definition build_memory_directive :: "memory_envelope \<Rightarrow> memory_directive" where
  "build_memory_directive l =
    (if me_status l = lit ''over-budget'' then
       memory_directive_of l ''evict-or-defer-residency'' (me_pressure l) (Fin 0)
         ''Active residency exceeds the configured memory budget.''
     else if me_status l = lit ''near-budget'' then
       memory_directive_of l ''reserve-headroom'' (Fin 0)
         (fmax (Fin 0) (fmul (opt_float_or_zero (me_budget l)) (to_f64 (15 / 100))))
         ''Active residency is close to the configured memory budget.''
     else if me_status l = lit ''unbounded'' then
       memory_directive_of l ''observe-residency'' (Fin 0) (Fin 0) ''No configured budget exists for this memory layer.''
     else
       memory_directive_of l ''hold-residency'' (Fin 0) (Fin 0) ''Active residency is inside the configured memory budget.'')"

definition build_runtime_manager_directive :: "calibration_report \<Rightarrow> runtime_envelope \<Rightarrow> manager_directive" where
  "build_runtime_manager_directive c e =
    (let frames = map (\<lambda>f. build_frame_directive f (envelope_for (re_frames e) (Some (fc_frame f)))) (cb_frames c);
         ms = map build_memory_directive (re_layers e);
         memory_actions = count_if (\<lambda>d. mm_action d \<notin> {lit ''hold-residency'', lit ''observe-residency''}) ms;
         frame_actions = count_if (\<lambda>f. fm_calibration_action f \<noteq> lit ''monitor'') frames
     in \<lparr>rm_mode = lit ''runtime-manager-directive-v0.33'', rm_profile = re_profile e, rm_next_frame_policy = re_policy e,
       rm_dispatch_action = dispatch_action (cb_frames c), rm_frame_count = length frames, rm_memory_layer_count = length ms,
       rm_memory_action_count = memory_actions, rm_control_action_count = frame_actions + memory_actions,
       rm_next_frame_budget_ms = fmin_list (Fin 0) (map fm_next_frame_budget_ms frames),
       rm_hot_path_budget_ms = fmin_list (Fin 0) (map fm_hot_path_budget_ms frames),
       rm_copy_queue_budget_ms = fmin_list (Fin 0) (map fm_copy_queue_budget_ms frames),
       rm_pre_frame_window_ms = fmax_list (Fin 0) (map fm_pre_frame_window_ms frames),
       rm_total_expected_memory_relief_mb = fsum (map mm_expected_relief_mb ms), rm_frames = frames, rm_memory_directives = ms\<rparr>)"

section \<open>Bounds\<close>

lemma envelope_for_mem: "envelope_for es f = Some e \<Longrightarrow> e \<in> set es \<and> f = Some (fe_frame e)"
  by (auto simp: envelope_for_def split: option.splits dest!: map_of_SomeD)

text \<open>C35: The manager gives every calibrated frame one directive, in order. Its hot-path budget is not above the next frame's
  budget nor above the limit of the frame's envelope; a frame under pressure, observed or planned, gets no copy-queue budget
  and the policy that blocks the late copy queue; and only a memory layer over its budget is expected to give relief, as much
  as its pressure.\<close>

theorem manager_directives:
  assumes "\<forall>f \<in> set (cb_frames c). fc_recommended_next_frame_budget_ms f \<noteq> NaN \<and> fc_target_frame_ms f \<noteq> NaN"
    and "\<forall>e \<in> set (re_frames env). fe_max_hot_path e \<noteq> NaN"
  shows "map fm_frame (rm_frames (build_runtime_manager_directive c env)) = map fc_frame (cb_frames c)
    \<and> list_all2 (\<lambda>f d. fm_next_frame_budget_ms d = fc_recommended_next_frame_budget_ms f
        \<and> fle (fm_hot_path_budget_ms d) (fm_next_frame_budget_ms d)
        \<and> (\<forall>e. envelope_for (re_frames env) (Some (fc_frame f)) = Some e \<longrightarrow> fle (fm_hot_path_budget_ms d) (fe_max_hot_path e))
        \<and> (fc_action f \<in> {lit ''apply-dispatch-before-next-frame'', lit ''tighten-dispatch-guardband''}
            \<longrightarrow> fm_copy_queue_budget_ms d = Fin 0 \<and> fm_queue_policy d = lit ''block-late-copy-queue''))
      (cb_frames c) (rm_frames (build_runtime_manager_directive c env))
    \<and> list_all2 (\<lambda>l d. mm_memory d = me_memory l
        \<and> mm_expected_relief_mb d = (if me_status l = lit ''over-budget'' then me_pressure l else Fin 0))
      (re_layers env) (rm_memory_directives (build_runtime_manager_directive c env))"
proof -
  let ?d = "\<lambda>f. build_frame_directive f (envelope_for (re_frames env) (Some (fc_frame f)))"
  have frames: "rm_frames (build_runtime_manager_directive c env) = map ?d (cb_frames c)"
    and memory: "rm_memory_directives (build_runtime_manager_directive c env) = map build_memory_directive (re_layers env)"
    by (simp_all add: build_runtime_manager_directive_def Let_def)
  have hot: "fle (fm_hot_path_budget_ms (?d f)) (fm_next_frame_budget_ms (?d f))
      \<and> (\<forall>e. envelope_for (re_frames env) (Some (fc_frame f)) = Some e \<longrightarrow> fle (fm_hot_path_budget_ms (?d f)) (fe_max_hot_path e))"
    if "f \<in> set (cb_frames c)" for f
  proof (cases "envelope_for (re_frames env) (Some (fc_frame f))")
    case None
    then show ?thesis using assms(1) that fle_fmin by (simp add: build_frame_directive_def Let_def)
  next
    case (Some e)
    then have "fe_max_hot_path e \<noteq> NaN" using assms(2) envelope_for_mem by blast
    then show ?thesis using assms(1) that fle_fmin Some by (simp add: build_frame_directive_def Let_def)
  qed
  have "fm_copy_queue_budget_ms (?d f) = Fin 0 \<and> fm_queue_policy (?d f) = lit ''block-late-copy-queue''"
    if "fc_action f \<in> {lit ''apply-dispatch-before-next-frame'', lit ''tighten-dispatch-guardband''}" for f
    using that by (simp add: build_frame_directive_def Let_def queue_policy_def)
  moreover have "fm_next_frame_budget_ms (?d f) = fc_recommended_next_frame_budget_ms f" "fm_frame (?d f) = fc_frame f" for f
    by (simp_all add: build_frame_directive_def Let_def)
  ultimately show ?thesis unfolding frames memory list_all2_map2
    using hot by (auto intro!: list.rel_refl_strong simp: build_memory_directive_def memory_directive_of_def)
qed

section \<open>Witness\<close>

definition demo_directive :: manager_directive where
  "demo_directive = build_runtime_manager_directive demo_calibration demo_runtime_envelope"

lemma demo_directive_frames: "map fm_frame (rm_frames demo_directive) = [1, 2]"
  using arg_cong [OF demo_calibration_frames, of "map fst"]
  by (simp add: demo_directive_def build_runtime_manager_directive_def build_frame_directive_def Let_def comp_def)

theorem manager_directives_witness:
  "map fm_frame (rm_frames demo_directive) = [1, 2]
    \<and> list_all2 (\<lambda>f d. fle (fm_hot_path_budget_ms d) (fm_next_frame_budget_ms d)) (cb_frames demo_calibration) (rm_frames demo_directive)"
proof -
  have "\<forall>f \<in> set (cb_frames demo_calibration). fc_recommended_next_frame_budget_ms f \<noteq> NaN \<and> fc_target_frame_ms f \<noteq> NaN"
    using demo_calibration_frames by (auto simp: map_eq_Cons_conv)
  moreover have "\<forall>e \<in> set (re_frames demo_runtime_envelope). fe_max_hot_path e \<noteq> NaN"
    by (simp add: demo_runtime_envelope_def demo_envelope_def)
  ultimately show ?thesis
    using manager_directives [of demo_calibration demo_runtime_envelope] demo_directive_frames
    unfolding demo_directive_def by (auto elim: list_all2_mono)
qed

end
