(* ===== verification/Control_State.thy ===== *)
theory Control_State
  imports Runtime_Manager
begin

text \<open>
  The control packet (\<^verbatim>\<open>src/fluidgateway/control_packet.py\<close>), which turns a manager directive into
  numbered commands, and the control state (\<^verbatim>\<open>control_state.py\<close>), which applies the commands one by
  one to a state per frame and a list of memory layers.
\<close>

section \<open>Control packet\<close>

record control_command =
  kc_sequence :: nat
  kc_domain :: pystr
  kc_command :: pystr
  kc_target :: pystr
  kc_frame :: "int option"
  kc_memory :: "pystr option"
  kc_value_ms :: pyfloat
  kc_value_mb :: pyfloat
  kc_setting :: "pystr option"
  kc_priority :: pystr
  kc_source_action :: pystr
  kc_reason :: pystr

definition control_command_to_dict :: "control_command \<Rightarrow> pyval" where
  "control_command_to_dict x = PDict
    [(lit ''sequence'', PInt (int (kc_sequence x))), (lit ''domain'', PStr (kc_domain x)),
     (lit ''command'', PStr (kc_command x)), (lit ''target'', PStr (kc_target x)), (lit ''frame'', opt_int (kc_frame x)),
     (lit ''memory'', opt_str (kc_memory x)), (lit ''value_ms'', round4 (kc_value_ms x)),
     (lit ''value_mb'', round4 (kc_value_mb x)), (lit ''setting'', opt_str (kc_setting x)),
     (lit ''priority'', PStr (kc_priority x)), (lit ''source_action'', PStr (kc_source_action x)),
     (lit ''reason'', PStr (kc_reason x))]"

record control_packet =
  kp_mode :: pystr
  kp_profile :: pystr
  kp_next_frame_policy :: pystr
  kp_dispatch_action :: pystr
  kp_command_count :: nat
  kp_active_command_count :: nat
  kp_frame_command_count :: nat
  kp_queue_command_count :: nat
  kp_scheduler_command_count :: nat
  kp_memory_command_count :: nat
  kp_next_frame_budget_ms :: pyfloat
  kp_hot_path_budget_ms :: pyfloat
  kp_copy_queue_budget_ms :: pyfloat
  kp_pre_frame_window_ms :: pyfloat
  kp_total_expected_memory_relief_mb :: pyfloat
  kp_commands :: "control_command list"

definition control_packet_to_dict :: "control_packet \<Rightarrow> pyval" where
  "control_packet_to_dict x = PDict
    [(lit ''mode'', PStr (kp_mode x)), (lit ''profile'', PStr (kp_profile x)),
     (lit ''next_frame_policy'', PStr (kp_next_frame_policy x)), (lit ''dispatch_action'', PStr (kp_dispatch_action x)),
     (lit ''command_count'', PInt (int (kp_command_count x))),
     (lit ''active_command_count'', PInt (int (kp_active_command_count x))),
     (lit ''frame_command_count'', PInt (int (kp_frame_command_count x))),
     (lit ''queue_command_count'', PInt (int (kp_queue_command_count x))),
     (lit ''scheduler_command_count'', PInt (int (kp_scheduler_command_count x))),
     (lit ''memory_command_count'', PInt (int (kp_memory_command_count x))),
     (lit ''next_frame_budget_ms'', round4 (kp_next_frame_budget_ms x)),
     (lit ''hot_path_budget_ms'', round4 (kp_hot_path_budget_ms x)),
     (lit ''copy_queue_budget_ms'', round4 (kp_copy_queue_budget_ms x)),
     (lit ''pre_frame_window_ms'', round4 (kp_pre_frame_window_ms x)),
     (lit ''total_expected_memory_relief_mb'', round4 (kp_total_expected_memory_relief_mb x)),
     (lit ''commands'', PList (map control_command_to_dict (kp_commands x)))]"

definition replace_char :: "int \<Rightarrow> int \<Rightarrow> pystr \<Rightarrow> pystr" where
  "replace_char a b s = map (\<lambda>c. if c = a then b else c) s"

definition memory_command_name :: "pystr \<Rightarrow> pystr" where
  "memory_command_name action = (if action = lit ''reserve-headroom'' then lit ''reserve_memory_headroom'' else replace_char 45 95 action)"

definition priority_for_frame :: "frame_directive \<Rightarrow> pystr" where
  "priority_for_frame f =
    (if fm_scheduler_mode f \<in> {lit ''closed-loop-aggressive'', lit ''guardband-tightening''} then lit ''high''
     else if fm_scheduler_mode f = lit ''closed-loop-stable'' then lit ''normal'' else lit ''low'')"

definition priority_for_memory :: "memory_directive \<Rightarrow> pystr" where
  "priority_for_memory d =
    (if mm_action d = lit ''evict-or-defer-residency'' then lit ''high''
     else if mm_action d = lit ''reserve-headroom'' then lit ''normal'' else lit ''low'')"

definition is_active :: "control_command \<Rightarrow> bool" where
  "is_active c \<longleftrightarrow> kc_command c \<notin> {lit ''hold_residency'', lit ''observe_residency''}"

definition frame_command :: "frame_directive \<Rightarrow> string \<Rightarrow> string \<Rightarrow> pyfloat \<Rightarrow> pystr option \<Rightarrow> pystr \<Rightarrow> control_command" where
  "frame_command f domain command ms setting source =
    \<lparr>kc_sequence = 0, kc_domain = lit domain, kc_command = lit command, kc_target = lit ''frame:'' @ show_int (fm_frame f),
     kc_frame = Some (fm_frame f), kc_memory = None, kc_value_ms = ms, kc_value_mb = Fin 0, kc_setting = setting,
     kc_priority = priority_for_frame f, kc_source_action = source, kc_reason = fm_reason f\<rparr>"

definition frame_commands :: "frame_directive \<Rightarrow> pystr \<Rightarrow> control_command list" where
  "frame_commands f action =
    [frame_command f ''frame'' ''set_next_frame_budget'' (fm_next_frame_budget_ms f) None action,
     frame_command f ''frame'' ''set_hot_path_budget'' (fm_hot_path_budget_ms f) None action,
     frame_command f ''queue'' ''set_copy_queue_budget'' (fm_copy_queue_budget_ms f) None (fm_queue_policy f),
     frame_command f ''queue'' ''reserve_pre_frame_window'' (fm_pre_frame_window_ms f) None (fm_calibration_action f),
     frame_command f ''scheduler'' ''set_admission_mode'' (Fin 0) (Some (fm_admission_mode f)) (fm_calibration_action f),
     frame_command f ''scheduler'' ''set_scheduler_mode'' (Fin 0) (Some (fm_scheduler_mode f)) (fm_calibration_action f)]"

definition memory_command :: "memory_directive \<Rightarrow> pystr \<Rightarrow> control_command" where
  "memory_command d action =
    \<lparr>kc_sequence = 0, kc_domain = lit ''memory'', kc_command = memory_command_name (mm_action d), kc_target = mm_memory d,
     kc_frame = None, kc_memory = Some (mm_memory d), kc_value_ms = Fin 0,
     kc_value_mb = (if fless (Fin 0) (mm_expected_relief_mb d) then mm_expected_relief_mb d else mm_reserve_headroom_mb d),
     kc_setting = Some (mm_action d), kc_priority = priority_for_memory d, kc_source_action = action, kc_reason = mm_reason d\<rparr>"

text \<open>Rebuilding a command from its dictionary rounds its numbers.\<close>

definition renumber_command :: "nat \<Rightarrow> control_command \<Rightarrow> control_command" where
  "renumber_command i c = c\<lparr>kc_sequence := i, kc_value_ms := fround 4 (kc_value_ms c), kc_value_mb := fround 4 (kc_value_mb c)\<rparr>"

definition build_control_commands :: "manager_directive \<Rightarrow> control_command list" where
  "build_control_commands m = number_with renumber_command
    (concat (map (\<lambda>f. frame_commands f (rm_dispatch_action m)) (rm_frames m))
      @ map (\<lambda>d. memory_command d (rm_dispatch_action m)) (rm_memory_directives m))"

definition count_domain :: "control_command list \<Rightarrow> string \<Rightarrow> nat" where
  "count_domain cs domain = count_if (\<lambda>c. kc_domain c = lit domain) cs"

definition build_runtime_control_packet :: "manager_directive \<Rightarrow> control_packet" where
  "build_runtime_control_packet m =
    (let cs = build_control_commands m
     in \<lparr>kp_mode = lit ''runtime-control-packet-v0.34'', kp_profile = rm_profile m, kp_next_frame_policy = rm_next_frame_policy m,
       kp_dispatch_action = rm_dispatch_action m, kp_command_count = length cs, kp_active_command_count = count_if is_active cs,
       kp_frame_command_count = count_domain cs ''frame'', kp_queue_command_count = count_domain cs ''queue'',
       kp_scheduler_command_count = count_domain cs ''scheduler'', kp_memory_command_count = count_domain cs ''memory'',
       kp_next_frame_budget_ms = rm_next_frame_budget_ms m, kp_hot_path_budget_ms = rm_hot_path_budget_ms m,
       kp_copy_queue_budget_ms = rm_copy_queue_budget_ms m, kp_pre_frame_window_ms = rm_pre_frame_window_ms m,
       kp_total_expected_memory_relief_mb = rm_total_expected_memory_relief_mb m, kp_commands = cs\<rparr>)"

section \<open>Control state\<close>

record frame_control =
  ks_frame :: int
  ks_next_frame_budget_ms :: pyfloat
  ks_hot_path_budget_ms :: pyfloat
  ks_copy_queue_budget_ms :: pyfloat
  ks_pre_frame_window_ms :: pyfloat
  ks_admission_mode :: "pystr option"
  ks_scheduler_mode :: "pystr option"
  ks_priority :: pystr
  ks_command_count :: nat
  ks_active_command_count :: nat

definition frame_control_to_dict :: "frame_control \<Rightarrow> pyval" where
  "frame_control_to_dict x = PDict
    [(lit ''frame'', PInt (ks_frame x)), (lit ''next_frame_budget_ms'', round4 (ks_next_frame_budget_ms x)),
     (lit ''hot_path_budget_ms'', round4 (ks_hot_path_budget_ms x)),
     (lit ''copy_queue_budget_ms'', round4 (ks_copy_queue_budget_ms x)),
     (lit ''pre_frame_window_ms'', round4 (ks_pre_frame_window_ms x)), (lit ''admission_mode'', opt_str (ks_admission_mode x)),
     (lit ''scheduler_mode'', opt_str (ks_scheduler_mode x)), (lit ''priority'', PStr (ks_priority x)),
     (lit ''command_count'', PInt (int (ks_command_count x))),
     (lit ''active_command_count'', PInt (int (ks_active_command_count x)))]"

record memory_control =
  ms_memory :: pystr
  ms_command :: pystr
  ms_setting :: "pystr option"
  ms_expected_relief_mb :: pyfloat
  ms_reserve_headroom_mb :: pyfloat
  ms_active :: bool
  ms_priority :: pystr
  ms_reason :: pystr

definition memory_control_to_dict :: "memory_control \<Rightarrow> pyval" where
  "memory_control_to_dict x = PDict
    [(lit ''memory'', PStr (ms_memory x)), (lit ''command'', PStr (ms_command x)), (lit ''setting'', opt_str (ms_setting x)),
     (lit ''expected_relief_mb'', round4 (ms_expected_relief_mb x)),
     (lit ''reserve_headroom_mb'', round4 (ms_reserve_headroom_mb x)), (lit ''active'', PBool (ms_active x)),
     (lit ''priority'', PStr (ms_priority x)), (lit ''reason'', PStr (ms_reason x))]"

record control_state =
  kt_mode :: pystr
  kt_profile :: pystr
  kt_next_frame_policy :: pystr
  kt_dispatch_action :: pystr
  kt_command_count :: nat
  kt_active_command_count :: nat
  kt_frame_count :: nat
  kt_memory_layer_count :: nat
  kt_applied_frame_budget_count :: nat
  kt_applied_queue_budget_count :: nat
  kt_applied_scheduler_mode_count :: nat
  kt_memory_action_count :: nat
  kt_next_frame_budget_ms :: pyfloat
  kt_hot_path_budget_ms :: pyfloat
  kt_copy_queue_budget_ms :: pyfloat
  kt_pre_frame_window_ms :: pyfloat
  kt_total_expected_memory_relief_mb :: pyfloat
  kt_frames :: "frame_control list"
  kt_memory_layers :: "memory_control list"

definition control_state_to_dict :: "control_state \<Rightarrow> pyval" where
  "control_state_to_dict x = PDict
    [(lit ''mode'', PStr (kt_mode x)), (lit ''profile'', PStr (kt_profile x)),
     (lit ''next_frame_policy'', PStr (kt_next_frame_policy x)), (lit ''dispatch_action'', PStr (kt_dispatch_action x)),
     (lit ''command_count'', PInt (int (kt_command_count x))),
     (lit ''active_command_count'', PInt (int (kt_active_command_count x))),
     (lit ''frame_count'', PInt (int (kt_frame_count x))), (lit ''memory_layer_count'', PInt (int (kt_memory_layer_count x))),
     (lit ''applied_frame_budget_count'', PInt (int (kt_applied_frame_budget_count x))),
     (lit ''applied_queue_budget_count'', PInt (int (kt_applied_queue_budget_count x))),
     (lit ''applied_scheduler_mode_count'', PInt (int (kt_applied_scheduler_mode_count x))),
     (lit ''memory_action_count'', PInt (int (kt_memory_action_count x))),
     (lit ''next_frame_budget_ms'', round4 (kt_next_frame_budget_ms x)),
     (lit ''hot_path_budget_ms'', round4 (kt_hot_path_budget_ms x)),
     (lit ''copy_queue_budget_ms'', round4 (kt_copy_queue_budget_ms x)),
     (lit ''pre_frame_window_ms'', round4 (kt_pre_frame_window_ms x)),
     (lit ''total_expected_memory_relief_mb'', round4 (kt_total_expected_memory_relief_mb x)),
     (lit ''frames'', PList (map frame_control_to_dict (kt_frames x))),
     (lit ''memory_layers'', PList (map memory_control_to_dict (kt_memory_layers x)))]"

definition new_frame_control :: "int \<Rightarrow> frame_control" where
  "new_frame_control frame =
    \<lparr>ks_frame = frame, ks_next_frame_budget_ms = Fin 0, ks_hot_path_budget_ms = Fin 0, ks_copy_queue_budget_ms = Fin 0,
     ks_pre_frame_window_ms = Fin 0, ks_admission_mode = None, ks_scheduler_mode = None, ks_priority = lit ''low'',
     ks_command_count = 0, ks_active_command_count = 0\<rparr>"

definition priority_rank :: "pystr \<Rightarrow> nat" where
  "priority_rank p = (case map_of [(lit ''low'', 0), (lit ''normal'', 1), (lit ''high'', 2)] p of None \<Rightarrow> 0 | Some n \<Rightarrow> n)"

definition stronger_priority :: "pystr \<Rightarrow> pystr \<Rightarrow> pystr" where
  "stronger_priority current incoming = (if priority_rank current < priority_rank incoming then incoming else current)"

definition apply_frame_command :: "control_command \<Rightarrow> frame_control \<Rightarrow> frame_control" where
  "apply_frame_command c s =
    (let s1 = s\<lparr>ks_command_count := ks_command_count s + 1,
           ks_active_command_count := (if is_active c then ks_active_command_count s + 1 else ks_active_command_count s),
           ks_priority := stronger_priority (ks_priority s) (kc_priority c)\<rparr>
     in if kc_command c = lit ''set_next_frame_budget'' then s1\<lparr>ks_next_frame_budget_ms := kc_value_ms c\<rparr>
       else if kc_command c = lit ''set_hot_path_budget'' then s1\<lparr>ks_hot_path_budget_ms := kc_value_ms c\<rparr>
       else if kc_command c = lit ''set_copy_queue_budget'' then s1\<lparr>ks_copy_queue_budget_ms := kc_value_ms c\<rparr>
       else if kc_command c = lit ''reserve_pre_frame_window'' then s1\<lparr>ks_pre_frame_window_ms := kc_value_ms c\<rparr>
       else if kc_command c = lit ''set_admission_mode'' then s1\<lparr>ks_admission_mode := kc_setting c\<rparr>
       else if kc_command c = lit ''set_scheduler_mode'' then s1\<lparr>ks_scheduler_mode := kc_setting c\<rparr>
       else s1)"

definition memory_state_from_command :: "control_command \<Rightarrow> memory_control" where
  "memory_state_from_command c =
    \<lparr>ms_memory = text_or (kc_memory c) (kc_target c), ms_command = kc_command c, ms_setting = kc_setting c,
     ms_expected_relief_mb = (if kc_command c = lit ''evict_or_defer_residency'' then kc_value_mb c else Fin 0),
     ms_reserve_headroom_mb = (if kc_command c = lit ''evict_or_defer_residency'' then Fin 0
       else if kc_command c = lit ''reserve_memory_headroom'' then kc_value_mb c else Fin 0),
     ms_active = is_active c, ms_priority = kc_priority c, ms_reason = kc_reason c\<rparr>"

text \<open>One pass of the loop over the commands: the dictionary of frame states and the list of memory layers.\<close>

type_synonym control_acc = "(int \<times> frame_control) list \<times> memory_control list"

definition apply_command :: "control_command \<Rightarrow> control_acc \<Rightarrow> control_acc" where
  "apply_command c = (\<lambda>(frames, layers).
    (case kc_frame c of
       Some f \<Rightarrow> if kc_domain c \<in> {lit ''frame'', lit ''queue'', lit ''scheduler''}
         then (let s = (case map_of frames f of None \<Rightarrow> new_frame_control f | Some s \<Rightarrow> s)
           in (alist_put f (apply_frame_command c s) frames, layers))
         else if kc_domain c = lit ''memory'' \<and> kc_memory c \<noteq> None then (frames, layers @ [memory_state_from_command c])
         else (frames, layers)
     | None \<Rightarrow> if kc_domain c = lit ''memory'' \<and> kc_memory c \<noteq> None then (frames, layers @ [memory_state_from_command c])
         else (frames, layers)))"

definition apply_commands :: "control_command list \<Rightarrow> control_acc \<Rightarrow> control_acc" where
  "apply_commands cs acc = foldl (\<lambda>a c. apply_command c a) acc cs"

definition apply_runtime_control_packet :: "control_packet \<Rightarrow> control_state" where
  "apply_runtime_control_packet p =
    (let (frames, layers) = apply_commands (kp_commands p) ([], []); states = map snd (sort_key fst frames)
     in \<lparr>kt_mode = lit ''runtime-control-state-v0.35'', kt_profile = kp_profile p, kt_next_frame_policy = kp_next_frame_policy p,
       kt_dispatch_action = kp_dispatch_action p, kt_command_count = kp_command_count p,
       kt_active_command_count = kp_active_command_count p, kt_frame_count = length states, kt_memory_layer_count = length layers,
       kt_applied_frame_budget_count = count_domain (kp_commands p) ''frame'',
       kt_applied_queue_budget_count = count_domain (kp_commands p) ''queue'',
       kt_applied_scheduler_mode_count = count_domain (kp_commands p) ''scheduler'', kt_memory_action_count = count_if ms_active layers,
       kt_next_frame_budget_ms = kp_next_frame_budget_ms p, kt_hot_path_budget_ms = kp_hot_path_budget_ms p,
       kt_copy_queue_budget_ms = kp_copy_queue_budget_ms p, kt_pre_frame_window_ms = kp_pre_frame_window_ms p,
       kt_total_expected_memory_relief_mb = kp_total_expected_memory_relief_mb p, kt_frames = states, kt_memory_layers = layers\<rparr>)"

section \<open>The state a directive asks for\<close>

text \<open>What the manager's directives mean, without commands: the state of a frame and of a memory layer.\<close>

definition frame_control_of :: "frame_directive \<Rightarrow> frame_control" where
  "frame_control_of f =
    \<lparr>ks_frame = fm_frame f, ks_next_frame_budget_ms = fround 4 (fm_next_frame_budget_ms f),
     ks_hot_path_budget_ms = fround 4 (fm_hot_path_budget_ms f), ks_copy_queue_budget_ms = fround 4 (fm_copy_queue_budget_ms f),
     ks_pre_frame_window_ms = fround 4 (fm_pre_frame_window_ms f), ks_admission_mode = Some (fm_admission_mode f),
     ks_scheduler_mode = Some (fm_scheduler_mode f), ks_priority = priority_for_frame f, ks_command_count = 6,
     ks_active_command_count = 6\<rparr>"

text \<open>
  A layer whose directive evicts or defers residency is to be relieved of the directive's amount, one whose directive reserves
  headroom keeps it free, and one that is held or only observed is left alone.
\<close>

definition layer_control :: "memory_directive \<Rightarrow> string \<Rightarrow> string \<Rightarrow> bool \<Rightarrow> pyfloat \<Rightarrow> pyfloat \<Rightarrow> memory_control" where
  "layer_control d command priority active relief headroom =
    \<lparr>ms_memory = mm_memory d, ms_command = lit command, ms_setting = Some (mm_action d), ms_expected_relief_mb = relief,
     ms_reserve_headroom_mb = headroom, ms_active = active, ms_priority = lit priority, ms_reason = mm_reason d\<rparr>"

definition memory_control_of :: "memory_directive \<Rightarrow> memory_control" where
  "memory_control_of d =
    (let mb = fround 4 (if fless (Fin 0) (mm_expected_relief_mb d) then mm_expected_relief_mb d else mm_reserve_headroom_mb d)
     in if mm_action d = lit ''evict-or-defer-residency'' then layer_control d ''evict_or_defer_residency'' ''high'' True mb (Fin 0)
       else if mm_action d = lit ''reserve-headroom'' then layer_control d ''reserve_memory_headroom'' ''normal'' True (Fin 0) mb
       else if mm_action d = lit ''hold-residency'' then layer_control d ''hold_residency'' ''low'' False (Fin 0) (Fin 0)
       else layer_control d ''observe_residency'' ''low'' False (Fin 0) (Fin 0))"

text \<open>The actions the manager gives to a memory layer.\<close>

definition memory_actions :: "pystr set" where
  "memory_actions = lit ` {''evict-or-defer-residency'', ''reserve-headroom'', ''hold-residency'', ''observe-residency''}"

lemma manager_memory_actions:
  "\<forall>d \<in> set (rm_memory_directives (build_runtime_manager_directive c e)). mm_action d \<in> memory_actions"
  by (auto simp: build_runtime_manager_directive_def Let_def build_memory_directive_def memory_directive_of_def memory_actions_def)

lemma renumber_command_fields [simp]:
  "kc_frame (renumber_command i c) = kc_frame c" "kc_domain (renumber_command i c) = kc_domain c"
  "kc_memory (renumber_command i c) = kc_memory c"
  by (simp_all add: renumber_command_def)

lemma renumber_command_applied:
  "apply_frame_command (renumber_command i c) = apply_frame_command (renumber_command 0 c)"
  "memory_state_from_command (renumber_command i c) = memory_state_from_command (renumber_command 0 c)"
proof -
  have same: "kc_command (renumber_command i c) = kc_command c" "kc_priority (renumber_command i c) = kc_priority c"
    "kc_value_ms (renumber_command i c) = fround 4 (kc_value_ms c)" "kc_value_mb (renumber_command i c) = fround 4 (kc_value_mb c)"
    "kc_setting (renumber_command i c) = kc_setting c" "kc_memory (renumber_command i c) = kc_memory c"
    "kc_target (renumber_command i c) = kc_target c" "kc_reason (renumber_command i c) = kc_reason c" for i
    by (simp_all add: renumber_command_def)
  show "apply_frame_command (renumber_command i c) = apply_frame_command (renumber_command 0 c)"
    by (rule ext) (simp only: apply_frame_command_def is_active_def same)
  show "memory_state_from_command (renumber_command i c) = memory_state_from_command (renumber_command 0 c)"
    by (simp only: memory_state_from_command_def is_active_def same)
qed

lemma apply_command_number: "apply_command (renumber_command i c) = apply_command (renumber_command 0 c)"
  unfolding apply_command_def renumber_command_fields renumber_command_applied [of i] ..

lemma apply_commands_number: "apply_commands (number_with renumber_command cs) acc = apply_commands (map (renumber_command 0) cs) acc"
proof -
  have "foldl (\<lambda>a c. apply_command c a) acc (map (\<lambda>(i, c). renumber_command i c) (enumerate n cs))
      = foldl (\<lambda>a c. apply_command c a) acc (map (renumber_command 0) cs)" for n
  proof (induction cs arbitrary: n acc)
    case (Cons c cs)
    then show ?case using apply_command_number [of n c] by simp
  qed simp
  then show ?thesis by (simp add: apply_commands_def number_with_def)
qed

lemma apply_commands_append: "apply_commands (cs @ ds) acc = apply_commands ds (apply_commands cs acc)"
  by (simp add: apply_commands_def)

lemma alist_put_fresh: "k \<notin> fst ` set m \<Longrightarrow> alist_put k v m = m @ [(k, v)]"
  by (induction k v m rule: alist_put.induct) auto

lemma alist_put_last: "k \<notin> fst ` set m \<Longrightarrow> alist_put k v (m @ [(k, w)]) = m @ [(k, v)]"
  by (induction m) auto

lemma map_of_last: "k \<notin> fst ` set m \<Longrightarrow> map_of (m @ [(k, w)]) k = Some w"
  by (induction m) auto

lemma stronger_priority_frame: "stronger_priority (lit ''low'') (priority_for_frame f) = priority_for_frame f"
  by (simp add: stronger_priority_def priority_rank_def priority_for_frame_def)

lemma stronger_priority_same: "stronger_priority p p = p"
  by (simp add: stronger_priority_def)

text \<open>A run of commands on one frame that is already in the dictionary changes only that frame's state.\<close>

lemma apply_frame_run:
  assumes "k \<notin> fst ` set frames"
    and "\<forall>c \<in> set cs. kc_frame c = Some k \<and> kc_domain c \<in> {lit ''frame'', lit ''queue'', lit ''scheduler''}"
  shows "apply_commands cs (frames @ [(k, s)], layers) = (frames @ [(k, foldl (\<lambda>s c. apply_frame_command c s) s cs)], layers)"
  using assms(2)
proof (induction cs arbitrary: s)
  case (Cons c cs)
  then have c: "kc_frame c = Some k" "kc_domain c \<in> {lit ''frame'', lit ''queue'', lit ''scheduler''}" by auto
  have "apply_command c (frames @ [(k, s)], layers) = (frames @ [(k, apply_frame_command c s)], layers)"
    using c by (simp add: apply_command_def map_of_last [OF assms(1)] alist_put_last [OF assms(1)] del: map_of_append)
  then show ?case using Cons by (simp add: apply_commands_def)
qed (simp add: apply_commands_def)

lemma apply_frame_new:
  assumes "k \<notin> fst ` set frames" and "cs \<noteq> []"
    and "\<forall>c \<in> set cs. kc_frame c = Some k \<and> kc_domain c \<in> {lit ''frame'', lit ''queue'', lit ''scheduler''}"
  shows "apply_commands cs (frames, layers)
    = (frames @ [(k, foldl (\<lambda>s c. apply_frame_command c s) (new_frame_control k) cs)], layers)"
proof -
  from assms(2) obtain c ds where cs: "cs = c # ds" by (cases cs) auto
  have "map_of frames k = None" using assms(1) by (simp add: map_of_eq_None_iff)
  then have "apply_command c (frames, layers) = (frames @ [(k, apply_frame_command c (new_frame_control k))], layers)"
    using assms(3) by (auto simp: cs apply_command_def alist_put_fresh [OF assms(1)])
  then show ?thesis using apply_frame_run [OF assms(1), of ds] assms(3) by (simp add: cs apply_commands_def)
qed

lemma frame_commands_control:
  "foldl (\<lambda>s c. apply_frame_command c s) (new_frame_control (fm_frame f)) (map (renumber_command 0) (frame_commands f a)) = frame_control_of f"
  by (simp add: frame_commands_def frame_command_def renumber_command_def apply_frame_command_def new_frame_control_def
    frame_control_of_def is_active_def stronger_priority_frame stronger_priority_same Let_def)

lemma apply_frames:
  assumes "distinct (map fm_frame fs)" and "fm_frame ` set fs \<inter> fst ` set frames = {}"
  shows "apply_commands (map (renumber_command 0) (concat (map (\<lambda>f. frame_commands f a) fs))) (frames, layers)
    = (frames @ map (\<lambda>f. (fm_frame f, frame_control_of f)) fs, layers)"
  using assms
proof (induction fs arbitrary: frames)
  case (Cons f fs)
  have "apply_commands (map (renumber_command 0) (frame_commands f a)) (frames, layers)
      = (frames @ [(fm_frame f, frame_control_of f)], layers)"
    using Cons.prems(2) unfolding frame_commands_control [of f a, symmetric]
    by (intro apply_frame_new) (auto simp: frame_commands_def frame_command_def renumber_command_def)
  then show ?case using Cons by (simp add: apply_commands_append)
qed (simp add: apply_commands_def)

definition commanded_layer :: "pystr \<Rightarrow> memory_directive \<Rightarrow> memory_control" where
  "commanded_layer a d = memory_state_from_command (renumber_command 0 (memory_command d a))"

lemma apply_layers:
  "apply_commands (map (renumber_command 0) (map (\<lambda>d. memory_command d a) ds)) (frames, layers)
    = (frames, layers @ map (commanded_layer a) ds)"
proof (induction ds arbitrary: layers)
  case (Cons d ds)
  have "apply_command (renumber_command 0 (memory_command d a)) (frames, layers) = (frames, layers @ [commanded_layer a d])"
    by (simp add: apply_command_def commanded_layer_def) (simp add: memory_command_def)
  then show ?case using Cons by (simp add: apply_commands_def)
qed (simp add: apply_commands_def)

lemma memory_names:
  "memory_command_name (lit ''evict-or-defer-residency'') = lit ''evict_or_defer_residency''"
  "memory_command_name (lit ''reserve-headroom'') = lit ''reserve_memory_headroom''"
  "memory_command_name (lit ''hold-residency'') = lit ''hold_residency''"
  "memory_command_name (lit ''observe-residency'') = lit ''observe_residency''"
  by code_simp+

lemma commanded_memory_control: "mm_action d \<in> memory_actions \<Longrightarrow> commanded_layer a d = memory_control_of d"
  by (auto simp: memory_actions_def commanded_layer_def memory_state_from_command_def renumber_command_def memory_command_def
      memory_control_of_def layer_control_def memory_names priority_for_memory_def is_active_def text_or_def Let_def)

lemma sort_key_map: "sort_key f (map g xs) = map g (sort_key (f \<circ> g) xs)"
proof -
  have insort: "insort_key f (g x) (map g ys) = map g (insort_key (f \<circ> g) x ys)" for x ys
    by (induction ys) simp_all
  show ?thesis by (induction xs) (simp_all add: insort del: o_apply flip: comp_def)
qed

lemma control_fields:
  assumes "distinct (map fm_frame (rm_frames m))"
  shows "kt_frames (apply_runtime_control_packet (build_runtime_control_packet m)) = map frame_control_of (sort_key fm_frame (rm_frames m))"
    and "kt_memory_layers (apply_runtime_control_packet (build_runtime_control_packet m))
      = map (commanded_layer (rm_dispatch_action m)) (rm_memory_directives m)"
    and "kt_frame_count (apply_runtime_control_packet (build_runtime_control_packet m)) = length (rm_frames m)"
proof -
  let ?frames = "map (\<lambda>f. (fm_frame f, frame_control_of f)) (rm_frames m)"
  let ?layers = "map (commanded_layer (rm_dispatch_action m)) (rm_memory_directives m)"
  have acc: "apply_commands (kp_commands (build_runtime_control_packet m)) ([], []) = (?frames, ?layers)"
    using apply_frames [OF assms, of "[]" "rm_dispatch_action m" "[]"]
    by (simp add: build_runtime_control_packet_def Let_def build_control_commands_def apply_commands_number apply_commands_append
      apply_layers [unfolded map_map] del: map_map) (simp add: apply_layers [unfolded map_map])
  have states: "map snd (sort_key fst ?frames) = map frame_control_of (sort_key fm_frame (rm_frames m))"
    by (simp add: sort_key_map comp_def)
  from acc states show "kt_frames (apply_runtime_control_packet (build_runtime_control_packet m)) = map frame_control_of (sort_key fm_frame (rm_frames m))"
    and "kt_memory_layers (apply_runtime_control_packet (build_runtime_control_packet m)) = ?layers"
    and "kt_frame_count (apply_runtime_control_packet (build_runtime_control_packet m)) = length (rm_frames m)"
    by (simp_all add: apply_runtime_control_packet_def Let_def)
qed

lemmas control_frames = control_fields(1)

text \<open>C10: Sending a manager directive as a control packet and applying its commands one by one gives exactly the state the
  directive describes: for every frame the budgets (rounded to four decimals as the packet carries them), modes and priority
  of its directive, in increasing order of frames; and for every memory layer, in order, the amount to relieve when its directive
  evicts, the headroom to keep when it reserves, and nothing to do when it holds or observes. The frames of the directive are
  distinct and its memory actions are among the manager's four.\<close>

theorem control_state_refines_directive:
  assumes "distinct (map fm_frame (rm_frames m))" and "\<forall>d \<in> set (rm_memory_directives m). mm_action d \<in> memory_actions"
  shows "let s = apply_runtime_control_packet (build_runtime_control_packet m) in
    kt_frames s = map frame_control_of (sort_key fm_frame (rm_frames m))
    \<and> kt_memory_layers s = map memory_control_of (rm_memory_directives m)
    \<and> kt_frame_count s = length (rm_frames m)"
  using control_fields [OF assms(1)] assms(2) by (simp add: Let_def commanded_memory_control cong: map_cong)

section \<open>Witness\<close>

definition demo_memory_directive :: "string \<Rightarrow> string \<Rightarrow> pyfloat \<Rightarrow> pyfloat \<Rightarrow> memory_directive" where
  "demo_memory_directive memory action relief headroom =
    \<lparr>mm_memory = lit memory, mm_active_mb = Fin 0, mm_budget_mb = None, mm_pressure_mb = Fin 0, mm_status = [],
     mm_action = lit action, mm_expected_relief_mb = relief, mm_reserve_headroom_mb = headroom, mm_reason = []\<rparr>"

definition demo_full_directive :: manager_directive where
  "demo_full_directive = demo_directive\<lparr>rm_memory_directives :=
    [demo_memory_directive ''ram'' ''reserve-headroom'' (Fin 0) (Fin 8), demo_memory_directive ''vram'' ''evict-or-defer-residency'' (Fin 3) (Fin 0)]\<rparr>"

theorem control_state_refines_directive_witness:
  "let s = apply_runtime_control_packet (build_runtime_control_packet demo_full_directive) in
    map ks_frame (kt_frames s) = [1, 2] \<and> kt_frame_count s = 2
    \<and> map ms_expected_relief_mb (kt_memory_layers s) = [Fin 0, Fin 3] \<and> map ms_reserve_headroom_mb (kt_memory_layers s) = [Fin 8, Fin 0]"
proof -
  have frames: "map fm_frame (rm_frames demo_full_directive) = [1, 2]" by (simp add: demo_full_directive_def demo_directive_frames)
  then have "length (rm_frames demo_full_directive) = 2" by (metis length_map length_Cons list.size(3) numeral_2_eq_2)
  moreover have "map fm_frame (sort_key fm_frame (rm_frames demo_full_directive)) = sort (map fm_frame (rm_frames demo_full_directive))"
    by (rule sym, rule properties_for_sort) simp_all
  then have "map fm_frame (sort_key fm_frame (rm_frames demo_full_directive)) = [1, 2]" by (simp add: frames)
  moreover have "fround 4 (Fin 8) = Fin 8" "fround 4 (Fin 3) = Fin 3" "lit ''evict-or-defer-residency'' \<noteq> lit ''reserve-headroom''" by code_simp+
  then have "map ms_expected_relief_mb (map memory_control_of (rm_memory_directives demo_full_directive)) = [Fin 0, Fin 3]"
    "map ms_reserve_headroom_mb (map memory_control_of (rm_memory_directives demo_full_directive)) = [Fin 8, Fin 0]"
    by (simp_all add: demo_full_directive_def demo_memory_directive_def memory_control_of_def layer_control_def)
  moreover have "\<forall>d \<in> set (rm_memory_directives demo_full_directive). mm_action d \<in> memory_actions"
    by (simp add: demo_full_directive_def demo_memory_directive_def memory_actions_def)
  ultimately show ?thesis
    using control_state_refines_directive [of demo_full_directive] frames
    by (simp add: Let_def frame_control_of_def comp_def)
qed

end
