(* ===== verification/Gateway_Cycle.thy ===== *)
theory Gateway_Cycle
  imports Control_State
begin

text \<open>
  The gateway tick (\<^verbatim>\<open>src/fluidgateway/gateway.py\<close>), the steps the control state asks for, and the
  simulated cycle that takes them (\<^verbatim>\<open>gateway_cycle.py\<close>).
\<close>

section \<open>Tick\<close>

record gateway_step =
  gs_sequence :: nat
  gs_domain :: pystr
  gs_lane :: pystr
  gs_action :: pystr
  gs_frame :: "int option"
  gs_memory :: "pystr option"
  gs_budget_ms :: pyfloat
  gs_budget_mb :: pyfloat
  gs_setting :: "pystr option"
  gs_active :: bool
  gs_priority :: pystr
  gs_reason :: pystr

definition gateway_step_to_dict :: "gateway_step \<Rightarrow> pyval" where
  "gateway_step_to_dict x = PDict
    [(lit ''sequence'', PInt (int (gs_sequence x))), (lit ''domain'', PStr (gs_domain x)), (lit ''lane'', PStr (gs_lane x)),
     (lit ''action'', PStr (gs_action x)), (lit ''frame'', opt_int (gs_frame x)), (lit ''memory'', opt_str (gs_memory x)),
     (lit ''budget_ms'', round4 (gs_budget_ms x)), (lit ''budget_mb'', round4 (gs_budget_mb x)),
     (lit ''setting'', opt_str (gs_setting x)), (lit ''active'', PBool (gs_active x)),
     (lit ''priority'', PStr (gs_priority x)), (lit ''reason'', PStr (gs_reason x))]"

record gateway_tick =
  gt_mode :: pystr
  gt_profile :: pystr
  gt_tick_policy :: pystr
  gt_next_frame_policy :: pystr
  gt_dispatch_action :: pystr
  gt_step_count :: nat
  gt_active_step_count :: nat
  gt_frame_count :: nat
  gt_memory_layer_count :: nat
  gt_display_lane_step_count :: nat
  gt_cpu_lane_step_count :: nat
  gt_gpu_lane_step_count :: nat
  gt_copy_queue_step_count :: nat
  gt_scheduler_step_count :: nat
  gt_memory_lane_step_count :: nat
  gt_memory_active_step_count :: nat
  gt_next_frame_budget_ms :: pyfloat
  gt_hot_path_budget_ms :: pyfloat
  gt_copy_queue_budget_ms :: pyfloat
  gt_pre_frame_window_ms :: pyfloat
  gt_memory_relief_target_mb :: pyfloat
  gt_steps :: "gateway_step list"

definition gateway_tick_to_dict :: "gateway_tick \<Rightarrow> pyval" where
  "gateway_tick_to_dict x = PDict
    [(lit ''mode'', PStr (gt_mode x)), (lit ''profile'', PStr (gt_profile x)), (lit ''tick_policy'', PStr (gt_tick_policy x)),
     (lit ''next_frame_policy'', PStr (gt_next_frame_policy x)), (lit ''dispatch_action'', PStr (gt_dispatch_action x)),
     (lit ''step_count'', PInt (int (gt_step_count x))), (lit ''active_step_count'', PInt (int (gt_active_step_count x))),
     (lit ''frame_count'', PInt (int (gt_frame_count x))), (lit ''memory_layer_count'', PInt (int (gt_memory_layer_count x))),
     (lit ''display_lane_step_count'', PInt (int (gt_display_lane_step_count x))),
     (lit ''cpu_lane_step_count'', PInt (int (gt_cpu_lane_step_count x))),
     (lit ''gpu_lane_step_count'', PInt (int (gt_gpu_lane_step_count x))),
     (lit ''copy_queue_step_count'', PInt (int (gt_copy_queue_step_count x))),
     (lit ''scheduler_step_count'', PInt (int (gt_scheduler_step_count x))),
     (lit ''memory_lane_step_count'', PInt (int (gt_memory_lane_step_count x))),
     (lit ''memory_active_step_count'', PInt (int (gt_memory_active_step_count x))),
     (lit ''next_frame_budget_ms'', round4 (gt_next_frame_budget_ms x)),
     (lit ''hot_path_budget_ms'', round4 (gt_hot_path_budget_ms x)),
     (lit ''copy_queue_budget_ms'', round4 (gt_copy_queue_budget_ms x)),
     (lit ''pre_frame_window_ms'', round4 (gt_pre_frame_window_ms x)),
     (lit ''memory_relief_target_mb'', round4 (gt_memory_relief_target_mb x)),
     (lit ''steps'', PList (map gateway_step_to_dict (gt_steps x)))]"

definition copy_queue_action :: "frame_control \<Rightarrow> pystr" where
  "copy_queue_action s = (if fle (ks_copy_queue_budget_ms s) (Fin 0) then lit ''block_late_copy_queue'' else lit ''budget_copy_queue'')"

definition memory_action :: "memory_control \<Rightarrow> pystr" where
  "memory_action l =
    (if ms_command l = lit ''evict_or_defer_residency'' then lit ''relieve_memory_residency''
     else if ms_command l = lit ''reserve_memory_headroom'' then lit ''reserve_memory_headroom''
     else if ms_command l = lit ''hold_residency'' then lit ''hold_memory_residency''
     else lit ''observe_memory_residency'')"

definition memory_budget_mb :: "memory_control \<Rightarrow> pyfloat" where
  "memory_budget_mb l = fmax (ms_expected_relief_mb l) (ms_reserve_headroom_mb l)"

definition frame_step :: "frame_control \<Rightarrow> string \<Rightarrow> string \<Rightarrow> pystr \<Rightarrow> pyfloat \<Rightarrow> pystr option \<Rightarrow> gateway_step" where
  "frame_step s domain lane action ms setting =
    \<lparr>gs_sequence = 0, gs_domain = lit domain, gs_lane = lit lane, gs_action = action, gs_frame = Some (ks_frame s), gs_memory = None,
     gs_budget_ms = ms, gs_budget_mb = Fin 0, gs_setting = setting, gs_active = True, gs_priority = ks_priority s,
     gs_reason = lit ''Apply consolidated frame control state in the next gateway tick.''\<rparr>"

definition frame_steps :: "frame_control \<Rightarrow> gateway_step list" where
  "frame_steps s =
    [frame_step s ''frame'' ''display-frame'' (lit ''protect_next_frame_budget'') (ks_next_frame_budget_ms s) None,
     frame_step s ''frame'' ''gpu-hot-path'' (lit ''protect_gpu_hot_path'') (ks_hot_path_budget_ms s) None,
     frame_step s ''queue'' ''copy-queue'' (copy_queue_action s) (ks_copy_queue_budget_ms s) None,
     frame_step s ''queue'' ''cpu-pre-frame'' (lit ''reserve_pre_frame_window'') (ks_pre_frame_window_ms s) None,
     frame_step s ''scheduler'' ''cpu-admission'' (lit ''apply_admission_mode'') (Fin 0) (ks_admission_mode s),
     frame_step s ''scheduler'' ''scheduler'' (lit ''apply_scheduler_mode'') (Fin 0) (ks_scheduler_mode s)]"

definition memory_step :: "memory_control \<Rightarrow> gateway_step" where
  "memory_step l =
    \<lparr>gs_sequence = 0, gs_domain = lit ''memory'', gs_lane = lit ''memory:'' @ ms_memory l, gs_action = memory_action l,
     gs_frame = None, gs_memory = Some (ms_memory l), gs_budget_ms = Fin 0, gs_budget_mb = memory_budget_mb l,
     gs_setting = ms_setting l, gs_active = ms_active l, gs_priority = ms_priority l, gs_reason = ms_reason l\<rparr>"

definition tick_policy :: "control_state \<Rightarrow> pystr" where
  "tick_policy s =
    (if kt_profile s = lit ''aggressive'' \<or> 0 < kt_memory_action_count s then lit ''closed-loop-pressure-management''
     else if kt_profile s = lit ''stable'' then lit ''stable-budget-guard'' else lit ''observe-only'')"

text \<open>Rebuilding a step from its dictionary rounds its numbers.\<close>

definition renumber_step :: "nat \<Rightarrow> gateway_step \<Rightarrow> gateway_step" where
  "renumber_step i s = s\<lparr>gs_sequence := i, gs_budget_ms := fround 4 (gs_budget_ms s), gs_budget_mb := fround 4 (gs_budget_mb s)\<rparr>"

definition count_lane :: "gateway_step list \<Rightarrow> string \<Rightarrow> nat" where
  "count_lane steps lane = count_if (\<lambda>s. gs_lane s = lit lane) steps"

definition count_lane_prefix :: "gateway_step list \<Rightarrow> string \<Rightarrow> nat" where
  "count_lane_prefix steps prefix = count_if (\<lambda>s. starts_with (lit prefix) (gs_lane s)) steps"

definition build_runtime_gateway_tick :: "control_state \<Rightarrow> gateway_tick" where
  "build_runtime_gateway_tick s =
    (let steps = number_with renumber_step (concat (map frame_steps (kt_frames s)) @ map memory_step (kt_memory_layers s))
     in \<lparr>gt_mode = lit ''runtime-gateway-tick-v0.36'', gt_profile = kt_profile s, gt_tick_policy = tick_policy s,
       gt_next_frame_policy = kt_next_frame_policy s, gt_dispatch_action = kt_dispatch_action s, gt_step_count = length steps,
       gt_active_step_count = count_if gs_active steps, gt_frame_count = kt_frame_count s,
       gt_memory_layer_count = kt_memory_layer_count s, gt_display_lane_step_count = count_lane steps ''display-frame'',
       gt_cpu_lane_step_count = count_lane_prefix steps ''cpu-'', gt_gpu_lane_step_count = count_lane steps ''gpu-hot-path'',
       gt_copy_queue_step_count = count_lane steps ''copy-queue'', gt_scheduler_step_count = count_lane steps ''scheduler'',
       gt_memory_lane_step_count = count_lane_prefix steps ''memory:'',
       gt_memory_active_step_count = count_if (\<lambda>t. starts_with (lit ''memory:'') (gs_lane t) \<and> gs_active t) steps,
       gt_next_frame_budget_ms = kt_next_frame_budget_ms s, gt_hot_path_budget_ms = kt_hot_path_budget_ms s,
       gt_copy_queue_budget_ms = kt_copy_queue_budget_ms s, gt_pre_frame_window_ms = kt_pre_frame_window_ms s,
       gt_memory_relief_target_mb = kt_total_expected_memory_relief_mb s, gt_steps = steps\<rparr>)"

section \<open>Cycle\<close>

record cycle_step =
  gr_sequence :: nat
  gr_domain :: pystr
  gr_lane :: pystr
  gr_action :: pystr
  gr_frame :: "int option"
  gr_memory :: "pystr option"
  gr_status :: pystr
  gr_active :: bool
  gr_priority :: pystr
  gr_protected_budget_ms :: pyfloat
  gr_reserved_window_ms :: pyfloat
  gr_copy_queue_budget_ms :: pyfloat
  gr_memory_relief_mb :: pyfloat
  gr_memory_headroom_mb :: pyfloat
  gr_drift_risk :: pystr
  gr_feedback :: pystr

definition cycle_step_to_dict :: "cycle_step \<Rightarrow> pyval" where
  "cycle_step_to_dict x = PDict
    [(lit ''sequence'', PInt (int (gr_sequence x))), (lit ''domain'', PStr (gr_domain x)), (lit ''lane'', PStr (gr_lane x)),
     (lit ''action'', PStr (gr_action x)), (lit ''frame'', opt_int (gr_frame x)), (lit ''memory'', opt_str (gr_memory x)),
     (lit ''status'', PStr (gr_status x)), (lit ''active'', PBool (gr_active x)), (lit ''priority'', PStr (gr_priority x)),
     (lit ''protected_budget_ms'', round4 (gr_protected_budget_ms x)),
     (lit ''reserved_window_ms'', round4 (gr_reserved_window_ms x)),
     (lit ''copy_queue_budget_ms'', round4 (gr_copy_queue_budget_ms x)),
     (lit ''memory_relief_mb'', round4 (gr_memory_relief_mb x)),
     (lit ''memory_headroom_mb'', round4 (gr_memory_headroom_mb x)), (lit ''drift_risk'', PStr (gr_drift_risk x)),
     (lit ''feedback'', PStr (gr_feedback x))]"

record cycle_report =
  gc_mode :: pystr
  gc_profile :: pystr
  gc_tick_policy :: pystr
  gc_next_cycle_action :: pystr
  gc_drift_risk :: pystr
  gc_step_count :: nat
  gc_applied_step_count :: nat
  gc_observed_step_count :: nat
  gc_frame_count :: nat
  gc_memory_layer_count :: nat
  gc_high_priority_step_count :: nat
  gc_protected_budget_ms :: pyfloat
  gc_reserved_pre_frame_ms :: pyfloat
  gc_copy_queue_budget_ms :: pyfloat
  gc_blocked_copy_queue_count :: nat
  gc_admission_mode_count :: nat
  gc_scheduler_mode_count :: nat
  gc_memory_relief_applied_mb :: pyfloat
  gc_memory_headroom_reserved_mb :: pyfloat
  gc_memory_observed_count :: nat
  gc_step_results :: "cycle_step list"

definition cycle_report_to_dict :: "cycle_report \<Rightarrow> pyval" where
  "cycle_report_to_dict x = PDict
    [(lit ''mode'', PStr (gc_mode x)), (lit ''profile'', PStr (gc_profile x)), (lit ''tick_policy'', PStr (gc_tick_policy x)),
     (lit ''next_cycle_action'', PStr (gc_next_cycle_action x)), (lit ''drift_risk'', PStr (gc_drift_risk x)),
     (lit ''step_count'', PInt (int (gc_step_count x))), (lit ''applied_step_count'', PInt (int (gc_applied_step_count x))),
     (lit ''observed_step_count'', PInt (int (gc_observed_step_count x))),
     (lit ''frame_count'', PInt (int (gc_frame_count x))), (lit ''memory_layer_count'', PInt (int (gc_memory_layer_count x))),
     (lit ''high_priority_step_count'', PInt (int (gc_high_priority_step_count x))),
     (lit ''protected_budget_ms'', round4 (gc_protected_budget_ms x)),
     (lit ''reserved_pre_frame_ms'', round4 (gc_reserved_pre_frame_ms x)),
     (lit ''copy_queue_budget_ms'', round4 (gc_copy_queue_budget_ms x)),
     (lit ''blocked_copy_queue_count'', PInt (int (gc_blocked_copy_queue_count x))),
     (lit ''admission_mode_count'', PInt (int (gc_admission_mode_count x))),
     (lit ''scheduler_mode_count'', PInt (int (gc_scheduler_mode_count x))),
     (lit ''memory_relief_applied_mb'', round4 (gc_memory_relief_applied_mb x)),
     (lit ''memory_headroom_reserved_mb'', round4 (gc_memory_headroom_reserved_mb x)),
     (lit ''memory_observed_count'', PInt (int (gc_memory_observed_count x))),
     (lit ''step_results'', PList (map cycle_step_to_dict (gc_step_results x)))]"

definition protected_budget_ms :: "gateway_step \<Rightarrow> pyfloat" where
  "protected_budget_ms s =
    (if gs_action s \<in> {lit ''protect_next_frame_budget'', lit ''protect_gpu_hot_path''} then gs_budget_ms s else Fin 0)"

definition reserved_window_ms :: "gateway_step \<Rightarrow> pyfloat" where
  "reserved_window_ms s = (if gs_action s = lit ''reserve_pre_frame_window'' then gs_budget_ms s else Fin 0)"

definition copy_queue_budget_ms :: "gateway_step \<Rightarrow> pyfloat" where
  "copy_queue_budget_ms s = (if gs_lane s = lit ''copy-queue'' then gs_budget_ms s else Fin 0)"

definition memory_relief_mb :: "gateway_step \<Rightarrow> pyfloat" where
  "memory_relief_mb s = (if gs_action s = lit ''relieve_memory_residency'' then gs_budget_mb s else Fin 0)"

definition memory_headroom_mb :: "gateway_step \<Rightarrow> pyfloat" where
  "memory_headroom_mb s = (if gs_action s = lit ''reserve_memory_headroom'' then gs_budget_mb s else Fin 0)"

definition step_drift_risk :: "gateway_step \<Rightarrow> pystr" where
  "step_drift_risk s =
    (if \<not> gs_active s then lit ''low''
     else if gs_action s \<in> {lit ''block_late_copy_queue'', lit ''relieve_memory_residency''} then lit ''medium''
     else if gs_priority s = lit ''high'' then lit ''medium'' else lit ''low'')"

definition step_feedback :: "gateway_step \<Rightarrow> pystr" where
  "step_feedback s =
    (if \<not> gs_active s then lit ''Observed lane only; no runtime mutation is simulated.''
     else if gs_action s = lit ''block_late_copy_queue'' then lit ''Late copy queue work is blocked for this simulated cycle.''
     else if gs_action s = lit ''budget_copy_queue'' then lit ''Copy queue work is admitted inside the simulated budget.''
     else if gs_action s = lit ''relieve_memory_residency'' then lit ''Memory residency relief is applied in the simulated cycle.''
     else if gs_action s = lit ''reserve_memory_headroom'' then lit ''Memory headroom is reserved for the next simulated cycle.''
     else if gs_action s = lit ''reserve_pre_frame_window'' then lit ''Pre-frame work window is reserved before the hot path.''
     else if starts_with (lit ''protect_'') (gs_action s) then lit ''Critical frame budget is protected in the simulated cycle.''
     else lit ''Runtime mode is applied in the simulated cycle.'')"

definition gateway_step_result :: "gateway_step \<Rightarrow> cycle_step" where
  "gateway_step_result s =
    \<lparr>gr_sequence = gs_sequence s, gr_domain = gs_domain s, gr_lane = gs_lane s, gr_action = gs_action s, gr_frame = gs_frame s,
     gr_memory = gs_memory s, gr_status = (if gs_active s then lit ''applied'' else lit ''observed''), gr_active = gs_active s,
     gr_priority = gs_priority s, gr_protected_budget_ms = protected_budget_ms s, gr_reserved_window_ms = reserved_window_ms s,
     gr_copy_queue_budget_ms = copy_queue_budget_ms s, gr_memory_relief_mb = memory_relief_mb s,
     gr_memory_headroom_mb = memory_headroom_mb s, gr_drift_risk = step_drift_risk s, gr_feedback = step_feedback s\<rparr>"

definition next_cycle_action :: "pyfloat \<Rightarrow> pyfloat \<Rightarrow> nat \<Rightarrow> pystr" where
  "next_cycle_action relief headroom blocked =
    (if fless (Fin 0) relief \<or> 0 < blocked then lit ''continue-pressure-management''
     else if fless (Fin 0) headroom then lit ''monitor-headroom'' else lit ''maintain-cycle'')"

definition cycle_drift_risk :: "pystr \<Rightarrow> pyfloat \<Rightarrow> pyfloat \<Rightarrow> nat \<Rightarrow> pystr" where
  "cycle_drift_risk profile relief headroom blocked =
    (if profile = lit ''aggressive'' \<and> fless (Fin 0) relief \<and> 0 < blocked then lit ''high''
     else if fless (Fin 0) relief \<or> fless (Fin 0) headroom \<or> 0 < blocked then lit ''medium'' else lit ''low'')"

definition count_action :: "cycle_step list \<Rightarrow> string \<Rightarrow> nat" where
  "count_action rs action = count_if (\<lambda>r. gr_action r = lit action) rs"

definition execute_runtime_gateway_tick :: "gateway_tick \<Rightarrow> cycle_report" where
  "execute_runtime_gateway_tick t =
    (let rs = map gateway_step_result (gt_steps t); relief = fsum (map gr_memory_relief_mb rs);
         headroom = fsum (map gr_memory_headroom_mb rs); blocked = count_action rs ''block_late_copy_queue''
     in \<lparr>gc_mode = lit ''runtime-gateway-cycle-v0.37'', gc_profile = gt_profile t, gc_tick_policy = gt_tick_policy t,
       gc_next_cycle_action = next_cycle_action relief headroom blocked,
       gc_drift_risk = cycle_drift_risk (gt_profile t) relief headroom blocked, gc_step_count = length rs,
       gc_applied_step_count = count_if (\<lambda>r. gr_status r = lit ''applied'') rs,
       gc_observed_step_count = count_if (\<lambda>r. gr_status r = lit ''observed'') rs, gc_frame_count = gt_frame_count t,
       gc_memory_layer_count = gt_memory_layer_count t,
       gc_high_priority_step_count = count_if (\<lambda>r. gr_priority r = lit ''high'') rs,
       gc_protected_budget_ms = fsum (map gr_protected_budget_ms rs), gc_reserved_pre_frame_ms = fsum (map gr_reserved_window_ms rs),
       gc_copy_queue_budget_ms = fsum (map gr_copy_queue_budget_ms rs), gc_blocked_copy_queue_count = blocked,
       gc_admission_mode_count = count_action rs ''apply_admission_mode'',
       gc_scheduler_mode_count = count_action rs ''apply_scheduler_mode'', gc_memory_relief_applied_mb = relief,
       gc_memory_headroom_reserved_mb = headroom,
       gc_memory_observed_count = count_if (\<lambda>r. gr_domain r = lit ''memory'' \<and> gr_status r = lit ''observed'') rs,
       gc_step_results = rs\<rparr>)"

section \<open>What a cycle does\<close>

definition tick_base :: "control_state \<Rightarrow> gateway_step list" where
  "tick_base s = concat (map frame_steps (kt_frames s)) @ map memory_step (kt_memory_layers s)"

definition cycle_of :: "control_state \<Rightarrow> cycle_report" where
  "cycle_of s = execute_runtime_gateway_tick (build_runtime_gateway_tick s)"

definition base_result :: "gateway_step \<Rightarrow> cycle_step" where
  "base_result g = gateway_step_result (renumber_step 0 g)"

text \<open>Apart from their numbers, the results of a cycle are those of the steps before numbering.\<close>

lemma cycle_filter:
  assumes "\<And>r i. g (r\<lparr>gr_sequence := i\<rparr>) = g r" and "\<And>r i. q (r\<lparr>gr_sequence := i\<rparr>) = q r"
  shows "map g (filter q (gc_step_results (cycle_of s))) = map g (filter q (map base_result (tick_base s)))"
proof -
  have number: "gateway_step_result (renumber_step i x) = (base_result x)\<lparr>gr_sequence := i\<rparr>" for i x
    by (simp add: base_result_def gateway_step_result_def renumber_step_def protected_budget_ms_def reserved_window_ms_def
      copy_queue_budget_ms_def memory_relief_mb_def memory_headroom_mb_def step_drift_risk_def step_feedback_def)
  have "map g (filter q (map gateway_step_result (map (\<lambda>(i, x). renumber_step i x) (enumerate n xs))))
      = map g (filter q (map base_result xs))" for n xs
    by (induction xs arbitrary: n) (simp_all add: number assms)
  then show ?thesis
    by (simp add: cycle_of_def execute_runtime_gateway_tick_def build_runtime_gateway_tick_def Let_def number_with_def tick_base_def
      flip: map_map)
qed

lemma cycle_count:
  assumes "\<And>r i. q (r\<lparr>gr_sequence := i\<rparr>) = q r"
  shows "count_if q (gc_step_results (cycle_of s)) = count_if (q \<circ> base_result) (tick_base s)"
proof -
  have "length (map (\<lambda>r. ()) (filter q (gc_step_results (cycle_of s)))) = length (map (\<lambda>r. ()) (filter q (map base_result (tick_base s))))"
    by (subst cycle_filter) (simp_all add: assms)
  then show ?thesis by (simp add: count_if_def filter_map comp_def)
qed

lemma count_if_append [simp]: "count_if q (xs @ ys) = count_if q xs + count_if q ys"
  by (simp add: count_if_def)

lemma count_if_simps [simp]: "count_if q [] = 0" "count_if q (x # xs) = (if q x then 1 else 0) + count_if q xs"
  by (simp_all add: count_if_def)

lemma count_if_map: "count_if q (map f xs) = count_if (q \<circ> f) xs"
  by (simp add: count_if_def filter_map comp_def)

lemma drift_high:
  "cycle_drift_risk p r h b = lit ''high'' \<longleftrightarrow> p = lit ''aggressive'' \<and> 0 < b \<and> fless (Fin 0) r"
  by (auto simp: cycle_drift_risk_def)

lemma count_if_False [simp]: "count_if (\<lambda>x. False) xs = 0"
  by (simp add: count_if_def)

lemmas base_result_defs = base_result_def gateway_step_result_def renumber_step_def frame_steps_def frame_step_def memory_step_def

lemma frame_result_actions [simp]:
  "gr_action (base_result (frame_step s d n a ms setting)) = a"
  "gr_frame (base_result (frame_step s d n a ms setting)) = Some (ks_frame s)"
  "gr_status (base_result (frame_step s d n a ms setting)) = lit ''applied''"
  "gr_memory_relief_mb (base_result (frame_step s d n a ms setting)) = Fin 0"
  by (simp_all add: base_result_defs memory_relief_mb_def fround_def round_at_def rnd_even_def to_f64_def)

lemma memory_result_fields [simp]:
  "gr_action (base_result (memory_step l)) = memory_action l" "gr_frame (base_result (memory_step l)) = None"
  "gr_status (base_result (memory_step l)) = (if ms_active l then lit ''applied'' else lit ''observed'')"
  "gr_memory_relief_mb (base_result (memory_step l)) =
    (if ms_command l = lit ''evict_or_defer_residency'' then fround 4 (memory_budget_mb l) else Fin 0)"
  by (simp_all add: base_result_defs memory_relief_mb_def memory_action_def)

lemma memory_not_copy: "memory_action l \<noteq> lit ''block_late_copy_queue''"
  by (simp add: memory_action_def)

lemma blocked_frames: "count_if ((\<lambda>r. gr_action r = lit ''block_late_copy_queue'') \<circ> base_result) (concat (map frame_steps fs))
    = count_if (\<lambda>f. fle (ks_copy_queue_budget_ms f) (Fin 0)) fs"
  by (induction fs) (simp_all add: frame_steps_def copy_queue_action_def)

lemma observed_frames: "count_if ((\<lambda>r. gr_status r = lit ''observed'') \<circ> base_result) (concat (map frame_steps fs)) = 0"
  by (induction fs) (simp_all add: frame_steps_def)

lemma relief_frames: "map (gr_memory_relief_mb \<circ> base_result) (concat (map frame_steps fs))
    = map (\<lambda>x. if False then x else Fin 0) (replicate (6 * length fs) (Fin 0))"
  by (induction fs) (simp_all add: frame_steps_def numeral_eq_Suc)

text \<open>C36: A simulated cycle takes six steps per frame of the control state and one per memory layer. It blocks the copy queue of
  exactly the frames without a copy-queue budget, only observes exactly the inactive layers, and relieves exactly the layers
  told to evict; the risk of drift is high exactly when the profile is aggressive and the cycle both relieves memory and
  blocks a copy queue.\<close>

theorem cycle_follows_state:
  "let c = cycle_of s in
     gc_step_count c = 6 * length (kt_frames s) + length (kt_memory_layers s)
     \<and> gc_blocked_copy_queue_count c = count_if (\<lambda>f. fle (ks_copy_queue_budget_ms f) (Fin 0)) (kt_frames s)
     \<and> gc_observed_step_count c = count_if (\<lambda>l. \<not> ms_active l) (kt_memory_layers s)
     \<and> gc_memory_relief_applied_mb c
        = fsum_if (\<lambda>l. ms_command l = lit ''evict_or_defer_residency'') (\<lambda>l. fround 4 (memory_budget_mb l)) (kt_memory_layers s)
     \<and> (gc_drift_risk c = lit ''high'' \<longleftrightarrow> kt_profile s = lit ''aggressive''
          \<and> 0 < gc_blocked_copy_queue_count c \<and> fless (Fin 0) (gc_memory_relief_applied_mb c))"
proof -
  let ?c = "cycle_of s"
  have fields: "gc_step_count ?c = length (gc_step_results ?c)"
    "gc_blocked_copy_queue_count ?c = count_if (\<lambda>r. gr_action r = lit ''block_late_copy_queue'') (gc_step_results ?c)"
    "gc_observed_step_count ?c = count_if (\<lambda>r. gr_status r = lit ''observed'') (gc_step_results ?c)"
    "gc_memory_relief_applied_mb ?c = fsum (map gr_memory_relief_mb (gc_step_results ?c))"
    "gc_drift_risk ?c = cycle_drift_risk (kt_profile s) (gc_memory_relief_applied_mb ?c) (gc_memory_headroom_reserved_mb ?c)
      (gc_blocked_copy_queue_count ?c)"
    by (simp_all add: cycle_of_def execute_runtime_gateway_tick_def build_runtime_gateway_tick_def Let_def count_action_def)
  have "length (gc_step_results ?c) = length (tick_base s)"
    using cycle_filter [of "\<lambda>r. ()" "\<lambda>r. True" s] by (simp add: map_eq_conv map_replicate_const)
  moreover have "length (tick_base s) = 6 * length (kt_frames s) + length (kt_memory_layers s)"
  proof -
    have "length (concat (map frame_steps fs)) = 6 * length fs" for fs by (induction fs) (simp_all add: frame_steps_def)
    then show ?thesis by (simp add: tick_base_def)
  qed
  moreover have "gc_blocked_copy_queue_count ?c = count_if (\<lambda>f. fle (ks_copy_queue_budget_ms f) (Fin 0)) (kt_frames s)"
    unfolding fields(2) by (subst cycle_count) (simp_all add: tick_base_def blocked_frames [unfolded comp_def] count_if_map comp_def memory_not_copy count_if_False)
  moreover have "gc_observed_step_count ?c = count_if (\<lambda>l. \<not> ms_active l) (kt_memory_layers s)"
    unfolding fields(3) by (subst cycle_count) (simp_all add: tick_base_def observed_frames [unfolded comp_def] count_if_map comp_def)
  moreover have "gc_memory_relief_applied_mb ?c
      = fsum_if (\<lambda>l. ms_command l = lit ''evict_or_defer_residency'') (\<lambda>l. fround 4 (memory_budget_mb l)) (kt_memory_layers s)"
  proof -
    have "map gr_memory_relief_mb (gc_step_results ?c) = map (gr_memory_relief_mb \<circ> base_result) (tick_base s)"
      using cycle_filter [of gr_memory_relief_mb "\<lambda>r. True" s] by (simp add: comp_def)
    also have "\<dots> = replicate (6 * length (kt_frames s)) (Fin 0) @ map (\<lambda>l. if ms_command l = lit ''evict_or_defer_residency''
        then fround 4 (memory_budget_mb l) else Fin 0) (kt_memory_layers s)"
      using relief_frames [of "kt_frames s"] by (simp add: tick_base_def comp_def map_replicate_const)
    finally have "gc_memory_relief_applied_mb ?c = foldl fadd (fsum (replicate (6 * length (kt_frames s)) (Fin 0)))
        (map (\<lambda>l. if ms_command l = lit ''evict_or_defer_residency'' then fround 4 (memory_budget_mb l) else Fin 0) (kt_memory_layers s))"
      by (simp add: fields(4) fsum_def)
    moreover have "fsum (replicate n (Fin 0)) = Fin 0" for n
      by (induction n) (simp_all add: fsum_def to_f64_def)
    ultimately show ?thesis by (simp add: fsum_zeros flip: fsum_def)
  qed
  moreover have "gc_drift_risk ?c = lit ''high'' \<longleftrightarrow> kt_profile s = lit ''aggressive''
      \<and> 0 < gc_blocked_copy_queue_count ?c \<and> fless (Fin 0) (gc_memory_relief_applied_mb ?c)"
    unfolding fields(5) by (rule drift_high)
  ultimately show ?thesis by (simp add: Let_def fields(1))
qed

end
