(* ===== verification/Policy_Update.thy ===== *)
theory Policy_Update
  imports Gateway_Cycle
begin

text \<open>
  The feedback of a simulated cycle against the calibration (\<^verbatim>\<open>src/fluidgateway/gateway_feedback.py\<close>)
  and the policy update it asks for (\<^verbatim>\<open>policy_update.py\<close>).
\<close>

section \<open>Feedback\<close>

record frame_feedback =
  ff_frame :: int
  ff_target_frame_ms :: pyfloat
  ff_observed_frame_cost_ms :: pyfloat
  ff_planned_current_frame_cost_ms :: pyfloat
  ff_next_frame_budget_ms :: pyfloat
  ff_hot_path_budget_ms :: pyfloat
  ff_observed_over_budget_ms :: pyfloat
  ff_planned_over_budget_ms :: pyfloat
  ff_protected_gap_ms :: pyfloat
  ff_planned_frame_relief_ms :: pyfloat
  ff_feedback_action :: pystr
  ff_confidence :: pystr

definition frame_feedback_to_dict :: "frame_feedback \<Rightarrow> pyval" where
  "frame_feedback_to_dict x = PDict
    [(lit ''frame'', PInt (ff_frame x)), (lit ''target_frame_ms'', round4 (ff_target_frame_ms x)),
     (lit ''observed_frame_cost_ms'', round4 (ff_observed_frame_cost_ms x)),
     (lit ''planned_current_frame_cost_ms'', round4 (ff_planned_current_frame_cost_ms x)),
     (lit ''next_frame_budget_ms'', round4 (ff_next_frame_budget_ms x)),
     (lit ''hot_path_budget_ms'', round4 (ff_hot_path_budget_ms x)),
     (lit ''observed_over_budget_ms'', round4 (ff_observed_over_budget_ms x)),
     (lit ''planned_over_budget_ms'', round4 (ff_planned_over_budget_ms x)),
     (lit ''protected_gap_ms'', round4 (ff_protected_gap_ms x)),
     (lit ''planned_frame_relief_ms'', round4 (ff_planned_frame_relief_ms x)),
     (lit ''feedback_action'', PStr (ff_feedback_action x)), (lit ''confidence'', PStr (ff_confidence x))]"

record feedback_delta =
  fd_mode :: pystr
  fd_profile :: pystr
  fd_feedback_action :: pystr
  fd_convergence_status :: pystr
  fd_drift_risk :: pystr
  fd_confidence :: pystr
  fd_frame_count :: nat
  fd_memory_layer_count :: nat
  fd_pressure_frame_count :: nat
  fd_protected_gap_frame_count :: nat
  fd_observed_frame_cost_ms :: pyfloat
  fd_target_frame_budget_ms :: pyfloat
  fd_planned_current_frame_cost_ms :: pyfloat
  fd_next_frame_budget_ms :: pyfloat
  fd_hot_path_budget_ms :: pyfloat
  fd_observed_over_budget_ms :: pyfloat
  fd_planned_over_budget_ms :: pyfloat
  fd_protected_gap_ms :: pyfloat
  fd_planned_frame_relief_ms :: pyfloat
  fd_memory_relief_expected_mb :: pyfloat
  fd_memory_relief_applied_mb :: pyfloat
  fd_memory_headroom_reserved_mb :: pyfloat
  fd_memory_delta_mb :: pyfloat
  fd_next_cycle_action :: pystr
  fd_frame_feedbacks :: "frame_feedback list"

definition feedback_delta_to_dict :: "feedback_delta \<Rightarrow> pyval" where
  "feedback_delta_to_dict x = PDict
    [(lit ''mode'', PStr (fd_mode x)), (lit ''profile'', PStr (fd_profile x)),
     (lit ''feedback_action'', PStr (fd_feedback_action x)), (lit ''convergence_status'', PStr (fd_convergence_status x)),
     (lit ''drift_risk'', PStr (fd_drift_risk x)), (lit ''confidence'', PStr (fd_confidence x)),
     (lit ''frame_count'', PInt (int (fd_frame_count x))), (lit ''memory_layer_count'', PInt (int (fd_memory_layer_count x))),
     (lit ''pressure_frame_count'', PInt (int (fd_pressure_frame_count x))),
     (lit ''protected_gap_frame_count'', PInt (int (fd_protected_gap_frame_count x))),
     (lit ''observed_frame_cost_ms'', round4 (fd_observed_frame_cost_ms x)),
     (lit ''target_frame_budget_ms'', round4 (fd_target_frame_budget_ms x)),
     (lit ''planned_current_frame_cost_ms'', round4 (fd_planned_current_frame_cost_ms x)),
     (lit ''next_frame_budget_ms'', round4 (fd_next_frame_budget_ms x)),
     (lit ''hot_path_budget_ms'', round4 (fd_hot_path_budget_ms x)),
     (lit ''observed_over_budget_ms'', round4 (fd_observed_over_budget_ms x)),
     (lit ''planned_over_budget_ms'', round4 (fd_planned_over_budget_ms x)),
     (lit ''protected_gap_ms'', round4 (fd_protected_gap_ms x)),
     (lit ''planned_frame_relief_ms'', round4 (fd_planned_frame_relief_ms x)),
     (lit ''memory_relief_expected_mb'', round4 (fd_memory_relief_expected_mb x)),
     (lit ''memory_relief_applied_mb'', round4 (fd_memory_relief_applied_mb x)),
     (lit ''memory_headroom_reserved_mb'', round4 (fd_memory_headroom_reserved_mb x)),
     (lit ''memory_delta_mb'', round4 (fd_memory_delta_mb x)), (lit ''next_cycle_action'', PStr (fd_next_cycle_action x)),
     (lit ''frame_feedbacks'', PList (map frame_feedback_to_dict (fd_frame_feedbacks x)))]"

definition frame_step_budget :: "int \<Rightarrow> cycle_step list \<Rightarrow> string \<Rightarrow> pyfloat" where
  "frame_step_budget frame rs action =
    fsum (map gr_protected_budget_ms (filter (\<lambda>r. gr_frame r = Some frame \<and> gr_action r = lit action) rs))"

definition frame_feedback_action :: "pyfloat \<Rightarrow> pyfloat \<Rightarrow> pyfloat \<Rightarrow> pyfloat \<Rightarrow> pystr" where
  "frame_feedback_action observed_over planned_over gap relief =
    (if fless (Fin 0) planned_over then lit ''tighten-cycle-guardband''
     else if fless (Fin 0) observed_over \<or> fless (Fin 0) gap then lit ''continue-pressure-management''
     else if fless (Fin 0) relief then lit ''preserve-cycle-shape'' else lit ''monitor-cycle'')"

definition frame_feedback_of :: "frame_calibration \<Rightarrow> cycle_step list \<Rightarrow> frame_feedback" where
  "frame_feedback_of c rs =
    (let next_budget = frame_step_budget (fc_frame c) rs ''protect_next_frame_budget'';
         hot_path_budget = frame_step_budget (fc_frame c) rs ''protect_gpu_hot_path'';
         observed_over = fmax (Fin 0) (fsub (fc_observed_frame_cost_ms c) (fc_target_frame_ms c));
         planned_over = fmax (Fin 0) (fsub (fc_planned_current_frame_cost_ms c) (fc_target_frame_ms c));
         gap = fmax (Fin 0) (fsub (fc_observed_frame_cost_ms c) next_budget)
     in \<lparr>ff_frame = fc_frame c, ff_target_frame_ms = fc_target_frame_ms c, ff_observed_frame_cost_ms = fc_observed_frame_cost_ms c,
       ff_planned_current_frame_cost_ms = fc_planned_current_frame_cost_ms c, ff_next_frame_budget_ms = next_budget,
       ff_hot_path_budget_ms = hot_path_budget, ff_observed_over_budget_ms = observed_over,
       ff_planned_over_budget_ms = planned_over, ff_protected_gap_ms = gap,
       ff_planned_frame_relief_ms = fc_planned_frame_relief_ms c,
       ff_feedback_action = frame_feedback_action observed_over planned_over gap (fc_planned_frame_relief_ms c),
       ff_confidence = fc_confidence c\<rparr>)"

definition feedback_action :: "cycle_report \<Rightarrow> frame_feedback list \<Rightarrow> pystr" where
  "feedback_action c fs = (let actions = ff_feedback_action ` set fs in
     if lit ''tighten-cycle-guardband'' \<in> actions then lit ''tighten-cycle-guardband''
     else if lit ''continue-pressure-management'' \<in> actions then lit ''continue-pressure-management''
     else if gc_next_cycle_action c = lit ''monitor-headroom'' then lit ''monitor-headroom''
     else if lit ''preserve-cycle-shape'' \<in> actions then lit ''preserve-cycle-shape''
     else lit ''maintain-cycle'')"

definition convergence_status :: "cycle_report \<Rightarrow> frame_feedback list \<Rightarrow> pystr" where
  "convergence_status c fs =
    (if gc_drift_risk c = lit ''high'' then lit ''diverging''
     else if \<exists>f \<in> set fs. fless (Fin 0) (ff_protected_gap_ms f) then lit ''needs-correction''
     else if fless (Fin 0) (gc_memory_headroom_reserved_mb c) then lit ''watching-headroom'' else lit ''stable'')"

definition feedback_confidence :: "cycle_report \<Rightarrow> calibration_report \<Rightarrow> pystr" where
  "feedback_confidence c k =
    (if gc_step_count c = 0 \<or> cb_frame_count k = 0 then lit ''low''
     else if \<exists>f \<in> set (cb_frames k). fc_confidence f = lit ''low'' then lit ''medium'' else lit ''medium'')"

definition build_runtime_gateway_feedback :: "cycle_report \<Rightarrow> calibration_report \<Rightarrow> feedback_delta" where
  "build_runtime_gateway_feedback c k =
    (let fs = map (\<lambda>f. frame_feedback_of f (gc_step_results c)) (cb_frames k)
     in \<lparr>fd_mode = lit ''runtime-gateway-feedback-delta-v0.38'', fd_profile = gc_profile c, fd_feedback_action = feedback_action c fs,
       fd_convergence_status = convergence_status c fs, fd_drift_risk = gc_drift_risk c, fd_confidence = feedback_confidence c k,
       fd_frame_count = cb_frame_count k, fd_memory_layer_count = gc_memory_layer_count c,
       fd_pressure_frame_count = count_if (\<lambda>f. fless (Fin 0) (ff_observed_over_budget_ms f)) fs,
       fd_protected_gap_frame_count = count_if (\<lambda>f. fless (Fin 0) (ff_protected_gap_ms f)) fs,
       fd_observed_frame_cost_ms = cb_total_observed_frame_cost_ms k, fd_target_frame_budget_ms = fsum (map ff_target_frame_ms fs),
       fd_planned_current_frame_cost_ms = cb_total_planned_current_frame_cost_ms k,
       fd_next_frame_budget_ms = fsum (map ff_next_frame_budget_ms fs), fd_hot_path_budget_ms = fsum (map ff_hot_path_budget_ms fs),
       fd_observed_over_budget_ms = fsum (map ff_observed_over_budget_ms fs),
       fd_planned_over_budget_ms = fsum (map ff_planned_over_budget_ms fs), fd_protected_gap_ms = fsum (map ff_protected_gap_ms fs),
       fd_planned_frame_relief_ms = cb_total_planned_frame_relief_ms k, fd_memory_relief_expected_mb = cb_total_memory_relief_mb k,
       fd_memory_relief_applied_mb = gc_memory_relief_applied_mb c,
       fd_memory_headroom_reserved_mb = gc_memory_headroom_reserved_mb c,
       fd_memory_delta_mb = fsub (gc_memory_relief_applied_mb c) (cb_total_memory_relief_mb k),
       fd_next_cycle_action = gc_next_cycle_action c, fd_frame_feedbacks = fs\<rparr>)"

section \<open>Policy update\<close>

record frame_policy_update =
  fp_frame :: int
  fp_action :: pystr
  fp_admission_policy :: pystr
  fp_scheduler_policy :: pystr
  fp_next_frame_budget_ms :: pyfloat
  fp_hot_path_budget_ms :: pyfloat
  fp_copy_queue_budget_ms :: pyfloat
  fp_pre_frame_window_ms :: pyfloat
  fp_guardband_ms :: pyfloat
  fp_reason :: pystr

definition frame_policy_update_to_dict :: "frame_policy_update \<Rightarrow> pyval" where
  "frame_policy_update_to_dict x = PDict
    [(lit ''frame'', PInt (fp_frame x)), (lit ''action'', PStr (fp_action x)),
     (lit ''admission_policy'', PStr (fp_admission_policy x)), (lit ''scheduler_policy'', PStr (fp_scheduler_policy x)),
     (lit ''next_frame_budget_ms'', round4 (fp_next_frame_budget_ms x)),
     (lit ''hot_path_budget_ms'', round4 (fp_hot_path_budget_ms x)),
     (lit ''copy_queue_budget_ms'', round4 (fp_copy_queue_budget_ms x)),
     (lit ''pre_frame_window_ms'', round4 (fp_pre_frame_window_ms x)), (lit ''guardband_ms'', round4 (fp_guardband_ms x)),
     (lit ''reason'', PStr (fp_reason x))]"

record memory_policy_update =
  mp_action :: pystr
  mp_residency_policy :: pystr
  mp_relief_target_mb :: pyfloat
  mp_headroom_target_mb :: pyfloat
  mp_memory_delta_mb :: pyfloat
  mp_reason :: pystr

definition memory_policy_update_to_dict :: "memory_policy_update \<Rightarrow> pyval" where
  "memory_policy_update_to_dict x = PDict
    [(lit ''action'', PStr (mp_action x)), (lit ''residency_policy'', PStr (mp_residency_policy x)),
     (lit ''relief_target_mb'', round4 (mp_relief_target_mb x)),
     (lit ''headroom_target_mb'', round4 (mp_headroom_target_mb x)), (lit ''memory_delta_mb'', round4 (mp_memory_delta_mb x)),
     (lit ''reason'', PStr (mp_reason x))]"

record policy_update =
  pu_mode :: pystr
  pu_profile :: pystr
  pu_next_profile :: pystr
  pu_source_feedback_action :: pystr
  pu_policy_action :: pystr
  pu_convergence_status :: pystr
  pu_drift_risk :: pystr
  pu_update_count :: nat
  pu_frame_update_count :: nat
  pu_memory_update_count :: nat
  pu_active_update_count :: nat
  pu_next_frame_budget_ms :: pyfloat
  pu_hot_path_budget_ms :: pyfloat
  pu_copy_queue_budget_ms :: pyfloat
  pu_pre_frame_window_ms :: pyfloat
  pu_memory_relief_target_mb :: pyfloat
  pu_memory_headroom_target_mb :: pyfloat
  pu_frame_updates :: "frame_policy_update list"
  pu_memory_updates :: "memory_policy_update list"

definition policy_update_to_dict :: "policy_update \<Rightarrow> pyval" where
  "policy_update_to_dict x = PDict
    [(lit ''mode'', PStr (pu_mode x)), (lit ''profile'', PStr (pu_profile x)),
     (lit ''next_profile'', PStr (pu_next_profile x)), (lit ''source_feedback_action'', PStr (pu_source_feedback_action x)),
     (lit ''policy_action'', PStr (pu_policy_action x)), (lit ''convergence_status'', PStr (pu_convergence_status x)),
     (lit ''drift_risk'', PStr (pu_drift_risk x)), (lit ''update_count'', PInt (int (pu_update_count x))),
     (lit ''frame_update_count'', PInt (int (pu_frame_update_count x))),
     (lit ''memory_update_count'', PInt (int (pu_memory_update_count x))),
     (lit ''active_update_count'', PInt (int (pu_active_update_count x))),
     (lit ''next_frame_budget_ms'', round4 (pu_next_frame_budget_ms x)),
     (lit ''hot_path_budget_ms'', round4 (pu_hot_path_budget_ms x)),
     (lit ''copy_queue_budget_ms'', round4 (pu_copy_queue_budget_ms x)),
     (lit ''pre_frame_window_ms'', round4 (pu_pre_frame_window_ms x)),
     (lit ''memory_relief_target_mb'', round4 (pu_memory_relief_target_mb x)),
     (lit ''memory_headroom_target_mb'', round4 (pu_memory_headroom_target_mb x)),
     (lit ''frame_updates'', PList (map frame_policy_update_to_dict (pu_frame_updates x))),
     (lit ''memory_updates'', PList (map memory_policy_update_to_dict (pu_memory_updates x)))]"

definition recommended_guardband :: "frame_feedback \<Rightarrow> pyfloat" where
  "recommended_guardband f =
    (if fless (Fin 0) (ff_planned_over_budget_ms f)
       then fmin (fmul (ff_target_frame_ms f) (Fin (1 / 4))) (fmax (Fin (1 / 2)) (fmul (ff_planned_over_budget_ms f) (Fin (1 / 2))))
     else if fless (Fin 0) (ff_protected_gap_ms f)
       then fmin (fmul (ff_target_frame_ms f) (Fin (1 / 4))) (fmax (Fin (1 / 2)) (fmul (ff_protected_gap_ms f) (Fin (1 / 4))))
     else Fin 0)"

definition update_reason :: "frame_feedback \<Rightarrow> pystr" where
  "update_reason f =
    (if fless (Fin 0) (ff_planned_over_budget_ms f) then lit ''Planned current-frame work still exceeds the target budget.''
     else if fless (Fin 0) (ff_protected_gap_ms f) then lit ''Observed frame cost still exceeds the protected next-frame budget.''
     else if fless (Fin 0) (ff_planned_frame_relief_ms f) then lit ''Cycle shape produced useful relief and can be preserved.''
     else lit ''No stronger frame policy change is supported by current feedback.'')"

definition build_frame_policy_update :: "frame_feedback \<Rightarrow> frame_policy_update" where
  "build_frame_policy_update f =
    (let guardband = recommended_guardband f; target = ff_target_frame_ms f; relief = ff_planned_frame_relief_ms f;
         (action, admission, scheduler, next_budget, copy_budget, pre_frame) =
           (if ff_feedback_action f = lit ''tighten-cycle-guardband'' then
              (''tighten-frame-guardband'', ''block-noncritical-hot-path'', ''guardband-tightening'',
               fmax (Fin 0) (fsub target guardband), Fin 0, fmax (fmul relief (Fin (1 / 2))) guardband)
            else if ff_feedback_action f = lit ''continue-pressure-management'' then
              (''continue-frame-pressure-management'', ''prestage-and-defer-noncritical'', ''closed-loop-aggressive'',
               ff_next_frame_budget_ms f, Fin 0, fmax (fmul relief (to_f64 (36 / 100))) guardband)
            else if ff_feedback_action f = lit ''preserve-cycle-shape'' then
              (''preserve-cycle-shape'', ''preserve-budgeted-hot-path'', ''closed-loop-stable'',
               target, fmul target (to_f64 (15 / 100)), relief)
            else
              (''monitor-cycle'', ''observe-admission'', ''observe'', target, fmul target (to_f64 (15 / 100)), Fin 0))
     in \<lparr>fp_frame = ff_frame f, fp_action = lit action, fp_admission_policy = lit admission, fp_scheduler_policy = lit scheduler,
       fp_next_frame_budget_ms = next_budget, fp_hot_path_budget_ms = fmin next_budget target, fp_copy_queue_budget_ms = copy_budget,
       fp_pre_frame_window_ms = pre_frame, fp_guardband_ms = guardband, fp_reason = update_reason f\<rparr>)"

definition build_memory_policy_update :: "feedback_delta \<Rightarrow> memory_policy_update" where
  "build_memory_policy_update d =
    (if fless (Fin 0) (fd_memory_relief_applied_mb d) \<or> fless (fd_memory_delta_mb d) (Fin 0) then
       \<lparr>mp_action = lit ''continue-memory-relief'', mp_residency_policy = lit ''evict-or-defer-residency'',
        mp_relief_target_mb = fmax (fd_memory_relief_expected_mb d) (fd_memory_relief_applied_mb d), mp_headroom_target_mb = Fin 0,
        mp_memory_delta_mb = fd_memory_delta_mb d, mp_reason = lit ''Memory pressure relief remains part of the next policy cycle.''\<rparr>
     else if fless (Fin 0) (fd_memory_headroom_reserved_mb d) then
       \<lparr>mp_action = lit ''preserve-memory-headroom'', mp_residency_policy = lit ''reserve-headroom'', mp_relief_target_mb = Fin 0,
        mp_headroom_target_mb = fd_memory_headroom_reserved_mb d, mp_memory_delta_mb = fd_memory_delta_mb d,
        mp_reason = lit ''Memory headroom was reserved and should be watched next cycle.''\<rparr>
     else
       \<lparr>mp_action = lit ''hold-memory-residency'', mp_residency_policy = lit ''hold-residency'', mp_relief_target_mb = Fin 0,
        mp_headroom_target_mb = Fin 0, mp_memory_delta_mb = fd_memory_delta_mb d,
        mp_reason = lit ''No memory pressure or headroom correction is required.''\<rparr>)"

definition policy_action :: "feedback_delta \<Rightarrow> pystr" where
  "policy_action d =
    (if fd_feedback_action d = lit ''tighten-cycle-guardband'' then lit ''tighten-runtime-guardband-policy''
     else if fd_feedback_action d = lit ''continue-pressure-management'' then lit ''continue-runtime-pressure-policy''
     else if fd_feedback_action d = lit ''monitor-headroom'' then lit ''preserve-memory-headroom-policy''
     else if fd_feedback_action d = lit ''preserve-cycle-shape'' then lit ''preserve-runtime-cycle-policy''
     else lit ''maintain-runtime-policy'')"

definition next_profile :: "feedback_delta \<Rightarrow> pystr" where
  "next_profile d =
    (if fd_feedback_action d \<in> {lit ''tighten-cycle-guardband'', lit ''continue-pressure-management''}
     then lit ''aggressive'' else lit ''stable'')"

definition is_active_frame :: "frame_policy_update \<Rightarrow> bool" where
  "is_active_frame u \<longleftrightarrow> fp_action u \<noteq> lit ''monitor-cycle''"

definition is_active_memory :: "memory_policy_update \<Rightarrow> bool" where
  "is_active_memory u \<longleftrightarrow> mp_action u \<noteq> lit ''hold-memory-residency''"

definition build_runtime_policy_update :: "feedback_delta \<Rightarrow> policy_update" where
  "build_runtime_policy_update d =
    (let fs = map build_frame_policy_update (fd_frame_feedbacks d); ms = [build_memory_policy_update d]
     in \<lparr>pu_mode = lit ''runtime-policy-update-v0.39'', pu_profile = fd_profile d, pu_next_profile = next_profile d,
       pu_source_feedback_action = fd_feedback_action d, pu_policy_action = policy_action d,
       pu_convergence_status = fd_convergence_status d, pu_drift_risk = fd_drift_risk d, pu_update_count = length fs + length ms,
       pu_frame_update_count = length fs, pu_memory_update_count = length ms,
       pu_active_update_count = count_if is_active_frame fs + count_if is_active_memory ms,
       pu_next_frame_budget_ms = fmin_list (Fin 0) (map fp_next_frame_budget_ms fs),
       pu_hot_path_budget_ms = fmin_list (Fin 0) (map fp_hot_path_budget_ms fs),
       pu_copy_queue_budget_ms = fmin_list (Fin 0) (map fp_copy_queue_budget_ms fs),
       pu_pre_frame_window_ms = fmax_list (Fin 0) (map fp_pre_frame_window_ms fs),
       pu_memory_relief_target_mb = fsum (map mp_relief_target_mb ms), pu_memory_headroom_target_mb = fsum (map mp_headroom_target_mb ms),
       pu_frame_updates = fs, pu_memory_updates = ms\<rparr>)"

section \<open>The loop closes\<close>

text \<open>From a manager directive to the cycle it causes, through the packet, the control state and the tick.\<close>

definition directed_cycle :: "manager_directive \<Rightarrow> cycle_report" where
  "directed_cycle m = cycle_of (apply_runtime_control_packet (build_runtime_control_packet m))"

lemma filter_concat: "filter q (concat xss) = concat (map (filter q) xss)"
  by (induction xss) simp_all

lemma concat_single:
  assumes "distinct (map k xs)" and "x \<in> set xs" and "\<And>y. y \<in> set xs \<Longrightarrow> f y = (if k y = k x then [g y] else [])"
  shows "concat (map f xs) = [g x]"
  using assms
proof (induction xs)
  case (Cons a xs)
  show ?case
  proof (cases "k a = k x")
    case True
    then have "a = x" using Cons.prems(1,2) by (auto simp: image_iff)
    moreover have "\<forall>y \<in> set xs. f y = []"
    proof
      fix y assume "y \<in> set xs"
      then have "k y \<noteq> k x" using Cons.prems(1) True by (metis distinct.simps(2) image_eqI list.map(2) set_map)
      then show "f y = []" using Cons.prems(3) [of y] \<open>y \<in> set xs\<close> by simp
    qed
    ultimately show ?thesis using Cons.prems(3) [of x] by (simp add: concat_eq_Nil_conv)
  next
    case False
    then show ?thesis using Cons by auto
  qed
qed simp

text \<open>The budget the cycle protects for a frame is the one in the control state.\<close>

lemma protected_steps:
  "map gr_protected_budget_ms (filter (\<lambda>r. gr_frame r = Some n \<and> gr_action r = lit ''protect_next_frame_budget'') (map base_result (frame_steps f)))
    = (if ks_frame f = n then [fround 4 (ks_next_frame_budget_ms f)] else [])"
  "map gr_protected_budget_ms (filter (\<lambda>r. gr_frame r = Some n \<and> gr_action r = lit ''protect_gpu_hot_path'') (map base_result (frame_steps f)))
    = (if ks_frame f = n then [fround 4 (ks_hot_path_budget_ms f)] else [])"
  by (simp_all add: base_result_defs protected_budget_ms_def copy_queue_action_def)

lemma protected_budget:
  assumes "distinct (map ks_frame (kt_frames s))" and "f \<in> set (kt_frames s)"
    and "\<And>f. map gr_protected_budget_ms (filter (\<lambda>r. gr_frame r = Some n \<and> gr_action r = lit a) (map base_result (frame_steps f)))
      = (if ks_frame f = n then [fround 4 (b f)] else [])"
    and "n = ks_frame f"
  shows "frame_step_budget n (gc_step_results (cycle_of s)) a = fround 4 (b f)"
proof -
  let ?q = "\<lambda>r. gr_frame r = Some n \<and> gr_action r = lit a"
  have "map gr_protected_budget_ms (filter ?q (gc_step_results (cycle_of s)))
      = map gr_protected_budget_ms (filter ?q (map base_result (tick_base s)))" by (rule cycle_filter) simp_all
  also have "\<dots> = concat (map (\<lambda>f. map gr_protected_budget_ms (filter ?q (map base_result (frame_steps f)))) (kt_frames s))"
    by (simp add: tick_base_def map_concat filter_concat comp_def filter_map)
  also have "\<dots> = [fround 4 (b f)]"
  proof (rule concat_single [OF assms(1,2)])
    fix y show "map gr_protected_budget_ms (filter ?q (map base_result (frame_steps y)))
        = (if ks_frame y = ks_frame f then [fround 4 (b y)] else [])"
      using assms(3) [of y] by (simp only: assms(4))
  qed
  finally show ?thesis by (simp add: frame_step_budget_def fsum_single)
qed

lemma directed_frames:
  assumes "distinct (map fm_frame (rm_frames m))" and "d \<in> set (rm_frames m)"
  shows "frame_step_budget (fm_frame d) (gc_step_results (directed_cycle m)) ''protect_next_frame_budget''
      = fround 4 (fround 4 (fm_next_frame_budget_ms d))"
    and "frame_step_budget (fm_frame d) (gc_step_results (directed_cycle m)) ''protect_gpu_hot_path''
      = fround 4 (fround 4 (fm_hot_path_budget_ms d))"
proof -
  let ?s = "apply_runtime_control_packet (build_runtime_control_packet m)"
  have frames: "kt_frames ?s = map frame_control_of (sort_key fm_frame (rm_frames m))"
    by (rule control_frames [OF assms(1)])
  have ids: "map ks_frame (kt_frames ?s) = map fm_frame (sort_key fm_frame (rm_frames m))"
    by (simp add: frames frame_control_of_def)
  have distinct: "distinct (map ks_frame (kt_frames ?s))" unfolding ids using assms(1) by (simp add: distinct_sort_key)
  have member: "frame_control_of d \<in> set (kt_frames ?s)" using assms(2) by (simp add: frames)
  note budget = protected_budget [where n = "fm_frame d", OF distinct member]
  have id: "fm_frame d = ks_frame (frame_control_of d)" by (simp add: frame_control_of_def)
  show "frame_step_budget (fm_frame d) (gc_step_results (directed_cycle m)) ''protect_next_frame_budget''
      = fround 4 (fround 4 (fm_next_frame_budget_ms d))"
    using budget [where b = ks_next_frame_budget_ms, OF protected_steps(1) id]
    by (simp only: directed_cycle_def) (simp only: frame_control_of_def frame_control.simps)
  show "frame_step_budget (fm_frame d) (gc_step_results (directed_cycle m)) ''protect_gpu_hot_path''
      = fround 4 (fround 4 (fm_hot_path_budget_ms d))"
    using budget [where b = ks_hot_path_budget_ms, OF protected_steps(2) id]
    by (simp only: directed_cycle_def) (simp only: frame_control_of_def frame_control.simps)
qed

lemma list_all2_map_self: "(\<And>x. x \<in> set xs \<Longrightarrow> P x (g x)) \<Longrightarrow> list_all2 P xs (map g xs)"
  by (induction xs) simp_all

text \<open>C37: The loop closes: when the calibrated frames are distinct, the feedback on the cycle that the manager's directive causes
  reports for every frame, in order, exactly the next-frame and hot-path budgets of its directive, rounded to four decimals by
  the control packet and again by the tick, and the gap between them and the observed cost.\<close>

theorem feedback_sees_directive:
  assumes "distinct (map fc_frame (cb_frames c))"
  shows "let m = build_runtime_manager_directive c env; d = build_runtime_gateway_feedback (directed_cycle m) c in
    list_all2 (\<lambda>k (x, f). ff_frame f = fc_frame k \<and> fm_frame x = fc_frame k
        \<and> ff_next_frame_budget_ms f = fround 4 (fround 4 (fm_next_frame_budget_ms x))
        \<and> ff_hot_path_budget_ms f = fround 4 (fround 4 (fm_hot_path_budget_ms x))
        \<and> ff_protected_gap_ms f = fmax (Fin 0) (fsub (fc_observed_frame_cost_ms k) (ff_next_frame_budget_ms f)))
      (cb_frames c) (zip (rm_frames m) (fd_frame_feedbacks d))"
proof -
  let ?m = "build_runtime_manager_directive c env"
  let ?x = "\<lambda>f. build_frame_directive f (envelope_for (re_frames env) (Some (fc_frame f)))"
  let ?f = "\<lambda>k. frame_feedback_of k (gc_step_results (directed_cycle ?m))"
  have frames: "rm_frames ?m = map ?x (cb_frames c)" by (simp add: build_runtime_manager_directive_def Let_def)
  have feedbacks: "fd_frame_feedbacks (build_runtime_gateway_feedback (directed_cycle ?m) c) = map ?f (cb_frames c)"
    by (simp add: build_runtime_gateway_feedback_def Let_def)
  have id: "fm_frame (?x k) = fc_frame k" for k by (simp add: build_frame_directive_def Let_def)
  have "distinct (map fm_frame (rm_frames ?m))" using assms by (simp add: frames comp_def id)
  note budgets = directed_frames [OF this]
  have one: "ff_frame (?f k) = fc_frame k \<and> fm_frame (?x k) = fc_frame k
        \<and> ff_next_frame_budget_ms (?f k) = fround 4 (fround 4 (fm_next_frame_budget_ms (?x k)))
        \<and> ff_hot_path_budget_ms (?f k) = fround 4 (fround 4 (fm_hot_path_budget_ms (?x k)))
        \<and> ff_protected_gap_ms (?f k) = fmax (Fin 0) (fsub (fc_observed_frame_cost_ms k) (ff_next_frame_budget_ms (?f k)))"
    if "k \<in> set (cb_frames c)" for k
    using budgets [of "?x k"] that by (simp add: frames id) (simp add: frame_feedback_of_def Let_def)
  have "zip (map ?x ks) (map ?f ks) = map (\<lambda>k. (?x k, ?f k)) ks" for ks by (induction ks) simp_all
  then show ?thesis unfolding Let_def feedbacks frames
    by (simp only:) (rule list_all2_map_self, simp add: one)
qed

section \<open>Witness\<close>

theorem feedback_sees_directive_witness:
  "let m = demo_directive; d = build_runtime_gateway_feedback (directed_cycle m) demo_calibration in
    list_all2 (\<lambda>k (x, f). ff_frame f = fc_frame k \<and> ff_next_frame_budget_ms f = fround 4 (fround 4 (fm_next_frame_budget_ms x)))
      (cb_frames demo_calibration) (zip (rm_frames m) (fd_frame_feedbacks d))"
  using feedback_sees_directive [of demo_calibration demo_runtime_envelope] arg_cong [OF demo_calibration_frames, of "map fst"]
  unfolding demo_directive_def Let_def by (auto simp: comp_def elim!: list_all2_mono)

end
