(* ===== verification/State_Accumulator.thy ===== *)
theory State_Accumulator
  imports Policy_Update
begin

text \<open>
  The state kept from cycle to cycle (\<^verbatim>\<open>src/fluidgateway/state_accumulator.py\<close>) with its dictionary form
  and the checked way back, and the transition between two such states (\<^verbatim>\<open>state_transition.py\<close>). A
  state read back may hold any integers as counts.
\<close>

section \<open>State\<close>

record frame_state =
  fa_frame :: int
  fa_action :: pystr
  fa_admission_policy :: pystr
  fa_scheduler_policy :: pystr
  fa_next_frame_budget_ms :: pyfloat
  fa_hot_path_budget_ms :: pyfloat
  fa_copy_queue_budget_ms :: pyfloat
  fa_pre_frame_window_ms :: pyfloat
  fa_guardband_ms :: pyfloat
  fa_cycle_count :: int

definition frame_state_to_dict :: "frame_state \<Rightarrow> pyval" where
  "frame_state_to_dict x = PDict
    [(lit ''frame'', PInt (fa_frame x)), (lit ''action'', PStr (fa_action x)),
     (lit ''admission_policy'', PStr (fa_admission_policy x)), (lit ''scheduler_policy'', PStr (fa_scheduler_policy x)),
     (lit ''next_frame_budget_ms'', round4 (fa_next_frame_budget_ms x)),
     (lit ''hot_path_budget_ms'', round4 (fa_hot_path_budget_ms x)),
     (lit ''copy_queue_budget_ms'', round4 (fa_copy_queue_budget_ms x)),
     (lit ''pre_frame_window_ms'', round4 (fa_pre_frame_window_ms x)), (lit ''guardband_ms'', round4 (fa_guardband_ms x)),
     (lit ''cycle_count'', PInt (fa_cycle_count x))]"

record memory_state =
  ma2_action :: pystr
  ma2_residency_policy :: pystr
  ma2_relief_target_mb :: pyfloat
  ma2_headroom_target_mb :: pyfloat
  ma2_memory_delta_mb :: pyfloat
  ma2_active :: bool
  ma2_cycle_count :: int

definition memory_state_to_dict :: "memory_state \<Rightarrow> pyval" where
  "memory_state_to_dict x = PDict
    [(lit ''action'', PStr (ma2_action x)), (lit ''residency_policy'', PStr (ma2_residency_policy x)),
     (lit ''relief_target_mb'', round4 (ma2_relief_target_mb x)),
     (lit ''headroom_target_mb'', round4 (ma2_headroom_target_mb x)),
     (lit ''memory_delta_mb'', round4 (ma2_memory_delta_mb x)), (lit ''active'', PBool (ma2_active x)),
     (lit ''cycle_count'', PInt (ma2_cycle_count x))]"

record runtime_state =
  sa_mode :: pystr
  sa_profile :: pystr
  sa_policy_action :: pystr
  sa_convergence_status :: pystr
  sa_drift_risk :: pystr
  sa_cycle_count :: int
  sa_frame_state_count :: int
  sa_memory_state_count :: int
  sa_active_policy_count :: int
  sa_next_frame_budget_ms :: pyfloat
  sa_hot_path_budget_ms :: pyfloat
  sa_copy_queue_budget_ms :: pyfloat
  sa_pre_frame_window_ms :: pyfloat
  sa_memory_relief_target_mb :: pyfloat
  sa_memory_headroom_target_mb :: pyfloat
  sa_state_digest :: pystr
  sa_frames :: "frame_state list"
  sa_memory :: "memory_state list"

definition runtime_state_to_dict :: "runtime_state \<Rightarrow> pyval" where
  "runtime_state_to_dict x = PDict
    [(lit ''mode'', PStr (sa_mode x)), (lit ''profile'', PStr (sa_profile x)),
     (lit ''policy_action'', PStr (sa_policy_action x)), (lit ''convergence_status'', PStr (sa_convergence_status x)),
     (lit ''drift_risk'', PStr (sa_drift_risk x)), (lit ''cycle_count'', PInt (sa_cycle_count x)),
     (lit ''frame_state_count'', PInt (sa_frame_state_count x)), (lit ''memory_state_count'', PInt (sa_memory_state_count x)),
     (lit ''active_policy_count'', PInt (sa_active_policy_count x)),
     (lit ''next_frame_budget_ms'', round4 (sa_next_frame_budget_ms x)),
     (lit ''hot_path_budget_ms'', round4 (sa_hot_path_budget_ms x)),
     (lit ''copy_queue_budget_ms'', round4 (sa_copy_queue_budget_ms x)),
     (lit ''pre_frame_window_ms'', round4 (sa_pre_frame_window_ms x)),
     (lit ''memory_relief_target_mb'', round4 (sa_memory_relief_target_mb x)),
     (lit ''memory_headroom_target_mb'', round4 (sa_memory_headroom_target_mb x)),
     (lit ''state_digest'', PStr (sa_state_digest x)), (lit ''frames'', PList (map frame_state_to_dict (sa_frames x))),
     (lit ''memory'', PList (map memory_state_to_dict (sa_memory x)))]"

definition build_frame_state :: "frame_policy_update \<Rightarrow> runtime_state option \<Rightarrow> int \<Rightarrow> frame_state" where
  "build_frame_state u previous cycle_count =
    (let previous_frame = (case previous of None \<Rightarrow> None | Some p \<Rightarrow> List.find (\<lambda>s. fa_frame s = fp_frame u) (sa_frames p))
     in \<lparr>fa_frame = fp_frame u, fa_action = fp_action u, fa_admission_policy = fp_admission_policy u,
       fa_scheduler_policy = fp_scheduler_policy u, fa_next_frame_budget_ms = fp_next_frame_budget_ms u,
       fa_hot_path_budget_ms = fp_hot_path_budget_ms u, fa_copy_queue_budget_ms = fp_copy_queue_budget_ms u,
       fa_pre_frame_window_ms = fp_pre_frame_window_ms u, fa_guardband_ms = fp_guardband_ms u,
       fa_cycle_count = (case previous_frame of None \<Rightarrow> cycle_count | Some s \<Rightarrow> fa_cycle_count s + 1)\<rparr>)"

definition build_memory_state :: "memory_policy_update \<Rightarrow> runtime_state option \<Rightarrow> int \<Rightarrow> memory_state" where
  "build_memory_state u previous cycle_count =
    (let previous_memory = (case previous of None \<Rightarrow> None | Some p \<Rightarrow> (case sa_memory p of [] \<Rightarrow> None | m # _ \<Rightarrow> Some m))
     in \<lparr>ma2_action = mp_action u, ma2_residency_policy = mp_residency_policy u, ma2_relief_target_mb = mp_relief_target_mb u,
       ma2_headroom_target_mb = mp_headroom_target_mb u, ma2_memory_delta_mb = mp_memory_delta_mb u,
       ma2_active = (mp_action u \<noteq> lit ''hold-memory-residency''),
       ma2_cycle_count = (case previous_memory of None \<Rightarrow> cycle_count | Some m \<Rightarrow> ma2_cycle_count m + 1)\<rparr>)"

definition build_state_digest :: "policy_update \<Rightarrow> int \<Rightarrow> pystr" where
  "build_state_digest u cycle_count =
    lit ''profile:'' @ pu_next_profile u @ lit ''|policy:'' @ pu_policy_action u @ lit ''|frames:'' @ show_int (int (pu_frame_update_count u))
      @ lit ''|memory:'' @ fixed4 (pu_memory_relief_target_mb u) @ lit '':'' @ fixed4 (pu_memory_headroom_target_mb u)
      @ lit ''|cycle:'' @ show_int cycle_count"

definition build_runtime_state_accumulator :: "policy_update \<Rightarrow> runtime_state option \<Rightarrow> runtime_state" where
  "build_runtime_state_accumulator u previous =
    (let cycle_count = (case previous of None \<Rightarrow> 1 | Some p \<Rightarrow> sa_cycle_count p + 1);
         frames = map (\<lambda>f. build_frame_state f previous cycle_count) (pu_frame_updates u);
         memory = map (\<lambda>m. build_memory_state m previous cycle_count) (pu_memory_updates u)
     in \<lparr>sa_mode = lit ''runtime-state-accumulator-v0.41'', sa_profile = pu_next_profile u, sa_policy_action = pu_policy_action u,
       sa_convergence_status = pu_convergence_status u, sa_drift_risk = pu_drift_risk u, sa_cycle_count = cycle_count,
       sa_frame_state_count = int (length frames), sa_memory_state_count = int (length memory),
       sa_active_policy_count = int (pu_active_update_count u), sa_next_frame_budget_ms = pu_next_frame_budget_ms u,
       sa_hot_path_budget_ms = pu_hot_path_budget_ms u, sa_copy_queue_budget_ms = pu_copy_queue_budget_ms u,
       sa_pre_frame_window_ms = pu_pre_frame_window_ms u, sa_memory_relief_target_mb = pu_memory_relief_target_mb u,
       sa_memory_headroom_target_mb = pu_memory_headroom_target_mb u, sa_state_digest = build_state_digest u cycle_count,
       sa_frames = frames, sa_memory = memory\<rparr>)"

section \<open>Reading a state back\<close>

definition supported_state_modes :: "pystr list" where
  "supported_state_modes = [lit ''runtime-state-accumulator-v0.40'', lit ''runtime-state-accumulator-v0.41'']"

definition required_list :: "pydict \<Rightarrow> string \<Rightarrow> pyval list res" where
  "required_list d key = (case dget d key of PList xs \<Rightarrow> Inr xs
     | _ \<Rightarrow> value_error (lit ''Runtime state field must be a list: '' @ lit key))"

definition required_str :: "pydict \<Rightarrow> string \<Rightarrow> pystr res" where
  "required_str d key = (if dget d key = PNone then value_error (lit ''Runtime state field is required: '' @ lit key)
     else Inr (py_str (dget d key)))"

text \<open>Only \<^verbatim>\<open>TypeError\<close> and \<^verbatim>\<open>ValueError\<close> are turned into the field's error; an overflow escapes.\<close>

definition required_int :: "pydict \<Rightarrow> string \<Rightarrow> int res" where
  "required_int d key = (if dget d key = PNone then value_error (lit ''Runtime state field is required: '' @ lit key)
     else (case py_int (dget d key) of
         Inl (OverflowError m) \<Rightarrow> Inl (OverflowError m)
       | Inl _ \<Rightarrow> value_error (lit ''Runtime state field must be an integer: '' @ lit key)
       | Inr n \<Rightarrow> Inr n))"

definition required_float :: "pydict \<Rightarrow> string \<Rightarrow> pyfloat res" where
  "required_float d key = (if dget d key = PNone then value_error (lit ''Runtime state field is required: '' @ lit key)
     else (case py_float (dget d key) of
         Inl (OverflowError m) \<Rightarrow> Inl (OverflowError m)
       | Inl _ \<Rightarrow> value_error (lit ''Runtime state field must be numeric: '' @ lit key)
       | Inr x \<Rightarrow> Inr x))"

definition required_bool :: "pydict \<Rightarrow> string \<Rightarrow> bool res" where
  "required_bool d key = (case dget d key of PBool b \<Rightarrow> Inr b
     | _ \<Rightarrow> value_error (lit ''Runtime state field must be boolean: '' @ lit key))"

definition frame_state_from_dict :: "pyval \<Rightarrow> frame_state res" where
  "frame_state_from_dict v = (case v of PDict d \<Rightarrow>
       ebind (required_int d ''frame'') (\<lambda>frame.
       ebind (required_str d ''action'') (\<lambda>action.
       ebind (required_str d ''admission_policy'') (\<lambda>admission.
       ebind (required_str d ''scheduler_policy'') (\<lambda>scheduler.
       ebind (required_float d ''next_frame_budget_ms'') (\<lambda>next_budget.
       ebind (required_float d ''hot_path_budget_ms'') (\<lambda>hot_path.
       ebind (required_float d ''copy_queue_budget_ms'') (\<lambda>copy_queue.
       ebind (required_float d ''pre_frame_window_ms'') (\<lambda>window.
       ebind (required_float d ''guardband_ms'') (\<lambda>guardband.
       ebind (required_int d ''cycle_count'') (\<lambda>cycles.
       Inr \<lparr>fa_frame = frame, fa_action = action, fa_admission_policy = admission, fa_scheduler_policy = scheduler,
         fa_next_frame_budget_ms = next_budget, fa_hot_path_budget_ms = hot_path, fa_copy_queue_budget_ms = copy_queue,
         fa_pre_frame_window_ms = window, fa_guardband_ms = guardband, fa_cycle_count = cycles\<rparr>))))))))))
   | _ \<Rightarrow> value_error (lit ''Frame state payload must be a JSON object.''))"

definition memory_state_from_dict :: "pyval \<Rightarrow> memory_state res" where
  "memory_state_from_dict v = (case v of PDict d \<Rightarrow>
       ebind (required_str d ''action'') (\<lambda>action.
       ebind (required_str d ''residency_policy'') (\<lambda>residency.
       ebind (required_float d ''relief_target_mb'') (\<lambda>relief.
       ebind (required_float d ''headroom_target_mb'') (\<lambda>headroom.
       ebind (required_float d ''memory_delta_mb'') (\<lambda>delta.
       ebind (required_bool d ''active'') (\<lambda>active.
       ebind (required_int d ''cycle_count'') (\<lambda>cycles.
       Inr \<lparr>ma2_action = action, ma2_residency_policy = residency, ma2_relief_target_mb = relief, ma2_headroom_target_mb = headroom,
         ma2_memory_delta_mb = delta, ma2_active = active, ma2_cycle_count = cycles\<rparr>)))))))
   | _ \<Rightarrow> value_error (lit ''Memory state payload must be a JSON object.''))"

definition runtime_state_accumulator_from_dict :: "pyval \<Rightarrow> runtime_state res" where
  "runtime_state_accumulator_from_dict v = (case v of PDict d \<Rightarrow>
       let mode = py_str (py_or (dget d ''mode'') (PStr [])) in
       if mode \<notin> set supported_state_modes then value_error (lit ''Unsupported runtime state accumulator mode: '' @ mode) else
       ebind (required_list d ''frames'') (\<lambda>frame_items. ebind (etraverse frame_state_from_dict frame_items) (\<lambda>frames.
       ebind (required_list d ''memory'') (\<lambda>memory_items. ebind (etraverse memory_state_from_dict memory_items) (\<lambda>memory.
       ebind (required_str d ''profile'') (\<lambda>profile.
       ebind (required_str d ''policy_action'') (\<lambda>policy.
       ebind (required_str d ''convergence_status'') (\<lambda>convergence.
       ebind (required_str d ''drift_risk'') (\<lambda>drift.
       ebind (required_int d ''cycle_count'') (\<lambda>cycles.
       ebind (required_int d ''frame_state_count'') (\<lambda>frame_count.
       ebind (required_int d ''memory_state_count'') (\<lambda>memory_count.
       ebind (required_int d ''active_policy_count'') (\<lambda>active.
       ebind (required_float d ''next_frame_budget_ms'') (\<lambda>next_budget.
       ebind (required_float d ''hot_path_budget_ms'') (\<lambda>hot_path.
       ebind (required_float d ''copy_queue_budget_ms'') (\<lambda>copy_queue.
       ebind (required_float d ''pre_frame_window_ms'') (\<lambda>window.
       ebind (required_float d ''memory_relief_target_mb'') (\<lambda>relief.
       ebind (required_float d ''memory_headroom_target_mb'') (\<lambda>headroom.
       ebind (required_str d ''state_digest'') (\<lambda>digest.
       Inr \<lparr>sa_mode = mode, sa_profile = profile, sa_policy_action = policy, sa_convergence_status = convergence,
         sa_drift_risk = drift, sa_cycle_count = cycles, sa_frame_state_count = frame_count, sa_memory_state_count = memory_count,
         sa_active_policy_count = active, sa_next_frame_budget_ms = next_budget, sa_hot_path_budget_ms = hot_path,
         sa_copy_queue_budget_ms = copy_queue, sa_pre_frame_window_ms = window, sa_memory_relief_target_mb = relief,
         sa_memory_headroom_target_mb = headroom, sa_state_digest = digest, sa_frames = frames, sa_memory = memory\<rparr>)))))))))))))))))))
   | _ \<Rightarrow> value_error (lit ''Runtime state payload must be a JSON object.''))"

section \<open>Reloading and counting\<close>

text \<open>What writing a state keeps of it: every budget rounded to four decimals, everything else as it is.\<close>

definition written_frame :: "frame_state \<Rightarrow> frame_state" where
  "written_frame f = f\<lparr>fa_next_frame_budget_ms := fround 4 (fa_next_frame_budget_ms f),
     fa_hot_path_budget_ms := fround 4 (fa_hot_path_budget_ms f), fa_copy_queue_budget_ms := fround 4 (fa_copy_queue_budget_ms f),
     fa_pre_frame_window_ms := fround 4 (fa_pre_frame_window_ms f), fa_guardband_ms := fround 4 (fa_guardband_ms f)\<rparr>"

definition written_memory :: "memory_state \<Rightarrow> memory_state" where
  "written_memory m = m\<lparr>ma2_relief_target_mb := fround 4 (ma2_relief_target_mb m),
     ma2_headroom_target_mb := fround 4 (ma2_headroom_target_mb m), ma2_memory_delta_mb := fround 4 (ma2_memory_delta_mb m)\<rparr>"

definition written_state :: "runtime_state \<Rightarrow> runtime_state" where
  "written_state s = s\<lparr>sa_next_frame_budget_ms := fround 4 (sa_next_frame_budget_ms s),
     sa_hot_path_budget_ms := fround 4 (sa_hot_path_budget_ms s), sa_copy_queue_budget_ms := fround 4 (sa_copy_queue_budget_ms s),
     sa_pre_frame_window_ms := fround 4 (sa_pre_frame_window_ms s), sa_memory_relief_target_mb := fround 4 (sa_memory_relief_target_mb s),
     sa_memory_headroom_target_mb := fround 4 (sa_memory_headroom_target_mb s), sa_frames := map written_frame (sa_frames s),
     sa_memory := map written_memory (sa_memory s)\<rparr>"

lemmas required_defs = required_list_def required_str_def required_int_def required_float_def required_bool_def

lemma py_reads [simp]: "py_int (PInt n) = Inr n" "py_float (PFloat x) = Inr x" "py_str (PStr s) = s"
  by (simp_all add: py_int_def py_float_def)

lemma frame_state_reload: "frame_state_from_dict (frame_state_to_dict f) = Inr (written_frame f)"
  by (simp add: frame_state_from_dict_def frame_state_to_dict_def required_defs dget_def dget_or_def round4_def written_frame_def)

lemma memory_state_reload: "memory_state_from_dict (memory_state_to_dict m) = Inr (written_memory m)"
  by (simp add: memory_state_from_dict_def memory_state_to_dict_def required_defs dget_def dget_or_def round4_def written_memory_def)

lemma states_reload:
  "etraverse frame_state_from_dict (map frame_state_to_dict fs) = Inr (map written_frame fs)"
  "etraverse memory_state_from_dict (map memory_state_to_dict ms) = Inr (map written_memory ms)"
  by (induction fs, simp_all add: frame_state_reload) (induction ms, simp_all add: memory_state_reload)

lemma text_or_empty: "py_str (py_or (PStr m) (PStr [])) = m"
  by (cases m) (simp_all add: py_or_def truthy_def)

lemma reload_written:
  assumes "sa_mode s \<in> set supported_state_modes"
  shows "runtime_state_accumulator_from_dict (runtime_state_to_dict s) = Inr (written_state s)"
  using assms by (simp add: runtime_state_accumulator_from_dict_def runtime_state_to_dict_def required_defs dget_def dget_or_def
    round4_def written_state_def states_reload text_or_empty)

text \<open>C38: A state with one of the supported modes that is written as a dictionary and read back is the same state, every frame and
  memory state in order and every count and text unchanged, with its floats rounded to four decimals; with any other mode it is
  refused with the mode in the message.\<close>

theorem state_reload:
  "runtime_state_accumulator_from_dict (runtime_state_to_dict s) =
    (if sa_mode s \<in> set supported_state_modes then Inr (written_state s)
     else Inl (ValueError (lit ''Unsupported runtime state accumulator mode: '' @ sa_mode s)))"
proof (cases "sa_mode s \<in> set supported_state_modes")
  case False
  then show ?thesis
    by (simp add: runtime_state_accumulator_from_dict_def runtime_state_to_dict_def dget_def dget_or_def value_error_def text_or_empty)
qed (simp add: reload_written)

text \<open>The states the daemon can hold after \<open>n\<close> updates, written and read back between them any number of times.\<close>

inductive state_after :: "nat \<Rightarrow> runtime_state \<Rightarrow> bool" where
  first: "state_after 1 (build_runtime_state_accumulator u None)"
| update: "state_after n s \<Longrightarrow> state_after (Suc n) (build_runtime_state_accumulator u (Some s))"
| reload: "state_after n s \<Longrightarrow> runtime_state_accumulator_from_dict (runtime_state_to_dict s) = Inr s' \<Longrightarrow> state_after n s'"

definition counts_cycles :: "nat \<Rightarrow> runtime_state \<Rightarrow> bool" where
  "counts_cycles n s \<longleftrightarrow> sa_cycle_count s = int n \<and> sa_mode s = lit ''runtime-state-accumulator-v0.41''
    \<and> sa_frame_state_count s = int (length (sa_frames s)) \<and> sa_memory_state_count s = int (length (sa_memory s))
    \<and> list_all (\<lambda>f. fa_cycle_count f = int n) (sa_frames s) \<and> list_all (\<lambda>m. ma2_cycle_count m = int n) (sa_memory s)"

lemma find_frame_cycle:
  "list_all (\<lambda>f. fa_cycle_count f = c) fs \<Longrightarrow> List.find q fs = Some x \<Longrightarrow> fa_cycle_count x = c"
  by (auto simp: find_Some_iff list_all_length)

lemma build_counts_cycles:
  assumes "case previous of None \<Rightarrow> n = 0 | Some p \<Rightarrow> counts_cycles n p"
  shows "counts_cycles (Suc n) (build_runtime_state_accumulator u previous)"
proof -
  have "fa_cycle_count (build_frame_state f previous (int n + 1)) = int n + 1" for f
    using assms find_frame_cycle [of "int n"]
    by (auto simp: build_frame_state_def counts_cycles_def split: option.splits)
  moreover have "ma2_cycle_count (build_memory_state m previous (int n + 1)) = int n + 1" for m
    using assms by (auto simp: build_memory_state_def counts_cycles_def split: option.splits list.splits)
  moreover have "(case previous of None \<Rightarrow> 1 | Some p \<Rightarrow> sa_cycle_count p + 1) = int n + 1"
    using assms by (auto simp: counts_cycles_def split: option.splits)
  ultimately show ?thesis
    by (simp add: counts_cycles_def build_runtime_state_accumulator_def list_all_iff add.commute Let_def)
qed

lemma written_counts_cycles: "counts_cycles n s \<Longrightarrow> counts_cycles n (written_state s)"
  by (simp add: counts_cycles_def written_state_def written_frame_def written_memory_def list_all_iff)

text \<open>C17: A state reached by \<open>n\<close> updates, with any number of writes and reloads between them, has cycle count \<open>n\<close>; so has every
  frame and memory state in it, also of a frame that was absent before; the stored counts are the lengths of the lists, and the
  mode is the current one.\<close>

theorem state_counts_cycles:
  assumes "state_after n s"
  shows "0 < n \<and> counts_cycles n s"
  using assms
proof (induction rule: state_after.induct)
  case (first u)
  then show ?case using build_counts_cycles [of 0 None u] by simp
next
  case (update n s u)
  then show ?case using build_counts_cycles [of n "Some s" u] by simp
next
  case (reload n s s')
  then have "sa_mode s \<in> set supported_state_modes" by (simp add: counts_cycles_def supported_state_modes_def)
  then have "s' = written_state s" using reload by (simp add: reload_written)
  then show ?case using reload written_counts_cycles by simp
qed

section \<open>Witness\<close>

definition demo_update :: policy_update where
  "demo_update = build_runtime_policy_update (build_runtime_gateway_feedback (directed_cycle demo_directive) demo_calibration)"

theorem state_counts_cycles_witness:
  "counts_cycles 2 (build_runtime_state_accumulator demo_update (Some (written_state (build_runtime_state_accumulator demo_update None))))"
proof -
  let ?s = "build_runtime_state_accumulator demo_update None"
  have "runtime_state_accumulator_from_dict (runtime_state_to_dict ?s) = Inr (written_state ?s)"
    by (rule reload_written) (simp add: build_runtime_state_accumulator_def Let_def supported_state_modes_def)
  from state_after.update [OF state_after.reload [OF state_after.first this], of demo_update]
  have "state_after 2 (build_runtime_state_accumulator demo_update (Some (written_state ?s)))" by (simp add: numeral_2_eq_2)
  from state_counts_cycles [OF this] show ?thesis by simp
qed

end
