(* ===== verification/State_Transition.thy ===== *)
theory State_Transition
  imports State_Accumulator
begin

text \<open>
  The transition from the previous to the current state (\<^verbatim>\<open>src/fluidgateway/state_transition.py\<close>): a
  pressure index of each, and the trend between them. \<^verbatim>\<open>float(n)\<close> of a huge count raises.
\<close>

record state_transition =
  tr_mode :: pystr
  tr_has_previous_state :: bool
  tr_previous_cycle_count :: "int option"
  tr_current_cycle_count :: int
  tr_cycle_delta :: int
  tr_previous_pressure_index :: pyfloat
  tr_current_pressure_index :: pyfloat
  tr_pressure_delta :: pyfloat
  tr_profile_transition :: pystr
  tr_policy_transition :: pystr
  tr_convergence_transition :: pystr
  tr_drift_transition :: pystr
  tr_active_policy_delta :: pyfloat
  tr_frame_budget_delta_ms :: pyfloat
  tr_hot_path_budget_delta_ms :: pyfloat
  tr_copy_queue_budget_delta_ms :: pyfloat
  tr_pre_frame_window_delta_ms :: pyfloat
  tr_memory_relief_delta_mb :: pyfloat
  tr_memory_headroom_delta_mb :: pyfloat
  tr_trend :: pystr
  tr_transition_action :: pystr
  tr_confidence :: pystr
  tr_reason :: pystr
  tr_previous_state_digest :: "pystr option"
  tr_current_state_digest :: pystr

definition state_transition_to_dict :: "state_transition \<Rightarrow> pyval" where
  "state_transition_to_dict x = PDict
    [(lit ''mode'', PStr (tr_mode x)), (lit ''has_previous_state'', PBool (tr_has_previous_state x)),
     (lit ''previous_cycle_count'', opt_int (tr_previous_cycle_count x)), (lit ''current_cycle_count'', PInt (tr_current_cycle_count x)),
     (lit ''cycle_delta'', PInt (tr_cycle_delta x)), (lit ''previous_pressure_index'', round4 (tr_previous_pressure_index x)),
     (lit ''current_pressure_index'', round4 (tr_current_pressure_index x)), (lit ''pressure_delta'', round4 (tr_pressure_delta x)),
     (lit ''profile_transition'', PStr (tr_profile_transition x)), (lit ''policy_transition'', PStr (tr_policy_transition x)),
     (lit ''convergence_transition'', PStr (tr_convergence_transition x)), (lit ''drift_transition'', PStr (tr_drift_transition x)),
     (lit ''active_policy_delta'', PFloat (tr_active_policy_delta x)), (lit ''frame_budget_delta_ms'', round4 (tr_frame_budget_delta_ms x)),
     (lit ''hot_path_budget_delta_ms'', round4 (tr_hot_path_budget_delta_ms x)),
     (lit ''copy_queue_budget_delta_ms'', round4 (tr_copy_queue_budget_delta_ms x)),
     (lit ''pre_frame_window_delta_ms'', round4 (tr_pre_frame_window_delta_ms x)),
     (lit ''memory_relief_delta_mb'', round4 (tr_memory_relief_delta_mb x)),
     (lit ''memory_headroom_delta_mb'', round4 (tr_memory_headroom_delta_mb x)), (lit ''trend'', PStr (tr_trend x)),
     (lit ''transition_action'', PStr (tr_transition_action x)), (lit ''confidence'', PStr (tr_confidence x)),
     (lit ''reason'', PStr (tr_reason x)), (lit ''previous_state_digest'', opt_str (tr_previous_state_digest x)),
     (lit ''current_state_digest'', PStr (tr_current_state_digest x))]"

text \<open>The parts the index adds up, in the order of the code; \<open>n\<close> is \<^verbatim>\<open>float(state.active_policy_count)\<close>.\<close>

definition pressure_parts :: "runtime_state \<Rightarrow> pyfloat \<Rightarrow> pyfloat list" where
  "pressure_parts s n =
    (if sa_profile s = lit ''aggressive'' then [Fin (3 / 2)] else [])
    @ (if has_infix (lit ''pressure'') (sa_policy_action s) \<or> has_infix (lit ''tighten'') (sa_policy_action s) then [Fin 2]
       else if has_infix (lit ''preserve'') (sa_policy_action s) then [Fin (1 / 2)] else [])
    @ (if sa_convergence_status s = lit ''diverging'' then [Fin 3]
       else if sa_convergence_status s \<notin> {lit ''stable'', lit ''unknown''} then [Fin 2] else [])
    @ (if sa_drift_risk s = lit ''high'' then [Fin 3] else if sa_drift_risk s = lit ''medium'' then [Fin (3 / 2)] else [])
    @ [fmul (fmin n (Fin 4)) (Fin (3 / 4)), fmin (fdiv (fmax (sa_memory_relief_target_mb s) (Fin 0)) 20) (Fin 3)]
    @ (if sa_copy_queue_budget_ms s = Fin 0 \<and> 0 < sa_active_policy_count s then [Fin (1 / 2)] else [])"

definition pressure_index :: "runtime_state option \<Rightarrow> pyfloat res" where
  "pressure_index s = (case s of None \<Rightarrow> Inr (Fin 0)
     | Some x \<Rightarrow> ebind (py_float (PInt (sa_active_policy_count x))) (\<lambda>n. Inr (foldl fadd (Fin 0) (pressure_parts x n))))"

definition transition_trend :: "runtime_state option \<Rightarrow> pyfloat \<Rightarrow> pystr" where
  "transition_trend previous delta =
    (if previous = None then lit ''baseline'' else if fle delta (Fin (- 2)) then lit ''improving''
     else if fle (Fin 2) delta then lit ''worsening'' else lit ''stable'')"

definition transition_action :: "runtime_state \<Rightarrow> pystr \<Rightarrow> pystr" where
  "transition_action current trend =
    (if trend = lit ''baseline'' then lit ''establish-runtime-baseline''
     else if trend = lit ''improving'' then
       (if sa_profile current = lit ''stable'' then lit ''relax-after-pressure-relief'' else lit ''hold-recovery-guardband'')
     else if trend = lit ''worsening'' then lit ''tighten-after-pressure-regression''
     else if sa_drift_risk current = lit ''low'' then lit ''preserve-runtime-state'' else lit ''monitor-runtime-state'')"

definition transition_confidence :: "runtime_state option \<Rightarrow> pyfloat \<Rightarrow> pystr" where
  "transition_confidence previous delta =
    (if previous = None then lit ''low'' else if fle (Fin 4) (fabs delta) then lit ''high'' else lit ''medium'')"

definition transition_reason :: "runtime_state option \<Rightarrow> pystr \<Rightarrow> pystr" where
  "transition_reason previous trend =
    (if previous = None then lit ''No prior runtime state was provided, so this cycle becomes the baseline.''
     else if trend = lit ''improving'' then lit ''The current cycle has a lower pressure index than the previous state.''
     else if trend = lit ''worsening'' then lit ''The current cycle has a higher pressure index than the previous state.''
     else lit ''The current cycle pressure index is close to the previous state.'')"

definition cycle_delta :: "runtime_state option \<Rightarrow> runtime_state \<Rightarrow> int" where
  "cycle_delta previous current = (case previous of None \<Rightarrow> 0 | Some p \<Rightarrow> sa_cycle_count current - sa_cycle_count p)"

definition state_transition_value :: "runtime_state option \<Rightarrow> runtime_state \<Rightarrow> (runtime_state \<Rightarrow> pystr) \<Rightarrow> pystr" where
  "state_transition_value previous current field =
    (case previous of None \<Rightarrow> lit ''none'' | Some p \<Rightarrow> field p) @ lit ''->'' @ field current"

definition numeric_delta :: "runtime_state option \<Rightarrow> runtime_state \<Rightarrow> (runtime_state \<Rightarrow> pyfloat) \<Rightarrow> pyfloat" where
  "numeric_delta previous current field = (case previous of None \<Rightarrow> Fin 0 | Some p \<Rightarrow> fsub (field current) (field p))"

definition count_delta :: "runtime_state option \<Rightarrow> runtime_state \<Rightarrow> pyfloat res" where
  "count_delta previous current = (case previous of None \<Rightarrow> Inr (Fin 0)
     | Some p \<Rightarrow> ebind (py_float (PInt (sa_active_policy_count current))) (\<lambda>x.
         ebind (py_float (PInt (sa_active_policy_count p))) (\<lambda>y. Inr (fsub x y))))"

definition build_runtime_state_transition :: "runtime_state option \<Rightarrow> runtime_state \<Rightarrow> state_transition res" where
  "build_runtime_state_transition previous current =
    ebind (pressure_index previous) (\<lambda>previous_index.
    ebind (pressure_index (Some current)) (\<lambda>current_index.
    ebind (count_delta previous current) (\<lambda>active_delta.
    let delta = (if previous = None then Fin 0 else fsub current_index previous_index);
        trend = transition_trend previous delta
    in Inr \<lparr>tr_mode = lit ''runtime-state-transition-v0.42'', tr_has_previous_state = (previous \<noteq> None),
      tr_previous_cycle_count = map_option sa_cycle_count previous, tr_current_cycle_count = sa_cycle_count current,
      tr_cycle_delta = cycle_delta previous current, tr_previous_pressure_index = previous_index,
      tr_current_pressure_index = current_index, tr_pressure_delta = delta,
      tr_profile_transition = state_transition_value previous current sa_profile,
      tr_policy_transition = state_transition_value previous current sa_policy_action,
      tr_convergence_transition = state_transition_value previous current sa_convergence_status,
      tr_drift_transition = state_transition_value previous current sa_drift_risk, tr_active_policy_delta = active_delta,
      tr_frame_budget_delta_ms = numeric_delta previous current sa_next_frame_budget_ms,
      tr_hot_path_budget_delta_ms = numeric_delta previous current sa_hot_path_budget_ms,
      tr_copy_queue_budget_delta_ms = numeric_delta previous current sa_copy_queue_budget_ms,
      tr_pre_frame_window_delta_ms = numeric_delta previous current sa_pre_frame_window_ms,
      tr_memory_relief_delta_mb = numeric_delta previous current sa_memory_relief_target_mb,
      tr_memory_headroom_delta_mb = numeric_delta previous current sa_memory_headroom_target_mb, tr_trend = trend,
      tr_transition_action = transition_action current trend, tr_confidence = transition_confidence previous delta,
      tr_reason = transition_reason previous trend, tr_previous_state_digest = map_option sa_state_digest previous,
      tr_current_state_digest = sa_state_digest current\<rparr>)))"

section \<open>Bounds of the index\<close>

text \<open>A state the code can make: no negative count, and a relief that is a number.\<close>

definition sound_state :: "runtime_state \<Rightarrow> bool" where
  "sound_state s \<longleftrightarrow> 0 \<le> sa_active_policy_count s \<and> sa_memory_relief_target_mb s \<noteq> NaN"

definition quarters :: "nat \<Rightarrow> pyfloat" where
  "quarters n = Fin (of_nat n / 4)"

lemma to_f64_quarters: "n < 2 ^ 20 \<Longrightarrow> to_f64 (of_nat n / 4) = quarters n"
  unfolding quarters_def
proof (rule to_f64_exact)
  assume n: "n < 2 ^ 20"
  then have "int n < int (2 ^ 20)" by (simp only: of_nat_less_iff)
  then show "\<bar>int n\<bar> < 2 ^ 53" by simp
  show "(of_nat n / 4 :: rat) = of_int (int n) * powb 2 (- 2)" by (simp add: powb_def)
  have "rat_of_nat n < rat_of_nat (2 ^ 20)" using n by (simp only: of_nat_less_iff)
  then have "\<bar>rat_of_nat n / 4\<bar> < powb 2 20" by (simp add: powb_def)
  also have "\<dots> < powb 2 1024" by (rule powb_less) simp
  finally show "\<bar>rat_of_nat n / 4\<bar> < powb 2 1024" .
qed simp

definition between :: "pyfloat \<Rightarrow> nat \<Rightarrow> bool" where
  "between x n \<longleftrightarrow> fnonneg x \<and> fle x (quarters n)"

lemma between_fadd: "between x m \<Longrightarrow> between y n \<Longrightarrow> m + n < 2 ^ 20 \<Longrightarrow> between (fadd x y) (m + n)"
proof -
  assume "between x m" "between y n" and n: "m + n < 2 ^ 20"
  then obtain a b where "x = Fin a" "y = Fin b" "0 \<le> a" "0 \<le> b" "a \<le> of_nat m / 4" "b \<le> of_nat n / 4"
    by (cases x; cases y) (auto simp: between_def fnonneg_def quarters_def)
  then show ?thesis
    using to_f64_le [of "a + b" "of_nat (m + n) / 4"] to_f64_nonneg [of "a + b"]
    by (simp add: between_def add_divide_distrib flip: to_f64_quarters [OF n])
qed

text \<open>Adding the parts to a sum raises its bound by at most \<open>n\<close>.\<close>

definition adds_at_most :: "nat \<Rightarrow> pyfloat list \<Rightarrow> bool" where
  "adds_at_most n xs \<longleftrightarrow> (\<forall>x m. between x m \<longrightarrow> m + n < 2 ^ 20 \<longrightarrow> between (foldl fadd x xs) (m + n))"

lemma between_weaken: "between x m \<Longrightarrow> m \<le> n \<Longrightarrow> between x n"
  by (cases x) (auto simp: between_def quarters_def divide_right_mono intro: order_trans)

lemma adds_none: "adds_at_most n []"
  by (simp add: adds_at_most_def between_weaken)

lemma adds_one: "between x n \<Longrightarrow> adds_at_most n [x]"
  by (simp add: adds_at_most_def between_fadd)

lemma adds_append: "adds_at_most m xs \<Longrightarrow> adds_at_most n ys \<Longrightarrow> adds_at_most (m + n) (xs @ ys)"
  unfolding adds_at_most_def by (simp add: add.assoc) (metis add.assoc add_lessD1)

lemma between_const: "0 \<le> a \<Longrightarrow> a \<le> of_nat n / 4 \<Longrightarrow> between (Fin a) n"
  by (simp add: between_def fnonneg_def quarters_def)

lemma between_policies: "fnonneg n \<Longrightarrow> between (fmul (fmin n (Fin 4)) (Fin (3 / 4))) 12"
proof -
  assume "fnonneg n"
  then have "\<exists>a. fmin n (Fin 4) = Fin a \<and> 0 \<le> a \<and> a \<le> 4" by (cases n) (auto simp: fmin_def fnonneg_def)
  then obtain a where a: "fmin n (Fin 4) = Fin a" "0 \<le> a" "a \<le> 4" by blast
  then show ?thesis
    using to_f64_le [of "a * (3 / 4)" "of_nat 12 / 4"] to_f64_nonneg [of "a * (3 / 4)"] to_f64_quarters [of 12]
    by (simp add: between_def fmul_def)
qed

lemma between_relief: "r \<noteq> NaN \<Longrightarrow> between (fmin (fdiv (fmax r (Fin 0)) 20) (Fin 3)) 12"
proof -
  assume "r \<noteq> NaN"
  then have "fnonneg (fdiv (fmax r (Fin 0)) 20)"
    by (cases r) (auto simp: fdiv_def fmax_def fnonneg_def fsign_def signed_inf_def intro: to_f64_nonneg [unfolded fnonneg_def])
  then show ?thesis
    by (cases "fdiv (fmax r (Fin 0)) 20") (auto simp: fmin_def between_def quarters_def fnonneg_def)
qed

lemma adds_parts:
  assumes "sound_state s" and "fnonneg n"
  shows "adds_at_most 64 (pressure_parts s n)"
proof -
  note one = adds_one [OF between_const]
  have profile: "adds_at_most 6 (if sa_profile s = lit ''aggressive'' then [Fin (3 / 2)] else [])"
    by (simp add: adds_none one)
  have policy: "adds_at_most 8 (if has_infix (lit ''pressure'') (sa_policy_action s) \<or> has_infix (lit ''tighten'') (sa_policy_action s)
      then [Fin 2] else if has_infix (lit ''preserve'') (sa_policy_action s) then [Fin (1 / 2)] else [])"
    by (simp add: adds_none one)
  have convergence: "adds_at_most 12 (if sa_convergence_status s = lit ''diverging'' then [Fin 3]
      else if sa_convergence_status s \<notin> {lit ''stable'', lit ''unknown''} then [Fin 2] else [])"
    by (simp add: adds_none one)
  have drift: "adds_at_most 12 (if sa_drift_risk s = lit ''high'' then [Fin 3]
      else if sa_drift_risk s = lit ''medium'' then [Fin (3 / 2)] else [])"
    by (simp add: adds_none one)
  have load: "adds_at_most (12 + 12) ([fmul (fmin n (Fin 4)) (Fin (3 / 4))] @ [fmin (fdiv (fmax (sa_memory_relief_target_mb s) (Fin 0)) 20) (Fin 3)])"
    using assms by (intro adds_append adds_one between_policies between_relief) (simp_all add: sound_state_def)
  have queue: "adds_at_most 2 (if sa_copy_queue_budget_ms s = Fin 0 \<and> 0 < sa_active_policy_count s then [Fin (1 / 2)] else [])"
    by (simp add: adds_none one)
  from adds_append [OF profile adds_append [OF policy adds_append [OF convergence adds_append [OF drift adds_append [OF load queue]]]]]
  show ?thesis by (simp add: pressure_parts_def)
qed

lemma pressure_bounded:
  assumes "sound_state s" and "pressure_index (Some s) = Inr p"
  shows "between p 64"
proof -
  obtain n where n: "py_float (PInt (sa_active_policy_count s)) = Inr n" and p: "p = foldl fadd (Fin 0) (pressure_parts s n)"
    using assms(2) by (auto simp: pressure_index_def ebind_eq_Inr)
  have "fnonneg n" using n assms(1) to_f64_nonneg [of "of_int (sa_active_policy_count s)"]
    by (auto simp: py_float_def sound_state_def split: pyfloat.splits)
  from adds_parts [OF assms(1) this] show ?thesis
    using between_const [of 0 0] unfolding adds_at_most_def p by fastforce
qed

text \<open>A rise the rounded difference reports as at least two is more than fifteen eighths.\<close>

lemma reported_rise:
  assumes "between p m" and "between c n" and "fle (Fin 2) (fsub c p)"
  shows "\<exists>a b. p = Fin a \<and> c = Fin b \<and> 0 \<le> a \<and> b \<le> of_nat n / 4 \<and> a + 15 / 8 < b"
proof -
  obtain a b where ab: "p = Fin a" "c = Fin b" "0 \<le> a" "b \<le> of_nat n / 4"
    using assms(1,2) by (cases p; cases c) (auto simp: between_def fnonneg_def quarters_def)
  have exact: "to_f64 (15 / 8) = Fin (15 / 8)" by code_simp
  have "a + 15 / 8 < b"
  proof (rule ccontr)
    assume "\<not> a + 15 / 8 < b"
    then have "fle (to_f64 (b - a)) (Fin (15 / 8))"
      using to_f64_le [of "b - a" "15 / 8"] exact by simp
    moreover have "fle (Fin 2) (to_f64 (b - a))" using assms(3) by (simp add: ab fsub_def fneg_def)
    ultimately have "fle (Fin 2) (Fin (15 / 8))" by (rule fle_trans [rotated])
    then show False by simp
  qed
  with ab show ?thesis by blast
qed

end
