(* ===== verification/Supervisor.thy ===== *)
theory Supervisor
  imports State_Transition
begin

text \<open>
  The supervisor: its directive from a state and a transition (\<^verbatim>\<open>src/fluidgateway/supervisor.py\<close>), the
  plan of five commands (\<^verbatim>\<open>supervisor_plan.py\<close>) and its dry run (\<^verbatim>\<open>supervisor_execution.py\<close>).
\<close>

section \<open>Directive\<close>

record supervisor_directive =
  sd_mode :: pystr
  sd_source_trend :: pystr
  sd_source_transition_action :: pystr
  sd_directive_action :: pystr
  sd_scheduler_posture :: pystr
  sd_admission_posture :: pystr
  sd_memory_posture :: pystr
  sd_frame_budget_posture :: pystr
  sd_guardband_posture :: pystr
  sd_escalation_level :: int
  sd_cooldown_cycles :: int
  sd_current_pressure_index :: pyfloat
  sd_pressure_delta :: pyfloat
  sd_next_frame_budget_ms :: pyfloat
  sd_hot_path_budget_ms :: pyfloat
  sd_copy_queue_budget_ms :: pyfloat
  sd_pre_frame_window_ms :: pyfloat
  sd_memory_relief_target_mb :: pyfloat
  sd_memory_headroom_target_mb :: pyfloat
  sd_confidence :: pystr
  sd_reason :: pystr
  sd_state_digest :: pystr

definition supervisor_directive_to_dict :: "supervisor_directive \<Rightarrow> pyval" where
  "supervisor_directive_to_dict x = PDict
    [(lit ''mode'', PStr (sd_mode x)), (lit ''source_trend'', PStr (sd_source_trend x)),
     (lit ''source_transition_action'', PStr (sd_source_transition_action x)),
     (lit ''directive_action'', PStr (sd_directive_action x)), (lit ''scheduler_posture'', PStr (sd_scheduler_posture x)),
     (lit ''admission_posture'', PStr (sd_admission_posture x)), (lit ''memory_posture'', PStr (sd_memory_posture x)),
     (lit ''frame_budget_posture'', PStr (sd_frame_budget_posture x)),
     (lit ''guardband_posture'', PStr (sd_guardband_posture x)), (lit ''escalation_level'', PInt (sd_escalation_level x)),
     (lit ''cooldown_cycles'', PInt (sd_cooldown_cycles x)),
     (lit ''current_pressure_index'', round4 (sd_current_pressure_index x)),
     (lit ''pressure_delta'', round4 (sd_pressure_delta x)),
     (lit ''next_frame_budget_ms'', round4 (sd_next_frame_budget_ms x)),
     (lit ''hot_path_budget_ms'', round4 (sd_hot_path_budget_ms x)),
     (lit ''copy_queue_budget_ms'', round4 (sd_copy_queue_budget_ms x)),
     (lit ''pre_frame_window_ms'', round4 (sd_pre_frame_window_ms x)),
     (lit ''memory_relief_target_mb'', round4 (sd_memory_relief_target_mb x)),
     (lit ''memory_headroom_target_mb'', round4 (sd_memory_headroom_target_mb x)),
     (lit ''confidence'', PStr (sd_confidence x)), (lit ''reason'', PStr (sd_reason x)),
     (lit ''state_digest'', PStr (sd_state_digest x))]"

record supervisor_shape =
  sh_directive_action :: string
  sh_scheduler_posture :: string
  sh_admission_posture :: string
  sh_memory_posture :: string
  sh_frame_budget_posture :: string
  sh_guardband_posture :: string
  sh_escalation_level :: int
  sh_cooldown_cycles :: int
  sh_reason :: string

definition directive_shape :: "runtime_state \<Rightarrow> state_transition \<Rightarrow> supervisor_shape" where
  "directive_shape s t =
    (if tr_trend t = lit ''baseline'' then
       \<lparr>sh_directive_action = ''establish-supervisor-baseline'', sh_scheduler_posture = ''observe-runtime-cycle'',
        sh_admission_posture = ''observe-admission'', sh_memory_posture = ''observe-residency'',
        sh_frame_budget_posture = ''hold-current-budget'', sh_guardband_posture = ''record-guardband'',
        sh_escalation_level = 0, sh_cooldown_cycles = 1,
        sh_reason = ''First persisted state; supervisor should observe before changing posture.''\<rparr>
     else if tr_trend t = lit ''improving'' then
       (if sa_profile s = lit ''stable'' then
          \<lparr>sh_directive_action = ''relax-supervisor-pressure'', sh_scheduler_posture = ''relax-to-stable-cycle'',
           sh_admission_posture = ''allow-budgeted-copy-queue'', sh_memory_posture = ''release-relief-watch'',
           sh_frame_budget_posture = ''restore-stable-budget'', sh_guardband_posture = ''decay-guardband'',
           sh_escalation_level = 0, sh_cooldown_cycles = 2,
           sh_reason = ''Pressure dropped and the state is stable enough to relax guarded pressure posture.''\<rparr>
        else
          \<lparr>sh_directive_action = ''hold-recovery-supervision'', sh_scheduler_posture = ''hold-aggressive-recovery'',
           sh_admission_posture = ''keep-noncritical-deferred'', sh_memory_posture = ''continue-relief-watch'',
           sh_frame_budget_posture = ''hold-recovery-budget'', sh_guardband_posture = ''hold-guardband'',
           sh_escalation_level = 1, sh_cooldown_cycles = 1,
           sh_reason = ''Pressure dropped but the runtime is still aggressive, so recovery posture is retained.''\<rparr>)
     else if tr_trend t = lit ''worsening'' then
       \<lparr>sh_directive_action = ''escalate-supervisor-pressure'', sh_scheduler_posture = ''tighten-preframe-dispatch'',
        sh_admission_posture = ''block-noncritical-copy-queue'', sh_memory_posture = ''protect-residency-and-relief'',
        sh_frame_budget_posture = ''tighten-hot-path-budget'', sh_guardband_posture = ''increase-guardband'',
        sh_escalation_level = 2, sh_cooldown_cycles = 0,
        sh_reason = ''Pressure rose across persisted cycles; supervisor should tighten the next-cycle posture.''\<rparr>
     else if sa_drift_risk s = lit ''low'' then
       \<lparr>sh_directive_action = ''preserve-supervisor-state'', sh_scheduler_posture = ''preserve-stable-cycle'',
        sh_admission_posture = ''preserve-budgeted-admission'', sh_memory_posture = ''hold-residency'',
        sh_frame_budget_posture = ''preserve-budget'', sh_guardband_posture = ''preserve-guardband'',
        sh_escalation_level = 0, sh_cooldown_cycles = 1,
        sh_reason = ''Pressure is close to the previous state and drift risk is low.''\<rparr>
     else
       \<lparr>sh_directive_action = ''monitor-supervisor-state'', sh_scheduler_posture = ''monitor-runtime-cycle'',
        sh_admission_posture = ''monitor-admission'', sh_memory_posture = ''monitor-residency'',
        sh_frame_budget_posture = ''hold-current-budget'', sh_guardband_posture = ''monitor-guardband'',
        sh_escalation_level = 1, sh_cooldown_cycles = 0,
        sh_reason = ''Pressure is close to the previous state but drift risk still needs supervision.''\<rparr>)"

definition supervised_frame_budget_ms :: "runtime_state \<Rightarrow> state_transition \<Rightarrow> pyfloat" where
  "supervised_frame_budget_ms s t =
    (if tr_trend t = lit ''worsening'' then fmax (Fin 0) (fmin (sa_next_frame_budget_ms s) (sa_hot_path_budget_ms s))
     else sa_next_frame_budget_ms s)"

definition supervised_hot_path_budget_ms :: "runtime_state \<Rightarrow> state_transition \<Rightarrow> pyfloat" where
  "supervised_hot_path_budget_ms s t =
    (if tr_trend t = lit ''worsening'' then fmax (Fin 0) (fmin (sa_hot_path_budget_ms s) (sa_next_frame_budget_ms s))
     else sa_hot_path_budget_ms s)"

definition supervised_copy_queue_budget_ms :: "runtime_state \<Rightarrow> state_transition \<Rightarrow> pyfloat" where
  "supervised_copy_queue_budget_ms s t = (if tr_trend t = lit ''worsening'' then Fin 0 else sa_copy_queue_budget_ms s)"

definition supervised_pre_frame_window_ms :: "runtime_state \<Rightarrow> state_transition \<Rightarrow> pyfloat" where
  "supervised_pre_frame_window_ms s t =
    (if tr_trend t = lit ''worsening'' then fmax (sa_pre_frame_window_ms s) (fmul (sa_hot_path_budget_ms s) (Fin (3 / 4)))
     else sa_pre_frame_window_ms s)"

definition supervised_memory_relief_target_mb :: "runtime_state \<Rightarrow> state_transition \<Rightarrow> pyfloat" where
  "supervised_memory_relief_target_mb s t =
    (if tr_trend t = lit ''worsening'' then fmax (sa_memory_relief_target_mb s) (Fin 0)
     else if tr_trend t = lit ''improving'' \<and> sa_profile s = lit ''stable'' then Fin 0
     else sa_memory_relief_target_mb s)"

definition build_runtime_supervisor_directive :: "runtime_state \<Rightarrow> state_transition \<Rightarrow> supervisor_directive" where
  "build_runtime_supervisor_directive s t =
    (let shape = directive_shape s t
     in \<lparr>sd_mode = lit ''runtime-supervisor-directive-v0.43'', sd_source_trend = tr_trend t,
       sd_source_transition_action = tr_transition_action t, sd_directive_action = lit (sh_directive_action shape),
       sd_scheduler_posture = lit (sh_scheduler_posture shape), sd_admission_posture = lit (sh_admission_posture shape),
       sd_memory_posture = lit (sh_memory_posture shape), sd_frame_budget_posture = lit (sh_frame_budget_posture shape),
       sd_guardband_posture = lit (sh_guardband_posture shape), sd_escalation_level = sh_escalation_level shape,
       sd_cooldown_cycles = sh_cooldown_cycles shape, sd_current_pressure_index = tr_current_pressure_index t,
       sd_pressure_delta = tr_pressure_delta t, sd_next_frame_budget_ms = supervised_frame_budget_ms s t,
       sd_hot_path_budget_ms = supervised_hot_path_budget_ms s t, sd_copy_queue_budget_ms = supervised_copy_queue_budget_ms s t,
       sd_pre_frame_window_ms = supervised_pre_frame_window_ms s t,
       sd_memory_relief_target_mb = supervised_memory_relief_target_mb s t,
       sd_memory_headroom_target_mb = sa_memory_headroom_target_mb s, sd_confidence = tr_confidence t,
       sd_reason = lit (sh_reason shape), sd_state_digest = sa_state_digest s\<rparr>)"

section \<open>Plan\<close>

record supervisor_command =
  sc_command_id :: pystr
  sc_domain :: pystr
  sc_phase :: pystr
  sc_action :: pystr
  sc_target :: pystr
  sc_budget_ms :: "pyfloat option"
  sc_target_mb :: "pyfloat option"
  sc_blocking :: bool
  sc_reason :: pystr

definition supervisor_command_to_dict :: "supervisor_command \<Rightarrow> pyval" where
  "supervisor_command_to_dict x = PDict
    [(lit ''command_id'', PStr (sc_command_id x)), (lit ''domain'', PStr (sc_domain x)), (lit ''phase'', PStr (sc_phase x)),
     (lit ''action'', PStr (sc_action x)), (lit ''target'', PStr (sc_target x)),
     (lit ''budget_ms'', rounded_or_none (sc_budget_ms x)), (lit ''target_mb'', rounded_or_none (sc_target_mb x)),
     (lit ''blocking'', PBool (sc_blocking x)), (lit ''reason'', PStr (sc_reason x))]"

record supervisor_plan =
  sp_mode :: pystr
  sp_source_directive_action :: pystr
  sp_plan_action :: pystr
  sp_command_count :: nat
  sp_scheduler_command_count :: nat
  sp_admission_command_count :: nat
  sp_memory_command_count :: nat
  sp_frame_budget_command_count :: nat
  sp_guardband_command_count :: nat
  sp_blocking_command_count :: nat
  sp_escalation_level :: int
  sp_cooldown_cycles :: int
  sp_confidence :: pystr
  sp_state_digest :: pystr
  sp_commands :: "supervisor_command list"

definition supervisor_plan_to_dict :: "supervisor_plan \<Rightarrow> pyval" where
  "supervisor_plan_to_dict x = PDict
    [(lit ''mode'', PStr (sp_mode x)), (lit ''source_directive_action'', PStr (sp_source_directive_action x)),
     (lit ''plan_action'', PStr (sp_plan_action x)), (lit ''command_count'', PInt (int (sp_command_count x))),
     (lit ''scheduler_command_count'', PInt (int (sp_scheduler_command_count x))),
     (lit ''admission_command_count'', PInt (int (sp_admission_command_count x))),
     (lit ''memory_command_count'', PInt (int (sp_memory_command_count x))),
     (lit ''frame_budget_command_count'', PInt (int (sp_frame_budget_command_count x))),
     (lit ''guardband_command_count'', PInt (int (sp_guardband_command_count x))),
     (lit ''blocking_command_count'', PInt (int (sp_blocking_command_count x))),
     (lit ''escalation_level'', PInt (sp_escalation_level x)), (lit ''cooldown_cycles'', PInt (sp_cooldown_cycles x)),
     (lit ''confidence'', PStr (sp_confidence x)), (lit ''state_digest'', PStr (sp_state_digest x)),
     (lit ''commands'', PList (map supervisor_command_to_dict (sp_commands x)))]"

definition scheduler_command :: "supervisor_directive \<Rightarrow> supervisor_command" where
  "scheduler_command d =
    \<lparr>sc_command_id = lit ''supervisor.scheduler.posture'', sc_domain = lit ''scheduler'', sc_phase = lit ''next-cycle'',
     sc_action = sd_scheduler_posture d, sc_target = lit ''runtime-dispatch'', sc_budget_ms = Some (sd_pre_frame_window_ms d),
     sc_target_mb = None, sc_blocking = (sd_directive_action d = lit ''escalate-supervisor-pressure''),
     sc_reason = lit ''Apply the supervisor scheduler posture for the next gateway cycle.''\<rparr>"

definition admission_command :: "supervisor_directive \<Rightarrow> supervisor_command" where
  "admission_command d =
    \<lparr>sc_command_id = lit ''supervisor.admission.posture'', sc_domain = lit ''admission'', sc_phase = lit ''next-cycle'',
     sc_action = sd_admission_posture d, sc_target = lit ''copy-queue'', sc_budget_ms = Some (sd_copy_queue_budget_ms d),
     sc_target_mb = None, sc_blocking = has_infix (lit ''block'') (sd_admission_posture d),
     sc_reason = lit ''Apply the supervised admission posture to copy-queue work.''\<rparr>"

definition residency_command :: "supervisor_directive \<Rightarrow> supervisor_command" where
  "residency_command d =
    \<lparr>sc_command_id = lit ''supervisor.memory.posture'', sc_domain = lit ''memory'', sc_phase = lit ''next-cycle'',
     sc_action = sd_memory_posture d, sc_target = lit ''ram-vram-residency'', sc_budget_ms = None,
     sc_target_mb = Some (float_or (sd_memory_relief_target_mb d) (sd_memory_headroom_target_mb d)),
     sc_blocking = (2 \<le> sd_escalation_level d), sc_reason = lit ''Apply the supervised memory residency and relief posture.''\<rparr>"

definition frame_budget_command :: "supervisor_directive \<Rightarrow> supervisor_command" where
  "frame_budget_command d =
    \<lparr>sc_command_id = lit ''supervisor.frame-budget.posture'', sc_domain = lit ''frame-budget'', sc_phase = lit ''next-frame'',
     sc_action = sd_frame_budget_posture d, sc_target = lit ''frame-hot-path'', sc_budget_ms = Some (sd_hot_path_budget_ms d),
     sc_target_mb = None, sc_blocking = False,
     sc_reason = lit ''Carry the supervised frame and hot-path budget into the next cycle.''\<rparr>"

definition guardband_command :: "supervisor_directive \<Rightarrow> supervisor_command" where
  "guardband_command d =
    \<lparr>sc_command_id = lit ''supervisor.guardband.posture'', sc_domain = lit ''guardband'', sc_phase = lit ''next-frame'',
     sc_action = sd_guardband_posture d, sc_target = lit ''frame-safety-margin'',
     sc_budget_ms = Some (fmax (Fin 0) (fsub (sd_pre_frame_window_ms d) (sd_hot_path_budget_ms d))), sc_target_mb = None,
     sc_blocking = False, sc_reason = lit ''Carry the supervised guardband posture into the next cycle.''\<rparr>"

definition build_supervisor_commands :: "supervisor_directive \<Rightarrow> supervisor_command list" where
  "build_supervisor_commands d =
    [scheduler_command d, admission_command d, residency_command d, frame_budget_command d, guardband_command d]"

definition plan_action :: "supervisor_directive \<Rightarrow> pystr" where
  "plan_action d =
    (if sd_directive_action d = lit ''establish-supervisor-baseline'' then lit ''observe-next-cycle''
     else if sd_directive_action d = lit ''relax-supervisor-pressure'' then lit ''apply-relaxed-next-cycle-posture''
     else if sd_directive_action d = lit ''hold-recovery-supervision'' then lit ''hold-recovery-next-cycle-posture''
     else if sd_directive_action d = lit ''escalate-supervisor-pressure'' then lit ''apply-tightened-next-cycle-posture''
     else if sd_directive_action d = lit ''preserve-supervisor-state'' then lit ''preserve-next-cycle-posture''
     else lit ''monitor-next-cycle-posture'')"

definition count_command_domain :: "supervisor_command list \<Rightarrow> string \<Rightarrow> nat" where
  "count_command_domain cs domain = count_if (\<lambda>c. sc_domain c = lit domain) cs"

definition build_runtime_supervisor_plan :: "supervisor_directive \<Rightarrow> supervisor_plan" where
  "build_runtime_supervisor_plan d =
    (let cs = build_supervisor_commands d
     in \<lparr>sp_mode = lit ''runtime-supervisor-plan-v0.44'', sp_source_directive_action = sd_directive_action d,
       sp_plan_action = plan_action d, sp_command_count = length cs,
       sp_scheduler_command_count = count_command_domain cs ''scheduler'',
       sp_admission_command_count = count_command_domain cs ''admission'', sp_memory_command_count = count_command_domain cs ''memory'',
       sp_frame_budget_command_count = count_command_domain cs ''frame-budget'',
       sp_guardband_command_count = count_command_domain cs ''guardband'', sp_blocking_command_count = count_if sc_blocking cs,
       sp_escalation_level = sd_escalation_level d, sp_cooldown_cycles = sd_cooldown_cycles d, sp_confidence = sd_confidence d,
       sp_state_digest = sd_state_digest d, sp_commands = cs\<rparr>)"

section \<open>Dry run\<close>

record command_execution =
  sx_command_id :: pystr
  sx_domain :: pystr
  sx_action :: pystr
  sx_target :: pystr
  sx_dry_run_status :: pystr
  sx_would_apply :: bool
  sx_would_block :: bool
  sx_simulated_budget_ms :: "pyfloat option"
  sx_simulated_target_mb :: "pyfloat option"
  sx_effect :: pystr
  sx_reason :: pystr

definition command_execution_to_dict :: "command_execution \<Rightarrow> pyval" where
  "command_execution_to_dict x = PDict
    [(lit ''command_id'', PStr (sx_command_id x)), (lit ''domain'', PStr (sx_domain x)), (lit ''action'', PStr (sx_action x)),
     (lit ''target'', PStr (sx_target x)), (lit ''dry_run_status'', PStr (sx_dry_run_status x)),
     (lit ''would_apply'', PBool (sx_would_apply x)), (lit ''would_block'', PBool (sx_would_block x)),
     (lit ''simulated_budget_ms'', rounded_or_none (sx_simulated_budget_ms x)),
     (lit ''simulated_target_mb'', rounded_or_none (sx_simulated_target_mb x)), (lit ''effect'', PStr (sx_effect x)),
     (lit ''reason'', PStr (sx_reason x))]"

record supervisor_execution =
  se_mode :: pystr
  se_source_plan_action :: pystr
  se_execution_action :: pystr
  se_dry_run :: bool
  se_would_modify_system :: bool
  se_execution_guard :: pystr
  se_command_count :: nat
  se_would_apply_count :: nat
  se_would_block_count :: nat
  se_scheduler_execution_count :: nat
  se_admission_execution_count :: nat
  se_memory_execution_count :: nat
  se_frame_budget_execution_count :: nat
  se_guardband_execution_count :: nat
  se_simulated_budget_ms :: pyfloat
  se_simulated_memory_target_mb :: pyfloat
  se_escalation_level :: int
  se_cooldown_cycles :: int
  se_confidence :: pystr
  se_state_digest :: pystr
  se_command_executions :: "command_execution list"

definition supervisor_execution_to_dict :: "supervisor_execution \<Rightarrow> pyval" where
  "supervisor_execution_to_dict x = PDict
    [(lit ''mode'', PStr (se_mode x)), (lit ''source_plan_action'', PStr (se_source_plan_action x)),
     (lit ''execution_action'', PStr (se_execution_action x)), (lit ''dry_run'', PBool (se_dry_run x)),
     (lit ''would_modify_system'', PBool (se_would_modify_system x)), (lit ''execution_guard'', PStr (se_execution_guard x)),
     (lit ''command_count'', PInt (int (se_command_count x))),
     (lit ''would_apply_count'', PInt (int (se_would_apply_count x))),
     (lit ''would_block_count'', PInt (int (se_would_block_count x))),
     (lit ''scheduler_execution_count'', PInt (int (se_scheduler_execution_count x))),
     (lit ''admission_execution_count'', PInt (int (se_admission_execution_count x))),
     (lit ''memory_execution_count'', PInt (int (se_memory_execution_count x))),
     (lit ''frame_budget_execution_count'', PInt (int (se_frame_budget_execution_count x))),
     (lit ''guardband_execution_count'', PInt (int (se_guardband_execution_count x))),
     (lit ''simulated_budget_ms'', round4 (se_simulated_budget_ms x)),
     (lit ''simulated_memory_target_mb'', round4 (se_simulated_memory_target_mb x)),
     (lit ''escalation_level'', PInt (se_escalation_level x)), (lit ''cooldown_cycles'', PInt (se_cooldown_cycles x)),
     (lit ''confidence'', PStr (se_confidence x)), (lit ''state_digest'', PStr (se_state_digest x)),
     (lit ''command_executions'', PList (map command_execution_to_dict (se_command_executions x)))]"

definition simulated_effect :: "supervisor_command \<Rightarrow> pystr" where
  "simulated_effect c =
    (if sc_domain c = lit ''scheduler'' then lit ''simulate-scheduler-posture''
     else if sc_domain c = lit ''admission'' then lit ''simulate-admission-gate''
     else if sc_domain c = lit ''memory'' then lit ''simulate-memory-residency''
     else if sc_domain c = lit ''frame-budget'' then lit ''simulate-frame-budget''
     else if sc_domain c = lit ''guardband'' then lit ''simulate-guardband''
     else lit ''simulate-supervisor-command'')"

definition dry_run_supervisor_command :: "supervisor_command \<Rightarrow> command_execution" where
  "dry_run_supervisor_command c =
    \<lparr>sx_command_id = sc_command_id c, sx_domain = sc_domain c, sx_action = sc_action c, sx_target = sc_target c,
     sx_dry_run_status = (if sc_blocking c then lit ''would-block'' else lit ''would-apply''), sx_would_apply = True,
     sx_would_block = sc_blocking c, sx_simulated_budget_ms = sc_budget_ms c, sx_simulated_target_mb = sc_target_mb c,
     sx_effect = simulated_effect c, sx_reason = lit ''Dry-run only: '' @ sc_reason c\<rparr>"

definition execution_action :: "supervisor_plan \<Rightarrow> pystr" where
  "execution_action p =
    (if sp_plan_action p = lit ''observe-next-cycle'' then lit ''dry-run-observation-supervisor-commands''
     else if sp_plan_action p = lit ''apply-relaxed-next-cycle-posture'' then lit ''dry-run-relaxed-supervisor-commands''
     else if sp_plan_action p = lit ''hold-recovery-next-cycle-posture'' then lit ''dry-run-recovery-supervisor-commands''
     else if sp_plan_action p = lit ''apply-tightened-next-cycle-posture'' then lit ''dry-run-tightened-supervisor-commands''
     else if sp_plan_action p = lit ''preserve-next-cycle-posture'' then lit ''dry-run-preserved-supervisor-commands''
     else lit ''dry-run-monitored-supervisor-commands'')"

definition count_execution_domain :: "command_execution list \<Rightarrow> string \<Rightarrow> nat" where
  "count_execution_domain xs domain = count_if (\<lambda>x. sx_domain x = lit domain) xs"

definition dry_run_runtime_supervisor_plan :: "supervisor_plan \<Rightarrow> supervisor_execution" where
  "dry_run_runtime_supervisor_plan p =
    (let xs = map dry_run_supervisor_command (sp_commands p)
     in \<lparr>se_mode = lit ''runtime-supervisor-execution-v0.45'', se_source_plan_action = sp_plan_action p,
       se_execution_action = execution_action p, se_dry_run = True, se_would_modify_system = False,
       se_execution_guard = lit ''advisory-only'', se_command_count = length xs, se_would_apply_count = count_if sx_would_apply xs,
       se_would_block_count = count_if sx_would_block xs, se_scheduler_execution_count = count_execution_domain xs ''scheduler'',
       se_admission_execution_count = count_execution_domain xs ''admission'',
       se_memory_execution_count = count_execution_domain xs ''memory'',
       se_frame_budget_execution_count = count_execution_domain xs ''frame-budget'',
       se_guardband_execution_count = count_execution_domain xs ''guardband'',
       se_simulated_budget_ms = fsum (map (opt_float_or_zero \<circ> sx_simulated_budget_ms) xs),
       se_simulated_memory_target_mb = fsum (map (opt_float_or_zero \<circ> sx_simulated_target_mb) xs),
       se_escalation_level = sp_escalation_level p, se_cooldown_cycles = sp_cooldown_cycles p, se_confidence = sp_confidence p,
       se_state_digest = sp_state_digest p, se_command_executions = xs\<rparr>)"

section \<open>Escalation\<close>

lemma posture_blocks:
  "\<not> has_infix (lit ''block'') (lit ''observe-admission'')" "\<not> has_infix (lit ''block'') (lit ''allow-budgeted-copy-queue'')"
  "\<not> has_infix (lit ''block'') (lit ''keep-noncritical-deferred'')" "has_infix (lit ''block'') (lit ''block-noncritical-copy-queue'')"
  "\<not> has_infix (lit ''block'') (lit ''preserve-budgeted-admission'')" "\<not> has_infix (lit ''block'') (lit ''monitor-admission'')"
  by code_simp+

lemma directive_blocks:
  "sp_blocking_command_count (build_runtime_supervisor_plan (build_runtime_supervisor_directive s t))
    = (if tr_trend t = lit ''worsening'' then 3 else 0)"
  by (simp add: build_runtime_supervisor_plan_def build_runtime_supervisor_directive_def build_supervisor_commands_def
    scheduler_command_def admission_command_def residency_command_def frame_budget_command_def guardband_command_def
    directive_shape_def posture_blocks Let_def)

lemma transition_fields:
  assumes "build_runtime_state_transition previous current = Inr t"
  obtains c p where "pressure_index (Some current) = Inr c" "pressure_index previous = Inr p"
    "tr_pressure_delta t = (if previous = None then Fin 0 else fsub c p)"
    "tr_trend t = transition_trend previous (tr_pressure_delta t)"
  using assms by (auto simp: build_runtime_state_transition_def ebind_eq_Inr Let_def)

lemma worsening_iff:
  "transition_trend previous d = lit ''worsening'' \<longleftrightarrow> previous \<noteq> None \<and> \<not> fle d (Fin (- 2)) \<and> fle (Fin 2) d"
  by (simp add: transition_trend_def)

text \<open>The supervisor answers the step from one state to the next with commands that block.\<close>

definition escalates :: "runtime_state \<Rightarrow> runtime_state \<Rightarrow> bool" where
  "escalates previous current = (case build_runtime_state_transition (Some previous) current of Inl _ \<Rightarrow> False
     | Inr t \<Rightarrow> 0 < se_would_block_count (dry_run_runtime_supervisor_plan
         (build_runtime_supervisor_plan (build_runtime_supervisor_directive current t))))"

lemma dry_run_blocks: "se_would_block_count (dry_run_runtime_supervisor_plan p) = count_if sc_blocking (sp_commands p)"
  by (simp add: dry_run_runtime_supervisor_plan_def Let_def count_if_map comp_def dry_run_supervisor_command_def)

lemma plan_blocks: "count_if sc_blocking (sp_commands (build_runtime_supervisor_plan d)) = sp_blocking_command_count (build_runtime_supervisor_plan d)"
  by (simp add: build_runtime_supervisor_plan_def Let_def)

lemma escalates_rise:
  assumes "escalates p c" and "sound_state p" and "sound_state c"
  shows "\<exists>a b. pressure_index (Some p) = Inr (Fin a) \<and> pressure_index (Some c) = Inr (Fin b) \<and> 0 \<le> a \<and> a + 15 / 8 < b \<and> b \<le> 16"
proof -
  obtain t where t: "build_runtime_state_transition (Some p) c = Inr t"
    and "tr_trend t = lit ''worsening''"
    using assms(1) by (auto simp: escalates_def dry_run_blocks plan_blocks directive_blocks split: sum.splits if_splits)
  with transition_fields [OF t] obtain x y where x: "pressure_index (Some p) = Inr x" and y: "pressure_index (Some c) = Inr y"
    and rise: "fle (Fin 2) (fsub y x)" by (metis option.distinct(1) worsening_iff)
  from reported_rise [OF pressure_bounded [OF assms(2) x] pressure_bounded [OF assms(3) y] rise]
  show ?thesis using x y by auto
qed

lemma escalation_rise:
  assumes "successively escalates (s # ss)" and "list_all sound_state (s # ss)" and "ss \<noteq> []"
  shows "\<exists>a b. pressure_index (Some s) = Inr (Fin a) \<and> pressure_index (Some (last ss)) = Inr (Fin b)
    \<and> 0 \<le> a \<and> a + 15 / 8 * of_nat (length ss) < b \<and> b \<le> 16"
  using assms
proof (induction ss arbitrary: s)
  case (Cons c ss)
  then obtain a b where ab: "pressure_index (Some s) = Inr (Fin a)" "pressure_index (Some c) = Inr (Fin b)" "0 \<le> a" "a + 15 / 8 < b" "b \<le> 16"
    using escalates_rise [of s c] by auto
  show ?case
  proof (cases "ss = []")
    case False
    then obtain d where "pressure_index (Some (last ss)) = Inr (Fin d)" "b + 15 / 8 * of_nat (length ss) < d" "d \<le> 16"
      using Cons.IH [of c] Cons.prems ab by auto
    then show ?thesis using ab False by (auto simp: add_divide_distrib distrib_left)
  qed (use ab in auto)
qed simp

text \<open>C21: The supervisor does not tighten for ever: the pressure index stays between 0 and 16 and an escalating step raises it by
  two, up to rounding, so of states without a negative count or a relief that is not a number at most nine can follow each other with
  blocking commands from each to the next.\<close>

theorem escalation_bounded:
  assumes "list_all sound_state ss" and "successively escalates ss"
  shows "length ss \<le> 9"
proof (cases ss)
  case (Cons s rs)
  show ?thesis
  proof (cases "rs = []")
    case False
    with escalation_rise [of s rs] assms Cons have "(15 / 8) * rat_of_nat (length rs) < 16" by auto
    then have "rat_of_nat (length rs) < rat_of_nat 9" by simp
    then have "length rs < 9" by (simp only: of_nat_less_iff)
    then show ?thesis using Cons by simp
  qed (simp add: Cons)
qed simp

text \<open>C39: The dry run of the supervisor's plan for any transition the code makes has its five commands, all of which would apply; three
  of them would block exactly when the pressure delta is at least two after a previous state, which is also exactly when the escalation
  level is two, and then the copy queue gets no budget.\<close>

theorem supervisor_blocks:
  assumes "build_runtime_state_transition previous current = Inr t"
  shows "let d = build_runtime_supervisor_directive current t; e = dry_run_runtime_supervisor_plan (build_runtime_supervisor_plan d);
      worse = (previous \<noteq> None \<and> fle (Fin 2) (tr_pressure_delta t))
    in se_command_count e = 5 \<and> se_would_apply_count e = 5 \<and> se_would_block_count e = (if worse then 3 else 0)
      \<and> (sd_escalation_level d = 2 \<longleftrightarrow> worse) \<and> (\<not> worse \<or> sd_copy_queue_budget_ms d = Fin 0)"
proof -
  let ?d = "build_runtime_supervisor_directive current t"
  have "\<not> (fle x (Fin (- 2)) \<and> fle (Fin 2) x)" for x by (cases x) auto
  then have worse: "tr_trend t = lit ''worsening'' \<longleftrightarrow> previous \<noteq> None \<and> fle (Fin 2) (tr_pressure_delta t)"
    using transition_fields [OF assms] worsening_iff by metis
  have "se_command_count (dry_run_runtime_supervisor_plan (build_runtime_supervisor_plan d)) = 5
      \<and> se_would_apply_count (dry_run_runtime_supervisor_plan (build_runtime_supervisor_plan d)) = 5" for d
    by (simp add: dry_run_runtime_supervisor_plan_def build_runtime_supervisor_plan_def build_supervisor_commands_def
      dry_run_supervisor_command_def Let_def)
  moreover have "sd_escalation_level ?d = 2 \<longleftrightarrow> tr_trend t = lit ''worsening''"
    by (simp add: build_runtime_supervisor_directive_def directive_shape_def Let_def)
  moreover have "sd_copy_queue_budget_ms ?d = Fin 0" if "tr_trend t = lit ''worsening''"
    using that by (simp add: build_runtime_supervisor_directive_def supervised_copy_queue_budget_ms_def Let_def)
  ultimately show ?thesis using worse by (auto simp: Let_def dry_run_blocks plan_blocks directive_blocks)
qed

section \<open>Witness\<close>

definition demo_calm :: runtime_state where
  "demo_calm = \<lparr>sa_mode = [], sa_profile = lit ''stable'', sa_policy_action = [], sa_convergence_status = lit ''stable'',
     sa_drift_risk = lit ''low'', sa_cycle_count = 1, sa_frame_state_count = 0, sa_memory_state_count = 0, sa_active_policy_count = 0,
     sa_next_frame_budget_ms = Fin 16, sa_hot_path_budget_ms = Fin 8, sa_copy_queue_budget_ms = Fin 2, sa_pre_frame_window_ms = Fin 4,
     sa_memory_relief_target_mb = Fin 0, sa_memory_headroom_target_mb = Fin 0, sa_state_digest = [], sa_frames = [], sa_memory = []\<rparr>"

definition demo_pressed :: runtime_state where
  "demo_pressed = demo_calm\<lparr>sa_profile := lit ''aggressive'', sa_convergence_status := lit ''diverging'', sa_active_policy_count := 2\<rparr>"

lemma demo_pressure: "pressure_index (Some demo_calm) = Inr (Fin 0)" "pressure_index (Some demo_pressed) = Inr (Fin 6)"
proof -
  have "py_float (PInt 0) = Inr (Fin 0)" "py_float (PInt 2) = Inr (Fin 2)"
    "foldl fadd (Fin 0) [fmul (fmin (Fin 0) (Fin 4)) (Fin (3 / 4)), fmin (fdiv (fmax (Fin 0) (Fin 0)) 20) (Fin 3)] = Fin 0"
    "foldl fadd (Fin 0) [Fin (3 / 2), Fin 3, fmul (fmin (Fin 2) (Fin 4)) (Fin (3 / 4)), fmin (fdiv (fmax (Fin 0) (Fin 0)) 20) (Fin 3)] = Fin 6"
    by code_simp+
  then show "pressure_index (Some demo_calm) = Inr (Fin 0)" "pressure_index (Some demo_pressed) = Inr (Fin 6)"
    by (simp_all add: pressure_index_def pressure_parts_def demo_calm_def demo_pressed_def del: foldl_Cons)
qed

lemma demo_escalates: "escalates demo_calm demo_pressed"
proof -
  have "fsub (Fin 6) (Fin 0) = Fin 6" "py_float (PInt 0) = Inr (Fin 0)" "py_float (PInt 2) = Inr (Fin 2)" by code_simp+
  then have "\<exists>t. build_runtime_state_transition (Some demo_calm) demo_pressed = Inr t \<and> tr_trend t = lit ''worsening''"
    by (simp add: build_runtime_state_transition_def demo_pressure count_delta_def transition_trend_def Let_def)
      (simp add: demo_calm_def demo_pressed_def)
  then show ?thesis by (auto simp: escalates_def dry_run_blocks plan_blocks directive_blocks)
qed

theorem escalation_bounded_witness: "escalates demo_calm demo_pressed \<and> length [demo_calm, demo_pressed] \<le> 9"
proof -
  have "list_all sound_state [demo_calm, demo_pressed]" by code_simp
  from escalation_bounded [OF this] demo_escalates show ?thesis by simp
qed

theorem supervisor_blocks_witness:
  "\<exists>t. build_runtime_state_transition (Some demo_calm) demo_pressed = Inr t
    \<and> se_would_apply_count (dry_run_runtime_supervisor_plan (build_runtime_supervisor_plan
        (build_runtime_supervisor_directive demo_pressed t))) = 5"
proof -
  obtain t where "build_runtime_state_transition (Some demo_calm) demo_pressed = Inr t"
    using demo_escalates by (auto simp: escalates_def split: sum.splits)
  with supervisor_blocks [OF this] show ?thesis by (simp add: Let_def)
qed

end
