(* ===== verification/Adapter_Session.thy ===== *)
theory Adapter_Session
  imports Live_Policy Admission_Feedback Lifetime_Schedule Supervisor
begin

text \<open>
  The adapter session (\<^verbatim>\<open>src/fluidgateway/adapter.py\<close>): the events of an engine drive the controller, the
  policy engine, the lifetime planner and the governor, and the result runs every planning stage on what was observed. An event
  that raises leaves the changes made before the exception, so a step returns a result and a session. The response
  dictionaries are values: the code shares the operation's result between the response and the session's list.
\<close>

section \<open>Session\<close>

record adapter =
  ax_session_id :: pystr
  ax_controller :: controller
  ax_engine :: policy_engine
  ax_planner :: lifetime_planner
  ax_emitted :: emitted_keys
  ax_current_frame :: "int option"
  ax_events :: nat
  ax_lifecycle_events :: nat
  ax_resource_events :: nat
  ax_operation_events :: nat
  ax_released :: "pystr list"
  ax_frames :: "(int \<times> frame_stats) list"
  ax_live_commands :: "live_command list"
  ax_directives :: "governor_directive list"
  ax_gates :: "execution_gate list"
  ax_results :: "pydict list"
  ax_closed :: bool

definition new_adapter :: "pystr \<Rightarrow> adapter" where
  "new_adapter session = \<lparr>ax_session_id = session, ax_controller = new_controller, ax_engine = new_policy_engine,
     ax_planner = new_lifetime_planner, ax_emitted = {}, ax_current_frame = None, ax_events = 0, ax_lifecycle_events = 0,
     ax_resource_events = 0, ax_operation_events = 0, ax_released = [], ax_frames = [], ax_live_commands = [],
     ax_directives = [], ax_gates = [], ax_results = [], ax_closed = False\<rparr>"

type_synonym step_outcome = "pydict res \<times> adapter"

text \<open>\<^verbatim>\<open>_frame_stats\<close> creates the statistics of a frame on first use; writing them back does it here.\<close>

definition stats_of :: "adapter \<Rightarrow> int \<Rightarrow> frame_stats" where
  "stats_of a frame = (case map_of (ax_frames a) frame of None \<Rightarrow> new_frame_stats frame | Some s \<Rightarrow> s)"

definition put_stats :: "int \<Rightarrow> frame_stats \<Rightarrow> adapter \<Rightarrow> adapter" where
  "put_stats frame s a = a\<lparr>ax_frames := alist_put frame s (ax_frames a)\<rparr>"

definition normalized_action :: "pyval \<Rightarrow> string list \<Rightarrow> string \<Rightarrow> pystr res" where
  "normalized_action v allowed dflt =
    (let action = py_lower (py_strip (py_str (py_or v (PStr (lit dflt)))))
     in if action \<in> lit ` set allowed then Inr action
        else value_error (lit ''Unsupported action: '' @ (if action = [] then lit ''missing'' else action) @ lit ''.''))"

definition adapter_frame :: "pydict \<Rightarrow> int res" where
  "adapter_frame p =
    (let v = (if dget p ''frame'' = PNone then dget p ''frame_id'' else dget p ''frame'')
     in if v = PNone then value_error (lit ''Frame event requires 'frame' or 'frame_id'.'') else py_int v)"

definition with_event_index :: "int option \<Rightarrow> pydict \<Rightarrow> pydict" where
  "with_event_index index response = (case index of None \<Rightarrow> response | Some i \<Rightarrow> (lit ''event_index'', PInt i) # response)"

definition record_policy_actions :: "engine_action list \<Rightarrow> int option \<Rightarrow> adapter \<Rightarrow> adapter" where
  "record_policy_actions as frame a = (case frame of
     None \<Rightarrow> a
   | Some f \<Rightarrow> let s = stats_of a f in
       put_stats f (s\<lparr>as_policy_action_count := as_policy_action_count s + length as,
         as_policy_action_ids := Some (list_or_empty (as_policy_action_ids s) @ map pa_id as)\<rparr>) a)"

definition frame_targets :: "adapter \<Rightarrow> (int \<times> pyfloat) list" where
  "frame_targets a = map (\<lambda>(_, s). (as_frame s, as_target_frame_ms s)) (ax_frames a)"

definition build_schedule_plan :: "adapter \<Rightarrow> lifetime_plan \<Rightarrow> scheduler_plan" where
  "build_schedule_plan a p = simulate_scheduler (ct_executed (ax_controller a)) (frame_targets a)
     (map (\<lambda>(_, s). (as_frame s, as_estimated_total_cost_ms s)) (ax_frames a)) p"

definition adapter_snapshot :: "adapter \<Rightarrow> live_snapshot" where
  "adapter_snapshot a = build_live_state_snapshot (ax_session_id a) (ax_current_frame a) (ax_frames a)
     (length (ct_resources (ax_controller a))) (pe_memory_totals_mb (ax_engine a)) (pe_memory_budgets_mb (ax_engine a))
     (length (ct_decisions (ax_controller a))) (ax_events a) (ax_operation_events a) (ax_resource_events a)
     (length (pe_actions (ax_engine a))) (length (ax_live_commands a))"

definition session_target_frame :: "int option \<Rightarrow> live_command option \<Rightarrow> adapter \<Rightarrow> pyfloat \<times> adapter" where
  "session_target_frame current c a =
    (case (if current = None then Option.bind c lc_frame else current) of
       None \<Rightarrow> (pe_target_frame_ms (ax_engine a), a)
     | Some f \<Rightarrow> let s = stats_of a f in (as_target_frame_ms s, put_stats f s a))"

text \<open>The tail of every handler: the snapshot, the governor's directives and, for an operation, its gate, admission and impact.\<close>

definition gate_operation ::
    "live_command \<Rightarrow> controller_result \<Rightarrow> governor_directive list \<Rightarrow> live_snapshot \<Rightarrow> pyfloat \<Rightarrow> pydict \<Rightarrow> adapter \<Rightarrow> step_outcome" where
  "gate_operation c r ds s target response a =
    (let g = build_execution_gate r c ds s target; gd = execution_gate_to_dict g;
         a1 = a\<lparr>ax_gates := ax_gates a @ [g]\<rparr>;
         payload = dput ''execution_gate'' gd (case dget response ''result'' of PDict d \<Rightarrow> d | _ \<Rightarrow> [])
     in case build_admission_decision payload of
          Inl e \<Rightarrow> (Inl e, a1)
        | Inr ad \<Rightarrow>
            let add = admission_to_dict ad; eid = efficiency_impact_to_dict (build_efficiency_impact ad);
                payload1 = dput ''efficiency_impact'' eid (dput ''admission_decision'' add payload)
            in (Inr (dput ''efficiency_impact'' eid (dput ''admission_decision'' add (dput ''execution_gate'' gd
                   (dput ''result'' (PDict payload1) response)))), a1\<lparr>ax_results := ax_results a1 @ [payload1]\<rparr>))"

definition with_state_snapshot :: "pydict \<Rightarrow> int option \<Rightarrow> (live_command \<times> controller_result) option \<Rightarrow> adapter \<Rightarrow> step_outcome" where
  "with_state_snapshot response index op a =
    (let s = adapter_snapshot a; command = map_option fst op;
         (target, a1) = session_target_frame (sn_current_frame s) command a;
         (ds, emitted) = governor_evaluate s (Some target) (pe_memory_budgets_mb (ax_engine a1)) command (ax_emitted a1);
         a2 = a1\<lparr>ax_emitted := emitted, ax_directives := ax_directives a1 @ ds\<rparr>;
         r1 = dput ''policy_loop_directives'' (PList (map governor_directive_to_dict ds))
                (dput ''state_snapshot'' (live_snapshot_to_dict s) response);
         (outcome, a3) = (case op of None \<Rightarrow> (Inr r1, a2) | Some (c, r) \<Rightarrow> gate_operation c r ds s target r1 a2)
     in (ebind outcome (\<lambda>d. Inr (with_event_index index d)), a3))"

section \<open>Events\<close>

definition engine_actions :: "engine_action list \<Rightarrow> pyval" where
  "engine_actions as = PList (map engine_action_to_dict as)"

definition session_response :: "pystr \<Rightarrow> int option \<Rightarrow> adapter \<Rightarrow> step_outcome" where
  "session_response action index a =
    (let (plan, a1) = (if ax_closed a then (case finalize_planner (ax_planner a) of (p, lf) \<Rightarrow> (Some p, a\<lparr>ax_planner := lf\<rparr>)) else (None, a));
         schedule = map_option (build_schedule_plan a1) plan; enforcement = map_option build_enforcement_plan schedule
     in with_state_snapshot
          [(lit ''ok'', PBool True), (lit ''event'', PStr (lit ''session'')), (lit ''action'', PStr action),
           (lit ''session_id'', PStr (ax_session_id a1)), (lit ''closed'', PBool (ax_closed a1)), (lit ''policy_actions'', PList []),
           (lit ''lifetime_plan'', (case plan of None \<Rightarrow> PNone | Some p \<Rightarrow> lifetime_plan_to_dict p)),
           (lit ''schedule_plan'', (case schedule of None \<Rightarrow> PNone | Some p \<Rightarrow> scheduler_plan_to_dict p)),
           (lit ''enforcement_plan'', (case enforcement of None \<Rightarrow> PNone | Some p \<Rightarrow> enforcement_plan_to_dict p))] index None a1)"

definition process_session_event :: "pydict \<Rightarrow> int option \<Rightarrow> adapter \<Rightarrow> step_outcome" where
  "process_session_event p index a =
    (let a1 = a\<lparr>ax_lifecycle_events := ax_lifecycle_events a + 1\<rparr>
     in case normalized_action (dget p ''action'') [''begin'', ''end''] ''begin'' of
          Inl e \<Rightarrow> (Inl e, a1)
        | Inr action \<Rightarrow>
            if action = lit ''begin'' then
              session_response action index (a1\<lparr>
                ax_session_id := py_str (py_or (py_or (dget p ''id'') (dget p ''session_id'')) (PStr (ax_session_id a1))),
                ax_engine := configure_engine p (ax_engine a1), ax_closed := False\<rparr>)
            else (case ax_current_frame a1 of
                Some f \<Rightarrow> (value_error (lit ''Cannot end session while frame '' @ show_int f @ lit '' is open.''), a1)
              | None \<Rightarrow> session_response action index (a1\<lparr>ax_closed := True\<rparr>)))"

definition frame_response :: "pystr \<Rightarrow> int \<Rightarrow> engine_action list \<Rightarrow> int option \<Rightarrow> adapter \<Rightarrow> step_outcome" where
  "frame_response action frame as index a = with_state_snapshot
     [(lit ''ok'', PBool True), (lit ''event'', PStr (lit ''frame'')), (lit ''action'', PStr action), (lit ''frame'', PInt frame),
      (lit ''frame_state'', frame_stats_to_dict (stats_of a frame)), (lit ''policy_actions'', engine_actions as)] index None a"

definition begin_frame :: "pydict \<Rightarrow> int \<Rightarrow> int option \<Rightarrow> adapter \<Rightarrow> step_outcome" where
  "begin_frame p frame index a =
    (let s = stats_of a frame; a1 = put_stats frame s a
     in case ax_current_frame a of
          Some f \<Rightarrow> (value_error (lit ''Frame '' @ show_int f @ lit '' is already open.''), a1)
        | None \<Rightarrow>
            if as_begin_event_index s \<noteq> None \<and> as_end_event_index s = None
            then (value_error (lit ''Frame '' @ show_int frame @ lit '' is already open.''), a1)
            else frame_response (lit ''begin'') frame [] index
              (put_stats frame (s\<lparr>as_begin_event_index := index, as_target_frame_ms := frame_budget_from p (ax_engine a)\<rparr>)
                (a1\<lparr>ax_current_frame := Some frame\<rparr>)))"

definition end_frame :: "pystr \<Rightarrow> int \<Rightarrow> int option \<Rightarrow> adapter \<Rightarrow> step_outcome" where
  "end_frame action frame index a =
    (let s = stats_of a frame; a1 = put_stats frame s a
     in if ax_current_frame a \<noteq> Some frame
        then (value_error (lit ''Cannot end frame '' @ show_int frame @ lit ''; current open frame is ''
                @ py_str (opt_int (ax_current_frame a)) @ lit ''.''), a1)
        else (case engine_finish_frame frame (as_target_frame_ms s) (as_estimated_total_cost_ms s) (list_or_empty (as_queue_costs s))
                (ax_engine a1) of (as, e) \<Rightarrow>
          let a2 = record_policy_actions as (Some frame) (a1\<lparr>ax_engine := e\<rparr>)
          in frame_response action frame as index
               (put_stats frame ((stats_of a2 frame)\<lparr>as_end_event_index := index\<rparr>) (a2\<lparr>ax_current_frame := None\<rparr>))))"

definition process_frame_event :: "pydict \<Rightarrow> int option \<Rightarrow> adapter \<Rightarrow> step_outcome" where
  "process_frame_event p index a =
    (let a1 = a\<lparr>ax_lifecycle_events := ax_lifecycle_events a + 1\<rparr>
     in case ebind (adapter_frame p) (\<lambda>frame.
          ebind (normalized_action (dget p ''action'') [''begin'', ''end''] ''begin'') (\<lambda>action. Inr (frame, action))) of
          Inl e \<Rightarrow> (Inl e, a1)
        | Inr (frame, action) \<Rightarrow> if action = lit ''begin'' then begin_frame p frame index a1 else end_frame action frame index a1)"

definition release_event :: "pydict \<Rightarrow> int option \<Rightarrow> adapter \<Rightarrow> step_outcome" where
  "release_event p index a =
    (let rid = py_strip (py_str (py_or (py_or (dget p ''id'') (dget p ''resource_id'')) (PStr [])))
     in if rid = [] then (value_error (lit ''Resource release event requires 'id' or 'resource_id'.''), a)
        else (case controller_release (ax_controller a) rid of (r, c) \<Rightarrow>
          let a1 = a\<lparr>ax_controller := c\<rparr>;
              a2 = (if r = None then a1 else a1\<lparr>ax_released := ax_released a1 @ [rid],
                ax_engine := engine_release rid (ax_engine a1), ax_planner := planner_release r rid (ax_planner a1)\<rparr>)
          in with_state_snapshot
               [(lit ''ok'', PBool True), (lit ''event'', PStr (lit ''resource'')), (lit ''action'', PStr (lit ''release'')),
                (lit ''resource_id'', PStr rid), (lit ''released'', PBool (r \<noteq> None)), (lit ''policy_actions'', PList [])] index None a2))"

definition register_event :: "pydict \<Rightarrow> int option \<Rightarrow> adapter \<Rightarrow> step_outcome" where
  "register_event p index a = (case register_resource_event (ax_controller a) p of
     Inl e \<Rightarrow> (Inl e, a)
   | Inr (r, c) \<Rightarrow>
       (case engine_register r (ax_current_frame a) (ax_engine a) of (as, e) \<Rightarrow>
        with_state_snapshot
          [(lit ''ok'', PBool True), (lit ''event'', PStr (lit ''resource'')), (lit ''action'', PStr (lit ''register'')),
           (lit ''resource'', resource_to_dict r), (lit ''policy_actions'', engine_actions as)] index None
          (record_policy_actions as (ax_current_frame a)
            (a\<lparr>ax_controller := c, ax_planner := planner_register r (ax_current_frame a) (ax_planner a), ax_engine := e\<rparr>))))"

definition process_resource_event :: "pydict \<Rightarrow> int option \<Rightarrow> adapter \<Rightarrow> step_outcome" where
  "process_resource_event p index a =
    (let a1 = a\<lparr>ax_resource_events := ax_resource_events a + 1\<rparr>
     in case normalized_action (dget p ''action'') [''register'', ''release''] ''register'' of
          Inl e \<Rightarrow> (Inl e, a1)
        | Inr action \<Rightarrow> if action = lit ''release'' then release_event p index a1 else register_event p index a1)"

definition count_operation :: "controller_result \<Rightarrow> frame_stats \<Rightarrow> frame_stats" where
  "count_operation r s =
    (let op = cr_operation r; s1 = s\<lparr>as_operation_count := as_operation_count s + 1\<rparr>;
         s2 = (if cr_executed r then s1\<lparr>as_estimated_total_cost_ms := fadd (as_estimated_total_cost_ms s1) (ro_cost op),
             as_queue_costs := Some (add_at (ro_queue op) (ro_cost op) (list_or_empty (as_queue_costs s1))),
             as_transfer_mb := (if is_transfer op then fadd (as_transfer_mb s1) (ro_size op) else as_transfer_mb s1)\<rparr> else s1)
     in case cr_decision r of None \<Rightarrow> s2
        | Some d \<Rightarrow> s2\<lparr>as_decision_count := as_decision_count s2 + 1, as_estimated_saved_ms := fadd (as_estimated_saved_ms s2) (rd_saved_ms d),
            as_estimated_saved_mb := fadd (as_estimated_saved_mb s2) (rd_saved_mb d)\<rparr>)"

definition operation_target :: "int option \<Rightarrow> adapter \<Rightarrow> pyfloat" where
  "operation_target frame a = (case frame of None \<Rightarrow> pe_target_frame_ms (ax_engine a) | Some f \<Rightarrow> as_target_frame_ms (stats_of a f))"

definition operation_payload :: "pydict \<Rightarrow> int option \<Rightarrow> pydict" where
  "operation_payload p current = (case current of
     None \<Rightarrow> p | Some f \<Rightarrow> if dget p ''frame'' = PNone then dput ''frame'' (PInt f) p else p)"

definition process_operation_event :: "pydict \<Rightarrow> int option \<Rightarrow> adapter \<Rightarrow> step_outcome" where
  "process_operation_event p index a =
    (let a1 = a\<lparr>ax_operation_events := ax_operation_events a + 1\<rparr>
     in case submit_operation_event (ax_controller a1) (operation_payload p (ax_current_frame a1)) of
          Inl e \<Rightarrow> (Inl e, a1)
        | Inr (r, c) \<Rightarrow>
            let frame = ro_frame (cr_operation r); target = operation_target frame a1; command = build_live_command r target;
                a2 = a1\<lparr>ax_controller := c, ax_live_commands := ax_live_commands a1 @ [command]\<rparr>;
                a3 = (case frame of None \<Rightarrow> a2 | Some f \<Rightarrow> put_stats f (count_operation r (stats_of a2 f)) a2);
                (as, e) = engine_operation r frame target (ax_engine a3);
                a4 = record_policy_actions as frame
                  (a3\<lparr>ax_planner := planner_operation (cr_operation r) (cr_executed r) (ax_planner a3), ax_engine := e\<rparr>);
                payload = dput ''live_command'' (live_command_to_dict command) (with_event_index index (result_pairs r))
            in with_state_snapshot
                 [(lit ''ok'', PBool True), (lit ''event'', PStr (lit ''operation'')), (lit ''result'', PDict payload),
                  (lit ''live_command'', live_command_to_dict command), (lit ''policy_actions'', engine_actions as)]
                 index (Some (command, r)) a4)"

definition process_state_event :: "pydict \<Rightarrow> int option \<Rightarrow> adapter \<Rightarrow> step_outcome" where
  "process_state_event p index a = (case normalized_action (dget p ''action'') [''snapshot''] ''snapshot'' of
     Inl e \<Rightarrow> (Inl e, a)
   | Inr action \<Rightarrow> with_state_snapshot
       [(lit ''ok'', PBool True), (lit ''event'', PStr (lit ''state'')), (lit ''action'', PStr action),
        (lit ''session_id'', PStr (ax_session_id a))] index None a)"

definition adapter_event :: "pyval \<Rightarrow> int option \<Rightarrow> adapter \<Rightarrow> step_outcome" where
  "adapter_event v index a = (case v of
     PDict p \<Rightarrow>
       let a1 = a\<lparr>ax_events := ax_events a + 1\<rparr>; ty = event_type_of p in
       if ty = lit ''session'' then process_session_event p index a1
       else if ty = lit ''frame'' then process_frame_event p index a1
       else if ty = lit ''resource'' then process_resource_event p index a1
       else if ty = lit ''operation'' then process_operation_event p index a1
       else if ty = lit ''state'' then process_state_event p index a1
       else (value_error (lit ''Unsupported adapter event type: '' @ (if ty = [] then lit ''missing'' else ty)), a1)
   | _ \<Rightarrow> (value_error (lit ''Adapter event must be a JSON object.''), a))"

section \<open>Result\<close>

record adapter_result =
  xr_mode :: pystr
  xr_session_id :: pystr
  xr_events_processed :: nat
  xr_lifecycle_events :: nat
  xr_resource_events :: nat
  xr_operation_events :: nat
  xr_released_resources :: "pystr list"
  xr_frames :: "frame_stats list"
  xr_policy_actions :: "engine_action list"
  xr_lifetime_plan :: lifetime_plan
  xr_schedule_plan :: scheduler_plan
  xr_enforcement_plan :: enforcement_plan
  xr_live_commands :: "live_command list"
  xr_state_snapshot :: live_snapshot
  xr_policy_loop_directives :: "governor_directive list"
  xr_execution_gates :: "execution_gate list"
  xr_admission_plan :: admission_plan
  xr_efficiency_ledger :: efficiency_ledger
  xr_feedback_plan :: advice_plan
  xr_actuation_plan :: actuation_plan
  xr_memory_transit_map :: transit_map
  xr_memory_route_plan :: route_plan
  xr_frame_window_plan :: window_plan
  xr_execution_packet :: exec_packet
  xr_execution_simulation :: exec_simulation
  xr_adaptive_executor_loop :: adaptive_loop
  xr_budget_envelope :: runtime_envelope
  xr_budget_arbitration :: arbitration_plan
  xr_dispatch_plan :: dispatch_plan
  xr_dispatch_execution :: execution_report
  xr_runtime_calibration :: calibration_report
  xr_runtime_manager :: manager_directive
  xr_runtime_control_packet :: control_packet
  xr_runtime_control_state :: control_state
  xr_runtime_gateway_tick :: gateway_tick
  xr_runtime_gateway_cycle :: cycle_report
  xr_runtime_gateway_feedback :: feedback_delta
  xr_runtime_policy_update :: policy_update
  xr_runtime_state_accumulator :: runtime_state
  xr_runtime_state_transition :: state_transition
  xr_runtime_supervisor_directive :: supervisor_directive
  xr_runtime_supervisor_plan :: supervisor_plan
  xr_runtime_supervisor_execution :: supervisor_execution
  xr_results :: "pydict list"
  xr_snapshot :: pyval

definition adapter_result_to_dict :: "adapter_result \<Rightarrow> pyval" where
  "adapter_result_to_dict x = PDict
    [(lit ''mode'', PStr (xr_mode x)), (lit ''session_id'', PStr (xr_session_id x)),
     (lit ''events_processed'', PInt (int (xr_events_processed x))),
     (lit ''lifecycle_events'', PInt (int (xr_lifecycle_events x))),
     (lit ''resource_events'', PInt (int (xr_resource_events x))),
     (lit ''operation_events'', PInt (int (xr_operation_events x))),
     (lit ''released_resources'', str_list (xr_released_resources x)),
     (lit ''frames'', PList (map frame_stats_to_dict (xr_frames x))),
     (lit ''policy_action_count'', PInt (int (length (xr_policy_actions x)))),
     (lit ''policy_actions'', PList (map engine_action_to_dict (xr_policy_actions x))),
     (lit ''lifetime_plan'', lifetime_plan_to_dict (xr_lifetime_plan x)),
     (lit ''schedule_plan'', scheduler_plan_to_dict (xr_schedule_plan x)),
     (lit ''enforcement_plan'', enforcement_plan_to_dict (xr_enforcement_plan x)),
     (lit ''live_command_count'', PInt (int (length (xr_live_commands x)))),
     (lit ''live_commands'', PList (map live_command_to_dict (xr_live_commands x))),
     (lit ''state_snapshot'', live_snapshot_to_dict (xr_state_snapshot x)),
     (lit ''policy_loop_directive_count'', PInt (int (length (xr_policy_loop_directives x)))),
     (lit ''policy_loop_directives'', PList (map governor_directive_to_dict (xr_policy_loop_directives x))),
     (lit ''execution_gate_count'', PInt (int (length (xr_execution_gates x)))),
     (lit ''execution_gates'', PList (map execution_gate_to_dict (xr_execution_gates x))),
     (lit ''admission_plan'', admission_plan_to_dict (xr_admission_plan x)),
     (lit ''efficiency_ledger'', efficiency_ledger_to_dict (xr_efficiency_ledger x)),
     (lit ''feedback_plan'', advice_plan_to_dict (xr_feedback_plan x)),
     (lit ''actuation_plan'', actuation_plan_to_dict (xr_actuation_plan x)),
     (lit ''memory_transit_map'', transit_to_dict (xr_memory_transit_map x)),
     (lit ''memory_route_plan'', route_plan_to_dict (xr_memory_route_plan x)),
     (lit ''frame_window_plan'', window_plan_to_dict (xr_frame_window_plan x)),
     (lit ''execution_packet'', packet_to_dict (xr_execution_packet x)),
     (lit ''execution_simulation'', simulation_to_dict (xr_execution_simulation x)),
     (lit ''adaptive_executor_loop'', adaptive_loop_to_dict (xr_adaptive_executor_loop x)),
     (lit ''budget_envelope'', runtime_envelope_to_dict (xr_budget_envelope x)),
     (lit ''budget_arbitration'', arbitration_plan_to_dict (xr_budget_arbitration x)),
     (lit ''dispatch_plan'', dispatch_plan_to_dict (xr_dispatch_plan x)),
     (lit ''dispatch_execution'', execution_report_to_dict (xr_dispatch_execution x)),
     (lit ''runtime_calibration'', calibration_report_to_dict (xr_runtime_calibration x)),
     (lit ''runtime_manager'', manager_directive_to_dict (xr_runtime_manager x)),
     (lit ''runtime_control_packet'', control_packet_to_dict (xr_runtime_control_packet x)),
     (lit ''runtime_control_state'', control_state_to_dict (xr_runtime_control_state x)),
     (lit ''runtime_gateway_tick'', gateway_tick_to_dict (xr_runtime_gateway_tick x)),
     (lit ''runtime_gateway_cycle'', cycle_report_to_dict (xr_runtime_gateway_cycle x)),
     (lit ''runtime_gateway_feedback'', feedback_delta_to_dict (xr_runtime_gateway_feedback x)),
     (lit ''runtime_policy_update'', policy_update_to_dict (xr_runtime_policy_update x)),
     (lit ''runtime_state_accumulator'', runtime_state_to_dict (xr_runtime_state_accumulator x)),
     (lit ''runtime_state_transition'', state_transition_to_dict (xr_runtime_state_transition x)),
     (lit ''runtime_supervisor_directive'', supervisor_directive_to_dict (xr_runtime_supervisor_directive x)),
     (lit ''runtime_supervisor_plan'', supervisor_plan_to_dict (xr_runtime_supervisor_plan x)),
     (lit ''runtime_supervisor_execution'', supervisor_execution_to_dict (xr_runtime_supervisor_execution x)),
     (lit ''results'', PList (map PDict (xr_results x))), (lit ''snapshot'', xr_snapshot x)]"

definition to_result :: "runtime_state option \<Rightarrow> adapter \<Rightarrow> (adapter_result \<times> adapter) res" where
  "to_result previous a =
    (case finalize_planner (ax_planner a) of (lifetime, planner) \<Rightarrow>
     let a1 = a\<lparr>ax_planner := planner\<rparr>; schedule = build_schedule_plan a1 lifetime; s = adapter_snapshot a1;
         frames = map snd (sort_key fst (ax_frames a1))
     in ebind (build_admission_plan (map PDict (ax_results a1))) (\<lambda>admission.
        ebind (build_memory_transit_map (ax_results a1) (map (\<lambda>(k, r). (k, Typed r)) (lf_resources planner))) (\<lambda>transit.
        let ledger = build_efficiency_ledger admission; feedback = build_feedback_plan ledger (Some (frame_targets a1));
            routes = build_memory_route_plan transit; windows = build_frame_window_plan routes; packet = build_execution_packet windows;
            simulation = simulate_execution packet; loop = build_adaptive_loop simulation (frame_targets a1)
        in ebind (build_runtime_envelope loop (LiveState (sn_memory_totals_mb s) (sn_memory_budgets_mb s)) (pe_memory_budgets_mb (ax_engine a1))) (\<lambda>envelope.
        let arbitration = build_budget_arbitration packet envelope; dispatch = build_dispatch_plan arbitration packet;
            execution = execute_dispatch_plan dispatch
        in ebind (build_runtime_calibration execution (map StatsFrame frames)) (\<lambda>calibration.
        let manager = build_runtime_manager_directive calibration envelope; control = build_runtime_control_packet manager;
            state = apply_runtime_control_packet control; tick = build_runtime_gateway_tick state; cycle = execute_runtime_gateway_tick tick;
            delta = build_runtime_gateway_feedback cycle calibration; update = build_runtime_policy_update delta;
            accumulator = build_runtime_state_accumulator update previous
        in ebind (build_runtime_state_transition previous accumulator) (\<lambda>transition.
        let directive = build_runtime_supervisor_directive accumulator transition; plan = build_runtime_supervisor_plan directive;
            supervision = dry_run_runtime_supervisor_plan plan
        in Inr (\<lparr>xr_mode = lit ''runtime-adapter-session-v0.45'', xr_session_id = ax_session_id a1, xr_events_processed = ax_events a1,
          xr_lifecycle_events = ax_lifecycle_events a1, xr_resource_events = ax_resource_events a1,
          xr_operation_events = ax_operation_events a1, xr_released_resources = ax_released a1, xr_frames = frames,
          xr_policy_actions = pe_actions (ax_engine a1), xr_lifetime_plan = lifetime, xr_schedule_plan = schedule,
          xr_enforcement_plan = build_enforcement_plan schedule, xr_live_commands = ax_live_commands a1, xr_state_snapshot = s,
          xr_policy_loop_directives = ax_directives a1, xr_execution_gates = ax_gates a1, xr_admission_plan = admission,
          xr_efficiency_ledger = ledger, xr_feedback_plan = feedback, xr_actuation_plan = build_actuation_plan feedback,
          xr_memory_transit_map = transit, xr_memory_route_plan = routes, xr_frame_window_plan = windows, xr_execution_packet = packet,
          xr_execution_simulation = simulation, xr_adaptive_executor_loop = loop, xr_budget_envelope = envelope,
          xr_budget_arbitration = arbitration, xr_dispatch_plan = dispatch, xr_dispatch_execution = execution,
          xr_runtime_calibration = calibration, xr_runtime_manager = manager, xr_runtime_control_packet = control,
          xr_runtime_control_state = state, xr_runtime_gateway_tick = tick, xr_runtime_gateway_cycle = cycle,
          xr_runtime_gateway_feedback = delta, xr_runtime_policy_update = update, xr_runtime_state_accumulator = accumulator,
          xr_runtime_state_transition = transition, xr_runtime_supervisor_directive = directive, xr_runtime_supervisor_plan = plan,
          xr_runtime_supervisor_execution = supervision, xr_results = ax_results a1, xr_snapshot = snapshot (ax_controller a1)\<rparr>, a1)))))))"

text \<open>The replay of a stream: its numbered objects, then the exception the reader of the file raises, if any.\<close>

type_synonym event_source = "(int \<times> pydict) list \<times> exn option"

definition replay_step :: "int \<times> pydict \<Rightarrow> adapter \<Rightarrow> adapter res" where
  "replay_step e a = (case e of (index, p) \<Rightarrow> (case adapter_event (PDict p) (Some index) a of
     (Inl x, _) \<Rightarrow> Inl x | (Inr _, a1) \<Rightarrow> Inr a1))"

definition replay_adapter_event_stream :: "event_source \<Rightarrow> runtime_state option \<Rightarrow> adapter_result res" where
  "replay_adapter_event_stream src previous = (case src of (events, failure) \<Rightarrow>
     ebind (efold replay_step events (new_adapter (lit ''default''))) (\<lambda>a.
     case failure of Some x \<Rightarrow> Inl x | None \<Rightarrow> ebind (to_result previous a) (\<lambda>(r, _). Inr r)))"

end
