(* ===== verification/Adapter_Props.thy ===== *)
theory Adapter_Props
  imports Adapter_Session
begin

text \<open>
  The invariant of an adapter session over any sequence of events, the failing ones included: the policy engine sees the controller's
  resources, the statistics of a frame are those of the controller's answers to its operations, directives are given once, and every
  answer has one live command, gate and result.
\<close>

section \<open>Pieces\<close>

lemma stats_of_put [simp]: "stats_of (put_stats f s a) g = (if g = f then s else stats_of a g)"
  by (simp add: stats_of_def put_stats_def map_of_alist_put)

lemma put_stats_fields [simp]:
  "ax_controller (put_stats f s a) = ax_controller a" "ax_engine (put_stats f s a) = ax_engine a"
  "ax_planner (put_stats f s a) = ax_planner a" "ax_emitted (put_stats f s a) = ax_emitted a"
  "ax_current_frame (put_stats f s a) = ax_current_frame a" "ax_live_commands (put_stats f s a) = ax_live_commands a"
  "ax_directives (put_stats f s a) = ax_directives a" "ax_gates (put_stats f s a) = ax_gates a"
  "ax_results (put_stats f s a) = ax_results a" "ax_events (put_stats f s a) = ax_events a"
  "ax_closed (put_stats f s a) = ax_closed a" "ax_operation_events (put_stats f s a) = ax_operation_events a"
  "ax_resource_events (put_stats f s a) = ax_resource_events a" "ax_lifecycle_events (put_stats f s a) = ax_lifecycle_events a"
  by (simp_all add: put_stats_def)

lemma mark_emitted_keys:
  "mark_emitted ds e = (r, e1) \<Longrightarrow>
    distinct (map directive_key r) \<and> directive_key ` set r \<inter> e = {} \<and> e1 = e \<union> directive_key ` set r"
proof (induction ds e arbitrary: r e1 rule: mark_emitted.induct)
  case (2 d ds e)
  show ?case
  proof (cases "directive_key d \<in> e")
    case False
    obtain q where q: "mark_emitted ds (insert (directive_key d) e) = (q, e1)" "r = d # q"
      using 2(3) False by (auto split: prod.split_asm)
    from 2(2) [OF False q(1)] show ?thesis using False q(2) by auto
  qed (use 2 in simp)
qed simp

lemma emit_once_fields:
  "emit_once x f k e = (as, e1) \<Longrightarrow> pe_active_resources e1 = pe_active_resources e \<and> pe_memory_totals_mb e1 = pe_memory_totals_mb e
    \<and> pe_actions e1 = pe_actions e @ as"
  by (auto simp: emit_once_def Let_def split: if_split_asm)

lemma engine_finish_fields:
  "engine_finish_frame f t c q e = (as, e1) \<Longrightarrow> pe_active_resources e1 = pe_active_resources e \<and> pe_memory_totals_mb e1 = pe_memory_totals_mb e"
  by (auto simp: engine_finish_frame_def Let_def split: if_split_asm prod.split_asm list.split_asm dest!: emit_once_fields)

lemma engine_operation_fields:
  "engine_operation r f t e = (as, e1) \<Longrightarrow> pe_active_resources e1 = pe_active_resources e \<and> pe_memory_totals_mb e1 = pe_memory_totals_mb e"
  by (auto simp: engine_operation_def Let_def split: if_split_asm dest!: emit_once_fields)

lemma engine_register_fields:
  "engine_register r f e = (as, e1) \<Longrightarrow> pe_active_resources e1 = alist_put (rs_id r) r (pe_active_resources e)
    \<and> pe_memory_totals_mb e1 = memory_totals (alist_put (rs_id r) r (pe_active_resources e))"
  by (auto simp: engine_register_def check_memory_budget_def Let_def split: if_split_asm option.split_asm dest!: emit_once_fields)

lemma engine_release_fields [simp]:
  "pe_active_resources (engine_release rid e) = filter (\<lambda>(k, _). k \<noteq> rid) (pe_active_resources e)"
  "pe_memory_totals_mb (engine_release rid e) = memory_totals (filter (\<lambda>(k, _). k \<noteq> rid) (pe_active_resources e))"
  by (simp_all add: engine_release_def Let_def)

lemma configure_engine_fields [simp]:
  "pe_active_resources (configure_engine p e) = pe_active_resources e" "pe_memory_totals_mb (configure_engine p e) = pe_memory_totals_mb e"
  by (simp_all add: configure_engine_def Let_def case_prod_beta)

lemma submit_operation_fields:
  assumes "submit_operation c oid ty src tgt q rs cost sz f deps = Inr (r, c1)"
  shows "ct_resources c1 = ct_resources c \<and> (cr_executed r \<longleftrightarrow> cr_decision r = None)
    \<and> ct_executed c1 = ct_executed c @ (if cr_executed r then [cr_operation r] else [])
    \<and> ct_decisions c1 = ct_decisions c @ (if cr_executed r then [] else [the (cr_decision r)])"
proof -
  from assms obtain op op1 d st where p: "opt_process op (ct_optimization c) = Inr ((op1, d), st)"
    and rc: "(r, c1) = (case d of
        Some d \<Rightarrow> (\<lparr>cr_operation = op1, cr_decision = Some d, cr_executed = False\<rparr>,
          c\<lparr>ct_optimization := st, ct_decisions := ct_decisions c @ [d]\<rparr>)
      | None \<Rightarrow> (\<lparr>cr_operation = op1, cr_decision = None, cr_executed = True\<rparr>,
          c\<lparr>ct_optimization := st, ct_executed := ct_executed c @ [op1]\<rparr>))"
    unfolding submit_operation_def ebind_eq_Inr by (auto split: prod.splits)
  from opt_process_resources [OF p] rc show ?thesis by (cases d) (simp_all add: ct_resources_def)
qed

lemma submit_fields:
  assumes "submit_operation_event c p = Inr (r, c1)"
  shows "ct_resources c1 = ct_resources c" and "cr_executed r \<longleftrightarrow> cr_decision r = None"
    and "ct_executed c1 = ct_executed c @ (if cr_executed r then [cr_operation r] else [])"
    and "ct_decisions c1 = ct_decisions c @ (if cr_executed r then [] else [the (cr_decision r)])"
proof -
  from assms obtain oid ty src tgt q rs cost sz f deps where "submit_operation c oid ty src tgt q rs cost sz f deps = Inr (r, c1)"
    by (clarsimp simp: submit_operation_event_def Let_def ebind_eq_Inr)
  from submit_operation_fields [OF this] show "ct_resources c1 = ct_resources c" "cr_executed r \<longleftrightarrow> cr_decision r = None"
    "ct_executed c1 = ct_executed c @ (if cr_executed r then [cr_operation r] else [])"
    "ct_decisions c1 = ct_decisions c @ (if cr_executed r then [] else [the (cr_decision r)])" by blast+
qed

lemma register_resource_fields:
  assumes "register_resource c rid kind mem sz life aliases = Inr (r, c1)"
  shows "c1 = c\<lparr>ct_optimization := (ct_optimization c)\<lparr>os_resources := ct_resources c @ [(rs_id r, r)]\<rparr>\<rparr> \<and> rs_id r \<notin> fst ` set (ct_resources c)"
  using assms unfolding register_resource_def ebind_eq_Inr by (auto simp: value_error_def split: if_split_asm)

lemma register_fields:
  assumes "register_resource_event c p = Inr (r, c1)"
  shows "ct_resources c1 = ct_resources c @ [(rs_id r, r)]" and "rs_id r \<notin> fst ` set (ct_resources c)"
    and "ct_executed c1 = ct_executed c" and "ct_decisions c1 = ct_decisions c"
proof -
  from assms obtain rid kind mem sz life aliases where "register_resource c rid kind mem sz life aliases = Inr (r, c1)"
    by (clarsimp simp: register_resource_event_def Let_def ebind_eq_Inr)
  from register_resource_fields [OF this] show "ct_resources c1 = ct_resources c @ [(rs_id r, r)]"
    "rs_id r \<notin> fst ` set (ct_resources c)" "ct_executed c1 = ct_executed c" "ct_decisions c1 = ct_decisions c"
    by (simp_all add: ct_resources_def)
qed

lemma release_fields:
  assumes "controller_release c rid = (r, c1)"
  shows "ct_resources c1 = filter (\<lambda>(k, _). k \<noteq> rid) (ct_resources c)" and "r = None \<Longrightarrow> rid \<notin> fst ` set (ct_resources c)"
    and "ct_executed c1 = ct_executed c" and "ct_decisions c1 = ct_decisions c"
  using assms
  by (auto simp: controller_release_def release_resource_def ct_resources_def invalidate_fields Let_def map_of_eq_None_iff split: prod.split_asm)

section \<open>Admission of a gated operation\<close>

lemma transit_number_float [simp]: "transit_number (PFloat x) = Inr x"
  by (cases "x = Fin 0") (simp_all add: transit_number_def py_or_def truthy_def py_float_def)

lemma py_or_text [simp]: "py_str (py_or (py_or (PStr x) (PStr x)) (PStr [])) = x"
  by (simp add: py_or_def truthy_def py_str_def)

lemma admission_of_gate:
  assumes "dget d ''operation'' = operation_to_dict op" and "dget d ''execution_gate'' = execution_gate_to_dict g"
    and "gn_operation_id g = ro_id op" and "gn_action g \<noteq> []"
  shows "\<exists>ty q rs ph sz. build_admission_decision d = Inr (admission_for_gate (gn_action g) (ro_id op) ty (ro_frame op) q rs ph (ro_cost op) sz)"
proof -
  have action: "py_str (py_or (PStr (gn_action g)) (PStr (lit ''execute_now''))) = gn_action g"
    using assms(4) by (simp add: py_or_def truthy_def py_str_def)
  have frame: "parse_frame (opt_int (ro_frame op)) = Inr (ro_frame op)"
    by (cases "ro_frame op") (simp_all add: parse_frame_def opt_int_def py_int_def)
  have dict: "as_dict (py_or (PDict (x # xs)) (PDict [])) = Inr (x # xs)" for x xs
    by (simp add: as_dict_def py_or_def truthy_def)
  show ?thesis
    unfolding build_admission_decision_def assms(1,2) operation_to_dict_def execution_gate_to_dict_def dict ebind_Inr
    by (simp add: dget_or_def action frame assms(3)) blast
qed

section \<open>Invariant\<close>

text \<open>
  What the statistics of a frame have to say of the controller's answers \<open>rs\<close> to the operations of the session: how many there were in
  the frame and how many of them a decision removed, what the executed ones cost, in all and by queue, and what they moved, and what
  the decisions saved; sums are in binary64, in the order of the operations.
\<close>

definition executed_in :: "int \<Rightarrow> controller_result list \<Rightarrow> runtime_operation list" where
  "executed_in f rs = map cr_operation (filter cr_executed (filter (\<lambda>r. ro_frame (cr_operation r) = Some f) rs))"

definition decided_in :: "int \<Rightarrow> controller_result list \<Rightarrow> runtime_decision list" where
  "decided_in f rs = map (the \<circ> cr_decision) (filter (\<lambda>r. \<not> cr_executed r) (filter (\<lambda>r. ro_frame (cr_operation r) = Some f) rs))"

definition accounts :: "controller_result list \<Rightarrow> int \<Rightarrow> frame_stats \<Rightarrow> bool" where
  "accounts rs f s \<longleftrightarrow> as_frame s = f
     \<and> as_operation_count s = length (filter (\<lambda>r. ro_frame (cr_operation r) = Some f) rs) \<and> as_decision_count s = length (decided_in f rs)
     \<and> as_estimated_total_cost_ms s = fsum (map ro_cost (executed_in f rs))
     \<and> as_transfer_mb s = fsum (map ro_size (filter (\<lambda>op. ro_type op \<in> {lit ''copy'', lit ''upload''}) (executed_in f rs)))
     \<and> as_estimated_saved_ms s = fsum (map rd_saved_ms (decided_in f rs)) \<and> as_estimated_saved_mb s = fsum (map rd_saved_mb (decided_in f rs))
     \<and> (\<forall>q. map_of (list_or_empty (as_queue_costs s)) q = (if q \<in> set (map ro_queue (executed_in f rs))
         then Some (fsum (map ro_cost (filter (\<lambda>op. ro_queue op = q) (executed_in f rs)))) else None))"

text \<open>The fields of the statistics this is about.\<close>

definition account_of :: "frame_stats \<Rightarrow> int \<times> nat \<times> nat \<times> pyfloat \<times> pyfloat \<times> pyfloat \<times> pyfloat \<times> (pystr \<times> pyfloat) list option" where
  "account_of s = (as_frame s, as_operation_count s, as_decision_count s, as_estimated_total_cost_ms s, as_transfer_mb s,
     as_estimated_saved_ms s, as_estimated_saved_mb s, as_queue_costs s)"

lemma account_of_update [simp]:
  "account_of (s\<lparr>as_policy_action_count := n, as_policy_action_ids := ids\<rparr>) = account_of s"
  "account_of (s\<lparr>as_begin_event_index := i, as_target_frame_ms := x\<rparr>) = account_of s"
  "account_of (s\<lparr>as_end_event_index := i\<rparr>) = account_of s"
  by (simp_all add: account_of_def)

lemma accounts_cong: "account_of s = account_of t \<Longrightarrow> accounts rs f s = accounts rs f t"
  by (simp add: account_of_def accounts_def)

definition sees_resources :: "adapter \<Rightarrow> bool" where
  "sees_resources a \<longleftrightarrow> pe_active_resources (ax_engine a) = ct_resources (ax_controller a)
     \<and> pe_memory_totals_mb (ax_engine a) = memory_totals (ct_resources (ax_controller a))"

definition sees_frames :: "controller_result list \<Rightarrow> adapter \<Rightarrow> bool" where
  "sees_frames rs a \<longleftrightarrow> (\<forall>f. accounts rs f (stats_of a f))"

definition gives_once :: "adapter \<Rightarrow> bool" where
  "gives_once a \<longleftrightarrow> distinct (map directive_key (ax_directives a)) \<and> ax_emitted a = directive_key ` set (ax_directives a)"

text \<open>A stored result whose admission is the one a plan computes from it.\<close>

definition admitted_result :: "pydict \<Rightarrow> bool" where
  "admitted_result d \<longleftrightarrow> (\<exists>x op. build_admission_decision d = Inr x \<and> dget d ''operation'' = operation_to_dict op
     \<and> dget d ''admission_decision'' = admission_to_dict x
     \<and> (am_action x, am_contribution x) \<in> set admission_kinds)"

text \<open>What a stored result says of the operation it is for, and what the controller answered.\<close>

definition result_view :: "pydict \<Rightarrow> pyval \<times> pyval \<times> pyval" where
  "result_view d = (dget d ''operation'', dget d ''decision'', dget d ''executed'')"

definition answer_view :: "controller_result \<Rightarrow> pyval \<times> pyval \<times> pyval" where
  "answer_view r = (operation_to_dict (cr_operation r), (case cr_decision r of None \<Rightarrow> PNone | Some d \<Rightarrow> decision_to_dict d), PBool (cr_executed r))"

text \<open>
  The controller's answers \<open>rs\<close> have a live command each; the first of them, \<open>gs\<close>, have their gate and their result, which holds the
  answer, the command and the gate. Between two events \<open>gs\<close> is all of \<open>rs\<close>.
\<close>

definition decides_once :: "controller_result list \<Rightarrow> controller_result list \<Rightarrow> adapter \<Rightarrow> bool" where
  "decides_once rs gs a \<longleftrightarrow>
     map cr_operation (filter cr_executed rs) = ct_executed (ax_controller a)
     \<and> map (the \<circ> cr_decision) (filter (\<lambda>r. \<not> cr_executed r) rs) = ct_decisions (ax_controller a)
     \<and> map lc_operation_id (ax_live_commands a) = map (ro_id \<circ> cr_operation) rs
     \<and> map gn_operation_id (ax_gates a) = map (ro_id \<circ> cr_operation) gs
     \<and> map result_view (ax_results a) = map answer_view gs
     \<and> map (\<lambda>d. dget d ''live_command'') (ax_results a) = map live_command_to_dict (take (length gs) (ax_live_commands a))
     \<and> map (\<lambda>d. dget d ''execution_gate'') (ax_results a) = map execution_gate_to_dict (ax_gates a)
     \<and> list_all admitted_result (ax_results a)"

definition session_inv :: "controller_result list \<Rightarrow> controller_result list \<Rightarrow> adapter \<Rightarrow> bool" where
  "session_inv rs gs a \<longleftrightarrow> sees_resources a \<and> sees_frames rs a \<and> gives_once a \<and> decides_once rs gs a"

named_theorems session_defs

lemmas [session_defs] = session_inv_def sees_resources_def sees_frames_def gives_once_def decides_once_def

lemma stats_of_frames: "ax_frames a = ax_frames b \<Longrightarrow> stats_of a f = stats_of b f"
  by (simp add: stats_of_def)

lemma session_inv_new: "session_inv [] [] (new_adapter s)"
  by (simp add: session_defs new_adapter_def stats_of_def new_frame_stats_def new_policy_engine_def new_controller_def ct_resources_def
    new_opt_state_def memory_totals_def fsum_def accounts_def executed_in_def decided_in_def list_or_empty_def)

text \<open>Steps that change none of the fields the invariant reads, or a frame's statistics without its cost.\<close>

definition same_session :: "adapter \<Rightarrow> adapter \<Rightarrow> bool" where
  "same_session a b \<longleftrightarrow> ax_controller b = ax_controller a \<and> pe_active_resources (ax_engine b) = pe_active_resources (ax_engine a)
     \<and> pe_memory_totals_mb (ax_engine b) = pe_memory_totals_mb (ax_engine a)
     \<and> (\<forall>f. account_of (stats_of b f) = account_of (stats_of a f))
     \<and> ax_directives b = ax_directives a \<and> ax_emitted b = ax_emitted a \<and> ax_live_commands b = ax_live_commands a
     \<and> ax_gates b = ax_gates a \<and> ax_results b = ax_results a"

lemma same_session_inv: "same_session a b \<Longrightarrow> session_inv rs gs b = session_inv rs gs a"
proof -
  assume same: "same_session a b"
  have "accounts rs f (stats_of b f) = accounts rs f (stats_of a f)" for f
    using same by (intro accounts_cong) (simp add: same_session_def)
  then show ?thesis using same by (simp add: session_defs same_session_def)
qed

lemma same_session_refl [simp]: "same_session a a"
  by (simp add: same_session_def)

lemma same_session_put: "account_of s = account_of (stats_of a f) \<Longrightarrow> same_session a (put_stats f s a)"
  by (simp add: same_session_def)

lemma same_session_trans: "same_session a b \<Longrightarrow> same_session b c \<Longrightarrow> same_session a c"
  by (simp add: same_session_def)

lemma record_policy_same: "same_session a (record_policy_actions as frame a)"
  by (cases frame) (simp_all add: record_policy_actions_def same_session_put Let_def)

lemma session_target_same: "session_target_frame current c a = (t, b) \<Longrightarrow> same_session a b"
  by (auto simp: session_target_frame_def same_session_put Let_def split: option.split_asm)

section \<open>The tail of the handlers\<close>

lemma gives_once_more:
  assumes "gives_once a" and "mark_emitted ds (ax_emitted a) = (r, e)"
  shows "gives_once (a\<lparr>ax_emitted := e, ax_directives := ax_directives a @ r\<rparr>)"
  using assms mark_emitted_keys [OF assms(2)] by (auto simp: gives_once_def)

lemma governor_marks: "\<exists>ds. governor_evaluate s t b c e = mark_emitted ds e"
  by (auto simp: governor_evaluate_def Let_def)

lemma session_inv_directives:
  assumes "session_inv rs gs a" and "governor_evaluate s t b c (ax_emitted a) = (r, e)"
  shows "session_inv rs gs (a\<lparr>ax_emitted := e, ax_directives := ax_directives a @ r\<rparr>)"
proof -
  obtain ds where "mark_emitted ds (ax_emitted a) = (r, e)" using assms(2) governor_marks by metis
  from gives_once_more [OF _ this] show ?thesis using assms(1)
    by (simp add: session_inv_def sees_resources_def sees_frames_def decides_once_def stats_of_def)
qed

lemma with_state_snapshot_quiet: "session_inv rs gs a \<Longrightarrow> session_inv rs gs (snd (with_state_snapshot response index None a))"
  by (auto simp: with_state_snapshot_def Let_def split: prod.split intro: session_inv_directives
    dest: session_target_same same_session_inv [THEN iffD2])

text \<open>The gate's action names what the admission does with it.\<close>

lemma gate_fields:
  "gn_operation_id (build_execution_gate r c ds s t) = ro_id (cr_operation r)" "gn_action (build_execution_gate r c ds s t) \<noteq> []"
  by (simp_all add: build_execution_gate_def execution_gate_of_def lit_def Let_def)

text \<open>The dictionary of an operation's result before it is gated.\<close>

definition result_answers :: "controller_result \<Rightarrow> live_command \<Rightarrow> pydict \<Rightarrow> bool" where
  "result_answers r c d \<longleftrightarrow> result_view d = answer_view r \<and> dget d ''live_command'' = live_command_to_dict c"

lemma take_last: "length xs = Suc n \<Longrightarrow> take (Suc n) xs = take n xs @ [last xs]"
  by (cases xs rule: rev_cases) simp_all

lemma gate_operation_inv:
  assumes "session_inv (rs @ [r]) rs a" and "last (ax_live_commands a) = c" and "dget response ''result'' = PDict d" and "result_answers r c d"
  shows "\<exists>out b. gate_operation c r ds s t response a = (Inr out, b) \<and> session_inv (rs @ [r]) (rs @ [r]) b"
proof -
  let ?g = "build_execution_gate r c ds s t"
  let ?d = "dput ''execution_gate'' (execution_gate_to_dict ?g) d"
  have op: "dget d ''operation'' = operation_to_dict (cr_operation r)"
    using assms(4) by (simp add: result_answers_def result_view_def answer_view_def)
  then have "dget ?d ''operation'' = operation_to_dict (cr_operation r)" "dget ?d ''execution_gate'' = execution_gate_to_dict ?g"
    by (simp_all add: dget_dput)
  from admission_of_gate [OF this gate_fields] obtain x where x: "build_admission_decision ?d = Inr x"
    "(am_action x, am_contribution x) \<in> set admission_kinds" using admission_for_gate_kind by blast
  define q where "q = dput ''efficiency_impact'' (efficiency_impact_to_dict (build_efficiency_impact x)) (dput ''admission_decision'' (admission_to_dict x) ?d)"
  have "build_admission_decision q = build_admission_decision ?d"
    by (simp add: build_admission_decision_def q_def dget_dput)
  then have "admitted_result q"
    using x op unfolding admitted_result_def q_def by (auto simp: dget_dput)
  moreover have "result_view q = answer_view r" "dget q ''live_command'' = live_command_to_dict c"
    "dget q ''execution_gate'' = execution_gate_to_dict ?g"
    using assms(4) by (simp_all add: q_def result_answers_def result_view_def dget_dput)
  moreover have len: "length (ax_live_commands a) = Suc (length rs)"
    using assms(1) by (simp add: session_inv_def decides_once_def) (metis length_append_singleton length_map)
  then have "take (Suc (length rs)) (ax_live_commands a) = take (length rs) (ax_live_commands a) @ [c]"
    using assms(2) take_last [OF len] by simp
  ultimately have "session_inv (rs @ [r]) (rs @ [r]) (a\<lparr>ax_gates := ax_gates a @ [?g], ax_results := ax_results a @ [q]\<rparr>)"
    using assms(1) gate_fields(1) [of r c ds s t] by (simp add: session_defs stats_of_def)
  then show ?thesis using x(1) assms(3) by (simp add: gate_operation_def q_def Let_def)
qed

lemma with_state_snapshot_operation:
  assumes "session_inv (rs @ [r]) rs a" and "last (ax_live_commands a) = c" and "dget response ''result'' = PDict d" and "result_answers r c d"
  shows "\<exists>out b. with_state_snapshot response index (Some (c, r)) a = (Inr out, b) \<and> session_inv (rs @ [r]) (rs @ [r]) b"
proof -
  let ?s = "adapter_snapshot a"
  obtain t a1 where target: "session_target_frame (sn_current_frame ?s) (Some c) a = (t, a1)" by (cases "session_target_frame (sn_current_frame ?s) (Some c) a")
  obtain ds e where gov: "governor_evaluate ?s (Some t) (pe_memory_budgets_mb (ax_engine a1)) (Some c) (ax_emitted a1) = (ds, e)"
    by (cases "governor_evaluate ?s (Some t) (pe_memory_budgets_mb (ax_engine a1)) (Some c) (ax_emitted a1)")
  let ?a2 = "a1\<lparr>ax_emitted := e, ax_directives := ax_directives a1 @ ds\<rparr>"
  let ?r1 = "dput ''policy_loop_directives'' (PList (map governor_directive_to_dict ds)) (dput ''state_snapshot'' (live_snapshot_to_dict ?s) response)"
  note same = session_target_same [OF target]
  have "session_inv (rs @ [r]) rs a1" using assms(1) same_session_inv [OF same] by simp
  from session_inv_directives [OF this gov] have "session_inv (rs @ [r]) rs ?a2" .
  moreover have "last (ax_live_commands ?a2) = c" using same assms(2) by (simp add: same_session_def)
  moreover have "dget ?r1 ''result'' = PDict d" using assms(3) by (simp add: dget_dput)
  ultimately obtain out b where "gate_operation c r ds ?s t ?r1 ?a2 = (Inr out, b)" "session_inv (rs @ [r]) (rs @ [r]) b"
    using gate_operation_inv assms(4) by blast
  then show ?thesis by (simp add: with_state_snapshot_def target gov)
qed

section \<open>The handlers\<close>

lemma session_inv_extend:
  "session_inv rs gs (a\<lparr>ax_lifecycle_events := k\<rparr>) = session_inv rs gs a" "session_inv rs gs (a\<lparr>ax_resource_events := k\<rparr>) = session_inv rs gs a"
  "session_inv rs gs (a\<lparr>ax_operation_events := k\<rparr>) = session_inv rs gs a" "session_inv rs gs (a\<lparr>ax_events := k\<rparr>) = session_inv rs gs a"
  "session_inv rs gs (a\<lparr>ax_planner := lf\<rparr>) = session_inv rs gs a" "session_inv rs gs (a\<lparr>ax_closed := c\<rparr>) = session_inv rs gs a"
  "session_inv rs gs (a\<lparr>ax_current_frame := f\<rparr>) = session_inv rs gs a" "session_inv rs gs (a\<lparr>ax_session_id := s\<rparr>) = session_inv rs gs a"
  "session_inv rs gs (a\<lparr>ax_released := ids\<rparr>) = session_inv rs gs a" "session_inv rs gs (a\<lparr>ax_engine := configure_engine q (ax_engine a)\<rparr>) = session_inv rs gs a"
  by (simp_all add: session_defs stats_of_def)

lemma session_inv_engine:
  "pe_active_resources e = pe_active_resources (ax_engine a) \<Longrightarrow> pe_memory_totals_mb e = pe_memory_totals_mb (ax_engine a)
    \<Longrightarrow> session_inv rs gs (a\<lparr>ax_engine := e\<rparr>) = session_inv rs gs a"
  by (simp add: session_defs stats_of_def)

lemma session_inv_put:
  "account_of s = account_of (stats_of a f) \<Longrightarrow> session_inv rs gs (put_stats f s a) = session_inv rs gs a"
  by (rule same_session_inv [OF same_session_put])

lemma session_response_inv: "session_inv rs rs a \<Longrightarrow> session_inv rs rs (snd (session_response action index a))"
  by (auto simp: session_response_def Let_def session_inv_extend split: prod.split intro!: with_state_snapshot_quiet)

lemma session_event_inv: "session_inv rs rs a \<Longrightarrow> session_inv rs rs (snd (process_session_event p index a))"
proof -
  assume "session_inv rs rs a"
  then have "session_inv rs rs (a\<lparr>ax_lifecycle_events := k, ax_session_id := s, ax_engine := configure_engine p (ax_engine a), ax_closed := c\<rparr>)"
    "session_inv rs rs (a\<lparr>ax_lifecycle_events := k, ax_closed := c\<rparr>)" "session_inv rs rs (a\<lparr>ax_lifecycle_events := k\<rparr>)" for k s c
    by (simp_all add: session_defs stats_of_def)
  then show ?thesis
    by (auto simp: process_session_event_def Let_def split: sum.split option.split intro!: session_response_inv)
qed

lemma frame_response_inv: "session_inv rs rs a \<Longrightarrow> session_inv rs rs (snd (frame_response action frame as index a))"
  by (simp add: frame_response_def with_state_snapshot_quiet)

lemma begin_frame_inv: "session_inv rs rs a \<Longrightarrow> session_inv rs rs (snd (begin_frame p frame index a))"
proof -
  assume inv: "session_inv rs rs a"
  let ?s = "stats_of a frame"
  have "session_inv rs rs (put_stats frame ?s a)" using inv by (simp add: session_inv_put)
  moreover have "session_inv rs rs (put_stats frame (?s\<lparr>as_begin_event_index := index, as_target_frame_ms := t\<rparr>)
      ((put_stats frame ?s a)\<lparr>ax_current_frame := Some frame\<rparr>))" for t
  proof -
    have "session_inv rs rs ((put_stats frame ?s a)\<lparr>ax_current_frame := Some frame\<rparr>)"
      using \<open>session_inv rs rs (put_stats frame ?s a)\<close> by (simp add: session_inv_extend)
    then show ?thesis
      by (subst session_inv_put) (simp_all add: stats_of_def put_stats_def map_of_alist_put)
  qed
  ultimately show ?thesis by (auto simp: begin_frame_def Let_def split: option.split intro!: frame_response_inv)
qed

lemma end_frame_inv: "session_inv rs rs a \<Longrightarrow> session_inv rs rs (snd (end_frame action frame index a))"
proof (cases "ax_current_frame a = Some frame")
  case True
  assume inv: "session_inv rs rs a"
  let ?a1 = "put_stats frame (stats_of a frame) a" and ?s = "stats_of a frame"
  obtain as e where fin: "engine_finish_frame frame (as_target_frame_ms ?s) (as_estimated_total_cost_ms ?s) (list_or_empty (as_queue_costs ?s)) (ax_engine a)
      = (as, e)" by fastforce
  define a2 where "a2 = record_policy_actions as (Some frame) (?a1\<lparr>ax_engine := e\<rparr>)"
  have "session_inv rs rs ?a1" using inv by (simp add: session_inv_put)
  then have "session_inv rs rs (?a1\<lparr>ax_engine := e\<rparr>)" using engine_finish_fields [OF fin] by (simp add: session_inv_engine)
  then have a2: "session_inv rs rs (a2\<lparr>ax_current_frame := None\<rparr>)"
    unfolding a2_def by (simp add: session_inv_extend same_session_inv [OF record_policy_same])
  have "session_inv rs rs (put_stats frame ((stats_of a2 frame)\<lparr>as_end_event_index := index\<rparr>) (a2\<lparr>ax_current_frame := None\<rparr>))"
    using a2 by (subst session_inv_put) (simp_all add: stats_of_def)
  then show ?thesis using True fin by (simp add: end_frame_def a2_def Let_def frame_response_inv)
qed (simp add: end_frame_def Let_def session_inv_put)

lemma frame_event_inv: "session_inv rs rs a \<Longrightarrow> session_inv rs rs (snd (process_frame_event p index a))"
  by (auto simp: process_frame_event_def Let_def session_inv_extend split: sum.split intro!: begin_frame_inv end_frame_inv)

lemma alist_put_end: "k \<notin> fst ` set m \<Longrightarrow> alist_put k v m = m @ [(k, v)]"
  by (induction k v m rule: alist_put.induct) auto

lemma register_event_inv: "session_inv rs rs a \<Longrightarrow> session_inv rs rs (snd (register_event p index a))"
proof (cases "register_resource_event (ax_controller a) p")
  case (Inr rc)
  assume inv: "session_inv rs rs a"
  obtain r c where rc: "rc = (r, c)" by fastforce
  obtain as e where reg: "engine_register r (ax_current_frame a) (ax_engine a) = (as, e)" by fastforce
  note fields = register_fields [OF Inr [unfolded rc]] engine_register_fields [OF reg]
  have "session_inv rs rs (a\<lparr>ax_controller := c, ax_planner := lf, ax_engine := e\<rparr>)" for lf
    using inv fields by (simp add: session_defs stats_of_def alist_put_end)
  then show ?thesis
    by (simp add: register_event_def Inr rc reg with_state_snapshot_quiet same_session_inv [OF record_policy_same])
qed (simp add: register_event_def)

lemma release_event_inv: "session_inv rs rs a \<Longrightarrow> session_inv rs rs (snd (release_event p index a))"
proof -
  assume inv: "session_inv rs rs a"
  let ?rid = "py_strip (py_str (py_or (py_or (dget p ''id'') (dget p ''resource_id'')) (PStr [])))"
  obtain r c where rel: "controller_release (ax_controller a) ?rid = (r, c)" by fastforce
  note fields = release_fields [OF rel]
  have gone: "filter (\<lambda>(k, _). k \<noteq> ?rid) (ct_resources (ax_controller a)) = ct_resources (ax_controller a)" if "r = None"
    using fields(2) [OF that] by (intro filter_True) force
  have "session_inv rs rs (a\<lparr>ax_controller := c\<rparr>)" if "r = None"
    using inv fields gone [OF that] by (simp add: session_defs stats_of_def)
  moreover have "session_inv rs rs (a\<lparr>ax_controller := c, ax_released := ids, ax_engine := engine_release ?rid (ax_engine a), ax_planner := lf\<rparr>)" for ids lf
    using inv fields by (simp add: session_defs stats_of_def)
  ultimately show ?thesis using inv
    by (auto simp: release_event_def rel Let_def intro!: with_state_snapshot_quiet)
qed

lemma resource_event_inv: "session_inv rs rs a \<Longrightarrow> session_inv rs rs (snd (process_resource_event p index a))"
  by (auto simp: process_resource_event_def Let_def session_inv_extend split: sum.split intro!: release_event_inv register_event_inv)

text \<open>Counting an answer in its frame's statistics.\<close>

lemma account_count:
  "account_of (count_operation r s) =
    (as_frame s, as_operation_count s + 1, as_decision_count s + (case cr_decision r of None \<Rightarrow> 0 | Some d \<Rightarrow> 1),
     (if cr_executed r then fadd (as_estimated_total_cost_ms s) (ro_cost (cr_operation r)) else as_estimated_total_cost_ms s),
     (if cr_executed r \<and> is_transfer (cr_operation r) then fadd (as_transfer_mb s) (ro_size (cr_operation r)) else as_transfer_mb s),
     (case cr_decision r of None \<Rightarrow> as_estimated_saved_ms s | Some d \<Rightarrow> fadd (as_estimated_saved_ms s) (rd_saved_ms d)),
     (case cr_decision r of None \<Rightarrow> as_estimated_saved_mb s | Some d \<Rightarrow> fadd (as_estimated_saved_mb s) (rd_saved_mb d)),
     (if cr_executed r then Some (add_at (ro_queue (cr_operation r)) (ro_cost (cr_operation r)) (list_or_empty (as_queue_costs s)))
      else as_queue_costs s))"
  by (simp add: count_operation_def account_of_def Let_def split: option.split)

lemma list_or_empty_Some [simp]: "list_or_empty (Some xs) = xs"
  by (simp add: list_or_empty_def)

lemma accounts_elsewhere: "ro_frame (cr_operation r) \<noteq> Some f \<Longrightarrow> accounts (rs @ [r]) f s = accounts rs f s"
  by (simp add: accounts_def executed_in_def decided_in_def)

lemma queue_account:
  assumes "\<forall>q. map_of m q = (if q \<in> set (map ro_queue ops) then Some (fsum (map ro_cost (filter (\<lambda>op. ro_queue op = q) ops))) else None)"
  shows "map_of (add_at (ro_queue op) (ro_cost op) m) q = (if q \<in> set (map ro_queue (ops @ [op]))
    then Some (fsum (map ro_cost (filter (\<lambda>op. ro_queue op = q) (ops @ [op])))) else None)"
proof (cases "q = ro_queue op")
  case True
  have "filter (\<lambda>x. ro_queue x = ro_queue op) ops = []" if "ro_queue op \<notin> set (map ro_queue ops)"
    using that by (induction ops) auto
  with True assms show ?thesis by (auto simp: add_at_def map_of_alist_put fsum_snoc fsum_def)
next
  case False
  with assms show ?thesis by (auto simp: add_at_def map_of_alist_put)
qed

lemma accounts_counted:
  assumes "accounts rs f s" and "ro_frame (cr_operation r) = Some f" and "cr_executed r \<longleftrightarrow> cr_decision r = None"
  shows "accounts (rs @ [r]) f (count_operation r s)"
proof (cases "cr_decision r")
  case None
  have c: "account_of (count_operation r s) = (as_frame s, as_operation_count s + 1, as_decision_count s,
      fadd (as_estimated_total_cost_ms s) (ro_cost (cr_operation r)),
      (if is_transfer (cr_operation r) then fadd (as_transfer_mb s) (ro_size (cr_operation r)) else as_transfer_mb s),
      as_estimated_saved_ms s, as_estimated_saved_mb s,
      Some (add_at (ro_queue (cr_operation r)) (ro_cost (cr_operation r)) (list_or_empty (as_queue_costs s))))"
    using None assms(3) by (simp add: account_count)
  have e: "cr_executed r" using None assms(3) by simp
  from assms(1) have q: "\<forall>q. map_of (list_or_empty (as_queue_costs s)) q =
      (if q \<in> set (map ro_queue (executed_in f rs)) then Some (fsum (map ro_cost (filter (\<lambda>op. ro_queue op = q) (executed_in f rs)))) else None)"
    unfolding accounts_def by blast
  show ?thesis unfolding accounts_def
  proof (intro conjI allI, goal_cases)
    case (8 q)
    from c have "as_queue_costs (count_operation r s) = Some (add_at (ro_queue (cr_operation r)) (ro_cost (cr_operation r))
      (list_or_empty (as_queue_costs s)))" by (simp add: account_of_def)
    with queue_account [OF q, of "cr_operation r" q] show ?case using assms(2) e by (simp add: executed_in_def)
  qed (use c assms(1,2) e in \<open>simp_all add: accounts_def account_of_def executed_in_def decided_in_def fsum_snoc is_transfer_def\<close>)
next
  case (Some d)
  have c: "account_of (count_operation r s) = (as_frame s, as_operation_count s + 1, as_decision_count s + 1,
      as_estimated_total_cost_ms s, as_transfer_mb s, fadd (as_estimated_saved_ms s) (rd_saved_ms d),
      fadd (as_estimated_saved_mb s) (rd_saved_mb d), as_queue_costs s)"
    using Some assms(3) by (simp add: account_count)
  have e: "executed_in f (rs @ [r]) = executed_in f rs" "decided_in f (rs @ [r]) = decided_in f rs @ [d]"
    using Some assms(2,3) by (simp_all add: executed_in_def decided_in_def)
  show ?thesis using assms(1,2) c by (simp add: accounts_def account_of_def e fsum_snoc)
qed

text \<open>A session with the answer counted: its command given, its gate still to come.\<close>

lemma counted_inv:
  assumes "session_inv rs rs a" and "submit_operation_event (ax_controller a) p = Inr (r, c)"
    and "a2 = a\<lparr>ax_controller := c, ax_live_commands := ax_live_commands a @ [l]\<rparr>" and "lc_operation_id l = ro_id (cr_operation r)"
  shows "session_inv (rs @ [r]) rs
      (case ro_frame (cr_operation r) of None \<Rightarrow> a2 | Some f \<Rightarrow> put_stats f (count_operation r (stats_of a2 f)) a2)"
    (is "session_inv _ _ ?b")
proof -
  note fields = submit_fields [OF assms(2)]
  have stats: "stats_of a2 f = stats_of a f" for f by (simp add: assms(3) stats_of_def)
  have same: "ax_controller ?b = c" "ax_engine ?b = ax_engine a" "ax_directives ?b = ax_directives a" "ax_emitted ?b = ax_emitted a"
    "ax_live_commands ?b = ax_live_commands a @ [l]" "ax_gates ?b = ax_gates a" "ax_results ?b = ax_results a"
    by (simp_all add: assms(3) split: option.split)
  have "accounts (rs @ [r]) f (stats_of ?b f)" for f
  proof -
    have old: "accounts rs f (stats_of a f)" using assms(1) by (simp add: session_inv_def sees_frames_def)
    have b: "stats_of ?b f = (if ro_frame (cr_operation r) = Some f then count_operation r (stats_of a f) else stats_of a f)"
      by (simp add: stats split: option.split)
    show ?thesis
    proof (cases "ro_frame (cr_operation r) = Some f")
      case True
      then show ?thesis using accounts_counted [OF old True fields(2)] b by simp
    next
      case False
      then show ?thesis using accounts_elsewhere [OF False] old b by simp
    qed
  qed
  moreover have "decides_once (rs @ [r]) rs ?b"
  proof -
    have d: "decides_once rs rs a" using assms(1) by (simp add: session_inv_def)
    then have "length (ax_live_commands a) = length rs" unfolding decides_once_def by (metis length_map)
    then show ?thesis using d assms(4) fields(3,4) unfolding decides_once_def same by simp
  qed
  ultimately show ?thesis
    using assms(1) fields(1) by (simp add: session_inv_def sees_resources_def sees_frames_def gives_once_def same)
qed

lemma answers_result:
  "result_answers r l (dput ''live_command'' (live_command_to_dict l) (with_event_index index (result_pairs r)))"
  by (simp add: result_answers_def result_view_def answer_view_def dget_dput with_event_index_def result_pairs_def split: option.split)

lemma live_command_id: "lc_operation_id (build_live_command r t) = ro_id (cr_operation r)"
  by (simp add: build_live_command_def live_command_of_def Let_def split: option.split)

text \<open>An operation event either raises, and then only counts itself, or the answer is counted, commanded and gated.\<close>

lemma operation_event_fails:
  assumes "submit_operation_event (ax_controller a) (operation_payload p (ax_current_frame a)) = Inl e"
  shows "process_operation_event p index a = (Inl e, a\<lparr>ax_operation_events := ax_operation_events a + 1\<rparr>)"
  using assms by (simp add: process_operation_event_def Let_def)

lemma operation_event_step:
  assumes "session_inv rs rs a"
    and sub: "submit_operation_event (ax_controller a) (operation_payload p (ax_current_frame a)) = Inr (r, c)"
  shows "\<exists>out b. process_operation_event p index a = (Inr out, b) \<and> session_inv (rs @ [r]) (rs @ [r]) b"
proof -
  let ?a1 = "a\<lparr>ax_operation_events := ax_operation_events a + 1\<rparr>" and ?f = "ro_frame (cr_operation r)"
  define t where "t = operation_target ?f ?a1"
  define l where "l = build_live_command r t"
  define a2 where "a2 = ?a1\<lparr>ax_controller := c, ax_live_commands := ax_live_commands ?a1 @ [l]\<rparr>"
  define a3 where "a3 = (case ?f of None \<Rightarrow> a2 | Some f \<Rightarrow> put_stats f (count_operation r (stats_of a2 f)) a2)"
  obtain as e where eng: "engine_operation r ?f t (ax_engine a3) = (as, e)" by fastforce
  define a4 where "a4 = record_policy_actions as ?f (a3\<lparr>ax_planner := planner_operation (cr_operation r) (cr_executed r) (ax_planner a3), ax_engine := e\<rparr>)"
  have "session_inv (rs @ [r]) rs a3" unfolding a3_def
    by (rule counted_inv [OF _ _ a2_def]) (use assms in \<open>simp_all add: session_inv_extend l_def live_command_id\<close>)
  then have "session_inv (rs @ [r]) rs (a3\<lparr>ax_planner := lf, ax_engine := e\<rparr>)" for lf
    using engine_operation_fields [OF eng] by (simp add: session_inv_engine session_inv_extend)
  then have a4: "session_inv (rs @ [r]) rs a4" unfolding a4_def by (simp add: same_session_inv [OF record_policy_same])
  have "ax_live_commands a3 = ax_live_commands a @ [l]" by (simp add: a3_def a2_def split: option.split)
  then have "last (ax_live_commands a4) = l"
    using record_policy_same [of "a3\<lparr>ax_planner := planner_operation (cr_operation r) (cr_executed r) (ax_planner a3), ax_engine := e\<rparr>" as ?f]
    by (simp add: same_session_def a4_def)
  moreover define d where "d = dput ''live_command'' (live_command_to_dict l) (with_event_index index (result_pairs r))"
  moreover define resp where "resp = [(lit ''ok'', PBool True), (lit ''event'', PStr (lit ''operation'')), (lit ''result'', PDict d),
    (lit ''live_command'', live_command_to_dict l), (lit ''policy_actions'', engine_actions as)]"
  moreover from resp_def have "dget resp ''result'' = PDict d" by simp
  ultimately obtain out b where step: "with_state_snapshot resp index (Some (l, r)) a4 = (Inr out, b)" "session_inv (rs @ [r]) (rs @ [r]) b"
    using with_state_snapshot_operation [OF a4] answers_result by blast
  have sub': "submit_operation_event (ax_controller ?a1) (operation_payload p (ax_current_frame ?a1)) = Inr (r, c)"
    using sub by simp
  have "process_operation_event p index a = with_state_snapshot resp index (Some (l, r)) a4"
    using eng unfolding resp_def d_def a4_def a3_def a2_def l_def t_def
    by (simp only: process_operation_event_def Let_def sub' sum.case prod.case)
  with step show ?thesis by simp
qed

text \<open>The controller's answers to the operation events of a session, in their order.\<close>

definition answered :: "pyval \<times> int option \<Rightarrow> adapter \<Rightarrow> controller_result list" where
  "answered e a = (case fst e of
     PDict p \<Rightarrow> if event_type_of p = lit ''operation''
       then case submit_operation_event (ax_controller a) (operation_payload p (ax_current_frame a)) of
              Inl x \<Rightarrow> [] | Inr (r, c) \<Rightarrow> [r]
       else []
   | _ \<Rightarrow> [])"

lemma adapter_event_inv:
  assumes "session_inv rs rs a"
  shows "session_inv (rs @ answered (v, index) a) (rs @ answered (v, index) a) (snd (adapter_event v index a))"
proof (cases v)
  case (PDict p)
  let ?a1 = "a\<lparr>ax_events := ax_events a + 1\<rparr>"
  have inv: "session_inv rs rs ?a1" using assms by (simp add: session_inv_extend)
  show ?thesis
  proof (cases "event_type_of p = lit ''operation''")
    case True
    then have step: "adapter_event v index a = process_operation_event p index ?a1"
      by (simp add: PDict adapter_event_def lit_def Let_def)
    show ?thesis
    proof (cases "submit_operation_event (ax_controller a) (operation_payload p (ax_current_frame a))")
      case (Inl e)
      then have "process_operation_event p index ?a1 = (Inl e, ?a1\<lparr>ax_operation_events := ax_operation_events ?a1 + 1\<rparr>)"
        by (intro operation_event_fails) simp
      with Inl True inv show ?thesis unfolding step by (simp add: answered_def PDict session_inv_extend)
    next
      case (Inr rc)
      obtain r c where rc: "rc = (r, c)" by fastforce
      from operation_event_step [OF inv, of p r c index] Inr rc
      obtain out b where "process_operation_event p index ?a1 = (Inr out, b)" "session_inv (rs @ [r]) (rs @ [r]) b" by auto
      moreover have "answered (v, index) a = [r]" using Inr rc True by (simp add: answered_def PDict)
      ultimately show ?thesis unfolding step by simp
    qed
  next
    case False
    have "session_inv rs rs (snd (process_state_event p index ?a1))"
      using inv by (simp add: process_state_event_def with_state_snapshot_quiet split: sum.split)
    then show ?thesis using inv False
      by (simp add: answered_def PDict adapter_event_def Let_def session_event_inv frame_event_inv resource_event_inv)
  qed
qed (use assms in \<open>simp_all add: adapter_event_def answered_def\<close>)

text \<open>A session driven by any events, with the exceptions of the failing ones caught outside, and the answers collected on the way.\<close>

definition drive_step :: "pyval \<times> int option \<Rightarrow> adapter \<Rightarrow> adapter" where
  "drive_step e a = snd (adapter_event (fst e) (snd e) a)"

definition drive :: "(pyval \<times> int option) list \<Rightarrow> adapter \<Rightarrow> adapter" where
  "drive es a = fold drive_step es a"

definition hear_step :: "pyval \<times> int option \<Rightarrow> adapter \<times> controller_result list \<Rightarrow> adapter \<times> controller_result list" where
  "hear_step e s = (drive_step e (fst s), snd s @ answered e (fst s))"

definition answers_of :: "(pyval \<times> int option) list \<Rightarrow> adapter \<Rightarrow> controller_result list" where
  "answers_of es a = snd (fold hear_step es (a, []))"

definition heard :: "adapter \<times> controller_result list \<Rightarrow> bool" where
  "heard s \<longleftrightarrow> session_inv (snd s) (snd s) (fst s)"

interpretation live: event_machine hear_step heard
proof unfold_locales
  show "heard s \<Longrightarrow> heard (hear_step e s)" for s e
    using adapter_event_inv [of "snd s" "fst s" "fst e" "snd e"] by (simp add: hear_step_def heard_def drive_step_def)
qed

lemma drive_heard: "fst (fold hear_step es s) = drive es (fst s)"
  by (induction es arbitrary: s) (simp_all add: drive_def hear_step_def)

lemma drive_inv: "session_inv (answers_of es (new_adapter s)) (answers_of es (new_adapter s)) (drive es (new_adapter s))"
  using live.run_inv [of "(new_adapter s, [])" es] session_inv_new drive_heard [of es "(new_adapter s, [])"]
  by (simp add: heard_def answers_of_def)

text \<open>What the stages after a session rely on.\<close>

definition consistent :: "adapter \<Rightarrow> bool" where
  "consistent a \<longleftrightarrow> (\<exists>rs. session_inv rs rs a)"

lemma consistent_new: "consistent (new_adapter s)"
  using session_inv_new by (auto simp: consistent_def)

lemma consistent_event: "consistent a \<Longrightarrow> consistent (snd (adapter_event v index a))"
  using adapter_event_inv by (fastforce simp: consistent_def)

lemma consistent_drive: "consistent (drive es (new_adapter s))"
  using drive_inv by (auto simp: consistent_def)

lemma consistent_results:
  assumes "consistent a"
  shows "list_all admitted_result (ax_results a)"
    and "length (ax_results a) = length (ct_executed (ax_controller a)) + length (ct_decisions (ax_controller a))"
proof -
  from assms obtain rs where d: "decides_once rs rs a" by (auto simp: consistent_def session_inv_def)
  then show "list_all admitted_result (ax_results a)" by (simp add: decides_once_def)
  from d have "length (ax_results a) = length rs" unfolding decides_once_def by (metis length_map)
  also have "\<dots> = length (filter cr_executed rs) + length (filter (\<lambda>r. \<not> cr_executed r) rs)"
    by (rule sum_length_filter_compl [symmetric])
  also have "\<dots> = length (ct_executed (ax_controller a)) + length (ct_decisions (ax_controller a))"
    using d unfolding decides_once_def by (metis length_map)
  finally show "length (ax_results a) = length (ct_executed (ax_controller a)) + length (ct_decisions (ax_controller a))" .
qed

text \<open>C5: After any sequence of events, failed ones included, the policy engine's resources and memory totals are those of the controller
  and no directive is given twice. With the answers the controller gave to the operation events: what it executed and what it decided
  are the answers' operations and decisions in order; every frame's statistics count its operations and decisions, and hold the cost of
  its executed ones, in all and by queue, the size its executed transfers moved and what its decisions saved, each the sum in the order
  of the operations; and there are exactly one live command, one gate and one result for each answer, in order, under the operation's
  id, the result holding the operation, the decision, the command and the gate.\<close>

theorem session_consistent:
  "let a = drive es (new_adapter s); c = ax_controller a; rs = answers_of es (new_adapter s) in
    pe_active_resources (ax_engine a) = ct_resources c
    \<and> pe_memory_totals_mb (ax_engine a) = memory_totals (ct_resources c)
    \<and> distinct (map directive_key (ax_directives a))
    \<and> ct_executed c = map cr_operation (filter cr_executed rs)
    \<and> ct_decisions c = map (the \<circ> cr_decision) (filter (\<lambda>r. \<not> cr_executed r) rs)
    \<and> accounts rs f (stats_of a f)
    \<and> map lc_operation_id (ax_live_commands a) = map (ro_id \<circ> cr_operation) rs
    \<and> map gn_operation_id (ax_gates a) = map (ro_id \<circ> cr_operation) rs
    \<and> map result_view (ax_results a) = map answer_view rs
    \<and> map (\<lambda>d. dget d ''live_command'') (ax_results a) = map live_command_to_dict (ax_live_commands a)
    \<and> map (\<lambda>d. dget d ''execution_gate'') (ax_results a) = map execution_gate_to_dict (ax_gates a)"
proof -
  let ?a = "drive es (new_adapter s)" and ?rs = "answers_of es (new_adapter s)"
  have inv: "session_inv ?rs ?rs ?a" by (rule drive_inv)
  then have "length (ax_live_commands ?a) = length ?rs"
    unfolding session_inv_def decides_once_def by (metis length_map)
  then show ?thesis using inv by (simp add: session_defs Let_def)
qed

section \<open>The result\<close>

lemma truthy_operation: "truthy (operation_to_dict op)"
  by (simp add: operation_to_dict_def truthy_def)

lemma slots_of_results:
  "list_all admitted_result ds \<Longrightarrow> \<exists>as. admission_slots (map PDict ds) = Inr as \<and> map admission_to_dict as = map (\<lambda>d. dget d ''admission_decision'') ds
    \<and> list_all (\<lambda>x. (am_action x, am_contribution x) \<in> set admission_kinds) as"
proof (induction ds)
  case (Cons d ds)
  then obtain x op as where "build_admission_decision d = Inr x" "dget d ''operation'' = operation_to_dict op"
    "dget d ''admission_decision'' = admission_to_dict x" "(am_action x, am_contribution x) \<in> set admission_kinds"
    "admission_slots (map PDict ds) = Inr as" "map admission_to_dict as = map (\<lambda>d. dget d ''admission_decision'') ds"
    "list_all (\<lambda>x. (am_action x, am_contribution x) \<in> set admission_kinds) as"
    by (auto simp: admitted_result_def)
  then show ?case by (simp add: truthy_operation)
qed simp

lemma count_kinds:
  "list_all (\<lambda>x. (am_action x, am_contribution x) \<in> set admission_kinds) as \<Longrightarrow>
    count_admission as ''admit-now'' + count_admission as ''admit-prefetch'' + count_admission as ''reject-redundant''
      + count_admission as ''reuse-existing'' + count_admission as ''hold-next-frame'' = length as"
proof (induction as)
  case (Cons x as)
  from Cons.prems have "am_action x \<in> {lit ''admit-prefetch'', lit ''reject-redundant'', lit ''reuse-existing'', lit ''hold-next-frame'', lit ''admit-now''}"
    by (auto simp: admission_kinds_def)
  with Cons show ?case by (auto simp: count_admission_def count_if_def)
qed (simp add: count_admission_def count_if_def)

text \<open>C19: The admission plan of a session's result always exists and its slots are the admissions answered to the operations, in order:
  each is admitted now, admitted for prefetch, rejected, reused or held, and the five counts add up to the operations the controller
  processed.\<close>

theorem admission_plan_accounts:
  "\<exists>p. build_admission_plan (map PDict (ax_results (drive es (new_adapter s)))) = Inr p
    \<and> map admission_to_dict (aj_slots p) = map (\<lambda>d. dget d ''admission_decision'') (ax_results (drive es (new_adapter s)))
    \<and> aj_immediate_count p + aj_prefetch_count p + aj_deferred_count p + aj_reused_count p + aj_held_count p = aj_operation_count p
    \<and> aj_operation_count p = length (ct_executed (ax_controller (drive es (new_adapter s))))
        + length (ct_decisions (ax_controller (drive es (new_adapter s))))"
proof -
  let ?a = "drive es (new_adapter s)"
  note results = consistent_results(1) [OF consistent_drive [of es s]] and len = consistent_results(2) [OF consistent_drive [of es s]]
  obtain as where as: "admission_slots (map PDict (ax_results ?a)) = Inr as"
    "map admission_to_dict as = map (\<lambda>d. dget d ''admission_decision'') (ax_results ?a)"
    "list_all (\<lambda>x. (am_action x, am_contribution x) \<in> set admission_kinds) as" using slots_of_results [OF results] by blast
  have "length as = length (ax_results ?a)" using arg_cong [OF as(2), of length] by simp
  then show ?thesis using as len count_kinds [OF as(3)] by (simp add: build_admission_plan_def admission_plan_of_def)
qed

lemma typed_resources: "(rid, d) \<in> set (normalize_resources (map (\<lambda>(k, r). (k, Typed r)) rs)) \<Longrightarrow> \<exists>r. PDict d = resource_to_dict r"
  by (induction rs) (auto simp: resource_to_dict_def)

lemma typed_size:
  assumes "lookup_given tgt (normalize_resources (map (\<lambda>(k, r). (k, Typed r)) rs)) = Some d"
  shows "\<exists>x. transit_number (dget d ''size_mb'') = Inr x"
proof -
  from assms have "\<exists>rid. (rid, d) \<in> set (normalize_resources (map (\<lambda>(k, r). (k, Typed r)) rs))"
    by (auto simp: lookup_given_def split: option.split_asm if_split_asm dest: map_of_SomeD)
  then obtain r where "PDict d = resource_to_dict r" using typed_resources by blast
  then show ?thesis by (simp add: resource_to_dict_def)
qed

lemma hop_of_result:
  assumes "dget d ''operation'' = operation_to_dict op"
  shows "\<exists>h. build_hop d (normalize_resources (map (\<lambda>(k, r). (k, Typed r)) rs)) = Inr h"
proof -
  let ?res = "normalize_resources (map (\<lambda>(k, r). (k, Typed r)) rs)"
  obtain od where od: "operation_to_dict op = PDict od" "dget od ''type'' = PStr (ro_type op)" "dget od ''frame'' = opt_int (ro_frame op)"
    "dget od ''size_mb'' = PFloat (ro_size op)" "dget od ''cost_ms'' = PFloat (ro_cost op)" "od \<noteq> []"
    by (simp add: operation_to_dict_def)
  have dict: "py_or (dget d ''operation'') (PDict []) = PDict od" using od(1,6) assms by (simp add: py_or_def truthy_def)
  have frame: "parse_frame (opt_int (ro_frame op)) = Inr (ro_frame op)"
    by (cases "ro_frame op") (simp_all add: parse_frame_def opt_int_def py_int_def)
  have "\<exists>x. transit_size od tgt ?res = Inr x" for tgt
    using typed_size [of tgt rs] by (auto simp: transit_size_def od drawn_type_def split: option.split)
  then obtain sz where "transit_size od (optional_text_of (dget od ''target'')) ?res = Inr sz" by blast
  then show ?thesis unfolding build_hop_def dict by (simp add: od frame Let_def)
qed

lemma hops_of_results:
  "list_all admitted_result ds \<Longrightarrow> \<exists>hs. build_hops ds (normalize_resources (map (\<lambda>(k, r). (k, Typed r)) rs)) = Inr hs"
proof (induction ds)
  case (Cons d ds)
  then obtain op hs where "dget d ''operation'' = operation_to_dict op" "build_hops ds (normalize_resources (map (\<lambda>(k, r). (k, Typed r)) rs)) = Inr hs"
    by (auto simp: admitted_result_def)
  moreover from this(1) obtain h where "build_hop d (normalize_resources (map (\<lambda>(k, r). (k, Typed r)) rs)) = Inr h"
    using hop_of_result by blast
  ultimately show ?case by simp
qed simp

lemma transit_of_results:
  "list_all admitted_result ds \<Longrightarrow> \<exists>m. build_memory_transit_map ds (map (\<lambda>(k, r). (k, Typed r)) rs) = Inr m"
  using hops_of_results [of ds rs] by (auto simp: build_memory_transit_map_def Let_def)

lemma envelope_live: "\<exists>e. build_runtime_envelope l (LiveState t b) m = Inr e"
  by (simp add: build_runtime_envelope_def build_memory_layers_def snapshot_map_def Let_def)

definition too_large :: exn where
  "too_large = OverflowError (lit ''int too large to convert to float'')"

lemma ebind_total_or:
  "(\<exists>x. m = Inr x) \<or> m = Inl e \<Longrightarrow> (\<And>x. (\<exists>y. f x = Inr y) \<or> f x = Inl e) \<Longrightarrow> (\<exists>y. ebind m f = Inr y) \<or> ebind m f = Inl e"
  by (metis ebind_Inl ebind_Inr)

lemma float_of_count: "(\<exists>x. py_float (PInt n) = Inr x) \<or> py_float (PInt n) = Inl too_large"
  by (cases "to_f64 (of_int n)") (simp_all add: py_float_def too_large_def)

lemma transition_total: "(\<exists>t. build_runtime_state_transition previous current = Inr t) \<or> build_runtime_state_transition previous current = Inl too_large"
proof -
  have index: "(\<exists>x. pressure_index s = Inr x) \<or> pressure_index s = Inl too_large" for s
    using float_of_count [of "sa_active_policy_count (the s)"] by (cases s) (auto simp: pressure_index_def)
  have delta: "(\<exists>x. count_delta previous current = Inr x) \<or> count_delta previous current = Inl too_large"
    using float_of_count [of "sa_active_policy_count (the previous)"] float_of_count [of "sa_active_policy_count current"]
    by (cases previous) (auto simp: count_delta_def)
  show ?thesis unfolding build_runtime_state_transition_def Let_def
    by (intro ebind_total_or index delta) blast
qed

text \<open>An outcome of building the result: a result with the session's operations and the next cycle, or the exception.\<close>

definition result_outcome :: "runtime_state option \<Rightarrow> pydict list \<Rightarrow> (adapter_result \<times> adapter) res \<Rightarrow> bool" where
  "result_outcome previous ds m \<longleftrightarrow> (\<exists>r a. m = Inr (r, a) \<and> xr_results r = ds
     \<and> sa_cycle_count (xr_runtime_state_accumulator r) = (case previous of None \<Rightarrow> 1 | Some p \<Rightarrow> sa_cycle_count p + 1)) \<or> m = Inl too_large"

lemma outcome_let: "(\<And>x. x = t \<Longrightarrow> result_outcome p ds (f x)) \<Longrightarrow> result_outcome p ds (Let t f)"
  by simp

lemma outcome_ebind: "(\<exists>x. m = Inr x) \<or> m = Inl too_large \<Longrightarrow> (\<And>x. m = Inr x \<Longrightarrow> result_outcome p ds (f x)) \<Longrightarrow> result_outcome p ds (ebind m f)"
  by (auto simp: result_outcome_def)

lemma next_cycle: "sa_cycle_count (build_runtime_state_accumulator u previous) = (case previous of None \<Rightarrow> 1 | Some p \<Rightarrow> sa_cycle_count p + 1)"
  by (simp add: build_runtime_state_accumulator_def Let_def split: option.split)

lemma to_result_outcome:
  assumes "list_all admitted_result (ax_results a)"
  shows "result_outcome previous (ax_results a) (to_result previous a)"
proof -
  obtain lifetime planner where fin: "finalize_planner (ax_planner a) = (lifetime, planner)" by fastforce
  show ?thesis unfolding to_result_def fin prod.case
  proof (intro outcome_let outcome_ebind, goal_cases)
    case (1 a1)
    then show ?case using slots_of_results [OF assms] by (auto simp: build_admission_plan_def)
  next
    case (2 a1)
    then show ?case using transit_of_results [OF assms] by auto
  next
    case 3
    then show ?case using envelope_live by blast
  next
    case 4
    then show ?case using calibration_stats by blast
  next
    case 5
    then show ?case using transition_total by blast
  next
    case 6
    then show ?case by (simp add: result_outcome_def next_cycle)
  qed
qed

text \<open>C16: Building the result of a session, after any events and on any previous state, runs through all planning stages: the only
  exception that can stop it is the conversion to float of a count of active policies beyond the floats.\<close>

theorem result_exists:
  "(\<exists>r a. to_result previous (drive es (new_adapter s)) = Inr (r, a)
      \<and> xr_results r = ax_results (drive es (new_adapter s))
      \<and> sa_cycle_count (xr_runtime_state_accumulator r) = (case previous of None \<Rightarrow> 1 | Some p \<Rightarrow> sa_cycle_count p + 1))
    \<or> to_result previous (drive es (new_adapter s)) = Inl (OverflowError (lit ''int too large to convert to float''))"
proof -
  from to_result_outcome [OF consistent_results(1) [OF consistent_drive [of es s]]] show ?thesis
    unfolding result_outcome_def too_large_def by blast
qed

end
