(* ===== verification/Host_Profile.thy ===== *)
theory Host_Profile
  imports Py_Float_Ops
begin

text \<open>
  The host snapshot (\<^verbatim>\<open>src/fluidgateway/host.py\<close>): the classification of the probed numbers and the hint
  to the daemon. The probes themselves read the operating system and are not modelled.
\<close>

record host_gpu =
  hg_name :: pystr
  hg_adapter_ram_mb :: "pyfloat option"
  hg_driver_version :: "pystr option"
  hg_source :: pystr

definition host_gpu_to_dict :: "host_gpu \<Rightarrow> pyval" where
  "host_gpu_to_dict x = PDict
    [(lit ''name'', PStr (hg_name x)), (lit ''adapter_ram_mb'', rounded_or_none (hg_adapter_ram_mb x)),
     (lit ''driver_version'', opt_str (hg_driver_version x)), (lit ''source'', PStr (hg_source x))]"

record host_snapshot =
  hs_mode :: pystr
  hs_dry_run :: bool
  hs_would_modify_system :: bool
  hs_capture_guard :: pystr
  hs_os_name :: pystr
  hs_os_release :: pystr
  hs_os_version :: pystr
  hs_machine :: pystr
  hs_processor :: pystr
  hs_python_version :: pystr
  hs_cpu_logical_count :: "int option"
  hs_cpu_class :: pystr
  hs_total_ram_mb :: "pyfloat option"
  hs_available_ram_mb :: "pyfloat option"
  hs_ram_pressure_pct :: "pyfloat option"
  hs_ram_class :: pystr
  hs_ram_pressure_class :: pystr
  hs_gpu_count :: nat
  hs_total_reported_vram_mb :: "pyfloat option"
  hs_largest_reported_vram_mb :: "pyfloat option"
  hs_gpu_selection_basis :: pystr
  hs_gpu_class :: pystr
  hs_host_profile :: pystr
  hs_manager_hint :: pystr
  hs_telemetry_confidence :: pystr
  hs_capture_errors :: "pystr list"
  hs_gpus :: "host_gpu list"

definition host_snapshot_to_dict :: "host_snapshot \<Rightarrow> pyval" where
  "host_snapshot_to_dict x = PDict
    [(lit ''mode'', PStr (hs_mode x)), (lit ''dry_run'', PBool (hs_dry_run x)),
     (lit ''would_modify_system'', PBool (hs_would_modify_system x)), (lit ''capture_guard'', PStr (hs_capture_guard x)),
     (lit ''os_name'', PStr (hs_os_name x)), (lit ''os_release'', PStr (hs_os_release x)),
     (lit ''os_version'', PStr (hs_os_version x)), (lit ''machine'', PStr (hs_machine x)),
     (lit ''processor'', PStr (hs_processor x)), (lit ''python_version'', PStr (hs_python_version x)),
     (lit ''cpu_logical_count'', opt_int (hs_cpu_logical_count x)), (lit ''cpu_class'', PStr (hs_cpu_class x)),
     (lit ''total_ram_mb'', rounded_or_none (hs_total_ram_mb x)),
     (lit ''available_ram_mb'', rounded_or_none (hs_available_ram_mb x)),
     (lit ''ram_pressure_pct'', rounded_or_none (hs_ram_pressure_pct x)), (lit ''ram_class'', PStr (hs_ram_class x)),
     (lit ''ram_pressure_class'', PStr (hs_ram_pressure_class x)), (lit ''gpu_count'', PInt (int (hs_gpu_count x))),
     (lit ''total_reported_vram_mb'', rounded_or_none (hs_total_reported_vram_mb x)),
     (lit ''largest_reported_vram_mb'', rounded_or_none (hs_largest_reported_vram_mb x)),
     (lit ''gpu_selection_basis'', PStr (hs_gpu_selection_basis x)), (lit ''gpu_class'', PStr (hs_gpu_class x)),
     (lit ''host_profile'', PStr (hs_host_profile x)), (lit ''manager_hint'', PStr (hs_manager_hint x)),
     (lit ''telemetry_confidence'', PStr (hs_telemetry_confidence x)),
     (lit ''capture_errors'', str_list (hs_capture_errors x)), (lit ''gpus'', PList (map host_gpu_to_dict (hs_gpus x)))]"

text \<open>\<^verbatim>\<open>float(n) / 1048576\<close>; an int beyond the floats raises.\<close>

definition bytes_to_mb :: "int \<Rightarrow> pyfloat res" where
  "bytes_to_mb n = ebind (py_float (PInt n)) (\<lambda>x. Inr (fdiv x 1048576))"

text \<open>Only \<^verbatim>\<open>TypeError\<close> and \<^verbatim>\<open>ValueError\<close> of \<^verbatim>\<open>int(value)\<close> are caught.\<close>

definition parse_adapter_ram_mb :: "pyval \<Rightarrow> pyfloat option res" where
  "parse_adapter_ram_mb v =
    (if v = PNone then Inr None
     else (case py_int v of
         Inl (OverflowError m) \<Rightarrow> Inl (OverflowError m)
       | Inl _ \<Rightarrow> Inr None
       | Inr n \<Rightarrow> if n \<le> 0 then Inr None else ebind (bytes_to_mb n) (\<lambda>x. Inr (Some x))))"

definition gpu_capability_from_cim :: "pydict \<Rightarrow> host_gpu res" where
  "gpu_capability_from_cim d =
    ebind (parse_adapter_ram_mb (dget d ''AdapterRAM'')) (\<lambda>ram.
    Inr \<lparr>hg_name = py_str (py_or (dget d ''Name'') (PStr (lit ''unknown-gpu''))), hg_adapter_ram_mb = ram,
      hg_driver_version = (if dget d ''DriverVersion'' = PNone then None else Some (py_str (dget d ''DriverVersion''))),
      hg_source = lit ''win32-video-controller''\<rparr>)"

definition calculate_ram_pressure_pct :: "pyfloat option \<Rightarrow> pyfloat option \<Rightarrow> pyfloat option" where
  "calculate_ram_pressure_pct total_mb available = (case (total_mb, available) of
     (Some t, Some a) \<Rightarrow> if fle t (Fin 0) then None
       else Some (fmin (fmul (fdiv_pos (fmax (fsub t a) (Fin 0)) t) (Fin 100)) (Fin 100))
   | _ \<Rightarrow> None)"

definition classify_cpu :: "int option \<Rightarrow> pystr" where
  "classify_cpu n = (case n of None \<Rightarrow> lit ''unknown-cpu''
     | Some k \<Rightarrow> if k \<le> 0 then lit ''unknown-cpu'' else if k < 4 then lit ''constrained-cpu'' else if k < 8 then lit ''modest-cpu''
         else if k < 16 then lit ''balanced-cpu'' else lit ''high-parallelism-cpu'')"

definition classify_ram :: "pyfloat option \<Rightarrow> pystr" where
  "classify_ram r = (case r of None \<Rightarrow> lit ''unknown-ram''
     | Some x \<Rightarrow> if fle x (Fin 0) then lit ''unknown-ram'' else if fless x (Fin 8192) then lit ''constrained-ram''
         else if fless x (Fin 16384) then lit ''limited-ram'' else if fless x (Fin 32768) then lit ''balanced-ram''
         else lit ''high-capacity-ram'')"

definition classify_ram_pressure :: "pyfloat option \<Rightarrow> pystr" where
  "classify_ram_pressure p = (case p of None \<Rightarrow> lit ''unknown-pressure''
     | Some x \<Rightarrow> if fle (Fin 85) x then lit ''high-pressure'' else if fle (Fin 70) x then lit ''medium-pressure''
         else lit ''low-pressure'')"

definition classify_gpu :: "pyfloat option \<Rightarrow> nat \<Rightarrow> pystr" where
  "classify_gpu vram n =
    (if n = 0 then lit ''unknown-gpu''
     else (case vram of None \<Rightarrow> lit ''gpu-present-unknown-vram''
       | Some x \<Rightarrow> if fle x (Fin 0) then lit ''gpu-present-unknown-vram'' else if fless x (Fin 3840) then lit ''low-vram-gpu''
           else if fless x (Fin 12288) then lit ''balanced-vram-gpu'' else lit ''high-vram-gpu''))"

definition classify_host_profile :: "pystr \<Rightarrow> pystr \<Rightarrow> pystr \<Rightarrow> pystr \<Rightarrow> pystr" where
  "classify_host_profile cpu ram pressure gpu =
    (if pressure = lit ''high-pressure'' then lit ''memory-pressure-host''
     else if cpu = lit ''constrained-cpu'' \<or> ram = lit ''constrained-ram'' then lit ''constrained-host''
     else if gpu = lit ''high-vram-gpu'' \<and> ram = lit ''high-capacity-ram'' \<and> cpu \<in> {lit ''balanced-cpu'', lit ''high-parallelism-cpu''}
       then lit ''high-capacity-gaming-host''
     else if gpu \<in> {lit ''balanced-vram-gpu'', lit ''high-vram-gpu''} \<and> ram \<in> {lit ''balanced-ram'', lit ''high-capacity-ram''}
       then lit ''balanced-gaming-host''
     else lit ''observed-host'')"

definition manager_hint_for_profile :: "pystr \<Rightarrow> pystr \<Rightarrow> pystr \<Rightarrow> pystr" where
  "manager_hint_for_profile profile pressure gpu =
    (if pressure = lit ''high-pressure'' then lit ''tighten-memory-residency-observation''
     else if profile = lit ''constrained-host'' then lit ''prefer-low-residency-and-short-hot-path''
     else if gpu = lit ''unknown-gpu'' then lit ''collect-gpu-telemetry-before-gpu-specific-actions''
     else if profile \<in> {lit ''balanced-gaming-host'', lit ''high-capacity-gaming-host''} then lit ''allow-daemon-supervisor-loop''
     else lit ''collect-more-host-telemetry'')"

definition telemetry_confidence :: "pyfloat option \<Rightarrow> pyfloat option \<Rightarrow> host_gpu list \<Rightarrow> pystr list \<Rightarrow> pystr" where
  "telemetry_confidence total_mb available gpus errors =
    (let memory_known = (total_mb \<noteq> None \<and> available \<noteq> None);
         unambiguous = (case gpus of [g] \<Rightarrow> hg_adapter_ram_mb g \<noteq> None | _ \<Rightarrow> False)
     in if memory_known \<and> unambiguous \<and> errors = [] then lit ''high''
        else if memory_known \<and> gpus \<noteq> [] then lit ''medium''
        else if memory_known then lit ''medium'' else lit ''low'')"

text \<open>\<^verbatim>\<open>max(xs, default=None)\<close>\<close>

definition fmax_or_none :: "pyfloat list \<Rightarrow> pyfloat option" where
  "fmax_or_none xs = (case xs of [] \<Rightarrow> None | y # ys \<Rightarrow> Some (foldl fmax y ys))"

text \<open>What the probes of the operating system report.\<close>

record host_probe =
  hp_os_name :: pystr
  hp_os_release :: pystr
  hp_os_version :: pystr
  hp_machine :: pystr
  hp_processor :: pystr
  hp_python_version :: pystr
  hp_cpu_logical_count :: "int option"
  hp_total_ram_mb :: "pyfloat option"
  hp_available_ram_mb :: "pyfloat option"
  hp_gpus :: "host_gpu list"
  hp_capture_errors :: "pystr list"

definition build_host_capability_snapshot :: "host_probe \<Rightarrow> host_snapshot" where
  "build_host_capability_snapshot p =
    (let gpus = hp_gpus p; rams = List.map_filter hg_adapter_ram_mb gpus; largest = fmax_or_none rams;
         pct = calculate_ram_pressure_pct (hp_total_ram_mb p) (hp_available_ram_mb p);
         cpu = classify_cpu (hp_cpu_logical_count p); ram = classify_ram (hp_total_ram_mb p);
         pressure = classify_ram_pressure pct; gpu = classify_gpu largest (length gpus);
         profile = classify_host_profile cpu ram pressure gpu
     in \<lparr>hs_mode = lit ''host-capability-snapshot-v0.47'', hs_dry_run = True, hs_would_modify_system = False,
       hs_capture_guard = lit ''observe-only'', hs_os_name = hp_os_name p, hs_os_release = hp_os_release p,
       hs_os_version = hp_os_version p, hs_machine = hp_machine p, hs_processor = hp_processor p,
       hs_python_version = hp_python_version p, hs_cpu_logical_count = hp_cpu_logical_count p, hs_cpu_class = cpu,
       hs_total_ram_mb = hp_total_ram_mb p, hs_available_ram_mb = hp_available_ram_mb p, hs_ram_pressure_pct = pct,
       hs_ram_class = ram, hs_ram_pressure_class = pressure, hs_gpu_count = length gpus,
       hs_total_reported_vram_mb = (if gpus = [] then None else Some (fsum rams)), hs_largest_reported_vram_mb = largest,
       hs_gpu_selection_basis = lit ''largest-reported-adapter-not-active-process-binding'', hs_gpu_class = gpu,
       hs_host_profile = profile, hs_manager_hint = manager_hint_for_profile profile pressure gpu,
       hs_telemetry_confidence = telemetry_confidence (hp_total_ram_mb p) (hp_available_ram_mb p) gpus (hp_capture_errors p),
       hs_capture_errors = hp_capture_errors p, hs_gpus = gpus\<rparr>)"

section \<open>When the loop is allowed\<close>

lemma gaming_gpu: "classify_gpu v n \<in> {lit ''balanced-vram-gpu'', lit ''high-vram-gpu''} \<Longrightarrow> \<exists>x. v = Some x \<and> \<not> fless x (Fin 3840)"
  by (auto simp: classify_gpu_def split: option.splits if_split_asm)

lemma gaming_ram: "classify_ram r \<in> {lit ''balanced-ram'', lit ''high-capacity-ram''} \<Longrightarrow> \<exists>x. r = Some x \<and> \<not> fless x (Fin 16384)"
proof (cases r)
  case (Some x)
  have "fless x (Fin 8192) \<Longrightarrow> fless x (Fin 16384)" by (cases x) simp_all
  moreover assume "classify_ram r \<in> {lit ''balanced-ram'', lit ''high-capacity-ram''}"
  ultimately show ?thesis by (simp add: Some classify_ram_def split: if_split_asm)
qed (simp add: classify_ram_def)

lemma allowed_profile:
  "manager_hint_for_profile profile pressure gpu = lit ''allow-daemon-supervisor-loop'' \<Longrightarrow>
    pressure \<noteq> lit ''high-pressure'' \<and> profile \<in> {lit ''balanced-gaming-host'', lit ''high-capacity-gaming-host''}"
  by (simp add: manager_hint_for_profile_def split: if_split_asm)

lemma gaming_profile:
  "classify_host_profile cpu ram pressure gpu \<in> {lit ''balanced-gaming-host'', lit ''high-capacity-gaming-host''} \<Longrightarrow>
    cpu \<noteq> lit ''constrained-cpu'' \<and> gpu \<in> {lit ''balanced-vram-gpu'', lit ''high-vram-gpu''}
    \<and> ram \<in> {lit ''balanced-ram'', lit ''high-capacity-ram''}"
  by (simp add: classify_host_profile_def split: if_split_asm)

lemma pressure_range:
  assumes "calculate_ram_pressure_pct (Some (Fin t)) (Some (Fin a)) = Some x"
  shows "fnonneg x \<and> fle x (Fin 100)"
proof -
  have t: "0 < t" using assms by (auto simp: calculate_ram_pressure_pct_def split: if_splits)
  let ?u = "fmax (fsub (Fin t) (Fin a)) (Fin 0)"
  have "fsub (Fin t) (Fin a) \<noteq> NaN" using to_f64_le [of "t - a" "t - a"] by (auto simp: fsub_def fneg_def)
  then have "fnonneg ?u" by (cases "fsub (Fin t) (Fin a)") (auto simp: fmax_def fnonneg_def)
  then have "fnonneg (fdiv_pos ?u (Fin t))" using t
    by (cases ?u) (auto simp: fdiv_pos_def fdiv_def fnonneg_def fsign_def signed_inf_def intro: to_f64_nonneg [unfolded fnonneg_def])
  then have "fnonneg (fmul (fdiv_pos ?u (Fin t)) (Fin 100))" by (rule fmul_fnonneg) simp
  moreover have "x = fmin (fmul (fdiv_pos ?u (Fin t)) (Fin 100)) (Fin 100)"
    using assms t by (simp add: calculate_ram_pressure_pct_def)
  ultimately show ?thesis
    using fle_fmin [of "fmul (fdiv_pos ?u (Fin t)) (Fin 100)" "Fin 100"] fmin_fnonneg fnonneg_not_NaN by (auto simp: fnonneg_def)
qed

lemma fmax_or_none_mem: "fmax_or_none xs = Some x \<Longrightarrow> x \<in> set xs"
proof -
  have "foldl fmax y ys \<in> insert y (set ys)" for y ys
    by (induction ys arbitrary: y) (fastforce simp: fmax_def)+
  moreover assume "fmax_or_none xs = Some x"
  ultimately show ?thesis by (cases xs) (auto simp: fmax_or_none_def)
qed

lemma allowed_host:
  assumes "hs_manager_hint (build_host_capability_snapshot p) = lit ''allow-daemon-supervisor-loop''"
  shows "\<exists>ram vram g. hp_total_ram_mb p = Some ram \<and> \<not> fless ram (Fin 16384)
    \<and> g \<in> set (hp_gpus p) \<and> hg_adapter_ram_mb g = Some vram \<and> \<not> fless vram (Fin 3840)
    \<and> hs_ram_pressure_class (build_host_capability_snapshot p) \<noteq> lit ''high-pressure''
    \<and> hs_cpu_class (build_host_capability_snapshot p) \<noteq> lit ''constrained-cpu''"
proof -
  let ?h = "build_host_capability_snapshot p"
  have fields: "hs_manager_hint ?h = manager_hint_for_profile (hs_host_profile ?h) (hs_ram_pressure_class ?h) (hs_gpu_class ?h)"
    "hs_host_profile ?h = classify_host_profile (hs_cpu_class ?h) (hs_ram_class ?h) (hs_ram_pressure_class ?h) (hs_gpu_class ?h)"
    "hs_ram_class ?h = classify_ram (hp_total_ram_mb p)"
    "hs_gpu_class ?h = classify_gpu (fmax_or_none (List.map_filter hg_adapter_ram_mb (hp_gpus p))) (length (hp_gpus p))"
    by (simp_all add: build_host_capability_snapshot_def Let_def)
  from assms have calm: "hs_ram_pressure_class ?h \<noteq> lit ''high-pressure''"
    and profile: "hs_host_profile ?h \<in> {lit ''balanced-gaming-host'', lit ''high-capacity-gaming-host''}"
    using allowed_profile unfolding fields(1) by blast+
  from gaming_profile [OF profile [unfolded fields(2)]] have cpu: "hs_cpu_class ?h \<noteq> lit ''constrained-cpu''"
    and gpu: "hs_gpu_class ?h \<in> {lit ''balanced-vram-gpu'', lit ''high-vram-gpu''}"
    and ram: "hs_ram_class ?h \<in> {lit ''balanced-ram'', lit ''high-capacity-ram''}" by blast+
  obtain r where r: "hp_total_ram_mb p = Some r" "\<not> fless r (Fin 16384)" using gaming_ram ram unfolding fields(3) by blast
  obtain v where v: "fmax_or_none (List.map_filter hg_adapter_ram_mb (hp_gpus p)) = Some v" "\<not> fless v (Fin 3840)"
    using gaming_gpu gpu unfolding fields(4) by blast
  from fmax_or_none_mem [OF v(1)] obtain g where "g \<in> set (hp_gpus p)" "hg_adapter_ram_mb g = Some v"
    by (auto simp: List.map_filter_def)
  with r v calm cpu show ?thesis by blast
qed

end
