(* ===== verification/Daemon_Decision.thy ===== *)
theory Daemon_Decision
  imports Host_Profile State_Accumulator
begin

text \<open>
  What the daemon decides after its cycles (\<^verbatim>\<open>src/fluidgateway/daemon_decision.py\<close>), the queue of
  actions with their shapes (\<^verbatim>\<open>daemon_actions.py\<close>) and the queue's dry run (\<^verbatim>\<open>daemon_execution.py\<close>).
\<close>

section \<open>Decision\<close>

record daemon_action =
  da_action_id :: pystr
  da_domain :: pystr
  da_phase :: pystr
  da_priority :: pystr
  da_action :: pystr
  da_target :: pystr
  da_reason :: pystr

definition daemon_action_to_dict :: "daemon_action \<Rightarrow> pyval" where
  "daemon_action_to_dict x = PDict
    [(lit ''action_id'', PStr (da_action_id x)), (lit ''domain'', PStr (da_domain x)), (lit ''phase'', PStr (da_phase x)),
     (lit ''priority'', PStr (da_priority x)), (lit ''action'', PStr (da_action x)), (lit ''target'', PStr (da_target x)),
     (lit ''reason'', PStr (da_reason x))]"

record decision_plan =
  dl_mode :: pystr
  dl_dry_run :: bool
  dl_would_modify_system :: bool
  dl_execution_guard :: pystr
  dl_source_host_profile :: pystr
  dl_source_host_manager_hint :: pystr
  dl_source_execution_action :: pystr
  dl_source_supervisor_action :: pystr
  dl_source_state_digest :: pystr
  dl_decision_action :: pystr
  dl_risk_level :: pystr
  dl_confidence :: pystr
  dl_action_count :: nat
  dl_scheduler_action_count :: nat
  dl_memory_action_count :: nat
  dl_gpu_action_count :: nat
  dl_telemetry_action_count :: nat
  dl_safety_action_count :: nat
  dl_actions :: "daemon_action list"

definition decision_plan_to_dict :: "decision_plan \<Rightarrow> pyval" where
  "decision_plan_to_dict x = PDict
    [(lit ''mode'', PStr (dl_mode x)), (lit ''dry_run'', PBool (dl_dry_run x)),
     (lit ''would_modify_system'', PBool (dl_would_modify_system x)), (lit ''execution_guard'', PStr (dl_execution_guard x)),
     (lit ''source_host_profile'', PStr (dl_source_host_profile x)),
     (lit ''source_host_manager_hint'', PStr (dl_source_host_manager_hint x)),
     (lit ''source_execution_action'', PStr (dl_source_execution_action x)),
     (lit ''source_supervisor_action'', PStr (dl_source_supervisor_action x)),
     (lit ''source_state_digest'', PStr (dl_source_state_digest x)), (lit ''decision_action'', PStr (dl_decision_action x)),
     (lit ''risk_level'', PStr (dl_risk_level x)), (lit ''confidence'', PStr (dl_confidence x)),
     (lit ''action_count'', PInt (int (dl_action_count x))),
     (lit ''scheduler_action_count'', PInt (int (dl_scheduler_action_count x))),
     (lit ''memory_action_count'', PInt (int (dl_memory_action_count x))),
     (lit ''gpu_action_count'', PInt (int (dl_gpu_action_count x))),
     (lit ''telemetry_action_count'', PInt (int (dl_telemetry_action_count x))),
     (lit ''safety_action_count'', PInt (int (dl_safety_action_count x))),
     (lit ''actions'', PList (map daemon_action_to_dict (dl_actions x)))]"

definition decision_action :: "string \<Rightarrow> string \<Rightarrow> string \<Rightarrow> string \<Rightarrow> string \<Rightarrow> string \<Rightarrow> string \<Rightarrow> daemon_action" where
  "decision_action action_id domain phase priority action target reason =
    \<lparr>da_action_id = lit action_id, da_domain = lit domain, da_phase = lit phase, da_priority = lit priority,
     da_action = lit action, da_target = lit target, da_reason = lit reason\<rparr>"

definition memory_pressure_required :: "runtime_state \<Rightarrow> host_snapshot option \<Rightarrow> bool" where
  "memory_pressure_required s host =
    (fless (Fin 0) (sa_memory_relief_target_mb s) \<or> fless (Fin 0) (sa_memory_headroom_target_mb s)
     \<or> sa_policy_action s \<in> {lit ''continue-runtime-pressure-policy'', lit ''tighten-runtime-pressure-policy''}
     \<or> (case host of None \<Rightarrow> False | Some h \<Rightarrow> hs_manager_hint h = lit ''tighten-memory-residency-observation''))"

definition low_residency_required :: "host_snapshot option \<Rightarrow> bool" where
  "low_residency_required host =
    (case host of None \<Rightarrow> False | Some h \<Rightarrow> hs_manager_hint h = lit ''prefer-low-residency-and-short-hot-path'')"

definition supervisor_loop_allowed :: "host_snapshot option \<Rightarrow> pystr \<Rightarrow> bool" where
  "supervisor_loop_allowed host final_execution_action =
    (case host of None \<Rightarrow> False | Some h \<Rightarrow> hs_manager_hint h = lit ''allow-daemon-supervisor-loop''
       \<and> final_execution_action \<in> {lit ''dry-run-relaxed-supervisor-commands'', lit ''dry-run-preserved-supervisor-commands'',
            lit ''dry-run-monitored-supervisor-commands'', lit ''dry-run-observation-supervisor-commands''})"

definition gpu_telemetry_required :: "host_snapshot option \<Rightarrow> bool" where
  "gpu_telemetry_required host =
    (case host of None \<Rightarrow> False | Some h \<Rightarrow> hs_manager_hint h = lit ''collect-gpu-telemetry-before-gpu-specific-actions'')"

definition count_action_domain :: "daemon_action list \<Rightarrow> string \<Rightarrow> nat" where
  "count_action_domain as domain = count_if (\<lambda>a. da_domain a = lit domain) as"

definition plan_decision_action :: "daemon_action list \<Rightarrow> pystr" where
  "plan_decision_action as =
    (if \<exists>a \<in> set as. da_domain a = lit ''safety'' then lit ''hold-daemon-supervisor-promotion''
     else if \<exists>a \<in> set as. da_action a = lit ''tighten-memory-residency-observation'' then lit ''tighten-daemon-memory-observation''
     else if \<exists>a \<in> set as. da_action a = lit ''allow-daemon-supervisor-loop'' then lit ''continue-host-aware-supervisor-loop''
     else if \<exists>a \<in> set as. da_domain a = lit ''telemetry'' then lit ''expand-daemon-telemetry''
     else lit ''preserve-daemon-loop'')"

definition plan_risk_level :: "daemon_action list \<Rightarrow> pystr" where
  "plan_risk_level as =
    (if \<exists>a \<in> set as. da_priority a = lit ''high'' then lit ''high''
     else if \<exists>a \<in> set as. da_priority a = lit ''medium'' then lit ''medium'' else lit ''low'')"

definition plan_confidence :: "pystr \<Rightarrow> daemon_action list \<Rightarrow> pystr" where
  "plan_confidence confidence as =
    (if \<exists>a \<in> set as. da_domain a = lit ''telemetry'' then (if confidence = lit ''high'' then lit ''medium'' else lit ''low'')
     else if confidence \<in> {lit ''high'', lit ''medium''} then confidence else lit ''low'')"

text \<open>The actions in the order the code appends them; the last one only when there is no other.\<close>

definition decided_actions :: "runtime_state \<Rightarrow> host_snapshot option \<Rightarrow> pystr \<Rightarrow> nat \<Rightarrow> daemon_action list" where
  "decided_actions s host final_execution_action blocked =
    (let confidence = (case host of None \<Rightarrow> lit ''low'' | Some h \<Rightarrow> hs_telemetry_confidence h);
         hint = (case host of None \<Rightarrow> lit ''collect-host-telemetry'' | Some h \<Rightarrow> hs_manager_hint h)
     in (if host = None \<or> confidence = lit ''low'' then
          [decision_action ''daemon.telemetry.collect-host'' ''telemetry'' ''next-cycle'' ''high'' ''collect-host-telemetry''
             ''cpu-ram-gpu-vram'' ''Host evidence is missing or too weak for host-aware management.''] else [])
       @ (if hint = lit ''collect-more-host-telemetry'' then
          [decision_action ''daemon.telemetry.expand-host'' ''telemetry'' ''next-cycle'' ''medium'' ''collect-more-host-telemetry''
             ''host-capability-model'' ''The host snapshot exists but does not yet prove a specific gaming-host class.''] else [])
       @ (if memory_pressure_required s host then
          [decision_action ''daemon.memory.tighten-residency'' ''memory'' ''next-cycle'' ''high'' ''tighten-memory-residency-observation''
             ''ram-vram-residency'' ''Runtime or host evidence indicates memory pressure or active memory relief.''] else [])
       @ (if low_residency_required host then
          [decision_action ''daemon.admission.low-residency'' ''memory'' ''next-cycle'' ''medium'' ''prefer-low-residency-and-short-hot-path''
             ''copy-and-upload-admission'' ''Host capability suggests tighter residency and shorter hot-path work.''] else [])
       @ (if supervisor_loop_allowed host final_execution_action then
          [decision_action ''daemon.scheduler.allow-supervisor-loop'' ''scheduler'' ''next-cycle'' ''medium'' ''allow-daemon-supervisor-loop''
             ''runtime-supervisor'' ''Host and supervisor evidence allow the daemon to continue the advisory supervisor loop.''] else [])
       @ (if gpu_telemetry_required host then
          [decision_action ''daemon.gpu.collect-telemetry'' ''gpu'' ''next-cycle'' ''medium'' ''collect-gpu-telemetry-before-gpu-specific-actions''
             ''gpu-vram-queues'' ''GPU-specific management should wait for better GPU and VRAM telemetry.''] else [])
       @ (if 0 < blocked then
          [decision_action ''daemon.safety.hold-blocking-commands'' ''safety'' ''next-cycle'' ''high'' ''hold-blocking-supervisor-commands''
             ''runtime-supervisor-execution''
             ''The supervisor dry-run marked commands as blocking, so the daemon should not promote them.''] else []))"

definition daemon_actions :: "runtime_state \<Rightarrow> host_snapshot option \<Rightarrow> pystr \<Rightarrow> nat \<Rightarrow> daemon_action list" where
  "daemon_actions s host final_execution_action blocked =
    (let as = decided_actions s host final_execution_action blocked
     in if as = [] then
          [decision_action ''daemon.scheduler.preserve-loop'' ''scheduler'' ''next-cycle'' ''low'' ''preserve-observed-daemon-loop''
             ''runtime-daemon'' ''No host or supervisor pressure requires a posture change.'']
        else as)"

definition build_runtime_daemon_decision_plan ::
    "runtime_state \<Rightarrow> host_snapshot option \<Rightarrow> pystr \<Rightarrow> pystr \<Rightarrow> nat \<Rightarrow> decision_plan" where
  "build_runtime_daemon_decision_plan s host final_execution_action final_supervisor_action blocked =
    (let as = daemon_actions s host final_execution_action blocked;
         confidence = (case host of None \<Rightarrow> lit ''low'' | Some h \<Rightarrow> hs_telemetry_confidence h)
     in \<lparr>dl_mode = lit ''runtime-daemon-decision-plan-v0.48'', dl_dry_run = True, dl_would_modify_system = False,
       dl_execution_guard = lit ''advisory-only'',
       dl_source_host_profile = (case host of None \<Rightarrow> lit ''unknown-host'' | Some h \<Rightarrow> hs_host_profile h),
       dl_source_host_manager_hint = (case host of None \<Rightarrow> lit ''collect-host-telemetry'' | Some h \<Rightarrow> hs_manager_hint h),
       dl_source_execution_action = final_execution_action, dl_source_supervisor_action = final_supervisor_action,
       dl_source_state_digest = sa_state_digest s, dl_decision_action = plan_decision_action as,
       dl_risk_level = plan_risk_level as, dl_confidence = plan_confidence confidence as, dl_action_count = length as,
       dl_scheduler_action_count = count_action_domain as ''scheduler'', dl_memory_action_count = count_action_domain as ''memory'',
       dl_gpu_action_count = count_action_domain as ''gpu'', dl_telemetry_action_count = count_action_domain as ''telemetry'',
       dl_safety_action_count = count_action_domain as ''safety'', dl_actions = as\<rparr>)"

section \<open>Queue\<close>

record queued_action =
  qa_queue_id :: pystr
  qa_source_action_id :: pystr
  qa_domain :: pystr
  qa_backend :: pystr
  qa_phase :: pystr
  qa_priority :: pystr
  qa_dry_run_status :: pystr
  qa_would_apply :: bool
  qa_would_modify_system :: bool
  qa_requires_native_backend :: bool
  qa_requires_privilege :: bool
  qa_target :: pystr
  qa_operation :: pystr
  qa_expected_signal :: pystr
  qa_safety_boundary :: pystr
  qa_reason :: pystr

definition queued_action_to_dict :: "queued_action \<Rightarrow> pyval" where
  "queued_action_to_dict x = PDict
    [(lit ''queue_id'', PStr (qa_queue_id x)), (lit ''source_action_id'', PStr (qa_source_action_id x)),
     (lit ''domain'', PStr (qa_domain x)), (lit ''backend'', PStr (qa_backend x)), (lit ''phase'', PStr (qa_phase x)),
     (lit ''priority'', PStr (qa_priority x)), (lit ''dry_run_status'', PStr (qa_dry_run_status x)),
     (lit ''would_apply'', PBool (qa_would_apply x)), (lit ''would_modify_system'', PBool (qa_would_modify_system x)),
     (lit ''requires_native_backend'', PBool (qa_requires_native_backend x)),
     (lit ''requires_privilege'', PBool (qa_requires_privilege x)), (lit ''target'', PStr (qa_target x)),
     (lit ''operation'', PStr (qa_operation x)), (lit ''expected_signal'', PStr (qa_expected_signal x)),
     (lit ''safety_boundary'', PStr (qa_safety_boundary x)), (lit ''reason'', PStr (qa_reason x))]"

record action_queue =
  aq_mode :: pystr
  aq_dry_run :: bool
  aq_would_modify_system :: bool
  aq_execution_guard :: pystr
  aq_source_decision_action :: pystr
  aq_source_risk_level :: pystr
  aq_queue_policy :: pystr
  aq_queued_action_count :: nat
  aq_would_apply_count :: nat
  aq_blocked_action_count :: nat
  aq_native_backend_required_count :: nat
  aq_privileged_action_count :: nat
  aq_telemetry_action_count :: nat
  aq_scheduler_action_count :: nat
  aq_memory_action_count :: nat
  aq_gpu_action_count :: nat
  aq_safety_action_count :: nat
  aq_actions :: "queued_action list"

definition action_queue_to_dict :: "action_queue \<Rightarrow> pyval" where
  "action_queue_to_dict x = PDict
    [(lit ''mode'', PStr (aq_mode x)), (lit ''dry_run'', PBool (aq_dry_run x)),
     (lit ''would_modify_system'', PBool (aq_would_modify_system x)), (lit ''execution_guard'', PStr (aq_execution_guard x)),
     (lit ''source_decision_action'', PStr (aq_source_decision_action x)),
     (lit ''source_risk_level'', PStr (aq_source_risk_level x)), (lit ''queue_policy'', PStr (aq_queue_policy x)),
     (lit ''queued_action_count'', PInt (int (aq_queued_action_count x))),
     (lit ''would_apply_count'', PInt (int (aq_would_apply_count x))),
     (lit ''blocked_action_count'', PInt (int (aq_blocked_action_count x))),
     (lit ''native_backend_required_count'', PInt (int (aq_native_backend_required_count x))),
     (lit ''privileged_action_count'', PInt (int (aq_privileged_action_count x))),
     (lit ''telemetry_action_count'', PInt (int (aq_telemetry_action_count x))),
     (lit ''scheduler_action_count'', PInt (int (aq_scheduler_action_count x))),
     (lit ''memory_action_count'', PInt (int (aq_memory_action_count x))),
     (lit ''gpu_action_count'', PInt (int (aq_gpu_action_count x))),
     (lit ''safety_action_count'', PInt (int (aq_safety_action_count x))),
     (lit ''actions'', PList (map queued_action_to_dict (aq_actions x)))]"

record action_shape =
  ah_backend :: pystr
  ah_operation :: pystr
  ah_expected_signal :: pystr
  ah_dry_run_status :: pystr
  ah_blocked :: bool
  ah_requires_native_backend :: bool
  ah_requires_privilege :: bool
  ah_safety_boundary :: pystr

definition readonly_shape :: "string \<Rightarrow> string \<Rightarrow> string \<Rightarrow> action_shape" where
  "readonly_shape backend operation signal =
    \<lparr>ah_backend = lit backend, ah_operation = lit operation, ah_expected_signal = lit signal,
     ah_dry_run_status = lit ''would-apply-readonly'', ah_blocked = False, ah_requires_native_backend = False,
     ah_requires_privilege = False, ah_safety_boundary = lit ''read-only-host-probe''\<rparr>"

definition advisory_shape :: "string \<Rightarrow> pystr \<Rightarrow> string \<Rightarrow> action_shape" where
  "advisory_shape backend operation signal =
    \<lparr>ah_backend = lit backend, ah_operation = operation, ah_expected_signal = lit signal,
     ah_dry_run_status = lit ''would-apply-advisory'', ah_blocked = False, ah_requires_native_backend = False,
     ah_requires_privilege = False, ah_safety_boundary = lit ''advisory-only''\<rparr>"

definition native_blocked_shape :: "string \<Rightarrow> pystr \<Rightarrow> string \<Rightarrow> action_shape" where
  "native_blocked_shape backend operation signal =
    \<lparr>ah_backend = lit backend, ah_operation = operation, ah_expected_signal = lit signal,
     ah_dry_run_status = lit ''blocked-native-backend-required'', ah_blocked = True, ah_requires_native_backend = True,
     ah_requires_privilege = True, ah_safety_boundary = lit ''blocked-before-system-mutation''\<rparr>"

definition shape_of_action :: "pystr \<Rightarrow> action_shape" where
  "shape_of_action a =
    (if a = lit ''collect-host-telemetry''
       then readonly_shape ''host-telemetry-probe'' ''probe-host-capabilities'' ''updated-host-snapshot''
     else if a = lit ''collect-more-host-telemetry''
       then readonly_shape ''host-telemetry-probe'' ''probe-extended-host-capabilities'' ''expanded-host-snapshot''
     else if a = lit ''collect-gpu-telemetry-before-gpu-specific-actions''
       then readonly_shape ''gpu-telemetry-probe'' ''probe-gpu-vram-and-queue-signals'' ''updated-gpu-telemetry''
     else if a = lit ''allow-daemon-supervisor-loop''
       then advisory_shape ''advisory-supervisor-loop'' (lit ''continue-supervisor-loop'') ''next-daemon-cycle''
     else if a = lit ''preserve-observed-daemon-loop''
       then advisory_shape ''advisory-daemon-loop'' (lit ''preserve-current-loop'') ''next-daemon-cycle''
     else if a = lit ''hold-blocking-supervisor-commands''
       then advisory_shape ''safety-gate'' (lit ''hold-blocking-commands'') ''blocked-command-report''
     else if a \<in> {lit ''tighten-memory-residency-observation'', lit ''prefer-low-residency-and-short-hot-path''}
       then native_blocked_shape ''native-memory-adapter'' a ''native-memory-backend-required''
     else advisory_shape ''advisory-daemon-loop'' a ''queued-advisory-action'')"

text \<open>\<^verbatim>\<open>f"{index:03d}"\<close> for an index that is not negative.\<close>

definition index3 :: "nat \<Rightarrow> pystr" where
  "index3 n = (let t = show_int (int n) in concat (replicate (3 - length t) (lit ''0'')) @ t)"

definition queued_action_from_decision :: "nat \<Rightarrow> daemon_action \<Rightarrow> queued_action" where
  "queued_action_from_decision index a =
    (let shape = shape_of_action (da_action a)
     in \<lparr>qa_queue_id = lit ''daemon.queue.'' @ index3 index, qa_source_action_id = da_action_id a, qa_domain = da_domain a,
       qa_backend = ah_backend shape, qa_phase = da_phase a, qa_priority = da_priority a,
       qa_dry_run_status = ah_dry_run_status shape, qa_would_apply = (\<not> ah_blocked shape), qa_would_modify_system = False,
       qa_requires_native_backend = ah_requires_native_backend shape, qa_requires_privilege = ah_requires_privilege shape,
       qa_target = da_target a, qa_operation = ah_operation shape, qa_expected_signal = ah_expected_signal shape,
       qa_safety_boundary = ah_safety_boundary shape, qa_reason = da_reason a\<rparr>)"

definition count_queued_domain :: "queued_action list \<Rightarrow> string \<Rightarrow> nat" where
  "count_queued_domain as domain = count_if (\<lambda>a. qa_domain a = lit domain) as"

definition action_queue_policy :: "queued_action list \<Rightarrow> nat \<Rightarrow> pystr" where
  "action_queue_policy as blocked =
    (if \<exists>a \<in> set as. qa_domain a = lit ''safety'' then lit ''hold-native-promotion''
     else if blocked \<noteq> 0 then lit ''queue-native-backend-work''
     else if \<exists>a \<in> set as. qa_domain a = lit ''telemetry'' then lit ''run-readonly-telemetry-before-native-work''
     else if \<exists>a \<in> set as. qa_domain a = lit ''scheduler'' then lit ''continue-advisory-loop''
     else lit ''observe-only'')"

definition build_runtime_daemon_action_queue :: "decision_plan \<Rightarrow> action_queue" where
  "build_runtime_daemon_action_queue p =
    (let as = number_with queued_action_from_decision (dl_actions p); blocked = count_if (\<lambda>a. \<not> qa_would_apply a) as
     in \<lparr>aq_mode = lit ''runtime-daemon-action-queue-v0.49'', aq_dry_run = True, aq_would_modify_system = False,
       aq_execution_guard = lit ''advisory-only'', aq_source_decision_action = dl_decision_action p,
       aq_source_risk_level = dl_risk_level p, aq_queue_policy = action_queue_policy as blocked,
       aq_queued_action_count = length as, aq_would_apply_count = count_if qa_would_apply as, aq_blocked_action_count = blocked,
       aq_native_backend_required_count = count_if qa_requires_native_backend as,
       aq_privileged_action_count = count_if qa_requires_privilege as,
       aq_telemetry_action_count = count_queued_domain as ''telemetry'', aq_scheduler_action_count = count_queued_domain as ''scheduler'',
       aq_memory_action_count = count_queued_domain as ''memory'', aq_gpu_action_count = count_queued_domain as ''gpu'',
       aq_safety_action_count = count_queued_domain as ''safety'', aq_actions = as\<rparr>)"

section \<open>Dry run of the queue\<close>

record action_result =
  ar_queue_id :: pystr
  ar_source_action_id :: pystr
  ar_domain :: pystr
  ar_backend :: pystr
  ar_operation :: pystr
  ar_execution_status :: pystr
  ar_dry_run :: bool
  ar_would_modify_system :: bool
  ar_blocked :: bool
  ar_observed_signal :: pystr
  ar_safety_boundary :: pystr
  ar_reason :: pystr

definition action_result_to_dict :: "action_result \<Rightarrow> pyval" where
  "action_result_to_dict x = PDict
    [(lit ''queue_id'', PStr (ar_queue_id x)), (lit ''source_action_id'', PStr (ar_source_action_id x)),
     (lit ''domain'', PStr (ar_domain x)), (lit ''backend'', PStr (ar_backend x)), (lit ''operation'', PStr (ar_operation x)),
     (lit ''execution_status'', PStr (ar_execution_status x)), (lit ''dry_run'', PBool (ar_dry_run x)),
     (lit ''would_modify_system'', PBool (ar_would_modify_system x)), (lit ''blocked'', PBool (ar_blocked x)),
     (lit ''observed_signal'', PStr (ar_observed_signal x)), (lit ''safety_boundary'', PStr (ar_safety_boundary x)),
     (lit ''reason'', PStr (ar_reason x))]"

record action_execution =
  ae_mode :: pystr
  ae_dry_run :: bool
  ae_would_modify_system :: bool
  ae_execution_guard :: pystr
  ae_source_queue_policy :: pystr
  ae_execution_policy :: pystr
  ae_action_count :: nat
  ae_executed_readonly_count :: nat
  ae_executed_advisory_count :: nat
  ae_blocked_native_count :: nat
  ae_blocked_privileged_count :: nat
  ae_blocked_count :: nat
  ae_telemetry_execution_count :: nat
  ae_scheduler_execution_count :: nat
  ae_memory_execution_count :: nat
  ae_gpu_execution_count :: nat
  ae_safety_execution_count :: nat
  ae_results :: "action_result list"

definition action_execution_to_dict :: "action_execution \<Rightarrow> pyval" where
  "action_execution_to_dict x = PDict
    [(lit ''mode'', PStr (ae_mode x)), (lit ''dry_run'', PBool (ae_dry_run x)),
     (lit ''would_modify_system'', PBool (ae_would_modify_system x)), (lit ''execution_guard'', PStr (ae_execution_guard x)),
     (lit ''source_queue_policy'', PStr (ae_source_queue_policy x)), (lit ''execution_policy'', PStr (ae_execution_policy x)),
     (lit ''action_count'', PInt (int (ae_action_count x))),
     (lit ''executed_readonly_count'', PInt (int (ae_executed_readonly_count x))),
     (lit ''executed_advisory_count'', PInt (int (ae_executed_advisory_count x))),
     (lit ''blocked_native_count'', PInt (int (ae_blocked_native_count x))),
     (lit ''blocked_privileged_count'', PInt (int (ae_blocked_privileged_count x))),
     (lit ''blocked_count'', PInt (int (ae_blocked_count x))),
     (lit ''telemetry_execution_count'', PInt (int (ae_telemetry_execution_count x))),
     (lit ''scheduler_execution_count'', PInt (int (ae_scheduler_execution_count x))),
     (lit ''memory_execution_count'', PInt (int (ae_memory_execution_count x))),
     (lit ''gpu_execution_count'', PInt (int (ae_gpu_execution_count x))),
     (lit ''safety_execution_count'', PInt (int (ae_safety_execution_count x))),
     (lit ''results'', PList (map action_result_to_dict (ae_results x)))]"

definition action_execution_status :: "queued_action \<Rightarrow> bool \<Rightarrow> pystr" where
  "action_execution_status a blocked =
    (if blocked then
       (if qa_requires_native_backend a \<and> qa_requires_privilege a then lit ''blocked-privileged-native-backend-required''
        else if qa_requires_native_backend a then lit ''blocked-native-backend-required''
        else if qa_requires_privilege a then lit ''blocked-privilege-required''
        else lit ''blocked-by-action-queue'')
     else if qa_dry_run_status a = lit ''would-apply-readonly'' then lit ''executed-readonly-dry-run''
     else lit ''executed-advisory-dry-run'')"

definition action_execution_reason :: "queued_action \<Rightarrow> bool \<Rightarrow> pystr" where
  "action_execution_reason a blocked =
    (if blocked then lit ''Execution held by advisory-only guard before any system mutation: ''
     else if qa_dry_run_status a = lit ''would-apply-readonly'' then lit ''Read-only probe evaluated by dry-run executor: ''
     else lit ''Advisory action evaluated by dry-run executor: '') @ qa_reason a"

definition dry_run_runtime_daemon_action :: "queued_action \<Rightarrow> action_result" where
  "dry_run_runtime_daemon_action a =
    (let blocked = (\<not> qa_would_apply a \<or> qa_requires_native_backend a \<or> qa_requires_privilege a)
     in \<lparr>ar_queue_id = qa_queue_id a, ar_source_action_id = qa_source_action_id a, ar_domain = qa_domain a,
       ar_backend = qa_backend a, ar_operation = qa_operation a, ar_execution_status = action_execution_status a blocked,
       ar_dry_run = True, ar_would_modify_system = False, ar_blocked = blocked, ar_observed_signal = qa_expected_signal a,
       ar_safety_boundary = qa_safety_boundary a, ar_reason = action_execution_reason a blocked\<rparr>)"

definition action_execution_policy :: "nat \<Rightarrow> nat \<Rightarrow> nat \<Rightarrow> pystr" where
  "action_execution_policy readonly advisory native =
    (if native \<noteq> 0 then lit ''hold-native-backend-actions'' else if readonly \<noteq> 0 then lit ''execute-readonly-telemetry''
     else if advisory \<noteq> 0 then lit ''execute-advisory-loop'' else lit ''observe-only'')"

definition count_action_result :: "action_result list \<Rightarrow> string \<Rightarrow> nat" where
  "count_action_result rs status = count_if (\<lambda>r. ar_execution_status r = lit status) rs"

definition count_executed_domain :: "action_result list \<Rightarrow> string \<Rightarrow> nat" where
  "count_executed_domain rs domain = count_if (\<lambda>r. ar_domain r = lit domain \<and> \<not> ar_blocked r) rs"

definition dry_run_runtime_daemon_action_queue :: "action_queue \<Rightarrow> action_execution" where
  "dry_run_runtime_daemon_action_queue q =
    (let rs = map dry_run_runtime_daemon_action (aq_actions q);
         readonly = count_action_result rs ''executed-readonly-dry-run''; advisory = count_action_result rs ''executed-advisory-dry-run'';
         native = count_if (\<lambda>(a, r). ar_blocked r \<and> qa_requires_native_backend a) (zip (aq_actions q) rs)
     in \<lparr>ae_mode = lit ''runtime-daemon-action-execution-v0.50'', ae_dry_run = True, ae_would_modify_system = False,
       ae_execution_guard = lit ''advisory-only'', ae_source_queue_policy = aq_queue_policy q,
       ae_execution_policy = action_execution_policy readonly advisory native, ae_action_count = length rs,
       ae_executed_readonly_count = readonly, ae_executed_advisory_count = advisory, ae_blocked_native_count = native,
       ae_blocked_privileged_count = count_if (\<lambda>(a, r). ar_blocked r \<and> qa_requires_privilege a) (zip (aq_actions q) rs),
       ae_blocked_count = count_if ar_blocked rs, ae_telemetry_execution_count = count_executed_domain rs ''telemetry'',
       ae_scheduler_execution_count = count_executed_domain rs ''scheduler'',
       ae_memory_execution_count = count_executed_domain rs ''memory'', ae_gpu_execution_count = count_executed_domain rs ''gpu'',
       ae_safety_execution_count = count_executed_domain rs ''safety'', ae_results = rs\<rparr>)"

section \<open>Continuing the loop\<close>

lemma decided_loop:
  assumes "a \<in> set (daemon_actions s host x n)" and "da_action a = lit ''allow-daemon-supervisor-loop''"
  shows "supervisor_loop_allowed host x"
proof -
  have "a \<in> set (decided_actions s host x n)"
    using assms by (auto simp: daemon_actions_def decision_action_def Let_def split: if_split_asm)
  then show ?thesis using assms(2)
    unfolding decided_actions_def Let_def by (auto simp: decision_action_def split: if_split_asm)
qed

text \<open>Commands that block are a safety matter, which comes before everything else in the decision.\<close>

lemma continue_unblocked:
  assumes "dl_decision_action (build_runtime_daemon_decision_plan s host x y n) = lit ''continue-host-aware-supervisor-loop''"
  shows "n = 0"
proof (rule ccontr)
  assume "n \<noteq> 0"
  then have "\<exists>a \<in> set (daemon_actions s host x n). da_domain a = lit ''safety''"
    by (auto simp: daemon_actions_def decided_actions_def decision_action_def Let_def)
  then show False using assms by (simp add: build_runtime_daemon_decision_plan_def plan_decision_action_def Let_def)
qed

definition demo_host :: host_probe where
  "demo_host = \<lparr>hp_os_name = [], hp_os_release = [], hp_os_version = [], hp_machine = [], hp_processor = [], hp_python_version = [],
     hp_cpu_logical_count = Some 8, hp_total_ram_mb = Some (Fin 32768), hp_available_ram_mb = Some (Fin 24576),
     hp_gpus = [\<lparr>hg_name = [], hg_adapter_ram_mb = Some (Fin 8192), hg_driver_version = None, hg_source = []\<rparr>],
     hp_capture_errors = []\<rparr>"

lemma demo_hint: "hs_manager_hint (build_host_capability_snapshot demo_host) = lit ''allow-daemon-supervisor-loop''"
proof -
  have "classify_ram_pressure (calculate_ram_pressure_pct (Some (Fin 32768)) (Some (Fin 24576))) = lit ''low-pressure''"
    "classify_cpu (Some 8) = lit ''balanced-cpu''" "classify_ram (Some (Fin 32768)) = lit ''high-capacity-ram''"
    "classify_gpu (Some (Fin 8192)) 1 = lit ''balanced-vram-gpu''" "fmax_or_none [Fin 8192] = Some (Fin 8192)" by code_simp+
  then show ?thesis
    by (simp add: build_host_capability_snapshot_def demo_host_def Let_def List.map_filter_def
      classify_host_profile_def manager_hint_for_profile_def)
qed

end
