(* ===== verification/Daemon_Control.thy ===== *)
theory Daemon_Control
  imports Daemon_Decision
begin

text \<open>
  The preflight of the queued actions (\<^verbatim>\<open>src/fluidgateway/native_backend.py\<close>), the arbitration of the
  decided actions into lanes (\<^verbatim>\<open>daemon_arbitration.py\<close>), the control intents of the lanes
  (\<^verbatim>\<open>daemon_control.py\<close>) and their dry run (\<^verbatim>\<open>daemon_control_execution.py\<close>).
\<close>

section \<open>Preflight\<close>

record backend_capability =
  bc_capability_id :: pystr
  bc_domain :: pystr
  bc_backend :: pystr
  bc_required_interface :: pystr
  bc_capability_status :: pystr
  bc_available_now :: bool
  bc_requires_native_backend :: bool
  bc_requires_privilege :: bool
  bc_requires_safety_review :: bool
  bc_native_promotion_allowed :: bool
  bc_reason :: pystr

definition backend_capability_to_dict :: "backend_capability \<Rightarrow> pyval" where
  "backend_capability_to_dict x = PDict
    [(lit ''capability_id'', PStr (bc_capability_id x)), (lit ''domain'', PStr (bc_domain x)),
     (lit ''backend'', PStr (bc_backend x)), (lit ''required_interface'', PStr (bc_required_interface x)),
     (lit ''capability_status'', PStr (bc_capability_status x)), (lit ''available_now'', PBool (bc_available_now x)),
     (lit ''requires_native_backend'', PBool (bc_requires_native_backend x)),
     (lit ''requires_privilege'', PBool (bc_requires_privilege x)),
     (lit ''requires_safety_review'', PBool (bc_requires_safety_review x)),
     (lit ''native_promotion_allowed'', PBool (bc_native_promotion_allowed x)), (lit ''reason'', PStr (bc_reason x))]"

record backend_requirement =
  br_queue_id :: pystr
  br_source_action_id :: pystr
  br_domain :: pystr
  br_backend :: pystr
  br_operation :: pystr
  br_required_capability :: pystr
  br_preflight_status :: pystr
  br_can_execute_now :: bool
  br_can_promote_to_native :: bool
  br_blocked_by :: "pystr list"
  br_requires_native_backend :: bool
  br_requires_privilege :: bool
  br_requires_safety_review :: bool
  br_would_modify_system :: bool
  br_safety_boundary :: pystr
  br_expected_signal :: pystr
  br_execution_status :: pystr
  br_reason :: pystr

definition backend_requirement_to_dict :: "backend_requirement \<Rightarrow> pyval" where
  "backend_requirement_to_dict x = PDict
    [(lit ''queue_id'', PStr (br_queue_id x)), (lit ''source_action_id'', PStr (br_source_action_id x)),
     (lit ''domain'', PStr (br_domain x)), (lit ''backend'', PStr (br_backend x)), (lit ''operation'', PStr (br_operation x)),
     (lit ''required_capability'', PStr (br_required_capability x)), (lit ''preflight_status'', PStr (br_preflight_status x)),
     (lit ''can_execute_now'', PBool (br_can_execute_now x)),
     (lit ''can_promote_to_native'', PBool (br_can_promote_to_native x)), (lit ''blocked_by'', str_list (br_blocked_by x)),
     (lit ''requires_native_backend'', PBool (br_requires_native_backend x)),
     (lit ''requires_privilege'', PBool (br_requires_privilege x)),
     (lit ''requires_safety_review'', PBool (br_requires_safety_review x)),
     (lit ''would_modify_system'', PBool (br_would_modify_system x)), (lit ''safety_boundary'', PStr (br_safety_boundary x)),
     (lit ''expected_signal'', PStr (br_expected_signal x)), (lit ''execution_status'', PStr (br_execution_status x)),
     (lit ''reason'', PStr (br_reason x))]"

record backend_preflight =
  bp_mode :: pystr
  bp_dry_run :: bool
  bp_would_modify_system :: bool
  bp_execution_guard :: pystr
  bp_native_promotion_allowed :: bool
  bp_source_queue_policy :: pystr
  bp_source_execution_policy :: pystr
  bp_backend_policy :: pystr
  bp_requirement_count :: nat
  bp_advisory_safe_count :: nat
  bp_blocked_requirement_count :: nat
  bp_missing_native_backend_count :: nat
  bp_privilege_required_count :: nat
  bp_safety_review_required_count :: nat
  bp_telemetry_requirement_count :: nat
  bp_scheduler_requirement_count :: nat
  bp_memory_requirement_count :: nat
  bp_gpu_requirement_count :: nat
  bp_safety_requirement_count :: nat
  bp_capabilities :: "backend_capability list"
  bp_requirements :: "backend_requirement list"

definition backend_preflight_to_dict :: "backend_preflight \<Rightarrow> pyval" where
  "backend_preflight_to_dict x = PDict
    [(lit ''mode'', PStr (bp_mode x)), (lit ''dry_run'', PBool (bp_dry_run x)),
     (lit ''would_modify_system'', PBool (bp_would_modify_system x)), (lit ''execution_guard'', PStr (bp_execution_guard x)),
     (lit ''native_promotion_allowed'', PBool (bp_native_promotion_allowed x)),
     (lit ''source_queue_policy'', PStr (bp_source_queue_policy x)),
     (lit ''source_execution_policy'', PStr (bp_source_execution_policy x)),
     (lit ''backend_policy'', PStr (bp_backend_policy x)), (lit ''requirement_count'', PInt (int (bp_requirement_count x))),
     (lit ''advisory_safe_count'', PInt (int (bp_advisory_safe_count x))),
     (lit ''blocked_requirement_count'', PInt (int (bp_blocked_requirement_count x))),
     (lit ''missing_native_backend_count'', PInt (int (bp_missing_native_backend_count x))),
     (lit ''privilege_required_count'', PInt (int (bp_privilege_required_count x))),
     (lit ''safety_review_required_count'', PInt (int (bp_safety_review_required_count x))),
     (lit ''telemetry_requirement_count'', PInt (int (bp_telemetry_requirement_count x))),
     (lit ''scheduler_requirement_count'', PInt (int (bp_scheduler_requirement_count x))),
     (lit ''memory_requirement_count'', PInt (int (bp_memory_requirement_count x))),
     (lit ''gpu_requirement_count'', PInt (int (bp_gpu_requirement_count x))),
     (lit ''safety_requirement_count'', PInt (int (bp_safety_requirement_count x))),
     (lit ''capabilities'', PList (map backend_capability_to_dict (bp_capabilities x))),
     (lit ''requirements'', PList (map backend_requirement_to_dict (bp_requirements x)))]"

definition required_interface :: "queued_action \<Rightarrow> pystr" where
  "required_interface a =
    (if qa_requires_native_backend a then lit ''native-host-control-backend''
     else if qa_dry_run_status a = lit ''would-apply-readonly'' then lit ''python-stdlib-readonly-probe''
     else lit ''daemon-advisory-loop'')"

definition capability_status :: "queued_action \<Rightarrow> pystr" where
  "capability_status a =
    (if qa_requires_native_backend a \<and> qa_requires_privilege a then lit ''missing-privileged-native-backend''
     else if qa_requires_native_backend a then lit ''missing-native-backend''
     else if qa_dry_run_status a = lit ''would-apply-readonly'' then lit ''available-readonly-dry-run''
     else lit ''available-advisory-dry-run'')"

definition capability_reason :: "queued_action \<Rightarrow> bool \<Rightarrow> pystr" where
  "capability_reason a review =
    (if review then lit ''Native host control is not implemented in v0.51; capability is blocked until a backend and safety review exist.''
     else if qa_dry_run_status a = lit ''would-apply-readonly''
       then lit ''Read-only capability can be evaluated by the Python dry-run loop.''
     else lit ''Advisory capability can be evaluated without mutating the host.'')"

definition capability_from_action :: "queued_action \<Rightarrow> backend_capability" where
  "capability_from_action a =
    (let review = (qa_requires_native_backend a \<or> qa_requires_privilege a \<or> qa_would_modify_system a)
     in \<lparr>bc_capability_id = qa_domain a @ lit '':'' @ qa_backend a, bc_domain = qa_domain a, bc_backend = qa_backend a,
       bc_required_interface = required_interface a, bc_capability_status = capability_status a, bc_available_now = (\<not> review),
       bc_requires_native_backend = qa_requires_native_backend a, bc_requires_privilege = qa_requires_privilege a,
       bc_requires_safety_review = review, bc_native_promotion_allowed = False, bc_reason = capability_reason a review\<rparr>)"

definition preflight_blockers :: "queued_action \<Rightarrow> pystr list" where
  "preflight_blockers a =
    (if qa_would_apply a then [] else [lit ''action-queue''])
    @ (if qa_requires_native_backend a then [lit ''native-backend''] else [])
    @ (if qa_requires_privilege a then [lit ''privilege''] else [])
    @ (if qa_requires_native_backend a \<or> qa_requires_privilege a then [lit ''safety-review''] else [])"

definition preflight_status :: "queued_action \<Rightarrow> pystr list \<Rightarrow> pystr" where
  "preflight_status a blocked_by =
    (if blocked_by \<noteq> [] then
       (if lit ''native-backend'' \<in> set blocked_by \<and> lit ''privilege'' \<in> set blocked_by
          then lit ''blocked-privileged-native-backend-required''
        else if lit ''native-backend'' \<in> set blocked_by then lit ''blocked-native-backend-required''
        else lit ''blocked-by-advisory-guard'')
     else if qa_dry_run_status a = lit ''would-apply-readonly'' then lit ''passed-readonly-dry-run''
     else lit ''passed-advisory-dry-run'')"

definition preflight_reason :: "queued_action \<Rightarrow> pystr list \<Rightarrow> pystr" where
  "preflight_reason a blocked_by =
    (if blocked_by \<noteq> [] then
       lit ''Native promotion denied by preflight blockers ['' @ join_text (lit '', '') blocked_by @ lit '']: '' @ qa_reason a
     else if qa_dry_run_status a = lit ''would-apply-readonly'' then lit ''Read-only dry-run requirement satisfied: '' @ qa_reason a
     else lit ''Advisory dry-run requirement satisfied: '' @ qa_reason a)"

definition preflight_execution_status :: "action_result option \<Rightarrow> pystr" where
  "preflight_execution_status r = (case r of None \<Rightarrow> lit ''missing-execution-result'' | Some x \<Rightarrow> ar_execution_status x)"

definition requirement_from_action :: "queued_action \<Rightarrow> action_result option \<Rightarrow> backend_requirement" where
  "requirement_from_action a r =
    (let blocked_by = preflight_blockers a
     in \<lparr>br_queue_id = qa_queue_id a, br_source_action_id = qa_source_action_id a, br_domain = qa_domain a, br_backend = qa_backend a,
       br_operation = qa_operation a, br_required_capability = qa_domain a @ lit '':'' @ qa_backend a,
       br_preflight_status = preflight_status a blocked_by, br_can_execute_now = (blocked_by = []),
       br_can_promote_to_native = False, br_blocked_by = blocked_by,
       br_requires_native_backend = qa_requires_native_backend a, br_requires_privilege = qa_requires_privilege a,
       br_requires_safety_review = (blocked_by \<noteq> []), br_would_modify_system = False, br_safety_boundary = qa_safety_boundary a,
       br_expected_signal = qa_expected_signal a, br_execution_status = preflight_execution_status r,
       br_reason = preflight_reason a blocked_by\<rparr>)"

definition backend_policy :: "nat \<Rightarrow> nat \<Rightarrow> pystr" where
  "backend_policy blocked missing =
    (if missing \<noteq> 0 then lit ''hold-native-backend-promotion'' else if blocked \<noteq> 0 then lit ''hold-advisory-guard''
     else lit ''advisory-preflight-passed'')"

definition count_requirement_domain :: "backend_requirement list \<Rightarrow> string \<Rightarrow> nat" where
  "count_requirement_domain rs domain = count_if (\<lambda>r. br_domain r = lit domain) rs"

text \<open>A dictionary built from a list keeps the last entry of a key.\<close>

definition last_by :: "('a \<Rightarrow> 'k) \<Rightarrow> 'a list \<Rightarrow> 'k \<Rightarrow> 'a option" where
  "last_by key xs = map_of (rev (map (\<lambda>x. (key x, x)) xs))"

definition build_runtime_native_backend_preflight :: "action_queue \<Rightarrow> action_execution \<Rightarrow> backend_preflight" where
  "build_runtime_native_backend_preflight q e =
    (let executed = last_by ar_queue_id (ae_results e);
         rs = map (\<lambda>a. requirement_from_action a (executed (qa_queue_id a))) (aq_actions q);
         blocked = count_if (\<lambda>r. \<not> br_can_execute_now r) rs; missing = count_if br_requires_native_backend rs
     in \<lparr>bp_mode = lit ''runtime-native-backend-preflight-v0.51'', bp_dry_run = True, bp_would_modify_system = False,
       bp_execution_guard = lit ''advisory-only'', bp_native_promotion_allowed = False, bp_source_queue_policy = aq_queue_policy q,
       bp_source_execution_policy = ae_execution_policy e, bp_backend_policy = backend_policy blocked missing,
       bp_requirement_count = length rs, bp_advisory_safe_count = count_if br_can_execute_now rs,
       bp_blocked_requirement_count = blocked, bp_missing_native_backend_count = missing,
       bp_privilege_required_count = count_if br_requires_privilege rs,
       bp_safety_review_required_count = count_if br_requires_safety_review rs,
       bp_telemetry_requirement_count = count_requirement_domain rs ''telemetry'',
       bp_scheduler_requirement_count = count_requirement_domain rs ''scheduler'',
       bp_memory_requirement_count = count_requirement_domain rs ''memory'', bp_gpu_requirement_count = count_requirement_domain rs ''gpu'',
       bp_safety_requirement_count = count_requirement_domain rs ''safety'',
       bp_capabilities = map capability_from_action (aq_actions q), bp_requirements = rs\<rparr>)"

section \<open>Arbitration\<close>

record arbitration_lane =
  al_lane_id :: pystr
  al_source_action_id :: pystr
  al_domain :: pystr
  al_priority :: pystr
  al_target :: pystr
  al_arbitration_action :: pystr
  al_arbitration_status :: pystr
  al_pressure_score :: int
  al_can_execute_now :: bool
  al_native_promotion_allowed :: bool
  al_blocked_by :: "pystr list"
  al_expected_signal :: pystr
  al_reason :: pystr
  al_expected_effect :: pystr

definition arbitration_lane_to_dict :: "arbitration_lane \<Rightarrow> pyval" where
  "arbitration_lane_to_dict x = PDict
    [(lit ''lane_id'', PStr (al_lane_id x)), (lit ''source_action_id'', PStr (al_source_action_id x)),
     (lit ''domain'', PStr (al_domain x)), (lit ''priority'', PStr (al_priority x)), (lit ''target'', PStr (al_target x)),
     (lit ''arbitration_action'', PStr (al_arbitration_action x)),
     (lit ''arbitration_status'', PStr (al_arbitration_status x)), (lit ''pressure_score'', PInt (al_pressure_score x)),
     (lit ''can_execute_now'', PBool (al_can_execute_now x)),
     (lit ''native_promotion_allowed'', PBool (al_native_promotion_allowed x)),
     (lit ''blocked_by'', str_list (al_blocked_by x)), (lit ''expected_signal'', PStr (al_expected_signal x)),
     (lit ''reason'', PStr (al_reason x)), (lit ''expected_effect'', PStr (al_expected_effect x))]"

record daemon_arbitration =
  an_mode :: pystr
  an_dry_run :: bool
  an_would_modify_system :: bool
  an_execution_guard :: pystr
  an_source_state_profile :: pystr
  an_source_policy_action :: pystr
  an_source_execution_policy :: pystr
  an_source_backend_policy :: pystr
  an_pressure_score :: int
  an_arbitration_policy :: pystr
  an_lane_count :: nat
  an_executable_lane_count :: nat
  an_blocked_lane_count :: nat
  an_native_promotable_lane_count :: nat
  an_telemetry_lane_count :: nat
  an_scheduler_lane_count :: nat
  an_memory_lane_count :: nat
  an_gpu_lane_count :: nat
  an_safety_lane_count :: nat
  an_lanes :: "arbitration_lane list"

definition daemon_arbitration_to_dict :: "daemon_arbitration \<Rightarrow> pyval" where
  "daemon_arbitration_to_dict x = PDict
    [(lit ''mode'', PStr (an_mode x)), (lit ''dry_run'', PBool (an_dry_run x)),
     (lit ''would_modify_system'', PBool (an_would_modify_system x)), (lit ''execution_guard'', PStr (an_execution_guard x)),
     (lit ''source_state_profile'', PStr (an_source_state_profile x)),
     (lit ''source_policy_action'', PStr (an_source_policy_action x)),
     (lit ''source_execution_policy'', PStr (an_source_execution_policy x)),
     (lit ''source_backend_policy'', PStr (an_source_backend_policy x)), (lit ''pressure_score'', PInt (an_pressure_score x)),
     (lit ''arbitration_policy'', PStr (an_arbitration_policy x)), (lit ''lane_count'', PInt (int (an_lane_count x))),
     (lit ''executable_lane_count'', PInt (int (an_executable_lane_count x))),
     (lit ''blocked_lane_count'', PInt (int (an_blocked_lane_count x))),
     (lit ''native_promotable_lane_count'', PInt (int (an_native_promotable_lane_count x))),
     (lit ''telemetry_lane_count'', PInt (int (an_telemetry_lane_count x))),
     (lit ''scheduler_lane_count'', PInt (int (an_scheduler_lane_count x))),
     (lit ''memory_lane_count'', PInt (int (an_memory_lane_count x))),
     (lit ''gpu_lane_count'', PInt (int (an_gpu_lane_count x))),
     (lit ''safety_lane_count'', PInt (int (an_safety_lane_count x))),
     (lit ''lanes'', PList (map arbitration_lane_to_dict (an_lanes x)))]"

text \<open>\<^verbatim>\<open>int(x / 4)\<close> of a float that is not finite raises.\<close>

definition quarter_units :: "pyfloat \<Rightarrow> int res" where
  "quarter_units x = py_int (PFloat (fdiv x 4))"

definition pressure_score :: "runtime_state \<Rightarrow> int res" where
  "pressure_score s =
    ebind (quarter_units (sa_memory_relief_target_mb s)) (\<lambda>relief.
    ebind (quarter_units (sa_memory_headroom_target_mb s)) (\<lambda>headroom.
    let score = (if sa_profile s = lit ''aggressive'' then 30 else 0) + (if sa_drift_risk s = lit ''high'' then 15 else 0)
          + min (sa_active_policy_count s * 5) 20 + min relief 20 + min headroom 20
          + (if fless (sa_hot_path_budget_ms s) (sa_next_frame_budget_ms s) then 5 else 0)
          + (if sa_copy_queue_budget_ms s = Fin 0 \<and> 0 < sa_active_policy_count s then 10 else 0)
    in Inr (min score 100)))"

definition arbitration_policy :: "decision_plan \<Rightarrow> backend_preflight \<Rightarrow> int \<Rightarrow> pystr" where
  "arbitration_policy p b score =
    (if dl_safety_action_count p \<noteq> 0 then lit ''safety-first''
     else if bp_blocked_requirement_count b \<noteq> 0 then lit ''hold-native-and-prioritize-telemetry''
     else if 60 \<le> score then lit ''pressure-recovery''
     else if dl_telemetry_action_count p \<noteq> 0 then lit ''telemetry-first''
     else if dl_scheduler_action_count p \<noteq> 0 then lit ''continue-supervisor-loop'' else lit ''observe'')"

definition requirement_for_action :: "backend_preflight \<Rightarrow> pystr \<Rightarrow> backend_requirement option" where
  "requirement_for_action b action_id = List.find (\<lambda>r. br_source_action_id r = action_id) (bp_requirements b)"

definition lane_action :: "daemon_action \<Rightarrow> pystr list \<Rightarrow> pystr" where
  "lane_action a blocked_by =
    (if blocked_by \<noteq> [] then lit ''hold-native-backend''
     else if da_domain a = lit ''telemetry'' then lit ''collect-evidence-before-control''
     else if da_domain a = lit ''scheduler'' then lit ''continue-advisory-supervisor-loop''
     else if da_domain a = lit ''safety'' then lit ''hold-supervisor-promotion''
     else lit ''continue-advisory-management'')"

definition lane_status :: "daemon_action \<Rightarrow> pystr list \<Rightarrow> pystr" where
  "lane_status a blocked_by =
    (if blocked_by \<noteq> [] then lit ''blocked-by-native-preflight''
     else if da_domain a = lit ''telemetry'' then lit ''read-only-ready'' else lit ''advisory-ready'')"

definition lane_reason :: "daemon_action \<Rightarrow> pystr list \<Rightarrow> pystr" where
  "lane_reason a blocked_by =
    (if blocked_by \<noteq> [] then lit ''Lane is held by preflight blockers ['' @ join_text (lit '', '') blocked_by @ lit '']: '' @ da_reason a
     else da_reason a)"

definition lane_expected_effect :: "daemon_action \<Rightarrow> pystr list \<Rightarrow> pystr" where
  "lane_expected_effect a blocked_by =
    (if blocked_by \<noteq> [] then lit ''Prevent unsafe native promotion while preserving the required backend contract.''
     else if da_domain a = lit ''telemetry'' then lit ''Improve CPU/GPU/RAM/VRAM evidence before deeper management.''
     else if da_domain a = lit ''memory'' then lit ''Prepare RAM/VRAM residency decisions for a future native backend.''
     else if da_domain a = lit ''scheduler'' then lit ''Keep the advisory manager loop moving without host mutation.''
     else if da_domain a = lit ''gpu'' then lit ''Improve GPU and VRAM queue evidence before GPU-specific control.''
     else if da_domain a = lit ''safety'' then lit ''Keep blocking supervisor commands from being promoted.''
     else lit ''Preserve advisory progress while collecting stronger evidence.'')"

definition arbitration_lane_of :: "int \<Rightarrow> backend_preflight \<Rightarrow> nat \<Rightarrow> daemon_action \<Rightarrow> arbitration_lane" where
  "arbitration_lane_of score b index a =
    (let requirement = requirement_for_action b (da_action_id a);
         blocked_by = (case requirement of None \<Rightarrow> [] | Some r \<Rightarrow> br_blocked_by r)
     in \<lparr>al_lane_id = lit ''daemon.arbitration.'' @ index3 index, al_source_action_id = da_action_id a, al_domain = da_domain a,
       al_priority = da_priority a, al_target = da_target a, al_arbitration_action = lane_action a blocked_by,
       al_arbitration_status = lane_status a blocked_by, al_pressure_score = score,
       al_can_execute_now = (case requirement of None \<Rightarrow> False | Some r \<Rightarrow> br_can_execute_now r),
       al_native_promotion_allowed = (case requirement of None \<Rightarrow> False | Some r \<Rightarrow> br_can_promote_to_native r),
       al_blocked_by = blocked_by,
       al_expected_signal = (case requirement of None \<Rightarrow> lit ''missing-preflight'' | Some r \<Rightarrow> br_expected_signal r),
       al_reason = lane_reason a blocked_by, al_expected_effect = lane_expected_effect a blocked_by\<rparr>)"

definition lane_priority_rank :: "pystr \<Rightarrow> int" where
  "lane_priority_rank p = (if p = lit ''high'' then 0 else if p = lit ''medium'' then 1 else if p = lit ''low'' then 2 else 3)"

definition domain_rank :: "pystr \<Rightarrow> int" where
  "domain_rank d = (if d = lit ''safety'' then 0 else if d = lit ''telemetry'' then 1 else if d = lit ''memory'' then 2
     else if d = lit ''gpu'' then 3 else if d = lit ''scheduler'' then 4 else 5)"

definition sorted_lanes :: "arbitration_lane list \<Rightarrow> arbitration_lane list" where
  "sorted_lanes ls = sort_key (\<lambda>l. (lane_priority_rank (al_priority l), domain_rank (al_domain l), al_lane_id l)) ls"

definition count_lane_domain :: "arbitration_lane list \<Rightarrow> string \<Rightarrow> nat" where
  "count_lane_domain ls domain = count_if (\<lambda>l. al_domain l = lit domain) ls"

definition build_runtime_daemon_arbitration_plan ::
    "runtime_state \<Rightarrow> decision_plan \<Rightarrow> action_execution \<Rightarrow> backend_preflight \<Rightarrow> daemon_arbitration res" where
  "build_runtime_daemon_arbitration_plan s p e b =
    ebind (pressure_score s) (\<lambda>score.
    let ls = sorted_lanes (number_with (arbitration_lane_of score b) (dl_actions p))
    in Inr \<lparr>an_mode = lit ''runtime-daemon-arbitration-plan-v0.52'', an_dry_run = True, an_would_modify_system = False,
      an_execution_guard = lit ''advisory-only'', an_source_state_profile = sa_profile s, an_source_policy_action = sa_policy_action s,
      an_source_execution_policy = ae_execution_policy e, an_source_backend_policy = bp_backend_policy b, an_pressure_score = score,
      an_arbitration_policy = arbitration_policy p b score, an_lane_count = length ls,
      an_executable_lane_count = count_if al_can_execute_now ls, an_blocked_lane_count = count_if (\<lambda>l. \<not> al_can_execute_now l) ls,
      an_native_promotable_lane_count = count_if al_native_promotion_allowed ls,
      an_telemetry_lane_count = count_lane_domain ls ''telemetry'', an_scheduler_lane_count = count_lane_domain ls ''scheduler'',
      an_memory_lane_count = count_lane_domain ls ''memory'', an_gpu_lane_count = count_lane_domain ls ''gpu'',
      an_safety_lane_count = count_lane_domain ls ''safety'', an_lanes = ls\<rparr>)"

section \<open>Control intents\<close>

record control_intent =
  ci_intent_id :: pystr
  ci_source_lane_id :: pystr
  ci_source_action_id :: pystr
  ci_domain :: pystr
  ci_control_surface :: pystr
  ci_backend_requirement :: pystr
  ci_control_action :: pystr
  ci_control_status :: pystr
  ci_dry_run :: bool
  ci_would_modify_system :: bool
  ci_can_execute_now :: bool
  ci_native_promotion_allowed :: bool
  ci_blocked_by :: "pystr list"
  ci_pressure_score :: int
  ci_expected_signal :: pystr
  ci_reason :: pystr
  ci_expected_effect :: pystr

definition control_intent_to_dict :: "control_intent \<Rightarrow> pyval" where
  "control_intent_to_dict x = PDict
    [(lit ''intent_id'', PStr (ci_intent_id x)), (lit ''source_lane_id'', PStr (ci_source_lane_id x)),
     (lit ''source_action_id'', PStr (ci_source_action_id x)), (lit ''domain'', PStr (ci_domain x)),
     (lit ''control_surface'', PStr (ci_control_surface x)), (lit ''backend_requirement'', PStr (ci_backend_requirement x)),
     (lit ''control_action'', PStr (ci_control_action x)), (lit ''control_status'', PStr (ci_control_status x)),
     (lit ''dry_run'', PBool (ci_dry_run x)), (lit ''would_modify_system'', PBool (ci_would_modify_system x)),
     (lit ''can_execute_now'', PBool (ci_can_execute_now x)),
     (lit ''native_promotion_allowed'', PBool (ci_native_promotion_allowed x)),
     (lit ''blocked_by'', str_list (ci_blocked_by x)), (lit ''pressure_score'', PInt (ci_pressure_score x)),
     (lit ''expected_signal'', PStr (ci_expected_signal x)), (lit ''reason'', PStr (ci_reason x)),
     (lit ''expected_effect'', PStr (ci_expected_effect x))]"

record control_plan =
  cn_mode :: pystr
  cn_dry_run :: bool
  cn_would_modify_system :: bool
  cn_execution_guard :: pystr
  cn_source_arbitration_policy :: pystr
  cn_source_backend_policy :: pystr
  cn_source_state_profile :: pystr
  cn_pressure_score :: int
  cn_control_policy :: pystr
  cn_intent_count :: nat
  cn_ready_intent_count :: nat
  cn_blocked_intent_count :: nat
  cn_readonly_intent_count :: nat
  cn_advisory_intent_count :: nat
  cn_native_blocked_intent_count :: nat
  cn_cpu_surface_count :: nat
  cn_gpu_surface_count :: nat
  cn_ram_surface_count :: nat
  cn_vram_surface_count :: nat
  cn_scheduler_surface_count :: nat
  cn_telemetry_surface_count :: nat
  cn_safety_surface_count :: nat
  cn_intents :: "control_intent list"

definition control_plan_to_dict :: "control_plan \<Rightarrow> pyval" where
  "control_plan_to_dict x = PDict
    [(lit ''mode'', PStr (cn_mode x)), (lit ''dry_run'', PBool (cn_dry_run x)),
     (lit ''would_modify_system'', PBool (cn_would_modify_system x)), (lit ''execution_guard'', PStr (cn_execution_guard x)),
     (lit ''source_arbitration_policy'', PStr (cn_source_arbitration_policy x)),
     (lit ''source_backend_policy'', PStr (cn_source_backend_policy x)),
     (lit ''source_state_profile'', PStr (cn_source_state_profile x)), (lit ''pressure_score'', PInt (cn_pressure_score x)),
     (lit ''control_policy'', PStr (cn_control_policy x)), (lit ''intent_count'', PInt (int (cn_intent_count x))),
     (lit ''ready_intent_count'', PInt (int (cn_ready_intent_count x))),
     (lit ''blocked_intent_count'', PInt (int (cn_blocked_intent_count x))),
     (lit ''readonly_intent_count'', PInt (int (cn_readonly_intent_count x))),
     (lit ''advisory_intent_count'', PInt (int (cn_advisory_intent_count x))),
     (lit ''native_blocked_intent_count'', PInt (int (cn_native_blocked_intent_count x))),
     (lit ''cpu_surface_count'', PInt (int (cn_cpu_surface_count x))),
     (lit ''gpu_surface_count'', PInt (int (cn_gpu_surface_count x))),
     (lit ''ram_surface_count'', PInt (int (cn_ram_surface_count x))),
     (lit ''vram_surface_count'', PInt (int (cn_vram_surface_count x))),
     (lit ''scheduler_surface_count'', PInt (int (cn_scheduler_surface_count x))),
     (lit ''telemetry_surface_count'', PInt (int (cn_telemetry_surface_count x))),
     (lit ''safety_surface_count'', PInt (int (cn_safety_surface_count x))),
     (lit ''intents'', PList (map control_intent_to_dict (cn_intents x)))]"

definition intent_status :: "arbitration_lane \<Rightarrow> pystr list \<Rightarrow> pystr" where
  "intent_status l blocked_by =
    (if blocked_by \<noteq> [] then
       (if lit ''native-backend'' \<in> set blocked_by then lit ''blocked-native-preflight'' else lit ''blocked-advisory-preflight'')
     else if al_domain l = lit ''telemetry'' then lit ''ready-readonly'' else lit ''ready-advisory'')"

text \<open>\<^verbatim>\<open>s.replace(p, "")\<close> for a pattern that is not empty: the matches from the left, without overlap.\<close>

function remove_all :: "pystr \<Rightarrow> pystr \<Rightarrow> pystr" where
  "remove_all p [] = []"
| "remove_all p (c # s) =
    (if p \<noteq> [] \<and> take (length p) (c # s) = p then remove_all p (drop (length p) (c # s)) else c # remove_all p s)"
  by pat_completeness auto
termination
  by (relation "measure (\<lambda>(p, s). length s)") auto

definition control_surface :: "arbitration_lane \<Rightarrow> pystr" where
  "control_surface l =
    (if al_domain l = lit ''memory'' then
       (let target = py_lower (al_target l); ram = lit ''ram''; vram = lit ''vram''
        in if has_infix vram target \<and> \<not> has_infix ram (remove_all vram target) then vram
           else if has_infix ram target \<and> \<not> has_infix vram target then ram else lit ''ram-vram'')
     else al_domain l)"

definition intent_backend :: "arbitration_lane \<Rightarrow> backend_requirement option \<Rightarrow> pystr" where
  "intent_backend l r = (case r of None \<Rightarrow> lit ''missing-preflight''
     | Some x \<Rightarrow> if br_requires_native_backend x then lit ''native-host-control-backend''
         else if al_domain l = lit ''telemetry'' then lit ''python-stdlib-readonly-probe'' else lit ''daemon-advisory-loop'')"

definition control_action :: "arbitration_lane \<Rightarrow> pystr \<Rightarrow> pystr" where
  "control_action l status =
    (if starts_with (lit ''blocked'') status then lit ''hold-control-surface''
     else if al_domain l = lit ''telemetry'' then lit ''collect-control-surface-evidence''
     else if al_domain l = lit ''scheduler'' then lit ''maintain-advisory-scheduler-loop''
     else if al_domain l = lit ''safety'' then lit ''preserve-safety-hold''
     else if al_domain l = lit ''gpu'' then lit ''observe-gpu-vram-queues''
     else if al_domain l = lit ''memory'' then lit ''observe-ram-vram-residency''
     else lit ''observe-control-surface'')"

definition control_reason :: "arbitration_lane \<Rightarrow> pystr list \<Rightarrow> pystr" where
  "control_reason l blocked_by =
    (if blocked_by \<noteq> [] then lit ''Control intent held by blockers ['' @ join_text (lit '', '') blocked_by @ lit '']: '' @ al_reason l
     else al_reason l)"

definition control_expected_effect :: "arbitration_lane \<Rightarrow> pystr list \<Rightarrow> pystr" where
  "control_expected_effect l blocked_by =
    (if blocked_by \<noteq> [] then lit ''Keep the future native control surface explicit without mutating the host.''
     else if al_domain l = lit ''telemetry'' then lit ''Increase evidence quality before changing CPU/GPU/RAM/VRAM behavior.''
     else if al_domain l = lit ''scheduler'' then lit ''Keep control-loop timing deterministic in advisory mode.''
     else if al_domain l = lit ''memory'' then lit ''Prepare RAM/VRAM residency control without applying it.''
     else if al_domain l = lit ''gpu'' then lit ''Prepare GPU/VRAM queue control without applying it.''
     else if al_domain l = lit ''safety'' then lit ''Prevent unsafe promotion of blocked work.''
     else al_expected_effect l)"

definition control_intent_of :: "(pystr \<Rightarrow> backend_requirement option) \<Rightarrow> nat \<Rightarrow> arbitration_lane \<Rightarrow> control_intent" where
  "control_intent_of requirements index l =
    (let r = requirements (al_source_action_id l);
         blocked_by = (case r of None \<Rightarrow> [lit ''missing-preflight''] | Some x \<Rightarrow> br_blocked_by x);
         status = intent_status l blocked_by
     in \<lparr>ci_intent_id = lit ''daemon.control.'' @ index3 index, ci_source_lane_id = al_lane_id l,
       ci_source_action_id = al_source_action_id l, ci_domain = al_domain l, ci_control_surface = control_surface l,
       ci_backend_requirement = intent_backend l r, ci_control_action = control_action l status, ci_control_status = status,
       ci_dry_run = True, ci_would_modify_system = False, ci_can_execute_now = (blocked_by = []),
       ci_native_promotion_allowed = False, ci_blocked_by = blocked_by, ci_pressure_score = al_pressure_score l,
       ci_expected_signal = al_expected_signal l, ci_reason = control_reason l blocked_by,
       ci_expected_effect = control_expected_effect l blocked_by\<rparr>)"

definition control_policy :: "control_intent list \<Rightarrow> daemon_arbitration \<Rightarrow> pystr" where
  "control_policy is' p =
    (if \<exists>i \<in> set is'. ci_control_status i = lit ''blocked-native-preflight'' then lit ''hold-native-control-surfaces''
     else if \<exists>i \<in> set is'. ci_domain i = lit ''safety'' then lit ''safety-control-hold''
     else if 60 \<le> an_pressure_score p then lit ''pressure-aware-advisory-control''
     else if \<exists>i \<in> set is'. ci_control_status i = lit ''ready-readonly'' then lit ''collect-evidence-before-control''
     else if is' \<noteq> [] then lit ''maintain-advisory-control-loop'' else lit ''observe'')"

definition count_intent_status :: "control_intent list \<Rightarrow> string \<Rightarrow> nat" where
  "count_intent_status is' status = count_if (\<lambda>i. ci_control_status i = lit status) is'"

text \<open>A surface of both memories counts for each of them.\<close>

definition on_surface :: "string \<Rightarrow> pystr \<Rightarrow> bool" where
  "on_surface surface s \<longleftrightarrow> s = lit surface \<or> (surface \<in> {''ram'', ''vram''} \<and> s = lit ''ram-vram'')"

definition count_intent_surface :: "control_intent list \<Rightarrow> string \<Rightarrow> nat" where
  "count_intent_surface is' surface = count_if (\<lambda>i. on_surface surface (ci_control_surface i)) is'"

definition build_runtime_daemon_control_plan :: "runtime_state \<Rightarrow> daemon_arbitration \<Rightarrow> backend_preflight \<Rightarrow> control_plan" where
  "build_runtime_daemon_control_plan s p b =
    (let is' = number_with (control_intent_of (last_by br_source_action_id (bp_requirements b))) (an_lanes p)
     in \<lparr>cn_mode = lit ''runtime-daemon-control-plan-v0.53'', cn_dry_run = True, cn_would_modify_system = False,
       cn_execution_guard = lit ''advisory-only'', cn_source_arbitration_policy = an_arbitration_policy p,
       cn_source_backend_policy = bp_backend_policy b, cn_source_state_profile = sa_profile s,
       cn_pressure_score = an_pressure_score p, cn_control_policy = control_policy is' p, cn_intent_count = length is',
       cn_ready_intent_count = count_if ci_can_execute_now is', cn_blocked_intent_count = count_if (\<lambda>i. \<not> ci_can_execute_now i) is',
       cn_readonly_intent_count = count_intent_status is' ''ready-readonly'',
       cn_advisory_intent_count = count_intent_status is' ''ready-advisory'',
       cn_native_blocked_intent_count = count_intent_status is' ''blocked-native-preflight'',
       cn_cpu_surface_count = count_intent_surface is' ''cpu'', cn_gpu_surface_count = count_intent_surface is' ''gpu'',
       cn_ram_surface_count = count_intent_surface is' ''ram'', cn_vram_surface_count = count_intent_surface is' ''vram'',
       cn_scheduler_surface_count = count_intent_surface is' ''scheduler'',
       cn_telemetry_surface_count = count_intent_surface is' ''telemetry'',
       cn_safety_surface_count = count_intent_surface is' ''safety'', cn_intents = is'\<rparr>)"

section \<open>Dry run of the control plan\<close>

record control_step =
  cs_intent_id :: pystr
  cs_source_lane_id :: pystr
  cs_domain :: pystr
  cs_control_surface :: pystr
  cs_backend_requirement :: pystr
  cs_execution_status :: pystr
  cs_dry_run :: bool
  cs_would_modify_system :: bool
  cs_executed :: bool
  cs_blocked :: bool
  cs_blocked_by :: "pystr list"
  cs_observed_signal :: pystr
  cs_effect :: pystr
  cs_reason :: pystr

definition control_step_to_dict :: "control_step \<Rightarrow> pyval" where
  "control_step_to_dict x = PDict
    [(lit ''intent_id'', PStr (cs_intent_id x)), (lit ''source_lane_id'', PStr (cs_source_lane_id x)),
     (lit ''domain'', PStr (cs_domain x)), (lit ''control_surface'', PStr (cs_control_surface x)),
     (lit ''backend_requirement'', PStr (cs_backend_requirement x)), (lit ''execution_status'', PStr (cs_execution_status x)),
     (lit ''dry_run'', PBool (cs_dry_run x)), (lit ''would_modify_system'', PBool (cs_would_modify_system x)),
     (lit ''executed'', PBool (cs_executed x)), (lit ''blocked'', PBool (cs_blocked x)),
     (lit ''blocked_by'', str_list (cs_blocked_by x)), (lit ''observed_signal'', PStr (cs_observed_signal x)),
     (lit ''effect'', PStr (cs_effect x)), (lit ''reason'', PStr (cs_reason x))]"

record control_execution =
  ce_mode :: pystr
  ce_dry_run :: bool
  ce_would_modify_system :: bool
  ce_execution_guard :: pystr
  ce_source_control_policy :: pystr
  ce_execution_policy :: pystr
  ce_step_count :: nat
  ce_executed_count :: nat
  ce_blocked_count :: nat
  ce_readonly_execution_count :: nat
  ce_advisory_execution_count :: nat
  ce_native_blocked_execution_count :: nat
  ce_telemetry_step_count :: nat
  ce_scheduler_step_count :: nat
  ce_ram_surface_count :: nat
  ce_vram_surface_count :: nat
  ce_gpu_surface_count :: nat
  ce_safety_step_count :: nat
  ce_steps :: "control_step list"

definition control_execution_to_dict :: "control_execution \<Rightarrow> pyval" where
  "control_execution_to_dict x = PDict
    [(lit ''mode'', PStr (ce_mode x)), (lit ''dry_run'', PBool (ce_dry_run x)),
     (lit ''would_modify_system'', PBool (ce_would_modify_system x)), (lit ''execution_guard'', PStr (ce_execution_guard x)),
     (lit ''source_control_policy'', PStr (ce_source_control_policy x)),
     (lit ''execution_policy'', PStr (ce_execution_policy x)), (lit ''step_count'', PInt (int (ce_step_count x))),
     (lit ''executed_count'', PInt (int (ce_executed_count x))), (lit ''blocked_count'', PInt (int (ce_blocked_count x))),
     (lit ''readonly_execution_count'', PInt (int (ce_readonly_execution_count x))),
     (lit ''advisory_execution_count'', PInt (int (ce_advisory_execution_count x))),
     (lit ''native_blocked_execution_count'', PInt (int (ce_native_blocked_execution_count x))),
     (lit ''telemetry_step_count'', PInt (int (ce_telemetry_step_count x))),
     (lit ''scheduler_step_count'', PInt (int (ce_scheduler_step_count x))),
     (lit ''ram_surface_count'', PInt (int (ce_ram_surface_count x))),
     (lit ''vram_surface_count'', PInt (int (ce_vram_surface_count x))),
     (lit ''gpu_surface_count'', PInt (int (ce_gpu_surface_count x))),
     (lit ''safety_step_count'', PInt (int (ce_safety_step_count x))),
     (lit ''steps'', PList (map control_step_to_dict (ce_steps x)))]"

definition control_execution_status :: "control_intent \<Rightarrow> bool \<Rightarrow> pystr" where
  "control_execution_status i blocked =
    (if blocked then
       (if lit ''native-backend'' \<in> set (ci_blocked_by i) then lit ''blocked-native-control-surface''
        else lit ''blocked-advisory-control-surface'')
     else if ci_control_status i = lit ''ready-readonly'' then lit ''executed-readonly-control-dry-run''
     else lit ''executed-advisory-control-dry-run'')"

definition control_effect :: "control_intent \<Rightarrow> bool \<Rightarrow> pystr" where
  "control_effect i blocked =
    (if blocked then lit ''hold-control-surface-before-host-mutation''
     else if ci_control_status i = lit ''ready-readonly'' then lit ''observe-control-surface-signal''
     else lit ''simulate-advisory-control-loop'')"

definition control_execution_reason :: "control_intent \<Rightarrow> bool \<Rightarrow> pystr" where
  "control_execution_reason i blocked =
    (if blocked then lit ''Control execution held by blockers ['' @ join_text (lit '', '') (ci_blocked_by i) @ lit '']: '' @ ci_reason i
     else lit ''Dry-run control execution: '' @ ci_reason i)"

definition dry_run_control_intent :: "control_intent \<Rightarrow> control_step" where
  "dry_run_control_intent i =
    (let blocked = (\<not> ci_can_execute_now i \<or> ci_blocked_by i \<noteq> [])
     in \<lparr>cs_intent_id = ci_intent_id i, cs_source_lane_id = ci_source_lane_id i, cs_domain = ci_domain i,
       cs_control_surface = ci_control_surface i, cs_backend_requirement = ci_backend_requirement i,
       cs_execution_status = control_execution_status i blocked, cs_dry_run = True, cs_would_modify_system = False,
       cs_executed = (\<not> blocked), cs_blocked = blocked, cs_blocked_by = ci_blocked_by i, cs_observed_signal = ci_expected_signal i,
       cs_effect = control_effect i blocked, cs_reason = control_execution_reason i blocked\<rparr>)"

definition control_execution_policy :: "control_step list \<Rightarrow> pystr" where
  "control_execution_policy ss =
    (if \<exists>s \<in> set ss. cs_execution_status s = lit ''blocked-native-control-surface'' then lit ''hold-native-control-surfaces''
     else if \<exists>s \<in> set ss. cs_execution_status s = lit ''executed-readonly-control-dry-run'' then lit ''execute-readonly-control''
     else if \<exists>s \<in> set ss. cs_execution_status s = lit ''executed-advisory-control-dry-run'' then lit ''execute-advisory-control''
     else lit ''observe'')"

definition count_control_status :: "control_step list \<Rightarrow> string \<Rightarrow> nat" where
  "count_control_status ss status = count_if (\<lambda>s. cs_execution_status s = lit status) ss"

definition count_control_domain :: "control_step list \<Rightarrow> string \<Rightarrow> nat" where
  "count_control_domain ss domain = count_if (\<lambda>s. cs_domain s = lit domain) ss"

definition count_control_surface :: "control_step list \<Rightarrow> string \<Rightarrow> nat" where
  "count_control_surface ss surface = count_if (\<lambda>s. on_surface surface (cs_control_surface s)) ss"

definition dry_run_runtime_daemon_control_plan :: "control_plan \<Rightarrow> control_execution" where
  "dry_run_runtime_daemon_control_plan p =
    (let ss = map dry_run_control_intent (cn_intents p)
     in \<lparr>ce_mode = lit ''runtime-daemon-control-execution-v0.54'', ce_dry_run = True, ce_would_modify_system = False,
       ce_execution_guard = lit ''advisory-only'', ce_source_control_policy = cn_control_policy p,
       ce_execution_policy = control_execution_policy ss, ce_step_count = length ss, ce_executed_count = count_if cs_executed ss,
       ce_blocked_count = count_if cs_blocked ss,
       ce_readonly_execution_count = count_control_status ss ''executed-readonly-control-dry-run'',
       ce_advisory_execution_count = count_control_status ss ''executed-advisory-control-dry-run'',
       ce_native_blocked_execution_count = count_control_status ss ''blocked-native-control-surface'',
       ce_telemetry_step_count = count_control_domain ss ''telemetry'', ce_scheduler_step_count = count_control_domain ss ''scheduler'',
       ce_ram_surface_count = count_control_surface ss ''ram'', ce_vram_surface_count = count_control_surface ss ''vram'',
       ce_gpu_surface_count = count_control_surface ss ''gpu'', ce_safety_step_count = count_control_domain ss ''safety'',
       ce_steps = ss\<rparr>)"

end
