(* ===== verification/Native_Gate.thy ===== *)
theory Native_Gate
  imports Daemon_Control
begin

text \<open>
  The chain behind the control execution: the backend manifest (\<^verbatim>\<open>src/fluidgateway/native_backend_manifest.py\<close>),
  its probe (\<^verbatim>\<open>native_backend_probe.py\<close>), the readiness of the probe (\<^verbatim>\<open>native_backend_readiness.py\<close>) and
  the promotion gate (\<^verbatim>\<open>native_backend_gate.py\<close>).
\<close>

section \<open>Manifest\<close>

record manifest_entry =
  mf_entry_id :: pystr
  mf_source_intent_id :: pystr
  mf_source_lane_id :: pystr
  mf_domain :: pystr
  mf_control_surface :: pystr
  mf_backend_id :: pystr
  mf_required_interface :: pystr
  mf_capability_status :: pystr
  mf_load_status :: pystr
  mf_ready :: bool
  mf_blocked :: bool
  mf_blocked_by :: "pystr list"
  mf_requires_native_backend :: bool
  mf_requires_privilege :: bool
  mf_requires_safety_review :: bool
  mf_promotion_allowed :: bool
  mf_dry_run :: bool
  mf_would_modify_system :: bool
  mf_observed_signal :: pystr
  mf_host_requirement :: pystr
  mf_reason :: pystr

definition manifest_entry_to_dict :: "manifest_entry \<Rightarrow> pyval" where
  "manifest_entry_to_dict x = PDict
    [(lit ''entry_id'', PStr (mf_entry_id x)), (lit ''source_intent_id'', PStr (mf_source_intent_id x)),
     (lit ''source_lane_id'', PStr (mf_source_lane_id x)), (lit ''domain'', PStr (mf_domain x)),
     (lit ''control_surface'', PStr (mf_control_surface x)), (lit ''backend_id'', PStr (mf_backend_id x)),
     (lit ''required_interface'', PStr (mf_required_interface x)), (lit ''capability_status'', PStr (mf_capability_status x)),
     (lit ''load_status'', PStr (mf_load_status x)), (lit ''ready'', PBool (mf_ready x)),
     (lit ''blocked'', PBool (mf_blocked x)), (lit ''blocked_by'', str_list (mf_blocked_by x)),
     (lit ''requires_native_backend'', PBool (mf_requires_native_backend x)),
     (lit ''requires_privilege'', PBool (mf_requires_privilege x)),
     (lit ''requires_safety_review'', PBool (mf_requires_safety_review x)),
     (lit ''promotion_allowed'', PBool (mf_promotion_allowed x)), (lit ''dry_run'', PBool (mf_dry_run x)),
     (lit ''would_modify_system'', PBool (mf_would_modify_system x)), (lit ''observed_signal'', PStr (mf_observed_signal x)),
     (lit ''host_requirement'', PStr (mf_host_requirement x)), (lit ''reason'', PStr (mf_reason x))]"

record backend_manifest =
  bm_mode :: pystr
  bm_dry_run :: bool
  bm_would_modify_system :: bool
  bm_execution_guard :: pystr
  bm_source_execution_policy :: pystr
  bm_source_backend_policy :: pystr
  bm_host_snapshot_loaded :: bool
  bm_host_profile :: "pystr option"
  bm_manifest_policy :: pystr
  bm_entry_count :: nat
  bm_ready_count :: nat
  bm_blocked_count :: nat
  bm_readonly_ready_count :: nat
  bm_advisory_ready_count :: nat
  bm_native_blocked_count :: nat
  bm_privileged_blocked_count :: nat
  bm_telemetry_surface_count :: nat
  bm_scheduler_surface_count :: nat
  bm_ram_surface_count :: nat
  bm_vram_surface_count :: nat
  bm_gpu_surface_count :: nat
  bm_safety_surface_count :: nat
  bm_entries :: "manifest_entry list"

definition backend_manifest_to_dict :: "backend_manifest \<Rightarrow> pyval" where
  "backend_manifest_to_dict x = PDict
    [(lit ''mode'', PStr (bm_mode x)), (lit ''dry_run'', PBool (bm_dry_run x)),
     (lit ''would_modify_system'', PBool (bm_would_modify_system x)), (lit ''execution_guard'', PStr (bm_execution_guard x)),
     (lit ''source_execution_policy'', PStr (bm_source_execution_policy x)),
     (lit ''source_backend_policy'', PStr (bm_source_backend_policy x)),
     (lit ''host_snapshot_loaded'', PBool (bm_host_snapshot_loaded x)), (lit ''host_profile'', opt_str (bm_host_profile x)),
     (lit ''manifest_policy'', PStr (bm_manifest_policy x)), (lit ''entry_count'', PInt (int (bm_entry_count x))),
     (lit ''ready_count'', PInt (int (bm_ready_count x))), (lit ''blocked_count'', PInt (int (bm_blocked_count x))),
     (lit ''readonly_ready_count'', PInt (int (bm_readonly_ready_count x))),
     (lit ''advisory_ready_count'', PInt (int (bm_advisory_ready_count x))),
     (lit ''native_blocked_count'', PInt (int (bm_native_blocked_count x))),
     (lit ''privileged_blocked_count'', PInt (int (bm_privileged_blocked_count x))),
     (lit ''telemetry_surface_count'', PInt (int (bm_telemetry_surface_count x))),
     (lit ''scheduler_surface_count'', PInt (int (bm_scheduler_surface_count x))),
     (lit ''ram_surface_count'', PInt (int (bm_ram_surface_count x))),
     (lit ''vram_surface_count'', PInt (int (bm_vram_surface_count x))),
     (lit ''gpu_surface_count'', PInt (int (bm_gpu_surface_count x))),
     (lit ''safety_surface_count'', PInt (int (bm_safety_surface_count x))),
     (lit ''entries'', PList (map manifest_entry_to_dict (bm_entries x)))]"

definition backend_id_for_step :: "control_step \<Rightarrow> pystr" where
  "backend_id_for_step s =
    (if cs_backend_requirement s \<in> {lit ''python-stdlib-readonly-probe'', lit ''native-host-control-backend'', lit ''missing-preflight''}
     then cs_backend_requirement s else lit ''daemon-advisory-loop'')"

definition entry_capability_status :: "control_step \<Rightarrow> bool \<Rightarrow> bool \<Rightarrow> pystr" where
  "entry_capability_status s native privilege =
    (if cs_blocked s then
       (if native \<and> privilege then lit ''blocked-privileged-native-backend-required''
        else if native then lit ''blocked-native-backend-required'' else lit ''blocked-advisory-guard'')
     else if cs_execution_status s = lit ''executed-readonly-control-dry-run'' then lit ''available-readonly-control-dry-run''
     else lit ''available-advisory-control-dry-run'')"

definition load_status :: "control_step \<Rightarrow> pystr \<Rightarrow> bool \<Rightarrow> pystr" where
  "load_status s backend_id native =
    (if cs_blocked s \<and> native then lit ''not-loaded-native-backend-missing''
     else if cs_blocked s then lit ''not-loaded-advisory-guard''
     else if backend_id = lit ''python-stdlib-readonly-probe'' then lit ''loaded-python-stdlib-readonly''
     else if backend_id = lit ''daemon-advisory-loop'' then lit ''loaded-daemon-advisory-loop'' else lit ''not-loaded'')"

definition host_requirement :: "control_step \<Rightarrow> bool \<Rightarrow> host_snapshot option \<Rightarrow> pystr" where
  "host_requirement s native host =
    (if native then (case host of None \<Rightarrow> lit ''host-snapshot-and-native-safety-review-required''
        | Some h \<Rightarrow> hs_host_profile h @ lit '':native-safety-review-required'')
     else if cs_domain s = lit ''telemetry'' then lit ''host-snapshot-optional-readonly-probe'' else lit ''daemon-state-contract'')"

definition manifest_reason :: "control_step \<Rightarrow> bool \<Rightarrow> pystr" where
  "manifest_reason s native =
    (if native then lit ''Native backend load is denied in v0.55; '' else lit ''Backend contract is dry-run only; '') @ cs_reason s"

definition manifest_entry_of :: "host_snapshot option \<Rightarrow> nat \<Rightarrow> control_step \<Rightarrow> manifest_entry" where
  "manifest_entry_of host index s =
    (let blocked_by = cs_blocked_by s;
         native = (cs_backend_requirement s = lit ''native-host-control-backend'' \<or> lit ''native-backend'' \<in> set blocked_by);
         privilege = (lit ''privilege'' \<in> set blocked_by); backend_id = backend_id_for_step s
     in \<lparr>mf_entry_id = lit ''native.backend.'' @ index3 index, mf_source_intent_id = cs_intent_id s,
       mf_source_lane_id = cs_source_lane_id s, mf_domain = cs_domain s, mf_control_surface = cs_control_surface s,
       mf_backend_id = backend_id, mf_required_interface = cs_backend_requirement s,
       mf_capability_status = entry_capability_status s native privilege, mf_load_status = load_status s backend_id native,
       mf_ready = (cs_executed s \<and> \<not> cs_blocked s), mf_blocked = cs_blocked s, mf_blocked_by = blocked_by,
       mf_requires_native_backend = native, mf_requires_privilege = privilege,
       mf_requires_safety_review = (native \<or> privilege \<or> lit ''safety-review'' \<in> set blocked_by), mf_promotion_allowed = False,
       mf_dry_run = True, mf_would_modify_system = False, mf_observed_signal = cs_observed_signal s,
       mf_host_requirement = host_requirement s native host, mf_reason = manifest_reason s native\<rparr>)"

definition manifest_policy :: "manifest_entry list \<Rightarrow> pystr" where
  "manifest_policy es =
    (if \<exists>e \<in> set es. mf_requires_native_backend e then lit ''hold-native-backend-load''
     else if \<exists>e \<in> set es. mf_backend_id e = lit ''python-stdlib-readonly-probe'' then lit ''readonly-probe-ready''
     else if \<exists>e \<in> set es. mf_backend_id e = lit ''daemon-advisory-loop'' then lit ''advisory-backend-ready'' else lit ''observe'')"

definition count_ready_backend :: "manifest_entry list \<Rightarrow> string \<Rightarrow> nat" where
  "count_ready_backend es backend_id = count_if (\<lambda>e. mf_ready e \<and> mf_backend_id e = lit backend_id) es"

definition count_entry_surface :: "manifest_entry list \<Rightarrow> string \<Rightarrow> nat" where
  "count_entry_surface es surface = count_if (\<lambda>e. on_surface surface (mf_control_surface e)) es"

definition build_runtime_native_backend_manifest ::
    "control_execution \<Rightarrow> backend_preflight \<Rightarrow> host_snapshot option \<Rightarrow> backend_manifest" where
  "build_runtime_native_backend_manifest x b host =
    (let es = number_with (manifest_entry_of host) (ce_steps x)
     in \<lparr>bm_mode = lit ''runtime-native-backend-manifest-v0.55'', bm_dry_run = True, bm_would_modify_system = False,
       bm_execution_guard = lit ''advisory-only'', bm_source_execution_policy = ce_execution_policy x,
       bm_source_backend_policy = bp_backend_policy b, bm_host_snapshot_loaded = (host \<noteq> None),
       bm_host_profile = map_option hs_host_profile host, bm_manifest_policy = manifest_policy es, bm_entry_count = length es,
       bm_ready_count = count_if mf_ready es, bm_blocked_count = count_if mf_blocked es,
       bm_readonly_ready_count = count_ready_backend es ''python-stdlib-readonly-probe'',
       bm_advisory_ready_count = count_ready_backend es ''daemon-advisory-loop'',
       bm_native_blocked_count = count_if mf_requires_native_backend es,
       bm_privileged_blocked_count = count_if mf_requires_privilege es,
       bm_telemetry_surface_count = count_entry_surface es ''telemetry'',
       bm_scheduler_surface_count = count_entry_surface es ''scheduler'', bm_ram_surface_count = count_entry_surface es ''ram'',
       bm_vram_surface_count = count_entry_surface es ''vram'', bm_gpu_surface_count = count_entry_surface es ''gpu'',
       bm_safety_surface_count = count_entry_surface es ''safety'', bm_entries = es\<rparr>)"

section \<open>Probe\<close>

record probe_step =
  ps2_step_id :: pystr
  ps2_source_entry_id :: pystr
  ps2_backend_id :: pystr
  ps2_control_surface :: pystr
  ps2_probe_scope :: pystr
  ps2_probe_action :: pystr
  ps2_probe_status :: pystr
  ps2_dry_run :: bool
  ps2_would_modify_system :: bool
  ps2_probed :: bool
  ps2_blocked :: bool
  ps2_blocked_by :: "pystr list"
  ps2_signal_count :: nat
  ps2_signals :: pydict
  ps2_reason :: pystr

definition probe_step_to_dict :: "probe_step \<Rightarrow> pyval" where
  "probe_step_to_dict x = PDict
    [(lit ''step_id'', PStr (ps2_step_id x)), (lit ''source_entry_id'', PStr (ps2_source_entry_id x)),
     (lit ''backend_id'', PStr (ps2_backend_id x)), (lit ''control_surface'', PStr (ps2_control_surface x)),
     (lit ''probe_scope'', PStr (ps2_probe_scope x)), (lit ''probe_action'', PStr (ps2_probe_action x)),
     (lit ''probe_status'', PStr (ps2_probe_status x)), (lit ''dry_run'', PBool (ps2_dry_run x)),
     (lit ''would_modify_system'', PBool (ps2_would_modify_system x)), (lit ''probed'', PBool (ps2_probed x)),
     (lit ''blocked'', PBool (ps2_blocked x)), (lit ''blocked_by'', str_list (ps2_blocked_by x)),
     (lit ''signal_count'', PInt (int (ps2_signal_count x))), (lit ''signals'', PDict (ps2_signals x)),
     (lit ''reason'', PStr (ps2_reason x))]"

record probe_report =
  pr_mode :: pystr
  pr_dry_run :: bool
  pr_would_modify_system :: bool
  pr_execution_guard :: pystr
  pr_source_manifest_policy :: pystr
  pr_host_snapshot_loaded :: bool
  pr_host_profile :: "pystr option"
  pr_probe_policy :: pystr
  pr_step_count :: nat
  pr_probed_count :: nat
  pr_blocked_count :: nat
  pr_readonly_probe_count :: nat
  pr_advisory_probe_count :: nat
  pr_native_blocked_probe_count :: nat
  pr_missing_host_snapshot_count :: nat
  pr_host_signal_count :: nat
  pr_memory_signal_count :: nat
  pr_gpu_signal_count :: nat
  pr_steps :: "probe_step list"

definition probe_report_to_dict :: "probe_report \<Rightarrow> pyval" where
  "probe_report_to_dict x = PDict
    [(lit ''mode'', PStr (pr_mode x)), (lit ''dry_run'', PBool (pr_dry_run x)),
     (lit ''would_modify_system'', PBool (pr_would_modify_system x)), (lit ''execution_guard'', PStr (pr_execution_guard x)),
     (lit ''source_manifest_policy'', PStr (pr_source_manifest_policy x)),
     (lit ''host_snapshot_loaded'', PBool (pr_host_snapshot_loaded x)), (lit ''host_profile'', opt_str (pr_host_profile x)),
     (lit ''probe_policy'', PStr (pr_probe_policy x)), (lit ''step_count'', PInt (int (pr_step_count x))),
     (lit ''probed_count'', PInt (int (pr_probed_count x))), (lit ''blocked_count'', PInt (int (pr_blocked_count x))),
     (lit ''readonly_probe_count'', PInt (int (pr_readonly_probe_count x))),
     (lit ''advisory_probe_count'', PInt (int (pr_advisory_probe_count x))),
     (lit ''native_blocked_probe_count'', PInt (int (pr_native_blocked_probe_count x))),
     (lit ''missing_host_snapshot_count'', PInt (int (pr_missing_host_snapshot_count x))),
     (lit ''host_signal_count'', PInt (int (pr_host_signal_count x))),
     (lit ''memory_signal_count'', PInt (int (pr_memory_signal_count x))),
     (lit ''gpu_signal_count'', PInt (int (pr_gpu_signal_count x))),
     (lit ''steps'', PList (map probe_step_to_dict (pr_steps x)))]"

definition memory_signal_keys :: "string list" where
  "memory_signal_keys = [''total_ram_mb'', ''available_ram_mb'', ''ram_pressure_pct'', ''ram_pressure_class'']"

definition gpu_signal_keys :: "string list" where
  "gpu_signal_keys = [''gpu_count'', ''gpu_class'', ''total_reported_vram_mb'']"

definition opt_float :: "pyfloat option \<Rightarrow> pyval" where
  "opt_float x = (case x of None \<Rightarrow> PNone | Some y \<Rightarrow> PFloat y)"

definition host_probe_signals :: "host_snapshot \<Rightarrow> pydict" where
  "host_probe_signals h =
    [(lit ''host_profile'', PStr (hs_host_profile h)), (lit ''manager_hint'', PStr (hs_manager_hint h)),
     (lit ''telemetry_confidence'', PStr (hs_telemetry_confidence h)), (lit ''cpu_logical_count'', opt_int (hs_cpu_logical_count h)),
     (lit ''cpu_class'', PStr (hs_cpu_class h)), (lit ''total_ram_mb'', opt_float (hs_total_ram_mb h)),
     (lit ''available_ram_mb'', opt_float (hs_available_ram_mb h)), (lit ''ram_pressure_pct'', opt_float (hs_ram_pressure_pct h)),
     (lit ''ram_pressure_class'', PStr (hs_ram_pressure_class h)), (lit ''gpu_count'', PInt (int (hs_gpu_count h))),
     (lit ''gpu_class'', PStr (hs_gpu_class h)), (lit ''total_reported_vram_mb'', opt_float (hs_total_reported_vram_mb h)),
     (lit ''capture_error_count'', PInt (int (length (hs_capture_errors h))))]"

definition advisory_probe_signals :: "manifest_entry \<Rightarrow> backend_manifest \<Rightarrow> host_snapshot option \<Rightarrow> pydict" where
  "advisory_probe_signals e m host =
    [(lit ''manifest_policy'', PStr (bm_manifest_policy m)), (lit ''host_profile'', opt_str (map_option hs_host_profile host)),
     (lit ''source_manifest_ready_count'', PInt (int (bm_ready_count m))),
     (lit ''source_manifest_blocked_count'', PInt (int (bm_blocked_count m))), (lit ''control_surface'', PStr (mf_control_surface e)),
     (lit ''observed_signal'', PStr (mf_observed_signal e)), (lit ''backend_load_status'', PStr (mf_load_status e))]"

definition count_known_signals :: "pydict \<Rightarrow> nat" where
  "count_known_signals d = count_if (\<lambda>(k, v). v \<noteq> PNone) d"

definition probe_step_of :: "nat \<Rightarrow> manifest_entry \<Rightarrow> string \<Rightarrow> string \<Rightarrow> string \<Rightarrow> bool \<Rightarrow> pystr list \<Rightarrow> pydict \<Rightarrow> string \<Rightarrow> probe_step" where
  "probe_step_of index e scope action status probed blocked_by signals reason =
    \<lparr>ps2_step_id = lit ''native.probe.'' @ index3 index, ps2_source_entry_id = mf_entry_id e, ps2_backend_id = mf_backend_id e,
     ps2_control_surface = mf_control_surface e, ps2_probe_scope = lit scope, ps2_probe_action = lit action,
     ps2_probe_status = lit status, ps2_dry_run = True, ps2_would_modify_system = False, ps2_probed = probed,
     ps2_blocked = (\<not> probed), ps2_blocked_by = blocked_by, ps2_signal_count = count_known_signals signals,
     ps2_signals = signals, ps2_reason = lit reason\<rparr>"

definition readonly_host_step :: "nat \<Rightarrow> manifest_entry \<Rightarrow> host_snapshot option \<Rightarrow> probe_step" where
  "readonly_host_step index e host = (case host of
     None \<Rightarrow> probe_step_of index e ''host'' ''collect-host-snapshot-before-readonly-probe'' ''blocked-missing-host-snapshot'' False
       [lit ''host-snapshot''] [] ''Read-only probe needs a host snapshot before it can bind CPU/RAM/GPU/VRAM evidence.''
   | Some h \<Rightarrow> probe_step_of index e ''host'' ''bind-host-snapshot-signals'' ''executed-readonly-host-snapshot-probe'' True
       [] (host_probe_signals h) ''Read-only backend bound existing host capability evidence.'')"

definition advisory_contract_step :: "nat \<Rightarrow> manifest_entry \<Rightarrow> backend_manifest \<Rightarrow> host_snapshot option \<Rightarrow> probe_step" where
  "advisory_contract_step index e m host =
    probe_step_of index e ''daemon-contract'' ''bind-daemon-contract-signals'' ''executed-advisory-contract-probe'' True []
      (advisory_probe_signals e m host) ''Advisory backend bound daemon contract evidence without host mutation.''"

definition blocked_native_step :: "nat \<Rightarrow> manifest_entry \<Rightarrow> probe_step" where
  "blocked_native_step index e =
    probe_step_of index e ''native-host'' ''hold-native-backend-probe'' ''blocked-native-backend-probe'' False (mf_blocked_by e) []
      ''Native backend probe is held until backend, privilege, and safety-review requirements exist.''"

definition blocked_advisory_step :: "nat \<Rightarrow> manifest_entry \<Rightarrow> probe_step" where
  "blocked_advisory_step index e =
    probe_step_of index e ''daemon-contract'' ''hold-advisory-backend-probe'' ''blocked-advisory-probe'' False (mf_blocked_by e) []
      ''Advisory backend probe is held by the manifest blockers.''"

definition probe_entry :: "backend_manifest \<Rightarrow> host_snapshot option \<Rightarrow> nat \<Rightarrow> manifest_entry \<Rightarrow> probe_step" where
  "probe_entry m host index e =
    (if mf_requires_native_backend e \<or> mf_backend_id e = lit ''native-host-control-backend'' then blocked_native_step index e
     else if mf_blocked e then blocked_advisory_step index e
     else if mf_backend_id e = lit ''python-stdlib-readonly-probe'' then readonly_host_step index e host
     else advisory_contract_step index e m host)"

definition probe_policy :: "probe_step list \<Rightarrow> pystr" where
  "probe_policy ss =
    (let native = (\<exists>s \<in> set ss. ps2_probe_status s = lit ''blocked-native-backend-probe'');
         missing = (\<exists>s \<in> set ss. ps2_probe_status s = lit ''blocked-missing-host-snapshot''); probed = (\<exists>s \<in> set ss. ps2_probed s)
     in if native \<and> probed then lit ''probe-safe-and-hold-native'' else if native then lit ''hold-native-backend-probes''
        else if missing then lit ''hold-readonly-probe-for-host-snapshot''
        else if \<exists>s \<in> set ss. ps2_probe_status s = lit ''executed-readonly-host-snapshot-probe'' then lit ''readonly-probe-executed''
        else if \<exists>s \<in> set ss. ps2_probe_status s = lit ''executed-advisory-contract-probe'' then lit ''advisory-probe-executed''
        else lit ''observe'')"

definition count_probe_status :: "probe_step list \<Rightarrow> string \<Rightarrow> nat" where
  "count_probe_status ss status = count_if (\<lambda>s. ps2_probe_status s = lit status) ss"

definition count_signal_keys :: "probe_step list \<Rightarrow> string list \<Rightarrow> nat" where
  "count_signal_keys ss keys = sum_list (map (\<lambda>s. count_if (\<lambda>k. dget (ps2_signals s) k \<noteq> PNone) keys) ss)"

definition count_signal_scope :: "probe_step list \<Rightarrow> string \<Rightarrow> nat" where
  "count_signal_scope ss scope =
    (if scope = ''host'' then sum_list (map ps2_signal_count (filter (\<lambda>s. ps2_probe_scope s = lit ''host'') ss))
     else if scope = ''memory'' then count_signal_keys ss memory_signal_keys
     else if scope = ''gpu'' then count_signal_keys ss gpu_signal_keys else 0)"

definition run_runtime_native_backend_probe :: "backend_manifest \<Rightarrow> host_snapshot option \<Rightarrow> probe_report" where
  "run_runtime_native_backend_probe m host =
    (let ss = number_with (probe_entry m host) (bm_entries m)
     in \<lparr>pr_mode = lit ''runtime-native-backend-probe-v0.56'', pr_dry_run = True, pr_would_modify_system = False,
       pr_execution_guard = lit ''read-only-observe'', pr_source_manifest_policy = bm_manifest_policy m,
       pr_host_snapshot_loaded = (host \<noteq> None), pr_host_profile = map_option hs_host_profile host, pr_probe_policy = probe_policy ss,
       pr_step_count = length ss, pr_probed_count = count_if ps2_probed ss, pr_blocked_count = count_if ps2_blocked ss,
       pr_readonly_probe_count = count_probe_status ss ''executed-readonly-host-snapshot-probe'',
       pr_advisory_probe_count = count_probe_status ss ''executed-advisory-contract-probe'',
       pr_native_blocked_probe_count = count_probe_status ss ''blocked-native-backend-probe'',
       pr_missing_host_snapshot_count = count_probe_status ss ''blocked-missing-host-snapshot'',
       pr_host_signal_count = count_signal_scope ss ''host'', pr_memory_signal_count = count_signal_scope ss ''memory'',
       pr_gpu_signal_count = count_signal_scope ss ''gpu'', pr_steps = ss\<rparr>)"

section \<open>Readiness\<close>

record readiness_assessment =
  ra_assessment_id :: pystr
  ra_source_step_id :: pystr
  ra_backend_id :: pystr
  ra_control_surface :: pystr
  ra_readiness_status :: pystr
  ra_readiness_score :: int
  ra_risk_level :: pystr
  ra_signal_quality :: pystr
  ra_native_action_allowed :: bool
  ra_would_modify_system :: bool
  ra_blocker_count :: nat
  ra_blockers :: "pystr list"
  ra_signal_count :: nat
  ra_required_next_evidence :: "pystr list"
  ra_recommended_next_step :: pystr
  ra_reason :: pystr

definition readiness_assessment_to_dict :: "readiness_assessment \<Rightarrow> pyval" where
  "readiness_assessment_to_dict x = PDict
    [(lit ''assessment_id'', PStr (ra_assessment_id x)), (lit ''source_step_id'', PStr (ra_source_step_id x)),
     (lit ''backend_id'', PStr (ra_backend_id x)), (lit ''control_surface'', PStr (ra_control_surface x)),
     (lit ''readiness_status'', PStr (ra_readiness_status x)), (lit ''readiness_score'', PInt (ra_readiness_score x)),
     (lit ''risk_level'', PStr (ra_risk_level x)), (lit ''signal_quality'', PStr (ra_signal_quality x)),
     (lit ''native_action_allowed'', PBool (ra_native_action_allowed x)),
     (lit ''would_modify_system'', PBool (ra_would_modify_system x)), (lit ''blocker_count'', PInt (int (ra_blocker_count x))),
     (lit ''blockers'', str_list (ra_blockers x)), (lit ''signal_count'', PInt (int (ra_signal_count x))),
     (lit ''required_next_evidence'', str_list (ra_required_next_evidence x)),
     (lit ''recommended_next_step'', PStr (ra_recommended_next_step x)), (lit ''reason'', PStr (ra_reason x))]"

record readiness_report =
  rr_mode :: pystr
  rr_dry_run :: bool
  rr_would_modify_system :: bool
  rr_execution_guard :: pystr
  rr_source_probe_policy :: pystr
  rr_readiness_policy :: pystr
  rr_native_action_allowed :: bool
  rr_assessment_count :: nat
  rr_ready_observation_count :: nat
  rr_advisory_ready_count :: nat
  rr_needs_evidence_count :: nat
  rr_native_blocked_count :: nat
  rr_high_risk_count :: nat
  rr_total_signal_count :: nat
  rr_cpu_signal_ready :: bool
  rr_memory_signal_ready :: bool
  rr_gpu_signal_ready :: bool
  rr_assessments :: "readiness_assessment list"

definition readiness_report_to_dict :: "readiness_report \<Rightarrow> pyval" where
  "readiness_report_to_dict x = PDict
    [(lit ''mode'', PStr (rr_mode x)), (lit ''dry_run'', PBool (rr_dry_run x)),
     (lit ''would_modify_system'', PBool (rr_would_modify_system x)), (lit ''execution_guard'', PStr (rr_execution_guard x)),
     (lit ''source_probe_policy'', PStr (rr_source_probe_policy x)), (lit ''readiness_policy'', PStr (rr_readiness_policy x)),
     (lit ''native_action_allowed'', PBool (rr_native_action_allowed x)),
     (lit ''assessment_count'', PInt (int (rr_assessment_count x))),
     (lit ''ready_observation_count'', PInt (int (rr_ready_observation_count x))),
     (lit ''advisory_ready_count'', PInt (int (rr_advisory_ready_count x))),
     (lit ''needs_evidence_count'', PInt (int (rr_needs_evidence_count x))),
     (lit ''native_blocked_count'', PInt (int (rr_native_blocked_count x))),
     (lit ''high_risk_count'', PInt (int (rr_high_risk_count x))),
     (lit ''total_signal_count'', PInt (int (rr_total_signal_count x))),
     (lit ''cpu_signal_ready'', PBool (rr_cpu_signal_ready x)),
     (lit ''memory_signal_ready'', PBool (rr_memory_signal_ready x)),
     (lit ''gpu_signal_ready'', PBool (rr_gpu_signal_ready x)),
     (lit ''assessments'', PList (map readiness_assessment_to_dict (rr_assessments x)))]"

definition cpu_signal_ready :: "probe_step \<Rightarrow> bool" where
  "cpu_signal_ready s = (dget (ps2_signals s) ''cpu_logical_count'' \<noteq> PNone)"

definition memory_signal_ready :: "probe_step \<Rightarrow> bool" where
  "memory_signal_ready s = list_all (\<lambda>k. dget (ps2_signals s) k \<noteq> PNone)
    [''total_ram_mb'', ''available_ram_mb'', ''ram_pressure_pct'', ''ram_pressure_class'']"

definition gpu_signal_ready :: "probe_step \<Rightarrow> bool" where
  "gpu_signal_ready s = list_all (\<lambda>k. dget (ps2_signals s) k \<noteq> PNone) [''gpu_count'', ''gpu_class'', ''total_reported_vram_mb'']"

definition host_signal_complete :: "probe_step \<Rightarrow> bool" where
  "host_signal_complete s = (cpu_signal_ready s \<and> memory_signal_ready s \<and> gpu_signal_ready s)"

definition missing_host_signal_groups :: "probe_step \<Rightarrow> pystr list" where
  "missing_host_signal_groups s =
    (if cpu_signal_ready s then [] else [lit ''cpu-signal'']) @ (if memory_signal_ready s then [] else [lit ''memory-signal''])
    @ (if gpu_signal_ready s then [] else [lit ''gpu-vram-signal''])"

definition readiness_status :: "probe_step \<Rightarrow> pystr" where
  "readiness_status s =
    (if ps2_probe_status s = lit ''blocked-native-backend-probe'' then lit ''blocked-native-safety-boundary''
     else if ps2_probe_status s = lit ''blocked-missing-host-snapshot'' then lit ''needs-host-snapshot''
     else if ps2_probe_status s = lit ''executed-readonly-host-snapshot-probe'' then
       (if host_signal_complete s then lit ''ready-readonly-observation'' else lit ''partial-readonly-evidence'')
     else if ps2_probe_status s = lit ''executed-advisory-contract-probe'' then
       (if 5 \<le> ps2_signal_count s then lit ''ready-advisory-loop'' else lit ''partial-advisory-evidence'')
     else lit ''blocked-advisory-evidence'')"

definition readiness_score :: "probe_step \<Rightarrow> pystr \<Rightarrow> int" where
  "readiness_score s status =
    (if status = lit ''ready-readonly-observation'' then 80 else if status = lit ''ready-advisory-loop'' then 70
     else if status \<in> {lit ''partial-readonly-evidence'', lit ''partial-advisory-evidence''}
       then min (45 + int (ps2_signal_count s) * 3) 65
     else if status = lit ''needs-host-snapshot'' then 10 else if status = lit ''blocked-native-safety-boundary'' then 0 else 20)"

definition risk_level :: "pystr \<Rightarrow> int \<Rightarrow> pystr" where
  "risk_level status score =
    (if status = lit ''blocked-native-safety-boundary'' then lit ''high''
     else if starts_with (lit ''partial'') status \<or> status = lit ''needs-host-snapshot'' then lit ''medium''
     else if 70 \<le> score then lit ''low'' else lit ''medium'')"

definition signal_quality :: "probe_step \<Rightarrow> pystr \<Rightarrow> pystr" where
  "signal_quality s status =
    (if status = lit ''blocked-native-safety-boundary'' then lit ''blocked'' else if ps2_signal_count s = 0 then lit ''none''
     else if starts_with (lit ''partial'') status then lit ''partial'' else lit ''sufficient'')"

definition readiness_blockers :: "probe_step \<Rightarrow> pystr \<Rightarrow> pystr list" where
  "readiness_blockers s status = ps2_blocked_by s
    @ (if status = lit ''partial-readonly-evidence'' then missing_host_signal_groups s else [])
    @ (if status = lit ''partial-advisory-evidence'' then [lit ''daemon-contract-signals''] else [])"

definition required_next_evidence :: "probe_step \<Rightarrow> pystr \<Rightarrow> pystr list" where
  "required_next_evidence s status =
    (if status = lit ''blocked-native-safety-boundary''
       then [lit ''native-backend-implementation'', lit ''privilege-model'', lit ''safety-review'']
     else if status = lit ''needs-host-snapshot'' then [lit ''host-capability-snapshot'']
     else if status = lit ''partial-readonly-evidence'' then missing_host_signal_groups s
     else if status = lit ''partial-advisory-evidence'' then [lit ''daemon-contract-signals''] else [])"

definition recommended_next_step :: "pystr \<Rightarrow> pystr" where
  "recommended_next_step status =
    (if status = lit ''ready-readonly-observation'' then lit ''continue-readonly-telemetry-loop''
     else if status = lit ''ready-advisory-loop'' then lit ''continue-advisory-daemon-loop''
     else if status = lit ''blocked-native-safety-boundary'' then lit ''keep-native-control-blocked''
     else if status = lit ''needs-host-snapshot'' then lit ''collect-host-snapshot-before-control''
     else lit ''collect-more-readonly-evidence'')"

definition readiness_reason :: "probe_step \<Rightarrow> pystr \<Rightarrow> int \<Rightarrow> pystr" where
  "readiness_reason s status score =
    (if status = lit ''blocked-native-safety-boundary''
       then lit ''Native surface remains blocked before host mutation; readiness score '' @ show_int score @ lit ''.''
     else if status = lit ''needs-host-snapshot''
       then lit ''Read-only readiness cannot be assessed until host capability evidence exists; readiness score '' @ show_int score @ lit ''.''
     else lit ''Probe status '' @ ps2_probe_status s @ lit '' produced '' @ show_int (int (ps2_signal_count s))
       @ lit '' signals; readiness score '' @ show_int score @ lit ''.'')"

definition assess_probe_step :: "nat \<Rightarrow> probe_step \<Rightarrow> readiness_assessment" where
  "assess_probe_step index s =
    (let status = readiness_status s; score = readiness_score s status; blockers = readiness_blockers s status
     in \<lparr>ra_assessment_id = lit ''native.readiness.'' @ index3 index, ra_source_step_id = ps2_step_id s, ra_backend_id = ps2_backend_id s,
       ra_control_surface = ps2_control_surface s, ra_readiness_status = status, ra_readiness_score = score,
       ra_risk_level = risk_level status score, ra_signal_quality = signal_quality s status, ra_native_action_allowed = False,
       ra_would_modify_system = False, ra_blocker_count = length blockers, ra_blockers = blockers,
       ra_signal_count = ps2_signal_count s, ra_required_next_evidence = required_next_evidence s status,
       ra_recommended_next_step = recommended_next_step status, ra_reason = readiness_reason s status score\<rparr>)"

definition count_readiness_status :: "readiness_assessment list \<Rightarrow> string \<Rightarrow> nat" where
  "count_readiness_status as status = count_if (\<lambda>a. ra_readiness_status a = lit status) as"

definition needs_evidence :: "readiness_assessment \<Rightarrow> bool" where
  "needs_evidence a \<longleftrightarrow> ra_readiness_status a \<in> {lit ''needs-host-snapshot'', lit ''partial-readonly-evidence'', lit ''partial-advisory-evidence''}"

definition readiness_policy :: "readiness_assessment list \<Rightarrow> pystr" where
  "readiness_policy as =
    (let native = (\<exists>a \<in> set as. ra_readiness_status a = lit ''blocked-native-safety-boundary'');
         readonly = (\<exists>a \<in> set as. ra_readiness_status a = lit ''ready-readonly-observation'');
         advisory = (\<exists>a \<in> set as. ra_readiness_status a = lit ''ready-advisory-loop'')
     in if native \<and> (readonly \<or> advisory) then lit ''continue-safe-observation-hold-native''
        else if native then lit ''hold-native-until-safety-review''
        else if \<exists>a \<in> set as. needs_evidence a then lit ''collect-readonly-evidence''
        else if readonly then lit ''readonly-evidence-ready'' else if advisory then lit ''advisory-loop-ready'' else lit ''observe'')"

definition assess_runtime_native_backend_readiness :: "probe_report \<Rightarrow> readiness_report" where
  "assess_runtime_native_backend_readiness p =
    (let as = number_with assess_probe_step (pr_steps p)
     in \<lparr>rr_mode = lit ''runtime-native-backend-readiness-v0.57'', rr_dry_run = True, rr_would_modify_system = False,
       rr_execution_guard = lit ''advisory-only'', rr_source_probe_policy = pr_probe_policy p,
       rr_readiness_policy = readiness_policy as, rr_native_action_allowed = False, rr_assessment_count = length as,
       rr_ready_observation_count = count_readiness_status as ''ready-readonly-observation'',
       rr_advisory_ready_count = count_readiness_status as ''ready-advisory-loop'', rr_needs_evidence_count = count_if needs_evidence as,
       rr_native_blocked_count = count_readiness_status as ''blocked-native-safety-boundary'',
       rr_high_risk_count = count_if (\<lambda>a. ra_risk_level a = lit ''high'') as,
       rr_total_signal_count = sum_list (map ra_signal_count as), rr_cpu_signal_ready = list_ex cpu_signal_ready (pr_steps p),
       rr_memory_signal_ready = (4 \<le> pr_memory_signal_count p), rr_gpu_signal_ready = (3 \<le> pr_gpu_signal_count p),
       rr_assessments = as\<rparr>)"

section \<open>Gate\<close>

record gate_decision =
  gd_decision_id :: pystr
  gd_source_assessment_id :: pystr
  gd_backend_id :: pystr
  gd_control_surface :: pystr
  gd_gate_status :: pystr
  gd_gate_action :: pystr
  gd_promotion_scope :: pystr
  gd_advance_allowed :: bool
  gd_native_promotion_allowed :: bool
  gd_would_modify_system :: bool
  gd_blocked :: bool
  gd_blocked_by :: "pystr list"
  gd_readiness_score :: int
  gd_risk_level :: pystr
  gd_required_next_evidence :: "pystr list"
  gd_reason :: pystr

definition gate_decision_to_dict :: "gate_decision \<Rightarrow> pyval" where
  "gate_decision_to_dict x = PDict
    [(lit ''decision_id'', PStr (gd_decision_id x)), (lit ''source_assessment_id'', PStr (gd_source_assessment_id x)),
     (lit ''backend_id'', PStr (gd_backend_id x)), (lit ''control_surface'', PStr (gd_control_surface x)),
     (lit ''gate_status'', PStr (gd_gate_status x)), (lit ''gate_action'', PStr (gd_gate_action x)),
     (lit ''promotion_scope'', PStr (gd_promotion_scope x)), (lit ''advance_allowed'', PBool (gd_advance_allowed x)),
     (lit ''native_promotion_allowed'', PBool (gd_native_promotion_allowed x)),
     (lit ''would_modify_system'', PBool (gd_would_modify_system x)), (lit ''blocked'', PBool (gd_blocked x)),
     (lit ''blocked_by'', str_list (gd_blocked_by x)), (lit ''readiness_score'', PInt (gd_readiness_score x)),
     (lit ''risk_level'', PStr (gd_risk_level x)), (lit ''required_next_evidence'', str_list (gd_required_next_evidence x)),
     (lit ''reason'', PStr (gd_reason x))]"

record backend_gate =
  gk_mode :: pystr
  gk_dry_run :: bool
  gk_would_modify_system :: bool
  gk_execution_guard :: pystr
  gk_source_readiness_policy :: pystr
  gk_gate_policy :: pystr
  gk_native_promotion_allowed :: bool
  gk_decision_count :: nat
  gk_advance_count :: nat
  gk_blocked_count :: nat
  gk_native_blocked_count :: nat
  gk_evidence_blocked_count :: nat
  gk_high_risk_count :: nat
  gk_decisions :: "gate_decision list"

definition backend_gate_to_dict :: "backend_gate \<Rightarrow> pyval" where
  "backend_gate_to_dict x = PDict
    [(lit ''mode'', PStr (gk_mode x)), (lit ''dry_run'', PBool (gk_dry_run x)),
     (lit ''would_modify_system'', PBool (gk_would_modify_system x)), (lit ''execution_guard'', PStr (gk_execution_guard x)),
     (lit ''source_readiness_policy'', PStr (gk_source_readiness_policy x)), (lit ''gate_policy'', PStr (gk_gate_policy x)),
     (lit ''native_promotion_allowed'', PBool (gk_native_promotion_allowed x)),
     (lit ''decision_count'', PInt (int (gk_decision_count x))), (lit ''advance_count'', PInt (int (gk_advance_count x))),
     (lit ''blocked_count'', PInt (int (gk_blocked_count x))),
     (lit ''native_blocked_count'', PInt (int (gk_native_blocked_count x))),
     (lit ''evidence_blocked_count'', PInt (int (gk_evidence_blocked_count x))),
     (lit ''high_risk_count'', PInt (int (gk_high_risk_count x))),
     (lit ''decisions'', PList (map gate_decision_to_dict (gk_decisions x)))]"

definition decision_gate_status :: "readiness_assessment \<Rightarrow> pystr" where
  "decision_gate_status a =
    (if ra_readiness_status a = lit ''ready-readonly-observation'' then lit ''allow-readonly-observation''
     else if ra_readiness_status a = lit ''ready-advisory-loop'' then lit ''allow-advisory-loop''
     else if ra_readiness_status a = lit ''blocked-native-safety-boundary'' then lit ''block-native-promotion''
     else lit ''block-for-evidence'')"

definition decision_gate_action :: "pystr \<Rightarrow> pystr" where
  "decision_gate_action s =
    (if s = lit ''allow-readonly-observation'' then lit ''continue-readonly-telemetry''
     else if s = lit ''allow-advisory-loop'' then lit ''continue-advisory-daemon-loop''
     else if s = lit ''block-native-promotion'' then lit ''hold-native-control'' else lit ''collect-required-evidence'')"

definition decision_promotion_scope :: "pystr \<Rightarrow> pystr" where
  "decision_promotion_scope s =
    (if s = lit ''allow-readonly-observation'' then lit ''read-only-observation''
     else if s = lit ''allow-advisory-loop'' then lit ''advisory-loop''
     else if s = lit ''block-native-promotion'' then lit ''native-control'' else lit ''evidence-gathering'')"

definition decision_blockers :: "readiness_assessment \<Rightarrow> pystr \<Rightarrow> pystr list" where
  "decision_blockers a s =
    (let blockers = ra_blockers a @ (if s = lit ''block-native-promotion'' then [lit ''native-promotion-disabled''] else [])
     in blockers @ (if s = lit ''block-for-evidence'' \<and> blockers = [] then ra_required_next_evidence a else []))"

definition decision_reason :: "readiness_assessment \<Rightarrow> pystr \<Rightarrow> pystr" where
  "decision_reason a s =
    (if s = lit ''allow-readonly-observation''
       then lit ''Read-only host evidence is sufficient for observation, but native promotion remains disabled.''
     else if s = lit ''allow-advisory-loop''
       then lit ''Advisory daemon contract has enough evidence to continue without mutating the host.''
     else if s = lit ''block-native-promotion''
       then lit ''Native control is explicitly blocked until a real backend, privilege model, and safety review exist.''
     else lit ''Readiness status '' @ ra_readiness_status a @ lit '' still needs evidence before any promotion gate can advance.'')"

definition build_gate_decision :: "nat \<Rightarrow> readiness_assessment \<Rightarrow> gate_decision" where
  "build_gate_decision index a =
    (let s = decision_gate_status a; blocked = s \<in> {lit ''block-for-evidence'', lit ''block-native-promotion''}
     in \<lparr>gd_decision_id = lit ''native.gate.'' @ index3 index, gd_source_assessment_id = ra_assessment_id a, gd_backend_id = ra_backend_id a,
       gd_control_surface = ra_control_surface a, gd_gate_status = s, gd_gate_action = decision_gate_action s,
       gd_promotion_scope = decision_promotion_scope s, gd_advance_allowed = (\<not> blocked), gd_native_promotion_allowed = False,
       gd_would_modify_system = False, gd_blocked = blocked, gd_blocked_by = decision_blockers a s,
       gd_readiness_score = ra_readiness_score a, gd_risk_level = ra_risk_level a,
       gd_required_next_evidence = ra_required_next_evidence a, gd_reason = decision_reason a s\<rparr>)"

definition gate_policy :: "gate_decision list \<Rightarrow> pystr" where
  "gate_policy ds =
    (let native = (\<exists>d \<in> set ds. gd_gate_status d = lit ''block-native-promotion'');
         evidence = (\<exists>d \<in> set ds. gd_gate_status d = lit ''block-for-evidence'');
         readonly = (\<exists>d \<in> set ds. gd_gate_status d = lit ''allow-readonly-observation'');
         advisory = (\<exists>d \<in> set ds. gd_gate_status d = lit ''allow-advisory-loop'')
     in if native \<and> (readonly \<or> advisory) then lit ''advance-safe-paths-hold-native'' else if native then lit ''hold-native-promotion''
        else if evidence then lit ''collect-evidence-before-promotion'' else if readonly then lit ''advance-readonly-observation''
        else if advisory then lit ''advance-advisory-loop'' else lit ''observe'')"

definition build_runtime_native_backend_gate :: "readiness_report \<Rightarrow> backend_gate" where
  "build_runtime_native_backend_gate r =
    (let ds = number_with build_gate_decision (rr_assessments r)
     in \<lparr>gk_mode = lit ''runtime-native-backend-gate-v0.58'', gk_dry_run = True, gk_would_modify_system = False,
       gk_execution_guard = lit ''advisory-only'', gk_source_readiness_policy = rr_readiness_policy r, gk_gate_policy = gate_policy ds,
       gk_native_promotion_allowed = False, gk_decision_count = length ds, gk_advance_count = count_if gd_advance_allowed ds,
       gk_blocked_count = count_if gd_blocked ds,
       gk_native_blocked_count = count_if (\<lambda>d. gd_gate_status d = lit ''block-native-promotion'') ds,
       gk_evidence_blocked_count = count_if (\<lambda>d. gd_gate_status d = lit ''block-for-evidence'') ds,
       gk_high_risk_count = count_if (\<lambda>d. gd_risk_level d = lit ''high'') ds, gk_decisions = ds\<rparr>)"

end
