(* ===== verification/Daemon_Chain.thy ===== *)
theory Daemon_Chain
  imports Native_Gate Supervisor
begin

text \<open>
  What the daemon does with its last cycle (\<^verbatim>\<open>run_runtime_daemon\<close> in \<^verbatim>\<open>src/fluidgateway/daemon.py\<close>): from the decision
  plan to the promotion gate. No work that needs a native backend gets through, and nothing else is held for it.
\<close>

definition daemon_preflight :: "decision_plan \<Rightarrow> backend_preflight" where
  "daemon_preflight p =
    (let q = build_runtime_daemon_action_queue p in build_runtime_native_backend_preflight q (dry_run_runtime_daemon_action_queue q))"

definition daemon_gate :: "runtime_state \<Rightarrow> host_snapshot option \<Rightarrow> decision_plan \<Rightarrow> backend_gate res" where
  "daemon_gate s host p =
    (let q = build_runtime_daemon_action_queue p; e = dry_run_runtime_daemon_action_queue q;
         b = build_runtime_native_backend_preflight q e
     in ebind (build_runtime_daemon_arbitration_plan s p e b) (\<lambda>a.
        let c = dry_run_runtime_daemon_control_plan (build_runtime_daemon_control_plan s a b);
            m = build_runtime_native_backend_manifest c b host;
            r = assess_runtime_native_backend_readiness (run_runtime_native_backend_probe m host)
        in Inr (build_runtime_native_backend_gate r)))"

section \<open>Requirements\<close>

lemma last_by_distinct: "distinct (map key xs) \<Longrightarrow> x \<in> set xs \<Longrightarrow> last_by key xs (key x) = Some x"
  unfolding last_by_def by (rule map_of_is_SomeI) (simp_all add: comp_def flip: rev_map)

lemma number_with_mem: "x \<in> set xs \<Longrightarrow> \<exists>i. f i x \<in> set (number_with f xs)"
proof -
  assume "x \<in> set xs"
  then obtain k where "k < length xs" "xs ! k = x" by (auto simp: in_set_conv_nth)
  then have "(Suc k, x) \<in> set (enumerate 1 xs)" by (simp add: in_set_enumerate_eq)
  then show ?thesis unfolding number_with_def by force
qed

lemma number_with_comp: "number_with f (number_with g xs) = number_with (\<lambda>i x. f i (g i x)) xs"
proof -
  have "enumerate n (map (\<lambda>(i, x). g i x) (enumerate n xs)) = map (\<lambda>(i, x). (i, g i x)) (enumerate n xs)" for n
    by (induction xs arbitrary: n) simp_all
  then show ?thesis by (simp add: number_with_def case_prod_beta comp_def)
qed

lemma map_number_with_comp: "map d (number_with g xs) = number_with (\<lambda>i x. d (g i x)) xs"
  by (simp add: number_with_def case_prod_beta comp_def)

lemma map_number_with_cong:
  assumes "\<And>i x. x \<in> set xs \<Longrightarrow> g (f i x) = h x"
  shows "map g (number_with f xs) = map h xs"
proof -
  have "map g (map (\<lambda>(i, x). f i x) (enumerate n xs)) = map h xs" for n
    using assms by (induction xs arbitrary: n) simp_all
  then show ?thesis by (simp add: number_with_def)
qed

text \<open>What blocks an action: the four blockers of native work, or nothing.\<close>

definition native_blockers :: "pystr list" where
  "native_blockers = [lit ''action-queue'', lit ''native-backend'', lit ''privilege'', lit ''safety-review'']"

definition native_work :: "daemon_action \<Rightarrow> bool" where
  "native_work a \<longleftrightarrow> da_action a \<in> {lit ''tighten-memory-residency-observation'', lit ''prefer-low-residency-and-short-hot-path''}"

lemma shape_native:
  "ah_requires_native_backend (shape_of_action a)
    \<longleftrightarrow> a \<in> {lit ''tighten-memory-residency-observation'', lit ''prefer-low-residency-and-short-hot-path''}"
  "ah_requires_privilege (shape_of_action a) = ah_requires_native_backend (shape_of_action a)"
  "ah_blocked (shape_of_action a) = ah_requires_native_backend (shape_of_action a)"
  by (simp_all add: shape_of_action_def readonly_shape_def advisory_shape_def native_blocked_shape_def)

lemma queued_blockers:
  "preflight_blockers (queued_action_from_decision i a) = (if native_work a then native_blockers else [])"
  "qa_requires_native_backend (queued_action_from_decision i a) = native_work a"
  "qa_source_action_id (queued_action_from_decision i a) = da_action_id a"
  by (simp_all add: queued_action_from_decision_def preflight_blockers_def shape_native native_work_def native_blockers_def Let_def)

lemma requirement_fields:
  "br_source_action_id (requirement_from_action a r) = qa_source_action_id a"
  "br_blocked_by (requirement_from_action a r) = preflight_blockers a"
  "br_requires_native_backend (requirement_from_action a r) = qa_requires_native_backend a"
  by (simp_all add: requirement_from_action_def Let_def)

lemma preflight_requirement:
  assumes "distinct (map da_action_id (dl_actions p))" and "a \<in> set (dl_actions p)"
  shows "\<exists>r. last_by br_source_action_id (bp_requirements (daemon_preflight p)) (da_action_id a) = Some r
    \<and> br_blocked_by r = (if native_work a then native_blockers else []) \<and> br_requires_native_backend r = native_work a"
proof -
  let ?q = "build_runtime_daemon_action_queue p"
  let ?f = "\<lambda>x. requirement_from_action x (last_by ar_queue_id (ae_results (dry_run_runtime_daemon_action_queue ?q)) (qa_queue_id x))"
  have rs: "bp_requirements (daemon_preflight p) = map ?f (number_with queued_action_from_decision (dl_actions p))"
    by (simp add: daemon_preflight_def build_runtime_native_backend_preflight_def build_runtime_daemon_action_queue_def Let_def)
  have "map br_source_action_id (bp_requirements (daemon_preflight p)) = map da_action_id (dl_actions p)"
    unfolding rs map_map comp_def requirement_fields by (rule map_number_with) (rule queued_blockers)
  moreover obtain i where i: "?f (queued_action_from_decision i a) \<in> set (bp_requirements (daemon_preflight p))"
    unfolding rs using number_with_mem [OF assms(2), of queued_action_from_decision] by auto
  ultimately have "last_by br_source_action_id (bp_requirements (daemon_preflight p)) (br_source_action_id (?f (queued_action_from_decision i a)))
      = Some (?f (queued_action_from_decision i a))"
    using assms(1) by (intro last_by_distinct) simp_all
  then show ?thesis by (simp add: requirement_fields queued_blockers)
qed

section \<open>From a lane to the gate\<close>

definition lane_backend :: "daemon_action \<Rightarrow> pystr" where
  "lane_backend a = (if native_work a then lit ''native-host-control-backend''
     else if da_domain a = lit ''telemetry'' then lit ''python-stdlib-readonly-probe'' else lit ''daemon-advisory-loop'')"

lemma intent_of_lane:
  assumes "reqs (al_source_action_id l) = Some r" and "br_blocked_by r = (if native_work a then native_blockers else [])"
    and "br_requires_native_backend r = native_work a" and "al_domain l = da_domain a"
  shows "cs_blocked_by (dry_run_control_intent (control_intent_of reqs i l)) = (if native_work a then native_blockers else [])"
    and "cs_blocked (dry_run_control_intent (control_intent_of reqs i l)) = native_work a"
    and "cs_backend_requirement (dry_run_control_intent (control_intent_of reqs i l)) = lane_backend a"
  using assms by (simp_all add: dry_run_control_intent_def control_intent_of_def intent_backend_def lane_backend_def native_blockers_def Let_def)

lemma entry_of_step:
  assumes "cs_blocked_by s = (if native_work a then native_blockers else [])" and "cs_blocked s = native_work a"
    and "cs_backend_requirement s = lane_backend a"
  shows "mf_requires_native_backend (manifest_entry_of host i s) = native_work a" and "mf_blocked (manifest_entry_of host i s) = native_work a"
    and "mf_backend_id (manifest_entry_of host i s) = lane_backend a"
  using assms by (simp_all add: manifest_entry_of_def backend_id_for_step_def lane_backend_def native_blockers_def Let_def)

text \<open>A snapshot with all the signals the observation needs.\<close>

definition host_complete :: "host_snapshot option \<Rightarrow> bool" where
  "host_complete host = (case host of None \<Rightarrow> False
     | Some h \<Rightarrow> hs_cpu_logical_count h \<noteq> None \<and> hs_total_ram_mb h \<noteq> None \<and> hs_available_ram_mb h \<noteq> None
         \<and> hs_ram_pressure_pct h \<noteq> None \<and> hs_total_reported_vram_mb h \<noteq> None)"

lemma option_signals [simp]: "opt_float x = PNone \<longleftrightarrow> x = None" "opt_int n = PNone \<longleftrightarrow> n = None"
  by (cases x; simp add: opt_float_def) (cases n; simp add: opt_int_def)

lemma probe_fields [simp]:
  "ps2_probe_status (probe_step_of i e sc ac st pr bl si re) = lit st" "ps2_signals (probe_step_of i e sc ac st pr bl si re) = si"
  "ps2_signal_count (probe_step_of i e sc ac st pr bl si re) = count_known_signals si"
  by (simp_all add: probe_step_of_def)

lemma host_signals:
  "host_signal_complete (probe_step_of i e sc ac st pr bl (host_probe_signals h) re) = host_complete (Some h)"
  by (simp add: host_signal_complete_def cpu_signal_ready_def memory_signal_ready_def gpu_signal_ready_def host_probe_signals_def
    dget_def dget_or_def host_complete_def)

lemma advisory_signals: "5 \<le> count_known_signals (advisory_probe_signals e m host)"
  by (simp add: count_known_signals_def advisory_probe_signals_def)

text \<open>The gate's answer to an action of a domain.\<close>

definition gate_answer :: "host_snapshot option \<Rightarrow> pystr \<Rightarrow> pystr" where
  "gate_answer host domain =
    (if domain = lit ''memory'' then lit ''block-native-promotion''
     else if domain = lit ''telemetry'' then (if host_complete host then lit ''allow-readonly-observation'' else lit ''block-for-evidence'')
     else lit ''allow-advisory-loop'')"

lemma gate_of_readiness:
  "decision_gate_status (assess_probe_step i s)
    = (if readiness_status s = lit ''ready-readonly-observation'' then lit ''allow-readonly-observation''
       else if readiness_status s = lit ''ready-advisory-loop'' then lit ''allow-advisory-loop''
       else if readiness_status s = lit ''blocked-native-safety-boundary'' then lit ''block-native-promotion'' else lit ''block-for-evidence'')"
  by (simp add: decision_gate_status_def assess_probe_step_def Let_def)

lemma gate_of_entry:
  assumes "mf_requires_native_backend e = native_work a" and "mf_blocked e = native_work a" and "mf_backend_id e = lane_backend a"
    and "native_work a \<longleftrightarrow> da_domain a = lit ''memory''"
  shows "decision_gate_status (assess_probe_step j (probe_entry m host i e)) = gate_answer host (da_domain a)"
proof (cases "native_work a")
  case True
  then show ?thesis using assms
    by (simp add: gate_of_readiness probe_entry_def blocked_native_step_def readiness_status_def gate_answer_def)
next
  case False
  then show ?thesis
  proof (cases "da_domain a = lit ''telemetry''")
    case True
    then show ?thesis using assms False
      by (cases host) (simp_all add: gate_of_readiness probe_entry_def readonly_host_step_def readiness_status_def gate_answer_def
        lane_backend_def host_signals host_complete_def [of None])
  next
    case other: False
    then show ?thesis using assms False advisory_signals
      by (simp add: gate_of_readiness probe_entry_def advisory_contract_step_def readiness_status_def gate_answer_def lane_backend_def)
  qed
qed


lemma gate_decision_fields:
  "gd_gate_status (build_gate_decision i a) = decision_gate_status a"
  "gd_blocked (build_gate_decision i a) \<longleftrightarrow> decision_gate_status a \<in> {lit ''block-for-evidence'', lit ''block-native-promotion''}"
  "gd_advance_allowed (build_gate_decision i a) = (\<not> gd_blocked (build_gate_decision i a))"
  "\<not> gd_native_promotion_allowed (build_gate_decision i a) \<and> \<not> gd_would_modify_system (build_gate_decision i a)"
  by (simp_all add: build_gate_decision_def Let_def)

text \<open>A plan whose actions have different ids and need a native backend exactly in the memory domain.\<close>

definition proper_actions :: "daemon_action list \<Rightarrow> bool" where
  "proper_actions as \<longleftrightarrow> distinct (map da_action_id as) \<and> list_all (\<lambda>a. native_work a \<longleftrightarrow> da_domain a = lit ''memory'') as"

lemma gate_answers:
  assumes "proper_actions (dl_actions p)" and "daemon_gate s host p = Inr g"
  shows "mset (map gd_gate_status (gk_decisions g)) = mset (map (gate_answer host \<circ> da_domain) (dl_actions p))"
proof -
  let ?b = "daemon_preflight p" and ?as = "dl_actions p"
  obtain score where score: "pressure_score s = Inr score"
    using assms(2) by (auto simp: daemon_gate_def build_runtime_daemon_arbitration_plan_def ebind_eq_Inr Let_def)
  let ?reqs = "last_by br_source_action_id (bp_requirements ?b)" and ?lane = "arbitration_lane_of score ?b"
  let ?ls = "sorted_lanes (number_with ?lane ?as)"
  obtain m where ds: "gk_decisions g = number_with (\<lambda>i l. build_gate_decision i (assess_probe_step i (probe_entry m host i
      (manifest_entry_of host i (dry_run_control_intent (control_intent_of ?reqs i l)))))) ?ls"
    using assms(2) score
    by (fastforce simp: daemon_gate_def build_runtime_daemon_arbitration_plan_def daemon_preflight_def Let_def
      build_runtime_native_backend_gate_def assess_runtime_native_backend_readiness_def run_runtime_native_backend_probe_def
      build_runtime_native_backend_manifest_def dry_run_runtime_daemon_control_plan_def build_runtime_daemon_control_plan_def
      number_with_comp map_number_with_comp)
  have "map gd_gate_status (gk_decisions g) = map (gate_answer host \<circ> al_domain) ?ls" unfolding ds
  proof (rule map_number_with_cong)
    fix i l assume "l \<in> set ?ls"
    then have "l \<in> set (number_with ?lane ?as)" by (simp add: sorted_lanes_def)
    from set_number_with [OF this] obtain k a where a: "a \<in> set ?as" and l: "l = ?lane k a" by blast
    have ids: "al_source_action_id l = da_action_id a" "al_domain l = da_domain a" by (simp_all add: l arbitration_lane_of_def Let_def)
    obtain r where r: "?reqs (al_source_action_id l) = Some r" "br_blocked_by r = (if native_work a then native_blockers else [])"
      "br_requires_native_backend r = native_work a"
      using preflight_requirement [OF _ a] assms(1) unfolding proper_actions_def ids(1) by blast
    have native: "native_work a \<longleftrightarrow> da_domain a = lit ''memory''"
      using assms(1) a by (simp add: proper_actions_def list_all_iff)
    note step = intent_of_lane [where reqs = ?reqs and l = l and r = r and a = a and i = i, OF r ids(2)]
    note entry = entry_of_step [OF step, of host i]
    show "gd_gate_status (build_gate_decision i (assess_probe_step i (probe_entry m host i
        (manifest_entry_of host i (dry_run_control_intent (control_intent_of ?reqs i l)))))) = (gate_answer host \<circ> al_domain) l"
      unfolding gate_decision_fields(1) comp_def ids(2)
      by (rule gate_of_entry [OF entry native])
  qed
  moreover have "mset (map al_domain ?ls) = mset (map da_domain ?as)"
  proof -
    have "mset (map al_domain ?ls) = mset (map al_domain (number_with ?lane ?as))" by (simp add: sorted_lanes_def)
    also have "map al_domain (number_with ?lane ?as) = map da_domain ?as"
      by (rule map_number_with) (simp add: arbitration_lane_of_def Let_def)
    finally show ?thesis .
  qed
  then have "mset (map (gate_answer host) (map al_domain ?ls)) = mset (map (gate_answer host) (map da_domain ?as))"
    unfolding mset_map by (rule arg_cong)
  ultimately show ?thesis by simp
qed

lemma chosen_actions:
  assumes "proper_actions (map snd ps)"
  shows "proper_actions (concat (map (\<lambda>(c, a). if c then [a] else []) ps))"
proof -
  have "concat (map (\<lambda>(c, a). if c then [a] else []) ps) = map snd (filter fst ps)" by (induction ps) auto
  then show ?thesis using assms
    by (auto simp: proper_actions_def list_all_iff comp_def intro: distinct_map_filter)
qed

lemma daemon_actions_proper: "proper_actions (daemon_actions s host x n)"
proof -
  note decided = chosen_actions [of "[(c1, a1), (c2, a2), (c3, a3), (c4, a4), (c5, a5), (c6, a6), (c7, a7)]" for c1 a1 c2 a2 c3 a3 c4 a4 c5 a5 c6 a6 c7 a7,
    unfolded list.map concat.simps prod.case append_Nil2 snd_conv]
  have "proper_actions (decided_actions s host x n)" unfolding decided_actions_def Let_def
    by (rule decided) (simp add: proper_actions_def decision_action_def native_work_def)
  moreover have "proper_actions [decision_action ''daemon.scheduler.preserve-loop'' ''scheduler'' ''next-cycle'' ''low''
      ''preserve-observed-daemon-loop'' ''runtime-daemon'' ''No host or supervisor pressure requires a posture change.'']"
    by (simp add: proper_actions_def decision_action_def native_work_def)
  ultimately show ?thesis by (simp add: daemon_actions_def Let_def)
qed

section \<open>Counts\<close>

lemma count_if_count: "count_if (\<lambda>x. f x = y) xs = count (mset (map f xs)) y"
  by (induction xs) simp_all

lemma count_if_not: "count_if (\<lambda>x. \<not> q x) xs + count_if q xs = length xs"
  by (induction xs) simp_all

lemma count_if_disjoint: "y \<noteq> z \<Longrightarrow> count_if (\<lambda>x. f x \<in> {y, z}) xs = count_if (\<lambda>x. f x = y) xs + count_if (\<lambda>x. f x = z) xs"
  by (induction xs) auto

lemma gate_counts:
  assumes "daemon_gate s host p = Inr g"
  shows "gk_decision_count g = length (gk_decisions g)"
    and "gk_native_blocked_count g = count_if (\<lambda>d. gd_gate_status d = lit ''block-native-promotion'') (gk_decisions g)"
    and "gk_evidence_blocked_count g = count_if (\<lambda>d. gd_gate_status d = lit ''block-for-evidence'') (gk_decisions g)"
    and "gk_blocked_count g = gk_evidence_blocked_count g + gk_native_blocked_count g"
    and "gk_advance_count g + gk_blocked_count g = gk_decision_count g"
    and "list_all (\<lambda>d. \<not> gd_native_promotion_allowed d \<and> \<not> gd_would_modify_system d) (gk_decisions g)"
proof -
  obtain r where g: "g = build_runtime_native_backend_gate r"
    using assms by (auto simp: daemon_gate_def ebind_eq_Inr Let_def)
  let ?ds = "number_with build_gate_decision (rr_assessments r)"
  have ds: "gk_decisions g = ?ds" by (simp add: g build_runtime_native_backend_gate_def Let_def)
  have blocked: "count_if gd_blocked ?ds = count_if (\<lambda>d. gd_gate_status d \<in> {lit ''block-for-evidence'', lit ''block-native-promotion''}) ?ds"
    and advance: "count_if gd_advance_allowed ?ds = count_if (\<lambda>d. \<not> gd_blocked d) ?ds"
    unfolding count_if_def by (intro arg_cong [where f = length] filter_cong refl; use set_number_with in \<open>fastforce simp: gate_decision_fields\<close>)+
  show "gk_decision_count g = length (gk_decisions g)"
    "gk_native_blocked_count g = count_if (\<lambda>d. gd_gate_status d = lit ''block-native-promotion'') (gk_decisions g)"
    "gk_evidence_blocked_count g = count_if (\<lambda>d. gd_gate_status d = lit ''block-for-evidence'') (gk_decisions g)"
    by (simp_all add: g build_runtime_native_backend_gate_def Let_def)
  show "gk_blocked_count g = gk_evidence_blocked_count g + gk_native_blocked_count g"
    using blocked count_if_disjoint [of "lit ''block-for-evidence''" "lit ''block-native-promotion''" gd_gate_status ?ds]
    by (simp add: g build_runtime_native_backend_gate_def Let_def)
  show "gk_advance_count g + gk_blocked_count g = gk_decision_count g"
    using advance count_if_not [of gd_blocked ?ds] by (simp add: g build_runtime_native_backend_gate_def Let_def)
  show "list_all (\<lambda>d. \<not> gd_native_promotion_allowed d \<and> \<not> gd_would_modify_system d) (gk_decisions g)"
    unfolding list_all_iff ds using set_number_with gate_decision_fields(4) by fastforce
qed

lemma gate_answer_iff:
  "gate_answer host d = lit ''block-native-promotion'' \<longleftrightarrow> d = lit ''memory''"
  "gate_answer host d = lit ''block-for-evidence'' \<longleftrightarrow> d = lit ''telemetry'' \<and> \<not> host_complete host"
  by (simp_all add: gate_answer_def)

text \<open>C9: Whatever the final state and the host, the gate at the end of the daemon's chain decides once on every action of the
  decision plan; it holds exactly the actions of the memory domain, which need a native backend, for good, and the telemetry actions
  until the host's signals are complete; everything else advances, and no decision allows native promotion or modifies the system.\<close>

theorem daemon_gate_holds_native:
  assumes "daemon_gate s host (build_runtime_daemon_decision_plan s host x v n) = Inr g"
  shows "let as = daemon_actions s host x n in
    gk_decision_count g = length as
    \<and> gk_native_blocked_count g = count_action_domain as ''memory''
    \<and> gk_evidence_blocked_count g = (if host_complete host then 0 else count_action_domain as ''telemetry'')
    \<and> gk_advance_count g + gk_native_blocked_count g + gk_evidence_blocked_count g = length as
    \<and> list_all (\<lambda>d. \<not> gd_native_promotion_allowed d \<and> \<not> gd_would_modify_system d) (gk_decisions g)"
proof -
  let ?as = "daemon_actions s host x n"
  have as: "dl_actions (build_runtime_daemon_decision_plan s host x v n) = ?as"
    by (simp add: build_runtime_daemon_decision_plan_def Let_def)
  note answers = gate_answers [OF _ assms, unfolded as, OF daemon_actions_proper]
  have "length (gk_decisions g) = length ?as" using arg_cong [OF answers, of size] by simp
  moreover have "count_if (\<lambda>d. gd_gate_status d = c) (gk_decisions g) = count_if (\<lambda>a. gate_answer host (da_domain a) = c) ?as" for c
    using answers by (simp only: count_if_count comp_def)
  ultimately show ?thesis using gate_counts [OF assms]
    by (simp add: Let_def gate_answer_iff count_action_domain_def)
qed

lemma demo_score: "pressure_score demo_calm = Inr 5"
proof -
  have "quarter_units (Fin 0) = Inr 0" "fless (Fin 8) (Fin 16)" by code_simp+
  then show ?thesis by (simp add: pressure_score_def demo_calm_def)
qed

theorem daemon_gate_holds_native_witness:
  "\<exists>g. daemon_gate demo_calm None (build_runtime_daemon_decision_plan demo_calm None [] [] 1) = Inr g
    \<and> gk_decision_count g = length (daemon_actions demo_calm None [] 1) \<and> 0 < gk_evidence_blocked_count g"
proof -
  obtain g where g: "daemon_gate demo_calm None (build_runtime_daemon_decision_plan demo_calm None [] [] 1) = Inr g"
    by (simp add: daemon_gate_def build_runtime_daemon_arbitration_plan_def demo_score Let_def)
  have "0 < count_action_domain (daemon_actions demo_calm None [] 1) ''telemetry''"
    by (simp add: daemon_actions_def decided_actions_def count_action_domain_def decision_action_def Let_def)
  with daemon_gate_holds_native [OF g] g show ?thesis by (simp add: Let_def host_complete_def)
qed

end
