(* ===== verification/Daemon_Loop.thy ===== *)
theory Daemon_Loop
  imports Adapter_Props Daemon_Chain
begin

text \<open>
  The daemon (\<^verbatim>\<open>run_runtime_daemon\<close> in \<^verbatim>\<open>src/fluidgateway/daemon.py\<close>): it replays one event
  stream per cycle through an adapter session, hands the state of each cycle to the next with the chain of
  decision, queue, preflight, arbitration, control and gate. Reading a file is a parameter: what the path gives in that cycle, the
  numbered objects and the exception that ends them, if any.
\<close>

record daemon_cycle =
  dy_cycle_index :: nat
  dy_events_path :: pystr
  dy_session_id :: pystr
  dy_events_processed :: nat
  dy_lifecycle_events :: nat
  dy_resource_events :: nat
  dy_operation_events :: nat
  dy_previous_cycle_count :: "int option"
  dy_previous_state_digest :: "pystr option"
  dy_current_cycle_count :: int
  dy_transition_trend :: pystr
  dy_supervisor_action :: pystr
  dy_plan_action :: pystr
  dy_execution_action :: pystr
  dy_would_apply_count :: nat
  dy_would_block_count :: nat
  dy_state_digest :: pystr

definition daemon_cycle_to_dict :: "daemon_cycle \<Rightarrow> pyval" where
  "daemon_cycle_to_dict x = PDict
    [(lit ''cycle_index'', PInt (int (dy_cycle_index x))), (lit ''events_path'', PStr (dy_events_path x)),
     (lit ''session_id'', PStr (dy_session_id x)), (lit ''events_processed'', PInt (int (dy_events_processed x))),
     (lit ''lifecycle_events'', PInt (int (dy_lifecycle_events x))),
     (lit ''resource_events'', PInt (int (dy_resource_events x))),
     (lit ''operation_events'', PInt (int (dy_operation_events x))),
     (lit ''previous_cycle_count'', opt_int (dy_previous_cycle_count x)),
     (lit ''previous_state_digest'', opt_str (dy_previous_state_digest x)),
     (lit ''current_cycle_count'', PInt (dy_current_cycle_count x)), (lit ''transition_trend'', PStr (dy_transition_trend x)),
     (lit ''supervisor_action'', PStr (dy_supervisor_action x)), (lit ''plan_action'', PStr (dy_plan_action x)),
     (lit ''execution_action'', PStr (dy_execution_action x)),
     (lit ''would_apply_count'', PInt (int (dy_would_apply_count x))),
     (lit ''would_block_count'', PInt (int (dy_would_block_count x))), (lit ''state_digest'', PStr (dy_state_digest x))]"

record daemon_report =
  dr_mode :: pystr
  dr_dry_run :: bool
  dr_would_modify_system :: bool
  dr_execution_guard :: pystr
  dr_configured_iterations :: int
  dr_cycle_count :: nat
  dr_events_stream_count :: nat
  dr_events_processed :: nat
  dr_lifecycle_events :: nat
  dr_resource_events :: nat
  dr_operation_events :: nat
  dr_initial_state_loaded :: bool
  dr_initial_state_digest :: "pystr option"
  dr_host_snapshot_loaded :: bool
  dr_host_profile :: "pystr option"
  dr_host_manager_hint :: "pystr option"
  dr_final_cycle_count :: int
  dr_final_state_digest :: pystr
  dr_total_would_apply_count :: nat
  dr_total_would_block_count :: nat
  dr_final_execution_action :: pystr
  dr_final_supervisor_action :: pystr
  dr_final_plan_action :: pystr
  dr_daemon_decision_action :: pystr
  dr_daemon_decision_risk_level :: pystr
  dr_daemon_action_queue_policy :: pystr
  dr_daemon_action_blocked_count :: nat
  dr_daemon_action_execution_policy :: pystr
  dr_daemon_action_execution_blocked_count :: nat
  dr_native_backend_policy :: pystr
  dr_native_backend_blocked_count :: nat
  dr_native_promotion_allowed :: bool
  dr_daemon_arbitration_policy :: pystr
  dr_daemon_arbitration_blocked_count :: nat
  dr_daemon_arbitration_pressure_score :: int
  dr_daemon_control_policy :: pystr
  dr_daemon_control_blocked_count :: nat
  dr_daemon_control_ready_count :: nat
  dr_daemon_control_execution_policy :: pystr
  dr_daemon_control_execution_blocked_count :: nat
  dr_daemon_control_execution_executed_count :: nat
  dr_native_backend_manifest_policy :: pystr
  dr_native_backend_manifest_ready_count :: nat
  dr_native_backend_manifest_blocked_count :: nat
  dr_native_backend_probe_policy :: pystr
  dr_native_backend_probe_probed_count :: nat
  dr_native_backend_probe_blocked_count :: nat
  dr_native_backend_readiness_policy :: pystr
  dr_native_backend_readiness_ready_count :: nat
  dr_native_backend_readiness_blocked_count :: nat
  dr_native_backend_readiness_high_risk_count :: nat
  dr_native_backend_gate_policy :: pystr
  dr_native_backend_gate_advance_count :: nat
  dr_native_backend_gate_blocked_count :: nat
  dr_native_backend_gate_native_blocked_count :: nat
  dr_cycles :: "daemon_cycle list"
  dr_final_state :: runtime_state
  dr_host_snapshot :: "host_snapshot option"
  dr_daemon_decision_plan :: decision_plan
  dr_daemon_action_queue :: action_queue
  dr_daemon_action_execution :: action_execution
  dr_native_backend_preflight :: backend_preflight
  dr_daemon_arbitration_plan :: daemon_arbitration
  dr_daemon_control_plan :: control_plan
  dr_daemon_control_execution :: control_execution
  dr_native_backend_manifest :: backend_manifest
  dr_native_backend_probe :: probe_report
  dr_native_backend_readiness :: readiness_report
  dr_native_backend_gate :: backend_gate

definition daemon_report_to_dict :: "daemon_report \<Rightarrow> pyval" where
  "daemon_report_to_dict x = PDict
    [(lit ''mode'', PStr (dr_mode x)), (lit ''dry_run'', PBool (dr_dry_run x)),
     (lit ''would_modify_system'', PBool (dr_would_modify_system x)), (lit ''execution_guard'', PStr (dr_execution_guard x)),
     (lit ''configured_iterations'', PInt (dr_configured_iterations x)), (lit ''cycle_count'', PInt (int (dr_cycle_count x))),
     (lit ''events_stream_count'', PInt (int (dr_events_stream_count x))),
     (lit ''events_processed'', PInt (int (dr_events_processed x))),
     (lit ''lifecycle_events'', PInt (int (dr_lifecycle_events x))),
     (lit ''resource_events'', PInt (int (dr_resource_events x))),
     (lit ''operation_events'', PInt (int (dr_operation_events x))),
     (lit ''initial_state_loaded'', PBool (dr_initial_state_loaded x)),
     (lit ''initial_state_digest'', opt_str (dr_initial_state_digest x)),
     (lit ''host_snapshot_loaded'', PBool (dr_host_snapshot_loaded x)), (lit ''host_profile'', opt_str (dr_host_profile x)),
     (lit ''host_manager_hint'', opt_str (dr_host_manager_hint x)), (lit ''final_cycle_count'', PInt (dr_final_cycle_count x)),
     (lit ''final_state_digest'', PStr (dr_final_state_digest x)),
     (lit ''total_would_apply_count'', PInt (int (dr_total_would_apply_count x))),
     (lit ''total_would_block_count'', PInt (int (dr_total_would_block_count x))),
     (lit ''final_execution_action'', PStr (dr_final_execution_action x)),
     (lit ''final_supervisor_action'', PStr (dr_final_supervisor_action x)),
     (lit ''final_plan_action'', PStr (dr_final_plan_action x)),
     (lit ''daemon_decision_action'', PStr (dr_daemon_decision_action x)),
     (lit ''daemon_decision_risk_level'', PStr (dr_daemon_decision_risk_level x)),
     (lit ''daemon_action_queue_policy'', PStr (dr_daemon_action_queue_policy x)),
     (lit ''daemon_action_blocked_count'', PInt (int (dr_daemon_action_blocked_count x))),
     (lit ''daemon_action_execution_policy'', PStr (dr_daemon_action_execution_policy x)),
     (lit ''daemon_action_execution_blocked_count'', PInt (int (dr_daemon_action_execution_blocked_count x))),
     (lit ''native_backend_policy'', PStr (dr_native_backend_policy x)),
     (lit ''native_backend_blocked_count'', PInt (int (dr_native_backend_blocked_count x))),
     (lit ''native_promotion_allowed'', PBool (dr_native_promotion_allowed x)),
     (lit ''daemon_arbitration_policy'', PStr (dr_daemon_arbitration_policy x)),
     (lit ''daemon_arbitration_blocked_count'', PInt (int (dr_daemon_arbitration_blocked_count x))),
     (lit ''daemon_arbitration_pressure_score'', PInt (dr_daemon_arbitration_pressure_score x)),
     (lit ''daemon_control_policy'', PStr (dr_daemon_control_policy x)),
     (lit ''daemon_control_blocked_count'', PInt (int (dr_daemon_control_blocked_count x))),
     (lit ''daemon_control_ready_count'', PInt (int (dr_daemon_control_ready_count x))),
     (lit ''daemon_control_execution_policy'', PStr (dr_daemon_control_execution_policy x)),
     (lit ''daemon_control_execution_blocked_count'', PInt (int (dr_daemon_control_execution_blocked_count x))),
     (lit ''daemon_control_execution_executed_count'', PInt (int (dr_daemon_control_execution_executed_count x))),
     (lit ''native_backend_manifest_policy'', PStr (dr_native_backend_manifest_policy x)),
     (lit ''native_backend_manifest_ready_count'', PInt (int (dr_native_backend_manifest_ready_count x))),
     (lit ''native_backend_manifest_blocked_count'', PInt (int (dr_native_backend_manifest_blocked_count x))),
     (lit ''native_backend_probe_policy'', PStr (dr_native_backend_probe_policy x)),
     (lit ''native_backend_probe_probed_count'', PInt (int (dr_native_backend_probe_probed_count x))),
     (lit ''native_backend_probe_blocked_count'', PInt (int (dr_native_backend_probe_blocked_count x))),
     (lit ''native_backend_readiness_policy'', PStr (dr_native_backend_readiness_policy x)),
     (lit ''native_backend_readiness_ready_count'', PInt (int (dr_native_backend_readiness_ready_count x))),
     (lit ''native_backend_readiness_blocked_count'', PInt (int (dr_native_backend_readiness_blocked_count x))),
     (lit ''native_backend_readiness_high_risk_count'', PInt (int (dr_native_backend_readiness_high_risk_count x))),
     (lit ''native_backend_gate_policy'', PStr (dr_native_backend_gate_policy x)),
     (lit ''native_backend_gate_advance_count'', PInt (int (dr_native_backend_gate_advance_count x))),
     (lit ''native_backend_gate_blocked_count'', PInt (int (dr_native_backend_gate_blocked_count x))),
     (lit ''native_backend_gate_native_blocked_count'', PInt (int (dr_native_backend_gate_native_blocked_count x))),
     (lit ''cycles'', PList (map daemon_cycle_to_dict (dr_cycles x))),
     (lit ''final_state'', runtime_state_to_dict (dr_final_state x)),
     (lit ''host_snapshot'', (case dr_host_snapshot x of None \<Rightarrow> PNone | Some y \<Rightarrow> host_snapshot_to_dict y)),
     (lit ''daemon_decision_plan'', decision_plan_to_dict (dr_daemon_decision_plan x)),
     (lit ''daemon_action_queue'', action_queue_to_dict (dr_daemon_action_queue x)),
     (lit ''daemon_action_execution'', action_execution_to_dict (dr_daemon_action_execution x)),
     (lit ''native_backend_preflight'', backend_preflight_to_dict (dr_native_backend_preflight x)),
     (lit ''daemon_arbitration_plan'', daemon_arbitration_to_dict (dr_daemon_arbitration_plan x)),
     (lit ''daemon_control_plan'', control_plan_to_dict (dr_daemon_control_plan x)),
     (lit ''daemon_control_execution'', control_execution_to_dict (dr_daemon_control_execution x)),
     (lit ''native_backend_manifest'', backend_manifest_to_dict (dr_native_backend_manifest x)),
     (lit ''native_backend_probe'', probe_report_to_dict (dr_native_backend_probe x)),
     (lit ''native_backend_readiness'', readiness_report_to_dict (dr_native_backend_readiness x)),
     (lit ''native_backend_gate'', backend_gate_to_dict (dr_native_backend_gate x))]"

type_synonym daemon_progress = "runtime_state option \<times> daemon_cycle list \<times> adapter_result option"

definition daemon_step :: "(nat \<Rightarrow> pystr \<Rightarrow> event_source) \<Rightarrow> pystr list \<Rightarrow> nat \<Rightarrow> daemon_progress \<Rightarrow> daemon_progress res" where
  "daemon_step read paths index progress = (case progress of (previous, cycles, _) \<Rightarrow>
     let path = paths ! min index (length paths - 1)
     in ebind (replay_adapter_event_stream (read index path) previous) (\<lambda>r.
        let current = xr_runtime_state_accumulator r; execution = xr_runtime_supervisor_execution r
        in Inr (Some current, cycles @ [\<lparr>dy_cycle_index = index + 1, dy_events_path = path, dy_session_id = xr_session_id r,
             dy_events_processed = xr_events_processed r, dy_lifecycle_events = xr_lifecycle_events r,
             dy_resource_events = xr_resource_events r, dy_operation_events = xr_operation_events r,
             dy_previous_cycle_count = map_option sa_cycle_count previous, dy_previous_state_digest = map_option sa_state_digest previous,
             dy_current_cycle_count = sa_cycle_count current, dy_transition_trend = tr_trend (xr_runtime_state_transition r),
             dy_supervisor_action = sd_directive_action (xr_runtime_supervisor_directive r),
             dy_plan_action = sp_plan_action (xr_runtime_supervisor_plan r), dy_execution_action = se_execution_action execution,
             dy_would_apply_count = se_would_apply_count execution, dy_would_block_count = se_would_block_count execution,
             dy_state_digest = sa_state_digest current\<rparr>], Some r)))"

definition daemon_report_of :: "int \<Rightarrow> pystr list \<Rightarrow> runtime_state option \<Rightarrow> host_snapshot option \<Rightarrow> runtime_state \<Rightarrow> daemon_cycle list
    \<Rightarrow> adapter_result \<Rightarrow> daemon_report res" where
  "daemon_report_of iterations paths initial host final cycles latest =
    (let execution_action = se_execution_action (xr_runtime_supervisor_execution latest);
         supervisor_action = sd_directive_action (xr_runtime_supervisor_directive latest);
         blocks = sum_list (map dy_would_block_count cycles);
         p = build_runtime_daemon_decision_plan final host execution_action supervisor_action blocks;
         q = build_runtime_daemon_action_queue p; e = dry_run_runtime_daemon_action_queue q;
         b = build_runtime_native_backend_preflight q e
     in ebind (build_runtime_daemon_arbitration_plan final p e b) (\<lambda>a.
        let c = build_runtime_daemon_control_plan final a b; x = dry_run_runtime_daemon_control_plan c;
            m = build_runtime_native_backend_manifest x b host; o1 = run_runtime_native_backend_probe m host;
            r = assess_runtime_native_backend_readiness o1; g = build_runtime_native_backend_gate r
        in Inr \<lparr>dr_mode = lit ''runtime-daemon-dry-run-v0.58'', dr_dry_run = True, dr_would_modify_system = False,
          dr_execution_guard = lit ''advisory-only'', dr_configured_iterations = iterations, dr_cycle_count = length cycles,
          dr_events_stream_count = length paths, dr_events_processed = sum_list (map dy_events_processed cycles),
          dr_lifecycle_events = sum_list (map dy_lifecycle_events cycles), dr_resource_events = sum_list (map dy_resource_events cycles),
          dr_operation_events = sum_list (map dy_operation_events cycles), dr_initial_state_loaded = (initial \<noteq> None),
          dr_initial_state_digest = map_option sa_state_digest initial, dr_host_snapshot_loaded = (host \<noteq> None),
          dr_host_profile = map_option hs_host_profile host, dr_host_manager_hint = map_option hs_manager_hint host,
          dr_final_cycle_count = sa_cycle_count final, dr_final_state_digest = sa_state_digest final,
          dr_total_would_apply_count = sum_list (map dy_would_apply_count cycles), dr_total_would_block_count = blocks,
          dr_final_execution_action = execution_action, dr_final_supervisor_action = supervisor_action,
          dr_final_plan_action = sp_plan_action (xr_runtime_supervisor_plan latest),
          dr_daemon_decision_action = dl_decision_action p, dr_daemon_decision_risk_level = dl_risk_level p,
          dr_daemon_action_queue_policy = aq_queue_policy q, dr_daemon_action_blocked_count = aq_blocked_action_count q,
          dr_daemon_action_execution_policy = ae_execution_policy e, dr_daemon_action_execution_blocked_count = ae_blocked_count e,
          dr_native_backend_policy = bp_backend_policy b, dr_native_backend_blocked_count = bp_blocked_requirement_count b,
          dr_native_promotion_allowed = bp_native_promotion_allowed b, dr_daemon_arbitration_policy = an_arbitration_policy a,
          dr_daemon_arbitration_blocked_count = an_blocked_lane_count a, dr_daemon_arbitration_pressure_score = an_pressure_score a,
          dr_daemon_control_policy = cn_control_policy c, dr_daemon_control_blocked_count = cn_blocked_intent_count c,
          dr_daemon_control_ready_count = cn_ready_intent_count c, dr_daemon_control_execution_policy = ce_execution_policy x,
          dr_daemon_control_execution_blocked_count = ce_blocked_count x,
          dr_daemon_control_execution_executed_count = ce_executed_count x,
          dr_native_backend_manifest_policy = bm_manifest_policy m, dr_native_backend_manifest_ready_count = bm_ready_count m,
          dr_native_backend_manifest_blocked_count = bm_blocked_count m, dr_native_backend_probe_policy = pr_probe_policy o1,
          dr_native_backend_probe_probed_count = pr_probed_count o1, dr_native_backend_probe_blocked_count = pr_blocked_count o1,
          dr_native_backend_readiness_policy = rr_readiness_policy r,
          dr_native_backend_readiness_ready_count = rr_ready_observation_count r + rr_advisory_ready_count r,
          dr_native_backend_readiness_blocked_count = rr_native_blocked_count r,
          dr_native_backend_readiness_high_risk_count = rr_high_risk_count r, dr_native_backend_gate_policy = gk_gate_policy g,
          dr_native_backend_gate_advance_count = gk_advance_count g, dr_native_backend_gate_blocked_count = gk_blocked_count g,
          dr_native_backend_gate_native_blocked_count = gk_native_blocked_count g, dr_cycles = cycles, dr_final_state = final,
          dr_host_snapshot = host, dr_daemon_decision_plan = p, dr_daemon_action_queue = q, dr_daemon_action_execution = e,
          dr_native_backend_preflight = b, dr_daemon_arbitration_plan = a, dr_daemon_control_plan = c,
          dr_daemon_control_execution = x, dr_native_backend_manifest = m, dr_native_backend_probe = o1,
          dr_native_backend_readiness = r, dr_native_backend_gate = g\<rparr>))"

definition run_runtime_daemon :: "(nat \<Rightarrow> pystr \<Rightarrow> event_source) \<Rightarrow> pystr list \<Rightarrow> int \<Rightarrow> runtime_state option \<Rightarrow> host_snapshot option
    \<Rightarrow> daemon_report res" where
  "run_runtime_daemon read paths iterations initial host =
    (if paths = [] then value_error (lit ''Runtime daemon requires at least one events path.'')
     else if iterations < 1 then value_error (lit ''Runtime daemon iterations must be at least 1.'')
     else ebind (efold (daemon_step read paths) [0..<max (nat iterations) (length paths)] (initial, [], None)) (\<lambda>(final, cycles, latest).
       case (final, latest) of
         (Some s, Some r) \<Rightarrow> daemon_report_of iterations paths initial host s cycles r
       | _ \<Rightarrow> value_error (lit ''Runtime daemon did not execute any cycles.'')))"


section \<open>The chain of the cycles\<close>

definition cycles_of :: "runtime_state option \<Rightarrow> int" where
  "cycles_of s = (case s of None \<Rightarrow> 0 | Some x \<Rightarrow> sa_cycle_count x)"

lemma replay_step_consistent: "consistent a \<Longrightarrow> replay_step e a = Inr b \<Longrightarrow> consistent b"
  using consistent_event [of a "PDict (snd e)" "Some (fst e)"]
  by (auto simp: replay_step_def split: prod.split_asm sum.split_asm)

interpretation stream: raising_machine replay_step consistent
  by unfold_locales (rule replay_step_consistent)

lemma replay_counts:
  assumes "replay_adapter_event_stream src previous = Inr r"
  shows "cycles_of (Some (xr_runtime_state_accumulator r)) = cycles_of previous + 1"
proof -
  obtain es fl where src: "src = (es, fl)" by fastforce
  with assms obtain a q where a: "efold replay_step es (new_adapter (lit ''default'')) = Inr a" and r: "to_result previous a = Inr (r, q)"
    by (auto simp: replay_adapter_event_stream_def ebind_eq_Inr split: option.split_asm)
  have "list_all admitted_result (ax_results a)"
    by (rule consistent_results(1) [OF stream.run_inv [OF a consistent_new]])
  from to_result_outcome [OF this, of previous] r show ?thesis
    by (auto simp: result_outcome_def cycles_of_def split: option.split_asm)
qed

definition chained :: "pystr list \<Rightarrow> runtime_state option \<Rightarrow> nat \<Rightarrow> daemon_progress \<Rightarrow> bool" where
  "chained paths init k progress \<longleftrightarrow> (case progress of (state, cs, latest) \<Rightarrow>
     length cs = k \<and> cycles_of state = cycles_of init + int k
     \<and> map_option sa_state_digest state = (if k = 0 then map_option sa_state_digest init else Some (dy_state_digest (cs ! (k - 1))))
     \<and> (\<forall>i<k. dy_cycle_index (cs ! i) = i + 1 \<and> dy_events_path (cs ! i) = paths ! min i (length paths - 1)
         \<and> dy_current_cycle_count (cs ! i) = cycles_of init + int i + 1
         \<and> dy_previous_state_digest (cs ! i)
             = (if i = 0 then map_option sa_state_digest init else Some (dy_state_digest (cs ! (i - 1))))))"

lemma chained_step:
  assumes "chained paths init k p" and "daemon_step read paths k p = Inr q"
  shows "chained paths init (Suc k) q"
proof -
  obtain s cs l where p: "p = (s, cs, l)" by (cases p)
  from assms(2) obtain r where r: "replay_adapter_event_stream (read k (paths ! min k (length paths - 1))) s = Inr r"
    and q: "\<exists>y. q = (Some (xr_runtime_state_accumulator r), cs @ [y], Some r) \<and> dy_cycle_index y = k + 1
      \<and> dy_events_path y = paths ! min k (length paths - 1) \<and> dy_current_cycle_count y = sa_cycle_count (xr_runtime_state_accumulator r)
      \<and> dy_previous_state_digest y = map_option sa_state_digest s \<and> dy_state_digest y = sa_state_digest (xr_runtime_state_accumulator r)"
    unfolding p daemon_step_def by (auto simp: ebind_eq_Inr Let_def)
  from replay_counts [OF r] have "sa_cycle_count (xr_runtime_state_accumulator r) = cycles_of s + 1" by (simp add: cycles_of_def)
  with assms(1) q show ?thesis
    by (auto simp: p chained_def cycles_of_def nth_append less_Suc_eq)
qed

lemma chained_run: "efold (daemon_step read paths) [0..<k] (init, [], None) = Inr p \<Longrightarrow> chained paths init k p"
proof (induction k arbitrary: p)
  case 0
  then show ?case by (auto simp: chained_def)
next
  case (Suc k)
  then obtain q where "efold (daemon_step read paths) [0..<k] (init, [], None) = Inr q" "daemon_step read paths k q = Inr p"
    by (auto simp: efold_append ebind_eq_Inr)
  then show ?case using Suc.IH chained_step by blast
qed

lemma report_fields:
  assumes "daemon_report_of n paths init host s cs r = Inr rep"
  shows "dr_cycles rep = cs" and "dr_cycle_count rep = length cs" and "dr_final_state rep = s"
    and "daemon_gate s host (dr_daemon_decision_plan rep) = Inr (dr_native_backend_gate rep)"
  using assms by (auto simp: daemon_report_of_def daemon_gate_def ebind_eq_Inr Let_def)

text \<open>C12: When the daemon returns a report, it ran as many cycles as the larger of the iterations asked for and the streams given, each on
  its stream or, after the last one, on the last stream again; every cycle starts from the state the cycle before left and counts one
  more, and the gate of the report is the one of the final state and the report's own decision plan.\<close>

theorem daemon_chains_cycles:
  assumes "run_runtime_daemon read paths n init host = Inr rep"
  shows "let cs = dr_cycles rep; k = max (nat n) (length paths); base = (case init of None \<Rightarrow> 0 | Some s \<Rightarrow> sa_cycle_count s) in
    length cs = k \<and> dr_cycle_count rep = k
    \<and> (\<forall>i<k. dy_cycle_index (cs ! i) = i + 1
        \<and> dy_events_path (cs ! i) = (if i < length paths then paths ! i else last paths)
        \<and> dy_current_cycle_count (cs ! i) = base + int i + 1
        \<and> dy_previous_state_digest (cs ! i) = (if i = 0 then map_option sa_state_digest init else Some (dy_state_digest (cs ! (i - 1)))))
    \<and> sa_state_digest (dr_final_state rep) = dy_state_digest (last cs)
    \<and> sa_cycle_count (dr_final_state rep) = base + int k
    \<and> daemon_gate (dr_final_state rep) host (dr_daemon_decision_plan rep) = Inr (dr_native_backend_gate rep)"
proof -
  let ?k = "max (nat n) (length paths)"
  from assms obtain s cs r where run: "efold (daemon_step read paths) [0..<?k] (init, [], None) = Inr (Some s, cs, Some r)"
    and rep: "daemon_report_of n paths init host s cs r = Inr rep" and paths: "paths \<noteq> []"
    by (auto simp: run_runtime_daemon_def ebind_eq_Inr value_error_def split: if_split_asm option.split_asm)
  from paths have "0 < ?k" by (cases paths) simp_all
  have "paths ! min i (length paths - 1) = (if i < length paths then paths ! i else last paths)" for i
    using paths by (cases "i < length paths") (simp_all add: last_conv_nth min_absorb1 min_absorb2 less_eq_Suc_le)
  moreover have "length cs = ?k" using chained_run [OF run] by (simp add: chained_def)
  then have "last cs = cs ! (?k - 1)" using \<open>0 < ?k\<close> by (cases cs rule: rev_cases) (simp_all add: nth_append)
  ultimately show ?thesis
    using chained_run [OF run] report_fields [OF rep] \<open>0 < ?k\<close> paths
    by (auto simp: chained_def Let_def cycles_of_def)
qed

section \<open>A daemon on empty streams\<close>

text \<open>A stream without events leads to a state with no frame or memory left to plan.\<close>

definition idle_state :: "runtime_state \<Rightarrow> bool" where
  "idle_state s \<longleftrightarrow> sa_active_policy_count s = 0 \<and> sa_memory_relief_target_mb s = Fin 0 \<and> sa_memory_headroom_target_mb s = Fin 0"

lemma idle_planner: "finalize_planner (ax_planner (new_adapter s)) = (l, p) \<Longrightarrow> lf_resources p = []"
  by (auto simp: finalize_planner_def new_adapter_def new_lifetime_planner_def Let_def split: prod.split_asm)

lemma idle_packet:
  assumes "build_memory_transit_map [] rs = Inr t"
  shows "xp_commands (build_execution_packet (build_frame_window_plan (build_memory_route_plan t))) = []"
  using assms by (auto simp: build_memory_transit_map_def build_execution_packet_def build_frame_window_plan_def build_memory_route_plan_def
    number_with_def sort_slots_def List.map_filter_def Let_def)

lemma idle_execution:
  "xp_commands p = [] \<Longrightarrow> re_layers e = []
    \<Longrightarrow> xr_memory_relief_mb (execute_dispatch_plan (build_dispatch_plan (build_budget_arbitration p e) p)) = Fin 0"
  by (simp add: execute_dispatch_plan_def build_dispatch_plan_def build_budget_arbitration_def sum_step_value_def fsum_def Let_def
    number_with_def sort_dispatch_def List.map_filter_def)

lemma idle_layers: "build_runtime_envelope l (LiveState [] []) [] = Inr e \<Longrightarrow> re_layers e = []"
  by (auto simp: build_runtime_envelope_def build_memory_layers_def snapshot_map_def get_or_zero_def ebind_eq_Inr Let_def)

lemma idle_tick:
  assumes "rm_frames m = []" and "rm_memory_directives m = []"
  shows "gt_steps (build_runtime_gateway_tick (apply_runtime_control_packet (build_runtime_control_packet m))) = []"
  using assms by (simp add: build_runtime_gateway_tick_def apply_runtime_control_packet_def build_runtime_control_packet_def
    build_control_commands_def apply_commands_def number_with_def Let_def)

lemma idle_accumulated:
  assumes "re_layers e = []" and "xr_memory_relief_mb x = Fin 0"
  defines "k \<equiv> calibration_of x []"
  shows "idle_state (build_runtime_state_accumulator (build_runtime_policy_update (build_runtime_gateway_feedback
    (execute_runtime_gateway_tick (build_runtime_gateway_tick (apply_runtime_control_packet (build_runtime_control_packet
      (build_runtime_manager_directive k e))))) k)) previous)"
proof -
  let ?t = "build_runtime_gateway_tick (apply_runtime_control_packet (build_runtime_control_packet (build_runtime_manager_directive k e)))"
  have steps: "gt_steps ?t = []" using assms(1)
    by (intro idle_tick) (simp_all add: k_def build_runtime_manager_directive_def calibration_of_def Let_def)
  then have cycle: "gc_memory_relief_applied_mb (execute_runtime_gateway_tick ?t) = Fin 0"
    "gc_memory_headroom_reserved_mb (execute_runtime_gateway_tick ?t) = Fin 0"
    by (simp_all add: execute_runtime_gateway_tick_def fsum_def Let_def)
  have zero: "fsub (Fin 0) (Fin 0) = Fin 0" "fsum [Fin 0] = Fin 0" by code_simp+
  have "cb_frames k = []" "cb_total_memory_relief_mb k = Fin 0" using assms(2) by (simp_all add: k_def calibration_of_def)
  then show ?thesis
    by (simp add: idle_state_def build_runtime_state_accumulator_def build_runtime_policy_update_def build_runtime_gateway_feedback_def
      build_memory_policy_update_def cycle zero is_active_memory_def Let_def)
qed

lemma idle_transition:
  assumes "pred_option idle_state previous" and "idle_state current"
  shows "\<exists>t. build_runtime_state_transition previous current = Inr t"
proof -
  have "py_float (PInt 0) = Inr (Fin 0)" by code_simp
  then show ?thesis using assms
    by (cases previous) (simp_all add: build_runtime_state_transition_def pressure_index_def count_delta_def idle_state_def Let_def)
qed

definition idle_outcome :: "(adapter_result \<times> adapter) res \<Rightarrow> bool" where
  "idle_outcome m \<longleftrightarrow> (\<exists>r a. m = Inr (r, a) \<and> idle_state (xr_runtime_state_accumulator r))"

lemma idle_let: "(\<And>x. x = t \<Longrightarrow> idle_outcome (f x)) \<Longrightarrow> idle_outcome (Let t f)"
  by simp

lemma idle_ebind: "\<exists>x. m = Inr x \<Longrightarrow> (\<And>x. m = Inr x \<Longrightarrow> idle_outcome (f x)) \<Longrightarrow> idle_outcome (ebind m f)"
  by (auto simp: idle_outcome_def)

lemma idle_stages:
  assumes "build_memory_transit_map [] rs = Inr t" and "build_runtime_envelope l (LiveState [] []) [] = Inr e"
    and k: "build_runtime_calibration (execute_dispatch_plan (build_dispatch_plan (build_budget_arbitration
      (build_execution_packet (build_frame_window_plan (build_memory_route_plan t))) e)
      (build_execution_packet (build_frame_window_plan (build_memory_route_plan t))))) [] = Inr k"
  shows "idle_state (build_runtime_state_accumulator (build_runtime_policy_update (build_runtime_gateway_feedback
    (execute_runtime_gateway_tick (build_runtime_gateway_tick (apply_runtime_control_packet (build_runtime_control_packet
      (build_runtime_manager_directive k e))))) k)) previous)"
proof -
  let ?p = "build_execution_packet (build_frame_window_plan (build_memory_route_plan t))"
  note layers = idle_layers [OF assms(2)]
  have "k = calibration_of (execute_dispatch_plan (build_dispatch_plan (build_budget_arbitration ?p e) ?p)) []"
    using k by (simp add: build_runtime_calibration_def)
  then show ?thesis using idle_accumulated [OF layers idle_execution [OF _ layers]] idle_packet [OF assms(1)] by simp
qed

lemma idle_result:
  assumes "pred_option idle_state previous"
  shows "idle_outcome (to_result previous (new_adapter s))"
proof -
  let ?a = "new_adapter s"
  obtain lifetime planner where fin: "finalize_planner (ax_planner ?a) = (lifetime, planner)" by fastforce
  have rs: "map (\<lambda>(k, r). (k, Typed r)) (lf_resources planner) = []" using idle_planner [OF fin] by simp
  have a: "ax_results ?a = []" "ax_frames ?a = []" "pe_memory_budgets_mb (ax_engine ?a) = []"
    "sn_memory_totals_mb (adapter_snapshot (?a\<lparr>ax_planner := planner\<rparr>)) = []" "sn_memory_budgets_mb (adapter_snapshot (?a\<lparr>ax_planner := planner\<rparr>)) = []"
    by (simp_all add: new_adapter_def new_policy_engine_def adapter_snapshot_def build_live_state_snapshot_def)
  show ?thesis unfolding to_result_def fin prod.case
  proof (intro idle_let idle_ebind, goal_cases)
    case (1 a1)
    then show ?case by (simp add: a build_admission_plan_def)
  next
    case (2 a1)
    then show ?case using transit_of_results [of "[]" "lf_resources planner"] by (simp add: a)
  next
    case 3
    then show ?case using envelope_live by blast
  next
    case 4
    then show ?case using calibration_stats by blast
  next
    case 5
    then show ?case by (clarsimp simp: a) (rule idle_transition [OF assms idle_stages]; assumption)
  next
    case 6
    then show ?case by (clarsimp simp: a idle_outcome_def) (rule idle_stages; assumption)
  qed
qed

lemma idle_replay:
  assumes "pred_option idle_state previous"
  shows "\<exists>r. replay_adapter_event_stream ([], None) previous = Inr r \<and> idle_state (xr_runtime_state_accumulator r)"
  using idle_result [OF assms, of "lit ''default''"] by (auto simp: idle_outcome_def replay_adapter_event_stream_def)

lemma idle_run:
  "\<exists>s cs r. efold (daemon_step (\<lambda>_ _. ([], None)) paths) [0..<Suc k] (None, [], None) = Inr (Some s, cs, Some r) \<and> idle_state s"
proof (induction k)
  case 0
  show ?case using idle_replay [of None] by (auto simp: daemon_step_def Let_def)
next
  case (Suc k)
  then obtain s cs r where run: "efold (daemon_step (\<lambda>_ _. ([], None)) paths) [0..<Suc k] (None, [], None) = Inr (Some s, cs, Some r)" "idle_state s"
    by blast
  obtain r2 where r2: "replay_adapter_event_stream ([], None) (Some s) = Inr r2" "idle_state (xr_runtime_state_accumulator r2)"
    using idle_replay [of "Some s"] run(2) by auto
  have "[0..<Suc (Suc k)] = [0..<Suc k] @ [Suc k]" by simp
  then show ?case using run(1) r2 by (simp only: efold_append) (simp add: daemon_step_def Let_def)
qed

lemma idle_score: "idle_state s \<Longrightarrow> \<exists>x. pressure_score s = Inr x"
proof -
  have "quarter_units (Fin 0) = Inr 0" by code_simp
  then show "idle_state s \<Longrightarrow> \<exists>x. pressure_score s = Inr x" by (simp add: pressure_score_def idle_state_def Let_def)
qed

lemma idle_daemon:
  assumes "paths \<noteq> []" and "1 \<le> n"
  shows "\<exists>rep. run_runtime_daemon (\<lambda>_ _. ([], None)) paths n None host = Inr rep"
proof -
  obtain k where k: "max (nat n) (length paths) = Suc k" using assms(1) by (cases "max (nat n) (length paths)") auto
  obtain s cs r where run: "efold (daemon_step (\<lambda>_ _. ([], None)) paths) [0..<Suc k] (None, [], None) = Inr (Some s, cs, Some r)"
    "idle_state s" using idle_run by blast
  obtain x where "pressure_score s = Inr x" using idle_score [OF run(2)] by blast
  then have "\<exists>rep. daemon_report_of n paths None host s cs r = Inr rep"
    by (simp add: daemon_report_of_def build_runtime_daemon_arbitration_plan_def Let_def)
  then show ?thesis using assms unfolding run_runtime_daemon_def k run(1) by simp
qed

theorem daemon_chains_cycles_witness:
  "\<exists>rep. run_runtime_daemon (\<lambda>_ _. ([], None)) [lit ''a'', lit ''b''] 3 None None = Inr rep \<and> length (dr_cycles rep) = 3
    \<and> dy_events_path (dr_cycles rep ! 2) = lit ''b'' \<and> sa_cycle_count (dr_final_state rep) = 3
    \<and> dy_previous_state_digest (dr_cycles rep ! 2) = Some (dy_state_digest (dr_cycles rep ! 1))"
proof -
  obtain rep where rep: "run_runtime_daemon (\<lambda>_ _. ([], None)) [lit ''a'', lit ''b''] 3 None None = Inr rep"
    using idle_daemon [of "[lit ''a'', lit ''b'']" 3 None] by auto
  with daemon_chains_cycles [OF rep] show ?thesis by (simp add: Let_def)
qed

section \<open>Continuing the supervisor loop\<close>

text \<open>Only the escalated execution has commands that block, and its action is none of those the loop continues after.\<close>

definition calm_executions :: "pystr set" where
  "calm_executions = lit ` {''dry-run-relaxed-supervisor-commands'', ''dry-run-preserved-supervisor-commands'',
     ''dry-run-monitored-supervisor-commands'', ''dry-run-observation-supervisor-commands''}"

definition supervised :: "runtime_state \<Rightarrow> state_transition \<Rightarrow> supervisor_execution" where
  "supervised s t = dry_run_runtime_supervisor_plan (build_runtime_supervisor_plan (build_runtime_supervisor_directive s t))"

lemma supervised_blocks: "se_would_block_count (supervised s t) = (if tr_trend t = lit ''worsening'' then 3 else 0)"
  by (simp add: supervised_def dry_run_blocks plan_blocks directive_blocks)

lemma supervised_action:
  "tr_trend t = lit ''worsening'' \<Longrightarrow> se_execution_action (supervised s t) = lit ''dry-run-tightened-supervisor-commands''"
  "tr_trend t = lit ''baseline'' \<Longrightarrow> se_execution_action (supervised s t) = lit ''dry-run-observation-supervisor-commands''"
  by (simp_all add: supervised_def dry_run_runtime_supervisor_plan_def execution_action_def build_runtime_supervisor_plan_def
    plan_action_def build_runtime_supervisor_directive_def directive_shape_def Let_def)

lemma calm_unblocked: "se_execution_action (supervised s t) \<in> calm_executions \<Longrightarrow> se_would_block_count (supervised s t) = 0"
  using supervised_action(1) [of t s] by (auto simp: supervised_blocks calm_executions_def)

lemma result_supervised:
  assumes "to_result previous a = Inr (r, b)"
  shows "\<exists>t. build_runtime_state_transition previous (xr_runtime_state_accumulator r) = Inr t
    \<and> xr_runtime_supervisor_execution r = supervised (xr_runtime_state_accumulator r) t"
  using assms by (auto simp: to_result_def supervised_def ebind_eq_Inr Let_def split: prod.split_asm)

lemma replay_supervised:
  assumes "replay_adapter_event_stream src previous = Inr r"
  shows "\<exists>t. build_runtime_state_transition previous (xr_runtime_state_accumulator r) = Inr t
    \<and> xr_runtime_supervisor_execution r = supervised (xr_runtime_state_accumulator r) t"
  using assms result_supervised
  by (cases src) (auto simp: replay_adapter_event_stream_def ebind_eq_Inr split: option.split_asm)

text \<open>The last cycle of a report shows what its last replay executed.\<close>

lemma last_cycle:
  assumes "efold (daemon_step read paths) [0..<Suc k] p = Inr (s, cs, Some r)"
  shows "dy_execution_action (last cs) = se_execution_action (xr_runtime_supervisor_execution r)
    \<and> dy_would_block_count (last cs) = se_would_block_count (xr_runtime_supervisor_execution r)
    \<and> (\<exists>src previous. replay_adapter_event_stream src previous = Inr r)"
proof -
  have "[0..<Suc k] = [0..<k] @ [k]" by simp
  with assms obtain q where "daemon_step read paths k q = Inr (s, cs, Some r)" by (auto simp only: efold_append ebind_eq_Inr efold.simps)
  then show ?thesis by (cases q) (auto simp: daemon_step_def ebind_eq_Inr Let_def simp del: split_paired_Ex)
qed

lemma report_plan:
  assumes "daemon_report_of n paths init host s cs r = Inr rep"
  shows "dr_daemon_decision_plan rep = build_runtime_daemon_decision_plan s host (se_execution_action (xr_runtime_supervisor_execution r))
      (sd_directive_action (xr_runtime_supervisor_directive r)) (sum_list (map dy_would_block_count cs))"
  using assms by (auto simp: daemon_report_of_def ebind_eq_Inr Let_def)

lemma run_parts:
  assumes "run_runtime_daemon read paths n init host = Inr rep"
  obtains k s cs r where "efold (daemon_step read paths) [0..<Suc k] (init, [], None) = Inr (Some s, cs, Some r)"
    and "daemon_report_of n paths init host s cs r = Inr rep"
proof -
  from assms obtain s cs r where run: "efold (daemon_step read paths) [0..<max (nat n) (length paths)] (init, [], None) = Inr (Some s, cs, Some r)"
    and rep: "daemon_report_of n paths init host s cs r = Inr rep" and paths: "paths \<noteq> []"
    by (auto simp: run_runtime_daemon_def ebind_eq_Inr value_error_def split: if_split_asm option.split_asm)
  obtain k where "max (nat n) (length paths) = Suc k" using paths by (cases "max (nat n) (length paths)") auto
  with run rep that show ?thesis by simp
qed

text \<open>C40: The daemon gives its supervisor loop leave to go on only on a host with at least 16384 MB of memory, an adapter that reports at
  least 3840 MB, a memory pressure below the high class and a processor above the constrained class, and only when the supervisor
  execution of its last cycle would block nothing; and it decides to continue the loop only when no cycle would have blocked
  anything.\<close>

theorem loop_allowed_hosts:
  assumes "run_runtime_daemon read paths n init (Some (build_host_capability_snapshot p)) = Inr rep"
    and "a \<in> set (dl_actions (dr_daemon_decision_plan rep))" and "da_action a = lit ''allow-daemon-supervisor-loop''"
  shows "(\<exists>ram. hp_total_ram_mb p = Some ram \<and> \<not> fless ram (Fin 16384))
    \<and> (\<exists>g \<in> set (hp_gpus p). \<exists>vram. hg_adapter_ram_mb g = Some vram \<and> \<not> fless vram (Fin 3840))
    \<and> hs_ram_pressure_class (build_host_capability_snapshot p) \<noteq> lit ''high-pressure''
    \<and> hs_cpu_class (build_host_capability_snapshot p) \<noteq> lit ''constrained-cpu''
    \<and> dy_execution_action (last (dr_cycles rep)) \<in> calm_executions
    \<and> dy_would_block_count (last (dr_cycles rep)) = 0
    \<and> (dl_decision_action (dr_daemon_decision_plan rep) = lit ''continue-host-aware-supervisor-loop''
        \<longrightarrow> (\<forall>c \<in> set (dr_cycles rep). dy_would_block_count c = 0))"
proof -
  let ?h = "build_host_capability_snapshot p"
  obtain k s cs r where run: "efold (daemon_step read paths) [0..<Suc k] (init, [], None) = Inr (Some s, cs, Some r)"
    and rep: "daemon_report_of n paths init (Some ?h) s cs r = Inr rep" using assms(1) by (rule run_parts)
  let ?x = "se_execution_action (xr_runtime_supervisor_execution r)"
  note plan = report_plan [OF rep]
  have cycles: "dr_cycles rep = cs" by (rule report_fields(1) [OF rep])
  from assms(2) have "a \<in> set (daemon_actions s (Some ?h) ?x (sum_list (map dy_would_block_count cs)))"
    by (simp add: plan build_runtime_daemon_decision_plan_def Let_def)
  from decided_loop [OF this assms(3)] have loop: "supervisor_loop_allowed (Some ?h) ?x" .
  then have hint: "hs_manager_hint ?h = lit ''allow-daemon-supervisor-loop''" and calm: "?x \<in> calm_executions"
    by (auto simp: supervisor_loop_allowed_def calm_executions_def)
  from last_cycle [OF run] replay_supervised obtain t where "xr_runtime_supervisor_execution r = supervised (xr_runtime_state_accumulator r) t"
    by blast
  with calm last_cycle [OF run] have "dy_execution_action (last cs) \<in> calm_executions" "dy_would_block_count (last cs) = 0"
    using calm_unblocked by metis+
  moreover have "\<forall>c \<in> set cs. dy_would_block_count c = 0"
    if "dl_decision_action (dr_daemon_decision_plan rep) = lit ''continue-host-aware-supervisor-loop''"
    using continue_unblocked that by (simp add: plan) (metis sum_list_eq_0_iff imageI set_map)
  ultimately show ?thesis using allowed_host [OF hint] by (auto simp: cycles)
qed

theorem loop_allowed_hosts_witness:
  "\<exists>rep. run_runtime_daemon (\<lambda>_ _. ([], None)) [lit ''a''] 1 None (Some (build_host_capability_snapshot demo_host)) = Inr rep
    \<and> dy_would_block_count (last (dr_cycles rep)) = 0"
proof -
  let ?h = "build_host_capability_snapshot demo_host"
  obtain rep where rep: "run_runtime_daemon (\<lambda>_ _. ([], None)) [lit ''a''] 1 None (Some ?h) = Inr rep"
    using idle_daemon [of "[lit ''a'']" 1 "Some ?h"] by auto
  have one: "[0..<max (nat 1) (length [lit ''a''])] = [0]" by simp
  obtain r where run: "replay_adapter_event_stream ([], None) None = Inr r" using idle_replay [of None] by auto
  have "\<exists>s cs. daemon_report_of 1 [lit ''a''] None (Some ?h) s cs r = Inr rep"
    using rep unfolding run_runtime_daemon_def one by (auto simp: daemon_step_def run Let_def)
  then obtain s cs where report: "daemon_report_of 1 [lit ''a''] None (Some ?h) s cs r = Inr rep" by blast
  obtain t where "build_runtime_state_transition None (xr_runtime_state_accumulator r) = Inr t"
    "xr_runtime_supervisor_execution r = supervised (xr_runtime_state_accumulator r) t" using replay_supervised [OF run] by blast
  moreover from this(1) have "tr_trend t = lit ''baseline''" using transition_fields by (metis transition_trend_def)
  ultimately have "supervisor_loop_allowed (Some ?h) (se_execution_action (xr_runtime_supervisor_execution r))"
    by (simp add: supervisor_loop_allowed_def supervised_action(2) demo_hint)
  then have "\<exists>a \<in> set (dl_actions (dr_daemon_decision_plan rep)). da_action a = lit ''allow-daemon-supervisor-loop''"
    unfolding report_plan [OF report] build_runtime_daemon_decision_plan_def daemon_actions_def Let_def
    by (auto simp: decided_actions_def Let_def decision_action_def)
  then show ?thesis using rep loop_allowed_hosts [OF rep] by blast
qed

end
