(* ===== verification/Spec2Isabelle.thy ===== *)
theory Spec2Isabelle
  imports Link_Session Event_Stream Daemon_Loop
begin

text \<open>
  \<^bold>\<open>FluidGateway\<close> (\<^verbatim>\<open>src/fluidgateway\<close>, Python) is an advisory control plane for the work of a renderer: an engine
  announces its memory resources and the operations on them (copies, uploads, allocations, draws, ...), FluidGateway finds the
  operations that are wasted, plans the rest within frame and memory budgets, and keeps a state from one cycle to the next. It
  executes nothing itself. Its parts are modelled in the order in which data flows through them.

  \<^bold>\<open>The wire.\<close> An engine talks FluidLink v2 (\<^verbatim>\<open>fluidlink_v2.py\<close>, the read loop of \<^verbatim>\<open>fluidlink.py\<close>).
  \<^item> \<^theory_text>\<open>Link_Wire\<close>: the field writer and reader (\<^verbatim>\<open>_PayloadWriter\<close>, \<^verbatim>\<open>_PayloadReader\<close>). The locale \<^verbatim>\<open>wire_codec\<close> is the contract of a
    field: what is put is read back, and only what is put can be read. It is interpreted for every width and text field of the code.
  \<^item> \<^theory_text>\<open>Link_Frame\<close>: the 56-byte header, the checksum, and reading a frame from chunks of bytes. \<^theory_text>\<open>Link_Fields\<close>: enumerations, masks and
    the scaling of milliseconds and mebibytes through \<^verbatim>\<open>Decimal(str(v))\<close>. \<^theory_text>\<open>Link_Payload\<close>, \<^theory_text>\<open>Link_Events\<close>: the payloads. \<^theory_text>\<open>Link_Canonical\<close>:
    decoding an event payload and encoding the result restores the bytes, for sizes below 512 TiB: a size becomes a float of mebibytes
    on the way, and \<^verbatim>\<open>huge_size_refused\<close> computes one that does not come back.
  \<^item> \<^theory_text>\<open>Link_Session\<close>: \<^verbatim>\<open>FluidLinkV2ServerSession\<close> with its handshake, sequence numbers, batches and error answers; the application's
    handler is a parameter with an arbitrary state and arbitrary exceptions. \<^verbatim>\<open>reachable\<close> is the step relation of a session, and the
    invariant is proved by induction over it.

  \<^bold>\<open>The optimizer\<close> (\<^verbatim>\<open>runtime.py\<close>, \<^verbatim>\<open>control.py\<close>, \<^verbatim>\<open>events.py\<close>).
  \<^item> \<^theory_text>\<open>Runtime_Types\<close>: manifests, their parsing and validation. \<^theory_text>\<open>Runtime_State\<close>: the optimizer's state, the decision about one operation
    and the invalidation worklist, whose termination measure is the set of resources not yet affected and whose result is the
    closure of the alias relation. \<^theory_text>\<open>Runtime_Plan\<close>: the loop over a manifest and an abstract execution of operations on data
    (\<^verbatim>\<open>exec_op\<close>), which the plan refines. \<^theory_text>\<open>Runtime_Deps\<close>: the dependencies of the kept operations, for manifests
    whose operations wait for earlier ones only (\<^verbatim>\<open>forward_dependency_kept\<close> is the plan of one that does not).
  \<^item> \<^theory_text>\<open>Event_Stream\<close>: the incremental controller and the replay of a stream, equal to the offline plan.

  \<^bold>\<open>The planning stages\<close>, one file of the code each, every one a function from the result of the one before.
  \<^item> \<^theory_text>\<open>Memory_Transit\<close> (\<^verbatim>\<open>transit.py\<close>), \<^theory_text>\<open>Frame_Plans\<close> (\<^verbatim>\<open>routing.py\<close>, \<^verbatim>\<open>windowing.py\<close>), \<^theory_text>\<open>Execution_Packet\<close> (\<^verbatim>\<open>packet.py\<close>,
    \<^verbatim>\<open>executor.py\<close>), \<^theory_text>\<open>Packet_Props\<close>; \<^theory_text>\<open>Budget_Envelope\<close> (\<^verbatim>\<open>adaptive.py\<close>, \<^verbatim>\<open>budget.py\<close>), \<^theory_text>\<open>Budget_Arbiter\<close> (\<^verbatim>\<open>arbiter.py\<close>) and
    \<^theory_text>\<open>Arbiter_Props\<close>, whose locale \<^verbatim>\<open>metered_window\<close> is the bookkeeping both windows share; \<^theory_text>\<open>Dispatch_Plan\<close> (\<^verbatim>\<open>dispatch.py\<close>),
    \<^theory_text>\<open>Dispatch_Execution\<close> (\<^verbatim>\<open>applier.py\<close>), \<^theory_text>\<open>Runtime_Calibration\<close> (\<^verbatim>\<open>calibration.py\<close>), \<^theory_text>\<open>Runtime_Manager\<close> (\<^verbatim>\<open>manager.py\<close>),
    \<^theory_text>\<open>Control_State\<close> (\<^verbatim>\<open>control_packet.py\<close>, \<^verbatim>\<open>control_state.py\<close>), \<^theory_text>\<open>Gateway_Cycle\<close> (\<^verbatim>\<open>gateway.py\<close>, \<^verbatim>\<open>gateway_cycle.py\<close>),
    \<^theory_text>\<open>Policy_Update\<close> (\<^verbatim>\<open>gateway_feedback.py\<close>, \<^verbatim>\<open>policy_update.py\<close>).
  \<^item> \<^theory_text>\<open>State_Accumulator\<close>, \<^theory_text>\<open>State_Transition\<close>, \<^theory_text>\<open>Supervisor\<close>: the state kept from cycle to cycle, its digest, reading it back from a
    dictionary, the pressure index, and the supervisor that escalates and blocks.

  \<^bold>\<open>The session and the daemon.\<close>
  \<^item> \<^theory_text>\<open>Lifetime_Schedule\<close> (\<^verbatim>\<open>lifetime.py\<close>, \<^verbatim>\<open>scheduler.py\<close>, \<^verbatim>\<open>enforcement.py\<close>), \<^theory_text>\<open>Live_Policy\<close> (\<^verbatim>\<open>live.py\<close>, \<^verbatim>\<open>state.py\<close>, \<^verbatim>\<open>policy.py\<close>,
    \<^verbatim>\<open>governor.py\<close>, \<^verbatim>\<open>gate.py\<close>), \<^theory_text>\<open>Admission_Feedback\<close> (\<^verbatim>\<open>admission.py\<close>, \<^verbatim>\<open>efficiency.py\<close>, \<^verbatim>\<open>feedback.py\<close>, \<^verbatim>\<open>actuation.py\<close>): what a
    session does at each event.
  \<^item> \<^theory_text>\<open>Adapter_Session\<close> (\<^verbatim>\<open>adapter.py\<close>): the session, one definition per handler, with every change of state also on the paths that raise,
    and the result, which runs through all planning stages. \<^theory_text>\<open>Adapter_Props\<close>: the invariant of a session under any events,
    stated over the list of the controller's answers: \<^verbatim>\<open>accounts\<close> says what the statistics of a frame are of these answers,
    \<^verbatim>\<open>decides_once\<close> that each has one live command, one gate and one result.
  \<^item> \<^theory_text>\<open>Host_Profile\<close>, \<^theory_text>\<open>Daemon_Decision\<close>, \<^theory_text>\<open>Daemon_Control\<close>, \<^theory_text>\<open>Native_Gate\<close>: from the host snapshot to the promotion gate.
    \<^theory_text>\<open>Daemon_Chain\<close>: what gets through the whole chain. \<^theory_text>\<open>Daemon_Loop\<close> (\<^verbatim>\<open>daemon.py\<close>): the loop over event streams, the chain of its cycles, and
    what the report allows the supervisor loop to do.

  \<^bold>\<open>Shared theories.\<close> \<^theory_text>\<open>Prelude\<close>: results that carry an exception, loops that stop at the first one, and the contracts of
  components driven by events (\<^verbatim>\<open>event_machine\<close>, \<^verbatim>\<open>raising_machine\<close>), interpreted for the adapter session. \<^theory_text>\<open>Py_Text\<close>, \<^theory_text>\<open>Py_Num\<close>,
  \<^theory_text>\<open>Py_Value\<close>, \<^theory_text>\<open>Py_Builtins\<close>, \<^theory_text>\<open>Py_Collections\<close>: the part of Python the code uses. \<^theory_text>\<open>Py_Float_Order\<close>, \<^theory_text>\<open>Py_Float_Ops\<close>: order
  and monotonicity of the float operations.

  \<^bold>\<open>Representation.\<close> A Python string is the list of its code points, bytes are words of 8 bits, an int is an HOL integer; a JSON value
  is a \<^verbatim>\<open>pyval\<close>, whose dictionaries keep insertion order. A float is a rational on which every operation rounds to binary64, with
  overflow to infinity and NaN; there is no signed zero, and \<^verbatim>\<open>sum\<close> adds from the left as CPython does before 3.12 (from 3.12 on its
  last bits can differ). The int 0 of an empty \<^verbatim>\<open>sum\<close> is the float 0. A dataclass is a record, its \<^verbatim>\<open>to_dict\<close> a function to \<^verbatim>\<open>pyval\<close>;
  an exception is a constructor with its message. Loops are structural recursions over lists; the two that are not (the worklist of
  the optimizer and the read loop of a socket) have measures, so no definition runs on fuel. What a file or a socket delivers is a
  parameter: the chunks of bytes, the numbered JSON objects of a stream with the exception that ends them.

  \<^bold>\<open>What is proved.\<close> Codecs: bijections between valid values and accepted bytes, and errors on cut streams. Session: the invariant,
  that the handler is reached only after the handshake and in sequence, that a request sent twice acts at most once, what a handshake
  grants, and that a closed session stays closed. Optimizer: a plan keeps or decides every operation once, and executing it does to the data what the whole manifest may do.
  Plans: conservation from stage to stage (no hop, command or frame is lost or doubled) and bounds (admitted hot-path time and
  prestaged time within budgets, while setup work is not metered; simulated frames never slower, blocking for at most nine cycles). Adapter and daemon: the invariant of the session, the existence
  of its result, the chain of the cycles, and that no native work passes the gate.

  \<^bold>\<open>Not modelled.\<close> \<^verbatim>\<open>cli.py\<close>, \<^verbatim>\<open>daemon_cli.py\<close>, \<^verbatim>\<open>runtime_cli_summary.py\<close>: argument parsing and printing. \<^verbatim>\<open>server.py\<close>, \<^verbatim>\<open>client.py\<close>:
  sockets, threads and TLS around the session. \<^verbatim>\<open>atomic_io.py\<close>: temporary files. \<^verbatim>\<open>doctor.py\<close>: checks of the installation. The probes of
  \<^verbatim>\<open>host.py\<close> read the operating system; their results are a record argument. \<^verbatim>\<open>presentmon_*.py\<close>: files written by an external
  program. \<^verbatim>\<open>application_session.py\<close>: a C library through ctypes. The older JSON protocol of \<^verbatim>\<open>fluidlink.py\<close> and the offline
  analyser of PresentMon traces (\<^verbatim>\<open>parser.py\<close>, \<^verbatim>\<open>stats.py\<close>, \<^verbatim>\<open>analyzer.py\<close>, \<^verbatim>\<open>heuristics.py\<close>, \<^verbatim>\<open>tracker.py\<close>, \<^verbatim>\<open>report.py\<close>,
  \<^verbatim>\<open>management.py\<close>) are separate tools beside this pipeline. The C++ core is not Python.
\<close>

end
